(* ===== verification/Prelude.thy ===== *)
theory Prelude
  imports Complex_Main
begin

text \<open>
  Shared vocabulary of the development: symbolic UUIDs, the errors the code raises, the
  error monad in which every fallible operation is written, Python string and list
  helpers, and the generic lemmas on tables (lists of rows with a primary key) that the
  component theories use.
\<close>

section \<open>Lemma collections\<close>

named_theorems row_simps \<open>reading back a table after an insert or an update\<close>
named_theorems frame_simps \<open>fields of the database an operation leaves alone\<close>

section \<open>Identifiers\<close>

text \<open>
  A UUID is either random (\<open>uuid4\<close>, drawn from a counter, so two draws differ) or derived
  from a name (\<open>uuid5\<close>).  The name is kept as the list of the parts that the f-string of
  the source concatenates, which idealises SHA-1: different names give different ids.
\<close>

datatype uuid = Uuid4 nat | Uuid5 "upart list"
  and upart = PLit string | PUuid uuid | PInt int

section \<open>Errors\<close>

text \<open>
  \<open>AppError\<close> carries code, category and the recoverable flag of the structured error; its
  localized message is not modelled.  The other constructors are Python exception classes;
  \<open>IntegrityError\<close> is what the database raises for a violated unique constraint.
\<close>

datatype error =
    AppError (err_code: string) (err_category: string) (err_recoverable: bool)
  | ValueError | TypeError | KeyError | AttributeError | OverflowError | RuntimeError
  | IntegrityError | AssertionError

type_synonym 'a res = "error + 'a"

definition rbind :: "'a res \<Rightarrow> ('a \<Rightarrow> 'b res) \<Rightarrow> 'b res" where
  "rbind m f = (case m of Inl e \<Rightarrow> Inl e | Inr x \<Rightarrow> f x)"

definition ensure :: "bool \<Rightarrow> error \<Rightarrow> unit res" where
  "ensure b e = (if b then Inr () else Inl e)"

fun is_ok :: "'a res \<Rightarrow> bool" where
  "is_ok (Inl _) = False"
| "is_ok (Inr _) = True"

lemma rbind_simps [simp]:
  "rbind (Inl e) f = Inl e"
  "rbind (Inr x) f = f x"
  by (simp_all add: rbind_def)

lemma rbind_Inr_iff: "rbind m f = Inr y \<longleftrightarrow> (\<exists>x. m = Inr x \<and> f x = Inr y)"
  by (cases m) auto

lemma rbind_InrE:
  assumes "rbind m f = Inr y"
  obtains x where "m = Inr x" "f x = Inr y"
  using assms by (auto simp: rbind_Inr_iff)

lemma ensure_simps [simp]:
  "ensure True e = Inr ()"
  "ensure False e = Inl e"
  "ensure b e = Inr u \<longleftrightarrow> b"
  by (auto simp: ensure_def)

lemma is_ok_iff: "is_ok m \<longleftrightarrow> (\<exists>x. m = Inr x)"
  by (cases m) auto

text \<open>\<open>mapR\<close> runs a fallible function over a list and stops at the first error.\<close>

fun mapR :: "('a \<Rightarrow> 'b res) \<Rightarrow> 'a list \<Rightarrow> 'b list res" where
  "mapR f [] = Inr []"
| "mapR f (x # xs) = rbind (f x) (\<lambda>y. rbind (mapR f xs) (\<lambda>ys. Inr (y # ys)))"

lemma mapR_Inr_length: "mapR f xs = Inr ys \<Longrightarrow> length ys = length xs"
  by (induction xs arbitrary: ys) (auto simp: rbind_Inr_iff)

text \<open>
  A validator is a list of checks made in order; the first one that fails raises.  Python's
  \<open>or\<close> between the conditions of one \<open>raise\<close> stops at the first that holds, which is the same.
\<close>

definition need :: "bool \<Rightarrow> unit res" where
  "need b = ensure b ValueError"

fun checks :: "unit res list \<Rightarrow> unit res" where
  "checks [] = Inr ()"
| "checks (m # ms) = (case m of Inl e \<Rightarrow> Inl e | Inr _ \<Rightarrow> checks ms)"

lemma need_simps [simp]:
  "need True = Inr ()" "need False = Inl ValueError" "need b = Inr u \<longleftrightarrow> b"
  by (auto simp: need_def)

lemma checks_ok: "checks ms = Inr u \<longleftrightarrow> (\<forall>m \<in> set ms. is_ok m)"
  by (induction ms) (auto simp: is_ok_iff split: sum.splits)

lemma is_ok_need [simp]: "is_ok (need b) = b"
  by (simp add: need_def ensure_def)

lemma checks_Cons [simp]: "checks (m # ms) = rbind m (\<lambda>_. checks ms)"
  by (simp add: rbind_def)

lemma rbind_need [simp]: "rbind (need b) f = (if b then f () else Inl ValueError)"
  by (simp add: need_def ensure_def)

declare checks.simps(2) [simp del]

text \<open>A loop that threads a state through fallible iterations.\<close>

fun foldR :: "('a \<Rightarrow> 's \<Rightarrow> 's res) \<Rightarrow> 'a list \<Rightarrow> 's \<Rightarrow> 's res" where
  "foldR f [] s = Inr s"
| "foldR f (x # xs) s = rbind (f x s) (foldR f xs)"

text \<open>Loop invariant rule.\<close>

lemma foldR_invariant:
  assumes "foldR f xs s = Inr s'" and "P s"
    and "\<And>x s s'. x \<in> set xs \<Longrightarrow> P s \<Longrightarrow> f x s = Inr s' \<Longrightarrow> P s'"
  shows "P s'"
  using assms by (induction xs arbitrary: s) (auto simp: rbind_Inr_iff)

text \<open>A fold of updates that leave a component alone leaves it alone.\<close>

lemma fold_frame: "(\<And>x db. f (g x db) = f db) \<Longrightarrow> f (fold g xs db) = f db"
  by (induction xs arbitrary: db) simp_all

section \<open>Python strings and lists\<close>

text \<open>
  A Python string is a list of characters; \<open>char\<close> covers the code points 0 to 255, so
  the model's strings are the Latin-1 ones and \<open>length\<close> counts code points as \<open>len\<close> does.
\<close>

definition py_space :: "char \<Rightarrow> bool" where
  "py_space c \<longleftrightarrow>
     (let n = (of_char c :: nat) in (9 \<le> n \<and> n \<le> 13) \<or> (28 \<le> n \<and> n \<le> 32) \<or> n = 133 \<or> n = 160)"

definition py_strip :: "string \<Rightarrow> string" where
  "py_strip s = rev (dropWhile py_space (rev (dropWhile py_space s)))"

lemma py_strip_Nil [simp]: "py_strip [] = []"
  by (simp add: py_strip_def)

lemma length_py_strip: "length (py_strip s) \<le> length s"
  using length_dropWhile_le [of py_space "rev (dropWhile py_space s)"] length_dropWhile_le [of py_space s]
  by (simp add: py_strip_def)

lemma dropWhile_rev_prefix:
  assumes "dropWhile P t = t"
  shows "dropWhile P (rev (dropWhile P (rev t))) = rev (dropWhile P (rev t))"
proof -
  obtain v where t: "t = rev (dropWhile P (rev t)) @ v"
    by (metis rev_append rev_rev_ident takeWhile_dropWhile_id)
  show ?thesis
  proof (cases "rev (dropWhile P (rev t))")
    case Nil
    show ?thesis unfolding Nil by simp
  next
    case (Cons x xs)
    have "t = x # xs @ v" using t Cons by simp
    moreover have "t = [] \<or> \<not> P (hd t)" using assms by (simp only: dropWhile_eq_self_iff)
    ultimately have "\<not> P x" by auto
    then show ?thesis using Cons by simp
  qed
qed

lemma py_strip_idem [simp]: "py_strip (py_strip s) = py_strip s"
  by (simp add: py_strip_def dropWhile_rev_prefix dropWhile_idem)

text \<open>\<open>str.lower\<close> on Latin-1: the letters A to Z and 192 to 222, the sign 215 apart, move up by 32.\<close>

definition lower_char :: "char \<Rightarrow> char" where
  "lower_char c =
     (let n = (of_char c :: nat) in
      if 65 \<le> n \<and> n \<le> 90 \<or> 192 \<le> n \<and> n \<le> 222 \<and> n \<noteq> 215 then char_of (n + 32) else c)"

definition py_lower :: "string \<Rightarrow> string" where
  "py_lower s = map lower_char s"

text \<open>\<open>s.startswith(p)\<close>, \<open>s.endswith(p)\<close> and \<open>sub in s\<close>.\<close>

definition starts_with :: "string \<Rightarrow> string \<Rightarrow> bool" where
  "starts_with p s \<longleftrightarrow> take (length p) s = p"

definition ends_with :: "string \<Rightarrow> string \<Rightarrow> bool" where
  "ends_with p s \<longleftrightarrow> length p \<le> length s \<and> drop (length s - length p) s = p"

fun contains :: "string \<Rightarrow> string \<Rightarrow> bool" where
  "contains sub [] \<longleftrightarrow> sub = []"
| "contains sub (c # s) \<longleftrightarrow> starts_with sub (c # s) \<or> contains sub s"

lemma contains_iff: "contains sub s \<longleftrightarrow> (\<exists>l r. s = l @ sub @ r)"
proof (induction s)
  case (Cons c s)
  have "starts_with sub (c # s) \<longleftrightarrow> (\<exists>r. c # s = sub @ r)"
    by (metis append_eq_conv_conj append_take_drop_id starts_with_def)
  moreover have "(\<exists>l r. c # s = l @ sub @ r) \<longleftrightarrow> (\<exists>r. c # s = sub @ r) \<or> (\<exists>l r. s = l @ sub @ r)"
    by (auto simp: Cons_eq_append_conv)
  ultimately show ?case using Cons by simp
qed simp

text \<open>\<open>xs[-n:]\<close>\<close>

definition last_n :: "nat \<Rightarrow> 'a list \<Rightarrow> 'a list" where
  "last_n n xs = drop (length xs - n) xs"

lemma length_last_n [simp]: "length (last_n n xs) = min n (length xs)"
  by (simp add: last_n_def)

text \<open>\<open>list(dict.fromkeys(xs))\<close> keeps the first occurrence of every element.\<close>

fun dedup_from :: "'a list \<Rightarrow> 'a list \<Rightarrow> 'a list" where
  "dedup_from seen [] = []"
| "dedup_from seen (x # xs) =
     (if x \<in> set seen then dedup_from seen xs else x # dedup_from (x # seen) xs)"

definition dedup :: "'a list \<Rightarrow> 'a list" where
  "dedup xs = dedup_from [] xs"

lemma set_dedup_from: "set (dedup_from seen xs) = set xs - set seen"
  by (induction seen xs rule: dedup_from.induct) auto

lemma distinct_dedup_from: "distinct (dedup_from seen xs)"
  by (induction seen xs rule: dedup_from.induct) (auto simp: set_dedup_from)

lemma set_dedup [simp]: "set (dedup xs) = set xs"
  by (simp add: dedup_def set_dedup_from)

lemma distinct_dedup [simp]: "distinct (dedup xs)"
  by (simp add: dedup_def distinct_dedup_from)

lemma dedup_Nil_iff [simp]: "dedup xs = [] \<longleftrightarrow> xs = []"
  using set_dedup [of xs] by (metis set_empty)

text \<open>\<open>s.split(c)\<close> and \<open>c.join(parts)\<close> for a one-character separator.\<close>

fun split_on :: "char \<Rightarrow> string \<Rightarrow> string list" where
  "split_on c [] = [[]]"
| "split_on c (x # xs) =
     (if x = c then [] # split_on c xs
      else (case split_on c xs of [] \<Rightarrow> [[x]] | p # ps \<Rightarrow> (x # p) # ps))"

fun join_with :: "string \<Rightarrow> string list \<Rightarrow> string" where
  "join_with sep [] = []"
| "join_with sep [p] = p"
| "join_with sep (p # q # ps) = p @ sep @ join_with sep (q # ps)"

lemma split_on_nonempty [simp]: "split_on c s \<noteq> []"
  by (induction c s rule: split_on.induct) (auto split: list.splits)

lemma join_split_on: "join_with [c] (split_on c s) = s"
proof (induction c s rule: split_on.induct)
  case (1 c)
  show ?case by simp
next
  case (2 c x xs)
  obtain p ps where sp: "split_on c xs = p # ps" by (cases "split_on c xs") auto
  with 2 show ?case by (cases ps) auto
qed

lemma split_on_free: "c \<notin> set p \<Longrightarrow> split_on c p = [p]"
  by (induction p) auto

lemma split_on_append: "c \<notin> set p \<Longrightarrow> split_on c (p @ c # s) = p # split_on c s"
  by (induction p) (auto split: list.splits)

lemma split_on_join: "ps \<noteq> [] \<Longrightarrow> \<forall>p \<in> set ps. c \<notin> set p \<Longrightarrow> split_on c (join_with [c] ps) = ps"
proof (induction ps)
  case (Cons p ps)
  then show ?case
    by (cases ps) (simp_all add: split_on_free split_on_append)
qed simp

section \<open>PurePosixPath\<close>

text \<open>
  A path string splits at slashes; empty and dot components vanish.  \<open>suffix\<close> is the part of
  the last component from its last dot, unless that dot is its first or its last character.
\<close>

definition path_parts :: "string \<Rightarrow> string list" where
  "path_parts s = filter (\<lambda>p. p \<noteq> [] \<and> p \<noteq> ''.'') (split_on CHR 0x2F s)"

definition path_absolute :: "string \<Rightarrow> bool" where
  "path_absolute s \<longleftrightarrow> s \<noteq> [] \<and> hd s = CHR 0x2F"

definition path_name :: "string \<Rightarrow> string" where
  "path_name s = (case path_parts s of [] \<Rightarrow> [] | ps \<Rightarrow> last ps)"

definition name_suffix :: "string \<Rightarrow> string" where
  "name_suffix nm =
     (let ext = rev (takeWhile (\<lambda>c. c \<noteq> CHR 0x2E) (rev nm)) in
      if CHR 0x2E \<in> set nm \<and> ext \<noteq> [] \<and> length ext + 1 < length nm then CHR 0x2E # ext else [])"

definition path_suffix :: "string \<Rightarrow> string" where
  "path_suffix s = name_suffix (path_name s)"

text \<open>\<open>s.split()\<close>\<close>

fun words_from :: "string \<Rightarrow> string \<Rightarrow> string list" where
  "words_from w [] = (if w = [] then [] else [rev w])"
| "words_from w (c # s) =
     (if py_space c then (if w = [] then [] else [rev w]) @ words_from [] s else words_from (c # w) s)"

section \<open>Tables: rows with a primary key\<close>

text \<open>
  A database table is the list of its rows in insertion order.  \<open>row_get\<close> is
  \<open>SELECT ... WHERE pk = k\<close>; \<open>row_update\<close> is \<open>UPDATE ... WHERE p\<close>.
\<close>

definition row_get :: "('r \<Rightarrow> 'k) \<Rightarrow> 'k \<Rightarrow> 'r list \<Rightarrow> 'r option" where
  "row_get key k rows = find (\<lambda>r. key r = k) rows"

definition row_update :: "('r \<Rightarrow> bool) \<Rightarrow> ('r \<Rightarrow> 'r) \<Rightarrow> 'r list \<Rightarrow> 'r list" where
  "row_update p f rows = map (\<lambda>r. if p r then f r else r) rows"

lemma row_get_Nil [simp]: "row_get key k [] = None"
  by (simp add: row_get_def)

lemma row_get_Cons [simp]:
  "row_get key k (r # rs) = (if key r = k then Some r else row_get key k rs)"
  by (simp add: row_get_def)

lemma row_get_key [dest]: "row_get key k rows = Some r \<Longrightarrow> key r = k"
  by (induction rows) (auto split: if_splits)

lemma row_get_mem: "row_get key k rows = Some r \<Longrightarrow> r \<in> set rows"
  by (induction rows) (auto split: if_splits)

lemma row_get_None_iff: "row_get key k rows = None \<longleftrightarrow> k \<notin> key ` set rows"
  by (induction rows) auto

lemma row_get_append [row_simps]:
  "row_get key k (xs @ ys) =
     (case row_get key k xs of None \<Rightarrow> row_get key k ys | Some r \<Rightarrow> Some r)"
  by (induction xs) auto

lemma row_get_unique:
  "distinct (map key rows) \<Longrightarrow> r \<in> set rows \<Longrightarrow> row_get key (key r) rows = Some r"
  by (induction rows) auto

lemma row_get_update:
  assumes "\<And>r. key (f r) = key r"
  shows "row_get key k (row_update p f rows) =
    map_option (\<lambda>r. if p r then f r else r) (row_get key k rows)"
  using assms by (induction rows) (auto simp: row_update_def)

lemma row_update_keys [row_simps]:
  "(\<And>r. key (f r) = key r) \<Longrightarrow> map key (row_update p f rows) = map key rows"
  by (auto simp: row_update_def)

lemma row_update_Nil [simp]: "row_update p f [] = []"
  by (simp add: row_update_def)

lemma row_update_Cons [simp]:
  "row_update p f (r # rs) = (if p r then f r else r) # row_update p f rs"
  by (simp add: row_update_def)

lemma length_row_update [simp]: "length (row_update p f rows) = length rows"
  by (simp add: row_update_def)

lemma set_row_update:
  "r \<in> set (row_update p f rows) \<longleftrightarrow> (\<exists>x \<in> set rows. r = (if p x then f x else x))"
  by (auto simp: row_update_def)

lemma row_update_none: "(\<And>r. r \<in> set rows \<Longrightarrow> \<not> p r) \<Longrightarrow> row_update p f rows = rows"
  by (induction rows) auto

end
