(* ===== verification/PyJson.thy ===== *)
theory PyJson
  imports Prelude
begin

text \<open>
  Python values that travel as JSON (checkpoints, payloads, tool arguments) and the Python
  operations the code applies to them: \<open>dict.get\<close>, \<open>isinstance\<close>, truthiness, membership in a
  set of strings, \<open>len\<close>.  A string is one of three constructors: \<open>JId u\<close> is the canonical
  text of a UUID, \<open>JTime t\<close> is an ISO-8601 text with a time zone denoting the instant \<open>t\<close>
  (microseconds), \<open>JStr s\<close> is any other text.  A \<open>dict\<close> is an association list whose keys
  are distinct; insertion order is kept.
\<close>

section \<open>Values\<close>

datatype json =
    JNull
  | JBool bool
  | JInt int
  | JFloat rat
  | JStr string
  | JId uuid
  | JTime int
  | JList "json list"
  | JObj "(string \<times> json) list"

type_synonym dict = "(string \<times> json) list"

section \<open>Type tests\<close>

text \<open>\<open>isinstance(x, int)\<close> holds of booleans too: \<open>bool\<close> is a subclass of \<open>int\<close>.\<close>

fun is_str :: "json \<Rightarrow> bool" where
  "is_str (JStr _) = True" | "is_str (JId _) = True" | "is_str (JTime _) = True"
| "is_str _ = False"

fun is_bool :: "json \<Rightarrow> bool" where
  "is_bool (JBool _) = True" | "is_bool _ = False"

fun is_int :: "json \<Rightarrow> bool" where
  "is_int (JInt _) = True" | "is_int (JBool _) = True" | "is_int _ = False"

fun is_number :: "json \<Rightarrow> bool" where
  "is_number (JInt _) = True" | "is_number (JBool _) = True" | "is_number (JFloat _) = True"
| "is_number _ = False"

fun is_dict :: "json \<Rightarrow> bool" where
  "is_dict (JObj _) = True" | "is_dict _ = False"

fun is_list :: "json \<Rightarrow> bool" where
  "is_list (JList _) = True" | "is_list _ = False"

fun is_null :: "json \<Rightarrow> bool" where
  "is_null JNull = True" | "is_null _ = False"

fun hashable :: "json \<Rightarrow> bool" where
  "hashable (JList _) = False" | "hashable (JObj _) = False" | "hashable _ = True"

section \<open>Reading values\<close>

fun truthy :: "json \<Rightarrow> bool" where
  "truthy JNull = False"
| "truthy (JBool b) = b"
| "truthy (JInt n) = (n \<noteq> 0)"
| "truthy (JFloat r) = (r \<noteq> 0)"
| "truthy (JStr s) = (s \<noteq> [])"
| "truthy (JId _) = True"
| "truthy (JTime _) = True"
| "truthy (JList xs) = (xs \<noteq> [])"
| "truthy (JObj d) = (d \<noteq> [])"

text \<open>The integer a value counts as in a comparison (\<open>True == 1\<close>).\<close>

fun int_of :: "json \<Rightarrow> int" where
  "int_of (JInt n) = n"
| "int_of (JBool b) = (if b then 1 else 0)"
| "int_of _ = 0"

text \<open>\<open>value == n\<close> for an integer literal \<open>n\<close>.\<close>

fun eq_int :: "json \<Rightarrow> int \<Rightarrow> bool" where
  "eq_int (JInt m) n = (m = n)"
| "eq_int (JBool b) n = ((if b then 1 else 0) = n)"
| "eq_int (JFloat r) n = (r = of_int n)"
| "eq_int _ n = False"

text \<open>\<open>len(s)\<close> of a string; \<open>isoformat\<close> leaves the fraction out when it is zero.\<close>

fun str_len :: "json \<Rightarrow> nat" where
  "str_len (JStr s) = length s"
| "str_len (JId _) = 36"
| "str_len (JTime t) = (if t mod 1000000 = 0 then 25 else 32)"
| "str_len _ = 0"

fun items_of :: "json \<Rightarrow> json list" where
  "items_of (JList xs) = xs" | "items_of _ = []"

fun entries_of :: "json \<Rightarrow> dict" where
  "entries_of (JObj d) = d" | "entries_of _ = []"

definition keys :: "dict \<Rightarrow> string list" where
  "keys d = map fst d"

definition has_keys :: "dict \<Rightarrow> string list \<Rightarrow> bool" where
  "has_keys d ks \<longleftrightarrow> set (keys d) = set ks"

text \<open>\<open>d.get(k, default)\<close>\<close>

definition dget :: "dict \<Rightarrow> string \<Rightarrow> json \<Rightarrow> json" where
  "dget d k dflt = (case map_of d k of None \<Rightarrow> dflt | Some v \<Rightarrow> v)"

text \<open>\<open>d[k]\<close>\<close>

definition ditem :: "dict \<Rightarrow> string \<Rightarrow> json res" where
  "ditem d k = (case map_of d k of None \<Rightarrow> Inl KeyError | Some v \<Rightarrow> Inr v)"

text \<open>\<open>value.get(k)\<close> on an arbitrary value: only a \<open>dict\<close> has the method.\<close>

fun get_attr :: "json \<Rightarrow> string \<Rightarrow> json res" where
  "get_attr (JObj d) k = Inr (dget d k JNull)"
| "get_attr _ k = Inl AttributeError"

text \<open>\<open>d[k] = v\<close> replaces in place or appends.\<close>

fun dset :: "string \<Rightarrow> json \<Rightarrow> dict \<Rightarrow> dict" where
  "dset k v [] = [(k, v)]"
| "dset k v ((k', v') # d) = (if k' = k then (k, v) # d else (k', v') # dset k v d)"

definition dupdate :: "dict \<Rightarrow> dict \<Rightarrow> dict" where
  "dupdate d new = fold (\<lambda>(k, v) acc. dset k v acc) new d"

text \<open>\<open>value in {...}\<close> for a set of strings: a list or a dict is unhashable.\<close>

definition in_strs :: "json \<Rightarrow> string list \<Rightarrow> bool res" where
  "in_strs j ss =
     (if hashable j then Inr (case j of JStr s \<Rightarrow> s \<in> set ss | _ \<Rightarrow> False) else Inl TypeError)"

text \<open>
  \<open>UUID(text)\<close>.  Texts that \<open>UUID\<close> parses although they are not canonical (upper case, braces,
  no hyphens) are outside the model: no such text is written by the code.
\<close>

fun to_uuid :: "json \<Rightarrow> uuid res" where
  "to_uuid (JId u) = Inr u"
| "to_uuid _ = Inl ValueError"

text \<open>\<open>float(value)\<close> of an integer too large for a double overflows.\<close>

definition float_max_int :: int where
  "float_max_int = 2 ^ 1024 - 2 ^ 970"

fun to_float :: "json \<Rightarrow> rat res" where
  "to_float (JFloat r) = Inr r"
| "to_float (JBool b) = Inr (if b then 1 else 0)"
| "to_float (JInt n) = (if \<bar>n\<bar> \<ge> float_max_int then Inl OverflowError else Inr (of_int n))"
| "to_float _ = Inl TypeError"

text \<open>\<open>value or {}\<close> and \<open>value or []\<close>\<close>

definition or_empty :: "json \<Rightarrow> json \<Rightarrow> json" where
  "or_empty dflt j = (if truthy j then j else dflt)"

text \<open>Iterating a value: the keys of a dict, the items of a list, the characters of a string.
  The characters of a UUID or timestamp text are not represented: such a text counts as not
  iterable here.\<close>

fun iterate :: "json \<Rightarrow> json list res" where
  "iterate (JObj d) = Inr (map (\<lambda>p. JStr (fst p)) d)"
| "iterate (JList xs) = Inr xs"
| "iterate (JStr s) = Inr (map (\<lambda>c. JStr [c]) s)"
| "iterate _ = Inl TypeError"

text \<open>
  \<open>f(**dict(value))\<close>: \<open>dict\<close> accepts a dict or an iterable of pairs, and keyword
  arguments must be named by strings.
\<close>

definition pair_of :: "json \<Rightarrow> (string \<times> json) res" where
  "pair_of j = rbind (iterate j) (\<lambda>xs.
     case xs of
       [k, v] \<Rightarrow> (case k of JStr s \<Rightarrow> Inr (s, v) | _ \<Rightarrow> Inl TypeError)
     | _ \<Rightarrow> Inl ValueError)"

fun keyword_dict :: "json \<Rightarrow> dict res" where
  "keyword_dict (JObj d) = Inr d"
| "keyword_dict j = rbind (iterate j) (\<lambda>xs. rbind (mapR pair_of xs) (\<lambda>ps. Inr (dupdate [] ps)))"

text \<open>\<open>s.strip()\<close> of a string value\<close>

fun strip_str :: "json \<Rightarrow> json" where
  "strip_str (JStr s) = JStr (py_strip s)"
| "strip_str j = j"

text \<open>\<open>try: m except (TypeError, ValueError): raise ValueError\<close>\<close>

definition as_value_error :: "'a res \<Rightarrow> 'a res" where
  "as_value_error m = (case m of Inl TypeError \<Rightarrow> Inl ValueError | _ \<Rightarrow> m)"

lemma as_value_error_Inr [simp]:
  "as_value_error m = Inr x \<longleftrightarrow> m = Inr x"
  by (auto simp: as_value_error_def split: sum.splits error.splits)

lemma as_value_error_of_Inr [simp]: "as_value_error (Inr x) = Inr x"
  by simp

text \<open>\<open>value not in S\<close> as the condition of a \<open>raise ValueError\<close>: an unhashable value is a TypeError.\<close>

definition need_in :: "json \<Rightarrow> string list \<Rightarrow> unit res" where
  "need_in j ss = rbind (in_strs j ss) (\<lambda>b. need b)"

text \<open>
  \<open>str(value)\<close>: a string is itself, \<open>None\<close> and the booleans have fixed texts; the text of a
  number, list or dict is the interpreter's, a parameter \<open>repr\<close>.
\<close>

fun py_str :: "(json \<Rightarrow> string) \<Rightarrow> json \<Rightarrow> json" where
  "py_str repr JNull = JStr ''None''"
| "py_str repr (JBool b) = JStr (if b then ''True'' else ''False'')"
| "py_str repr (JStr s) = JStr s"
| "py_str repr (JId u) = JId u"
| "py_str repr (JTime t) = JTime t"
| "py_str repr j = JStr (repr j)"

section \<open>Lemmas\<close>

lemma keys_Nil [simp]: "keys [] = []"
  and keys_Cons [simp]: "keys (p # d) = fst p # keys d"
  by (simp_all add: keys_def)

lemma map_of_eq_None_keys: "map_of d k = None \<longleftrightarrow> k \<notin> set (keys d)"
  by (simp add: map_of_eq_None_iff keys_def)

lemma map_of_dset [row_simps]: "map_of (dset k v d) k' = (if k' = k then Some v else map_of d k')"
  by (induction k v d rule: dset.induct) auto

lemma keys_dset: "set (keys (dset k v d)) = insert k (set (keys d))"
  by (induction k v d rule: dset.induct) (auto simp: keys_def)

lemma distinct_keys_dset: "distinct (keys d) \<Longrightarrow> distinct (keys (dset k v d))"
  by (induction k v d rule: dset.induct) (auto simp: keys_dset)

lemma dget_dset [simp]: "dget (dset k v d) k' dflt = (if k' = k then v else dget d k' dflt)"
  by (simp add: dget_def map_of_dset)

lemma dget_Cons [simp]: "dget ((k, v) # d) k' dflt = (if k' = k then v else dget d k' dflt)"
  by (simp add: dget_def)

lemma dget_Nil [simp]: "dget [] k dflt = dflt"
  by (simp add: dget_def)

lemma dupdate_simps [simp]:
  "dupdate d [] = d"
  "dupdate d ((k, v) # new) = dupdate (dset k v d) new"
  by (simp_all add: dupdate_def)

lemma dget_dupdate_other: "k \<notin> set (keys new) \<Longrightarrow> dget (dupdate d new) k dflt = dget d k dflt"
  by (induction new arbitrary: d) (auto simp: split_def dupdate_def)

lemma is_dictE: "is_dict j \<Longrightarrow> (\<And>d. j = JObj d \<Longrightarrow> P) \<Longrightarrow> P"
  by (cases j) auto

lemma is_listE: "is_list j \<Longrightarrow> (\<And>xs. j = JList xs \<Longrightarrow> P) \<Longrightarrow> P"
  by (cases j) auto

lemma is_bool_int: "is_bool j \<Longrightarrow> is_int j"
  by (cases j) auto

lemma strict_int: "is_int j \<Longrightarrow> \<not> is_bool j \<Longrightarrow> j = JInt (int_of j)"
  by (cases j) auto

lemma in_strs_Inr: "in_strs j ss = Inr True \<longleftrightarrow> (\<exists>s \<in> set ss. j = JStr s)"
  by (cases j) (auto simp: in_strs_def)

lemma need_in_ok [simp]: "is_ok (need_in j ss) \<longleftrightarrow> (\<exists>s \<in> set ss. j = JStr s)"
  by (cases j) (auto simp: need_in_def in_strs_def)

lemma need_in_Inr: "need_in j ss = Inr u \<longleftrightarrow> (\<exists>s \<in> set ss. j = JStr s)"
  by (cases j) (auto simp: need_in_def in_strs_def split: if_splits)

end
