(* ===== verification/Calendar.thy ===== *)
theory Calendar
  imports Prelude
begin

text \<open>
  Instants, time zones and the next slot of a recurring task
  (\<open>_next_run\<close> of \<open>runtime/schedules/service.py\<close>).  An instant is a number of microseconds; a wall
  time is the number of microseconds a clock on the wall counts from midnight of 1970-01-01, with the
  \<open>fold\<close> flag of \<open>datetime\<close>, which is set in the second pass of an hour that the clock repeats.
  Dates outside the years 1 to 9999 are not modelled.
\<close>

section \<open>Time zones\<close>

text \<open>
  \<open>ZoneInfo\<close>: the offset before the first transition and the transitions, each an instant with the
  offset from there on.  The rule that continues a zone after the last recorded transition is the
  transitions it generates, written out.  \<open>segment key earlier trs x\<close> is the last transition whose
  key is at most \<open>x\<close> (the \<open>bisect_right\<close> of the library, its keys being in order), with the offsets
  before and after it.
\<close>

record time_zone =
  tz_before :: int
  tz_transitions :: "(int \<times> int) list"

type_synonym wall_time = "int \<times> bool"

fun segment :: "(int \<Rightarrow> int \<Rightarrow> int \<Rightarrow> int) \<Rightarrow> int \<Rightarrow> (int \<times> int) list \<Rightarrow> int \<Rightarrow> (int \<times> int \<times> int) option" where
  "segment key earlier [] x = None"
| "segment key earlier ((start, off) # trs) x =
     (case segment key off trs x of
        Some s \<Rightarrow> Some s
      | None \<Rightarrow> if key start earlier off \<le> x then Some (start, earlier, off) else None)"

text \<open>\<open>utc.astimezone(zone)\<close> and \<open>local.astimezone(timezone.utc)\<close>.  A wall time that the clock
  repeats is its first pass unless \<open>fold\<close> is set; one that the clock skips is read with the offset
  before the change.\<close>

definition to_local :: "time_zone \<Rightarrow> int \<Rightarrow> wall_time" where
  "to_local z t =
     (case segment (\<lambda>start _ _. start) (tz_before z) (tz_transitions z) t of
        None \<Rightarrow> (t + tz_before z, False)
      | Some (start, earlier, off) \<Rightarrow> (t + off, t - start < earlier - off))"

definition wall_key :: "bool \<Rightarrow> int \<Rightarrow> int \<Rightarrow> int \<Rightarrow> int" where
  "wall_key second start earlier off = start + (if second then min earlier off else max earlier off)"

definition to_utc :: "time_zone \<Rightarrow> wall_time \<Rightarrow> int" where
  "to_utc z w =
     fst w - (case segment (wall_key (snd w)) (tz_before z) (tz_transitions z) (fst w) of
        None \<Rightarrow> tz_before z
      | Some (_, _, off) \<Rightarrow> off)"

section \<open>The next slot\<close>

datatype recurrence = Daily | Weekly

definition second_us :: int where "second_us = 1000000"
definition day_us :: int where "day_us = 86400 * second_us"

text \<open>\<open>local.replace(hour=, minute=, second=0, microsecond=0)\<close>; \<open>weekday()\<close> counts from Monday.\<close>

definition time_of_day :: "int \<Rightarrow> int \<Rightarrow> int" where
  "time_of_day hour minute = (hour * 3600 + minute * 60) * second_us"

definition replace_time :: "int \<Rightarrow> int \<Rightarrow> int \<Rightarrow> int" where
  "replace_time wall hour minute = wall div day_us * day_us + time_of_day hour minute"

definition weekday_of :: "int \<Rightarrow> int" where
  "weekday_of wall = (wall div day_us + 3) mod 7"

text \<open>
  The comparison of two wall times of one zone looks at the clock only, and adding a
  \<open>timedelta\<close>, zero days included, clears \<open>fold\<close>.  A weekly rule without a weekday fails in \<open>int(None)\<close>.
\<close>

definition next_local :: "recurrence \<Rightarrow> int \<Rightarrow> int \<Rightarrow> int option \<Rightarrow> wall_time \<Rightarrow> wall_time res" where
  "next_local recurrence hour minute weekday local =
     (let candidate = replace_time (fst local) hour minute in
      case recurrence of
        Daily \<Rightarrow>
          Inr (if candidate \<le> fst local then (candidate + day_us, False) else (candidate, snd local))
      | Weekly \<Rightarrow>
          (case weekday of
             None \<Rightarrow> Inl TypeError
           | Some wd \<Rightarrow>
               let delta = (wd - weekday_of (fst local)) mod 7;
                   candidate = candidate + delta * day_us in
               Inr (if candidate \<le> fst local then candidate + 7 * day_us else candidate, False)))"

definition next_run :: "recurrence \<Rightarrow> time_zone \<Rightarrow> int \<Rightarrow> int \<Rightarrow> int option \<Rightarrow> int \<Rightarrow> int res" where
  "next_run recurrence zone hour minute weekday after =
     rbind (next_local recurrence hour minute weekday (to_local zone after)) (\<lambda>candidate.
     Inr (to_utc zone candidate))"

section \<open>Zones\<close>

lemma segment_None: "segment key earlier trs x = None \<Longrightarrow> (start, off) \<in> set trs \<Longrightarrow> \<exists>b. x < key start b off"
  by (induction trs arbitrary: earlier) (auto simp: not_le split: option.splits if_splits)

lemma segment_Some: "segment key earlier trs x = Some (start, b, off) \<Longrightarrow> (start, off) \<in> set trs \<and> key start b off \<le> x"
  by (induction trs arbitrary: earlier) (fastforce split: option.splits if_splits)+

lemma segment_mono: "segment key earlier trs x = Some s \<Longrightarrow> x \<le> y \<Longrightarrow> \<exists>s'. segment key earlier trs y = Some s'"
proof (induction trs arbitrary: earlier s)
  case (Cons tr trs)
  obtain start off where tr: "tr = (start, off)" by (cases tr)
  show ?case
  proof (cases "segment key off trs x")
    case None
    then have "key start earlier off \<le> y" using Cons.prems by (simp add: tr split: if_splits)
    then show ?thesis by (simp add: tr split: option.split)
  next
    case (Some s')
    from Cons.IH [OF this Cons.prems(2)] show ?thesis by (auto simp: tr)
  qed
qed simp

text \<open>In the first pass the transition in force by the clock on the wall is in force by the instant.\<close>

lemma segment_wall:
  assumes "segment (\<lambda>start _ _. start) earlier trs t = Some (start, b, off)" and "\<not> t - start < b - off"
  shows "\<exists>s. segment (wall_key False) earlier trs (t + off) = Some s"
  using assms(1)
proof (induction trs arbitrary: earlier)
  case (Cons tr trs)
  obtain start' off' where tr: "tr = (start', off')" by (cases tr)
  show ?case
  proof (cases "segment (\<lambda>start _ _. start) off' trs t")
    case None
    then have "(start, b, off) = (start', earlier, off')" using Cons.prems by (simp add: tr split: if_splits)
    moreover have "start' \<le> t" using None Cons.prems by (simp add: tr split: if_splits)
    ultimately have "wall_key False start' earlier off' \<le> t + off" using assms(2) by (auto simp: wall_key_def)
    then show ?thesis by (simp add: tr split: option.split)
  next
    case (Some s')
    with Cons.prems have "segment (\<lambda>start _ _. start) off' trs t = Some (start, b, off)" by (simp add: tr)
    from Cons.IH [OF this] show ?thesis by (auto simp: tr)
  qed
qed simp

text \<open>A later wall time, read as a first pass, is a later instant.\<close>

lemma later_wall_later:
  assumes "to_local z t = (w, False)" and "w < w'"
  shows "t < to_utc z (w', False)"
proof -
  let ?utc = "segment (\<lambda>start _ _. start)" and ?wall = "segment (wall_key False)"
  have main: "t < w' - (case ?wall earlier trs w' of None \<Rightarrow> earlier | Some (_, _, off) \<Rightarrow> off)"
    if "(case ?utc earlier trs t of None \<Rightarrow> w = t + earlier
        | Some (start, b, off) \<Rightarrow> w = t + off \<and> \<not> t - start < b - off)" for earlier trs
    using that
  proof (induction trs arbitrary: earlier)
    case (Cons tr trs)
    obtain start off where tr: "tr = (start, off)" by (cases tr)
    show ?case
    proof (cases "?utc off trs t")
      case (Some s)
      obtain start' b' off' where s: "s = (start', b', off')" by (cases s)
      have w: "w = t + off'" "\<not> t - start' < b' - off'" using Cons.prems Some s by (auto simp: tr)
      obtain s' where "?wall off trs w = Some s'" using segment_wall Some s w by metis
      then obtain s'' where s'': "?wall off trs w' = Some s''"
        using segment_mono [of "wall_key False" off trs w s' w'] assms(2) by auto
      have "t < w' - (case s'' of (_, _, off) \<Rightarrow> off)"
        using Cons.IH [of off] w Some s s'' by simp
      then show ?thesis using s'' by (cases s'') (simp add: tr)
    next
      case None
      have rest: "t < w' - o'" if "?wall off trs w' = Some (a', b', o')" for a' b' o'
        using segment_Some [OF that] segment_None [OF None, of a' o'] by (auto simp: wall_key_def)
      have key: "wall_key False start earlier off = start + max earlier off" by (simp add: wall_key_def)
      show ?thesis
      proof (cases "?wall off trs w'")
        case None
        then show ?thesis
          using Cons.prems assms(2) \<open>?utc off trs t = None\<close> by (auto simp: tr key split: if_splits)
      qed (use rest in \<open>auto simp: tr\<close>)
    qed
  qed (use assms(2) in auto)
  show ?thesis
    using main [of "tz_before z" "tz_transitions z"] assms(1)
    by (auto simp: to_local_def to_utc_def split: option.splits)
qed

text \<open>Away from repeated hours, wall times and instants determine each other.\<close>

lemma to_local_fold: "snd (to_local z t) = f \<Longrightarrow> to_local z t = (fst (to_local z t), f)"
  by (cases "to_local z t") simp

section \<open>Slots\<close>

text \<open>The wall times at which a rule fires.\<close>

definition fires :: "recurrence \<Rightarrow> int \<Rightarrow> int \<Rightarrow> int option \<Rightarrow> int \<Rightarrow> bool" where
  "fires recurrence hour minute weekday wall \<longleftrightarrow>
     wall mod day_us = time_of_day hour minute \<and>
     (recurrence = Weekly \<longrightarrow> weekday = Some (weekday_of wall))"

definition valid_time :: "int \<Rightarrow> int \<Rightarrow> bool" where
  "valid_time hour minute \<longleftrightarrow> 0 \<le> hour \<and> hour \<le> 23 \<and> 0 \<le> minute \<and> minute \<le> 59"

lemma time_of_day_bounds:
  assumes "valid_time hour minute"
  shows "0 \<le> time_of_day hour minute" "time_of_day hour minute < day_us"
  using assms by (auto simp: valid_time_def time_of_day_def day_us_def second_us_def)

lemma day_us_pos [simp]: "0 < day_us"
  by (simp add: day_us_def second_us_def)

lemma replace_time_parts:
  assumes "valid_time hour minute"
  shows "(replace_time wall hour minute + k * day_us) mod day_us = time_of_day hour minute"
    "(replace_time wall hour minute + k * day_us) div day_us = wall div day_us + k"
proof -
  have e: "replace_time wall hour minute + k * day_us = time_of_day hour minute + (wall div day_us + k) * day_us"
    by (simp add: replace_time_def algebra_simps)
  have "day_us \<noteq> 0" using day_us_pos by linarith
  then show "(replace_time wall hour minute + k * day_us) mod day_us = time_of_day hour minute"
    "(replace_time wall hour minute + k * day_us) div day_us = wall div day_us + k"
    unfolding e using time_of_day_bounds [OF assms] by simp_all
qed

text \<open>Two wall times with the same time of day differ by whole days.\<close>

lemma same_time_days:
  assumes "c mod day_us = d mod day_us"
  shows "c - d = (c div day_us - d div day_us) * day_us"
proof -
  have "c - c mod day_us = c div day_us * day_us" "d - d mod day_us = d div day_us * day_us"
    by (simp_all add: minus_mod_eq_div_mult)
  then show ?thesis using assms by (simp add: left_diff_distrib)
qed

lemma replace_time_near:
  assumes "valid_time hour minute"
  shows "wall - day_us < replace_time wall hour minute" "replace_time wall hour minute < wall + day_us"
  using time_of_day_bounds [OF assms] div_mult_mod_eq [of wall day_us]
    pos_mod_sign [of day_us wall] pos_mod_bound [of day_us wall] day_us_pos
  unfolding replace_time_def by linarith+

lemma weekday_shift:
  assumes "0 \<le> wd" "wd \<le> 6"
  shows "(d + (wd - (d + 3) mod 7) mod 7 + 3) mod 7 = (wd :: int)"
    "(d + ((wd - (d + 3) mod 7) mod 7 + 7) + 3) mod 7 = wd"
proof -
  have "(d + (wd - (d + 3) mod 7) mod 7 + 3) mod 7 = ((d + 3) + (wd - (d + 3) mod 7) mod 7) mod 7"
    by (simp only: ac_simps)
  also have "\<dots> = (wd + (d + 3) div 7 * 7) mod 7"
    unfolding mod_add_right_eq minus_mod_eq_div_mult [symmetric] by (simp add: algebra_simps)
  also have "\<dots> = wd mod 7" by simp
  finally show *: "(d + (wd - (d + 3) mod 7) mod 7 + 3) mod 7 = wd" using assms by simp
  have "(d + ((wd - (d + 3) mod 7) mod 7 + 7) + 3) mod 7 = ((d + (wd - (d + 3) mod 7) mod 7 + 3) + 7) mod 7"
    by (simp only: ac_simps)
  then show "(d + ((wd - (d + 3) mod 7) mod 7 + 7) + 3) mod 7 = wd" unfolding mod_add_self2 * .
qed

text \<open>
  The slot lies \<open>slot_days\<close> days after the day of the given wall time: the least number of days
  that gives a firing time after it.
\<close>

lemma next_local_slot:
  assumes "valid_time hour minute" and "next_local recurrence hour minute weekday local = Inr slot"
    and "case weekday of None \<Rightarrow> True | Some wd \<Rightarrow> 0 \<le> wd \<and> wd \<le> 6"
  obtains k where "fst slot = replace_time (fst local) hour minute + k * day_us" "fst local < fst slot"
    "fires recurrence hour minute weekday (fst slot)"
    "\<And>j. recurrence = Weekly \<longrightarrow> 7 dvd k - j \<Longrightarrow> j < k \<Longrightarrow>
       replace_time (fst local) hour minute + j * day_us \<le> fst local"
proof -
  let ?c = "replace_time (fst local) hour minute" and ?d = "fst local div day_us"
  note parts = replace_time_parts [OF assms(1), of "fst local"] and near = replace_time_near [OF assms(1), of "fst local"]
  have mono: "?c + j * day_us \<le> ?c + l * day_us" if "j \<le> l" for j l
    using that by (simp add: mult_right_mono)
  show thesis
  proof (cases recurrence)
    case Daily
    define k :: int where "k = (if ?c \<le> fst local then 1 else 0)"
    show thesis
    proof (rule that [of k])
      show "fst slot = ?c + k * day_us" using assms(2) Daily by (auto simp: next_local_def Let_def k_def)
      then show "fires recurrence hour minute weekday (fst slot)" using parts(1) [of k] Daily by (simp add: fires_def)
      show "fst local < fst slot" using assms(2) near Daily by (auto simp: next_local_def Let_def split: if_splits)
      fix j assume "j < k"
      then show "?c + j * day_us \<le> fst local"
        using mono [of j 0] mono [of j "-1"] near by (auto simp: k_def split: if_splits)
    qed
  next
    case Weekly
    then obtain wd where wd: "weekday = Some wd" using assms(2) by (cases weekday) (auto simp: next_local_def Let_def)
    let ?delta = "(wd - weekday_of (fst local)) mod 7"
    define k where "k = (if ?c + ?delta * day_us \<le> fst local then ?delta + 7 else ?delta)"
    have delta: "0 \<le> ?delta" "?delta < 7" by simp_all
    have fst_slot: "fst slot = ?c + k * day_us"
      using assms(2) Weekly wd by (auto simp: next_local_def Let_def k_def algebra_simps)
    show thesis
    proof (rule that [of k])
      show "fst slot = ?c + k * day_us" by (rule fst_slot)
      have "(?d + k + 3) mod 7 = wd"
        using assms(3) wd weekday_shift [of wd ?d] by (simp add: k_def weekday_of_def)
      then show "fires recurrence hour minute weekday (fst slot)"
        unfolding fst_slot using parts [of k] wd by (simp add: fires_def weekday_of_def add.assoc)
      show "fst local < fst slot"
      proof (cases "?c + ?delta * day_us \<le> fst local")
        case True
        have "?c + 1 * day_us \<le> ?c + (?delta + 7) * day_us" by (rule mono) (use delta in linarith)
        with near show ?thesis unfolding fst_slot k_def if_P [OF True] by linarith
      qed (use fst_slot in \<open>simp add: k_def\<close>)
      fix j assume j: "recurrence = Weekly \<longrightarrow> 7 dvd k - j" "j < k"
      then have "7 \<le> k - j" using Weekly by (auto simp: dvd_def)
      show "?c + j * day_us \<le> fst local"
      proof (cases "?c + ?delta * day_us \<le> fst local")
        case True
        have "?c + j * day_us \<le> ?c + ?delta * day_us"
          by (rule mono) (use \<open>7 \<le> k - j\<close> True in \<open>simp add: k_def\<close>)
        with True show ?thesis by linarith
      next
        case False
        have "?c + j * day_us \<le> ?c + - 1 * day_us"
          by (rule mono) (use \<open>7 \<le> k - j\<close> False delta in \<open>simp add: k_def\<close>)
        with near show ?thesis by linarith
      qed
    qed
  qed
qed

text \<open>
  The wall time chosen for the next run is exactly the first one after the given wall time at
  which the rule fires: at the hour and minute of the rule, on its weekday for a weekly one.
\<close>

theorem next_local_first:
  assumes "valid_time hour minute" and "next_local recurrence hour minute weekday local = Inr slot"
    and "case weekday of None \<Rightarrow> True | Some wd \<Rightarrow> 0 \<le> wd \<and> wd \<le> 6"
  shows "fires recurrence hour minute weekday (fst slot) \<and> fst local < fst slot \<and>
    (\<forall>wall. fires recurrence hour minute weekday wall \<and> fst local < wall \<longrightarrow> fst slot \<le> wall)"
proof -
  let ?c = "replace_time (fst local) hour minute" and ?d = "fst local div day_us"
  note parts = replace_time_parts [OF assms(1), of "fst local"]
  obtain k where k: "fst slot = ?c + k * day_us" "fst local < fst slot" "fires recurrence hour minute weekday (fst slot)"
    and least: "\<And>j. recurrence = Weekly \<longrightarrow> 7 dvd k - j \<Longrightarrow> j < k \<Longrightarrow> ?c + j * day_us \<le> fst local"
    by (rule next_local_slot [OF assms]) (rule that)
  have "fst slot \<le> wall" if wall: "fires recurrence hour minute weekday wall" "fst local < wall" for wall
  proof (rule ccontr)
    assume early: "\<not> fst slot \<le> wall"
    define j where "j = wall div day_us - ?d"
    have w: "wall = ?c + j * day_us"
      using same_time_days [of wall ?c] wall(1) parts [of 0] by (simp add: fires_def j_def)
    have "j < k" using early unfolding w k(1) by (simp add: not_le mult_less_cancel_right)
    moreover have "7 dvd k - j" if "recurrence = Weekly"
      using wall(1) k(3) that parts(2) [of j] parts(2) [of k] unfolding w k(1) fires_def weekday_of_def
      by (auto simp: mod_eq_dvd_iff)
    ultimately show False using least [of j] wall(2) w by simp
  qed
  then show ?thesis using k by blast
qed

text \<open>
  C18. Unless the given instant lies in the second pass of a repeated hour, the next run is a later
  instant, in every time zone, across its changes of offset.
\<close>

theorem next_run_later:
  assumes "valid_time hour minute" and "next_run recurrence zone hour minute weekday now = Inr slot"
    and "case weekday of None \<Rightarrow> True | Some wd \<Rightarrow> 0 \<le> wd \<and> wd \<le> 6"
    and "\<not> snd (to_local zone now)"
  shows "now < slot"
proof -
  obtain c where c: "next_local recurrence hour minute weekday (to_local zone now) = Inr c" "slot = to_utc zone c"
    using assms(2) by (auto simp: next_run_def rbind_Inr_iff)
  have "fst (to_local zone now) < fst c" using next_local_first [OF assms(1) c(1) assms(3)] by simp
  moreover have "snd c = False"
    using c(1) assms(4) by (auto simp: next_local_def Let_def split: recurrence.splits option.splits if_splits)
  ultimately show ?thesis
    using later_wall_later [of zone now "fst (to_local zone now)" "fst c"] assms(4) c(2)
    by (metis prod.collapse)
qed

section \<open>Witnesses\<close>

text \<open>London around the end of summer time on Sunday 2024-10-27, when the clock repeats the hour from
  1:00 to 2:00; the instants are those of 0:30 UTC, in the first pass, and of 1:10 UTC, in the second.\<close>

definition london :: time_zone where
  "london = \<lparr>tz_before = 3600000000, tz_transitions = [(1729990800000000, 0)]\<rparr>"

lemma next_local_first_witness:
  "\<exists>slot. next_local Weekly 9 30 (Some 6) (to_local london 1729989000000000) = Inr slot \<and>
     fires Weekly 9 30 (Some 6) (fst slot)"
proof -
  have n: "next_local Weekly 9 30 (Some 6) (to_local london 1729989000000000) = Inr (1730021400000000, False)"
    by code_simp
  from next_local_first [OF _ n] n show ?thesis by (auto simp: valid_time_def)
qed

lemma next_run_later_witness:
  "\<exists>slot. next_run Daily london 1 20 None 1729989000000000 = Inr slot \<and> 1729989000000000 < slot"
proof -
  have n: "next_run Daily london 1 20 None 1729989000000000 = Inr 1730078400000000" by code_simp
  have "\<not> snd (to_local london 1729989000000000)" by code_simp
  from next_run_later [OF _ n _ this] n show ?thesis by (auto simp: valid_time_def)
qed

text \<open>
  In the second pass of a repeated hour a weekly rule can be given a slot of the first pass, which
  is past: adding no days to the candidate clears its \<open>fold\<close>.  The daily rule is right at this instant.
\<close>

theorem weekly_slot_in_the_past:
  "next_run Weekly london 1 20 (Some 6) 1729991400000000 = Inr 1729988400000000 \<and>
   next_run Daily london 1 20 None 1729991400000000 = Inr 1729992000000000"
  by code_simp

end
