(* ===== verification/Domain.thy ===== *)
theory Domain
  imports PyJson Calendar
begin

text \<open>
  The domain objects of \<open>shared/domain/models.py\<close> that the durable run lifecycle reads and
  writes: status enumerations as datatypes, dataclasses as records (each with a prefix of its
  own, since record fields are global), and the structured errors of
  \<open>shared/errors/application.py\<close>.  An instant is its number of microseconds.
\<close>

section \<open>Status enumerations\<close>

datatype task_status =
  TaskPending | TaskRunning | TaskWaitingForUser | TaskBlocked | TaskFailed | TaskCompleted
| TaskCancelled

datatype run_status =
  Queued | Running | WaitingPermission | PauseRequested | Paused | ResumeRequested
| CancelRequested | Cancelling | Completed | Failed | Cancelled

datatype step_type =
  UserMessage | SystemEvent | ModelCall | PlanCreated | ToolCallStep | McpCall | Observation
| PermissionRequestStep | Review | FinalOutput

datatype step_status =
  StepPending | StepRunning | StepWaitingForPermission | StepCompleted | StepFailed
| StepCancelled | StepSkipped

datatype permission_status = PermPending | PermApproved | PermDenied | PermExpired | PermConsumed

datatype outbox_status = ObPending | ObDispatching | ObDelivered | ObFailed | ObDead

datatype inbox_status = IbProcessing | IbProcessed | IbFailed

datatype workspace_status = WsActive | WsRevoked

datatype workspace_source = WsConfigured | WsUserPicker

datatype schedule_status = SchActive | SchPaused

datatype execution_status = ExPending | ExDispatching | ExDispatched | ExFailed

fun run_status_value :: "run_status \<Rightarrow> string" where
  "run_status_value Queued = ''queued''"
| "run_status_value Running = ''running''"
| "run_status_value WaitingPermission = ''waiting_permission''"
| "run_status_value PauseRequested = ''pause_requested''"
| "run_status_value Paused = ''paused''"
| "run_status_value ResumeRequested = ''resume_requested''"
| "run_status_value CancelRequested = ''cancel_requested''"
| "run_status_value Cancelling = ''cancelling''"
| "run_status_value Completed = ''completed''"
| "run_status_value Failed = ''failed''"
| "run_status_value Cancelled = ''cancelled''"

lemma run_status_value_inj: "run_status_value a = run_status_value b \<Longrightarrow> a = b"
  by (cases a; cases b) simp_all

section \<open>Records\<close>

record task =
  tk_id :: uuid
  tk_title :: string
  tk_user_goal :: string
  tk_conversation_id :: uuid
  tk_status :: task_status
  tk_priority :: int
  tk_workspace_path :: "string option"
  tk_workspace_id :: "uuid option"
  tk_active_run_id :: "uuid option"
  tk_last_step_summary :: "string option"
  tk_risk_level :: "string option"
  tk_created_at :: int
  tk_updated_at :: int
  tk_completed_at :: "int option"
  tk_cancelled_at :: "int option"
  tk_metadata :: dict
  tk_scheduled_execution_id :: "uuid option"

record agent_run =
  ar_id :: uuid
  ar_task_id :: uuid
  ar_agent_id :: string
  ar_mode :: string
  ar_status :: run_status
  ar_version :: int
  ar_worker_id :: "string option"
  ar_lease_until :: "int option"
  ar_current_step_id :: "uuid option"
  ar_final_output_artifact_id :: "uuid option"
  ar_max_steps :: int
  ar_step_count :: int
  ar_input_tokens :: int
  ar_output_tokens :: int
  ar_estimated_cost_usd :: "rat option"
  ar_created_at :: int
  ar_updated_at :: int
  ar_started_at :: "int option"
  ar_completed_at :: "int option"
  ar_failed_at :: "int option"
  ar_error :: "dict option"
  ar_checkpoint :: dict
  ar_metadata :: dict

text \<open>\<open>AgentRun.trace_id\<close>: absent, falsy or unparsable metadata give \<open>None\<close>.\<close>

definition trace_id :: "agent_run \<Rightarrow> uuid option" where
  "trace_id r =
     (let value = dget (ar_metadata r) ''trace_id'' JNull in
      if \<not> truthy value then None
      else case to_uuid value of Inl _ \<Rightarrow> None | Inr u \<Rightarrow> Some u)"

record execution_step =
  st_id :: uuid
  st_run_id :: uuid
  st_task_id :: uuid
  st_type :: step_type
  st_status :: step_status
  st_parent_step_id :: "uuid option"
  st_title :: string
  st_summary :: "string option"
  st_input_data :: json
  st_output_data :: json
  st_error :: "dict option"
  st_started_at :: "int option"
  st_completed_at :: "int option"
  st_duration_ms :: "int option"
  st_order_index :: int
  st_metadata :: dict

record runtime_event =
  ev_id :: uuid
  ev_event_id :: uuid
  ev_type :: string
  ev_payload :: dict
  ev_task_id :: "uuid option"
  ev_run_id :: "uuid option"
  ev_step_id :: "uuid option"
  ev_sequence :: int
  ev_created_at :: int

record tool_call =
  tc_id :: uuid
  tc_task_id :: uuid
  tc_run_id :: uuid
  tc_step_id :: uuid
  tc_provider :: string
  tc_tool_name :: string
  tc_risk_level :: string
  tc_arguments :: dict
  tc_mcp_server_id :: "string option"
  tc_arguments_summary :: "dict option"
  tc_result :: json
  tc_result_summary :: "string option"
  tc_permission_request_id :: "uuid option"
  tc_permission_status :: string
  tc_status :: string
  tc_error :: "dict option"
  tc_started_at :: "int option"
  tc_completed_at :: "int option"
  tc_duration_ms :: "int option"

record permission_request =
  pr_id :: uuid
  pr_task_id :: uuid
  pr_run_id :: uuid
  pr_tool_name :: string
  pr_action_summary :: string
  pr_risk_level :: string
  pr_scope :: dict
  pr_arguments_summary :: dict
  pr_allowed_decisions :: "string list"
  pr_checkpoint :: dict
  pr_step_id :: "uuid option"
  pr_tool_call_id :: "uuid option"
  pr_reason :: "string option"
  pr_status :: permission_status
  pr_decision :: "string option"
  pr_decided_at :: "int option"
  pr_note :: "string option"
  pr_created_at :: int
  pr_expires_at :: "int option"

record permission_grant =
  pg_id :: uuid
  pg_grant_type :: string
  pg_risk_level_max :: string
  pg_tool_name :: "string option"
  pg_workspace_path :: json
  pg_path :: json
  pg_created_from_request_id :: "uuid option"
  pg_created_at :: int

record audit_log =
  au_id :: uuid
  au_event_type :: string
  au_actor :: string
  au_action_summary :: string
  au_task_id :: "uuid option"
  au_run_id :: "uuid option"
  au_step_id :: "uuid option"
  au_tool_call_id :: "uuid option"
  au_risk_level :: "string option"
  au_permission_decision :: "string option"
  au_details :: dict
  au_result_summary :: "string option"
  au_error :: "dict option"
  au_created_at :: int

record outbox_event =
  ob_id :: uuid
  ob_event_id :: uuid
  ob_aggregate_type :: string
  ob_aggregate_id :: uuid
  ob_event_type :: string
  ob_schema_version :: string
  ob_payload :: dict
  ob_trace_id :: uuid
  ob_correlation_id :: "uuid option"
  ob_causation_id :: "uuid option"
  ob_status :: outbox_status
  ob_retry_count :: int
  ob_max_retries :: int
  ob_next_retry_at :: int
  ob_claimed_by :: "string option"
  ob_claimed_at :: "int option"
  ob_lease_until :: "int option"
  ob_error_code :: "string option"
  ob_error_message :: "string option"
  ob_created_at :: int
  ob_delivered_at :: "int option"

record inbox_event =
  ib_source :: string
  ib_source_event_id :: json
  ib_status :: inbox_status
  ib_processed_at :: "int option"

record workspace =
  ws_id :: uuid
  ws_name :: string
  ws_root_path :: string
  ws_canonical_path :: string
  ws_status :: workspace_status
  ws_source :: workspace_source
  ws_created_at :: int
  ws_updated_at :: int
  ws_revoked_at :: "int option"
  ws_metadata :: dict

record artifact =
  af_id :: uuid
  af_task_id :: uuid
  af_run_id :: uuid
  af_kind :: string
  af_title :: string
  af_purpose :: string
  af_producer_type :: string
  af_source_tool_call_id :: "uuid option"
  af_step_id :: "uuid option"
  af_content :: "json option"
  af_file_path :: "string option"
  af_file_size_bytes :: "int option"
  af_mime_type :: "string option"
  af_content_hash :: "string option"
  af_metadata :: dict
  af_created_at :: int

record message =
  mg_id :: uuid
  mg_conversation_id :: uuid
  mg_role :: string
  mg_content :: json
  mg_task_id :: "uuid option"
  mg_run_id :: "uuid option"
  mg_created_at :: int

record conversation =
  cv_id :: uuid
  cv_title :: "string option"
  cv_created_at :: int
  cv_updated_at :: int

record scheduled_task =
  sc_id :: uuid
  sc_name :: string
  sc_user_goal :: string
  sc_recurrence :: recurrence
  sc_timezone :: string
  sc_hour :: int
  sc_minute :: int
  sc_next_run_at :: int
  sc_weekday :: "int option"
  sc_workspace_id :: "uuid option"
  sc_status :: schedule_status
  sc_authorized_tools :: "string list"
  sc_task_kind :: string
  sc_source_policy :: dict
  sc_last_run_at :: "int option"
  sc_last_task_id :: "uuid option"
  sc_last_run_id :: "uuid option"
  sc_version :: int
  sc_created_at :: int
  sc_updated_at :: int

record scheduled_execution =
  sx_id :: uuid
  sx_schedule_id :: uuid
  sx_scheduled_for :: int
  sx_status :: execution_status
  sx_task_id :: "uuid option"
  sx_run_id :: "uuid option"
  sx_attempts :: int
  sx_lease_until :: "int option"
  sx_error_code :: "string option"
  sx_created_at :: int
  sx_updated_at :: int

datatype memory_job_status = MjQueued | MjRunning | MjCompleted | MjFailed

record memory_job =
  mj_id :: uuid
  mj_source_task_id :: uuid
  mj_source_run_id :: uuid
  mj_policy_version :: string
  mj_status :: memory_job_status
  mj_attempts :: int
  mj_next_retry_at :: "int option"
  mj_error_code :: "string option"
  mj_created_at :: int
  mj_updated_at :: int

text \<open>Long-term memory: a memory, and a candidate that waits for the user's decision.\<close>

datatype memory_scope = ScopeGlobal | ScopeWorkspace

datatype memory_category = CatPreference | CatUserFact | CatProjectFact | CatRule

datatype memory_status = MemActive | MemDisabled

datatype memory_source = UserExplicit | CandidateApproved

datatype candidate_status = CandPending | CandApproved | CandRejected | CandExpired

datatype sensitivity = SensNormal | SensSensitive

record memory =
  me_id :: uuid
  me_scope_type :: memory_scope
  me_category :: memory_category
  me_key :: string
  me_content :: string
  me_workspace_id :: "uuid option"
  me_status :: memory_status
  me_source_type :: memory_source
  me_source_task_id :: "uuid option"
  me_importance :: int
  me_version :: int
  me_created_at :: int
  me_updated_at :: int

record memory_candidate =
  mc_id :: uuid
  mc_scope_type :: memory_scope
  mc_category :: memory_category
  mc_suggested_key :: string
  mc_content :: string
  mc_source_task_id :: uuid
  mc_source_run_id :: uuid
  mc_confidence :: rat
  mc_importance :: int
  mc_deduplication_key :: string
  mc_policy_version :: string
  mc_workspace_id :: "uuid option"
  mc_source_message_ids :: "uuid list"
  mc_fingerprint :: string
  mc_sensitivity :: sensitivity
  mc_extractor_provider :: string
  mc_extractor_model :: string
  mc_status :: candidate_status
  mc_conflict_memory_id :: "uuid option"
  mc_approved_memory_id :: "uuid option"
  mc_expires_at :: "int option"
  mc_resolved_at :: "int option"
  mc_resolution_note :: string
  mc_version :: int
  mc_created_at :: int
  mc_updated_at :: int

section \<open>New objects with the dataclass defaults\<close>

definition new_agent_run :: "uuid \<Rightarrow> uuid \<Rightarrow> int \<Rightarrow> dict \<Rightarrow> dict \<Rightarrow> agent_run" where
  "new_agent_run rid tid now checkpoint metadata =
     \<lparr>ar_id = rid, ar_task_id = tid, ar_agent_id = ''default'', ar_mode = ''single_agent'',
      ar_status = Queued, ar_version = 1, ar_worker_id = None, ar_lease_until = None,
      ar_current_step_id = None, ar_final_output_artifact_id = None, ar_max_steps = 20,
      ar_step_count = 0, ar_input_tokens = 0, ar_output_tokens = 0, ar_estimated_cost_usd = None,
      ar_created_at = now, ar_updated_at = now, ar_started_at = None, ar_completed_at = None,
      ar_failed_at = None, ar_error = None, ar_checkpoint = checkpoint, ar_metadata = metadata\<rparr>"

definition new_runtime_event :: "uuid \<Rightarrow> uuid \<Rightarrow> uuid \<Rightarrow> uuid \<Rightarrow> string \<Rightarrow> int \<Rightarrow> dict \<Rightarrow> int \<Rightarrow> runtime_event" where
  "new_runtime_event pk eid tid rid ty seq payload now =
     \<lparr>ev_id = pk, ev_event_id = eid, ev_type = ty, ev_payload = payload, ev_task_id = Some tid,
      ev_run_id = Some rid, ev_step_id = None, ev_sequence = seq, ev_created_at = now\<rparr>"

text \<open>An outbox row about a run; its primary key is drawn when it is written.\<close>

definition new_outbox_event ::
  "uuid \<Rightarrow> uuid \<Rightarrow> string \<Rightarrow> dict \<Rightarrow> uuid \<Rightarrow> uuid option \<Rightarrow> uuid option \<Rightarrow> int \<Rightarrow> int \<Rightarrow> uuid \<Rightarrow> outbox_event" where
  "new_outbox_event eid run ty payload trace correlation causation now retry_at pk =
     \<lparr>ob_id = pk, ob_event_id = eid, ob_aggregate_type = ''AgentRun'', ob_aggregate_id = run,
      ob_event_type = ty, ob_schema_version = ''2B-1a.1'', ob_payload = payload, ob_trace_id = trace,
      ob_correlation_id = correlation, ob_causation_id = causation, ob_status = ObPending,
      ob_retry_count = 0, ob_max_retries = 20, ob_next_retry_at = retry_at, ob_claimed_by = None,
      ob_claimed_at = None, ob_lease_until = None, ob_error_code = None, ob_error_message = None,
      ob_created_at = now, ob_delivered_at = None\<rparr>"

definition new_audit :: "string \<Rightarrow> string \<Rightarrow> uuid \<Rightarrow> uuid \<Rightarrow> dict \<Rightarrow> int \<Rightarrow> uuid \<Rightarrow> audit_log" where
  "new_audit ty actor tid rid details now pk =
     \<lparr>au_id = pk, au_event_type = ty, au_actor = actor, au_action_summary = [], au_task_id = Some tid,
      au_run_id = Some rid, au_step_id = None, au_tool_call_id = None, au_risk_level = None,
      au_permission_decision = None, au_details = details, au_result_summary = None, au_error = None,
      au_created_at = now\<rparr>"

section \<open>Structured errors\<close>

definition not_found :: error where
  "not_found = AppError ''NOT_FOUND'' ''not_found'' False"

definition validation_error :: error where
  "validation_error = AppError ''VALIDATION_ERROR'' ''validation'' False"

definition invalid_state_transition :: error where
  "invalid_state_transition = AppError ''INVALID_STATE_TRANSITION'' ''validation'' False"

definition run_version_conflict :: error where
  "run_version_conflict = AppError ''RUN_VERSION_CONFLICT'' ''runtime'' True"

definition run_already_terminal :: error where
  "run_already_terminal = AppError ''RUN_ALREADY_TERMINAL'' ''validation'' False"

definition permission_conflict :: error where
  "permission_conflict = AppError ''PERMISSION_CONFLICT'' ''permission'' False"

definition permission_not_pending :: error where
  "permission_not_pending = AppError ''PERMISSION_NOT_PENDING'' ''permission'' False"

lemmas error_defs = not_found_def validation_error_def invalid_state_transition_def
  run_version_conflict_def run_already_terminal_def permission_conflict_def
  permission_not_pending_def

end
