(* ===== verification/Store.thy ===== *)
theory Store
  imports Domain
begin

text \<open>
  The PostgreSQL store as the repositories see it: one record of tables, each the list of its rows,
  with the queries and updates of \<open>runtime/*/postgres_repository.py\<close>, \<open>event_repository.py\<close>,
  \<open>database/outbox/*\<close> and the unit of work.  A transaction is a function on the store that either
  fails, and leaves the store as it was, or returns the new store.  Row locks order transactions;
  the model runs them one after another.  Foreign keys are not checked.
\<close>

section \<open>Database\<close>

record db =
  db_next :: nat
  db_tasks :: "task list"
  db_runs :: "agent_run list"
  db_steps :: "execution_step list"
  db_events :: "runtime_event list"
  db_tool_calls :: "tool_call list"
  db_permissions :: "permission_request list"
  db_grants :: "permission_grant list"
  db_audits :: "audit_log list"
  db_outbox :: "outbox_event list"
  db_inbox :: "inbox_event list"
  db_workspaces :: "workspace list"
  db_artifacts :: "artifact list"
  db_messages :: "message list"
  db_memory_jobs :: "memory_job list"
  db_conversations :: "conversation list"
  db_schedules :: "scheduled_task list"
  db_executions :: "scheduled_execution list"
  db_memories :: "memory list"
  db_candidates :: "memory_candidate list"

definition empty_db :: db where
  "empty_db = \<lparr>db_next = 0, db_tasks = [], db_runs = [], db_steps = [], db_events = [], db_tool_calls = [],
     db_permissions = [], db_grants = [], db_audits = [], db_outbox = [], db_inbox = [], db_workspaces = [],
     db_artifacts = [], db_messages = [], db_memory_jobs = [],
     db_conversations = [], db_schedules = [], db_executions = [],
     db_memories = [], db_candidates = []\<rparr>"

type_synonym 'a tx = "db \<Rightarrow> ('a \<times> db) res"

text \<open>\<open>new_id()\<close>: the identifier and the store in which it is used up.\<close>

definition fresh :: "db \<Rightarrow> uuid" where "fresh db = Uuid4 (db_next db)"
definition bump :: "db \<Rightarrow> db" where "bump db = db\<lparr>db_next := Suc (db_next db)\<rparr>"

text \<open>The clock: \<open>clk i\<close> is the i-th reading an operation takes.\<close>

type_synonym clock = "nat \<Rightarrow> int"

text \<open>\<open>async with uow.transaction()\<close>: an exception rolls back.\<close>

definition transact :: "'a tx \<Rightarrow> db \<Rightarrow> 'a res \<times> db" where
  "transact m db = (case m db of Inl e \<Rightarrow> (Inl e, db) | Inr (x, db') \<Rightarrow> (Inr x, db'))"

section \<open>Runs\<close>

definition run_get :: "uuid \<Rightarrow> db \<Rightarrow> agent_run option" where
  "run_get rid db = row_get ar_id rid (db_runs db)"

definition run_create :: "agent_run \<Rightarrow> db \<Rightarrow> db res" where
  "run_create r db =
     (if ar_id r \<in> ar_id ` set (db_runs db) then Inl IntegrityError
      else Inr (db\<lparr>db_runs := db_runs db @ [r]\<rparr>))"

definition run_put :: "agent_run \<Rightarrow> db \<Rightarrow> db" where
  "run_put r db = db\<lparr>db_runs := row_update (\<lambda>x. ar_id x = ar_id r) (\<lambda>_. r) (db_runs db)\<rparr>"

definition run_list_by_task :: "uuid \<Rightarrow> db \<Rightarrow> agent_run list" where
  "run_list_by_task tid db = rev (sort_key ar_created_at (filter (\<lambda>r. ar_task_id r = tid) (db_runs db)))"

definition run_list_recent :: "int \<Rightarrow> db \<Rightarrow> agent_run list" where
  "run_list_recent limit db = take (nat limit) (rev (sort_key ar_updated_at (db_runs db)))"

text \<open>The extra columns \<open>update_with_lock\<close> is called with.\<close>

datatype run_field =
    SetWorkerId "string option" | SetLeaseUntil "int option" | SetStartedAt int | SetCompletedAt int
  | SetFailedAt int | SetError "dict option" | SetCheckpoint dict | SetMetadata dict
  | SetCurrentStep "uuid option" | SetFinalOutput "uuid option"
  | SetStepCount int

fun apply_field :: "run_field \<Rightarrow> agent_run \<Rightarrow> agent_run" where
  "apply_field (SetWorkerId v) r = r\<lparr>ar_worker_id := v\<rparr>"
| "apply_field (SetLeaseUntil v) r = r\<lparr>ar_lease_until := v\<rparr>"
| "apply_field (SetStartedAt v) r = r\<lparr>ar_started_at := Some v\<rparr>"
| "apply_field (SetCompletedAt v) r = r\<lparr>ar_completed_at := Some v\<rparr>"
| "apply_field (SetFailedAt v) r = r\<lparr>ar_failed_at := Some v\<rparr>"
| "apply_field (SetError v) r = r\<lparr>ar_error := v\<rparr>"
| "apply_field (SetCheckpoint v) r = r\<lparr>ar_checkpoint := v\<rparr>"
| "apply_field (SetMetadata v) r = r\<lparr>ar_metadata := v\<rparr>"
| "apply_field (SetCurrentStep v) r = r\<lparr>ar_current_step_id := v\<rparr>"
| "apply_field (SetFinalOutput v) r = r\<lparr>ar_final_output_artifact_id := v\<rparr>"
| "apply_field (SetStepCount v) r = r\<lparr>ar_step_count := v\<rparr>"

record lock_update =
  lu_run_id :: uuid
  lu_new_status :: run_status
  lu_expected_version :: int
  lu_expected_status :: "run_status option"
  lu_fields :: "run_field list"
  lu_now :: int

definition updated_run :: "lock_update \<Rightarrow> agent_run \<Rightarrow> agent_run" where
  "updated_run u r =
     fold apply_field (lu_fields u)
       (r\<lparr>ar_status := lu_new_status u, ar_version := lu_expected_version u + 1, ar_updated_at := lu_now u\<rparr>)"

text \<open>One conditional UPDATE on the primary key; the result is \<open>rowcount > 0\<close>.\<close>

definition update_with_lock :: "lock_update \<Rightarrow> db \<Rightarrow> bool \<times> db" where
  "update_with_lock u db =
     (case run_get (lu_run_id u) db of
        None \<Rightarrow> (False, db)
      | Some r \<Rightarrow>
          if ar_version r = lu_expected_version u \<and>
             (case lu_expected_status u of None \<Rightarrow> True | Some st \<Rightarrow> ar_status r = st)
          then (True, run_put (updated_run u r) db) else (False, db))"

definition list_expired_running :: "int \<Rightarrow> int \<Rightarrow> db \<Rightarrow> agent_run list" where
  "list_expired_running now limit db =
     take (nat limit) (sort_key (\<lambda>r. the (ar_lease_until r))
       (filter (\<lambda>r. ar_status r \<in> {Running, PauseRequested} \<and>
          (case ar_lease_until r of None \<Rightarrow> False | Some t \<Rightarrow> t \<le> now)) (db_runs db)))"

definition list_stale_queued :: "int \<Rightarrow> int \<Rightarrow> db \<Rightarrow> agent_run list" where
  "list_stale_queued updated_before limit db =
     take (nat limit) (sort_key ar_updated_at
       (filter (\<lambda>r. ar_status r = Queued \<and> ar_updated_at r \<le> updated_before) (db_runs db)))"

definition renew_lease :: "uuid \<Rightarrow> string \<Rightarrow> int \<Rightarrow> int \<Rightarrow> db \<Rightarrow> bool \<times> db" where
  "renew_lease rid worker lease_until now db =
     (case run_get rid db of
        None \<Rightarrow> (False, db)
      | Some r \<Rightarrow>
          if ar_status r \<in> {Running, PauseRequested} \<and> ar_worker_id r = Some worker
          then (True, run_put (r\<lparr>ar_lease_until := Some lease_until, ar_updated_at := now\<rparr>) db)
          else (False, db))"

section \<open>Tasks, steps and tool calls\<close>

definition task_get :: "uuid \<Rightarrow> db \<Rightarrow> task option" where
  "task_get tid db = row_get tk_id tid (db_tasks db)"

definition merge_task :: "task \<Rightarrow> task \<Rightarrow> task" where
  "merge_task t x = x\<lparr>tk_status := tk_status t, tk_active_run_id := tk_active_run_id t,
     tk_last_step_summary := tk_last_step_summary t, tk_updated_at := tk_updated_at t,
     tk_completed_at := tk_completed_at t, tk_cancelled_at := tk_cancelled_at t\<rparr>"

definition task_update :: "task \<Rightarrow> db \<Rightarrow> db" where
  "task_update t db = db\<lparr>db_tasks := row_update (\<lambda>x. tk_id x = tk_id t)
     (merge_task t) (db_tasks db)\<rparr>"

definition step_get :: "uuid \<Rightarrow> db \<Rightarrow> execution_step option" where
  "step_get sid db = row_get st_id sid (db_steps db)"

definition step_create :: "execution_step \<Rightarrow> db \<Rightarrow> db res" where
  "step_create st db =
     (if st_id st \<in> st_id ` set (db_steps db) then Inl IntegrityError
      else Inr (db\<lparr>db_steps := db_steps db @ [st]\<rparr>))"

definition merge_step :: "execution_step \<Rightarrow> execution_step \<Rightarrow> execution_step" where
  "merge_step s x = x\<lparr>st_status := st_status s, st_summary := st_summary s, st_output_data := st_output_data s,
     st_error := st_error s, st_completed_at := st_completed_at s, st_duration_ms := st_duration_ms s\<rparr>"

definition step_update :: "execution_step \<Rightarrow> db \<Rightarrow> db" where
  "step_update s db = db\<lparr>db_steps := row_update (\<lambda>x. st_id x = st_id s)
     (merge_step s) (db_steps db)\<rparr>"

definition steps_by_run :: "uuid \<Rightarrow> db \<Rightarrow> execution_step list" where
  "steps_by_run rid db = sort_key st_order_index (filter (\<lambda>s. st_run_id s = rid) (db_steps db))"

definition tool_call_get :: "uuid \<Rightarrow> db \<Rightarrow> tool_call option" where
  "tool_call_get cid db = row_get tc_id cid (db_tool_calls db)"

definition tool_call_create :: "tool_call \<Rightarrow> db \<Rightarrow> db res" where
  "tool_call_create c db =
     (if tc_id c \<in> tc_id ` set (db_tool_calls db) then Inl IntegrityError
      else Inr (db\<lparr>db_tool_calls := db_tool_calls db @ [c]\<rparr>))"

definition merge_tool_call :: "tool_call \<Rightarrow> tool_call \<Rightarrow> tool_call" where
  "merge_tool_call c x = x\<lparr>tc_result := tc_result c, tc_result_summary := tc_result_summary c,
     tc_status := tc_status c, tc_error := tc_error c, tc_completed_at := tc_completed_at c,
     tc_duration_ms := tc_duration_ms c, tc_permission_status := tc_permission_status c,
     tc_permission_request_id := tc_permission_request_id c\<rparr>"

definition tool_call_update :: "tool_call \<Rightarrow> db \<Rightarrow> db" where
  "tool_call_update c db = db\<lparr>db_tool_calls := row_update (\<lambda>x. tc_id x = tc_id c)
     (merge_tool_call c) (db_tool_calls db)\<rparr>"

text \<open>\<open>ORDER BY started_at\<close>: PostgreSQL puts NULL last.\<close>

definition tool_calls_by_run :: "uuid \<Rightarrow> db \<Rightarrow> tool_call list" where
  "tool_calls_by_run rid db =
     (let calls = filter (\<lambda>c. tc_run_id c = rid) (db_tool_calls db) in
      sort_key (\<lambda>c. the (tc_started_at c)) (filter (\<lambda>c. tc_started_at c \<noteq> None) calls) @
      filter (\<lambda>c. tc_started_at c = None) calls)"

section \<open>Permission requests and grants\<close>

definition permission_get :: "uuid \<Rightarrow> db \<Rightarrow> permission_request option" where
  "permission_get pid db = row_get pr_id pid (db_permissions db)"

definition permission_insert :: "permission_request \<Rightarrow> db \<Rightarrow> db res" where
  "permission_insert p db =
     (if pr_id p \<in> pr_id ` set (db_permissions db) then Inl IntegrityError
      else Inr (db\<lparr>db_permissions := db_permissions db @ [p]\<rparr>))"

definition merge_permission :: "permission_request \<Rightarrow> permission_request \<Rightarrow> permission_request" where
  "merge_permission p x = x\<lparr>pr_status := pr_status p, pr_decision := pr_decision p,
     pr_decided_at := pr_decided_at p, pr_note := pr_note p, pr_checkpoint := pr_checkpoint p\<rparr>"

definition permission_update :: "permission_request \<Rightarrow> db \<Rightarrow> db" where
  "permission_update p db = db\<lparr>db_permissions := row_update (\<lambda>x. pr_id x = pr_id p)
     (merge_permission p) (db_permissions db)\<rparr>"

definition list_pending_by_run :: "uuid \<Rightarrow> db \<Rightarrow> permission_request list" where
  "list_pending_by_run rid db =
     filter (\<lambda>p. pr_run_id p = rid \<and> pr_status p = PermPending) (db_permissions db)"

definition list_expired_pending :: "int \<Rightarrow> int \<Rightarrow> db \<Rightarrow> permission_request list" where
  "list_expired_pending now limit db =
     take (nat limit) (sort_key (\<lambda>p. the (pr_expires_at p))
       (filter (\<lambda>p. pr_status p = PermPending \<and>
          (case pr_expires_at p of None \<Rightarrow> False | Some t \<Rightarrow> t \<le> now)) (db_permissions db)))"

definition grant_create :: "permission_grant \<Rightarrow> db \<Rightarrow> db" where
  "grant_create g db = db\<lparr>db_grants := db_grants db @ [g]\<rparr>"

section \<open>Events, audit, outbox, inbox\<close>

text \<open>\<open>INSERT ... ON CONFLICT (event_id) DO NOTHING\<close>, row by row; the primary key may still conflict.\<close>

fun events_append :: "runtime_event list \<Rightarrow> db \<Rightarrow> db res" where
  "events_append [] db = Inr db"
| "events_append (e # es) db =
     (if ev_event_id e \<in> ev_event_id ` set (db_events db) then events_append es db
      else if ev_id e \<in> ev_id ` set (db_events db) then Inl IntegrityError
      else events_append es (db\<lparr>db_events := db_events db @ [e]\<rparr>))"

definition events_by_run :: "uuid \<Rightarrow> db \<Rightarrow> runtime_event list" where
  "events_by_run rid db = sort_key ev_sequence (filter (\<lambda>e. ev_run_id e = Some rid) (db_events db))"

definition get_next_sequence :: "uuid \<Rightarrow> db \<Rightarrow> int" where
  "get_next_sequence rid db =
     (case map ev_sequence (filter (\<lambda>e. ev_run_id e = Some rid) (db_events db)) of
        [] \<Rightarrow> 1 | s # ss \<Rightarrow> fold max ss s + 1)"

text \<open>An audit row and an outbox row draw their primary key when they are written.\<close>

definition audit_create :: "(uuid \<Rightarrow> audit_log) \<Rightarrow> db \<Rightarrow> db" where
  "audit_create mk db = (bump db)\<lparr>db_audits := db_audits db @ [mk (fresh db)]\<rparr>"

definition outbox_create :: "(uuid \<Rightarrow> outbox_event) \<Rightarrow> db \<Rightarrow> db res" where
  "outbox_create mk db =
     (let row = mk (fresh db) in
      if ob_event_id row \<in> ob_event_id ` set (db_outbox db) then Inl IntegrityError
      else Inr ((bump db)\<lparr>db_outbox := db_outbox db @ [row]\<rparr>))"

definition run_job_event_types :: "string list" where
  "run_job_event_types = [''task.created'', ''run.resume.requested'', ''run.retry.requested'',
     ''run.step_retry.requested'', ''run.queue.reconciled'']"

text \<open>\<open>ORDER BY created_at DESC LIMIT 1\<close>; rows of the same instant are taken in insertion order.\<close>

definition get_latest_run_job :: "uuid \<Rightarrow> db \<Rightarrow> outbox_event option" where
  "get_latest_run_job rid db =
     (case rev (sort_key ob_created_at (filter (\<lambda>e. ob_aggregate_type e = ''AgentRun'' \<and>
        ob_aggregate_id e = rid \<and> ob_event_type e \<in> set run_job_event_types) (db_outbox db))) of
        [] \<Rightarrow> None | e # _ \<Rightarrow> Some e)"

definition inbox_seen :: "string \<times> json \<Rightarrow> db \<Rightarrow> bool" where
  "inbox_seen k db \<longleftrightarrow> k \<in> (\<lambda>i. (ib_source i, ib_source_event_id i)) ` set (db_inbox db)"

definition inbox_try_insert :: "string \<times> json \<Rightarrow> db \<Rightarrow> bool \<times> db" where
  "inbox_try_insert k db =
     (if inbox_seen k db then (False, db)
      else (True, db\<lparr>db_inbox := db_inbox db @
        [\<lparr>ib_source = fst k, ib_source_event_id = snd k, ib_status = IbProcessing, ib_processed_at = None\<rparr>]\<rparr>))"

definition inbox_mark_processed :: "string \<times> json \<Rightarrow> int \<Rightarrow> db \<Rightarrow> db" where
  "inbox_mark_processed k now db = db\<lparr>db_inbox := row_update
     (\<lambda>i. ib_source i = fst k \<and> ib_source_event_id i = snd k)
     (\<lambda>i. i\<lparr>ib_status := IbProcessed, ib_processed_at := Some now\<rparr>) (db_inbox db)\<rparr>"

definition workspace_get :: "uuid \<Rightarrow> db \<Rightarrow> workspace option" where
  "workspace_get wid db = row_get ws_id wid (db_workspaces db)"

section \<open>Artifacts, messages and memory jobs\<close>

definition artifact_create :: "artifact \<Rightarrow> db \<Rightarrow> db res" where
  "artifact_create a db =
     (if af_id a \<in> af_id ` set (db_artifacts db) then Inl IntegrityError
      else Inr (db\<lparr>db_artifacts := db_artifacts db @ [a]\<rparr>))"

definition message_create :: "message \<Rightarrow> db \<Rightarrow> db" where
  "message_create m db = db\<lparr>db_messages := db_messages db @ [m]\<rparr>"

definition memory_job_by_policy :: "uuid \<Rightarrow> string \<Rightarrow> db \<Rightarrow> memory_job option" where
  "memory_job_by_policy rid policy db =
     find (\<lambda>j. mj_source_run_id j = rid \<and> mj_policy_version j = policy) (db_memory_jobs db)"

definition memory_job_create :: "memory_job \<Rightarrow> db \<Rightarrow> db res" where
  "memory_job_create j db =
     (if mj_id j \<in> mj_id ` set (db_memory_jobs db) \<or>
         (mj_source_run_id j, mj_policy_version j) \<in>
           (\<lambda>x. (mj_source_run_id x, mj_policy_version x)) ` set (db_memory_jobs db)
      then Inl IntegrityError
      else Inr (db\<lparr>db_memory_jobs := db_memory_jobs db @ [j]\<rparr>))"

section \<open>What each operation leaves alone\<close>

lemma bump_frame [simp, frame_simps]:
  "db_tasks (bump db) = db_tasks db"
  "db_runs (bump db) = db_runs db"
  "db_steps (bump db) = db_steps db"
  "db_events (bump db) = db_events db"
  "db_tool_calls (bump db) = db_tool_calls db"
  "db_permissions (bump db) = db_permissions db"
  "db_grants (bump db) = db_grants db"
  "db_audits (bump db) = db_audits db"
  "db_outbox (bump db) = db_outbox db"
  "db_inbox (bump db) = db_inbox db"
  "db_workspaces (bump db) = db_workspaces db"
  by (simp_all add: bump_def)

lemma run_put_frame [simp, frame_simps]:
  "db_next (run_put r db) = db_next db"
  "db_tasks (run_put r db) = db_tasks db"
  "db_steps (run_put r db) = db_steps db"
  "db_events (run_put r db) = db_events db"
  "db_tool_calls (run_put r db) = db_tool_calls db"
  "db_permissions (run_put r db) = db_permissions db"
  "db_grants (run_put r db) = db_grants db"
  "db_audits (run_put r db) = db_audits db"
  "db_outbox (run_put r db) = db_outbox db"
  "db_inbox (run_put r db) = db_inbox db"
  "db_workspaces (run_put r db) = db_workspaces db"
  by (simp_all add: run_put_def)

lemma task_update_frame [simp, frame_simps]:
  "db_next (task_update t db) = db_next db"
  "db_runs (task_update t db) = db_runs db"
  "db_steps (task_update t db) = db_steps db"
  "db_events (task_update t db) = db_events db"
  "db_tool_calls (task_update t db) = db_tool_calls db"
  "db_permissions (task_update t db) = db_permissions db"
  "db_grants (task_update t db) = db_grants db"
  "db_audits (task_update t db) = db_audits db"
  "db_outbox (task_update t db) = db_outbox db"
  "db_inbox (task_update t db) = db_inbox db"
  "db_workspaces (task_update t db) = db_workspaces db"
  by (simp_all add: task_update_def)

lemma step_update_frame [simp, frame_simps]:
  "db_next (step_update st db) = db_next db"
  "db_tasks (step_update st db) = db_tasks db"
  "db_runs (step_update st db) = db_runs db"
  "db_events (step_update st db) = db_events db"
  "db_tool_calls (step_update st db) = db_tool_calls db"
  "db_permissions (step_update st db) = db_permissions db"
  "db_grants (step_update st db) = db_grants db"
  "db_audits (step_update st db) = db_audits db"
  "db_outbox (step_update st db) = db_outbox db"
  "db_inbox (step_update st db) = db_inbox db"
  "db_workspaces (step_update st db) = db_workspaces db"
  by (simp_all add: step_update_def)

lemma tool_call_update_frame [simp, frame_simps]:
  "db_next (tool_call_update tc db) = db_next db"
  "db_tasks (tool_call_update tc db) = db_tasks db"
  "db_runs (tool_call_update tc db) = db_runs db"
  "db_steps (tool_call_update tc db) = db_steps db"
  "db_events (tool_call_update tc db) = db_events db"
  "db_permissions (tool_call_update tc db) = db_permissions db"
  "db_grants (tool_call_update tc db) = db_grants db"
  "db_audits (tool_call_update tc db) = db_audits db"
  "db_outbox (tool_call_update tc db) = db_outbox db"
  "db_inbox (tool_call_update tc db) = db_inbox db"
  "db_workspaces (tool_call_update tc db) = db_workspaces db"
  by (simp_all add: tool_call_update_def)

lemma permission_update_frame [simp, frame_simps]:
  "db_next (permission_update p db) = db_next db"
  "db_tasks (permission_update p db) = db_tasks db"
  "db_runs (permission_update p db) = db_runs db"
  "db_steps (permission_update p db) = db_steps db"
  "db_events (permission_update p db) = db_events db"
  "db_tool_calls (permission_update p db) = db_tool_calls db"
  "db_grants (permission_update p db) = db_grants db"
  "db_audits (permission_update p db) = db_audits db"
  "db_outbox (permission_update p db) = db_outbox db"
  "db_inbox (permission_update p db) = db_inbox db"
  "db_workspaces (permission_update p db) = db_workspaces db"
  by (simp_all add: permission_update_def)

lemma grant_create_frame [simp, frame_simps]:
  "db_next (grant_create g db) = db_next db"
  "db_tasks (grant_create g db) = db_tasks db"
  "db_runs (grant_create g db) = db_runs db"
  "db_steps (grant_create g db) = db_steps db"
  "db_events (grant_create g db) = db_events db"
  "db_tool_calls (grant_create g db) = db_tool_calls db"
  "db_permissions (grant_create g db) = db_permissions db"
  "db_audits (grant_create g db) = db_audits db"
  "db_outbox (grant_create g db) = db_outbox db"
  "db_inbox (grant_create g db) = db_inbox db"
  "db_workspaces (grant_create g db) = db_workspaces db"
  by (simp_all add: grant_create_def)

lemma audit_create_frame [simp, frame_simps]:
  "db_tasks (audit_create a db) = db_tasks db"
  "db_runs (audit_create a db) = db_runs db"
  "db_steps (audit_create a db) = db_steps db"
  "db_events (audit_create a db) = db_events db"
  "db_tool_calls (audit_create a db) = db_tool_calls db"
  "db_permissions (audit_create a db) = db_permissions db"
  "db_grants (audit_create a db) = db_grants db"
  "db_outbox (audit_create a db) = db_outbox db"
  "db_inbox (audit_create a db) = db_inbox db"
  "db_workspaces (audit_create a db) = db_workspaces db"
  by (simp_all add: audit_create_def bump_def)

lemma inbox_mark_processed_frame [simp, frame_simps]:
  "db_next (inbox_mark_processed k now db) = db_next db"
  "db_tasks (inbox_mark_processed k now db) = db_tasks db"
  "db_runs (inbox_mark_processed k now db) = db_runs db"
  "db_steps (inbox_mark_processed k now db) = db_steps db"
  "db_events (inbox_mark_processed k now db) = db_events db"
  "db_tool_calls (inbox_mark_processed k now db) = db_tool_calls db"
  "db_permissions (inbox_mark_processed k now db) = db_permissions db"
  "db_grants (inbox_mark_processed k now db) = db_grants db"
  "db_audits (inbox_mark_processed k now db) = db_audits db"
  "db_outbox (inbox_mark_processed k now db) = db_outbox db"
  "db_workspaces (inbox_mark_processed k now db) = db_workspaces db"
  by (simp_all add: inbox_mark_processed_def)

lemma update_with_lock_frame [simp, frame_simps]:
  "db_next (snd (update_with_lock u db)) = db_next db"
  "db_tasks (snd (update_with_lock u db)) = db_tasks db"
  "db_steps (snd (update_with_lock u db)) = db_steps db"
  "db_events (snd (update_with_lock u db)) = db_events db"
  "db_tool_calls (snd (update_with_lock u db)) = db_tool_calls db"
  "db_permissions (snd (update_with_lock u db)) = db_permissions db"
  "db_grants (snd (update_with_lock u db)) = db_grants db"
  "db_audits (snd (update_with_lock u db)) = db_audits db"
  "db_outbox (snd (update_with_lock u db)) = db_outbox db"
  "db_inbox (snd (update_with_lock u db)) = db_inbox db"
  "db_workspaces (snd (update_with_lock u db)) = db_workspaces db"
  by (simp_all add: update_with_lock_def run_put_def split: option.splits)

lemma renew_lease_frame [simp, frame_simps]:
  "db_next (snd (renew_lease rid w l now db)) = db_next db"
  "db_tasks (snd (renew_lease rid w l now db)) = db_tasks db"
  "db_steps (snd (renew_lease rid w l now db)) = db_steps db"
  "db_events (snd (renew_lease rid w l now db)) = db_events db"
  "db_tool_calls (snd (renew_lease rid w l now db)) = db_tool_calls db"
  "db_permissions (snd (renew_lease rid w l now db)) = db_permissions db"
  "db_grants (snd (renew_lease rid w l now db)) = db_grants db"
  "db_audits (snd (renew_lease rid w l now db)) = db_audits db"
  "db_outbox (snd (renew_lease rid w l now db)) = db_outbox db"
  "db_inbox (snd (renew_lease rid w l now db)) = db_inbox db"
  "db_workspaces (snd (renew_lease rid w l now db)) = db_workspaces db"
  by (simp_all add: renew_lease_def run_put_def split: option.splits)

lemma inbox_try_insert_frame [simp, frame_simps]:
  "db_next (snd (inbox_try_insert k db)) = db_next db"
  "db_tasks (snd (inbox_try_insert k db)) = db_tasks db"
  "db_runs (snd (inbox_try_insert k db)) = db_runs db"
  "db_steps (snd (inbox_try_insert k db)) = db_steps db"
  "db_events (snd (inbox_try_insert k db)) = db_events db"
  "db_tool_calls (snd (inbox_try_insert k db)) = db_tool_calls db"
  "db_permissions (snd (inbox_try_insert k db)) = db_permissions db"
  "db_grants (snd (inbox_try_insert k db)) = db_grants db"
  "db_audits (snd (inbox_try_insert k db)) = db_audits db"
  "db_outbox (snd (inbox_try_insert k db)) = db_outbox db"
  "db_workspaces (snd (inbox_try_insert k db)) = db_workspaces db"
  by (simp_all add: inbox_try_insert_def)

lemma run_create_frame:
  "run_create r db = Inr db1 \<Longrightarrow>
     db_next db1 = db_next db \<and>
     db_tasks db1 = db_tasks db \<and>
     db_steps db1 = db_steps db \<and>
     db_events db1 = db_events db \<and>
     db_tool_calls db1 = db_tool_calls db \<and>
     db_permissions db1 = db_permissions db \<and>
     db_grants db1 = db_grants db \<and>
     db_audits db1 = db_audits db \<and>
     db_outbox db1 = db_outbox db \<and>
     db_inbox db1 = db_inbox db \<and>
     db_workspaces db1 = db_workspaces db"
  by (auto simp: run_create_def split: if_splits)

lemma step_create_frame:
  "step_create st db = Inr db1 \<Longrightarrow>
     db_next db1 = db_next db \<and>
     db_tasks db1 = db_tasks db \<and>
     db_runs db1 = db_runs db \<and>
     db_events db1 = db_events db \<and>
     db_tool_calls db1 = db_tool_calls db \<and>
     db_permissions db1 = db_permissions db \<and>
     db_grants db1 = db_grants db \<and>
     db_audits db1 = db_audits db \<and>
     db_outbox db1 = db_outbox db \<and>
     db_inbox db1 = db_inbox db \<and>
     db_workspaces db1 = db_workspaces db"
  by (auto simp: step_create_def split: if_splits)

lemma tool_call_create_frame:
  "tool_call_create tc db = Inr db1 \<Longrightarrow>
     db_next db1 = db_next db \<and>
     db_tasks db1 = db_tasks db \<and>
     db_runs db1 = db_runs db \<and>
     db_steps db1 = db_steps db \<and>
     db_events db1 = db_events db \<and>
     db_permissions db1 = db_permissions db \<and>
     db_grants db1 = db_grants db \<and>
     db_audits db1 = db_audits db \<and>
     db_outbox db1 = db_outbox db \<and>
     db_inbox db1 = db_inbox db \<and>
     db_workspaces db1 = db_workspaces db"
  by (auto simp: tool_call_create_def split: if_splits)

lemma permission_insert_frame:
  "permission_insert p db = Inr db1 \<Longrightarrow>
     db_next db1 = db_next db \<and>
     db_tasks db1 = db_tasks db \<and>
     db_runs db1 = db_runs db \<and>
     db_steps db1 = db_steps db \<and>
     db_events db1 = db_events db \<and>
     db_tool_calls db1 = db_tool_calls db \<and>
     db_grants db1 = db_grants db \<and>
     db_audits db1 = db_audits db \<and>
     db_outbox db1 = db_outbox db \<and>
     db_inbox db1 = db_inbox db \<and>
     db_workspaces db1 = db_workspaces db"
  by (auto simp: permission_insert_def split: if_splits)

lemma outbox_create_frame:
  "outbox_create o1 db = Inr db1 \<Longrightarrow>
     db_tasks db1 = db_tasks db \<and>
     db_runs db1 = db_runs db \<and>
     db_steps db1 = db_steps db \<and>
     db_events db1 = db_events db \<and>
     db_tool_calls db1 = db_tool_calls db \<and>
     db_permissions db1 = db_permissions db \<and>
     db_grants db1 = db_grants db \<and>
     db_audits db1 = db_audits db \<and>
     db_inbox db1 = db_inbox db \<and>
     db_workspaces db1 = db_workspaces db"
  by (auto simp: outbox_create_def Let_def bump_def split: if_splits)

lemma events_append_frame:
  "events_append es db = Inr db1 \<Longrightarrow>
     db_next db1 = db_next db \<and>
     db_tasks db1 = db_tasks db \<and>
     db_runs db1 = db_runs db \<and>
     db_steps db1 = db_steps db \<and>
     db_tool_calls db1 = db_tool_calls db \<and>
     db_permissions db1 = db_permissions db \<and>
     db_grants db1 = db_grants db \<and>
     db_audits db1 = db_audits db \<and>
     db_outbox db1 = db_outbox db \<and>
     db_inbox db1 = db_inbox db \<and>
     db_workspaces db1 = db_workspaces db"
  by (induction es db rule: events_append.induct) (auto split: if_splits)

section \<open>Interface: a keyed table\<close>

text \<open>
  \<open>get\<close> is a primary-key lookup, \<open>put\<close> the repository's \<open>update\<close>, which writes only its own columns:
  \<open>merge r old\<close> is the row that results.
\<close>

locale keyed_table =
  fixes get :: "'k \<Rightarrow> 'db \<Rightarrow> 'r option"
    and put :: "'r \<Rightarrow> 'db \<Rightarrow> 'db"
    and key :: "'r \<Rightarrow> 'k"
    and merge :: "'r \<Rightarrow> 'r \<Rightarrow> 'r"
  assumes get_key: "get k db = Some r \<Longrightarrow> key r = k"
    and get_put: "get k (put r db) = (if k = key r then map_option (merge r) (get k db) else get k db)"
begin

lemma get_put_same: "get (key r) db = Some old \<Longrightarrow> get (key r) (put r db) = Some (merge r old)"
  by (simp add: get_put)

lemma get_put_other: "k \<noteq> key r \<Longrightarrow> get k (put r db) = get k db"
  by (simp add: get_put)

lemma put_exists: "get k (put r db) = None \<longleftrightarrow> get k db = None"
  by (simp add: get_put)

lemma get_fold_put:
  "distinct (map key rs) \<Longrightarrow>
     get k (fold put rs db) =
       (case find (\<lambda>r. key r = k) rs of None \<Rightarrow> get k db | Some r \<Rightarrow> map_option (merge r) (get k db))"
proof (induction rs arbitrary: db)
  case (Cons r rs)
  show ?case
  proof (cases "key r = k")
    case True
    then have "find (\<lambda>r. key r = k) rs = None"
      unfolding find_None_iff using Cons.prems by (metis distinct.simps(2) image_eqI list.map(2) list.set_map)
    then show ?thesis using Cons True by (simp add: get_put)
  next
    case False
    then have "get k (put r db) = get k db" by (metis get_put_other)
    then show ?thesis using Cons False by (simp split: option.split)
  qed
qed simp

end

section \<open>Interface: optimistic locking\<close>

text \<open>
  A compare-and-set on a version number.  Whatever sequence of attempts reaches the store, two
  attempts that expect the same version of the same row cannot both succeed.
\<close>

fun attempt_all :: "('op \<Rightarrow> 'db \<Rightarrow> bool \<times> 'db) \<Rightarrow> 'op list \<Rightarrow> 'db \<Rightarrow> bool list" where
  "attempt_all cas [] db = []"
| "attempt_all cas (op # ops) db = (let (b, db') = cas op db in b # attempt_all cas ops db')"

locale versioned_store =
  fixes get :: "'k \<Rightarrow> 'db \<Rightarrow> 'r option"
    and version :: "'r \<Rightarrow> int"
    and cas :: "'op \<Rightarrow> 'db \<Rightarrow> bool \<times> 'db"
    and target :: "'op \<Rightarrow> 'k"
    and expected :: "'op \<Rightarrow> int"
  assumes miss: "\<not> fst (cas op db) \<Longrightarrow> snd (cas op db) = db"
    and hit: "fst (cas op db) \<Longrightarrow> \<exists>r r'. get (target op) db = Some r \<and> version r = expected op \<and>
      get (target op) (snd (cas op db)) = Some r' \<and> version r' = expected op + 1"
    and other: "k \<noteq> target op \<Longrightarrow> get k (snd (cas op db)) = get k db"
begin

definition past :: "'k \<Rightarrow> int \<Rightarrow> 'db \<Rightarrow> bool" where
  "past k v db \<longleftrightarrow> (\<forall>r. get k db = Some r \<longrightarrow> v < version r)"

lemma past_hit: "fst (cas op db) \<Longrightarrow> past (target op) (expected op) (snd (cas op db))"
  using hit [of op db] by (auto simp: past_def)

lemma past_step: "past k v db \<Longrightarrow> past k v (snd (cas op db))"
proof (cases "fst (cas op db) \<and> k = target op")
  case True
  assume "past k v db"
  with True show ?thesis using hit [of op db] by (auto simp: past_def)
next
  case False
  assume "past k v db"
  with False show ?thesis by (auto simp: past_def other dest: miss)
qed

lemma past_fails: "past (target op) (expected op) db \<Longrightarrow> \<not> fst (cas op db)"
  using hit [of op db] by (auto simp: past_def)

lemma past_never_succeeds:
  "past k v db \<Longrightarrow> i < length ops \<Longrightarrow> target (ops ! i) = k \<Longrightarrow> expected (ops ! i) = v \<Longrightarrow>
     \<not> attempt_all cas ops db ! i"
proof (induction ops arbitrary: db i)
  case (Cons op ops)
  show ?case
  proof (cases i)
    case 0
    with Cons.prems show ?thesis using past_fails [of op db] by (auto simp: split_def Let_def)
  next
    case (Suc j)
    with Cons.prems show ?thesis
      using Cons.IH [OF past_step [OF Cons.prems(1)], of j op] by (simp add: split_def Let_def)
  qed
qed simp

lemma single_winner:
  "i < j \<Longrightarrow> j < length ops \<Longrightarrow> target (ops ! i) = target (ops ! j) \<Longrightarrow>
     expected (ops ! i) = expected (ops ! j) \<Longrightarrow>
     \<not> (attempt_all cas ops db ! i \<and> attempt_all cas ops db ! j)"
proof (induction ops arbitrary: db i j)
  case (Cons op ops)
  then obtain j' where j: "j = Suc j'" by (cases j) auto
  show ?case
  proof (cases i)
    case 0
    show ?thesis
    proof (cases "fst (cas op db)")
      case True
      then have "past (target op) (expected op) (snd (cas op db))" by (rule past_hit)
      then have "\<not> attempt_all cas ops (snd (cas op db)) ! j'"
        by (rule past_never_succeeds) (use Cons.prems 0 j in auto)
      then show ?thesis by (simp add: j split_def Let_def)
    next
      case False
      then show ?thesis by (simp add: 0 split_def Let_def)
    qed
  next
    case (Suc i')
    then show ?thesis
      using Cons.IH [of i' j' "snd (cas op db)"] Cons.prems by (simp add: j split_def Let_def)
  qed
qed simp

end

section \<open>Interface: first-time insertion\<close>

locale once_store =
  fixes seen :: "'k \<Rightarrow> 'db \<Rightarrow> bool"
    and try_insert :: "'k \<Rightarrow> 'db \<Rightarrow> bool \<times> 'db"
  assumes first: "fst (try_insert k db) \<longleftrightarrow> \<not> seen k db"
    and seen_after: "seen j (snd (try_insert k db)) \<longleftrightarrow> seen j db \<or> j = k"
begin

lemma insert_again: "\<not> fst (try_insert k (snd (try_insert k db)))"
  by (simp add: first seen_after)

lemma attempts_first_only:
  "i < length ks \<Longrightarrow>
     attempt_all try_insert ks db ! i \<longleftrightarrow> \<not> seen (ks ! i) db \<and> ks ! i \<notin> set (take i ks)"
proof (induction ks arbitrary: db i)
  case (Cons k ks)
  then show ?case by (cases i) (auto simp: split_def Let_def first seen_after)
qed simp

end

section \<open>The tables implement the interfaces\<close>

lemma row_get_update_key:
  assumes "\<And>r. key (f r) = key r"
  shows "row_get key k (row_update (\<lambda>x. key x = j) f rows) =
    (if k = j then map_option f (row_get key k rows) else row_get key k rows)"
  using assms by (induction rows) auto

lemma row_get_replace:
  assumes "key r = j"
  shows "row_get key k (row_update (\<lambda>x. key x = j) (\<lambda>_. r) rows) =
    (if k = j then map_option (\<lambda>_. r) (row_get key k rows) else row_get key k rows)"
  using assms by (induction rows) auto

interpretation runs: keyed_table run_get run_put ar_id "\<lambda>r _. r"
  by unfold_locales (auto simp: run_get_def run_put_def row_get_replace)

interpretation tasks: keyed_table task_get task_update tk_id merge_task
  by unfold_locales
    (auto simp: task_get_def task_update_def row_get_update_key merge_task_def)

interpretation steps: keyed_table step_get step_update st_id merge_step
  by unfold_locales (auto simp: step_get_def step_update_def row_get_update_key merge_step_def)

interpretation tool_calls: keyed_table tool_call_get tool_call_update tc_id merge_tool_call
  by unfold_locales (auto simp: tool_call_get_def tool_call_update_def row_get_update_key merge_tool_call_def)

interpretation permissions: keyed_table permission_get permission_update pr_id merge_permission
  by unfold_locales (auto simp: permission_get_def permission_update_def row_get_update_key merge_permission_def)

lemma apply_field_keeps [simp]:
  "ar_id (apply_field f r) = ar_id r" "ar_version (apply_field f r) = ar_version r"
  "ar_status (apply_field f r) = ar_status r" "ar_task_id (apply_field f r) = ar_task_id r"
  "ar_updated_at (apply_field f r) = ar_updated_at r"
  by (cases f; simp)+

lemma fold_apply_field_keeps [simp]:
  "ar_id (fold apply_field fs r) = ar_id r" "ar_version (fold apply_field fs r) = ar_version r"
  "ar_status (fold apply_field fs r) = ar_status r" "ar_task_id (fold apply_field fs r) = ar_task_id r"
  "ar_updated_at (fold apply_field fs r) = ar_updated_at r"
  by (induction fs arbitrary: r) simp_all

lemma updated_run_simps [simp]:
  "ar_id (updated_run u r) = ar_id r" "ar_version (updated_run u r) = lu_expected_version u + 1"
  "ar_status (updated_run u r) = lu_new_status u" "ar_task_id (updated_run u r) = ar_task_id r"
  by (simp_all add: updated_run_def)

text \<open>\<open>update_with_lock\<close>, as seen through \<open>run_get\<close>.\<close>

definition lock_ok :: "lock_update \<Rightarrow> agent_run \<Rightarrow> bool" where
  "lock_ok u r \<longleftrightarrow> ar_version r = lu_expected_version u \<and>
     (case lu_expected_status u of None \<Rightarrow> True | Some st \<Rightarrow> ar_status r = st)"

lemma update_with_lock_cases:
  "update_with_lock u db =
     (case run_get (lu_run_id u) db of
        None \<Rightarrow> (False, db)
      | Some r \<Rightarrow> if lock_ok u r then (True, run_put (updated_run u r) db) else (False, db))"
  by (simp add: update_with_lock_def lock_ok_def split: option.splits)

lemma update_with_lock_True:
  "update_with_lock u db = (True, db') \<longleftrightarrow>
     (\<exists>r. run_get (lu_run_id u) db = Some r \<and> lock_ok u r \<and> db' = run_put (updated_run u r) db)"
  by (auto simp: update_with_lock_cases split: option.splits if_splits)

lemma update_with_lock_False: "update_with_lock u db = (False, db') \<Longrightarrow> db' = db"
  by (auto simp: update_with_lock_cases split: option.splits if_splits)

lemma run_get_update_with_lock:
  "run_get k (snd (update_with_lock u db)) =
     (if k = lu_run_id u
      then map_option (\<lambda>r. if lock_ok u r then updated_run u r else r) (run_get k db)
      else run_get k db)"
  by (auto simp: update_with_lock_cases runs.get_put dest: runs.get_key split: option.splits)

interpretation run_lock: versioned_store run_get ar_version update_with_lock lu_run_id lu_expected_version
proof
  fix u :: lock_update and db
  show "\<not> fst (update_with_lock u db) \<Longrightarrow> snd (update_with_lock u db) = db"
    by (simp add: update_with_lock_cases split: option.splits if_splits)
  show "fst (update_with_lock u db) \<Longrightarrow> \<exists>r r'. run_get (lu_run_id u) db = Some r \<and>
      ar_version r = lu_expected_version u \<and> run_get (lu_run_id u) (snd (update_with_lock u db)) = Some r' \<and>
      ar_version r' = lu_expected_version u + 1"
    by (auto simp: update_with_lock_cases lock_ok_def runs.get_put dest: runs.get_key split: option.splits if_splits)
next
  fix k u db
  show "k \<noteq> lu_run_id u \<Longrightarrow> run_get k (snd (update_with_lock u db)) = run_get k db"
    by (simp add: run_get_update_with_lock)
qed

interpretation inbox: once_store inbox_seen inbox_try_insert
  by unfold_locales (auto simp: inbox_try_insert_def inbox_seen_def)

lemma inbox_seen_mark: "inbox_seen j (inbox_mark_processed k t db) = inbox_seen j db"
proof -
  have "(\<lambda>i. (ib_source i, ib_source_event_id i)) ` set (row_update p (\<lambda>i. i\<lparr>ib_status := st, ib_processed_at := u\<rparr>) xs) =
      (\<lambda>i. (ib_source i, ib_source_event_id i)) ` set xs" for p st u and xs :: "inbox_event list"
    by (induction xs) auto
  then show ?thesis by (simp add: inbox_seen_def inbox_mark_processed_def)
qed

section \<open>Event sequences\<close>

text \<open>The events of a run are numbered 1, 2, ... without a gap.\<close>

definition contiguous :: "uuid \<Rightarrow> db \<Rightarrow> bool" where
  "contiguous rid db \<longleftrightarrow>
     map ev_sequence (events_by_run rid db) = map int [1..<length (events_by_run rid db) + 1]"

lemma get_next_sequence_gt:
  "e \<in> set (db_events db) \<Longrightarrow> ev_run_id e = Some rid \<Longrightarrow> ev_sequence e < get_next_sequence rid db"
proof -
  have max: "fold max xs y \<ge> y \<and> (\<forall>x \<in> set xs. x \<le> fold max xs y)" for xs and y :: int
    by (induction xs arbitrary: y) (auto, (metis max.bounded_iff)+)
  assume "e \<in> set (db_events db)" "ev_run_id e = Some rid"
  then have "ev_sequence e \<in> set (map ev_sequence (filter (\<lambda>e. ev_run_id e = Some rid) (db_events db)))" by auto
  then show ?thesis
    using max by (cases "map ev_sequence (filter (\<lambda>e. ev_run_id e = Some rid) (db_events db))")
      (auto simp: get_next_sequence_def)
qed

lemma insort_key_snoc: "f x \<le> f y \<Longrightarrow> insort_key f x (zs @ [y]) = insort_key f x zs @ [y]"
  by (induction zs) auto

lemma sort_key_snoc: "(\<forall>x \<in> set xs. f x \<le> f y) \<Longrightarrow> sort_key f (xs @ [y]) = sort_key f xs @ [y]"
  by (induction xs) (auto simp: insort_key_snoc)

lemma events_by_run_snoc:
  assumes "db_events db' = db_events db @ [e]" and "ev_run_id e = Some rid"
    and "ev_sequence e = get_next_sequence rid db"
  shows "events_by_run rid db' = events_by_run rid db @ [e]"
proof -
  have "\<forall>x \<in> set (filter (\<lambda>e. ev_run_id e = Some rid) (db_events db)). ev_sequence x \<le> ev_sequence e"
    using get_next_sequence_gt assms(3) by (fastforce intro: less_imp_le)
  from sort_key_snoc [of _ ev_sequence e, OF this] show ?thesis
    using assms(2) by (simp add: events_by_run_def assms(1))
qed

lemma events_append_fresh:
  "events_append [e] db = Inr db' \<Longrightarrow> ev_event_id e \<notin> ev_event_id ` set (db_events db) \<Longrightarrow>
     db_events db' = db_events db @ [e]"
  by (auto split: if_splits)

lemmas events_by_run_append = events_by_run_snoc [OF events_append_fresh]

lemma contiguous_next:
  assumes "contiguous rid db"
  shows "get_next_sequence rid db = int (length (events_by_run rid db)) + 1"
proof -
  let ?xs = "map ev_sequence (filter (\<lambda>e. ev_run_id e = Some rid) (db_events db))"
  let ?n = "length (events_by_run rid db)"
  have len: "length ?xs = ?n" by (simp add: events_by_run_def)
  have "set ?xs = ev_sequence ` set (events_by_run rid db)" by (simp add: events_by_run_def)
  also have "\<dots> = int ` {1..<?n + 1}"
    using assms unfolding contiguous_def by (metis set_map set_upt)
  finally have set: "set ?xs = int ` {1..<?n + 1}" .
  show ?thesis
  proof (cases ?xs)
    case Nil
    then show ?thesis using len by (simp add: get_next_sequence_def)
  next
    case (Cons x xs)
    then have pos: "0 < ?n" using len by (metis length_greater_0_conv list.distinct(1))
    have "get_next_sequence rid db = Max (set ?xs) + 1"
      using Cons by (simp only: get_next_sequence_def list.case Max.set_eq_fold)
    also have "Max (set ?xs) = int ?n"
      unfolding set using pos by (intro Max_eqI) (auto simp: Suc_le_eq intro!: imageI)
    finally show ?thesis by simp
  qed
qed

lemma contiguous_snoc:
  assumes "contiguous rid db" and "db_events db' = db_events db @ [e]"
    and "ev_run_id e = Some rid" and "ev_sequence e = get_next_sequence rid db"
  shows "contiguous rid db'"
  using assms(1) contiguous_next [OF assms(1)] events_by_run_snoc [OF assms(2-4)] assms(4)
  by (simp add: contiguous_def)

lemma contiguous_append:
  assumes "contiguous rid db" and "events_append [e] db = Inr db'"
    and "ev_event_id e \<notin> ev_event_id ` set (db_events db)"
    and "ev_run_id e = Some rid" and "ev_sequence e = get_next_sequence rid db"
  shows "contiguous rid db'"
  by (rule contiguous_snoc [OF assms(1) events_append_fresh [OF assms(2,3)] assms(4,5)])

text \<open>Events with consecutive sequence numbers, from the next one on.\<close>

lemma contiguous_extend:
  assumes "contiguous rid db" and "db_events db' = db_events db @ es"
    and "\<forall>e \<in> set es. ev_run_id e = Some rid"
    and "map ev_sequence es = map (\<lambda>i. get_next_sequence rid db + int i) [0..<length es]"
  shows "contiguous rid db'"
  using assms
proof (induction es arbitrary: db' rule: rev_induct)
  case Nil
  then show ?case by (simp add: contiguous_def events_by_run_def)
next
  case (snoc e es)
  let ?d = "db\<lparr>db_events := db_events db @ es\<rparr>"
  have c: "contiguous rid ?d"
    by (rule snoc.IH) (use snoc.prems in simp_all)
  have len: "length (events_by_run rid ?d) = length (events_by_run rid db) + length es"
    using snoc.prems(3) by (simp add: events_by_run_def)
  have "get_next_sequence rid ?d = get_next_sequence rid db + int (length es)"
    unfolding contiguous_next [OF c] contiguous_next [OF assms(1)] len by simp
  moreover have "ev_sequence e = get_next_sequence rid db + int (length es)" using snoc.prems(4) by simp
  ultimately show ?case
    by (intro contiguous_snoc [OF c, of db' e]) (use snoc.prems(2,3) in simp_all)
qed

lemma contiguous_other:
  assumes "db_events db' = db_events db @ es" and "\<forall>e \<in> set es. ev_run_id e \<noteq> Some rid"
  shows "contiguous rid db' = contiguous rid db"
  using assms by (simp add: contiguous_def events_by_run_def)

declare events_append.simps [simp del]

end
