(* ===== verification/Policy.thy ===== *)
theory Policy
  imports Prelude
begin

text \<open>
  \<open>runtime/permissions/policy.py\<close>: the host-owned lifetime of a permission request.  The environment
  variable is a parameter (the empty string when it is not set); an instant is in microseconds.
\<close>

definition DEFAULT_PERMISSION_REQUEST_TTL_SECONDS :: int where
  "DEFAULT_PERMISSION_REQUEST_TTL_SECONDS = 15 * 60"
definition MIN_PERMISSION_REQUEST_TTL_SECONDS :: int where
  "MIN_PERMISSION_REQUEST_TTL_SECONDS = 30"
definition MAX_PERMISSION_REQUEST_TTL_SECONDS :: int where
  "MAX_PERMISSION_REQUEST_TTL_SECONDS = 24 * 60 * 60"

text \<open>
  \<open>int(text)\<close> of a stripped text: an optional sign, then digits, with single underscores allowed
  between digits.
\<close>

definition digit_value :: "char \<Rightarrow> int option" where
  "digit_value c =
     (let n = (of_char c :: nat) in if 48 \<le> n \<and> n \<le> 57 then Some (int n - 48) else None)"

fun parse_digits :: "int \<Rightarrow> bool \<Rightarrow> string \<Rightarrow> int option" where
  "parse_digits acc after_digit [] = (if after_digit then Some acc else None)"
| "parse_digits acc after_digit (c # cs) =
     (if c = CHR ''_'' then (if after_digit then parse_digits acc False cs else None)
      else case digit_value c of None \<Rightarrow> None | Some d \<Rightarrow> parse_digits (10 * acc + d) True cs)"

definition py_int :: "string \<Rightarrow> int option" where
  "py_int s =
     (case s of
        c # cs \<Rightarrow>
          if c = CHR ''-'' then map_option uminus (parse_digits 0 False cs)
          else if c = CHR ''+'' then parse_digits 0 False cs
          else parse_digits 0 False s
      | [] \<Rightarrow> None)"

definition permission_request_ttl_seconds :: "string \<Rightarrow> int" where
  "permission_request_ttl_seconds env =
     (let raw = py_strip env in
      if raw = [] then DEFAULT_PERMISSION_REQUEST_TTL_SECONDS
      else case py_int raw of
             None \<Rightarrow> DEFAULT_PERMISSION_REQUEST_TTL_SECONDS
           | Some v \<Rightarrow> max MIN_PERMISSION_REQUEST_TTL_SECONDS (min v MAX_PERMISSION_REQUEST_TTL_SECONDS))"

definition permission_request_deadline :: "string \<Rightarrow> int option \<Rightarrow> int \<Rightarrow> int res" where
  "permission_request_deadline env ttl_seconds created_at =
     (let ttl = (case ttl_seconds of None \<Rightarrow> permission_request_ttl_seconds env | Some t \<Rightarrow> t) in
      if ttl < 1 then Inl ValueError else Inr (created_at + ttl * 1000000))"

definition permission_request_is_expired :: "int option \<Rightarrow> int \<Rightarrow> bool" where
  "permission_request_is_expired expires_at now =
     (case expires_at of None \<Rightarrow> True | Some t \<Rightarrow> t \<le> now)"

lemma ttl_bounds:
  "MIN_PERMISSION_REQUEST_TTL_SECONDS \<le> permission_request_ttl_seconds env \<and>
   permission_request_ttl_seconds env \<le> MAX_PERMISSION_REQUEST_TTL_SECONDS"
  by (auto simp: permission_request_ttl_seconds_def Let_def MIN_PERMISSION_REQUEST_TTL_SECONDS_def
      MAX_PERMISSION_REQUEST_TTL_SECONDS_def DEFAULT_PERMISSION_REQUEST_TTL_SECONDS_def
      split: option.splits)

lemma default_deadline_Inr:
  "permission_request_deadline env None now = Inr (now + permission_request_ttl_seconds env * 1000000)"
  using ttl_bounds [of env]
  by (simp add: permission_request_deadline_def MIN_PERMISSION_REQUEST_TTL_SECONDS_def)

section \<open>Properties\<close>

text \<open>
  Whatever the environment variable holds, a request created now always gets a deadline: it is
  not expired for the first thirty seconds, it is expired after a day, once expired it stays
  expired, and a request without a deadline counts as expired.
\<close>

theorem request_lifetime_bounded:
  "\<exists>deadline. permission_request_deadline env None created = Inr deadline \<and>
     (\<forall>now. (now < created + 30 * 1000000 \<longrightarrow> \<not> permission_request_is_expired (Some deadline) now) \<and>
       (created + 86400 * 1000000 \<le> now \<longrightarrow> permission_request_is_expired (Some deadline) now) \<and>
       (\<forall>later. permission_request_is_expired (Some deadline) now \<longrightarrow> now \<le> later \<longrightarrow>
          permission_request_is_expired (Some deadline) later) \<and>
       permission_request_is_expired None now)"
  using ttl_bounds [of env]
  by (auto simp: default_deadline_Inr permission_request_is_expired_def
      MIN_PERMISSION_REQUEST_TTL_SECONDS_def MAX_PERMISSION_REQUEST_TTL_SECONDS_def)

section \<open>Witness\<close>

lemma request_lifetime_bounded_witness:
  "\<exists>deadline. permission_request_deadline ''1_0'' None 0 = Inr deadline \<and>
     \<not> permission_request_is_expired (Some deadline) 1 \<and> permission_request_is_expired (Some deadline) 86400000000"
proof -
  obtain d where d: "permission_request_deadline ''1_0'' None 0 = Inr d"
    and life: "\<forall>now. (now < 30 * 1000000 \<longrightarrow> \<not> permission_request_is_expired (Some d) now) \<and>
       (86400 * 1000000 \<le> now \<longrightarrow> permission_request_is_expired (Some d) now)"
    using request_lifetime_bounded [of "''1_0''" 0] by auto
  have "\<not> permission_request_is_expired (Some d) 1" using life by simp
  moreover have "permission_request_is_expired (Some d) 86400000000" using life by simp
  ultimately show ?thesis using d by blast
qed

end
