(* ===== verification/Harness.thy ===== *)
theory Harness
  imports PyJson
begin

text \<open>
  \<open>agent/harness/run_supervisor.py\<close>: the execution budget of one AgentRun, its persisted
  snapshot, the monotone cancellation signal, and the stop boundary every Runner result must
  respect.  A clock reading is a parameter; a function that reads the clock twice has two.
\<close>

section \<open>Budget and persisted control state\<close>

definition MAX_TOOL_ITERATIONS :: int where "MAX_TOOL_ITERATIONS = 20"
definition MAX_MODEL_CALLS :: int where "MAX_MODEL_CALLS = 100"
definition MAX_RUN_SECONDS :: int where "MAX_RUN_SECONDS = 86400"
definition RUN_CONTROL_VERSION :: string where "RUN_CONTROL_VERSION = ''run-control-v1''"

record run_budget =
  rb_max_tool_iterations :: int
  rb_max_model_calls :: int
  rb_max_run_seconds :: int

definition int_between :: "int \<Rightarrow> int \<Rightarrow> json \<Rightarrow> bool" where
  "int_between lo hi j \<longleftrightarrow> is_int j \<and> \<not> is_bool j \<and> lo \<le> int_of j \<and> int_of j \<le> hi"

text \<open>\<open>RunBudget.__post_init__\<close>\<close>

definition mk_run_budget :: "json \<Rightarrow> json \<Rightarrow> json \<Rightarrow> run_budget res" where
  "mk_run_budget tools models seconds =
     rbind (checks
       [need (int_between 1 MAX_TOOL_ITERATIONS tools),
        need (int_between 1 MAX_MODEL_CALLS models),
        need (int_between 1 MAX_RUN_SECONDS seconds)])
     (\<lambda>_. Inr \<lparr>rb_max_tool_iterations = int_of tools, rb_max_model_calls = int_of models,
               rb_max_run_seconds = int_of seconds\<rparr>)"

record run_control =
  rc_started_at :: int
  rc_deadline_at :: int
  rc_max_tool_iterations :: int
  rc_max_model_calls :: int
  rc_max_run_seconds :: int
  rc_model_calls_used :: int

definition run_control_fields :: "string list" where
  "run_control_fields = [''started_at'', ''deadline_at'', ''max_tool_iterations'',
     ''max_model_calls'', ''max_run_seconds'', ''model_calls_used'', ''version'']"

fun parse_utc :: "json \<Rightarrow> int res" where
  "parse_utc (JTime t) = Inr t"
| "parse_utc _ = Inl ValueError"

definition run_control_to_state_dict :: "run_control \<Rightarrow> json" where
  "run_control_to_state_dict c = JObj
     [(''started_at'', JTime (rc_started_at c)),
      (''deadline_at'', JTime (rc_deadline_at c)),
      (''max_tool_iterations'', JInt (rc_max_tool_iterations c)),
      (''max_model_calls'', JInt (rc_max_model_calls c)),
      (''max_run_seconds'', JInt (rc_max_run_seconds c)),
      (''model_calls_used'', JInt (rc_model_calls_used c)),
      (''version'', JStr RUN_CONTROL_VERSION)]"

definition run_control_from_state_dict :: "json \<Rightarrow> run_control res" where
  "run_control_from_state_dict value =
     (let d = entries_of value; f = (\<lambda>k. dget d k JNull) in
      rbind (need (is_dict value \<and> has_keys d run_control_fields)) (\<lambda>_.
      rbind (mk_run_budget (f ''max_tool_iterations'') (f ''max_model_calls'') (f ''max_run_seconds''))
        (\<lambda>budget.
      rbind (need (f ''version'' = JStr RUN_CONTROL_VERSION \<and>
                   int_between 0 (rb_max_model_calls budget) (f ''model_calls_used''))) (\<lambda>_.
      rbind (parse_utc (f ''started_at'')) (\<lambda>started_at.
      rbind (parse_utc (f ''deadline_at'')) (\<lambda>deadline_at.
      if deadline_at \<le> started_at then Inl ValueError
      else Inr \<lparr>rc_started_at = started_at, rc_deadline_at = deadline_at,
                rc_max_tool_iterations = rb_max_tool_iterations budget,
                rc_max_model_calls = rb_max_model_calls budget,
                rc_max_run_seconds = rb_max_run_seconds budget,
                rc_model_calls_used = int_of (f ''model_calls_used'')\<rparr>))))))"

definition run_control_ok :: "run_control \<Rightarrow> bool" where
  "run_control_ok c \<longleftrightarrow>
     1 \<le> rc_max_tool_iterations c \<and> rc_max_tool_iterations c \<le> MAX_TOOL_ITERATIONS \<and>
     1 \<le> rc_max_model_calls c \<and> rc_max_model_calls c \<le> MAX_MODEL_CALLS \<and>
     1 \<le> rc_max_run_seconds c \<and> rc_max_run_seconds c \<le> MAX_RUN_SECONDS \<and>
     0 \<le> rc_model_calls_used c \<and> rc_model_calls_used c \<le> rc_max_model_calls c \<and>
     rc_started_at c < rc_deadline_at c"

definition run_budget_ok :: "run_budget \<Rightarrow> bool" where
  "run_budget_ok b \<longleftrightarrow>
     1 \<le> rb_max_tool_iterations b \<and> rb_max_tool_iterations b \<le> MAX_TOOL_ITERATIONS \<and>
     1 \<le> rb_max_model_calls b \<and> rb_max_model_calls b \<le> MAX_MODEL_CALLS \<and>
     1 \<le> rb_max_run_seconds b \<and> rb_max_run_seconds b \<le> MAX_RUN_SECONDS"

section \<open>Supervisor operations\<close>

text \<open>
  The supervisor reads and writes only the \<open>run_control\<close> field of the agent state; \<open>JNull\<close> is
  \<open>None\<close>.  \<open>now\<close> is the reading taken when the state has to be created.
\<close>

definition ensure_run_control :: "run_budget \<Rightarrow> int \<Rightarrow> json \<Rightarrow> (run_control \<times> json) res" where
  "ensure_run_control b now raw =
     (if raw \<noteq> JNull then rbind (run_control_from_state_dict raw) (\<lambda>c. Inr (c, raw))
      else (let control =
              \<lparr>rc_started_at = now,
               rc_deadline_at = now + rb_max_run_seconds b * 1000000,
               rc_max_tool_iterations = rb_max_tool_iterations b,
               rc_max_model_calls = rb_max_model_calls b,
               rc_max_run_seconds = rb_max_run_seconds b,
               rc_model_calls_used = 0\<rparr>
            in Inr (control, run_control_to_state_dict control)))"

datatype halt = RunDeadlineExceeded | ModelCallBudgetExhausted

definition before_phase :: "run_budget \<Rightarrow> int \<Rightarrow> int \<Rightarrow> json \<Rightarrow> (halt option \<times> json) res" where
  "before_phase b now0 now raw =
     rbind (ensure_run_control b now0 raw) (\<lambda>(control, raw').
     Inr (if now \<ge> rc_deadline_at control then (Some RunDeadlineExceeded, raw') else (None, raw')))"

definition before_model_call :: "run_budget \<Rightarrow> int \<Rightarrow> int \<Rightarrow> json \<Rightarrow> (halt option \<times> json) res" where
  "before_model_call b now0 now raw =
     rbind (before_phase b now0 now raw) (\<lambda>(halted, raw').
     if halted \<noteq> None then Inr (halted, raw')
     else rbind (run_control_from_state_dict raw') (\<lambda>control.
       if rc_model_calls_used control \<ge> rc_max_model_calls control
       then Inr (Some ModelCallBudgetExhausted, raw')
       else Inr (None, run_control_to_state_dict
              (control\<lparr>rc_model_calls_used := rc_model_calls_used control + 1\<rparr>))))"

text \<open>
  A history of model calls of one Run: each element holds the two clock readings of one
  call; the result counts the calls that were let through.
\<close>

fun model_call_history :: "run_budget \<Rightarrow> (int \<times> int) list \<Rightarrow> json \<Rightarrow> (nat \<times> json) res" where
  "model_call_history b [] raw = Inr (0, raw)"
| "model_call_history b ((t0, t) # ts) raw =
     rbind (before_model_call b t0 t raw) (\<lambda>(halted, raw').
     rbind (model_call_history b ts raw') (\<lambda>(n, raw'').
     Inr (if halted = None then Suc n else n, raw'')))"

section \<open>Cancellation\<close>

record cancellation =
  cc_has_probe :: bool
  cc_cancelled :: bool

definition is_cancelled :: "bool \<Rightarrow> cancellation \<Rightarrow> bool \<times> cancellation" where
  "is_cancelled probe c =
     (if cc_cancelled c then (True, c)
      else (let c' = (if cc_has_probe c \<and> probe then c\<lparr>cc_cancelled := True\<rparr> else c)
            in (cc_cancelled c', c')))"

fun poll_cancellation :: "bool list \<Rightarrow> cancellation \<Rightarrow> bool list" where
  "poll_cancellation [] c = []"
| "poll_cancellation (p # ps) c = (let (r, c') = is_cancelled p c in r # poll_cancellation ps c')"

section \<open>Stop boundary\<close>

definition run_terminal_event_types :: "string list" where
  "run_terminal_event_types = [''agent.run.completed'', ''agent.run.failed'', ''agent.run.cancelled'']"

definition run_suspension_event_types :: "string list" where
  "run_suspension_event_types = [''agent.run.paused'', ''permission.required'']"

definition is_terminal_event :: "string \<Rightarrow> bool" where
  "is_terminal_event ty \<longleftrightarrow> ty \<in> set run_terminal_event_types"

definition is_stop_event :: "string \<Rightarrow> bool" where
  "is_stop_event ty \<longleftrightarrow> ty \<in> set run_terminal_event_types \<union> set run_suspension_event_types"

text \<open>\<open>validate_result\<close> over the event types of the envelopes; a violation is a \<open>RuntimeError\<close>.\<close>

definition validate_result :: "string list \<Rightarrow> unit res" where
  "validate_result types =
     (if types = [] then Inl RuntimeError
      else (let terminal_indexes = filter (\<lambda>i. is_terminal_event (types ! i)) [0..<length types] in
        if length terminal_indexes > 1 then Inl RuntimeError
        else if terminal_indexes \<noteq> [] then
          (if hd terminal_indexes \<noteq> length types - 1 then Inl RuntimeError else Inr ())
        else if last types \<notin> set run_suspension_event_types then Inl RuntimeError
        else Inr ()))"

section \<open>Lemmas\<close>

lemmas run_control_unfold = run_control_from_state_dict_def run_control_to_state_dict_def
  mk_run_budget_def int_between_def

lemma int_between_strict: "int_between lo hi j \<Longrightarrow> j = JInt (int_of j)"
  by (cases j) (auto simp: int_between_def)

lemma run_control_roundtrip:
  "run_control_ok c \<Longrightarrow> run_control_from_state_dict (run_control_to_state_dict c) = Inr c"
  by (auto simp: run_control_unfold run_control_ok_def has_keys_def run_control_fields_def Let_def)

lemma run_control_from_ok: "run_control_from_state_dict j = Inr c \<Longrightarrow> run_control_ok c"
  by (auto simp: run_control_from_state_dict_def mk_run_budget_def int_between_def run_control_ok_def
      Let_def rbind_Inr_iff split: if_splits)

lemma ensure_run_control_ok:
  "run_budget_ok b \<Longrightarrow> ensure_run_control b now raw = Inr (c, raw') \<Longrightarrow>
     run_control_ok c \<and> run_control_from_state_dict raw' = Inr c"
  by (auto simp: ensure_run_control_def Let_def rbind_Inr_iff run_budget_ok_def
      intro: run_control_from_ok run_control_roundtrip split: if_splits)
    (auto simp: run_control_ok_def intro!: run_control_roundtrip)

text \<open>What a call changes: at most the counter, by one, and only when it was let through.\<close>

lemma before_model_call_effect:
  assumes "run_budget_ok b" and "before_model_call b t0 t raw = Inr (h, raw')"
  obtains c r where "ensure_run_control b t0 raw = Inr (c, r)"
    and "h = None \<Longrightarrow> rc_model_calls_used c < rc_max_model_calls c \<and> t < rc_deadline_at c"
    and "run_control_from_state_dict raw' =
           Inr (if h = None then c\<lparr>rc_model_calls_used := rc_model_calls_used c + 1\<rparr> else c)"
proof -
  from assms(2) obtain c r where c: "ensure_run_control b t0 raw = Inr (c, r)"
    by (auto simp: before_model_call_def before_phase_def rbind_Inr_iff)
  with assms(1) have ok: "run_control_ok c" "run_control_from_state_dict r = Inr c"
    by (auto dest: ensure_run_control_ok)
  have step: "run_control_from_state_dict (run_control_to_state_dict
      (c\<lparr>rc_model_calls_used := rc_model_calls_used c + 1\<rparr>)) =
      Inr (c\<lparr>rc_model_calls_used := rc_model_calls_used c + 1\<rparr>)"
    if "rc_model_calls_used c < rc_max_model_calls c"
    using that ok(1) by (intro run_control_roundtrip) (auto simp: run_control_ok_def)
  show ?thesis
    by (rule that [OF c])
      (use assms(2) c ok step in \<open>auto simp: before_model_call_def before_phase_def split: if_splits\<close>)
qed

text \<open>The count of a whole history is what the persisted state has counted.\<close>

lemma ensure_run_control_persisted:
  "run_control_from_state_dict raw = Inr c \<Longrightarrow> ensure_run_control b t0 raw = Inr (c, raw)"
  by (auto simp: ensure_run_control_def run_control_from_state_dict_def need_def split: if_splits)

lemma model_call_history_counts:
  "run_budget_ok b \<Longrightarrow> run_control_from_state_dict raw = Inr c \<Longrightarrow> model_call_history b ts raw = Inr (n, raw') \<Longrightarrow>
    \<exists>c'. run_control_from_state_dict raw' = Inr c' \<and>
      rc_model_calls_used c' = rc_model_calls_used c + int n \<and>
      rc_max_model_calls c' = rc_max_model_calls c \<and> rc_deadline_at c' = rc_deadline_at c"
proof (induction ts arbitrary: raw c n)
  case Nil
  then show ?case by auto
next
  case (Cons tt ts)
  obtain t0 t where tt: "tt = (t0, t)" by (cases tt)
  from Cons(4) obtain h r m where hd: "before_model_call b t0 t raw = Inr (h, r)"
    and tl: "model_call_history b ts r = Inr (m, raw')" and n: "n = (if h = None then Suc m else m)"
    by (auto simp: rbind_Inr_iff tt)
  from \<open>run_budget_ok b\<close> hd obtain c0 r0 where e: "ensure_run_control b t0 raw = Inr (c0, r0)"
    and r0: "run_control_from_state_dict r =
      Inr (if h = None then c0\<lparr>rc_model_calls_used := rc_model_calls_used c0 + 1\<rparr> else c0)"
    by (rule before_model_call_effect)
  have "c0 = c"
    using e ensure_run_control_persisted [OF \<open>run_control_from_state_dict raw = Inr c\<close>, of b t0] by simp
  note r = r0 [unfolded this]
  from Cons(1) [OF Cons(2) r tl] n show ?case by (auto split: if_splits)
qed

lemma poll_cancelled: "cc_cancelled c \<Longrightarrow> poll_cancellation ps c = replicate (length ps) True"
  by (induction ps arbitrary: c) (simp_all add: is_cancelled_def)

lemma poll_cancellation_nth:
  "i < length ps \<Longrightarrow> poll_cancellation ps c ! i \<longleftrightarrow>
     cc_cancelled c \<or> cc_has_probe c \<and> True \<in> set (take (Suc i) ps)"
proof (induction ps arbitrary: c i)
  case (Cons p ps)
  show ?case
  proof (cases "cc_cancelled c \<or> cc_has_probe c \<and> p")
    case True
    then show ?thesis using Cons.prems
      by (cases i) (auto simp: is_cancelled_def poll_cancelled)
  next
    case False
    then show ?thesis using Cons by (cases i) (auto simp: is_cancelled_def)
  qed
qed simp

lemma length_poll_cancellation [simp]: "length (poll_cancellation ps c) = length ps"
  by (induction ps arbitrary: c) (simp_all add: Let_def split_def)

section \<open>Properties\<close>

text \<open>
  The model-call budget of a Run is never exceeded: over any history of calls, through any
  number of restarts (each call works on the persisted state alone), the calls let through plus
  those already counted stay within the limit, the counter records exactly the calls let
  through, and neither the limit nor the deadline ever moves.  For a new Run the limit is the
  configured budget.
\<close>

theorem model_call_budget_bounds:
  assumes "run_budget_ok b" and "model_call_history b ts raw = Inr (n, raw')"
  shows "(raw = JNull \<longrightarrow> int n \<le> rb_max_model_calls b) \<and>
    (\<forall>c. run_control_from_state_dict raw = Inr c \<longrightarrow>
      int n + rc_model_calls_used c \<le> rc_max_model_calls c \<and>
      (\<exists>c'. run_control_from_state_dict raw' = Inr c' \<and>
         rc_model_calls_used c' = rc_model_calls_used c + int n \<and>
         rc_max_model_calls c' = rc_max_model_calls c \<and> rc_deadline_at c' = rc_deadline_at c))"
proof -
  have restored: "int n + rc_model_calls_used c \<le> rc_max_model_calls c \<and>
      (\<exists>c'. run_control_from_state_dict raw' = Inr c' \<and>
         rc_model_calls_used c' = rc_model_calls_used c + int n \<and>
         rc_max_model_calls c' = rc_max_model_calls c \<and> rc_deadline_at c' = rc_deadline_at c)"
    if "run_control_from_state_dict r = Inr c" "model_call_history b ts' r = Inr (n, raw')" for c r ts'
    using model_call_history_counts [OF assms(1) that] by (auto dest!: run_control_from_ok simp: run_control_ok_def)
  moreover have "int n \<le> rb_max_model_calls b" if "raw = JNull"
  proof (cases ts)
    case Nil
    then show ?thesis using assms by (simp add: run_budget_ok_def)
  next
    case (Cons tt ts')
    obtain t0 t where tt: "tt = (t0, t)" by (cases tt)
    obtain c r where e: "ensure_run_control b t0 JNull = Inr (c, r)" and max: "rc_max_model_calls c = rb_max_model_calls b"
      and used: "rc_model_calls_used c = 0"
      by (auto simp: ensure_run_control_def Let_def)
    from ensure_run_control_ok [OF assms(1) e] have r: "run_control_from_state_dict r = Inr c" by simp
    have "model_call_history b ts r = model_call_history b ts raw"
      using e that ensure_run_control_persisted [OF r, of b t0]
      by (simp add: Cons tt before_model_call_def before_phase_def)
    then show ?thesis using restored [OF r, of ts] assms(2) max used by simp
  qed
  ultimately show ?thesis using assms(2) by blast
qed

text \<open>
  The persisted run control can be restored exactly when it is well formed (limits within the
  hard caps, counter within its limit, deadline after the start), and a restored control writes
  back to the same control.
\<close>

theorem run_control_restored_iff_ok:
  "((\<exists>j. run_control_from_state_dict j = Inr c) \<longleftrightarrow> run_control_ok c) \<and>
   (run_control_from_state_dict (run_control_to_state_dict c) = Inr c \<longleftrightarrow> run_control_ok c)"
  using run_control_from_ok run_control_roundtrip by blast

text \<open>
  The stop boundary accepts a Runner result exactly when it is not empty, its last event is a
  terminal or a suspension event, and no terminal event comes before the last.
\<close>

theorem validate_result_iff:
  "validate_result types = Inr () \<longleftrightarrow>
     types \<noteq> [] \<and> is_stop_event (last types) \<and> filter is_terminal_event (butlast types) = []"
proof (cases types rule: rev_cases)
  case Nil
  then show ?thesis by (simp add: validate_result_def)
next
  case (snoc xs x)
  have idx: "filter (\<lambda>i. is_terminal_event (types ! i)) [0..<length types] =
    filter (\<lambda>i. is_terminal_event (xs ! i)) [0..<length xs] @ (if is_terminal_event x then [length xs] else [])"
    by (auto simp: snoc nth_append intro!: filter_cong)
  have none: "filter (\<lambda>i. is_terminal_event (xs ! i)) [0..<length xs] = [] \<longleftrightarrow> filter is_terminal_event xs = []"
    by (auto simp: filter_empty_conv all_set_conv_all_nth)
  have below: "i < length xs" if "i \<in> set (filter (\<lambda>i. is_terminal_event (xs ! i)) [0..<length xs])" for i
    using that by simp
  have disj: "\<not> (x \<in> set run_suspension_event_types \<and> is_terminal_event x)"
    by (auto simp: run_suspension_event_types_def is_terminal_event_def run_terminal_event_types_def)
  show ?thesis
  proof (cases "filter (\<lambda>i. is_terminal_event (xs ! i)) [0..<length xs]")
    case Nil
    with none have "filter is_terminal_event xs = []" by simp
    with Nil idx show ?thesis
      by (auto simp: validate_result_def Let_def snoc is_stop_event_def is_terminal_event_def)
  next
    case (Cons i js)
    then have "i < length xs" using below [of i] by simp
    moreover from Cons none have "filter is_terminal_event xs \<noteq> []" by simp
    ultimately show ?thesis using Cons idx by (auto simp: validate_result_def Let_def snoc)
  qed
qed

text \<open>
  Cancellation is monotone: the answer of the i-th poll is whether the source was cancelled at
  the start or some probe up to that poll reported cancellation; a probe that later reports
  \<open>False\<close> does not withdraw it.
\<close>

theorem cancellation_monotone:
  "poll_cancellation ps c =
     map (\<lambda>i. cc_cancelled c \<or> cc_has_probe c \<and> True \<in> set (take (Suc i) ps)) [0..<length ps]"
  by (rule nth_equalityI) (simp_all add: poll_cancellation_nth)

section \<open>Witness\<close>

lemma model_call_budget_bounds_witness:
  "int 2 \<le> rb_max_model_calls \<lparr>rb_max_tool_iterations = 5, rb_max_model_calls = 2, rb_max_run_seconds = 60\<rparr>"
proof -
  let ?b = "\<lparr>rb_max_tool_iterations = 5, rb_max_model_calls = 2, rb_max_run_seconds = 60\<rparr>"
  have ok: "run_budget_ok ?b" by code_simp
  have "\<exists>raw'. model_call_history ?b [(0, 1), (2, 2), (3, 3)] JNull = Inr (2, raw')"
    by (simp add: before_model_call_def before_phase_def ensure_run_control_def Let_def
        run_control_unfold run_control_fields_def has_keys_def MAX_TOOL_ITERATIONS_def
        MAX_MODEL_CALLS_def MAX_RUN_SECONDS_def)
  then obtain raw' where "model_call_history ?b [(0, 1), (2, 2), (3, 3)] JNull = Inr (2, raw')" ..
  from model_call_budget_bounds [OF ok this] show ?thesis by simp
qed

end
