(* ===== verification/LoopContracts.thy ===== *)
theory LoopContracts
  imports PyJson
begin

text \<open>
  \<open>agent/loop/contracts.py\<close>: the persisted completion contract, progress snapshot and stop
  decision of the agent loop.  Every string of a tuple is kept as the JSON string it was read
  from.
\<close>

section \<open>Constants\<close>

definition COMPLETION_CONTRACT_VERSION :: string where
  "COMPLETION_CONTRACT_VERSION = ''completion-contract-v2''"
definition LEGACY_COMPLETION_CONTRACT_VERSIONS :: "string list" where
  "LEGACY_COMPLETION_CONTRACT_VERSIONS = [''completion-contract-v1'']"
definition LOOP_PROGRESS_VERSION :: string where
  "LOOP_PROGRESS_VERSION = ''loop-progress-v1''"
definition LOOP_STOP_DECISION_VERSION :: string where
  "LOOP_STOP_DECISION_VERSION = ''loop-stop-v1''"
definition MAX_REQUIREMENTS :: nat where "MAX_REQUIREMENTS = 24"
definition MAX_ACTION_FINGERPRINTS :: nat where "MAX_ACTION_FINGERPRINTS = 40"

definition workspace_evidence_modes :: "string list" where
  "workspace_evidence_modes = [''skip'', ''metadata'', ''required'']"
definition workspace_action_modes :: "string list" where
  "workspace_action_modes = [''none'', ''read'', ''write'', ''destructive'']"
definition workspace_effect_preconditions :: "string list" where
  "workspace_effect_preconditions = [''none'', ''target_absent'']"
definition stop_dispositions :: "string list" where
  "stop_dispositions = [''continue'', ''complete'', ''clarify'', ''fail'']"

section \<open>Helpers\<close>

definition bounded_strings :: "nat \<Rightarrow> nat \<Rightarrow> json \<Rightarrow> json list res" where
  "bounded_strings maximum_items maximum_length value =
     (if is_list value \<and> length (items_of value) \<le> maximum_items \<and>
         (\<forall>item \<in> set (items_of value).
            is_str item \<and> truthy item \<and> str_len item \<le> maximum_length) \<and>
         distinct (items_of value)
      then Inr (items_of value) else Inl ValueError)"

definition upper_char :: "char \<Rightarrow> bool" where
  "upper_char c \<longleftrightarrow> 65 \<le> (of_char c :: nat) \<and> (of_char c :: nat) \<le> 90"

definition digit_char :: "char \<Rightarrow> bool" where
  "digit_char c \<longleftrightarrow> 48 \<le> (of_char c :: nat) \<and> (of_char c :: nat) \<le> 57"

text \<open>\<open>^[A-Z][A-Z0-9_]{2,79}$\<close>, matched against the whole string.\<close>

definition reason_code_ok :: "json \<Rightarrow> bool" where
  "reason_code_ok j =
     (case j of JStr (c # cs) \<Rightarrow>
        upper_char c \<and> 2 \<le> length cs \<and> length cs \<le> 79 \<and>
        (\<forall>x \<in> set cs. upper_char x \<or> digit_char x \<or> x = CHR ''_'')
      | _ \<Rightarrow> False)"

definition valid_workspace_effect_target :: "json \<Rightarrow> bool" where
  "valid_workspace_effect_target value =
     (case value of
        JStr s \<Rightarrow>
          length s \<le> 500 \<and>
          (s = [] \<or>
           CHR 0x5C \<notin> set s \<and> CHR 0x00 \<notin> set s \<and> hd s \<noteq> CHR 0x2F \<and>
           path_suffix s \<noteq> [] \<and> \<not> path_absolute s \<and>
           (\<forall>part \<in> set (path_parts s). part \<notin> {[], ''.'', ''..''}))
      | _ \<Rightarrow> False)"

section \<open>Completion contract\<close>

record completion_contract =
  ct_required_tool_names :: "json list"
  ct_requires_rag_evidence :: bool
  ct_workspace_evidence :: json
  ct_workspace_action :: json
  ct_workspace_effect_precondition :: json
  ct_workspace_effect_target :: json
  ct_clarification_required :: bool

definition contract_legacy_fields :: "string list" where
  "contract_legacy_fields = [''required_tool_names'', ''requires_rag_evidence'', ''workspace_evidence'',
     ''workspace_action'', ''clarification_required'', ''version'']"

definition contract_fields :: "string list" where
  "contract_fields = contract_legacy_fields @ [''workspace_effect_precondition'', ''workspace_effect_target'']"

definition contract_to_state_dict :: "completion_contract \<Rightarrow> json" where
  "contract_to_state_dict c = JObj
     [(''required_tool_names'', JList (ct_required_tool_names c)),
      (''requires_rag_evidence'', JBool (ct_requires_rag_evidence c)),
      (''workspace_evidence'', ct_workspace_evidence c),
      (''workspace_action'', ct_workspace_action c),
      (''workspace_effect_precondition'', ct_workspace_effect_precondition c),
      (''workspace_effect_target'', ct_workspace_effect_target c),
      (''clarification_required'', JBool (ct_clarification_required c)),
      (''version'', JStr COMPLETION_CONTRACT_VERSION)]"

text \<open>Which precondition and target the version admits; an unknown version is rejected.\<close>

definition contract_effect_fields :: "dict \<Rightarrow> (json \<times> json) res" where
  "contract_effect_fields d =
     (let version = dget d ''version'' JNull in
      rbind (in_strs version LEGACY_COMPLETION_CONTRACT_VERSIONS) (\<lambda>legacy.
      if legacy then
        (if \<not> has_keys d contract_legacy_fields then Inl ValueError else Inr (JStr ''none'', JStr []))
      else if version = JStr COMPLETION_CONTRACT_VERSION then
        (if \<not> has_keys d contract_fields then Inl ValueError
         else Inr (dget d ''workspace_effect_precondition'' JNull, dget d ''workspace_effect_target'' JNull))
      else Inl ValueError))"

definition contract_from_state_dict :: "json \<Rightarrow> completion_contract res" where
  "contract_from_state_dict value =
     (let d = entries_of value; f = (\<lambda>k. dget d k JNull) in
      rbind (need (is_dict value)) (\<lambda>_.
      rbind (contract_effect_fields d) (\<lambda>(effect_precondition, effect_target).
      rbind (bounded_strings MAX_REQUIREMENTS 200 (f ''required_tool_names'')) (\<lambda>required.
      rbind (checks
        [need_in (f ''workspace_evidence'') workspace_evidence_modes,
         need_in (f ''workspace_action'') workspace_action_modes,
         need_in effect_precondition workspace_effect_preconditions,
         need (valid_workspace_effect_target effect_target),
         need (\<not> (effect_precondition = JStr ''none'' \<and> truthy effect_target)),
         need (\<not> (effect_precondition = JStr ''target_absent'' \<and>
           (\<not> truthy effect_target \<or>
            (f ''workspace_action'' \<noteq> JStr ''write'' \<and> JStr ''workspace.create_file'' \<notin> set required)))),
         need (is_bool (f ''requires_rag_evidence'')),
         need (is_bool (f ''clarification_required''))]) (\<lambda>_.
      Inr \<lparr>ct_required_tool_names = required,
           ct_requires_rag_evidence = truthy (f ''requires_rag_evidence''),
           ct_workspace_evidence = f ''workspace_evidence'',
           ct_workspace_action = f ''workspace_action'',
           ct_workspace_effect_precondition = effect_precondition,
           ct_workspace_effect_target = effect_target,
           ct_clarification_required = truthy (f ''clarification_required'')\<rparr>)))))"

section \<open>Progress snapshot\<close>

record loop_progress =
  lp_tool_calls_used :: int
  lp_successful_tool_names :: "json list"
  lp_failed_tool_names :: "json list"
  lp_successful_action_fingerprints :: "json list"
  lp_failed_action_fingerprints :: "json list"
  lp_no_progress_streak :: int
  lp_last_observation_advanced :: bool

definition progress_fields :: "string list" where
  "progress_fields = [''tool_calls_used'', ''successful_tool_names'', ''failed_tool_names'',
     ''successful_action_fingerprints'', ''failed_action_fingerprints'', ''no_progress_streak'',
     ''last_observation_advanced'', ''version'']"

definition progress_to_state_dict :: "loop_progress \<Rightarrow> json" where
  "progress_to_state_dict p = JObj
     [(''tool_calls_used'', JInt (lp_tool_calls_used p)),
      (''successful_tool_names'', JList (lp_successful_tool_names p)),
      (''failed_tool_names'', JList (lp_failed_tool_names p)),
      (''successful_action_fingerprints'', JList (lp_successful_action_fingerprints p)),
      (''failed_action_fingerprints'', JList (lp_failed_action_fingerprints p)),
      (''no_progress_streak'', JInt (lp_no_progress_streak p)),
      (''last_observation_advanced'', JBool (lp_last_observation_advanced p)),
      (''version'', JStr LOOP_PROGRESS_VERSION)]"

definition count_ok :: "json \<Rightarrow> bool" where
  "count_ok j \<longleftrightarrow> is_int j \<and> \<not> is_bool j \<and> 0 \<le> int_of j \<and> int_of j \<le> int MAX_ACTION_FINGERPRINTS"

definition progress_from_state_dict :: "json \<Rightarrow> loop_progress res" where
  "progress_from_state_dict value =
     (let d = entries_of value; f = (\<lambda>k. dget d k JNull) in
      rbind (need (is_dict value \<and> has_keys d progress_fields)) (\<lambda>_.
      rbind (checks
        [need (f ''version'' = JStr LOOP_PROGRESS_VERSION),
         need (count_ok (f ''tool_calls_used'')),
         need (count_ok (f ''no_progress_streak'')),
         need (is_bool (f ''last_observation_advanced''))]) (\<lambda>_.
      rbind (bounded_strings MAX_REQUIREMENTS 200 (f ''successful_tool_names'')) (\<lambda>succ_tools.
      rbind (bounded_strings MAX_REQUIREMENTS 200 (f ''failed_tool_names'')) (\<lambda>fail_tools.
      rbind (bounded_strings MAX_ACTION_FINGERPRINTS 64 (f ''successful_action_fingerprints'')) (\<lambda>succ_fps.
      rbind (bounded_strings MAX_ACTION_FINGERPRINTS 64 (f ''failed_action_fingerprints'')) (\<lambda>fail_fps.
      Inr \<lparr>lp_tool_calls_used = int_of (f ''tool_calls_used''),
           lp_successful_tool_names = succ_tools,
           lp_failed_tool_names = fail_tools,
           lp_successful_action_fingerprints = succ_fps,
           lp_failed_action_fingerprints = fail_fps,
           lp_no_progress_streak = int_of (f ''no_progress_streak''),
           lp_last_observation_advanced = truthy (f ''last_observation_advanced'')\<rparr>)))))))"

section \<open>Stop decision\<close>

record stop_decision =
  sd_disposition :: json
  sd_reason_code :: json
  sd_missing_requirements :: "json list"

definition stop_fields :: "string list" where
  "stop_fields = [''disposition'', ''reason_code'', ''missing_requirements'', ''version'']"

definition stop_to_state_dict :: "stop_decision \<Rightarrow> json" where
  "stop_to_state_dict s = JObj
     [(''disposition'', sd_disposition s),
      (''reason_code'', sd_reason_code s),
      (''missing_requirements'', JList (sd_missing_requirements s)),
      (''version'', JStr LOOP_STOP_DECISION_VERSION)]"

definition stop_from_state_dict :: "json \<Rightarrow> stop_decision res" where
  "stop_from_state_dict value =
     (let d = entries_of value; f = (\<lambda>k. dget d k JNull) in
      rbind (need (is_dict value \<and> has_keys d stop_fields)) (\<lambda>_.
      rbind (checks
        [need (f ''version'' = JStr LOOP_STOP_DECISION_VERSION),
         need_in (f ''disposition'') stop_dispositions,
         need (reason_code_ok (f ''reason_code''))]) (\<lambda>_.
      rbind (bounded_strings MAX_REQUIREMENTS 200 (f ''missing_requirements'')) (\<lambda>missing.
      Inr \<lparr>sd_disposition = f ''disposition'', sd_reason_code = f ''reason_code'',
           sd_missing_requirements = missing\<rparr>))))"

section \<open>Lemmas\<close>

lemma bounded_strings_JList:
  "bounded_strings n m (JList xs) = Inr ys \<longleftrightarrow>
     ys = xs \<and> length xs \<le> n \<and> (\<forall>x \<in> set xs. is_str x \<and> truthy x \<and> str_len x \<le> m) \<and> distinct xs"
  by (auto simp: bounded_strings_def)

lemma bounded_strings_idem: "bounded_strings n m j = Inr xs \<Longrightarrow> bounded_strings n m (JList xs) = Inr xs"
  by (auto simp: bounded_strings_def split: if_splits)

lemma count_ok_JInt [simp]: "count_ok (JInt n) \<longleftrightarrow> 0 \<le> n \<and> n \<le> int MAX_ACTION_FINGERPRINTS"
  by (simp add: count_ok_def)

lemma count_ok_int_of: "count_ok j \<Longrightarrow> 0 \<le> int_of j \<and> int_of j \<le> int MAX_ACTION_FINGERPRINTS"
  by (simp add: count_ok_def)

lemma bounded_strings_Inr:
  "bounded_strings n m j = Inr xs \<longleftrightarrow> j = JList xs \<and> bounded_strings n m (JList xs) = Inr xs"
  by (cases j) (auto simp: bounded_strings_def)

text \<open>The well-formed progress snapshots and stop decisions: what can be restored.\<close>

definition progress_ok :: "loop_progress \<Rightarrow> bool" where
  "progress_ok p \<longleftrightarrow>
     0 \<le> lp_tool_calls_used p \<and> lp_tool_calls_used p \<le> int MAX_ACTION_FINGERPRINTS \<and>
     0 \<le> lp_no_progress_streak p \<and> lp_no_progress_streak p \<le> int MAX_ACTION_FINGERPRINTS \<and>
     is_ok (bounded_strings MAX_REQUIREMENTS 200 (JList (lp_successful_tool_names p))) \<and>
     is_ok (bounded_strings MAX_REQUIREMENTS 200 (JList (lp_failed_tool_names p))) \<and>
     is_ok (bounded_strings MAX_ACTION_FINGERPRINTS 64 (JList (lp_successful_action_fingerprints p))) \<and>
     is_ok (bounded_strings MAX_ACTION_FINGERPRINTS 64 (JList (lp_failed_action_fingerprints p)))"

definition stop_ok :: "stop_decision \<Rightarrow> bool" where
  "stop_ok s \<longleftrightarrow>
     (\<exists>x \<in> set stop_dispositions. sd_disposition s = JStr x) \<and> reason_code_ok (sd_reason_code s) \<and>
     is_ok (bounded_strings MAX_REQUIREMENTS 200 (JList (sd_missing_requirements s)))"

lemma bounded_strings_ok:
  "is_ok (bounded_strings n m (JList xs)) \<longleftrightarrow> bounded_strings n m (JList xs) = Inr xs"
  by (simp add: bounded_strings_def)

lemma bounded_strings_src: "bounded_strings n m j = Inr xs \<Longrightarrow> is_ok (bounded_strings n m (JList xs))"
  by (auto simp: bounded_strings_def split: if_splits)

lemma progress_from_ok: "progress_from_state_dict j = Inr p \<Longrightarrow> progress_ok p"
  by (auto simp: progress_from_state_dict_def Let_def rbind_Inr_iff progress_ok_def
      dest: count_ok_int_of intro: bounded_strings_src split: if_splits)

lemma progress_to_from: "progress_ok p \<Longrightarrow> progress_from_state_dict (progress_to_state_dict p) = Inr p"
  by (simp add: progress_from_state_dict_def progress_to_state_dict_def Let_def progress_ok_def
      bounded_strings_ok has_keys_def progress_fields_def)

lemma stop_from_ok: "stop_from_state_dict j = Inr s \<Longrightarrow> stop_ok s"
  by (auto simp: stop_from_state_dict_def Let_def rbind_Inr_iff stop_ok_def need_in_Inr
      intro: bounded_strings_src split: if_splits)

lemma stop_to_from: "stop_ok s \<Longrightarrow> stop_from_state_dict (stop_to_state_dict s) = Inr s"
  by (auto simp: stop_from_state_dict_def stop_to_state_dict_def Let_def stop_ok_def
      bounded_strings_ok has_keys_def stop_fields_def need_in_def in_strs_def)

definition contract_ok :: "completion_contract \<Rightarrow> bool" where
  "contract_ok c \<longleftrightarrow>
     is_ok (bounded_strings MAX_REQUIREMENTS 200 (JList (ct_required_tool_names c))) \<and>
     ct_workspace_evidence c \<in> set (map JStr workspace_evidence_modes) \<and>
     ct_workspace_action c \<in> set (map JStr workspace_action_modes) \<and>
     valid_workspace_effect_target (ct_workspace_effect_target c) \<and>
     (if ct_workspace_effect_precondition c = JStr ''target_absent''
      then truthy (ct_workspace_effect_target c) \<and>
           (ct_workspace_action c = JStr ''write'' \<or>
            JStr ''workspace.create_file'' \<in> set (ct_required_tool_names c))
      else ct_workspace_effect_precondition c = JStr ''none'' \<and> \<not> truthy (ct_workspace_effect_target c))"

lemma contract_effect_fields_Inr:
  "contract_effect_fields d = Inr (p, t) \<longleftrightarrow>
     (dget d ''version'' JNull = JStr ''completion-contract-v1'' \<and> has_keys d contract_legacy_fields \<and>
        p = JStr ''none'' \<and> t = JStr []) \<or>
     (dget d ''version'' JNull = JStr COMPLETION_CONTRACT_VERSION \<and> has_keys d contract_fields \<and>
        p = dget d ''workspace_effect_precondition'' JNull \<and> t = dget d ''workspace_effect_target'' JNull)"
  by (auto simp: contract_effect_fields_def Let_def rbind_Inr_iff in_strs_def COMPLETION_CONTRACT_VERSION_def
      LEGACY_COMPLETION_CONTRACT_VERSIONS_def split: if_splits json.splits)

lemma contract_from_ok:
  assumes "contract_from_state_dict j = Inr c"
  shows "contract_ok c"
proof -
  let ?f = "\<lambda>k. dget (entries_of j) k JNull"
  from assms obtain p t required where
    req: "bounded_strings MAX_REQUIREMENTS 200 (?f ''required_tool_names'') = Inr required"
    and modes: "is_ok (need_in (?f ''workspace_evidence'') workspace_evidence_modes)"
      "is_ok (need_in (?f ''workspace_action'') workspace_action_modes)"
      "is_ok (need_in p workspace_effect_preconditions)"
    and tgt: "valid_workspace_effect_target t"
      "\<not> (p = JStr ''none'' \<and> truthy t)"
      "\<not> (p = JStr ''target_absent'' \<and> (\<not> truthy t \<or>
         (?f ''workspace_action'' \<noteq> JStr ''write'' \<and> JStr ''workspace.create_file'' \<notin> set required)))"
    and c: "c = \<lparr>ct_required_tool_names = required,
           ct_requires_rag_evidence = truthy (?f ''requires_rag_evidence''),
           ct_workspace_evidence = ?f ''workspace_evidence'',
           ct_workspace_action = ?f ''workspace_action'',
           ct_workspace_effect_precondition = p,
           ct_workspace_effect_target = t,
           ct_clarification_required = truthy (?f ''clarification_required'')\<rparr>"
    by (simp add: contract_from_state_dict_def Let_def rbind_Inr_iff checks_ok
        del: checks_Cons rbind_need need_in_ok split: prod.splits) blast
  from modes tgt bounded_strings_src [OF req] show ?thesis
    by (auto simp: c contract_ok_def workspace_effect_preconditions_def)
qed

lemma contract_to_from:
  assumes "contract_ok c"
  shows "contract_from_state_dict (contract_to_state_dict c) = Inr c"
proof -
  define d where "d = entries_of (contract_to_state_dict c)"
  have eff: "contract_effect_fields d = Inr (ct_workspace_effect_precondition c, ct_workspace_effect_target c)"
    by (auto simp: d_def contract_effect_fields_Inr contract_to_state_dict_def has_keys_def contract_fields_def
        contract_legacy_fields_def)
  have modes: "need_in (ct_workspace_evidence c) workspace_evidence_modes = Inr ()"
    "need_in (ct_workspace_action c) workspace_action_modes = Inr ()"
    "need_in (ct_workspace_effect_precondition c) workspace_effect_preconditions = Inr ()"
    using assms by (auto simp: contract_ok_def need_in_Inr workspace_effect_preconditions_def split: if_splits)
  have bnd: "bounded_strings MAX_REQUIREMENTS 200 (JList (ct_required_tool_names c)) = Inr (ct_required_tool_names c)"
    and tgt: "valid_workspace_effect_target (ct_workspace_effect_target c)"
    and pre: "if ct_workspace_effect_precondition c = JStr ''target_absent''
      then truthy (ct_workspace_effect_target c) \<and>
           (ct_workspace_action c = JStr ''write'' \<or>
            JStr ''workspace.create_file'' \<in> set (ct_required_tool_names c))
      else ct_workspace_effect_precondition c = JStr ''none'' \<and> \<not> truthy (ct_workspace_effect_target c)"
    using assms unfolding contract_ok_def bounded_strings_ok by blast+
  have obj: "contract_to_state_dict c = JObj d" by (simp add: d_def contract_to_state_dict_def)
  have fields: "dget d ''required_tool_names'' JNull = JList (ct_required_tool_names c)"
    "dget d ''requires_rag_evidence'' JNull = JBool (ct_requires_rag_evidence c)"
    "dget d ''workspace_evidence'' JNull = ct_workspace_evidence c"
    "dget d ''workspace_action'' JNull = ct_workspace_action c"
    "dget d ''clarification_required'' JNull = JBool (ct_clarification_required c)"
    by (simp_all add: d_def contract_to_state_dict_def)
  show ?thesis
  proof (cases "ct_workspace_effect_precondition c = JStr ''target_absent''")
    case True
    then have "truthy (ct_workspace_effect_target c)" and "ct_workspace_action c = JStr ''write'' \<or>
        JStr ''workspace.create_file'' \<in> set (ct_required_tool_names c)"
      using pre by simp_all
    with True modes(3) show ?thesis
      unfolding obj contract_from_state_dict_def by (auto simp: Let_def eff modes(1,2) fields bnd tgt)
  next
    case False
    then have "ct_workspace_effect_precondition c = JStr ''none''" "\<not> truthy (ct_workspace_effect_target c)"
      using pre by simp_all
    with modes(3) show ?thesis
      unfolding obj contract_from_state_dict_def by (simp add: Let_def eff modes(1,2) fields bnd tgt)
  qed
qed

section \<open>Properties\<close>

text \<open>
  The completion contracts that can be restored from a checkpoint are exactly the well-formed
  ones: a restored contract is well formed (in particular a \<open>target_absent\<close> precondition comes
  with a safe relative target and a write, and a legacy v1 contract is restored without a
  precondition), and writing it back in the current version restores the same contract.
\<close>

theorem contract_restored_iff_ok:
  "((\<exists>j. contract_from_state_dict j = Inr c) \<longleftrightarrow> contract_ok c) \<and>
   (contract_from_state_dict (contract_to_state_dict c) = Inr c \<longleftrightarrow> contract_ok c)"
  using contract_from_ok contract_to_from by blast

text \<open>
  The loop's progress snapshots and stop decisions that can be restored are exactly the well-formed
  ones, and they survive a write to the checkpoint and a restore unchanged.
\<close>

theorem loop_state_roundtrip:
  "((\<exists>j. progress_from_state_dict j = Inr p) \<longleftrightarrow> progress_ok p) \<and>
   (progress_from_state_dict (progress_to_state_dict p) = Inr p \<longleftrightarrow> progress_ok p) \<and>
   ((\<exists>j. stop_from_state_dict j = Inr s) \<longleftrightarrow> stop_ok s) \<and>
   (stop_from_state_dict (stop_to_state_dict s) = Inr s \<longleftrightarrow> stop_ok s)"
  using progress_from_ok progress_to_from stop_from_ok stop_to_from by blast

end
