(* ===== verification/Intents.thy ===== *)
theory Intents
  imports PyJson
begin

text \<open>
  \<open>agent/intents/contracts.py\<close>: the frozen document catalog and the versioned structured intent,
  and their fail-closed restoration from a persisted state dict.
\<close>

section \<open>Enumerations\<close>

definition INTENT_POLICY_VERSION :: string where "INTENT_POLICY_VERSION = ''intent-llm-v7''"
definition LEGACY_INTENT_POLICY_VERSIONS :: "string list" where
  "LEGACY_INTENT_POLICY_VERSIONS = [''intent-llm-v5'', ''intent-llm-v6'']"
definition LEGACY_INTENT_POLICIES_WITHOUT_LISTING :: "string list" where
  "LEGACY_INTENT_POLICIES_WITHOUT_LISTING = [''intent-llm-v5'']"
definition PRIMARY_INTENTS :: "string list" where
  "PRIMARY_INTENTS = [''conversation'', ''task'', ''knowledge_question'', ''document_question'',
     ''research_task'', ''knowledge_write'', ''rag_ingestion'', ''unknown'']"
definition RETRIEVAL_MODES :: "string list" where
  "RETRIEVAL_MODES = [''skip'', ''retrieve'', ''required'']"
definition DOCUMENT_SCOPES :: "string list" where
  "DOCUMENT_SCOPES = [''none'', ''all'', ''selected'', ''unresolved'']"
definition EFFECT_MODES :: "string list" where
  "EFFECT_MODES = [''skip'', ''optional'', ''required'']"
definition WORKSPACE_EVIDENCE_MODES :: "string list" where
  "WORKSPACE_EVIDENCE_MODES = [''skip'', ''metadata'', ''required'']"
definition WORKSPACE_ACTION_MODES :: "string list" where
  "WORKSPACE_ACTION_MODES = [''none'', ''read'', ''write'', ''destructive'']"
definition WORKSPACE_AMBIGUITY_MODES :: "string list" where
  "WORKSPACE_AMBIGUITY_MODES = [''clear'', ''clarification_required'']"
definition WORKSPACE_LISTING_ENTRY_TYPES :: "string list" where
  "WORKSPACE_LISTING_ENTRY_TYPES = [''file'', ''dir'', ''symlink'', ''other'']"

section \<open>Document catalog\<close>

record intent_document =
  id_key :: json
  id_document_id :: json
  id_title :: json
  id_created_at :: json
  id_identity_excerpt :: json

definition digit :: "char \<Rightarrow> bool" where
  "digit c \<longleftrightarrow> 48 \<le> (of_char c :: nat) \<and> (of_char c :: nat) \<le> 57"

text \<open>\<open>re.fullmatch(r"doc_[1-9][0-9]?", key)\<close>\<close>

definition doc_key_ok :: "json \<Rightarrow> bool" where
  "doc_key_ok j =
     (case j of
        JStr s \<Rightarrow>
          take 4 s = ''doc_'' \<and>
          (case drop 4 s of
             [c] \<Rightarrow> digit c \<and> c \<noteq> CHR ''0''
           | [c, d] \<Rightarrow> digit c \<and> c \<noteq> CHR ''0'' \<and> digit d
           | _ \<Rightarrow> False)
      | _ \<Rightarrow> False)"

definition document_fields :: "string list" where
  "document_fields = [''key'', ''document_id'', ''title'', ''created_at'', ''identity_excerpt'']"

definition parse_document :: "json list \<Rightarrow> json list \<Rightarrow> json \<Rightarrow> intent_document res" where
  "parse_document seen_keys seen_ids item =
     (let d = entries_of item; f = (\<lambda>k. dget d k JNull) in
      rbind (checks
        [need (is_dict item \<and> has_keys d document_fields),
         need (list_all (\<lambda>p. is_str (snd p)) d),
         need (doc_key_ok (f ''key'') \<and> str_len (f ''title'') \<le> 500 \<and> str_len (f ''created_at'') \<le> 100 \<and>
               str_len (f ''identity_excerpt'') \<le> 600 \<and> f ''key'' \<notin> set seen_keys \<and>
               f ''document_id'' \<notin> set seen_ids),
         need (is_ok (to_uuid (f ''document_id'')))]) (\<lambda>_.
      Inr \<lparr>id_key = f ''key'', id_document_id = f ''document_id'', id_title = f ''title'',
           id_created_at = f ''created_at'', id_identity_excerpt = f ''identity_excerpt''\<rparr>))"

fun parse_documents :: "json list \<Rightarrow> json list \<Rightarrow> json list \<Rightarrow> intent_document list res" where
  "parse_documents seen_keys seen_ids [] = Inr []"
| "parse_documents seen_keys seen_ids (item # items) =
     rbind (parse_document seen_keys seen_ids item) (\<lambda>doc.
     rbind (parse_documents (id_key doc # seen_keys) (id_document_id doc # seen_ids) items) (\<lambda>docs.
     Inr (doc # docs)))"

definition runtime_context_from_state_dict :: "json \<Rightarrow> intent_document list res" where
  "runtime_context_from_state_dict value =
     (let d = entries_of value; documents = dget d ''documents'' JNull in
      rbind (need (is_dict value \<and> has_keys d [''documents''])) (\<lambda>_.
      rbind (need (is_list documents \<and> length (items_of documents) \<le> 50)) (\<lambda>_.
      parse_documents [] [] (items_of documents))))"

definition runtime_context_to_state_dict :: "intent_document list \<Rightarrow> json" where
  "runtime_context_to_state_dict docs = JObj [(''documents'', JList (map (\<lambda>doc. JObj
     [(''key'', id_key doc), (''document_id'', id_document_id doc), (''title'', id_title doc),
      (''created_at'', id_created_at doc), (''identity_excerpt'', id_identity_excerpt doc)]) docs))]"

section \<open>Intent\<close>

record intent_extraction =
  ie_primary_intent :: json
  ie_mode :: json
  ie_query :: json
  ie_confidence :: rat
  ie_retrieval_reason :: json
  ie_document_refs :: "json list"
  ie_document_scope :: json
  ie_resolved_document_ids :: "json list"
  ie_knowledge_write :: json
  ie_knowledge_provenance :: json
  ie_knowledge_title :: json
  ie_rag_ingestion :: json
  ie_evidence :: json
  ie_action :: json
  ie_ambiguity :: json
  ie_listing_entry_types :: "json list"
  ie_workspace_reason :: json
  ie_policy_version :: json
  ie_source :: json

definition valid_string_list :: "nat \<Rightarrow> nat \<Rightarrow> json \<Rightarrow> bool" where
  "valid_string_list maximum_items maximum_length value \<longleftrightarrow>
     is_list value \<and> length (items_of value) \<le> maximum_items \<and>
     list_all (\<lambda>item. is_str item \<and> truthy (strip_str item) \<and>
       str_len (strip_str item) \<le> maximum_length) (items_of value) \<and>
     distinct (items_of value)"

text \<open>A string equals the canonical text of the UUID it parses to exactly when it is such a text.\<close>

definition valid_uuid_list :: "nat \<Rightarrow> json \<Rightarrow> bool" where
  "valid_uuid_list maximum_items value \<longleftrightarrow>
     valid_string_list maximum_items 36 value \<and> list_all (\<lambda>item. is_ok (to_uuid item)) (items_of value)"

definition validate_workspace_semantics :: "json \<Rightarrow> json \<Rightarrow> json \<Rightarrow> json list \<Rightarrow> unit res" where
  "validate_workspace_semantics evidence action ambiguity listing =
     checks
       [need (\<not> (action = JStr ''read'' \<and> evidence \<notin> {JStr ''metadata'', JStr ''required''})),
        need (\<not> (evidence \<in> {JStr ''metadata'', JStr ''required''} \<and> action \<noteq> JStr ''read'')),
        need (\<not> (action = JStr ''none'' \<and> (evidence \<noteq> JStr ''skip'' \<or> ambiguity \<noteq> JStr ''clear''))),
        need (\<not> (ambiguity = JStr ''clarification_required'' \<and>
                 action \<notin> {JStr ''write'', JStr ''destructive''})),
        need (\<not> (listing \<noteq> [] \<and>
                 (evidence \<noteq> JStr ''metadata'' \<or> action \<noteq> JStr ''read'' \<or> ambiguity \<noteq> JStr ''clear'')))]"

definition intent_fields :: "string list" where
  "intent_fields = [''primary_intent'', ''retrieval'', ''effects'', ''workspace'', ''policy_version'', ''source'']"
definition retrieval_fields :: "string list" where
  "retrieval_fields = [''mode'', ''query'', ''confidence'', ''reason'', ''document_refs'', ''document_scope'',
     ''resolved_document_ids'']"
definition effects_fields :: "string list" where
  "effects_fields = [''knowledge_write'', ''knowledge_provenance'', ''knowledge_title'', ''rag_ingestion'']"
definition legacy_workspace_fields :: "string list" where
  "legacy_workspace_fields = [''evidence'', ''action'', ''ambiguity'', ''reason'']"
definition current_workspace_fields :: "string list" where
  "current_workspace_fields = ''listing_entry_types'' # legacy_workspace_fields"

text \<open>The retrieval part: enumerations, confidence, texts, documents and their scope.\<close>

definition check_retrieval :: "json \<Rightarrow> dict \<Rightarrow> unit res" where
  "check_retrieval primary r =
     (let f = (\<lambda>k. dget r k JNull); mode = f ''mode''; scope = f ''document_scope'';
          confidence = f ''confidence''; refs = f ''document_refs''; ids = f ''resolved_document_ids'';
          query = f ''query''; reason = f ''reason''
      in checks
        [need_in primary PRIMARY_INTENTS,
         need_in mode RETRIEVAL_MODES,
         need_in scope DOCUMENT_SCOPES,
         need (\<not> is_bool confidence \<and> is_number confidence),
         rbind (to_float confidence) (\<lambda>c. need (0 \<le> c \<and> c \<le> 1)),
         need (is_str query \<and> str_len query \<le> 2000 \<and>
               \<not> (mode \<noteq> JStr ''skip'' \<and> \<not> truthy (strip_str query)) \<and>
               is_str reason \<and> truthy (strip_str reason) \<and> str_len reason \<le> 500),
         need (valid_string_list 8 300 refs),
         need (valid_uuid_list 20 ids),
         need (\<not> (mode = JStr ''skip'' \<and> scope \<noteq> JStr ''none'')),
         need (\<not> (mode \<noteq> JStr ''skip'' \<and> scope = JStr ''none'')),
         need (\<not> (scope = JStr ''selected'' \<and> \<not> truthy ids)),
         need (\<not> (scope \<noteq> JStr ''selected'' \<and> truthy ids)),
         need (\<not> (scope = JStr ''unresolved'' \<and> (mode \<noteq> JStr ''required'' \<or> \<not> truthy refs))),
         need (\<not> (primary = JStr ''document_question'' \<and>
                  (mode \<noteq> JStr ''required'' \<or> scope \<notin> {JStr ''selected'', JStr ''unresolved''})))])"

definition check_effects :: "dict \<Rightarrow> unit res" where
  "check_effects e =
     (let f = (\<lambda>k. dget e k JNull); title = f ''knowledge_title'' in
      checks
        [need_in (f ''knowledge_write'') EFFECT_MODES,
         need_in (f ''knowledge_provenance'') EFFECT_MODES,
         need_in (f ''rag_ingestion'') EFFECT_MODES,
         need (is_str title \<and> str_len title \<le> 200 \<and> title = strip_str title),
         need (\<not> (f ''knowledge_write'' = JStr ''skip'' \<and>
                  (f ''knowledge_provenance'' \<noteq> JStr ''skip'' \<or> truthy title)))])"

definition check_workspace :: "dict \<Rightarrow> unit res" where
  "check_workspace w =
     (let f = (\<lambda>k. dget w k JNull); listing = dget w ''listing_entry_types'' (JList []);
          reason = f ''reason''
      in checks
        ([need_in (f ''evidence'') WORKSPACE_EVIDENCE_MODES,
          need_in (f ''action'') WORKSPACE_ACTION_MODES,
          need_in (f ''ambiguity'') WORKSPACE_AMBIGUITY_MODES,
          need (is_str reason \<and> truthy (strip_str reason) \<and> str_len reason \<le> 500),
          need (valid_string_list (length WORKSPACE_LISTING_ENTRY_TYPES) 20 listing)] @
         map (\<lambda>item. need_in item WORKSPACE_LISTING_ENTRY_TYPES) (items_of listing) @
         [validate_workspace_semantics (f ''evidence'') (f ''action'') (f ''ambiguity'') (items_of listing)]))"

definition intent_from_state_dict :: "json \<Rightarrow> intent_extraction res" where
  "intent_from_state_dict value =
     (let d = entries_of value; f = (\<lambda>k. dget d k JNull);
          retrieval = f ''retrieval''; r = (\<lambda>k. dget (entries_of retrieval) k JNull);
          effects = f ''effects''; e = (\<lambda>k. dget (entries_of effects) k JNull);
          workspace = f ''workspace''; w = (\<lambda>k. dget (entries_of workspace) k JNull);
          listing = dget (entries_of workspace) ''listing_entry_types'' (JList []);
          policy_version = f ''policy_version'';
          legacy = has_keys (entries_of workspace) legacy_workspace_fields;
          current = has_keys (entries_of workspace) current_workspace_fields
      in rbind (checks
        [need (is_dict value \<and> has_keys d intent_fields),
         need (is_dict retrieval \<and> has_keys (entries_of retrieval) retrieval_fields),
         need (is_dict effects \<and> has_keys (entries_of effects) effects_fields),
         need (is_dict workspace \<and> (current \<or> legacy)),
         check_retrieval (f ''primary_intent'') (entries_of retrieval),
         check_effects (entries_of effects),
         check_workspace (entries_of workspace),
         need_in policy_version (INTENT_POLICY_VERSION # LEGACY_INTENT_POLICY_VERSIONS),
         need (\<not> (policy_version \<in> set (map JStr LEGACY_INTENT_POLICIES_WITHOUT_LISTING) \<and> \<not> legacy)),
         need (\<not> (policy_version \<in> {JStr INTENT_POLICY_VERSION, JStr ''intent-llm-v6''} \<and> \<not> current)),
         need_in (f ''source'') [''llm'', ''rule'']]) (\<lambda>_.
      rbind (to_float (r ''confidence'')) (\<lambda>confidence.
      Inr \<lparr>ie_primary_intent = f ''primary_intent'', ie_mode = r ''mode'', ie_query = strip_str (r ''query''),
           ie_confidence = confidence, ie_retrieval_reason = strip_str (r ''reason''),
           ie_document_refs = items_of (r ''document_refs''), ie_document_scope = r ''document_scope'',
           ie_resolved_document_ids = items_of (r ''resolved_document_ids''),
           ie_knowledge_write = e ''knowledge_write'', ie_knowledge_provenance = e ''knowledge_provenance'',
           ie_knowledge_title = e ''knowledge_title'', ie_rag_ingestion = e ''rag_ingestion'',
           ie_evidence = w ''evidence'', ie_action = w ''action'', ie_ambiguity = w ''ambiguity'',
           ie_listing_entry_types = items_of listing, ie_workspace_reason = strip_str (w ''reason''),
           ie_policy_version = JStr INTENT_POLICY_VERSION, ie_source = f ''source''\<rparr>)))"

definition intent_to_state_dict :: "intent_extraction \<Rightarrow> json" where
  "intent_to_state_dict i = JObj
     [(''primary_intent'', ie_primary_intent i),
      (''retrieval'', JObj
        [(''mode'', ie_mode i), (''query'', ie_query i), (''confidence'', JFloat (ie_confidence i)),
         (''reason'', ie_retrieval_reason i), (''document_refs'', JList (ie_document_refs i)),
         (''document_scope'', ie_document_scope i),
         (''resolved_document_ids'', JList (ie_resolved_document_ids i))]),
      (''effects'', JObj
        [(''knowledge_write'', ie_knowledge_write i), (''knowledge_provenance'', ie_knowledge_provenance i),
         (''knowledge_title'', ie_knowledge_title i), (''rag_ingestion'', ie_rag_ingestion i)]),
      (''workspace'', JObj
        [(''evidence'', ie_evidence i), (''action'', ie_action i), (''ambiguity'', ie_ambiguity i),
         (''listing_entry_types'', JList (ie_listing_entry_types i)), (''reason'', ie_workspace_reason i)]),
      (''policy_version'', ie_policy_version i),
      (''source'', ie_source i)]"

section \<open>Lemmas\<close>

lemma strip_str_idem [simp]: "strip_str (strip_str j) = strip_str j"
  by (cases j) simp_all

lemma is_str_strip [simp]: "is_str (strip_str j) = is_str j"
  by (cases j) simp_all

lemma str_len_strip: "str_len j \<le> n \<Longrightarrow> str_len (strip_str j) \<le> n"
  by (cases j) (auto intro: le_trans [OF length_py_strip])

lemma items_of_truthy: "is_list j \<Longrightarrow> truthy (JList (items_of j)) = truthy j"
  by (cases j) simp_all

lemma valid_string_list_items: "valid_string_list n m j \<Longrightarrow> valid_string_list n m (JList (items_of j))"
  by (auto simp: valid_string_list_def)

lemma valid_string_list_is_list: "valid_string_list n m j \<Longrightarrow> is_list j"
  by (simp add: valid_string_list_def)

lemma valid_uuid_list_items: "valid_uuid_list n j \<Longrightarrow> valid_uuid_list n (JList (items_of j)) \<and> is_list j"
  by (auto simp: valid_uuid_list_def valid_string_list_def)

text \<open>The retrieval part as persisted passes the checks the original passed.\<close>

lemma check_retrieval_persisted:
  assumes "check_retrieval primary r = Inr ()" and "to_float (dget r ''confidence'' JNull) = Inr c"
  shows "check_retrieval primary
    [(''mode'', dget r ''mode'' JNull), (''query'', strip_str (dget r ''query'' JNull)), (''confidence'', JFloat c),
     (''reason'', strip_str (dget r ''reason'' JNull)), (''document_refs'', JList (items_of (dget r ''document_refs'' JNull))),
     (''document_scope'', dget r ''document_scope'' JNull),
     (''resolved_document_ids'', JList (items_of (dget r ''resolved_document_ids'' JNull)))] = Inr ()"
proof -
  have lists: "is_list (dget r ''document_refs'' JNull)" "is_list (dget r ''resolved_document_ids'' JNull)"
    using assms(1) by (auto simp: check_retrieval_def Let_def checks_ok is_ok_need simp del: checks_Cons rbind_need
      dest: valid_string_list_is_list valid_uuid_list_items)
  show ?thesis
    using assms items_of_truthy [OF lists(1)] items_of_truthy [OF lists(2)]
    unfolding check_retrieval_def Let_def checks_ok
    by (simp del: truthy.simps add: str_len_strip valid_string_list_items valid_uuid_list_items)
qed

lemma check_effects_persisted:
  "check_effects e = Inr () \<Longrightarrow> check_effects
    [(''knowledge_write'', dget e ''knowledge_write'' JNull), (''knowledge_provenance'', dget e ''knowledge_provenance'' JNull),
     (''knowledge_title'', dget e ''knowledge_title'' JNull), (''rag_ingestion'', dget e ''rag_ingestion'' JNull)] = Inr ()"
  unfolding check_effects_def Let_def checks_ok by simp

lemma check_workspace_persisted:
  "check_workspace w = Inr () \<Longrightarrow> check_workspace
    [(''evidence'', dget w ''evidence'' JNull), (''action'', dget w ''action'' JNull),
     (''ambiguity'', dget w ''ambiguity'' JNull),
     (''listing_entry_types'', JList (items_of (dget w ''listing_entry_types'' (JList [])))),
     (''reason'', strip_str (dget w ''reason'' JNull))] = Inr ()"
  unfolding check_workspace_def Let_def checks_ok
  by (simp add: str_len_strip valid_string_list_items ball_Un)

text \<open>What a restored intent came from.\<close>

lemma intent_from_state_dictE:
  assumes "intent_from_state_dict j = Inr i"
  obtains d r e w c where
    "check_retrieval (ie_primary_intent i) r = Inr ()" "check_effects e = Inr ()" "check_workspace w = Inr ()"
    "to_float (dget r ''confidence'' JNull) = Inr c"
    "is_ok (need_in (ie_source i) [''llm'', ''rule''])"
    "i = \<lparr>ie_primary_intent = ie_primary_intent i, ie_mode = dget r ''mode'' JNull,
      ie_query = strip_str (dget r ''query'' JNull), ie_confidence = c,
      ie_retrieval_reason = strip_str (dget r ''reason'' JNull),
      ie_document_refs = items_of (dget r ''document_refs'' JNull),
      ie_document_scope = dget r ''document_scope'' JNull,
      ie_resolved_document_ids = items_of (dget r ''resolved_document_ids'' JNull),
      ie_knowledge_write = dget e ''knowledge_write'' JNull,
      ie_knowledge_provenance = dget e ''knowledge_provenance'' JNull,
      ie_knowledge_title = dget e ''knowledge_title'' JNull, ie_rag_ingestion = dget e ''rag_ingestion'' JNull,
      ie_evidence = dget w ''evidence'' JNull, ie_action = dget w ''action'' JNull,
      ie_ambiguity = dget w ''ambiguity'' JNull,
      ie_listing_entry_types = items_of (dget w ''listing_entry_types'' (JList [])),
      ie_workspace_reason = strip_str (dget w ''reason'' JNull),
      ie_policy_version = JStr INTENT_POLICY_VERSION, ie_source = ie_source i\<rparr>"
  using assms
  by (simp add: intent_from_state_dict_def Let_def rbind_Inr_iff checks_ok
      del: checks_Cons rbind_need need_in_ok) (auto simp: is_ok_iff)

lemma check_workspace_semantics:
  "check_workspace w = Inr () \<Longrightarrow>
     validate_workspace_semantics (dget w ''evidence'' JNull) (dget w ''action'' JNull) (dget w ''ambiguity'' JNull)
       (items_of (dget w ''listing_entry_types'' (JList []))) = Inr ()"
  unfolding check_workspace_def Let_def checks_ok by (simp add: ball_Un is_ok_iff)

lemma workspace_semantics_read:
  "validate_workspace_semantics ev ac am ls = Inr () \<Longrightarrow> ac = JStr ''read'' \<longleftrightarrow> ev \<in> {JStr ''metadata'', JStr ''required''}"
  "validate_workspace_semantics ev ac am ls = Inr () \<Longrightarrow> am = JStr ''clarification_required'' \<Longrightarrow>
     ac \<in> {JStr ''write'', JStr ''destructive''}"
  unfolding validate_workspace_semantics_def checks_ok by (simp, blast) simp

lemma persisted_keys:
  "has_keys [(''primary_intent'', a), (''retrieval'', b), (''effects'', c), (''workspace'', d),
     (''policy_version'', e), (''source'', f)] intent_fields"
  "has_keys [(''mode'', a), (''query'', b), (''confidence'', c), (''reason'', d), (''document_refs'', e),
     (''document_scope'', f), (''resolved_document_ids'', g)] retrieval_fields"
  "has_keys [(''knowledge_write'', a), (''knowledge_provenance'', b), (''knowledge_title'', c),
     (''rag_ingestion'', d)] effects_fields"
  "has_keys [(''evidence'', a), (''action'', b), (''ambiguity'', c), (''listing_entry_types'', d), (''reason'', e)]
     current_workspace_fields"
  "\<not> has_keys [(''evidence'', a), (''action'', b), (''ambiguity'', c), (''listing_entry_types'', d), (''reason'', e)]
     legacy_workspace_fields"
  by (simp_all add: has_keys_def intent_fields_def retrieval_fields_def effects_fields_def
      current_workspace_fields_def legacy_workspace_fields_def insert_commute)
    (rule notI, drule arg_cong [of _ _ "\<lambda>S. ''listing_entry_types'' \<in> S"], simp)

lemma intent_roundtrip_aux:
  assumes "intent_from_state_dict j = Inr i"
  shows "intent_from_state_dict (intent_to_state_dict i) = Inr i"
  using assms
proof (rule intent_from_state_dictE)
  fix d r e w c
  assume checked: "check_retrieval (ie_primary_intent i) r = Inr ()" "check_effects e = Inr ()" "check_workspace w = Inr ()"
    and c: "to_float (dget r ''confidence'' JNull) = Inr c"
    and src: "is_ok (need_in (ie_source i) [''llm'', ''rule''])"
    and i: "i = \<lparr>ie_primary_intent = ie_primary_intent i, ie_mode = dget r ''mode'' JNull,
      ie_query = strip_str (dget r ''query'' JNull), ie_confidence = c,
      ie_retrieval_reason = strip_str (dget r ''reason'' JNull),
      ie_document_refs = items_of (dget r ''document_refs'' JNull),
      ie_document_scope = dget r ''document_scope'' JNull,
      ie_resolved_document_ids = items_of (dget r ''resolved_document_ids'' JNull),
      ie_knowledge_write = dget e ''knowledge_write'' JNull,
      ie_knowledge_provenance = dget e ''knowledge_provenance'' JNull,
      ie_knowledge_title = dget e ''knowledge_title'' JNull, ie_rag_ingestion = dget e ''rag_ingestion'' JNull,
      ie_evidence = dget w ''evidence'' JNull, ie_action = dget w ''action'' JNull,
      ie_ambiguity = dget w ''ambiguity'' JNull,
      ie_listing_entry_types = items_of (dget w ''listing_entry_types'' (JList [])),
      ie_workspace_reason = strip_str (dget w ''reason'' JNull),
      ie_policy_version = JStr INTENT_POLICY_VERSION, ie_source = ie_source i\<rparr>"
  obtain p s where ps: "p = ie_primary_intent i" "s = ie_source i" by simp
  note persisted = check_retrieval_persisted [OF checked(1) c] check_effects_persisted [OF checked(2)]
    check_workspace_persisted [OF checked(3)]
  from src obtain u where "need_in s [''llm'', ''rule''] = Inr u" by (auto simp: is_ok_iff ps)
  moreover have "need_in (JStr INTENT_POLICY_VERSION) (INTENT_POLICY_VERSION # LEGACY_INTENT_POLICY_VERSIONS) = Inr ()"
    by (simp add: need_in_Inr)
  ultimately show ?thesis
    using persisted
    unfolding ps [symmetric]
    by (subst (1 2) i) (simp add: intent_from_state_dict_def intent_to_state_dict_def Let_def ps
        persisted_keys LEGACY_INTENT_POLICIES_WITHOUT_LISTING_def INTENT_POLICY_VERSION_def)
qed

section \<open>Properties\<close>

text \<open>
  A restored intent is internally consistent: its document scope is \<open>none\<close> exactly when retrieval
  is skipped and comes with document ids exactly when it is \<open>selected\<close>; an unresolved scope and a
  document question require retrieval; a skipped knowledge write has neither provenance nor title;
  workspace evidence is read exactly by read actions and only writes may need clarification.  Writing the intent
  back, in the current policy version, restores the same intent, also for the legacy versions.
\<close>

theorem intent_restored_consistent:
  assumes "intent_from_state_dict j = Inr i"
  shows "intent_from_state_dict (intent_to_state_dict i) = Inr i \<and>
    (ie_document_scope i = JStr ''none'' \<longleftrightarrow> ie_mode i = JStr ''skip'') \<and>
    (ie_resolved_document_ids i \<noteq> [] \<longleftrightarrow> ie_document_scope i = JStr ''selected'') \<and>
    (ie_document_scope i = JStr ''unresolved'' \<longrightarrow> ie_mode i = JStr ''required'' \<and> ie_document_refs i \<noteq> []) \<and>
    (ie_primary_intent i = JStr ''document_question'' \<longrightarrow> ie_mode i = JStr ''required'') \<and>
    (ie_knowledge_write i = JStr ''skip'' \<longrightarrow>
       ie_knowledge_provenance i = JStr ''skip'' \<and> \<not> truthy (ie_knowledge_title i)) \<and>
    (ie_action i = JStr ''read'' \<longleftrightarrow> ie_evidence i \<in> {JStr ''metadata'', JStr ''required''}) \<and>
    (ie_ambiguity i = JStr ''clarification_required'' \<longrightarrow>
       ie_action i \<in> {JStr ''write'', JStr ''destructive''}) \<and>
    0 \<le> ie_confidence i \<and> ie_confidence i \<le> 1"
  using assms
proof (rule intent_from_state_dictE)
  fix d r e w c
  assume checked: "check_retrieval (ie_primary_intent i) r = Inr ()" "check_effects e = Inr ()" "check_workspace w = Inr ()"
    and c: "to_float (dget r ''confidence'' JNull) = Inr c"
    and i: "i = \<lparr>ie_primary_intent = ie_primary_intent i, ie_mode = dget r ''mode'' JNull,
      ie_query = strip_str (dget r ''query'' JNull), ie_confidence = c,
      ie_retrieval_reason = strip_str (dget r ''reason'' JNull),
      ie_document_refs = items_of (dget r ''document_refs'' JNull),
      ie_document_scope = dget r ''document_scope'' JNull,
      ie_resolved_document_ids = items_of (dget r ''resolved_document_ids'' JNull),
      ie_knowledge_write = dget e ''knowledge_write'' JNull,
      ie_knowledge_provenance = dget e ''knowledge_provenance'' JNull,
      ie_knowledge_title = dget e ''knowledge_title'' JNull, ie_rag_ingestion = dget e ''rag_ingestion'' JNull,
      ie_evidence = dget w ''evidence'' JNull, ie_action = dget w ''action'' JNull,
      ie_ambiguity = dget w ''ambiguity'' JNull,
      ie_listing_entry_types = items_of (dget w ''listing_entry_types'' (JList [])),
      ie_workspace_reason = strip_str (dget w ''reason'' JNull),
      ie_policy_version = JStr INTENT_POLICY_VERSION, ie_source = ie_source i\<rparr>"
  have lists: "is_list (dget r ''document_refs'' JNull)" "is_list (dget r ''resolved_document_ids'' JNull)"
    using checked(1) by (auto simp: check_retrieval_def Let_def checks_ok simp del: checks_Cons rbind_need
      dest: valid_string_list_is_list valid_uuid_list_items)
  note items = items_of_truthy [OF lists(1), simplified] items_of_truthy [OF lists(2), simplified]
  note sem = checked [unfolded check_retrieval_def check_effects_def Let_def checks_ok]
  note f = arg_cong [OF i, of ie_document_scope, simplified] arg_cong [OF i, of ie_mode, simplified]
    arg_cong [OF i, of ie_resolved_document_ids, simplified] arg_cong [OF i, of ie_document_refs, simplified]
    arg_cong [OF i, of ie_confidence, simplified]
  note g = arg_cong [OF i, of ie_knowledge_write, simplified] arg_cong [OF i, of ie_knowledge_provenance, simplified]
    arg_cong [OF i, of ie_knowledge_title, simplified]
  note h = arg_cong [OF i, of ie_action, simplified] arg_cong [OF i, of ie_evidence, simplified]
    arg_cong [OF i, of ie_ambiguity, simplified]
  have "intent_from_state_dict (intent_to_state_dict i) = Inr i"
    using intent_roundtrip_aux [OF assms] .
  moreover have "ie_document_scope i = JStr ''none'' \<longleftrightarrow> ie_mode i = JStr ''skip''"
    unfolding f using sem(1) by simp blast
  moreover have "ie_resolved_document_ids i \<noteq> [] \<longleftrightarrow> ie_document_scope i = JStr ''selected''"
    unfolding f using sem(1) items(2) by simp blast
  moreover have "ie_document_scope i = JStr ''unresolved'' \<longrightarrow> ie_mode i = JStr ''required'' \<and> ie_document_refs i \<noteq> []"
    unfolding f using sem(1) items(1) by simp
  moreover have "ie_primary_intent i = JStr ''document_question'' \<longrightarrow> ie_mode i = JStr ''required''"
    unfolding f using sem(1) by simp
  moreover have "0 \<le> ie_confidence i \<and> ie_confidence i \<le> 1"
  proof -
    have "is_ok (rbind (to_float (dget r ''confidence'' JNull)) (\<lambda>c. need (0 \<le> c \<and> c \<le> 1)))"
      using sem(1) by (elim ballE [of _ _ "rbind (to_float (dget r ''confidence'' JNull)) (\<lambda>c. need (0 \<le> c \<and> c \<le> 1))"])
        simp_all
    then show ?thesis unfolding f by (simp add: c)
  qed
  moreover have "ie_knowledge_write i = JStr ''skip'' \<longrightarrow>
       ie_knowledge_provenance i = JStr ''skip'' \<and> \<not> truthy (ie_knowledge_title i)"
    unfolding g using sem(2) by simp
  moreover have "ie_action i = JStr ''read'' \<longleftrightarrow> ie_evidence i \<in> {JStr ''metadata'', JStr ''required''}"
    unfolding h by (rule workspace_semantics_read [OF check_workspace_semantics [OF checked(3)]])
  moreover have "ie_ambiguity i = JStr ''clarification_required'' \<longrightarrow> ie_action i \<in> {JStr ''write'', JStr ''destructive''}"
    unfolding h by (intro impI workspace_semantics_read(2) [OF check_workspace_semantics [OF checked(3)]])
  ultimately show ?thesis by blast
qed

section \<open>Witness\<close>

definition sample_intent :: json where
  "sample_intent = JObj
     [(''primary_intent'', JStr ''task''),
      (''retrieval'', JObj [(''mode'', JStr ''skip''), (''query'', JStr []), (''confidence'', JInt 1),
         (''reason'', JStr ''r''), (''document_refs'', JList []), (''document_scope'', JStr ''none''),
         (''resolved_document_ids'', JList [])]),
      (''effects'', JObj [(''knowledge_write'', JStr ''skip''), (''knowledge_provenance'', JStr ''skip''),
         (''knowledge_title'', JStr []), (''rag_ingestion'', JStr ''skip'')]),
      (''workspace'', JObj [(''evidence'', JStr ''metadata''), (''action'', JStr ''read''),
         (''ambiguity'', JStr ''clear''), (''listing_entry_types'', JList [JStr ''file'']), (''reason'', JStr ''w'')]),
      (''policy_version'', JStr ''intent-llm-v6''), (''source'', JStr ''llm'')]"

lemma sample_intent_ok: "is_ok (intent_from_state_dict sample_intent)"
  by code_simp

lemma intent_restored_consistent_witness:
  "\<exists>i. intent_from_state_dict sample_intent = Inr i \<and>
     intent_from_state_dict (intent_to_state_dict i) = Inr i \<and> ie_confidence i \<le> 1"
proof -
  obtain i where i: "intent_from_state_dict sample_intent = Inr i"
    using sample_intent_ok by (auto simp: is_ok_iff)
  from i intent_restored_consistent [OF i] show ?thesis by blast
qed

end
