(* ===== verification/Messages.thy ===== *)
theory Messages
  imports PyJson
begin

text \<open>
  \<open>runtime_bus/messages.py\<close> and the constructors of \<open>runtime/events.py\<close>: the job, command and
  event messages that cross the Redis streams.  A message field keeps the JSON value it was
  decoded from.  Decoding the JSON text itself is the standard library's; \<open>None\<close> is a text that
  is not JSON.
\<close>

section \<open>Shared decoding steps\<close>

definition SCHEMA_VERSION :: string where "SCHEMA_VERSION = ''2B-1a.1''"

definition required_string :: "dict \<Rightarrow> string \<Rightarrow> bool" where
  "required_string d f \<longleftrightarrow> is_str (dget d f JNull) \<and> truthy (dget d f JNull)"

definition need_required :: "dict \<Rightarrow> string list \<Rightarrow> unit res" where
  "need_required d fields = need (list_all (required_string d) fields)"

definition need_schema_version :: "dict \<Rightarrow> unit res" where
  "need_schema_version d = need (dget d ''schema_version'' JNull = JStr SCHEMA_VERSION)"

text \<open>\<open>from_payload\<close>: parse, then \<open>from_dict\<close>, which calls \<open>data.get\<close>.\<close>

definition from_payload :: "(dict \<Rightarrow> 'm res) \<Rightarrow> json option \<Rightarrow> 'm res" where
  "from_payload from_dict payload =
     (case payload of None \<Rightarrow> Inl ValueError
      | Some (JObj d) \<Rightarrow> from_dict d
      | Some _ \<Rightarrow> Inl AttributeError)"

definition opt_field :: "string \<Rightarrow> json \<Rightarrow> dict" where
  "opt_field k v = (if truthy v then [(k, v)] else [])"

section \<open>Run jobs\<close>

record run_job =
  rj_job_id :: json
  rj_trace_id :: json
  rj_task_id :: json
  rj_run_id :: json
  rj_user_goal :: json
  rj_created_at :: json
  rj_schema_version :: json
  rj_workspace_path :: json
  rj_conversation_id :: json
  rj_resume_from_checkpoint :: bool
  rj_retry_from_checkpoint :: bool
  rj_scheduled_task_id :: json
  rj_authorized_tools :: "json list"
  rj_source_policy :: dict

definition run_job_required :: "string list" where
  "run_job_required =
     [''job_id'', ''trace_id'', ''task_id'', ''run_id'', ''user_goal'', ''created_at'']"

definition run_job_from_dict :: "dict \<Rightarrow> run_job res" where
  "run_job_from_dict d =
     rbind (need_schema_version d) (\<lambda>_.
     rbind (need_required d run_job_required) (\<lambda>_.
     rbind (iterate (dget d ''authorized_tools'' (JList []))) (\<lambda>tools.
     Inr \<lparr>rj_job_id = dget d ''job_id'' JNull, rj_trace_id = dget d ''trace_id'' JNull,
          rj_task_id = dget d ''task_id'' JNull, rj_run_id = dget d ''run_id'' JNull,
          rj_user_goal = dget d ''user_goal'' JNull, rj_created_at = dget d ''created_at'' JNull,
          rj_schema_version = dget d ''schema_version'' JNull,
          rj_workspace_path = dget d ''workspace_path'' (JStr []),
          rj_conversation_id = dget d ''conversation_id'' (JStr []),
          rj_resume_from_checkpoint = (dget d ''resume_from_checkpoint'' JNull = JBool True),
          rj_retry_from_checkpoint = (dget d ''retry_from_checkpoint'' JNull = JBool True),
          rj_scheduled_task_id = dget d ''scheduled_task_id'' (JStr []),
          rj_authorized_tools = filter is_str tools,
          rj_source_policy = entries_of (dget d ''source_policy'' (JObj []))\<rparr>)))"

definition run_job_to_dict :: "run_job \<Rightarrow> dict" where
  "run_job_to_dict j =
     [(''job_id'', rj_job_id j), (''trace_id'', rj_trace_id j), (''task_id'', rj_task_id j),
      (''run_id'', rj_run_id j), (''user_goal'', rj_user_goal j), (''created_at'', rj_created_at j),
      (''schema_version'', rj_schema_version j)] @
     opt_field ''workspace_path'' (rj_workspace_path j) @
     opt_field ''conversation_id'' (rj_conversation_id j) @
     opt_field ''resume_from_checkpoint'' (JBool (rj_resume_from_checkpoint j)) @
     opt_field ''retry_from_checkpoint'' (JBool (rj_retry_from_checkpoint j)) @
     opt_field ''scheduled_task_id'' (rj_scheduled_task_id j) @
     opt_field ''authorized_tools'' (JList (rj_authorized_tools j)) @
     opt_field ''source_policy'' (JObj (rj_source_policy j))"

section \<open>Commands\<close>

record permission_decision_command =
  pd_command_id :: json
  pd_trace_id :: json
  pd_request_id :: json
  pd_task_id :: json
  pd_run_id :: json
  pd_decision :: json
  pd_decided_at :: json
  pd_note :: json

definition permission_decision_from_dict :: "dict \<Rightarrow> permission_decision_command res" where
  "permission_decision_from_dict d =
     (let f = (\<lambda>k. dget d k JNull) in
      rbind (need_schema_version d) (\<lambda>_.
      rbind (need_required d [''command_id'', ''trace_id'', ''request_id'', ''task_id'',
        ''run_id'', ''decision'', ''decided_at'', ''schema_version'']) (\<lambda>_.
      rbind (need (\<not> (truthy (dget d ''type'' (JStr [])) \<and>
                      dget d ''type'' (JStr []) \<noteq> JStr ''permission.decision''))) (\<lambda>_.
      Inr \<lparr>pd_command_id = f ''command_id'', pd_trace_id = f ''trace_id'', pd_request_id = f ''request_id'',
           pd_task_id = f ''task_id'', pd_run_id = f ''run_id'', pd_decision = f ''decision'',
           pd_decided_at = f ''decided_at'', pd_note = dget d ''note'' (JStr [])\<rparr>))))"

text \<open>Cancel and pause commands differ only in their \<open>type\<close>.\<close>

record run_command =
  rx_command_id :: json
  rx_trace_id :: json
  rx_task_id :: json
  rx_run_id :: json
  rx_type :: json
  rx_requested_at :: json
  rx_reason :: json

definition run_command_required :: "string list" where
  "run_command_required =
     [''command_id'', ''trace_id'', ''task_id'', ''run_id'', ''type'', ''requested_at'', ''schema_version'']"

definition run_command_from_dict :: "string \<Rightarrow> dict \<Rightarrow> run_command res" where
  "run_command_from_dict ty d =
     (let f = (\<lambda>k. dget d k JNull) in
      rbind (need_schema_version d) (\<lambda>_.
      rbind (need_required d run_command_required) (\<lambda>_.
      rbind (need (f ''type'' = JStr ty)) (\<lambda>_.
      Inr \<lparr>rx_command_id = f ''command_id'', rx_trace_id = f ''trace_id'', rx_task_id = f ''task_id'',
           rx_run_id = f ''run_id'', rx_type = f ''type'', rx_requested_at = f ''requested_at'',
           rx_reason = dget d ''reason'' (JStr [])\<rparr>))))"

definition run_cancel_from_dict :: "dict \<Rightarrow> run_command res" where
  "run_cancel_from_dict = run_command_from_dict ''run.cancel''"

definition run_pause_from_dict :: "dict \<Rightarrow> run_command res" where
  "run_pause_from_dict = run_command_from_dict ''run.pause''"

definition mcp_refresh_from_dict :: "dict \<Rightarrow> json res" where
  "mcp_refresh_from_dict d =
     rbind (need_schema_version d) (\<lambda>_.
     rbind (need_required d [''command_id'', ''trace_id'', ''type'', ''requested_at'', ''schema_version'']) (\<lambda>_.
     rbind (need (dget d ''type'' JNull = JStr ''mcp.discovery.refresh'')) (\<lambda>_.
     Inr (dget d ''command_id'' JNull))))"

section \<open>Runtime events\<close>

definition deterministic_event_id :: "json \<Rightarrow> string \<Rightarrow> int \<Rightarrow> uuid" where
  "deterministic_event_id run_id event_type seq =
     Uuid5 [PLit ''jarvis:event:'',
       (case run_id of JId u \<Rightarrow> PUuid u | JStr s \<Rightarrow> PLit s | _ \<Rightarrow> PLit ''''),
       PLit '':'', PLit event_type, PLit '':'', PInt seq]"

definition build_runtime_event ::
  "string \<Rightarrow> json \<Rightarrow> json \<Rightarrow> json \<Rightarrow> dict \<Rightarrow> json \<Rightarrow> int \<Rightarrow> dict" where
  "build_runtime_event event_type task_id run_id step_id payload event_id iso_now =
     [(''id'', event_id), (''type'', JStr event_type), (''task_id'', task_id), (''run_id'', run_id),
      (''timestamp'', JTime iso_now)] @ opt_field ''step_id'' step_id @ [(''payload'', JObj payload)]"

record event_envelope =
  ee_event_id :: json
  ee_trace_id :: json
  ee_task_id :: json
  ee_run_id :: json
  ee_event_type :: json
  ee_runtime_event :: dict
  ee_produced_by :: json
  ee_schema_version :: json
  ee_internal :: dict

definition build_envelope :: "dict \<Rightarrow> json \<Rightarrow> string \<Rightarrow> event_envelope res" where
  "build_envelope event trace_id worker_id =
     rbind (ditem event ''id'') (\<lambda>eid.
     rbind (ditem event ''task_id'') (\<lambda>task_id.
     rbind (ditem event ''run_id'') (\<lambda>run_id.
     rbind (ditem event ''type'') (\<lambda>ty.
     Inr \<lparr>ee_event_id = eid, ee_trace_id = trace_id, ee_task_id = task_id, ee_run_id = run_id,
          ee_event_type = ty, ee_runtime_event = event, ee_produced_by = JStr worker_id,
          ee_schema_version = JStr SCHEMA_VERSION, ee_internal = []\<rparr>))))"

definition envelope_validate :: "event_envelope \<Rightarrow> unit res" where
  "envelope_validate e =
     (let re = ee_runtime_event e; f = (\<lambda>k. dget re k JNull) in
      checks
        [need (list_all (\<lambda>k. truthy (f k)) [''id'', ''type'', ''task_id'', ''run_id'', ''timestamp'']),
         need (ee_event_id e = f ''id''), need (ee_event_type e = f ''type''),
         need (ee_task_id e = f ''task_id''), need (ee_run_id e = f ''run_id'')])"

text \<open>\<open>json.loads(envelope.to_payload_json())\<close>: what the outbox row stores.\<close>

definition envelope_payload :: "event_envelope \<Rightarrow> dict" where
  "envelope_payload e =
     [(''event_id'', ee_event_id e), (''trace_id'', ee_trace_id e), (''task_id'', ee_task_id e),
      (''run_id'', ee_run_id e), (''event_type'', ee_event_type e),
      (''runtime_event'', JObj (ee_runtime_event e)), (''produced_by'', ee_produced_by e),
      (''schema_version'', ee_schema_version e)]"

section \<open>Lemmas\<close>

lemma required_string_dset:
  "required_string (dset k v d) f \<longleftrightarrow> (if f = k then is_str v \<and> truthy v else required_string d f)"
  by (simp add: required_string_def)

lemma need_required_Inr [simp]: "need_required d fs = Inr u \<longleftrightarrow> list_all (required_string d) fs"
  by (simp add: need_required_def)

lemma need_schema_version_Inr [simp]:
  "need_schema_version d = Inr u \<longleftrightarrow> dget d ''schema_version'' JNull = JStr SCHEMA_VERSION"
  by (simp add: need_schema_version_def)

text \<open>What makes a dict a run job.\<close>

lemma run_job_from_dict_ok:
  "is_ok (run_job_from_dict d) \<longleftrightarrow>
     dget d ''schema_version'' JNull = JStr SCHEMA_VERSION \<and>
     list_all (required_string d) run_job_required \<and>
     is_ok (iterate (dget d ''authorized_tools'' (JList [])))"
  by (auto simp: run_job_from_dict_def is_ok_iff rbind_Inr_iff)

lemma dget_append: "dget (xs @ ys) k v = (if k \<in> set (keys xs) then dget xs k v else dget ys k v)"
  by (induction xs) auto

lemma dget_opt_field [simp]:
  "dget (opt_field k v @ d) k' dflt = (if k' = k \<and> truthy v then v else dget d k' dflt)"
  by (simp add: opt_field_def)

lemma keys_opt_field [simp]: "set (keys (opt_field k v)) = (if truthy v then {k} else {})"
  by (simp add: opt_field_def)

text \<open>The dict of a decoded job, with its optional fields in normal form, decodes to itself.\<close>

definition normalize_job :: "run_job \<Rightarrow> run_job" where
  "normalize_job j =
     (let norm = (\<lambda>v. if truthy v then v else JStr []) in
      j\<lparr>rj_workspace_path := norm (rj_workspace_path j),
        rj_conversation_id := norm (rj_conversation_id j),
        rj_scheduled_task_id := norm (rj_scheduled_task_id j)\<rparr>)"

definition run_job_ok :: "run_job \<Rightarrow> bool" where
  "run_job_ok j \<longleftrightarrow>
     rj_schema_version j = JStr SCHEMA_VERSION \<and>
     list_all (\<lambda>v. is_str v \<and> truthy v)
       [rj_job_id j, rj_trace_id j, rj_task_id j, rj_run_id j, rj_user_goal j, rj_created_at j] \<and>
     list_all is_str (rj_authorized_tools j)"

lemma run_job_from_dict_run_job_ok: "run_job_from_dict d = Inr j \<Longrightarrow> run_job_ok j"
  by (auto simp: run_job_from_dict_def rbind_Inr_iff run_job_ok_def run_job_required_def
      required_string_def list_all_iff)

lemma opt_field_last [simp]: "dget (opt_field k v) k' dflt = (if k' = k \<and> truthy v then v else dflt)"
  by (simp add: opt_field_def)

lemma run_job_to_dict_fields:
  "dget (run_job_to_dict j) ''job_id'' x = rj_job_id j"
  "dget (run_job_to_dict j) ''trace_id'' x = rj_trace_id j"
  "dget (run_job_to_dict j) ''task_id'' x = rj_task_id j"
  "dget (run_job_to_dict j) ''run_id'' x = rj_run_id j"
  "dget (run_job_to_dict j) ''user_goal'' x = rj_user_goal j"
  "dget (run_job_to_dict j) ''created_at'' x = rj_created_at j"
  "dget (run_job_to_dict j) ''schema_version'' x = rj_schema_version j"
  "dget (run_job_to_dict j) ''workspace_path'' x = (if truthy (rj_workspace_path j) then rj_workspace_path j else x)"
  "dget (run_job_to_dict j) ''conversation_id'' x = (if truthy (rj_conversation_id j) then rj_conversation_id j else x)"
  "dget (run_job_to_dict j) ''resume_from_checkpoint'' x = (if rj_resume_from_checkpoint j then JBool True else x)"
  "dget (run_job_to_dict j) ''retry_from_checkpoint'' x = (if rj_retry_from_checkpoint j then JBool True else x)"
  "dget (run_job_to_dict j) ''scheduled_task_id'' x = (if truthy (rj_scheduled_task_id j) then rj_scheduled_task_id j else x)"
  "dget (run_job_to_dict j) ''authorized_tools'' x = (if rj_authorized_tools j \<noteq> [] then JList (rj_authorized_tools j) else x)"
  "dget (run_job_to_dict j) ''source_policy'' x = (if rj_source_policy j \<noteq> [] then JObj (rj_source_policy j) else x)"
  by (simp_all add: run_job_to_dict_def)

lemma run_job_to_from:
  assumes "run_job_ok j"
  shows "run_job_from_dict (run_job_to_dict j) = Inr (normalize_job j)"
proof -
  have tools: "iterate (dget (run_job_to_dict j) ''authorized_tools'' (JList [])) = Inr (rj_authorized_tools j)"
    by (simp add: run_job_to_dict_fields)
  have strs: "filter is_str (rj_authorized_tools j) = rj_authorized_tools j"
    using assms by (simp add: run_job_ok_def filter_id_conv list_all_iff)
  have req: "need_schema_version (run_job_to_dict j) = Inr ()"
    "need_required (run_job_to_dict j) run_job_required = Inr ()"
    using assms by (simp_all add: run_job_ok_def run_job_required_def required_string_def run_job_to_dict_fields)
  show ?thesis
    unfolding run_job_from_dict_def req tools rbind_simps strs
    by (simp add: run_job_to_dict_fields normalize_job_def Let_def)
qed

lemma envelope_of_event:
  "build_envelope (build_runtime_event ty t r s p eid now) tr w =
     Inr \<lparr>ee_event_id = eid, ee_trace_id = tr, ee_task_id = t, ee_run_id = r, ee_event_type = JStr ty,
          ee_runtime_event = build_runtime_event ty t r s p eid now, ee_produced_by = JStr w,
          ee_schema_version = JStr SCHEMA_VERSION, ee_internal = []\<rparr>"
  by (simp add: build_envelope_def build_runtime_event_def ditem_def)

section \<open>Properties\<close>

text \<open>
  Every envelope the Runtime builds around an event of its own passes the consistency check of
  the receiving side, whenever type, task, run and event id are non-empty.
\<close>

theorem built_envelope_validates:
  assumes "ty \<noteq> []" and "truthy t" and "truthy r" and "truthy eid"
  shows "\<exists>e. build_envelope (build_runtime_event ty t r s p eid now) tr w = Inr e \<and> envelope_validate e = Inr ()"
  unfolding envelope_of_event
  by (intro exI conjI, rule refl) (use assms in \<open>simp add: envelope_validate_def Let_def build_runtime_event_def\<close>)

text \<open>
  C40. A decoded run job survives encoding: re-encoding it and decoding again gives the same job, up
  to falsy optional fields, which normalise to the empty string.
\<close>

theorem run_job_roundtrip:
  assumes "run_job_from_dict d = Inr j"
  shows "run_job_from_dict (run_job_to_dict j) = Inr (normalize_job j)"
  using run_job_to_from [OF run_job_from_dict_run_job_ok [OF assms]] .

section \<open>Witnesses\<close>

lemma built_envelope_validates_witness:
  "\<exists>e. build_envelope (build_runtime_event ''agent.run.failed'' (JId (Uuid4 0)) (JId (Uuid4 1)) JNull []
      (JId (Uuid4 2)) 5) (JId (Uuid4 3)) ''w'' = Inr e \<and> envelope_validate e = Inr ()"
  by (rule built_envelope_validates) simp_all

definition sample_job :: dict where
  "sample_job =
     [(''job_id'', JId (Uuid4 10)), (''trace_id'', JId (Uuid4 11)), (''task_id'', JId (Uuid4 12)),
      (''run_id'', JId (Uuid4 13)), (''user_goal'', JStr ''goal''), (''created_at'', JTime 0),
      (''schema_version'', JStr ''2B-1a.1'')]"

lemma run_job_roundtrip_witness:
  "\<exists>j. run_job_from_dict sample_job = Inr j \<and> run_job_from_dict (run_job_to_dict j) = Inr (normalize_job j)"
proof -
  have "is_ok (run_job_from_dict sample_job)" by code_simp
  then obtain j where "run_job_from_dict sample_job = Inr j" by (auto simp: is_ok_iff)
  from this run_job_roundtrip [OF this] show ?thesis by blast
qed

end
