(* ===== verification/ToolGateway.thy ===== *)
theory ToolGateway
  imports PyJson "HOL-Library.List_Lexorder" "HOL-Library.Char_ord"
begin

text \<open>
  \<open>agent/permissions/manager.py\<close> and \<open>agent/tool_gateway/\<close>: the tool registry, the risk
  policy, argument validation against the manifest's schema, and the one entry point through
  which a tool's effect can happen.  An executor is code outside these files: a function from
  the request to its result, \<open>None\<close> when it raises.  \<open>execute\<close> also returns the trace of what
  it called, so that "nothing was executed" is a statement about its value.
\<close>

section \<open>Contracts\<close>

record tool_manifest =
  tm_name :: string
  tm_provider :: string
  tm_risk_level_default :: string
  tm_enabled :: bool
  tm_permission_scope :: string
  tm_input_schema :: dict
  tm_allowed_decisions :: "string list"
  tm_mcp_server_id :: string
  tm_metadata :: dict

record tool_request =
  tq_task_id :: json
  tq_run_id :: json
  tq_step_id :: json
  tq_tool_name :: string
  tq_arguments :: json
  tq_reason :: string
  tq_requested_by :: string
  tq_authorization_scope :: dict
  tq_execution_context :: dict

record tool_result =
  tr_ok :: bool
  tr_kind :: string
  tr_data :: json
  tr_artifact_ids :: "string list"
  tr_error :: "error option"
  tr_metadata :: dict

record permission_check_result =
  pc_allowed :: bool
  pc_risk_level :: string
  pc_decision :: string
  pc_needs_user_approval :: bool
  pc_allowed_decisions :: "string list"

record permission_approval =
  pa_request_id :: string
  pa_decision :: string

type_synonym executor = "tool_request \<Rightarrow> tool_result option"

definition failed_result :: "string \<Rightarrow> string \<Rightarrow> bool \<Rightarrow> dict \<Rightarrow> tool_result" where
  "failed_result code category recoverable metadata =
     \<lparr>tr_ok = False, tr_kind = ''empty'', tr_data = JNull, tr_artifact_ids = [],
      tr_error = Some (AppError code category recoverable), tr_metadata = metadata\<rparr>"

section \<open>Registry\<close>

record tool_registry =
  rg_manifests :: "(string \<times> tool_manifest) list"
  rg_executors :: "(string \<times> executor) list"

definition empty_registry :: tool_registry where
  "empty_registry = \<lparr>rg_manifests = [], rg_executors = []\<rparr>"

definition register :: "tool_manifest \<Rightarrow> executor \<Rightarrow> tool_registry \<Rightarrow> tool_registry res" where
  "register m ex r =
     (if tm_name m \<in> fst ` set (rg_manifests r) then Inl ValueError
      else Inr (r\<lparr>rg_manifests := rg_manifests r @ [(tm_name m, m)],
                 rg_executors := rg_executors r @ [(tm_name m, ex)]\<rparr>))"

definition get_manifest :: "tool_registry \<Rightarrow> string \<Rightarrow> tool_manifest option" where
  "get_manifest r name = map_of (rg_manifests r) name"

definition get_executor :: "tool_registry \<Rightarrow> string \<Rightarrow> executor option" where
  "get_executor r name = map_of (rg_executors r) name"

definition list_manifests :: "tool_registry \<Rightarrow> tool_manifest list" where
  "list_manifests r = map snd (rg_manifests r)"

fun register_all :: "(tool_manifest \<times> executor) list \<Rightarrow> tool_registry \<Rightarrow> tool_registry res" where
  "register_all [] r = Inr r"
| "register_all ((m, ex) # ts) r = rbind (register m ex r) (register_all ts)"

section \<open>Permission policy\<close>

definition L0_ALLOWED_TOOLS :: "string list" where
  "L0_ALLOWED_TOOLS =
     [''workspace.list_files'', ''workspace.get_file_info'', ''workspace.read_file'',
      ''workspace.read_files'', ''workspace.search_files'', ''workspace.search_text'',
      ''rag.search'', ''rag.await_ingestion'']"

text \<open>\<open>x in container\<close>; in a string it is the substring test.\<close>

fun is_prefix :: "string \<Rightarrow> string \<Rightarrow> bool" where
  "is_prefix [] s = True"
| "is_prefix (c # cs) [] = False"
| "is_prefix (c # cs) (d # ds) = (c = d \<and> is_prefix cs ds)"

fun is_infix :: "string \<Rightarrow> string \<Rightarrow> bool" where
  "is_infix p [] = (p = [])"
| "is_infix p (c # cs) = (is_prefix p (c # cs) \<or> is_infix p cs)"

fun py_in :: "json \<Rightarrow> json \<Rightarrow> bool res" where
  "py_in x (JObj d) = in_strs x (keys d)"
| "py_in x (JList xs) = Inr (x \<in> set xs)"
| "py_in x (JStr s) =
     (case x of JStr t \<Rightarrow> Inr (is_infix t s) | JId _ \<Rightarrow> Inr False | JTime _ \<Rightarrow> Inr False
      | _ \<Rightarrow> Inl TypeError)"
| "py_in x _ = Inl TypeError"

text \<open>The scheduled-task authorisation of an L2 document creation; the conjuncts are evaluated
  in order and only the last can raise.\<close>

definition scheduled_task_scope :: "tool_manifest \<Rightarrow> dict \<Rightarrow> bool res" where
  "scheduled_task_scope m scope =
     (if tm_risk_level_default m = ''L2'' \<and>
         dget scope ''type'' JNull = JStr ''scheduled_task'' \<and>
         is_str (dget scope ''scheduled_task_id'' JNull) \<and>
         truthy (dget scope ''scheduled_task_id'' JNull) \<and>
         tm_name m = ''knowledge.create_document''
      then py_in (JStr (tm_name m)) (dget scope ''authorized_tools'' (JList []))
      else Inr False)"

definition user_decisions :: "string list \<Rightarrow> string list" where
  "user_decisions allowed =
     (let decisions = filter (\<lambda>v. v \<in> {''allow_once'', ''deny''}) allowed;
          decisions = (if ''allow_once'' \<notin> set decisions then ''allow_once'' # decisions else decisions)
      in (if ''deny'' \<notin> set decisions then decisions @ [''deny''] else decisions))"

definition check :: "tool_manifest \<Rightarrow> tool_request \<Rightarrow> permission_check_result res" where
  "check m rq =
     (let risk = tm_risk_level_default m;
          result = (\<lambda>allowed decision needs decisions.
            \<lparr>pc_allowed = allowed, pc_risk_level = risk, pc_decision = decision,
             pc_needs_user_approval = needs, pc_allowed_decisions = decisions\<rparr>)
      in rbind (scheduled_task_scope m (tq_authorization_scope rq)) (\<lambda>scheduled.
         if scheduled then Inr (result True ''allow'' False [])
         else if risk = ''L0'' \<and> tm_name m \<in> set L0_ALLOWED_TOOLS then Inr (result True ''allow'' False [])
         else if risk = ''L1'' then Inr (result True ''allow'' False [])
         else if risk \<in> {''L2'', ''L3'', ''L4''} then
           Inr (result False ''ask_user'' True (user_decisions (tm_allowed_decisions m)))
         else Inr (result False ''deny'' False [])))"

section \<open>Argument validation\<close>

datatype schema_error =
    NotAnObject | MissingArgument json | UnknownArguments "string list" | WrongType string json

fun missing_argument :: "json list \<Rightarrow> json \<Rightarrow> json option res" where
  "missing_argument [] arguments = Inr None"
| "missing_argument (name # names) arguments =
     rbind (py_in name arguments) (\<lambda>present.
     if present then missing_argument names arguments else Inr (Some name))"

text \<open>\<open>type_map\<close>: the Python type an expected JSON Schema type stands for; \<open>bool\<close> is an \<open>int\<close>.\<close>

fun python_type :: "json \<Rightarrow> (json \<Rightarrow> bool) option" where
  "python_type (JStr t) =
     (if t = ''string'' then Some is_str else if t = ''integer'' then Some is_int
      else if t = ''number'' then Some is_number else if t = ''boolean'' then Some is_bool
      else if t = ''object'' then Some is_dict else if t = ''array'' then Some is_list else None)"
| "python_type _ = None"

fun check_types :: "json \<Rightarrow> dict \<Rightarrow> schema_error option res" where
  "check_types properties [] = Inr None"
| "check_types properties ((name, v) # args) =
     rbind (get_attr properties name) (\<lambda>prop.
     rbind (get_attr (or_empty (JObj []) prop) ''type'') (\<lambda>expected.
     if \<not> hashable expected then Inl TypeError
     else case python_type expected of
            Some isinstance \<Rightarrow>
              if \<not> isinstance v then Inr (Some (WrongType name expected))
              else check_types properties args
          | None \<Rightarrow> check_types properties args))"

definition unknown_arguments :: "json \<Rightarrow> json \<Rightarrow> string list res" where
  "unknown_arguments arguments properties =
     rbind (iterate arguments) (\<lambda>names.
     rbind (iterate properties) (\<lambda>known.
     if (\<exists>x \<in> set names \<union> set known. \<not> hashable x) then Inl TypeError
     else Inr (sort (dedup [s. JStr s \<leftarrow> filter (\<lambda>n. n \<notin> set known) names]))))"

definition validate_arguments :: "dict \<Rightarrow> json \<Rightarrow> schema_error option res" where
  "validate_arguments schema arguments =
     (if schema = [] then Inr None
      else if dget schema ''type'' JNull = JStr ''object'' \<and> \<not> is_dict arguments then Inr (Some NotAnObject)
      else
        (let properties = or_empty (JObj []) (dget schema ''properties'' JNull) in
         rbind (iterate (or_empty (JList []) (dget schema ''required'' JNull))) (\<lambda>required.
         rbind (missing_argument required arguments) (\<lambda>missing.
         case missing of Some name \<Rightarrow> Inr (Some (MissingArgument name))
         | None \<Rightarrow>
           rbind (if dget schema ''additionalProperties'' JNull = JBool False
                  then unknown_arguments arguments properties else Inr []) (\<lambda>unknown.
           if unknown \<noteq> [] then Inr (Some (UnknownArguments unknown))
           else case arguments of JObj d \<Rightarrow> check_types properties d | _ \<Rightarrow> Inl AttributeError)))))"

section \<open>Gateway\<close>

datatype assessment =
    Rejected tool_result
  | Assessed tool_manifest permission_check_result

definition assess :: "tool_registry \<Rightarrow> tool_request \<Rightarrow> assessment res" where
  "assess r rq =
     (case get_manifest r (tq_tool_name rq) of
        None \<Rightarrow> Inr (Rejected (failed_result ''TOOL_NOT_FOUND'' ''tool'' False []))
      | Some m \<Rightarrow>
          if \<not> tm_enabled m then Inr (Rejected (failed_result ''TOOL_DISABLED'' ''tool'' False []))
          else rbind (validate_arguments (tm_input_schema m) (tq_arguments rq)) (\<lambda>schema_error.
            if schema_error \<noteq> None
            then Inr (Rejected (failed_result ''TOOL_ARGUMENTS_INVALID'' ''validation'' True []))
            else rbind (check m rq) (\<lambda>p. Inr (Assessed m p))))"

datatype boundary_outcome = Released | BoundaryError string | BoundaryCrash

type_synonym boundary = "tool_request \<Rightarrow> tool_manifest \<Rightarrow> permission_approval \<Rightarrow> boundary_outcome"

datatype gateway_call = BoundaryReached string | ExecutorCalled string

definition run_executor :: "executor \<Rightarrow> tool_request \<Rightarrow> tool_result" where
  "run_executor ex rq =
     (case ex rq of
        None \<Rightarrow> failed_result ''TOOL_EXECUTION_ERROR'' ''tool'' True []
      | Some result \<Rightarrow> result)"

definition execute ::
  "boundary option \<Rightarrow> tool_registry \<Rightarrow> tool_request \<Rightarrow> permission_approval option \<Rightarrow>
   (tool_result \<times> gateway_call list) res" where
  "execute effect_boundary r rq approval =
     rbind (assess r rq) (\<lambda>a.
     case a of Rejected result \<Rightarrow> Inr (result, [])
     | Assessed m p \<Rightarrow>
       if (case approval of None \<Rightarrow> False
           | Some ap \<Rightarrow> pa_decision ap \<noteq> ''allow_once'' \<or> py_strip (pa_request_id ap) = [])
       then Inr (failed_result ''PERMISSION_APPROVAL_INVALID'' ''permission'' False [], [])
       else if pc_needs_user_approval p \<and> approval = None
       then Inr (failed_result ''PERMISSION_REQUIRED'' ''permission'' True
         [(''risk_level'', JStr (pc_risk_level p)),
          (''allowed_decisions'', JList (map JStr (pc_allowed_decisions p)))], [])
       else if \<not> pc_allowed p \<and> approval = None
       then Inr (failed_result ''PERMISSION_DENIED'' ''permission'' False [], [])
       else if approval \<noteq> None \<and> \<not> pc_needs_user_approval p
       then Inr (failed_result ''PERMISSION_APPROVAL_INVALID'' ''permission'' False [], [])
       else case get_executor r (tq_tool_name rq) of
         None \<Rightarrow> Inr (failed_result ''EXECUTOR_NOT_FOUND'' ''internal'' False [], [])
       | Some ex \<Rightarrow>
         (case (approval, effect_boundary) of
            (Some ap, Some before_effect) \<Rightarrow>
              (case before_effect rq m ap of
                 BoundaryError code \<Rightarrow>
                   Inr (failed_result code ''runtime'' False [], [BoundaryReached (tq_tool_name rq)])
               | BoundaryCrash \<Rightarrow>
                   Inr (failed_result ''TOOL_EFFECT_BOUNDARY_ERROR'' ''runtime'' False [],
                        [BoundaryReached (tq_tool_name rq)])
               | Released \<Rightarrow>
                   Inr (run_executor ex rq,
                        [BoundaryReached (tq_tool_name rq), ExecutorCalled (tq_tool_name rq)]))
          | _ \<Rightarrow> Inr (run_executor ex rq, [ExecutorCalled (tq_tool_name rq)])))"

section \<open>The file barrier before an approved effect\<close>

text \<open>
  \<open>FileToolEffectBarrier.before_effect\<close>: one element per round of the wait loop, whether the
  release file was there and the monotonic clock read after the test; \<open>None\<close> is still waiting.
\<close>

fun barrier_wait :: "int \<Rightarrow> (bool \<times> int) list \<Rightarrow> boundary_outcome option" where
  "barrier_wait deadline [] = None"
| "barrier_wait deadline ((released, now) # rounds) =
     (if released then Some Released
      else if deadline - now \<le> 0 then Some (BoundaryError ''TOOL_EFFECT_BARRIER_TIMEOUT'')
      else barrier_wait deadline rounds)"

definition barrier_before_effect ::
  "bool \<Rightarrow> int \<Rightarrow> int \<Rightarrow> (bool \<times> int) list \<Rightarrow> boundary_outcome option" where
  "barrier_before_effect marker_written timeout start rounds =
     (if \<not> marker_written then Some (BoundaryError ''TOOL_EFFECT_BARRIER_UNAVAILABLE'')
      else barrier_wait (start + timeout) rounds)"

section \<open>Lemmas\<close>

definition registry_ok :: "tool_registry \<Rightarrow> bool" where
  "registry_ok r \<longleftrightarrow>
     map fst (rg_manifests r) = map fst (rg_executors r) \<and> distinct (map fst (rg_manifests r)) \<and>
     (\<forall>(n, m) \<in> set (rg_manifests r). tm_name m = n)"

lemma empty_registry_ok [simp]: "registry_ok empty_registry"
  by (simp add: registry_ok_def empty_registry_def)

lemma registry_names: "registry_ok r \<Longrightarrow> fst ` set (rg_executors r) = fst ` set (rg_manifests r)"
  unfolding registry_ok_def by (metis list.set_map)

lemma register_ok: "registry_ok r \<Longrightarrow> register m ex r = Inr r' \<Longrightarrow> registry_ok r'"
  using registry_names [of r] by (force simp: registry_ok_def register_def split: if_splits)

lemma register_all_ok: "registry_ok r \<Longrightarrow> register_all ts r = Inr r' \<Longrightarrow> registry_ok r'"
  by (induction ts r rule: register_all.induct) (auto simp: rbind_Inr_iff intro: register_ok)

text \<open>A registered manifest always has its executor: the gateway's missing-executor branch is dead.\<close>

lemma registry_executor:
  assumes "registry_ok r" "get_manifest r n = Some m"
  shows "\<exists>ex. get_executor r n = Some ex"
proof -
  have "n \<in> set (map fst (rg_manifests r))"
    using assms(2) by (force simp: get_manifest_def dest: map_of_SomeD)
  then have "n \<in> fst ` set (rg_executors r)"
    using assms(1) unfolding registry_ok_def by (metis list.set_map)
  then show ?thesis
    unfolding get_executor_def by (cases "map_of (rg_executors r) n") (auto simp: map_of_eq_None_iff)
qed

lemma register_get:
  assumes "register m ex r = Inr r'" "registry_ok r"
  shows "get_manifest r' n = (if n = tm_name m then Some m else get_manifest r n)"
    and "get_executor r' n = (if n = tm_name m then Some ex else get_executor r n)"
proof -
  from assms have new: "tm_name m \<notin> fst ` set (rg_manifests r)"
    and r': "rg_manifests r' = rg_manifests r @ [(tm_name m, m)]"
      "rg_executors r' = rg_executors r @ [(tm_name m, ex)]"
    by (auto simp: register_def split: if_splits)
  from new assms(2) have "map_of (rg_manifests r) (tm_name m) = None"
    "map_of (rg_executors r) (tm_name m) = None"
    by (simp_all add: map_of_eq_None_iff registry_names)
  with r' show "get_manifest r' n = (if n = tm_name m then Some m else get_manifest r n)"
    and "get_executor r' n = (if n = tm_name m then Some ex else get_executor r n)"
    by (auto simp: get_manifest_def get_executor_def map_add_def split: option.splits)
qed

lemma set_user_decisions: "set (user_decisions ds) = {''allow_once'', ''deny''}"
  by (auto simp: user_decisions_def Let_def)

text \<open>The policy as a table: what each risk level comes to.\<close>

lemma check_cases:
  assumes "check m rq = Inr p"
  obtains
    (scheduled) "scheduled_task_scope m (tq_authorization_scope rq) = Inr True" "pc_allowed p" "\<not> pc_needs_user_approval p"
  | (L0) "tm_risk_level_default m = ''L0''" "tm_name m \<in> set L0_ALLOWED_TOOLS" "pc_allowed p" "\<not> pc_needs_user_approval p"
  | (L1) "tm_risk_level_default m = ''L1''" "pc_allowed p" "\<not> pc_needs_user_approval p"
  | (ask) "tm_risk_level_default m \<in> {''L2'', ''L3'', ''L4''}" "\<not> pc_allowed p" "pc_needs_user_approval p"
      "set (pc_allowed_decisions p) = {''allow_once'', ''deny''}"
  | (deny) "tm_risk_level_default m \<notin> {''L1'', ''L2'', ''L3'', ''L4''}"
      "tm_risk_level_default m = ''L0'' \<Longrightarrow> tm_name m \<notin> set L0_ALLOWED_TOOLS"
      "\<not> pc_allowed p" "\<not> pc_needs_user_approval p"
  using assms by (auto simp: check_def Let_def rbind_Inr_iff set_user_decisions split: if_splits)

lemma scheduled_task_scope_L2:
  "scheduled_task_scope m scope = Inr True \<Longrightarrow>
     tm_risk_level_default m = ''L2'' \<and> tm_name m = ''knowledge.create_document''"
  by (auto simp: scheduled_task_scope_def split: if_splits)

lemma execute_Rejected:
  "assess r rq = Inr (Rejected res) \<Longrightarrow> execute eb r rq ap = Inr (res, [])"
  by (simp add: execute_def)

lemma assess_Assessed:
  "assess r rq = Inr (Assessed m p) \<longleftrightarrow>
     get_manifest r (tq_tool_name rq) = Some m \<and> tm_enabled m \<and>
     validate_arguments (tm_input_schema m) (tq_arguments rq) = Inr None \<and> check m rq = Inr p"
  by (auto simp: assess_def rbind_Inr_iff split: option.splits if_splits)

text \<open>When the executor was called, every gate was passed.\<close>

definition approval_valid :: "permission_approval option \<Rightarrow> bool" where
  "approval_valid approval \<longleftrightarrow>
     (case approval of None \<Rightarrow> False
      | Some ap \<Rightarrow> pa_decision ap = ''allow_once'' \<and> py_strip (pa_request_id ap) \<noteq> [])"

lemma execute_calledE:
  assumes "execute eb r rq approval = Inr (result, trace)" and "ExecutorCalled n \<in> set trace"
  obtains m p where "n = tq_tool_name rq" "assess r rq = Inr (Assessed m p)"
    "approval = None \<and> pc_allowed p \<and> \<not> pc_needs_user_approval p \<or>
     approval_valid approval \<and> pc_needs_user_approval p"
proof -
  from assms obtain a where a: "assess r rq = Inr a" by (auto simp: execute_def rbind_Inr_iff)
  show ?thesis
  proof (cases a)
    case (Rejected x1)
    then show ?thesis using assms a by (simp add: execute_def)
  next
    case (Assessed m p)
    show ?thesis
      by (rule that [of m p])
        (use assms a Assessed in \<open>auto simp: execute_def approval_valid_def
          split: if_splits option.splits boundary_outcome.splits\<close>)
  qed
qed

lemma check_types_sound:
  "check_types (JObj ps) args = Inr None \<Longrightarrow> (name, v) \<in> set args \<Longrightarrow>
    get_attr (or_empty (JObj []) (dget ps name JNull)) ''type'' = Inr expected \<Longrightarrow>
    python_type expected = Some isinst \<Longrightarrow> isinst v"
  by (induction "JObj ps" args rule: check_types.induct)
    (auto simp: rbind_Inr_iff split: if_splits option.splits)

lemma missing_argument_None:
  "missing_argument names arguments = Inr None \<Longrightarrow> n \<in> set names \<Longrightarrow> py_in n arguments = Inr True"
  by (induction names arguments rule: missing_argument.induct)
    (auto simp: rbind_Inr_iff split: if_splits)

lemma unknown_arguments_Nil:
  "unknown_arguments (JObj d) (JObj ps) = Inr [] \<Longrightarrow> set (keys d) \<subseteq> set (keys ps)"
proof
  fix n
  assume u: "unknown_arguments (JObj d) (JObj ps) = Inr []" and "n \<in> set (keys d)"
  then obtain v where "(n, v) \<in> set d" by (auto simp: keys_def)
  moreover from u have nil: "sort (dedup [s. JStr s \<leftarrow> filter (\<lambda>n. n \<notin> set (map (\<lambda>p. JStr (fst p)) ps))
      (map (\<lambda>p. JStr (fst p)) d)]) = []"
    by (simp add: unknown_arguments_def split: if_splits)
  have "\<forall>p \<in> set d. JStr (fst p) \<in> set (map (\<lambda>p. JStr (fst p)) ps)"
    using arg_cong [OF nil, of set] unfolding set_sort set_dedup by auto
  ultimately show "n \<in> set (keys ps)" by (fastforce simp: keys_def)
qed

lemma barrier_wait_Released:
  "barrier_wait deadline rounds = Some Released \<Longrightarrow> \<exists>(rel, now) \<in> set rounds. rel"
  by (induction deadline rounds rule: barrier_wait.induct) (auto split: if_splits)

lemma barrier_wait_Timeout:
  "barrier_wait deadline rounds = Some (BoundaryError c) \<Longrightarrow> \<exists>(rel, now) \<in> set rounds. \<not> rel \<and> deadline \<le> now"
  by (induction deadline rounds rule: barrier_wait.induct) (auto split: if_splits)

section \<open>Properties\<close>

text \<open>
  C3. The gateway calls an executor only when the tool is registered and enabled, its arguments
  pass the manifest's schema, and the call is authorised: either the policy allows it by itself
  (whitelisted L0, L1, or an L2 \<open>knowledge.create_document\<close> under the user's scheduled-task scope)
  and no approval is presented, or the risk is L2, L3 or L4 and a valid one-time approval is
  presented.  In particular an L5 tool, an unlisted L0 tool and an unknown risk never execute.
\<close>

theorem execute_only_authorized:
  assumes "execute eb r rq approval = Inr (result, trace)" and "ExecutorCalled n \<in> set trace"
  shows "n = tq_tool_name rq \<and>
    (\<exists>m. get_manifest r n = Some m \<and> tm_enabled m \<and>
      validate_arguments (tm_input_schema m) (tq_arguments rq) = Inr None \<and>
      (approval = None \<and>
         (tm_risk_level_default m = ''L0'' \<and> tm_name m \<in> set L0_ALLOWED_TOOLS \<or>
          tm_risk_level_default m = ''L1'' \<or>
          tm_risk_level_default m = ''L2'' \<and> tm_name m = ''knowledge.create_document'' \<and>
            scheduled_task_scope m (tq_authorization_scope rq) = Inr True) \<or>
       approval_valid approval \<and> tm_risk_level_default m \<in> {''L2'', ''L3'', ''L4''}))"
  using assms
proof (rule execute_calledE)
  fix m p
  assume n: "n = tq_tool_name rq" and a: "assess r rq = Inr (Assessed m p)"
    and ap: "approval = None \<and> pc_allowed p \<and> \<not> pc_needs_user_approval p \<or>
      approval_valid approval \<and> pc_needs_user_approval p"
  from a have m: "get_manifest r n = Some m" "tm_enabled m"
    "validate_arguments (tm_input_schema m) (tq_arguments rq) = Inr None" and c: "check m rq = Inr p"
    by (simp_all add: assess_Assessed n)
  from c m ap show ?thesis
    by (cases rule: check_cases) (use n in \<open>auto dest: scheduled_task_scope_L2\<close>)
qed

text \<open>
  The complement of the authorisation rule: a call that the policy allows by itself, or that
  needs the user and carries a valid one-time approval, runs the registered executor exactly once
  and returns its result (a raising executor becomes a recoverable TOOL_EXECUTION_ERROR), provided
  the registry was built by \<open>register\<close>.  When a boundary is configured, an approved effect
  reaches it first and runs only if it is released.
\<close>

theorem execute_runs_authorized:
  assumes "register_all tools empty_registry = Inr r"
    and "assess r rq = Inr (Assessed m p)"
    and "approval = None \<and> pc_allowed p \<and> \<not> pc_needs_user_approval p \<or>
         approval_valid approval \<and> pc_needs_user_approval p"
  shows "\<exists>ex. get_executor r (tq_tool_name rq) = Some ex \<and>
    execute eb r rq approval = Inr (
      case (approval, eb) of
        (Some ap, Some before_effect) \<Rightarrow>
          (case before_effect rq m ap of
             Released \<Rightarrow> (run_executor ex rq, [BoundaryReached (tq_tool_name rq), ExecutorCalled (tq_tool_name rq)])
           | BoundaryError code \<Rightarrow> (failed_result code ''runtime'' False [], [BoundaryReached (tq_tool_name rq)])
           | BoundaryCrash \<Rightarrow> (failed_result ''TOOL_EFFECT_BOUNDARY_ERROR'' ''runtime'' False [],
               [BoundaryReached (tq_tool_name rq)]))
      | _ \<Rightarrow> (run_executor ex rq, [ExecutorCalled (tq_tool_name rq)]))"
proof -
  have "registry_ok r" using register_all_ok [OF empty_registry_ok assms(1)] .
  moreover have "get_manifest r (tq_tool_name rq) = Some m"
    using assms(2) by (simp add: assess_Assessed)
  ultimately obtain ex where "get_executor r (tq_tool_name rq) = Some ex"
    using registry_executor by blast
  with assms(2,3) show ?thesis
    by (auto simp: execute_def approval_valid_def split: option.splits boundary_outcome.splits)
qed

text \<open>
  Argument validation is sound: arguments it accepts for an object schema hold every required
  name, hold no undeclared name when \<open>additionalProperties\<close> is false, and every value of a
  property with a known JSON type has that Python type.
\<close>

theorem validate_arguments_sound:
  assumes "validate_arguments schema (JObj args) = Inr None" and "schema \<noteq> []"
    and "dget schema ''properties'' JNull = JObj props"
  shows "(\<forall>names n. dget schema ''required'' JNull = JList names \<longrightarrow> JStr n \<in> set names \<longrightarrow> n \<in> set (keys args)) \<and>
    (dget schema ''additionalProperties'' JNull = JBool False \<longrightarrow> set (keys args) \<subseteq> set (keys props)) \<and>
    (\<forall>name v ps ty isinst. (name, v) \<in> set args \<longrightarrow> map_of props name = Some (JObj ps) \<longrightarrow> ps \<noteq> [] \<longrightarrow>
       dget ps ''type'' JNull = JStr ty \<longrightarrow> python_type (JStr ty) = Some isinst \<longrightarrow> isinst v)"
proof -
  have props: "or_empty (JObj []) (dget schema ''properties'' JNull) = JObj props"
    using assms(3) by (cases props) (auto simp: or_empty_def)
  with assms(1,2) obtain required unknown where
    req: "iterate (or_empty (JList []) (dget schema ''required'' JNull)) = Inr required"
      "missing_argument required (JObj args) = Inr None"
    and unk: "(if dget schema ''additionalProperties'' JNull = JBool False
        then unknown_arguments (JObj args) (JObj props) else Inr []) = Inr unknown" "unknown = []"
    and ty: "check_types (JObj props) args = Inr None"
    by (auto simp: validate_arguments_def Let_def rbind_Inr_iff split: if_splits option.splits)
  have "n \<in> set (keys args)" if "dget schema ''required'' JNull = JList names" "JStr n \<in> set names" for names n
  proof -
    from that req(1) have "JStr n \<in> set required" by (auto simp: or_empty_def split: if_splits)
    from missing_argument_None [OF req(2) this] show ?thesis by (simp add: in_strs_def)
  qed
  moreover have "set (keys args) \<subseteq> set (keys props)" if "dget schema ''additionalProperties'' JNull = JBool False"
    using unk that by (auto dest!: unknown_arguments_Nil)
  moreover have "isinst v" if "(name, v) \<in> set args" "map_of props name = Some (JObj ps)" "ps \<noteq> []"
    "dget ps ''type'' JNull = JStr ty" "python_type (JStr ty) = Some isinst" for name v ps ty isinst
    by (rule check_types_sound [OF ty that(1) _ that(5)])
      (use that(2-4) in \<open>simp add: dget_def or_empty_def\<close>)
  ultimately show ?thesis by blast
qed

section \<open>Witnesses\<close>

definition sample_manifest :: tool_manifest where
  "sample_manifest =
     \<lparr>tm_name = ''fs.write'', tm_provider = ''native'', tm_risk_level_default = ''L3'', tm_enabled = True,
      tm_permission_scope = ''workspace'',
      tm_input_schema = [(''type'', JStr ''object''),
        (''properties'', JObj [(''p'', JObj [(''type'', JStr ''string'')])]),
        (''required'', JList [JStr ''p'']), (''additionalProperties'', JBool False)],
      tm_allowed_decisions = [''allow_once'', ''deny''], tm_mcp_server_id = [], tm_metadata = []\<rparr>"

definition sample_request :: tool_request where
  "sample_request =
     \<lparr>tq_task_id = JStr ''t'', tq_run_id = JStr ''r'', tq_step_id = JStr ''s'', tq_tool_name = ''fs.write'',
      tq_arguments = JObj [(''p'', JStr ''x'')], tq_reason = [], tq_requested_by = ''agent'',
      tq_authorization_scope = [], tq_execution_context = []\<rparr>"

definition sample_executor :: executor where
  "sample_executor rq = Some \<lparr>tr_ok = True, tr_kind = ''text'', tr_data = JStr ''done'',
     tr_artifact_ids = [], tr_error = None, tr_metadata = []\<rparr>"

definition sample_registry :: tool_registry where
  "sample_registry = \<lparr>rg_manifests = [(''fs.write'', sample_manifest)],
     rg_executors = [(''fs.write'', sample_executor)]\<rparr>"

definition sample_approval :: permission_approval where
  "sample_approval = \<lparr>pa_request_id = ''q1'', pa_decision = ''allow_once''\<rparr>"

lemmas sample_defs = sample_manifest_def sample_request_def sample_executor_def
  sample_registry_def sample_approval_def

lemma sample_assess:
  "assess sample_registry sample_request = Inr (Assessed sample_manifest
     \<lparr>pc_allowed = False, pc_risk_level = ''L3'', pc_decision = ''ask_user'',
      pc_needs_user_approval = True, pc_allowed_decisions = [''allow_once'', ''deny'']\<rparr>)"
  by code_simp

lemma sample_execute:
  "execute None sample_registry sample_request (Some sample_approval) =
     Inr (run_executor sample_executor sample_request, [ExecutorCalled ''fs.write''])"
  by code_simp

lemma execute_only_authorized_witness:
  "''fs.write'' = tq_tool_name sample_request \<and>
   (\<exists>m. get_manifest sample_registry ''fs.write'' = Some m \<and> tm_enabled m \<and>
     approval_valid (Some sample_approval) \<and> tm_risk_level_default m \<in> {''L2'', ''L3'', ''L4''})"
  using execute_only_authorized [OF sample_execute, of "''fs.write''"] by auto

lemma execute_runs_authorized_witness:
  "\<exists>ex. get_executor sample_registry ''fs.write'' = Some ex \<and>
    execute (Some (\<lambda>_ _ _. Released)) sample_registry sample_request (Some sample_approval) =
      Inr (run_executor ex sample_request, [BoundaryReached ''fs.write'', ExecutorCalled ''fs.write''])"
proof -
  have reg: "register_all [(sample_manifest, sample_executor)] empty_registry = Inr sample_registry"
    by (simp add: sample_defs register_def empty_registry_def)
  have ap: "approval_valid (Some sample_approval)" by code_simp
  show ?thesis
    using execute_runs_authorized [OF reg sample_assess, of "Some sample_approval" "Some (\<lambda>_ _ _. Released)"] ap
    by (simp add: sample_request_def)
qed

lemma validate_arguments_sound_witness:
  "''p'' \<in> set (keys [(''p'', JStr ''x'')])"
proof -
  have "validate_arguments (tm_input_schema sample_manifest) (JObj [(''p'', JStr ''x'')]) = Inr None"
    by code_simp
  from validate_arguments_sound [OF this] show ?thesis by (simp add: sample_manifest_def)
qed

end
