(* ===== verification/Checkpoint.thy ===== *)
theory Checkpoint
  imports Harness LoopContracts Intents Messages ToolGateway
begin

text \<open>
  \<open>agent/core/checkpoint.py\<close>, \<open>state.py\<close> and \<open>actions.py\<close>: the agent state, the run checkpoint and
  the permission checkpoint, their construction and their fail-closed validation.  A checkpoint
  is the JSON object PostgreSQL stores.
\<close>

section \<open>Agent state and actions\<close>

text \<open>\<open>AgentState\<close>: the fields of the dataclass with their defaults.\<close>

definition agent_state_fields :: dict where
  "agent_state_fields =
     [(''task_id'', JStr []), (''run_id'', JStr []), (''user_goal'', JStr []), (''workspace_root'', JStr []),
      (''observations'', JList []), (''history_messages'', JList []),
      (''trusted_history_provenance'', JList []), (''memory_items'', JList []),
      (''skill_context'', JNull), (''intent'', JNull), (''intent_context'', JNull),
      (''intent_rejections'', JInt 0), (''intent_feedback'', JStr []), (''iteration'', JInt 0),
      (''effect_guard_rejections'', JInt 0), (''answer_guard_rejections'', JInt 0),
      (''answer_guard_feedback'', JStr []), (''source_chain_guard_rejections'', JInt 0),
      (''source_chain_evidence_rejections'', JInt 0), (''source_chain_slot_attempts'', JObj []),
      (''model_output_rejections'', JInt 0), (''effect_guard_feedback'', JStr []), (''final_output'', JStr []),
      (''next_step_seq'', JInt 1), (''recovery_attempts'', JInt 0), (''completion_contract'', JNull),
      (''loop_progress'', JNull), (''stop_decision'', JNull), (''run_control'', JNull)]"

definition state_get :: "dict \<Rightarrow> string \<Rightarrow> json" where
  "state_get st k = dget st k (dget agent_state_fields k JNull)"

definition legacy_agent_state_fields :: "string list" where
  "legacy_agent_state_fields = [''skill_workflow_stage'']"

text \<open>\<open>restore_agent_state\<close> keeps the known fields, drops retired ones, rejects any other.\<close>

definition restore_agent_state :: "dict \<Rightarrow> dict res" where
  "restore_agent_state raw =
     (if set (keys raw) \<subseteq> set (keys agent_state_fields) \<union> set legacy_agent_state_fields
      then Inr (filter (\<lambda>p. fst p \<in> set (keys agent_state_fields)) raw)
      else Inl ValueError)"

record agent_action =
  aa_action_type :: json
  aa_final_message :: json
  aa_tool_name :: json
  aa_arguments :: json
  aa_reason :: json
  aa_citations :: json
  aa_insufficient_evidence :: json

definition agent_action_fields :: "string list" where
  "agent_action_fields = [''action_type'', ''final_message'', ''tool_name'', ''arguments'', ''reason'',
     ''citations'', ''insufficient_evidence'']"

text \<open>\<open>AgentAction(**dict(value))\<close>: the first field has no default.\<close>

definition agent_action_of :: "json \<Rightarrow> agent_action res" where
  "agent_action_of value = rbind (keyword_dict value) (\<lambda>d.
     if set (keys d) \<subseteq> set agent_action_fields \<and> ''action_type'' \<in> set (keys d)
     then Inr \<lparr>aa_action_type = dget d ''action_type'' JNull, aa_final_message = dget d ''final_message'' (JStr []),
       aa_tool_name = dget d ''tool_name'' (JStr []), aa_arguments = dget d ''arguments'' (JObj []),
       aa_reason = dget d ''reason'' (JStr []), aa_citations = dget d ''citations'' (JList []),
       aa_insufficient_evidence = dget d ''insufficient_evidence'' (JBool False)\<rparr>
     else Inl TypeError)"

definition agent_action_asdict :: "agent_action \<Rightarrow> json" where
  "agent_action_asdict a = JObj
     [(''action_type'', aa_action_type a), (''final_message'', aa_final_message a),
      (''tool_name'', aa_tool_name a), (''arguments'', aa_arguments a), (''reason'', aa_reason a),
      (''citations'', aa_citations a), (''insufficient_evidence'', aa_insufficient_evidence a)]"

definition tool_request_fields :: "string list" where
  "tool_request_fields = [''task_id'', ''run_id'', ''step_id'', ''tool_name'', ''arguments'', ''reason'',
     ''requested_by'', ''authorization_scope'', ''execution_context'']"

text \<open>\<open>ToolRequest(**dict(value))\<close>: the keyword arguments, checked against the signature.\<close>

definition tool_request_kwargs :: "json \<Rightarrow> dict res" where
  "tool_request_kwargs value = rbind (keyword_dict value) (\<lambda>d.
     if set (keys d) \<subseteq> set tool_request_fields \<and> {''task_id'', ''run_id''} \<subseteq> set (keys d)
     then Inr d else Inl TypeError)"

definition tool_request_asdict :: "tool_request \<Rightarrow> json" where
  "tool_request_asdict r = JObj
     [(''task_id'', tq_task_id r), (''run_id'', tq_run_id r), (''step_id'', tq_step_id r),
      (''tool_name'', JStr (tq_tool_name r)), (''arguments'', tq_arguments r), (''reason'', JStr (tq_reason r)),
      (''requested_by'', JStr (tq_requested_by r)),
      (''authorization_scope'', JObj (tq_authorization_scope r)),
      (''execution_context'', JObj (tq_execution_context r))]"

section \<open>Run checkpoints\<close>

definition RUN_CHECKPOINT_VERSION :: int where "RUN_CHECKPOINT_VERSION = 5"
definition LEGACY_RUN_CHECKPOINT_VERSION :: int where "LEGACY_RUN_CHECKPOINT_VERSION = 4"
definition MAX_RUN_RECOVERY_ATTEMPTS :: int where "MAX_RUN_RECOVERY_ATTEMPTS = 3"
definition RESUMABLE_NODES :: "string list" where
  "RESUMABLE_NODES = [''extract_intent'', ''call_model'', ''validate_action'', ''execute_tool'']"
definition NON_RESUMABLE_NODES :: "string list" where
  "NON_RESUMABLE_NODES = [''tool_in_flight'']"

definition v5_fields :: "string list" where
  "v5_fields = [''completion_contract'', ''loop_progress'', ''stop_decision'', ''run_control'']"

definition forget :: "'a res \<Rightarrow> unit res" where
  "forget m = rbind m (\<lambda>_. Inr ())"

definition need_version :: "json \<Rightarrow> unit res" where
  "need_version v =
     (if hashable v then need (eq_int v RUN_CHECKPOINT_VERSION \<or> eq_int v LEGACY_RUN_CHECKPOINT_VERSION)
      else Inl TypeError)"

definition counter_ok :: "json \<Rightarrow> bool" where
  "counter_ok j \<longleftrightarrow> is_int j \<and> \<not> is_bool j \<and> 0 \<le> int_of j \<and> int_of j \<le> 20"

definition slot_attempts_ok :: "json \<Rightarrow> bool" where
  "slot_attempts_ok j \<longleftrightarrow>
     is_dict j \<and> length (entries_of j) \<le> 8 \<and>
     list_all (\<lambda>(key, v). key \<noteq> [] \<and> counter_ok v) (entries_of j)"

definition provenance_ok :: "json \<Rightarrow> bool" where
  "provenance_ok j \<longleftrightarrow>
     is_list j \<and> length (items_of j) \<le> 50 \<and>
     list_all (\<lambda>link. is_dict link \<and> truthy link \<and>
       list_all (\<lambda>(key, v). key \<noteq> [] \<and> is_str v \<and> truthy v \<and> str_len v \<le> 2048) (entries_of link))
       (items_of j)"

text \<open>The persisted completion contract, progress and stop decision of a version 5 state.\<close>

definition loop_control_ok :: "dict \<Rightarrow> unit res" where
  "loop_control_ok st =
     checks
       [need (state_get st ''completion_contract'' \<noteq> JNull \<and> state_get st ''loop_progress'' \<noteq> JNull \<and>
              state_get st ''stop_decision'' \<noteq> JNull),
        forget (contract_from_state_dict (state_get st ''completion_contract'')),
        forget (progress_from_state_dict (state_get st ''loop_progress'')),
        forget (stop_from_state_dict (state_get st ''stop_decision''))]"

definition run_control_present :: "dict \<Rightarrow> unit res" where
  "run_control_present st =
     checks
       [need (state_get st ''run_control'' \<noteq> JNull),
        forget (run_control_from_state_dict (state_get st ''run_control''))]"

text \<open>The bounds on the raw state before it is restored.\<close>

definition check_raw_state :: "dict \<Rightarrow> unit res" where
  "check_raw_state st =
     (let recovery_attempts = dget st ''recovery_attempts'' (JInt 0);
          feedback = dget st ''answer_guard_feedback'' (JStr [])
      in checks
        [need (is_int recovery_attempts \<and> 0 \<le> int_of recovery_attempts),
         need (counter_ok (dget st ''answer_guard_rejections'' (JInt 0)) \<and>
               is_str feedback \<and> str_len feedback \<le> 4000),
         need (counter_ok (dget st ''source_chain_evidence_rejections'' (JInt 0))),
         need (slot_attempts_ok (dget st ''source_chain_slot_attempts'' (JObj []))),
         need (provenance_ok (dget st ''trusted_history_provenance'' (JList [])))])"

text \<open>Version 4 has none of the version 5 fields, version 5 has all of them.\<close>

definition check_version_fields :: "json \<Rightarrow> dict \<Rightarrow> unit res" where
  "check_version_fields version st =
     (if eq_int version LEGACY_RUN_CHECKPOINT_VERSION
      then need (\<not> list_ex (\<lambda>f. f \<in> set (keys st)) v5_fields)
      else need (set v5_fields \<subseteq> set (keys st)))"

text \<open>Intent, its frozen documents, and the loop control state that goes with them.\<close>

definition check_intent_state :: "json \<Rightarrow> json \<Rightarrow> dict \<Rightarrow> unit res" where
  "check_intent_state version resume_node st =
     (if state_get st ''intent'' = JNull then
        checks
          [need (resume_node = JStr ''extract_intent''),
           need (\<not> (eq_int version RUN_CHECKPOINT_VERSION \<and>
             (state_get st ''completion_contract'' \<noteq> JNull \<or> state_get st ''loop_progress'' \<noteq> JNull \<or>
              state_get st ''stop_decision'' \<noteq> JNull)))]
      else
        rbind (intent_from_state_dict (state_get st ''intent'')) (\<lambda>intent.
        rbind (need (state_get st ''intent_context'' \<noteq> JNull)) (\<lambda>_.
        rbind (runtime_context_from_state_dict (state_get st ''intent_context'')) (\<lambda>documents.
        rbind (need (set (ie_resolved_document_ids intent) \<subseteq> set (map id_document_id documents))) (\<lambda>_.
        if eq_int version RUN_CHECKPOINT_VERSION then loop_control_ok st else Inr ())))))"

definition check_turn :: "json \<Rightarrow> dict \<Rightarrow> unit res" where
  "check_turn resume_node checkpoint =
     (let turn = dget checkpoint ''turn'' JNull; t = entries_of turn; f = (\<lambda>k. dget t k JNull) in
      if resume_node = JStr ''validate_action'' then
        checks
          [need (is_dict turn),
           need (is_ok (rbind (ditem t ''action'') agent_action_of)),
           need (required_string t ''model_call_id''),
           need (required_string t ''model_step_id''),
           need (is_number (f ''model_started_at''))]
      else if resume_node = JStr ''execute_tool'' then
        checks
          [need (is_dict turn),
           need (is_ok (rbind (ditem t ''action'') agent_action_of) \<and>
                 is_ok (rbind (ditem t ''tool_request'') tool_request_kwargs)),
           need (is_dict (f ''tool_call_base'')),
           need (required_string t ''tool_call_id'')]
      else Inr ())"

definition validate_run_checkpoint :: "dict \<Rightarrow> unit res" where
  "validate_run_checkpoint checkpoint =
     (let f = (\<lambda>k. dget checkpoint k JNull);
          version = f ''version''; resume_node = f ''resume_node'';
          raw_job = entries_of (f ''job''); raw_state = entries_of (f ''state'')
      in rbind (checks
        [need_version version,
         need_in resume_node (RESUMABLE_NODES @ NON_RESUMABLE_NODES),
         need (is_dict (f ''job'')),
         need (is_dict (f ''state'')),
         need (is_int (f ''next_step_seq'') \<and> 0 \<le> int_of (f ''next_step_seq'')),
         check_raw_state raw_state,
         check_version_fields version raw_state]) (\<lambda>_.
      rbind (as_value_error (run_job_from_dict raw_job)) (\<lambda>job.
      rbind (as_value_error (restore_agent_state raw_state)) (\<lambda>st.
      checks
        [need (state_get st ''task_id'' = rj_task_id job \<and> state_get st ''run_id'' = rj_run_id job),
         (if eq_int version RUN_CHECKPOINT_VERSION then run_control_present st else Inr ()),
         check_intent_state version resume_node st,
         check_turn resume_node checkpoint]))))"

definition is_resumable_run_checkpoint :: "dict \<Rightarrow> bool res" where
  "is_resumable_run_checkpoint checkpoint =
     (case validate_run_checkpoint checkpoint of
        Inl e \<Rightarrow> if e \<in> {TypeError, ValueError} then Inr False else Inl e
      | Inr _ \<Rightarrow> in_strs (dget checkpoint ''resume_node'' JNull) RESUMABLE_NODES)"

text \<open>
  \<open>build_run_checkpoint\<close>.  The turn holds in-memory objects: \<open>None\<close> for an action or request that
  is not of the class the code asks for.
\<close>

record run_turn =
  tn_action :: "agent_action option"
  tn_tool_request :: "tool_request option"
  tn_model_call_id :: json
  tn_model_step_id :: json
  tn_model_started_at :: json
  tn_tool_call_base :: dict
  tn_tool_call_id :: json

definition build_run_checkpoint ::
  "(json \<Rightarrow> string) \<Rightarrow> run_job \<Rightarrow> dict \<Rightarrow> json \<Rightarrow> string \<Rightarrow> run_turn option \<Rightarrow> dict res" where
  "build_run_checkpoint repr job st next_step_seq resume_node turn =
     (let base =
            [(''version'', JInt RUN_CHECKPOINT_VERSION), (''resume_node'', JStr resume_node),
             (''job'', JObj (run_job_to_dict job)), (''state'', JObj st), (''next_step_seq'', next_step_seq)]
      in rbind (checks
        [need (resume_node \<in> set (RESUMABLE_NODES @ NON_RESUMABLE_NODES)),
         run_control_present st,
         (if state_get st ''intent'' \<noteq> JNull then loop_control_ok st else Inr ())]) (\<lambda>_.
      if resume_node = ''validate_action'' then
        (case turn of None \<Rightarrow> Inl ValueError
         | Some t \<Rightarrow>
           (case tn_action t of None \<Rightarrow> Inl ValueError
            | Some action \<Rightarrow>
              rbind (need (is_str (tn_model_call_id t) \<and> truthy (tn_model_call_id t) \<and>
                           is_str (tn_model_step_id t) \<and> truthy (tn_model_step_id t) \<and>
                           is_number (tn_model_started_at t))) (\<lambda>_.
              rbind (to_float (tn_model_started_at t)) (\<lambda>started.
              Inr (base @ [(''turn'', JObj
                [(''action'', agent_action_asdict action), (''model_call_id'', tn_model_call_id t),
                 (''model_step_id'', tn_model_step_id t), (''model_started_at'', JFloat started)])])))))
      else
        (case turn of None \<Rightarrow> Inr base
         | Some t \<Rightarrow>
           (case (tn_action t, tn_tool_request t) of
              (Some action, Some request) \<Rightarrow>
                Inr (base @ [(''turn'', JObj
                  [(''action'', agent_action_asdict action), (''tool_request'', tool_request_asdict request),
                   (''tool_call_base'', JObj (tn_tool_call_base t)),
                   (''tool_call_id'', py_str repr (tn_tool_call_id t))])])
            | _ \<Rightarrow> Inl ValueError))))"

text \<open>\<open>attach_run_checkpoint\<close>\<close>

definition attach_run_checkpoint :: "event_envelope \<Rightarrow> dict \<Rightarrow> event_envelope res" where
  "attach_run_checkpoint envelope checkpoint =
     rbind (validate_run_checkpoint checkpoint) (\<lambda>_.
     Inr (envelope\<lparr>ee_internal := dset ''run_checkpoint'' (JObj checkpoint) (ee_internal envelope)\<rparr>))"

section \<open>Permission checkpoints\<close>

record expected_identity =
  xi_request_id :: "json option"
  xi_task_id :: "json option"
  xi_run_id :: "json option"
  xi_step_id :: "json option"
  xi_tool_call_id :: "json option"
  xi_tool_name :: "json option"

definition matches :: "json option \<Rightarrow> json \<Rightarrow> bool" where
  "matches wanted actual \<longleftrightarrow> (case wanted of None \<Rightarrow> True | Some w \<Rightarrow> w = actual)"

definition validate_permission_checkpoint ::
  "(json \<Rightarrow> string) \<Rightarrow> expected_identity \<Rightarrow> json \<Rightarrow> unit res" where
  "validate_permission_checkpoint repr expected value =
     (let checkpoint = entries_of value; f = (\<lambda>k. dget checkpoint k JNull);
          version = f ''version''; request_id = f ''permission_request_id'';
          raw_state = entries_of (f ''state''); tool_call = entries_of (f ''tool_call_base'');
          model_action = entries_of (f ''model_action'');
          tc = (\<lambda>k. py_str repr (dget tool_call k (JStr [])))
      in rbind (checks
        [need (is_dict value),
         need_version version,
         need (is_int (f ''next_step_seq'') \<and> 0 \<le> int_of (f ''next_step_seq'')),
         need (list_all (\<lambda>k. is_dict (f k)) [''job'', ''state'', ''tool_request'', ''tool_call_base'', ''model_action'']),
         need (is_str request_id \<and> truthy request_id),
         check_version_fields version raw_state]) (\<lambda>_.
      rbind (as_value_error (run_job_from_dict (entries_of (f ''job'')))) (\<lambda>job.
      rbind (as_value_error (restore_agent_state raw_state)) (\<lambda>st.
      rbind (as_value_error (tool_request_kwargs (f ''tool_request''))) (\<lambda>rq.
      let step_id = dget rq ''step_id'' (JStr []); tool_name = dget rq ''tool_name'' (JStr []) in
      checks
        [need (truthy step_id \<and> truthy tool_name),
         need (state_get st ''task_id'' = rj_task_id job \<and> state_get st ''run_id'' = rj_run_id job),
         (if eq_int version RUN_CHECKPOINT_VERSION then run_control_present st else Inr ()),
         (if eq_int version RUN_CHECKPOINT_VERSION then loop_control_ok st else Inr ()),
         need (dget rq ''task_id'' JNull = rj_task_id job \<and> dget rq ''run_id'' JNull = rj_run_id job),
         need (tc ''run_id'' = rj_run_id job \<and> tc ''step_id'' = step_id \<and> tc ''tool_name'' = tool_name \<and>
               truthy (tc ''id'') \<and> tc ''permission_request_id'' = request_id),
         need (dget model_action ''action_type'' JNull = JStr ''call_tool'' \<and>
               dget model_action ''tool_name'' JNull = tool_name \<and>
               is_dict (dget model_action ''arguments'' JNull)),
         need (matches (xi_request_id expected) request_id \<and> matches (xi_task_id expected) (rj_task_id job) \<and>
               matches (xi_run_id expected) (rj_run_id job) \<and> matches (xi_step_id expected) step_id \<and>
               matches (xi_tool_call_id expected) (tc ''id'') \<and>
               matches (xi_tool_name expected) tool_name)])))))"

section \<open>Lemmas\<close>

lemma forget_ok [simp]: "is_ok (forget m) = is_ok m"
  by (cases m) (simp_all add: forget_def)

lemma is_ok_unit: "is_ok (m :: unit res) \<longleftrightarrow> m = Inr ()"
  by (simp add: is_ok_iff)

lemma need_version_Inr: "is_ok (need_version v) \<longleftrightarrow>
    hashable v \<and> (eq_int v RUN_CHECKPOINT_VERSION \<or> eq_int v LEGACY_RUN_CHECKPOINT_VERSION)"
  by (simp add: need_version_def)

text \<open>The run a valid checkpoint belongs to, and the parts it is made of.\<close>

lemma validate_run_checkpointE:
  assumes "validate_run_checkpoint cp = Inr ()"
  obtains job st raw_job raw_state where
    "dget cp ''job'' JNull = JObj raw_job" "dget cp ''state'' JNull = JObj raw_state"
    "run_job_from_dict raw_job = Inr job" "restore_agent_state raw_state = Inr st"
    "state_get st ''task_id'' = rj_task_id job" "state_get st ''run_id'' = rj_run_id job"
    "check_raw_state raw_state = Inr ()"
    "check_version_fields (dget cp ''version'' JNull) raw_state = Inr ()"
    "is_ok (need_version (dget cp ''version'' JNull))"
    "eq_int (dget cp ''version'' JNull) RUN_CHECKPOINT_VERSION \<Longrightarrow> run_control_present st = Inr ()"
    "check_intent_state (dget cp ''version'' JNull) (dget cp ''resume_node'' JNull) st = Inr ()"
    "check_turn (dget cp ''resume_node'' JNull) cp = Inr ()"
    "is_ok (need_in (dget cp ''resume_node'' JNull) (RESUMABLE_NODES @ NON_RESUMABLE_NODES))"
    "is_int (dget cp ''next_step_seq'' JNull)" "0 \<le> int_of (dget cp ''next_step_seq'' JNull)"
proof -
  from assms obtain job st where
    ok: "is_ok (need_version (dget cp ''version'' JNull))"
      "is_ok (need_in (dget cp ''resume_node'' JNull) (RESUMABLE_NODES @ NON_RESUMABLE_NODES))"
      "is_dict (dget cp ''job'' JNull)" "is_dict (dget cp ''state'' JNull)"
      "is_int (dget cp ''next_step_seq'' JNull)" "0 \<le> int_of (dget cp ''next_step_seq'' JNull)"
      "is_ok (check_raw_state (entries_of (dget cp ''state'' JNull)))"
      "is_ok (check_version_fields (dget cp ''version'' JNull) (entries_of (dget cp ''state'' JNull)))"
    and job: "run_job_from_dict (entries_of (dget cp ''job'' JNull)) = Inr job"
    and st: "restore_agent_state (entries_of (dget cp ''state'' JNull)) = Inr st"
      "state_get st ''task_id'' = rj_task_id job" "state_get st ''run_id'' = rj_run_id job"
    and rc: "is_ok (if eq_int (dget cp ''version'' JNull) RUN_CHECKPOINT_VERSION then run_control_present st else Inr ())"
    and it: "is_ok (check_intent_state (dget cp ''version'' JNull) (dget cp ''resume_node'' JNull) st)"
    and tn: "is_ok (check_turn (dget cp ''resume_node'' JNull) cp)"
    by (simp add: validate_run_checkpoint_def Let_def rbind_Inr_iff checks_ok
        del: checks_Cons rbind_need need_in_ok) blast
  from ok obtain rj rs where d: "dget cp ''job'' JNull = JObj rj" "dget cp ''state'' JNull = JObj rs"
    by (auto elim!: is_dictE)
  show ?thesis
    by (rule that [OF d])
      (use ok job st rc it tn in \<open>simp_all add: d is_ok_unit\<close>)
qed

lemma resumable_validE:
  assumes "is_resumable_run_checkpoint cp = Inr True"
  obtains n where "validate_run_checkpoint cp = Inr ()" "n \<in> set RESUMABLE_NODES" "dget cp ''resume_node'' JNull = JStr n"
  using assms by (auto simp: is_resumable_run_checkpoint_def in_strs_Inr split: sum.splits if_splits)

lemma resumable_dicts:
  assumes "is_resumable_run_checkpoint cp = Inr True"
  obtains raw_job raw_state where "dget cp ''job'' JNull = JObj raw_job" "dget cp ''state'' JNull = JObj raw_state"
    "is_ok (run_job_from_dict raw_job)" "check_raw_state raw_state = Inr ()"
  using assms by (elim resumable_validE validate_run_checkpointE) (auto simp: is_ok_iff)

text \<open>What \<open>job_data.update({...})\<close> makes of a decodable job is a decodable job of the same run.\<close>

definition resume_job_data :: "dict \<Rightarrow> uuid \<Rightarrow> int \<Rightarrow> dict" where
  "resume_job_data job event_id now =
     dupdate job [(''job_id'', JId event_id), (''created_at'', JTime now),
       (''resume_from_checkpoint'', JBool True), (''type'', JStr ''run.job'')]"

lemma resume_job_decodes:
  assumes "run_job_from_dict job = Inr j"
  shows "run_job_from_dict (resume_job_data job eid now) =
    Inr (j\<lparr>rj_job_id := JId eid, rj_created_at := JTime now, rj_resume_from_checkpoint := True\<rparr>)"
  using assms by (auto simp: run_job_from_dict_def resume_job_data_def rbind_Inr_iff need_required_def
      run_job_required_def required_string_def need_schema_version_def split: if_splits)

text \<open>Raising the recovery counter keeps a checkpoint valid.\<close>

definition with_recovery_attempts :: "dict \<Rightarrow> int \<Rightarrow> dict" where
  "with_recovery_attempts cp n =
     (let cp = (if ''state'' \<in> set (keys cp) then cp else dset ''state'' (JObj []) cp) in
      dset ''state'' (JObj (dset ''recovery_attempts'' (JInt n) (entries_of (dget cp ''state'' JNull)))) cp)"

lemma filter_dset:
  "P k \<Longrightarrow> filter (\<lambda>p. P (fst p)) (dset k v d) = dset k v (filter (\<lambda>p. P (fst p)) d)"
  by (induction k v d rule: dset.induct) auto

lemma restore_agent_state_dset:
  "restore_agent_state raw = Inr st \<Longrightarrow> k \<in> set (keys agent_state_fields) \<Longrightarrow>
     restore_agent_state (dset k v raw) = Inr (dset k v st)"
  by (auto simp: restore_agent_state_def keys_dset
      filter_dset [where P = "\<lambda>x. x \<in> set (keys agent_state_fields)"] split: if_splits)

lemma state_get_dset: "state_get (dset k v st) f = (if f = k then v else state_get st f)"
  by (simp add: state_get_def)

lemma check_intent_state_dset:
  assumes "k \<notin> {''intent'', ''intent_context'', ''completion_contract'', ''loop_progress'', ''stop_decision''}"
  shows "check_intent_state ver node (dset k v st) = check_intent_state ver node st"
proof -
  have eqs: "state_get (dset k v st) ''intent'' = state_get st ''intent''"
    "state_get (dset k v st) ''intent_context'' = state_get st ''intent_context''"
    "state_get (dset k v st) ''completion_contract'' = state_get st ''completion_contract''"
    "state_get (dset k v st) ''loop_progress'' = state_get st ''loop_progress''"
    "state_get (dset k v st) ''stop_decision'' = state_get st ''stop_decision''"
    using assms by (auto simp: state_get_dset)
  show ?thesis unfolding check_intent_state_def loop_control_ok_def eqs ..
qed

lemma key_mem: "dget d k JNull = JObj x \<Longrightarrow> k \<in> set (keys d)"
  by (induction d) (auto split: if_splits)

lemma dget_JObj_mem: "dget cp ''state'' JNull = JObj rs \<Longrightarrow>
    with_recovery_attempts cp n = dset ''state'' (JObj (dset ''recovery_attempts'' (JInt n) rs)) cp"
  by (simp add: with_recovery_attempts_def key_mem)

lemma with_recovery_attempts_resumable:
  assumes "is_resumable_run_checkpoint cp = Inr True" and "0 \<le> n"
  shows "is_resumable_run_checkpoint (with_recovery_attempts cp n) = Inr True"
proof -
  obtain node where v: "validate_run_checkpoint cp = Inr ()"
    and node: "node \<in> set RESUMABLE_NODES" "dget cp ''resume_node'' JNull = JStr node"
    using assms(1) by (rule resumable_validE)
  obtain job st rj rs where
    d: "dget cp ''job'' JNull = JObj rj" "dget cp ''state'' JNull = JObj rs"
    and job: "run_job_from_dict rj = Inr job" and st: "restore_agent_state rs = Inr st"
    and ids: "state_get st ''task_id'' = rj_task_id job" "state_get st ''run_id'' = rj_run_id job"
    and raw: "check_raw_state rs = Inr ()" "check_version_fields (dget cp ''version'' JNull) rs = Inr ()"
    and ver: "is_ok (need_version (dget cp ''version'' JNull))"
    and rc: "eq_int (dget cp ''version'' JNull) RUN_CHECKPOINT_VERSION \<Longrightarrow> run_control_present st = Inr ()"
    and it: "check_intent_state (dget cp ''version'' JNull) (dget cp ''resume_node'' JNull) st = Inr ()"
    and tn: "check_turn (dget cp ''resume_node'' JNull) cp = Inr ()"
    and nn: "is_ok (need_in (dget cp ''resume_node'' JNull) (RESUMABLE_NODES @ NON_RESUMABLE_NODES))"
    and seq: "is_int (dget cp ''next_step_seq'' JNull)" "0 \<le> int_of (dget cp ''next_step_seq'' JNull)"
    by (rule validate_run_checkpointE [OF v]) blast
  define cp' where "cp' = with_recovery_attempts cp n"
  define rs' where "rs' = dset ''recovery_attempts'' (JInt n) rs"
  have cp': "cp' = dset ''state'' (JObj rs') cp"
    using d(2) by (simp add: cp'_def rs'_def dget_JObj_mem)
  have get: "dget cp' k dflt = (if k = ''state'' then JObj rs' else dget cp k dflt)" for k dflt
    by (simp add: cp')
  have st': "restore_agent_state rs' = Inr (dset ''recovery_attempts'' (JInt n) st)"
    unfolding rs'_def by (rule restore_agent_state_dset [OF st]) (simp add: agent_state_fields_def)
  have raw': "check_raw_state rs' = Inr ()"
    using raw(1) assms(2) by (simp add: check_raw_state_def Let_def checks_ok rs'_def del: checks_Cons)
  have vf: "check_version_fields (dget cp ''version'' JNull) rs' = Inr ()"
    using raw(2) by (auto simp: check_version_fields_def rs'_def keys_dset v5_fields_def split: if_splits)
  have rc': "eq_int (dget cp ''version'' JNull) RUN_CHECKPOINT_VERSION \<Longrightarrow>
      run_control_present (dset ''recovery_attempts'' (JInt n) st) = Inr ()"
    using rc by (simp add: run_control_present_def state_get_dset)
  have it': "check_intent_state (dget cp ''version'' JNull) (dget cp ''resume_node'' JNull)
      (dset ''recovery_attempts'' (JInt n) st) = Inr ()"
    using it by (subst check_intent_state_dset) simp_all
  have tn': "check_turn (dget cp ''resume_node'' JNull) cp' = Inr ()"
    using tn by (simp add: check_turn_def get)
  have "validate_run_checkpoint cp' = Inr ()"
    using ver nn seq raw' vf rc' it' tn' job st' ids
    by (simp add: validate_run_checkpoint_def Let_def get d state_get_dset is_ok_unit del: need_in_ok)
  then show ?thesis
    using node by (simp add: is_resumable_run_checkpoint_def get in_strs_Inr flip: cp'_def)
qed

section \<open>Properties\<close>

text \<open>
  C39. What the recovery path may rely on in a checkpoint it accepts as resumable: it does not stand
  inside a tool call (\<open>tool_in_flight\<close>), its job decodes and names the task and run of the agent
  state, its recovery counter is not negative, a version 5 state carries a valid run control, and
  after the intent was extracted every resolved document belongs to the frozen catalog.
\<close>

theorem resumable_checkpoint_sound:
  assumes "is_resumable_run_checkpoint cp = Inr True"
  shows "\<exists>raw_job raw_state job st.
    dget cp ''job'' JNull = JObj raw_job \<and> run_job_from_dict raw_job = Inr job \<and>
    dget cp ''state'' JNull = JObj raw_state \<and> restore_agent_state raw_state = Inr st \<and>
    state_get st ''task_id'' = rj_task_id job \<and> state_get st ''run_id'' = rj_run_id job \<and>
    0 \<le> int_of (dget raw_state ''recovery_attempts'' (JInt 0)) \<and>
    dget cp ''resume_node'' JNull \<noteq> JStr ''tool_in_flight'' \<and>
    (eq_int (dget cp ''version'' JNull) 5 \<longrightarrow>
       (\<exists>c. run_control_from_state_dict (state_get st ''run_control'') = Inr c)) \<and>
    (dget cp ''resume_node'' JNull \<noteq> JStr ''extract_intent'' \<longrightarrow>
       (\<exists>intent docs. intent_from_state_dict (state_get st ''intent'') = Inr intent \<and>
          runtime_context_from_state_dict (state_get st ''intent_context'') = Inr docs \<and>
          set (ie_resolved_document_ids intent) \<subseteq> set (map id_document_id docs)))"
proof -
  obtain node where v: "validate_run_checkpoint cp = Inr ()"
    and node: "node \<in> set RESUMABLE_NODES" "dget cp ''resume_node'' JNull = JStr node"
    using assms by (rule resumable_validE)
  obtain job st rj rs where
    d: "dget cp ''job'' JNull = JObj rj" "dget cp ''state'' JNull = JObj rs"
    and job: "run_job_from_dict rj = Inr job" and st: "restore_agent_state rs = Inr st"
    and ids: "state_get st ''task_id'' = rj_task_id job" "state_get st ''run_id'' = rj_run_id job"
    and raw: "check_raw_state rs = Inr ()"
    and rc: "eq_int (dget cp ''version'' JNull) RUN_CHECKPOINT_VERSION \<Longrightarrow> run_control_present st = Inr ()"
    and it: "check_intent_state (dget cp ''version'' JNull) (dget cp ''resume_node'' JNull) st = Inr ()"
    by (rule validate_run_checkpointE [OF v]) blast
  have "0 \<le> int_of (dget rs ''recovery_attempts'' (JInt 0))"
    using raw by (simp add: check_raw_state_def Let_def checks_ok del: checks_Cons)
  moreover have "node \<noteq> ''tool_in_flight''" using node(1) by (auto simp: RESUMABLE_NODES_def)
  moreover have "\<exists>c. run_control_from_state_dict (state_get st ''run_control'') = Inr c"
    if "eq_int (dget cp ''version'' JNull) 5"
    using rc that by (auto simp: RUN_CHECKPOINT_VERSION_def run_control_present_def forget_def rbind_Inr_iff
        split: if_splits)
  moreover have "\<exists>intent docs. intent_from_state_dict (state_get st ''intent'') = Inr intent \<and>
      runtime_context_from_state_dict (state_get st ''intent_context'') = Inr docs \<and>
      set (ie_resolved_document_ids intent) \<subseteq> set (map id_document_id docs)"
    if "node \<noteq> ''extract_intent''"
    using it that node(2) by (auto simp: check_intent_state_def rbind_Inr_iff simp del: set_map split: if_splits)
  ultimately show ?thesis using d job st ids node(2) by auto
qed

text \<open>
  Counting a recovery attempt in a resumable checkpoint leaves it resumable, so a recovered run
  that crashes again is judged by its counter and not lost to validation.
\<close>

theorem recovery_attempt_keeps_resumable:
  assumes "is_resumable_run_checkpoint cp = Inr True" and "0 \<le> n"
  shows "is_resumable_run_checkpoint (with_recovery_attempts cp n) = Inr True \<and>
    (\<exists>raw_state. dget (with_recovery_attempts cp n) ''state'' JNull = JObj raw_state \<and>
       dget raw_state ''recovery_attempts'' (JInt 0) = JInt n)"
proof -
  obtain rj rs where "dget cp ''state'' JNull = JObj rs"
    using assms(1) by (rule resumable_dicts)
  then show ?thesis
    using with_recovery_attempts_resumable [OF assms] by (simp add: dget_JObj_mem)
qed

text \<open>
  A permission checkpoint that passes validation against the identities PostgreSQL holds is about
  exactly that request, task, run, step and tool: the tool request it would execute names the same
  task and run as its job and its agent state, and the approved tool call names the same tool.
\<close>

theorem permission_checkpoint_identity:
  assumes "validate_permission_checkpoint repr expected (JObj cp) = Inr ()"
    and "xi_request_id expected = Some request" and "xi_task_id expected = Some task"
    and "xi_run_id expected = Some run" and "xi_tool_name expected = Some tool"
  shows "\<exists>rq job st. tool_request_kwargs (dget cp ''tool_request'' JNull) = Inr rq \<and>
    run_job_from_dict (entries_of (dget cp ''job'' JNull)) = Inr job \<and>
    restore_agent_state (entries_of (dget cp ''state'' JNull)) = Inr st \<and>
    dget rq ''task_id'' JNull = task \<and> dget rq ''run_id'' JNull = run \<and>
    dget rq ''tool_name'' (JStr []) = tool \<and>
    rj_task_id job = task \<and> rj_run_id job = run \<and>
    state_get st ''task_id'' = task \<and> state_get st ''run_id'' = run \<and>
    dget cp ''permission_request_id'' JNull = request \<and>
    dget (entries_of (dget cp ''model_action'' JNull)) ''tool_name'' JNull = tool"
  using assms
  by (simp add: validate_permission_checkpoint_def Let_def rbind_Inr_iff checks_ok matches_def
      del: checks_Cons rbind_need need_in_ok) blast

section \<open>Witnesses\<close>

definition sample_run_control :: json where
  "sample_run_control = run_control_to_state_dict
     \<lparr>rc_started_at = 0, rc_deadline_at = 60000000, rc_max_tool_iterations = 5, rc_max_model_calls = 10,
      rc_max_run_seconds = 60, rc_model_calls_used = 0\<rparr>"

definition sample_state :: dict where
  "sample_state =
     [(''task_id'', JId (Uuid4 12)), (''run_id'', JId (Uuid4 13)), (''user_goal'', JStr ''goal''),
      (''completion_contract'', JNull), (''loop_progress'', JNull), (''stop_decision'', JNull),
      (''run_control'', sample_run_control)]"

definition sample_checkpoint :: dict where
  "sample_checkpoint =
     [(''version'', JInt 5), (''resume_node'', JStr ''extract_intent''), (''job'', JObj sample_job),
      (''state'', JObj sample_state), (''next_step_seq'', JInt 1)]"

lemma sample_checkpoint_resumable: "is_resumable_run_checkpoint sample_checkpoint = Inr True"
  by code_simp

lemma resumable_checkpoint_sound_witness:
  "\<exists>raw_job job. dget sample_checkpoint ''job'' JNull = JObj raw_job \<and> run_job_from_dict raw_job = Inr job"
  using resumable_checkpoint_sound [OF sample_checkpoint_resumable] by blast

lemma recovery_attempt_keeps_resumable_witness:
  "is_resumable_run_checkpoint (with_recovery_attempts sample_checkpoint 2) = Inr True"
  using recovery_attempt_keeps_resumable [OF sample_checkpoint_resumable, of 2] by simp

definition sample_permission_checkpoint :: dict where
  "sample_permission_checkpoint =
     [(''version'', JInt 4), (''job'', JObj sample_job),
      (''state'', JObj [(''task_id'', JId (Uuid4 12)), (''run_id'', JId (Uuid4 13))]), (''next_step_seq'', JInt 1),
      (''permission_request_id'', JId (Uuid4 20)),
      (''tool_request'', JObj [(''task_id'', JId (Uuid4 12)), (''run_id'', JId (Uuid4 13)),
         (''step_id'', JId (Uuid4 21)), (''tool_name'', JStr ''fs.write'')]),
      (''tool_call_base'', JObj [(''id'', JId (Uuid4 22)), (''run_id'', JId (Uuid4 13)),
         (''step_id'', JId (Uuid4 21)), (''tool_name'', JStr ''fs.write''),
         (''permission_request_id'', JId (Uuid4 20))]),
      (''model_action'', JObj [(''action_type'', JStr ''call_tool''), (''tool_name'', JStr ''fs.write''),
         (''arguments'', JObj [])])]"

lemma permission_checkpoint_identity_witness:
  "\<exists>rq. tool_request_kwargs (dget sample_permission_checkpoint ''tool_request'' JNull) = Inr rq \<and>
     dget rq ''run_id'' JNull = JId (Uuid4 13)"
proof -
  let ?x = "\<lparr>xi_request_id = Some (JId (Uuid4 20)), xi_task_id = Some (JId (Uuid4 12)),
    xi_run_id = Some (JId (Uuid4 13)), xi_step_id = None, xi_tool_call_id = None,
    xi_tool_name = Some (JStr ''fs.write'')\<rparr>"
  have "validate_permission_checkpoint (\<lambda>_. []) ?x (JObj sample_permission_checkpoint) = Inr ()"
    by code_simp
  from permission_checkpoint_identity [OF this, of "JId (Uuid4 20)" "JId (Uuid4 12)" "JId (Uuid4 13)"
      "JStr ''fs.write''"] show ?thesis by simp blast
qed

end
