(* ===== verification/RunService.thy ===== *)
theory RunService
  imports Store Policy Checkpoint
begin

text \<open>
  \<open>runtime/runs/service.py\<close>: the AgentRun state machine.  Each operation is one transaction on the
  store.  Where the code reads a run, decides, and then updates it under the version it read, the
  decision is a definition of its own (\<open>..._from\<close>) that takes the run as it was read, so that
  another transaction may come between the read and the update.
\<close>

section \<open>State machine\<close>

fun VALID_TRANSITIONS :: "run_status \<Rightarrow> run_status list" where
  "VALID_TRANSITIONS Queued = [Running, CancelRequested]"
| "VALID_TRANSITIONS Running =
     [WaitingPermission, Completed, Failed, CancelRequested, PauseRequested, Paused]"
| "VALID_TRANSITIONS WaitingPermission = [Running, Failed, CancelRequested]"
| "VALID_TRANSITIONS Paused = [Running, ResumeRequested, Failed, CancelRequested]"
| "VALID_TRANSITIONS PauseRequested = [Paused, Completed, Failed, CancelRequested]"
| "VALID_TRANSITIONS ResumeRequested = [Running, Failed, CancelRequested]"
| "VALID_TRANSITIONS CancelRequested = [Cancelling]"
| "VALID_TRANSITIONS Cancelling = [Cancelled]"
| "VALID_TRANSITIONS _ = []"

definition TERMINAL_STATUSES :: "run_status list" where
  "TERMINAL_STATUSES = [Completed, Failed, Cancelled]"

definition DLQ_RETRY_TOOL_NAME :: string where "DLQ_RETRY_TOOL_NAME = ''runtime.retry_failed_run''"
definition DLQ_RETRY_ERROR_CODE :: string where "DLQ_RETRY_ERROR_CODE = ''RUN_QUEUE_RETRY_EXHAUSTED''"
definition TERMINAL_EVENT_REPAIR_TOOL_NAME :: string where
  "TERMINAL_EVENT_REPAIR_TOOL_NAME = ''runtime.repair_missing_terminal_event''"
definition MAX_QUEUED_RUN_RECONCILIATION_ATTEMPTS :: int where
  "MAX_QUEUED_RUN_RECONCILIATION_ATTEMPTS = 3"

definition check_transition :: "run_status \<Rightarrow> run_status \<Rightarrow> unit res" where
  "check_transition current target =
     ensure (target \<in> set (VALID_TRANSITIONS current)) invalid_state_transition"

section \<open>Shared steps\<close>

definition seconds :: "int \<Rightarrow> int" where "seconds n = n * 1000000"

text \<open>\<open>if not success: raise errors.run_version_conflict(...)\<close>\<close>

definition locked :: "lock_update \<Rightarrow> db \<Rightarrow> db res" where
  "locked u db = (let (success, db') = update_with_lock u db in
     if success then Inr db' else Inl run_version_conflict)"

text \<open>\<open>run.trace_id or new_id()\<close>\<close>

definition trace_or_new :: "agent_run \<Rightarrow> db \<Rightarrow> uuid \<times> db" where
  "trace_or_new r db = (case trace_id r of Some t \<Rightarrow> (t, db) | None \<Rightarrow> (fresh db, bump db))"

text \<open>The runtime event, its envelope, and the two rows that publish it.\<close>

definition publish_event ::
  "agent_run \<Rightarrow> uuid \<Rightarrow> string \<Rightarrow> dict \<Rightarrow> uuid \<Rightarrow> string \<Rightarrow> uuid option \<Rightarrow> int \<Rightarrow> clock \<Rightarrow> db \<Rightarrow> db res" where
  "publish_event run event_id ty payload trace worker causation now clk db =
     rbind (build_envelope
       (build_runtime_event ty (JId (ar_task_id run)) (JId (ar_id run)) (JStr []) payload (JId event_id) (clk 1))
       (JId trace) worker) (\<lambda>envelope.
     rbind (events_append
       [new_runtime_event event_id event_id (ar_task_id run) (ar_id run) ty
          (get_next_sequence (ar_id run) db) payload now] db) (\<lambda>db.
     outbox_create (new_outbox_event event_id (ar_id run) ty (envelope_payload envelope) trace None causation
       now (clk 2)) db))"

text \<open>\<open>_fail_open_children\<close>; a duration is the elapsed time in whole milliseconds.\<close>

definition elapsed_ms :: "int \<Rightarrow> int \<Rightarrow> int" where
  "elapsed_ms started now = max 0 ((now - started) div 1000)"

definition step_open :: "execution_step \<Rightarrow> bool" where
  "step_open s \<longleftrightarrow> st_status s \<in> {StepPending, StepRunning, StepWaitingForPermission}"

definition fail_step :: "dict \<Rightarrow> int \<Rightarrow> execution_step \<Rightarrow> execution_step" where
  "fail_step error now s = s\<lparr>st_status := StepFailed, st_error := Some error, st_completed_at := Some now,
     st_duration_ms := (case st_started_at s of None \<Rightarrow> st_duration_ms s | Some t \<Rightarrow> Some (elapsed_ms t now))\<rparr>"

definition tool_call_open :: "tool_call \<Rightarrow> bool" where
  "tool_call_open c \<longleftrightarrow> tc_status c \<in> {''pending'', ''running''}"

definition fail_tool_call :: "dict \<Rightarrow> int \<Rightarrow> tool_call \<Rightarrow> tool_call" where
  "fail_tool_call error now c = c\<lparr>tc_status := ''failed'', tc_error := Some error, tc_completed_at := Some now,
     tc_duration_ms := (case tc_started_at c of None \<Rightarrow> tc_duration_ms c | Some t \<Rightarrow> Some (elapsed_ms t now))\<rparr>"

definition fail_open_children :: "uuid \<Rightarrow> dict \<Rightarrow> int \<Rightarrow> db \<Rightarrow> db" where
  "fail_open_children rid error now db =
     (let db = fold step_update (map (fail_step error now) (filter step_open (steps_by_run rid db))) db in
      fold tool_call_update (map (fail_tool_call error now) (filter tool_call_open (tool_calls_by_run rid db))) db)"

text \<open>\<open>task.status = FAILED; task.updated_at = now\<close> when the task exists.\<close>

definition fail_task :: "uuid \<Rightarrow> int \<Rightarrow> db \<Rightarrow> db" where
  "fail_task tid now db =
     (case task_get tid db of None \<Rightarrow> db
      | Some t \<Rightarrow> task_update (t\<lparr>tk_status := TaskFailed, tk_updated_at := now\<rparr>) db)"

definition run_error :: "string \<Rightarrow> string \<Rightarrow> dict" where
  "run_error code message =
     [(''code'', JStr code), (''message'', JStr message), (''category'', JStr ''runtime''),
      (''recoverable'', JBool False)]"

section \<open>Claims\<close>

definition claim_run :: "uuid \<Rightarrow> string \<Rightarrow> int \<Rightarrow> clock \<Rightarrow> agent_run option tx" where
  "claim_run rid worker expected_version clk db =
     (case run_get rid db of
        None \<Rightarrow> Inl not_found
      | Some run \<Rightarrow>
          rbind (check_transition (ar_status run) Running) (\<lambda>_.
          rbind (locked \<lparr>lu_run_id = rid, lu_new_status = Running, lu_expected_version = expected_version,
            lu_expected_status = Some Queued,
            lu_fields = [SetWorkerId (Some worker), SetStartedAt (clk 0), SetLeaseUntil (Some (clk 1 + seconds 60))],
            lu_now = clk 2\<rparr> db) (\<lambda>db.
          Inr (run_get rid db, db))))"

text \<open>The outcome of a claim; \<open>execute\<close> is the only one that lets the worker run the job.\<close>

datatype disposition = Execute | Duplicate | CancelJob | Skip | Stale | Busy

definition claim_job_from :: "agent_run \<Rightarrow> string \<Rightarrow> json \<Rightarrow> clock \<Rightarrow> disposition tx" where
  "claim_job_from run worker source_event_id clk db =
     (let k = (''run-queue'', source_event_id); (first_seen, db) = inbox_try_insert k db in
      if \<not> first_seen then Inr (Duplicate, db)
      else if ar_status run = CancelRequested then Inr (CancelJob, inbox_mark_processed k (clk 3) db)
      else
        rbind (check_transition (ar_status run) Running) (\<lambda>_.
        rbind (locked \<lparr>lu_run_id = ar_id run, lu_new_status = Running, lu_expected_version = ar_version run,
          lu_expected_status = Some Queued,
          lu_fields = [SetWorkerId (Some worker), SetStartedAt (clk 0), SetLeaseUntil (Some (clk 1 + seconds 60))],
          lu_now = clk 2\<rparr> db) (\<lambda>db.
        Inr (Execute, inbox_mark_processed k (clk 3) db))))"

definition claim_job :: "uuid \<Rightarrow> string \<Rightarrow> json \<Rightarrow> clock \<Rightarrow> disposition tx" where
  "claim_job rid worker source_event_id clk db =
     (case run_get rid db of
        None \<Rightarrow> Inl not_found
      | Some run \<Rightarrow> claim_job_from run worker source_event_id clk db)"

definition claim_permission_resume_from :: "agent_run \<Rightarrow> string \<Rightarrow> clock \<Rightarrow> disposition tx" where
  "claim_permission_resume_from run worker clk db =
     (if ar_status run \<in> set TERMINAL_STATUSES \<or> ar_status run \<in> {CancelRequested, Cancelling}
      then Inr (Skip, db)
      else if ar_status run = Running then
        Inr (if (case ar_lease_until run of None \<Rightarrow> False | Some t \<Rightarrow> t \<le> clk 0) then Stale else Busy, db)
      else
        rbind (check_transition (ar_status run) Running) (\<lambda>_.
        rbind (locked \<lparr>lu_run_id = ar_id run, lu_new_status = Running, lu_expected_version = ar_version run,
          lu_expected_status = Some WaitingPermission,
          lu_fields = [SetWorkerId (Some worker), SetLeaseUntil (Some (clk 1 + seconds 60))],
          lu_now = clk 2\<rparr> db) (\<lambda>db.
        Inr (Execute, db))))"

definition claim_permission_resume :: "uuid \<Rightarrow> string \<Rightarrow> clock \<Rightarrow> disposition tx" where
  "claim_permission_resume rid worker clk db =
     (case run_get rid db of
        None \<Rightarrow> Inl not_found
      | Some run \<Rightarrow> claim_permission_resume_from run worker clk db)"

text \<open>\<open>int(state.get("recovery_attempts", 0))\<close> of a checkpoint that was found resumable.\<close>

definition recovery_attempts :: "dict \<Rightarrow> int" where
  "recovery_attempts cp = int_of (dget (entries_of (dget cp ''state'' (JObj []))) ''recovery_attempts'' (JInt 0))"

definition claim_recovery_from :: "agent_run \<Rightarrow> string \<Rightarrow> json \<Rightarrow> clock \<Rightarrow> disposition tx" where
  "claim_recovery_from run worker source_event_id clk db =
     (let k = (''run-recovery'', source_event_id); (first_seen, db) = inbox_try_insert k db in
      if \<not> first_seen then Inr (Duplicate, db)
      else
        rbind (if ar_status run \<in> {Paused, ResumeRequested}
               then is_resumable_run_checkpoint (ar_checkpoint run) else Inr False) (\<lambda>resumable.
        if \<not> resumable then Inr (Duplicate, inbox_mark_processed k (clk 3) db)
        else
          (let attempts = recovery_attempts (ar_checkpoint run) + 1 in
           if attempts > MAX_RUN_RECOVERY_ATTEMPTS then Inr (Duplicate, inbox_mark_processed k (clk 3) db)
           else
             rbind (locked \<lparr>lu_run_id = ar_id run, lu_new_status = Running, lu_expected_version = ar_version run,
               lu_expected_status = Some (ar_status run),
               lu_fields = [SetWorkerId (Some worker), SetLeaseUntil (Some (clk 1 + seconds 60)),
                 SetCheckpoint (with_recovery_attempts (ar_checkpoint run) attempts)],
               lu_now = clk 2\<rparr> db) (\<lambda>db.
             Inr (Execute, inbox_mark_processed k (clk 3) db)))))"

definition claim_recovery :: "uuid \<Rightarrow> string \<Rightarrow> json \<Rightarrow> clock \<Rightarrow> disposition tx" where
  "claim_recovery rid worker source_event_id clk db =
     (case run_get rid db of
        None \<Rightarrow> Inl not_found
      | Some run \<Rightarrow> claim_recovery_from run worker source_event_id clk db)"

definition renew_run_lease :: "uuid \<Rightarrow> string \<Rightarrow> clock \<Rightarrow> bool tx" where
  "renew_run_lease rid worker clk db = Inr (renew_lease rid worker (clk 0 + seconds 60) (clk 1) db)"

section \<open>User control\<close>

definition control_payload :: "agent_run \<Rightarrow> string \<Rightarrow> string \<Rightarrow> uuid \<Rightarrow> uuid \<Rightarrow> int \<Rightarrow> dict" where
  "control_payload run ty reason command_id trace now =
     [(''command_id'', JId command_id), (''trace_id'', JId trace), (''task_id'', JId (ar_task_id run)),
      (''run_id'', JId (ar_id run)), (''type'', JStr ty), (''requested_at'', JTime now),
      (''reason'', JStr reason), (''schema_version'', JStr SCHEMA_VERSION)]"

text \<open>The durable command and the audit row of a cancel or pause request.\<close>

definition send_control :: "agent_run \<Rightarrow> string \<Rightarrow> string \<Rightarrow> string \<Rightarrow> clock \<Rightarrow> db \<Rightarrow> db res" where
  "send_control run event_type ty reason clk db =
     (let command_id = fresh db; (trace, db) = trace_or_new run (bump db); now = clk 0 in
      rbind (outbox_create (new_outbox_event command_id (ar_id run) event_type
        (control_payload run ty reason command_id trace now) trace None None now (clk 1)) db) (\<lambda>db.
      Inr (audit_create (new_audit event_type ''user'' (ar_task_id run) (ar_id run)
        (if reason \<noteq> [] then [(''reason'', JStr reason)] else []) now) db)))"

definition cancel_run_from :: "agent_run \<Rightarrow> string \<Rightarrow> clock \<Rightarrow> unit tx" where
  "cancel_run_from run reason clk db =
     (if ar_status run \<in> {CancelRequested, Cancelling, Cancelled} then Inr ((), db)
      else if ar_status run \<in> set TERMINAL_STATUSES then Inl run_already_terminal
      else
        rbind (check_transition (ar_status run) CancelRequested) (\<lambda>_.
        rbind (locked \<lparr>lu_run_id = ar_id run, lu_new_status = CancelRequested,
          lu_expected_version = ar_version run, lu_expected_status = None, lu_fields = [], lu_now = clk 2\<rparr> db) (\<lambda>db.
        rbind (send_control run ''run.cancel.requested'' ''run.cancel'' reason clk db) (\<lambda>db.
        Inr ((), db)))))"

definition cancel_run :: "uuid \<Rightarrow> string \<Rightarrow> clock \<Rightarrow> agent_run option tx" where
  "cancel_run rid reason clk db =
     (case run_get rid db of
        None \<Rightarrow> Inl not_found
      | Some run \<Rightarrow> rbind (cancel_run_from run reason clk db) (\<lambda>(_, db). Inr (run_get rid db, db)))"

definition pause_run_from :: "agent_run \<Rightarrow> string \<Rightarrow> clock \<Rightarrow> unit tx" where
  "pause_run_from run reason clk db =
     (if ar_status run \<in> {PauseRequested, Paused} then Inr ((), db)
      else if ar_status run \<in> set TERMINAL_STATUSES then Inl run_already_terminal
      else if ar_status run \<noteq> Running then Inl invalid_state_transition
      else
        rbind (check_transition (ar_status run) PauseRequested) (\<lambda>_.
        rbind (locked \<lparr>lu_run_id = ar_id run, lu_new_status = PauseRequested,
          lu_expected_version = ar_version run, lu_expected_status = Some Running, lu_fields = [],
          lu_now = clk 2\<rparr> db) (\<lambda>db.
        rbind (send_control run ''run.pause.requested'' ''run.pause'' reason clk db) (\<lambda>db.
        Inr ((), db)))))"

definition pause_run :: "uuid \<Rightarrow> string \<Rightarrow> clock \<Rightarrow> agent_run option tx" where
  "pause_run rid reason clk db =
     (case run_get rid db of
        None \<Rightarrow> Inl not_found
      | Some run \<Rightarrow> rbind (pause_run_from run reason clk db) (\<lambda>(_, db). Inr (run_get rid db, db)))"

text \<open>Queueing a resumable run again: the job of its checkpoint under a new job id.\<close>

definition enqueue_resume :: "agent_run \<Rightarrow> string \<Rightarrow> string \<Rightarrow> int \<Rightarrow> clock \<Rightarrow> db \<Rightarrow> db res" where
  "enqueue_resume run audit_type actor now clk db =
     (let cp = ar_checkpoint run;
          event_id = fresh db; (trace, db) = trace_or_new run (bump db);
          job = resume_job_data (entries_of (dget cp ''job'' JNull)) event_id now
      in rbind (outbox_create (new_outbox_event event_id (ar_id run) ''run.resume.requested'' job trace None None
           now (clk 2)) db) (\<lambda>db.
         Inr (audit_create (new_audit audit_type actor (ar_task_id run) (ar_id run)
           [(''resume_node'', dget cp ''resume_node'' JNull)] now) db)))"

definition resume_run_from :: "agent_run \<Rightarrow> clock \<Rightarrow> unit tx" where
  "resume_run_from run clk db =
     (if ar_status run = ResumeRequested then Inr ((), db)
      else if ar_status run \<in> set TERMINAL_STATUSES then Inl run_already_terminal
      else
        rbind (if ar_status run = Paused then is_resumable_run_checkpoint (ar_checkpoint run) else Inr False)
          (\<lambda>resumable.
        if \<not> resumable then Inl invalid_state_transition
        else
          rbind (check_transition (ar_status run) ResumeRequested) (\<lambda>_.
          rbind (locked \<lparr>lu_run_id = ar_id run, lu_new_status = ResumeRequested,
            lu_expected_version = ar_version run, lu_expected_status = Some Paused,
            lu_fields = [SetWorkerId None, SetLeaseUntil None], lu_now = clk 3\<rparr> db) (\<lambda>db.
          rbind (enqueue_resume run ''run.resume.requested'' ''user'' (clk 0) clk db) (\<lambda>db.
          Inr ((), db))))))"

definition resume_run :: "uuid \<Rightarrow> clock \<Rightarrow> agent_run option tx" where
  "resume_run rid clk db =
     (case run_get rid db of
        None \<Rightarrow> Inl not_found
      | Some run \<Rightarrow> rbind (resume_run_from run clk db) (\<lambda>(_, db). Inr (run_get rid db, db)))"

definition update_run_status :: "uuid \<Rightarrow> run_status \<Rightarrow> int \<Rightarrow> run_field list \<Rightarrow> clock \<Rightarrow> agent_run option tx" where
  "update_run_status rid new_status expected_version extra_fields clk db =
     (case run_get rid db of
        None \<Rightarrow> Inl not_found
      | Some run \<Rightarrow>
          rbind (if ar_status run \<notin> set TERMINAL_STATUSES
                 then check_transition (ar_status run) new_status else Inr ()) (\<lambda>_.
          rbind (locked \<lparr>lu_run_id = rid, lu_new_status = new_status, lu_expected_version = expected_version,
            lu_expected_status = None, lu_fields = extra_fields, lu_now = clk 0\<rparr> db) (\<lambda>db.
          Inr (run_get rid db, db))))"

section \<open>Failing a run from the queue\<close>

text \<open>
  The common end of a run that the Runtime fails on its own: task, children, the event
  \<open>agent.run.failed\<close> and its outbox row.
\<close>

definition publish_run_failed ::
  "agent_run \<Rightarrow> dict \<Rightarrow> int \<Rightarrow> uuid option \<Rightarrow> string \<Rightarrow> int \<Rightarrow> clock \<Rightarrow> db \<Rightarrow> db res" where
  "publish_run_failed run error seq default_trace worker now clk db =
     (let event_id = deterministic_event_id (JId (ar_id run)) ''agent.run.failed'' seq;
          (trace, db) = (case (trace_id run, default_trace) of
             (Some t, _) \<Rightarrow> (t, db) | (None, Some t) \<Rightarrow> (t, db) | (None, None) \<Rightarrow> (fresh db, bump db))
      in publish_event run event_id ''agent.run.failed'' [(''error'', JObj error)] trace worker None now clk db)"

definition fail_run_queue_delivery_from ::
  "agent_run \<Rightarrow> json \<Rightarrow> string \<Rightarrow> int \<Rightarrow> clock \<Rightarrow> db \<Rightarrow> db res" where
  "fail_run_queue_delivery_from run source_event_id error_code delivery_count clk db =
     (let k = (''run-queue-dlq'', source_event_id); now = clk 0;
          error = run_error ''RUN_QUEUE_RETRY_EXHAUSTED'' ''run queue retries exhausted'' @
            [(''details'', JObj [(''delivery_count'', JInt delivery_count), (''last_error_code'', JStr error_code)])]
      in if ar_status run \<in> set TERMINAL_STATUSES \<or> ar_status run \<in> {CancelRequested, Cancelling}
         then Inr (inbox_mark_processed k (clk 4) db)
         else
           rbind (locked \<lparr>lu_run_id = ar_id run, lu_new_status = Failed, lu_expected_version = ar_version run,
             lu_expected_status = Some (ar_status run),
             lu_fields = [SetFailedAt now, SetError (Some error), SetWorkerId None, SetLeaseUntil None,
               SetCheckpoint []], lu_now = clk 3\<rparr> db) (\<lambda>db.
           rbind (publish_run_failed run error (9200 + ar_version run) None ''run-queue-recovery'' now clk
             (fail_open_children (ar_id run) error now (fail_task (ar_task_id run) now db))) (\<lambda>db.
           Inr (inbox_mark_processed k (clk 4)
             (audit_create (\<lambda>pk. (new_audit ''run.queue.dead_letter'' ''system'' (ar_task_id run) (ar_id run)
                [(''source_event_id'', source_event_id), (''delivery_count'', JInt delivery_count),
                 (''last_error_code'', JStr error_code)] now pk)
                \<lparr>au_error := Some error, au_result_summary := Some ''failed''\<rparr>) db)))))"

definition fail_run_queue_delivery ::
  "uuid \<Rightarrow> json \<Rightarrow> string \<Rightarrow> int \<Rightarrow> clock \<Rightarrow> agent_run option tx" where
  "fail_run_queue_delivery rid source_event_id error_code delivery_count clk db =
     (let k = (''run-queue-dlq'', source_event_id); (first_seen, db) = inbox_try_insert k db in
      case run_get rid db of
        None \<Rightarrow> Inr (None, if first_seen then inbox_mark_processed k (clk 4) db else db)
      | Some run \<Rightarrow>
          if \<not> first_seen then Inr (Some run, db)
          else rbind (fail_run_queue_delivery_from run source_event_id error_code delivery_count clk db) (\<lambda>db.
               Inr (run_get rid db, db)))"

section \<open>Reconciliation of expired leases\<close>

text \<open>One run of the batch; the counters are (rescheduled, failed closed).\<close>

definition checkpoint_attempts :: "dict \<Rightarrow> int" where
  "checkpoint_attempts cp =
     (let raw = (if is_dict (dget cp ''state'' JNull)
                 then dget (entries_of (dget cp ''state'' JNull)) ''recovery_attempts'' (JInt 0) else JInt 0)
      in if is_int raw then int_of raw else 0)"

definition pause_expired :: "agent_run \<Rightarrow> int \<Rightarrow> clock \<Rightarrow> db \<Rightarrow> db res" where
  "pause_expired run now clk db =
     (let event_id = deterministic_event_id (JId (ar_id run)) ''agent.run.paused'' (9100 + ar_version run);
          node = dget (ar_checkpoint run) ''resume_node'' JNull;
          (trace, db) = trace_or_new run db
      in rbind (publish_event run event_id ''agent.run.paused''
           [(''run_id'', JId (ar_id run)), (''reason'', JStr ''worker_lease_expired_after_pause_request''),
            (''resume_node'', node)] trace ''reconciliation'' None now clk db) (\<lambda>db.
         Inr (audit_create (\<lambda>pk. (new_audit ''run.pause.reconciled'' ''system'' (ar_task_id run) (ar_id run)
           [(''resume_node'', node)] now pk)\<lparr>au_result_summary := Some ''paused''\<rparr>) db)))"

definition expired_error :: "bool \<Rightarrow> dict" where
  "expired_error exhausted =
     (if exhausted then run_error ''RUN_RECOVERY_EXHAUSTED'' ''maximum recovery attempts reached''
      else run_error ''RUN_RECOVERY_UNSAFE'' ''tool result unknown when the worker was interrupted'')"

definition fail_expired :: "agent_run \<Rightarrow> bool \<Rightarrow> int \<Rightarrow> int \<Rightarrow> clock \<Rightarrow> db \<Rightarrow> db res" where
  "fail_expired run exhausted attempts now clk db =
     (let error = expired_error exhausted
      in rbind (publish_run_failed run error (9000 + ar_version run) None ''reconciliation'' now clk
           (fail_open_children (ar_id run) error now (fail_task (ar_task_id run) now db))) (\<lambda>db.
         Inr (audit_create (\<lambda>pk. (new_audit ''run.recovery.failed_closed'' ''system'' (ar_task_id run) (ar_id run)
           [(''resume_node'', dget (ar_checkpoint run) ''resume_node'' (JStr ''missing'')),
            (''recovery_attempts'', JInt attempts)] now pk)
           \<lparr>au_error := Some error, au_result_summary := Some ''failed''\<rparr>) db)))"

definition reconcile_expired_run ::
  "int \<Rightarrow> clock \<Rightarrow> agent_run \<Rightarrow> (int \<times> int) \<times> db \<Rightarrow> ((int \<times> int) \<times> db) res" where
  "reconcile_expired_run now clk run acc =
     (let ((rescheduled, failed_closed), db) = acc; cp = ar_checkpoint run; attempts = checkpoint_attempts cp;
          release = [SetWorkerId None, SetLeaseUntil None];
          lock = (\<lambda>st fields. \<lparr>lu_run_id = ar_id run, lu_new_status = st, lu_expected_version = ar_version run,
            lu_expected_status = Some (ar_status run), lu_fields = fields, lu_now = clk 3\<rparr>)
      in rbind (is_resumable_run_checkpoint cp) (\<lambda>resumable.
         if ar_status run = PauseRequested \<and> resumable then
           (let (success, db) = update_with_lock (lock Paused release) db in
            if \<not> success then Inr ((rescheduled, failed_closed), db)
            else rbind (pause_expired run now clk db) (\<lambda>db. Inr ((rescheduled, failed_closed), db)))
         else if ar_status run = Running \<and> resumable \<and> attempts < MAX_RUN_RECOVERY_ATTEMPTS then
           (let (success, db) = update_with_lock (lock Paused release) db in
            if \<not> success then Inr ((rescheduled, failed_closed), db)
            else rbind (enqueue_resume run ''run.recovery.scheduled'' ''system'' now clk db)
                   (\<lambda>db. Inr ((rescheduled + 1, failed_closed), db)))
         else
           (let exhausted = (resumable \<and> attempts \<ge> MAX_RUN_RECOVERY_ATTEMPTS);
                (success, db) = update_with_lock (lock Failed
                  ([SetFailedAt now, SetError (Some (expired_error exhausted))] @ release @ [SetCheckpoint []])) db in
            if \<not> success then Inr ((rescheduled, failed_closed), db)
            else rbind (fail_expired run exhausted attempts now clk db)
                   (\<lambda>db. Inr ((rescheduled, failed_closed + 1), db)))))"

definition reconcile_expired_runs :: "int \<Rightarrow> clock \<Rightarrow> (int \<times> int) tx" where
  "reconcile_expired_runs limit clk db =
     (let now = clk 0 in
      foldR (reconcile_expired_run now clk) (list_expired_running now limit db) ((0, 0), db))"

section \<open>Reconciliation of queued runs\<close>

text \<open>The exponential grace period of a queued run, in microseconds.\<close>

definition retry_delay :: "int \<Rightarrow> int \<Rightarrow> int" where
  "retry_delay stale_seconds attempt =
     (let base = seconds (max 1 stale_seconds); e = min attempt 8 in
      if 0 \<le> e then base * 2 ^ nat e else base div 2 ^ nat (- e))"

definition reconcile_queued_run ::
  "(uuid \<Rightarrow> bool res) option \<Rightarrow> int \<Rightarrow> int \<Rightarrow> clock \<Rightarrow> agent_run \<Rightarrow> (int \<times> int) \<times> db \<Rightarrow> ((int \<times> int) \<times> db) res" where
  "reconcile_queued_run queue_event_exists stale_seconds now clk run acc =
     (let ((requeued, failed_closed), db) = acc;
          lock = (\<lambda>st fields. \<lparr>lu_run_id = ar_id run, lu_new_status = st, lu_expected_version = ar_version run,
            lu_expected_status = Some Queued, lu_fields = fields, lu_now = clk 3\<rparr>)
      in case get_latest_run_job (ar_id run) db of
           None \<Rightarrow> Inr acc
         | Some latest \<Rightarrow>
           if ob_status latest \<noteq> ObDelivered \<or>
              dget (ob_payload latest) ''run_id'' (JStr []) \<noteq> JId (ar_id run) \<or>
              dget (ob_payload latest) ''task_id'' (JStr []) \<noteq> JId (ar_task_id run)
           then Inr acc
           else
             rbind (case queue_event_exists of None \<Rightarrow> Inr True | Some f \<Rightarrow> f (ob_event_id latest)) (\<lambda>present.
             if present then Inr acc
             else
               (let raw = dget (ob_payload latest) ''queue_reconciliation_attempt'' (JInt 0);
                    attempt = (if is_int raw then int_of raw else 0) in
                if ob_created_at latest + retry_delay stale_seconds attempt > now then Inr acc
                else if attempt \<ge> MAX_QUEUED_RUN_RECONCILIATION_ATTEMPTS then
                  (let error = run_error ''RUN_QUEUE_RECONCILIATION_EXHAUSTED''
                         ''run was delivered repeatedly and never claimed'';
                       (claimed, db) = update_with_lock (lock Failed [SetFailedAt now, SetError (Some error)]) db in
                   if \<not> claimed then Inr ((requeued, failed_closed), db)
                   else
                     rbind (publish_run_failed run error (9200 + ar_version run) (Some (ob_trace_id latest))
                       ''reconciliation'' now clk (fail_task (ar_task_id run) now db)) (\<lambda>db.
                     Inr ((requeued, failed_closed + 1),
                       audit_create (\<lambda>pk. (new_audit ''run.queue.reconciliation_exhausted'' ''system''
                         (ar_task_id run) (ar_id run) [(''attempts'', JInt attempt)] now pk)
                         \<lparr>au_error := Some error, au_result_summary := Some ''failed''\<rparr>) db)))
                else
                  (let event_id = fresh db; db = bump db;
                       payload = dupdate (ob_payload latest)
                         [(''job_id'', JId event_id), (''created_at'', JTime now),
                          (''reconciled_from_event_id'', JId (ob_event_id latest)),
                          (''queue_reconciliation_attempt'', JInt (attempt + 1))];
                       (claimed, db) = update_with_lock (lock Queued []) db in
                   if \<not> claimed then Inr ((requeued, failed_closed), db)
                   else
                     rbind (outbox_create (new_outbox_event event_id (ar_id run) ''run.queue.reconciled'' payload
                       (case trace_id run of Some t \<Rightarrow> t | None \<Rightarrow> ob_trace_id latest)
                       (Some (ob_event_id latest)) None now (clk 2)) db) (\<lambda>db.
                     Inr ((requeued + 1, failed_closed),
                       audit_create (\<lambda>pk. (new_audit ''run.queue.reconciled'' ''system'' (ar_task_id run) (ar_id run)
                         [(''previous_event_id'', JId (ob_event_id latest))] now pk)
                         \<lparr>au_result_summary := Some ''queued''\<rparr>) db))))))"

definition reconcile_stale_queued_runs ::
  "(uuid \<Rightarrow> bool res) option \<Rightarrow> int \<Rightarrow> int \<Rightarrow> clock \<Rightarrow> (int \<times> int) tx" where
  "reconcile_stale_queued_runs queue_event_exists stale_seconds limit clk db =
     (let now = clk 0; cutoff = now - seconds (max 1 stale_seconds) in
      foldR (reconcile_queued_run queue_event_exists stale_seconds now clk)
        (list_stale_queued cutoff limit db) ((0, 0), db))"

section \<open>Retrying a failed model step\<close>

definition retry_replacement_id :: "uuid \<Rightarrow> uuid \<Rightarrow> uuid" where
  "retry_replacement_id rid sid =
     Uuid5 [PLit ''jarvis:'', PUuid rid, PLit '':'', PUuid sid, PLit '':failed-step-retry'']"

text \<open>Entries of a value that is a dict by the checkpoint contract.\<close>

definition sub_dict :: "dict \<Rightarrow> string \<Rightarrow> dict" where
  "sub_dict d k = entries_of (dget d k JNull)"

definition retry_checkpoint :: "dict \<Rightarrow> uuid \<Rightarrow> uuid \<Rightarrow> uuid \<Rightarrow> int \<Rightarrow> dict" where
  "retry_checkpoint cp job_id trace replacement now =
     (let job = dupdate (sub_dict cp ''job'')
            [(''job_id'', JId job_id), (''trace_id'', JId trace), (''run_id'', JId replacement),
             (''created_at'', JTime now), (''retry_from_checkpoint'', JBool True)];
          st = dset ''next_step_seq'' (JInt 1) (dset ''recovery_attempts'' (JInt 0)
            (dset ''run_id'' (JId replacement) (sub_dict cp ''state'')))
      in dset ''next_step_seq'' (JInt 1) (dset ''state'' (JObj st) (dset ''job'' (JObj job) cp)))"

definition failed_step_retryable :: "agent_run \<Rightarrow> execution_step \<Rightarrow> bool res" where
  "failed_step_retryable source step =
     (let step_error = (case st_error step of None \<Rightarrow> [] | Some e \<Rightarrow> e);
          source_error = (case ar_error source of None \<Rightarrow> [] | Some e \<Rightarrow> e);
          cp = ar_checkpoint source
      in if st_type step \<noteq> ModelCall \<or> st_status step \<noteq> StepFailed \<or>
            \<not> truthy (dget step_error ''recoverable'' JNull) \<or>
            dget step_error ''code'' JNull \<noteq> dget source_error ''code'' JNull \<or>
            \<not> truthy (dget source_error ''recoverable'' JNull)
         then Inr False
         else rbind (is_resumable_run_checkpoint cp) (\<lambda>resumable.
           if \<not> resumable then Inr False
           else in_strs (dget cp ''resume_node'' JNull) [''extract_intent'', ''call_model'']))"

definition not_retryable :: error where
  "not_retryable = AppError ''FAILED_STEP_NOT_RETRYABLE'' ''validation'' False"

definition retry_failed_step :: "uuid \<Rightarrow> uuid \<Rightarrow> clock \<Rightarrow> agent_run tx" where
  "retry_failed_step rid sid clk db =
     (let replacement_id = retry_replacement_id rid sid in
      case run_get replacement_id db of Some existing \<Rightarrow> Inr (existing, db)
      | None \<Rightarrow>
      (case run_get rid db of None \<Rightarrow> Inl not_found
       | Some source \<Rightarrow>
       (case (task_get (ar_task_id source) db, step_get sid db) of
          (Some task, Some step) \<Rightarrow>
            if st_run_id step \<noteq> ar_id source then Inl not_found
            else if ar_status source \<noteq> Failed \<or> tk_status task \<noteq> TaskFailed \<or>
                    tk_active_run_id task \<noteq> Some (ar_id source)
            then Inl invalid_state_transition
            else rbind (failed_step_retryable source step) (\<lambda>retryable.
            if \<not> retryable then Inl not_retryable
            else
              (let now = clk 0; trace = fresh db; db = bump db; job_id = fresh db; db = bump db;
                   cp = retry_checkpoint (ar_checkpoint source) job_id trace replacement_id now;
                   source_metadata = dset ''retry_step_id'' (JId sid)
                     (dset ''retry_replacement_id'' (JId replacement_id) (ar_metadata source));
                   replacement = new_agent_run replacement_id (tk_id task) now cp
                     [(''trace_id'', JId trace), (''retry_of_run_id'', JId (ar_id source)),
                      (''retry_of_step_id'', JId (st_id step))]
               in rbind (locked \<lparr>lu_run_id = ar_id source, lu_new_status = Failed,
                    lu_expected_version = ar_version source, lu_expected_status = Some Failed,
                    lu_fields = [SetMetadata source_metadata], lu_now = clk 1\<rparr> db) (\<lambda>db.
                  rbind (run_create replacement db) (\<lambda>db.
                  (let db = task_update (task\<lparr>tk_status := TaskRunning, tk_active_run_id := Some replacement_id,
                         tk_updated_at := now, tk_completed_at := None\<rparr>) db;
                       request_event_id = fresh db; db = bump db
                   in rbind (events_append [new_runtime_event request_event_id request_event_id (tk_id task)
                        replacement_id ''agent.run.retry_requested'' 1
                        [(''previous_run_id'', JId (ar_id source)), (''failed_step_id'', JId (st_id step)),
                         (''new_run_id'', JId replacement_id)] now] db) (\<lambda>db.
                      rbind (outbox_create (new_outbox_event job_id replacement_id ''run.step_retry.requested''
                        (sub_dict cp ''job'') trace (Some (ar_id source)) (Some (st_id step)) now (clk 2)) db) (\<lambda>db.
                      Inr (replacement, audit_create (\<lambda>pk. (new_audit ''run.step_retry.requested'' ''user''
                        (tk_id task) (ar_id source) [(''new_run_id'', JId replacement_id)] now pk)
                        \<lparr>au_step_id := Some (st_id step), au_result_summary := Some ''queued''\<rparr>) db))))))))
        | _ \<Rightarrow> Inl not_found)))"

section \<open>Retrying a run from the dead-letter queue\<close>

record dlq_evidence =
  dl_source :: json
  dl_record_id :: json
  dl_original_message_id :: json
  dl_error_code :: json
  dl_task_id :: uuid
  dl_run_id :: uuid
  dl_payload_sha256 :: json

definition id_part :: "json \<Rightarrow> upart" where
  "id_part j = (case j of JId u \<Rightarrow> PUuid u | JStr s \<Rightarrow> PLit s | _ \<Rightarrow> PLit [])"

definition dlq_retry_request_id :: "dlq_evidence \<Rightarrow> uuid" where
  "dlq_retry_request_id e =
     Uuid5 [PLit ''jarvis:dlq-retry:'', id_part (dl_source e), PLit '':'', id_part (dl_record_id e), PLit '':'',
       PUuid (dl_run_id e)]"

text \<open>
  \<open>_assess_dlq_retry\<close>: the reason code, \<open>DLQ_RETRY_ELIGIBLE\<close> when a new run may be made.  The
  workspace policy is the set of paths it resolves, when one is configured.
\<close>

definition assess_dlq_retry ::
  "(string \<Rightarrow> bool) option \<Rightarrow> dlq_evidence \<Rightarrow> agent_run option \<Rightarrow> task option \<Rightarrow> db \<Rightarrow> bool \<times> string" where
  "assess_dlq_retry workspace_policy evidence run task db =
     (if dl_source evidence \<noteq> JStr ''run_queue'' then (False, ''DLQ_SOURCE_NOT_RETRYABLE'')
      else if dl_error_code evidence \<noteq> JStr DLQ_RETRY_ERROR_CODE then (False, ''DLQ_ERROR_NOT_RETRYABLE'')
      else case (run, task) of
        (Some r, Some t) \<Rightarrow>
          if ar_task_id r \<noteq> tk_id t then (False, ''DLQ_AUTHORITY_MISMATCH'')
          else if ar_status r \<noteq> Failed then (False, ''DLQ_RUN_STATE_CHANGED'')
          else if dget (case ar_error r of None \<Rightarrow> [] | Some e \<Rightarrow> e) ''code'' JNull \<noteq> JStr DLQ_RETRY_ERROR_CODE
          then (False, ''DLQ_RUN_ERROR_MISMATCH'')
          else if tk_status t \<noteq> TaskFailed \<or> tk_active_run_id t \<noteq> Some (ar_id r)
          then (False, ''DLQ_TASK_STATE_CHANGED'')
          else (case tk_workspace_id t of
            Some wid \<Rightarrow>
              (case workspace_get wid db of
                 None \<Rightarrow> (False, ''DLQ_WORKSPACE_UNAVAILABLE'')
               | Some w \<Rightarrow>
                 if ws_status w \<noteq> WsActive \<or> Some (ws_canonical_path w) \<noteq> tk_workspace_path t
                 then (False, ''DLQ_WORKSPACE_UNAVAILABLE'') else (True, ''DLQ_RETRY_ELIGIBLE''))
          | None \<Rightarrow>
              (case (tk_workspace_path t, workspace_policy) of
                 (Some path, Some resolves) \<Rightarrow>
                   if path \<noteq> [] \<and> \<not> resolves path then (False, ''DLQ_WORKSPACE_UNAVAILABLE'')
                   else (True, ''DLQ_RETRY_ELIGIBLE'')
               | _ \<Rightarrow> (True, ''DLQ_RETRY_ELIGIBLE'')))
      | _ \<Rightarrow> (False, ''DLQ_AUTHORITY_NOT_FOUND''))"

definition ineligible :: "string \<Rightarrow> error" where
  "ineligible code = AppError code ''validation'' False"

text \<open>A confirmation request of level L3 that offers \<open>allow_once\<close> and \<open>deny\<close>.\<close>

definition confirmation_request ::
  "uuid \<Rightarrow> uuid \<Rightarrow> uuid \<Rightarrow> string \<Rightarrow> dict \<Rightarrow> dict \<Rightarrow> dict \<Rightarrow> int \<Rightarrow> int \<Rightarrow> permission_request" where
  "confirmation_request pid tid rid tool scope arguments checkpoint now deadline =
     \<lparr>pr_id = pid, pr_task_id = tid, pr_run_id = rid, pr_tool_name = tool, pr_action_summary = [],
      pr_risk_level = ''L3'', pr_scope = scope, pr_arguments_summary = arguments,
      pr_allowed_decisions = [''allow_once'', ''deny''], pr_checkpoint = checkpoint, pr_step_id = None,
      pr_tool_call_id = None, pr_reason = None, pr_status = PermPending, pr_decision = None,
      pr_decided_at = None, pr_note = None, pr_created_at = now, pr_expires_at = Some deadline\<rparr>"

definition create_dlq_retry_request ::
  "(string \<Rightarrow> bool) option \<Rightarrow> string \<Rightarrow> dlq_evidence \<Rightarrow> clock \<Rightarrow> permission_request tx" where
  "create_dlq_retry_request workspace_policy env evidence clk db =
     (let request_id = dlq_retry_request_id evidence in
      case permission_get request_id db of Some existing \<Rightarrow> Inr (existing, db)
      | None \<Rightarrow>
        (let (eligible, code) = assess_dlq_retry workspace_policy evidence
               (run_get (dl_run_id evidence) db) (task_get (dl_task_id evidence) db) db
         in if \<not> eligible then Inl (ineligible code)
            else rbind (permission_request_deadline env None (clk 0)) (\<lambda>deadline.
              (let now = clk 0;
                   request = confirmation_request request_id (dl_task_id evidence) (dl_run_id evidence)
                     DLQ_RETRY_TOOL_NAME
                     [(''type'', JStr ''once''), (''task_id'', JId (dl_task_id evidence))]
                     [(''source'', dl_source evidence), (''dlq_record_id'', dl_record_id evidence),
                      (''previous_run_id'', JId (dl_run_id evidence)), (''error_code'', dl_error_code evidence)]
                     [(''version'', JInt 1), (''action'', JStr ''dlq_retry_as_new_run''),
                      (''source'', dl_source evidence), (''record_id'', dl_record_id evidence),
                      (''original_message_id'', dl_original_message_id evidence),
                      (''error_code'', dl_error_code evidence), (''task_id'', JId (dl_task_id evidence)),
                      (''run_id'', JId (dl_run_id evidence)), (''payload_sha256'', dl_payload_sha256 evidence)]
                     now deadline
               in rbind (permission_insert request db) (\<lambda>db.
                  Inr (request, audit_create (\<lambda>pk. (new_audit ''run.retry.permission_requested'' ''user''
                    (dl_task_id evidence) (dl_run_id evidence)
                    [(''request_id'', JId request_id), (''dlq_record_id'', dl_record_id evidence)] now pk)
                    \<lparr>au_risk_level := Some ''L3'', au_result_summary := Some ''pending''\<rparr>) db))))))"

text \<open>\<open>_evidence_from_request\<close>: any missing or malformed field is a validation error.\<close>

definition evidence_from_request :: "(json \<Rightarrow> string) \<Rightarrow> permission_request \<Rightarrow> dlq_evidence res" where
  "evidence_from_request repr request =
     (let cp = pr_checkpoint request in
      if dget cp ''action'' JNull \<noteq> JStr ''dlq_retry_as_new_run'' then Inl validation_error
      else if \<exists>k \<in> set [''source'', ''record_id'', ''original_message_id'', ''error_code'', ''task_id'', ''run_id''].
                k \<notin> set (keys cp)
      then Inl validation_error
      else case (to_uuid (py_str repr (dget cp ''task_id'' JNull)), to_uuid (py_str repr (dget cp ''run_id'' JNull))) of
        (Inr tid, Inr rid) \<Rightarrow>
          Inr \<lparr>dl_source = py_str repr (dget cp ''source'' JNull), dl_record_id = py_str repr (dget cp ''record_id'' JNull),
            dl_original_message_id = py_str repr (dget cp ''original_message_id'' JNull),
            dl_error_code = py_str repr (dget cp ''error_code'' JNull), dl_task_id = tid, dl_run_id = rid,
            dl_payload_sha256 = py_str repr (dget cp ''payload_sha256'' (JStr []))\<rparr>
      | _ \<Rightarrow> Inl validation_error)"

text \<open>Refusing a confirmation request.\<close>

definition deny_request :: "permission_request \<Rightarrow> string \<Rightarrow> string \<Rightarrow> int \<Rightarrow> db \<Rightarrow> permission_request \<times> db" where
  "deny_request request event_type note now db =
     (let request = request\<lparr>pr_status := PermDenied, pr_decision := Some ''deny'', pr_decided_at := Some now,
            pr_note := Some (take 500 note)\<rparr>
      in (request, audit_create (\<lambda>pk. (new_audit event_type ''user'' (pr_task_id request) (pr_run_id request)
           [(''request_id'', JId (pr_id request)), (''note'', JStr (take 500 note))] now pk)
           \<lparr>au_risk_level := Some ''L3'', au_permission_decision := Some ''deny'',
            au_action_summary := pr_action_summary request, au_result_summary := Some ''denied''\<rparr>)
           (permission_update request db)))"

definition consume_request :: "permission_request \<Rightarrow> string \<Rightarrow> string \<Rightarrow> json \<Rightarrow> int \<Rightarrow> permission_request" where
  "consume_request request note k v now =
     request\<lparr>pr_status := PermConsumed, pr_decision := Some ''allow_once'', pr_decided_at := Some now,
       pr_note := Some (take 500 note), pr_checkpoint := dset k v (pr_checkpoint request)\<rparr>"

text \<open>
  The guard common to both confirmation flows: an earlier decision is returned or conflicts, a
  request that is neither pending nor decided, or is past its deadline, is an error.
\<close>

datatype guarded = AlreadyDecided | StillPending

definition guard_request :: "permission_request option \<Rightarrow> string \<Rightarrow> string \<Rightarrow> int \<Rightarrow> (permission_request \<times> guarded) res" where
  "guard_request found tool decision now =
     (if decision \<notin> {''allow_once'', ''deny''} then Inl validation_error
      else case found of None \<Rightarrow> Inl not_found
      | Some request \<Rightarrow>
        if pr_tool_name request \<noteq> tool then Inl validation_error
        else if pr_status request \<in> {PermConsumed, PermDenied} then
          (if pr_decision request \<noteq> Some decision then Inl permission_conflict
           else Inr (request, AlreadyDecided))
        else if pr_status request \<noteq> PermPending then Inl permission_not_pending
        else if permission_request_is_expired (pr_expires_at request) now then Inl permission_not_pending
        else Inr (request, StillPending))"

definition resolve_dlq_retry_request ::
  "(json \<Rightarrow> string) \<Rightarrow> (string \<Rightarrow> bool) option \<Rightarrow> uuid \<Rightarrow> string \<Rightarrow> string \<Rightarrow> clock \<Rightarrow>
   (permission_request \<times> agent_run option) tx" where
  "resolve_dlq_retry_request repr workspace_policy request_id decision note clk db =
     rbind (guard_request (permission_get request_id db) DLQ_RETRY_TOOL_NAME decision (clk 0)) (\<lambda>(request, g).
     let now = clk 0 in
     if g = AlreadyDecided then
       (let raw = dget (pr_checkpoint request) ''new_run_id'' JNull in
        Inr ((request,
          if pr_status request = PermConsumed \<and> truthy raw
          then (case to_uuid (py_str repr raw) of Inl _ \<Rightarrow> None | Inr u \<Rightarrow> run_get u db) else None), db))
     else if decision = ''deny'' then
       (let (request, db) = deny_request request ''run.retry.permission_decision'' note now db in
        Inr ((request, None), db))
     else
       rbind (evidence_from_request repr request) (\<lambda>evidence.
       let previous_run = run_get (pr_run_id request) db; task = task_get (pr_task_id request) db;
           (eligible, code) = assess_dlq_retry workspace_policy evidence previous_run task db
       in if \<not> eligible then Inl (ineligible code)
          else case (previous_run, task) of
            (Some previous_run, Some task) \<Rightarrow>
              (let trace = fresh db; db = bump db;
                   new_run = new_agent_run (fresh db) (tk_id task) now []
                     [(''trace_id'', JId trace), (''retry_of_run_id'', JId (ar_id previous_run)),
                      (''dlq_record_id'', dl_record_id evidence)];
                   db = bump db
               in rbind (run_create new_run db) (\<lambda>db.
                  (let db = task_update (task\<lparr>tk_status := TaskRunning, tk_active_run_id := Some (ar_id new_run),
                         tk_updated_at := now, tk_completed_at := None, tk_cancelled_at := None\<rparr>) db;
                       event_id = fresh db; db = bump db; event_pk = fresh db; db = bump db
                   in rbind (events_append [new_runtime_event event_pk event_id (tk_id task) (ar_id new_run)
                        ''agent.run.retry_requested'' 1
                        [(''previous_run_id'', JId (ar_id previous_run)), (''new_run_id'', JId (ar_id new_run)),
                         (''permission_request_id'', JId (pr_id request))] now] db) (\<lambda>db.
                  (let job_id = fresh db; db = bump db
                   in rbind (outbox_create (new_outbox_event job_id (ar_id new_run) ''run.retry.requested''
                        [(''job_id'', JId job_id), (''trace_id'', JId trace), (''task_id'', JId (tk_id task)),
                         (''run_id'', JId (ar_id new_run)), (''user_goal'', JStr (tk_user_goal task)),
                         (''workspace_path'', JStr (case tk_workspace_path task of None \<Rightarrow> [] | Some w \<Rightarrow> w)),
                         (''conversation_id'', JId (tk_conversation_id task)), (''created_at'', JTime now),
                         (''schema_version'', JStr SCHEMA_VERSION)]
                        trace (Some (ar_id previous_run)) (Some (pr_id request)) now (clk 1)) db) (\<lambda>db.
                      let request = consume_request request note ''new_run_id'' (JId (ar_id new_run)) now in
                      Inr ((request, Some new_run),
                        audit_create (\<lambda>pk. (new_audit ''run.retry.requested'' ''user'' (tk_id task) (ar_id previous_run)
                          [(''request_id'', JId (pr_id request)), (''dlq_record_id'', dl_record_id evidence),
                           (''previous_run_id'', JId (ar_id previous_run)), (''new_run_id'', JId (ar_id new_run))] now pk)
                          \<lparr>au_risk_level := Some ''L3'', au_permission_decision := Some ''allow_once'',
                           au_action_summary := pr_action_summary request, au_result_summary := Some ''queued''\<rparr>)
                          (permission_update request db))))))))
            | _ \<Rightarrow> Inl AssertionError))"

section \<open>Repairing a missing terminal event\<close>

definition str_take :: "nat \<Rightarrow> json \<Rightarrow> json" where
  "str_take n j = (case j of JStr s \<Rightarrow> JStr (take n s) | _ \<Rightarrow> j)"

definition safe_terminal_error :: "(json \<Rightarrow> string) \<Rightarrow> dict option \<Rightarrow> dict" where
  "safe_terminal_error repr error =
     (let source = (case error of None \<Rightarrow> [] | Some e \<Rightarrow> e);
          pick = (\<lambda>k dflt. py_str repr (or_empty (JStr dflt) (dget source k JNull)))
      in [(''code'', pick ''code'' ''RUN_FAILED''), (''message'', str_take 500 (pick ''message'' ''run failed'')),
          (''category'', str_take 80 (pick ''category'' ''runtime'')),
          (''recoverable'', JBool (truthy (dget source ''recoverable'' JNull)))])"

definition terminal_event_types :: "string list" where
  "terminal_event_types = [''agent.run.completed'', ''agent.run.failed'', ''agent.run.cancelled'']"

definition assess_terminal_event_repair :: "(json \<Rightarrow> string) \<Rightarrow> uuid \<Rightarrow> db \<Rightarrow> (bool \<times> string) \<times> uuid option" where
  "assess_terminal_event_repair repr rid db =
     (case run_get rid db of
        None \<Rightarrow> ((False, ''REPAIR_RUN_NOT_FOUND''), None)
      | Some run \<Rightarrow>
        (let events = events_by_run (ar_id run) db; types = map ev_type events in
         (if ar_status run \<noteq> Failed \<or> ar_failed_at run = None then (False, ''REPAIR_RUN_NOT_FAILED'')
          else if (case ar_error run of None \<Rightarrow> True
                   | Some e \<Rightarrow> \<not> truthy (strip_str (py_str repr (dget e ''code'' (JStr [])))))
          then (False, ''REPAIR_ERROR_EVIDENCE_MISSING'')
          else if task_get (ar_task_id run) db = None then (False, ''REPAIR_TASK_NOT_FOUND'')
          else if map ev_sequence events \<noteq> map int [1..<length events + 1]
          then (False, ''REPAIR_EVENT_SEQUENCE_INVALID'')
          else if ''agent.run.failed'' \<in> set types then (False, ''REPAIR_ALREADY_APPLIED'')
          else if set types \<inter> set terminal_event_types \<noteq> {} then (False, ''REPAIR_TERMINAL_CONFLICT'')
          else (True, ''TERMINAL_EVENT_REPAIR_ELIGIBLE''), Some (ar_task_id run))))"

definition terminal_repair_request_id :: "uuid \<Rightarrow> uuid" where
  "terminal_repair_request_id rid = Uuid5 [PLit ''jarvis:terminal-event-repair:'', PUuid rid]"

definition create_terminal_event_repair_request ::
  "(json \<Rightarrow> string) \<Rightarrow> string \<Rightarrow> uuid \<Rightarrow> clock \<Rightarrow> permission_request tx" where
  "create_terminal_event_repair_request repr env rid clk db =
     (let request_id = terminal_repair_request_id rid in
      case permission_get request_id db of Some existing \<Rightarrow> Inr (existing, db)
      | None \<Rightarrow>
        (let ((eligible, code), tid) = assess_terminal_event_repair repr rid db in
         case (eligible, tid) of
           (True, Some tid) \<Rightarrow>
             rbind (permission_request_deadline env None (clk 0)) (\<lambda>deadline.
             (let now = clk 0;
                  request = confirmation_request request_id tid rid TERMINAL_EVENT_REPAIR_TOOL_NAME
                    [(''type'', JStr ''once''), (''run_id'', JId rid)]
                    [(''run_id'', JId rid), (''event_type'', JStr ''agent.run.failed'')]
                    [(''version'', JInt 1), (''action'', JStr ''repair_missing_terminal_event''),
                     (''run_id'', JId rid), (''event_type'', JStr ''agent.run.failed'')] now deadline
              in rbind (permission_insert request db) (\<lambda>db.
                 Inr (request, audit_create (\<lambda>pk. (new_audit ''runtime.repair.permission_requested'' ''user'' tid rid
                   [(''request_id'', JId request_id), (''repair_code'', JStr ''TERMINAL_EVENT_MISSING'')] now pk)
                   \<lparr>au_risk_level := Some ''L3'', au_result_summary := Some ''pending''\<rparr>) db))))
         | _ \<Rightarrow> Inl (ineligible code)))"

definition resolve_terminal_event_repair_request ::
  "(json \<Rightarrow> string) \<Rightarrow> uuid \<Rightarrow> string \<Rightarrow> string \<Rightarrow> clock \<Rightarrow> (permission_request \<times> uuid option) tx" where
  "resolve_terminal_event_repair_request repr request_id decision note clk db =
     rbind (guard_request (permission_get request_id db) TERMINAL_EVENT_REPAIR_TOOL_NAME decision (clk 0))
       (\<lambda>(request, g).
     let now = clk 0 in
     if g = AlreadyDecided then
       (let raw = dget (pr_checkpoint request) ''repaired_event_id'' JNull in
        Inr ((request, if truthy raw then (case to_uuid (py_str repr raw) of Inl _ \<Rightarrow> None | Inr u \<Rightarrow> Some u) else None), db))
     else if decision = ''deny'' then
       (let (request, db) = deny_request request ''runtime.repair.permission_decision'' note now db in
        Inr ((request, None), db))
     else
       (let ((eligible, code), _) = assess_terminal_event_repair repr (pr_run_id request) db in
        if \<not> eligible then Inl (ineligible code)
        else case run_get (pr_run_id request) db of None \<Rightarrow> Inl AssertionError
        | Some run \<Rightarrow>
          (let event_id = deterministic_event_id (JId (ar_id run)) ''agent.run.failed'' (get_next_sequence (ar_id run) db);
               payload = [(''error'', JObj (safe_terminal_error repr (ar_error run))),
                 (''repair'', JObj [(''code'', JStr ''TERMINAL_EVENT_MISSING''),
                    (''permission_request_id'', JId (pr_id request))])];
               (trace, db) = trace_or_new run db;
               request' = consume_request request note ''repaired_event_id'' (JId event_id) now
           in rbind (publish_event run event_id ''agent.run.failed'' payload trace ''storage-repair''
                (Some (pr_id request)) now clk db) (\<lambda>db.
              Inr ((request', Some event_id),
                audit_create (\<lambda>pk. (new_audit ''runtime.repair.applied'' ''user'' (ar_task_id run) (ar_id run)
                  [(''request_id'', JId (pr_id request)), (''repair_code'', JStr ''TERMINAL_EVENT_MISSING''),
                   (''event_id'', JId event_id), (''event_type'', JStr ''agent.run.failed'')] now pk)
                  \<lparr>au_risk_level := Some ''L3'', au_permission_decision := Some ''allow_once'',
                   au_action_summary := pr_action_summary request, au_result_summary := Some ''repaired''\<rparr>)
                  (permission_update request' db))))))"

end
