(* ===== verification/PermissionService.thy ===== *)
theory PermissionService
  imports RunService
begin

text \<open>
  \<open>runtime/permissions/service.py\<close>: the user's decision on a permission request, its expiry, and what
  either does to the tool call, the step and the run that wait for it.
\<close>

section \<open>Decisions\<close>

definition VALID_DECISIONS :: "string list" where
  "VALID_DECISIONS = [''allow_once'', ''allow_for_task'', ''always_allow_for_tool_and_path'',
     ''always_allow_for_workspace'', ''deny'']"

definition GRANT_TYPE_BY_DECISION :: "(string \<times> string) list" where
  "GRANT_TYPE_BY_DECISION = [(''allow_for_task'', ''task''), (''always_allow_for_tool_and_path'', ''tool_path''),
     (''always_allow_for_workspace'', ''workspace'')]"

definition validate_permission_decision :: "permission_request \<Rightarrow> string \<Rightarrow> unit res" where
  "validate_permission_decision req decision =
     (if decision \<notin> set VALID_DECISIONS then Inl validation_error
      else if decision \<notin> set (pr_allowed_decisions req) then Inl validation_error
      else if pr_risk_level req \<in> {''L4'', ''L5''} \<and> map_of GRANT_TYPE_BY_DECISION decision \<noteq> None
      then Inl validation_error else Inr ())"

text \<open>The request as it is stored, and its reflection in the tool call.\<close>

definition permission_status_text :: "permission_status \<Rightarrow> string option" where
  "permission_status_text s =
     (if s \<in> {PermApproved, PermConsumed} then Some ''approved'' else if s = PermDenied then Some ''denied''
      else if s = PermExpired then Some ''expired'' else None)"

definition sync_tool_call_permission :: "permission_request \<Rightarrow> db \<Rightarrow> db" where
  "sync_tool_call_permission req db =
     (case pr_tool_call_id req of None \<Rightarrow> db
      | Some cid \<Rightarrow> (case tool_call_get cid db of None \<Rightarrow> db
      | Some call \<Rightarrow> (case permission_status_text (pr_status req) of None \<Rightarrow> db
      | Some st \<Rightarrow> tool_call_update
          (call\<lparr>tc_permission_request_id := Some (pr_id req), tc_permission_status := st\<rparr>) db)))"

definition create_request :: "permission_request \<Rightarrow> permission_request tx" where
  "create_request req db = rbind (permission_insert req db) (\<lambda>db. Inr (req, db))"

section \<open>Expiry\<close>

definition expired_request_error :: dict where
  "expired_request_error =
     [(''code'', JStr ''PERMISSION_REQUEST_EXPIRED''), (''message'', JStr ''permission request expired, not executed''),
      (''category'', JStr ''permission''), (''recoverable'', JBool False)]"

definition json_time :: "int option \<Rightarrow> json" where
  "json_time t = (case t of None \<Rightarrow> JNull | Some t \<Rightarrow> JTime t)"

definition json_id :: "uuid option \<Rightarrow> json" where
  "json_id u = (case u of None \<Rightarrow> JNull | Some u \<Rightarrow> JId u)"

text \<open>The two events of an expiry, numbered one after the other.\<close>

definition expiry_events ::
  "permission_request \<Rightarrow> dict \<Rightarrow> int \<Rightarrow> (uuid \<times> string \<times> dict \<times> int \<times> uuid option) list" where
  "expiry_events req error start_sequence =
     [(Uuid5 [PLit ''jarvis:permission-expired:'', PUuid (pr_id req)], ''permission.expired'',
       [(''request_id'', JId (pr_id req)), (''tool_call_id'', json_id (pr_tool_call_id req)),
        (''reason'', JStr ''deadline_elapsed''), (''expires_at'', json_time (pr_expires_at req)),
        (''permission_status'', JStr ''expired'')], start_sequence, pr_step_id req),
      (Uuid5 [PLit ''jarvis:permission-expired-run-failed:'', PUuid (pr_id req)], ''agent.run.failed'',
       [(''error'', JObj error)], start_sequence + 1, None)]"

fun outbox_create_all :: "(uuid \<Rightarrow> outbox_event) list \<Rightarrow> db \<Rightarrow> db res" where
  "outbox_create_all [] db = Inr db"
| "outbox_create_all (mk # mks) db = rbind (outbox_create mk db) (outbox_create_all mks)"

definition append_expiry_events ::
  "permission_request \<Rightarrow> agent_run \<Rightarrow> dict \<Rightarrow> int \<Rightarrow> int \<Rightarrow> clock \<Rightarrow> db \<Rightarrow> db res" where
  "append_expiry_events req run error now start_sequence clk db =
     (let (trace, db) = trace_or_new run db; defs = expiry_events req error start_sequence;
          tid = pr_task_id req; rid = pr_run_id req
      in rbind (mapR (\<lambda>(eid, ty, payload, seq, sid).
           build_envelope (build_runtime_event ty (JId tid) (JId rid)
             (case sid of None \<Rightarrow> JStr [] | Some s \<Rightarrow> JId s) payload (JId eid) now)
             (JId trace) ''permission-reconciliation'') defs) (\<lambda>envelopes.
         rbind (events_append (map (\<lambda>(eid, ty, payload, seq, sid).
           (new_runtime_event eid eid tid rid ty seq payload now)\<lparr>ev_step_id := sid\<rparr>) defs) db)
         (outbox_create_all (map (\<lambda>((eid, ty, _), envelope).
           new_outbox_event eid rid ty (envelope_payload envelope) trace None None now (clk 1)) (zip defs envelopes)))))"

text \<open>The waiting tool call and step of an expired request.\<close>

definition expire_tool_call :: "permission_request \<Rightarrow> int \<Rightarrow> db \<Rightarrow> db" where
  "expire_tool_call req now db =
     (case pr_tool_call_id req of None \<Rightarrow> db
      | Some cid \<Rightarrow> (case tool_call_get cid db of None \<Rightarrow> db
      | Some call \<Rightarrow>
         if tc_permission_status call = ''pending'' then
           (let call = call\<lparr>tc_permission_request_id := Some (pr_id req), tc_permission_status := ''expired''\<rparr> in
            tool_call_update (if tool_call_open call then fail_tool_call expired_request_error now call else call) db)
         else db))"

definition expire_step :: "permission_request \<Rightarrow> int \<Rightarrow> db \<Rightarrow> db" where
  "expire_step req now db =
     (case pr_step_id req of None \<Rightarrow> db
      | Some sid \<Rightarrow> (case step_get sid db of None \<Rightarrow> db
      | Some step \<Rightarrow>
         if step_open step
         then step_update ((fail_step expired_request_error now step)\<lparr>st_summary := Some ''permission request expired''\<rparr>) db
         else db))"

text \<open>The run that waits for the request fails with it.\<close>

definition expire_run :: "permission_request \<Rightarrow> int \<Rightarrow> clock \<Rightarrow> db \<Rightarrow> db res" where
  "expire_run req now clk db =
     (case run_get (pr_run_id req) db of
        Some run \<Rightarrow>
          if ar_status run = WaitingPermission then
            (let sequence = get_next_sequence (pr_run_id req) db;
                 (transitioned, db) = update_with_lock \<lparr>lu_run_id = ar_id run, lu_new_status = Failed,
                   lu_expected_version = ar_version run, lu_expected_status = Some WaitingPermission,
                   lu_fields = [SetFailedAt now, SetError (Some expired_request_error), SetWorkerId None,
                     SetLeaseUntil None, SetCheckpoint []], lu_now = clk 2\<rparr> db
             in if \<not> transitioned then Inl RuntimeError
                else append_expiry_events req run expired_request_error now sequence clk
                       (fail_task (pr_task_id req) now db))
          else Inr db
      | None \<Rightarrow> Inr db)"

definition expire_request_locked :: "permission_request \<Rightarrow> int \<Rightarrow> clock \<Rightarrow> db \<Rightarrow> db res" where
  "expire_request_locked req now clk db =
     (if pr_status req \<noteq> PermPending then Inr db
      else
        (let req = req\<lparr>pr_status := PermExpired, pr_decided_at := Some now, pr_note := Some ''deadline_elapsed''\<rparr>;
             db = expire_step req now (expire_tool_call req now (permission_update req db))
         in rbind (expire_run req now clk db) (\<lambda>db.
            Inr (audit_create (\<lambda>pk. (new_audit ''permission.expired'' ''system'' (pr_task_id req) (pr_run_id req)
              [(''request_id'', JId (pr_id req)), (''reason'', JStr ''deadline_elapsed''),
               (''expires_at'', json_time (pr_expires_at req))] now pk)
              \<lparr>au_step_id := pr_step_id req, au_tool_call_id := pr_tool_call_id req,
               au_risk_level := Some (pr_risk_level req), au_action_summary := pr_action_summary req,
               au_error := Some expired_request_error, au_result_summary := Some ''expired''\<rparr>) db))))"

definition expire_pending_requests :: "int \<Rightarrow> clock \<Rightarrow> nat tx" where
  "expire_pending_requests limit clk db =
     (if limit < 1 \<or> limit > 256 then Inl ValueError
      else
        (let now = clk 0; requests = list_expired_pending now limit db in
         rbind (foldR (\<lambda>req. expire_request_locked req now clk) requests db) (\<lambda>db. Inr (length requests, db))))"

definition get_pending_by_run :: "uuid \<Rightarrow> clock \<Rightarrow> permission_request list tx" where
  "get_pending_by_run rid clk db =
     rbind (expire_pending_requests 32 clk db) (\<lambda>(_, db).
     if run_get rid db = None then Inl not_found else Inr (list_pending_by_run rid db, db))"

section \<open>Deciding\<close>

definition decision_payload :: "permission_request \<Rightarrow> string \<Rightarrow> string \<Rightarrow> uuid \<Rightarrow> uuid \<Rightarrow> int \<Rightarrow> dict" where
  "decision_payload req decision note command_id trace now =
     [(''command_id'', JId command_id), (''trace_id'', JId trace), (''request_id'', JId (pr_id req)),
      (''task_id'', JId (pr_task_id req)), (''run_id'', JId (pr_run_id req)), (''decision'', JStr decision),
      (''note'', JStr note), (''decided_at'', JTime now), (''type'', JStr ''permission.decision''),
      (''schema_version'', JStr SCHEMA_VERSION)]"

definition decided :: "permission_request \<Rightarrow> string \<Rightarrow> string \<Rightarrow> int \<Rightarrow> permission_request" where
  "decided req decision note now =
     req\<lparr>pr_status := (if decision \<noteq> ''deny'' then PermApproved else PermDenied), pr_decision := Some decision,
       pr_decided_at := Some now, pr_note := Some note\<rparr>"

text \<open>A standing decision leaves a grant.\<close>

definition grant_for :: "permission_request \<Rightarrow> string \<Rightarrow> int \<Rightarrow> db \<Rightarrow> db" where
  "grant_for req decision now db =
     (case map_of GRANT_TYPE_BY_DECISION decision of None \<Rightarrow> db
      | Some ty \<Rightarrow> grant_create
          \<lparr>pg_id = fresh db, pg_grant_type = ty, pg_risk_level_max = pr_risk_level req,
           pg_tool_name = Some (pr_tool_name req), pg_workspace_path = dget (pr_scope req) ''workspace_path'' JNull,
           pg_path = dget (pr_scope req) ''path'' JNull, pg_created_from_request_id = Some (pr_id req),
           pg_created_at = now\<rparr> (bump db))"

definition record_decision ::
  "permission_request \<Rightarrow> agent_run \<Rightarrow> string \<Rightarrow> string \<Rightarrow> int \<Rightarrow> clock \<Rightarrow> permission_request tx" where
  "record_decision req run decision note now clk db =
     (let req = decided req decision note now;
          db = grant_for req decision now (sync_tool_call_permission req (permission_update req db));
          (trace, db) = trace_or_new run db; command_id = fresh db; db = bump db; event_id = fresh db; db = bump db
      in rbind (outbox_create (\<lambda>pk. (new_outbox_event event_id (pr_id req) ''permission.decision''
           (decision_payload req decision note command_id trace now) trace None None now (clk 1) pk)
           \<lparr>ob_aggregate_type := ''PermissionRequest''\<rparr>) db) (\<lambda>db.
         Inr (req, audit_create (\<lambda>pk. (new_audit ''permission.decision'' ''user'' (pr_task_id req) (pr_run_id req)
           [(''request_id'', JId (pr_id req)), (''note'', JStr note)] now pk)
           \<lparr>au_step_id := pr_step_id req, au_tool_call_id := pr_tool_call_id req,
            au_risk_level := Some (pr_risk_level req), au_permission_decision := Some decision,
            au_action_summary := pr_action_summary req,
            au_result_summary := Some (if decision \<noteq> ''deny'' then ''approved'' else ''denied'')\<rparr>) db)))"

text \<open>The transaction of \<open>decide\<close>; \<open>None\<close> means the request expired, which is committed before it is raised.\<close>

definition decide_tx :: "uuid \<Rightarrow> string \<Rightarrow> string \<Rightarrow> clock \<Rightarrow> permission_request option tx" where
  "decide_tx request_id decision note clk db =
     (case permission_get request_id db of None \<Rightarrow> Inl not_found
      | Some req \<Rightarrow>
        rbind (validate_permission_decision req decision) (\<lambda>_.
        if pr_status req \<in> {PermApproved, PermDenied, PermConsumed} then
          (if pr_decision req = Some decision then Inr (Some req, sync_tool_call_permission req db)
           else Inl permission_conflict)
        else if pr_status req \<noteq> PermPending then Inl permission_not_pending
        else (case run_get (pr_run_id req) db of None \<Rightarrow> Inl not_found
          | Some run \<Rightarrow>
            if permission_request_is_expired (pr_expires_at req) (clk 0)
            then rbind (expire_request_locked req (clk 0) clk db) (\<lambda>db. Inr (None, db))
            else if ar_status run \<noteq> WaitingPermission then Inl permission_not_pending
            else rbind (record_decision req run decision note (clk 0) clk db) (\<lambda>(req, db). Inr (Some req, db)))))"

definition decide :: "uuid \<Rightarrow> string \<Rightarrow> string \<Rightarrow> clock \<Rightarrow> db \<Rightarrow> permission_request res \<times> db" where
  "decide request_id decision note clk db =
     (case transact (decide_tx request_id decision note clk) db of
        (Inl e, db') \<Rightarrow> (Inl e, db')
      | (Inr None, db') \<Rightarrow> (Inl permission_not_pending, db')
      | (Inr (Some req), db') \<Rightarrow> (Inr req, db'))"

section \<open>What the decision leaves alone\<close>

lemma grant_for_frame [simp]:
  "db_runs (grant_for r d now db) = db_runs db" "db_permissions (grant_for r d now db) = db_permissions db"
  "db_tool_calls (grant_for r d now db) = db_tool_calls db" "db_outbox (grant_for r d now db) = db_outbox db"
  by (simp_all add: grant_for_def split: option.split)

lemma sync_frame [simp]:
  "db_runs (sync_tool_call_permission r db) = db_runs db"
  "db_permissions (sync_tool_call_permission r db) = db_permissions db"
  "db_outbox (sync_tool_call_permission r db) = db_outbox db"
  "db_grants (sync_tool_call_permission r db) = db_grants db"
  by (simp_all add: sync_tool_call_permission_def split: option.split)

lemma expire_children_frame [simp]:
  "db_runs (expire_tool_call r now db) = db_runs db" "db_runs (expire_step r now db) = db_runs db"
  "db_permissions (expire_tool_call r now db) = db_permissions db" "db_permissions (expire_step r now db) = db_permissions db"
  "db_outbox (expire_tool_call r now db) = db_outbox db" "db_outbox (expire_step r now db) = db_outbox db"
  "db_tool_calls (expire_step r now db) = db_tool_calls db"
  "db_events (expire_tool_call r now db) = db_events db" "db_events (expire_step r now db) = db_events db"
  by (simp_all add: expire_tool_call_def expire_step_def Let_def split: option.split)

lemma outbox_create_all_frame:
  "outbox_create_all mks db = Inr db' \<Longrightarrow> db_runs db' = db_runs db \<and> db_permissions db' = db_permissions db \<and>
     db_tool_calls db' = db_tool_calls db \<and> db_tasks db' = db_tasks db \<and> db_events db' = db_events db"
  by (induction mks arbitrary: db) (auto elim!: rbind_InrE dest!: outbox_create_frame)

lemma append_expiry_events_runs:
  assumes "append_expiry_events req run err now n clk db = Inr db'"
  shows "db_runs db' = db_runs db"
proof -
  obtain trace d where tr: "trace_or_new run db = (trace, d)" by fastforce
  have keep: "db_runs d = db_runs db" using tr by (auto simp: trace_or_new_def split: option.splits)
  from assms obtain es d1 mks where "events_append es d = Inr d1" "outbox_create_all mks d1 = Inr db'"
    unfolding append_expiry_events_def Let_def tr prod.case by (elim rbind_InrE)
  with keep show ?thesis using outbox_create_all_frame events_append_frame by metis
qed

lemma record_decision_runs:
  assumes "record_decision p run d txt now clk db = Inr (p', db')" shows "db_runs db' = db_runs db"
proof -
  let ?q = "decided p d txt now"
  let ?db1 = "grant_for ?q d now (sync_tool_call_permission ?q (permission_update ?q db))"
  obtain trace d2 where tr: "trace_or_new run ?db1 = (trace, d2)" by fastforce
  have "db_runs d2 = db_runs ?db1" using tr by (auto simp: trace_or_new_def split: option.splits)
  with assms show ?thesis
    unfolding record_decision_def Let_def tr prod.case by (elim rbind_InrE) (auto dest!: outbox_create_frame)
qed

end
