(* ===== verification/Sanitize.thy ===== *)
theory Sanitize
  imports LoopContracts
begin

text \<open>
  The diagnostics that survive into a stored error: \<open>sanitize_source_navigation_guard_details\<close>
  (\<open>agent/core/evidence_navigation.py\<close>) and \<open>sanitize_final_answer_validation_details\<close>
  (\<open>agent/core/final_answer.py\<close>) rebuild them from fixed fields, so that no free text passes.
\<close>

section \<open>Fields\<close>

text \<open>\<open>[a-z0-9][a-z0-9._-]{0,99}\<close>; the canonical text of a UUID matches, an ISO time does not.\<close>

definition ident_char :: "char \<Rightarrow> bool" where
  "ident_char c \<longleftrightarrow> 97 \<le> (of_char c :: nat) \<and> (of_char c :: nat) \<le> 122 \<or> digit_char c"

fun is_ident :: "json \<Rightarrow> bool" where
  "is_ident (JStr (c # s)) = (ident_char c \<and> list_all (\<lambda>c. ident_char c \<or> c \<in> set ''._-'') s \<and> length s \<le> 99)"
| "is_ident (JId _) = True"
| "is_ident _ = False"

text \<open>\<open>[A-Z][A-Z0-9_]{2,79}\<close> is \<open>reason_code_ok\<close>.\<close>

definition strict_int_in :: "int \<Rightarrow> int \<Rightarrow> json \<Rightarrow> bool" where
  "strict_int_in lo hi j \<longleftrightarrow> is_int j \<and> \<not> is_bool j \<and> lo \<le> int_of j \<and> int_of j \<le> hi"

text \<open>The entries of \<open>keys\<close> whose value satisfies a test, in that order.\<close>

definition kept :: "(json \<Rightarrow> bool) \<Rightarrow> (json \<Rightarrow> json) \<Rightarrow> string list \<Rightarrow> dict \<Rightarrow> dict" where
  "kept ok f ks d = [(k, f (dget d k JNull)). k \<leftarrow> ks, ok (dget d k JNull)]"

section \<open>Source navigation\<close>

definition SOURCE_NAVIGATION_POLICY_VERSION :: string where
  "SOURCE_NAVIGATION_POLICY_VERSION = ''source-navigation-v5''"

definition SOURCE_NAVIGATION_REASON_CODES :: "string list" where
  "SOURCE_NAVIGATION_REASON_CODES = [''REPEATED_SOURCE_ACTION'', ''DISCOVERY_NO_PROGRESS'', ''COVERAGE_BUDGET_AT_RISK'']"

definition SOURCE_NAVIGATION_TOOL_CLASSES :: "string list" where
  "SOURCE_NAVIGATION_TOOL_CLASSES = [''discovery'', ''read'', ''navigation'']"

definition navigation_counts :: "string list" where
  "navigation_counts =
     [''missing_slot_count'', ''proposed_slot_count'', ''proposed_missing_slot_count'',
      ''discovery_count_since_read'', ''productive_discovery_count'', ''nonprogress_discovery_streak'',
      ''unique_candidate_count'', ''remaining_call_count'', ''coverage_budget_threshold'']"

definition sanitize_source_navigation :: "json \<Rightarrow> dict option res" where
  "sanitize_source_navigation value =
     (case value of
        JObj d \<Rightarrow>
          (let f = (\<lambda>k. dget d k JNull) in
           if f ''policy_version'' \<noteq> JStr SOURCE_NAVIGATION_POLICY_VERSION then Inr None
           else rbind (in_strs (f ''reason_code'') SOURCE_NAVIGATION_REASON_CODES) (\<lambda>known.
                if \<not> known then Inr None
                else rbind (in_strs (f ''tool_class'') SOURCE_NAVIGATION_TOOL_CLASSES) (\<lambda>known.
                if \<not> known then Inr None
                else Inr (Some
                  ([(''policy_version'', f ''policy_version''), (''reason_code'', f ''reason_code''),
                    (''tool_class'', f ''tool_class'')] @
                   kept (\<lambda>j. is_int j \<and> \<not> is_bool j \<and> 0 \<le> int_of j) (\<lambda>j. JInt (min (int_of j) 10000))
                     navigation_counts d @
                   kept is_bool id [''has_actionable_candidates'', ''coverage_budget_at_risk''] d)))))
      | _ \<Rightarrow> Inr None)"

section \<open>Answer validation\<close>

definition coverage_counts :: "string list" where
  "coverage_counts =
     [''required_endpoint_count'', ''covered_endpoint_count'', ''required_stage_count'', ''covered_stage_count'',
      ''required_evidence_slot_count'', ''covered_evidence_slot_count'', ''unique_source_paths'']"

definition safe_coverage :: "json \<Rightarrow> dict" where
  "safe_coverage value =
     (case value of
        JObj c \<Rightarrow> kept is_ident id [''schema''] c @ kept (strict_int_in 0 10000) id coverage_counts c @
          kept is_bool id [''complete''] c
      | _ \<Rightarrow> [])"

definition sanitize_answer_validation :: "json \<Rightarrow> dict option res" where
  "sanitize_answer_validation value =
     (case value of
        JObj d \<Rightarrow>
          (let f = (\<lambda>k. dget d k JNull) in
           if \<not> is_ident (f ''validator_id'') \<or> \<not> reason_code_ok (f ''reason_code'') \<or>
              \<not> strict_int_in 1 20 (f ''rejection_count'') \<or> \<not> strict_int_in 0 20 (f ''max_rewrites'') \<or>
              \<not> is_bool (f ''rewrite_available'')
           then Inr None
           else rbind (in_strs (f ''recovery_mode'') [''answer_rewrite'', ''tool_planning'', ''none'']) (\<lambda>known.
                if \<not> known then Inr None
                else (let coverage = safe_coverage (f ''coverage'') in
                  Inr (Some
                    (map (\<lambda>k. (k, f k)) [''validator_id'', ''reason_code'', ''rejection_count'', ''max_rewrites'',
                       ''rewrite_available'', ''recovery_mode''] @
                     (if coverage = [] then [] else [(''coverage'', JObj coverage)]) @
                     kept is_bool id [''answer_denied_global_coverage''] d @
                     kept (strict_int_in 0 100) id [''uncertainty_clause_count''] d)))))
      | _ \<Rightarrow> Inr None)"

section \<open>Nothing but fixed fields passes\<close>

text \<open>A value that carries no text of its own: a boolean, a bounded number, or a name of a fixed alphabet.\<close>

definition plain_value :: "json \<Rightarrow> bool" where
  "plain_value j \<longleftrightarrow> is_bool j \<or> strict_int_in 0 10000 j \<or> is_ident j \<or> reason_code_ok j \<or>
     j \<in> JStr ` {''answer_rewrite'', ''tool_planning'', ''none''}"

definition plain_dict :: "dict \<Rightarrow> bool" where
  "plain_dict d \<longleftrightarrow> list_all (\<lambda>(k, v). plain_value v) d"

lemma kept_plain: "(\<And>j. ok j \<Longrightarrow> plain_value (f j)) \<Longrightarrow> plain_dict (kept ok f ks d)"
  by (induction ks) (auto simp: kept_def plain_dict_def)

lemma plain_dict_simps [simp]:
  "plain_dict []" "plain_dict ((k, v) # d) \<longleftrightarrow> plain_value v \<and> plain_dict d"
  "plain_dict (a @ b) \<longleftrightarrow> plain_dict a \<and> plain_dict b"
  by (simp_all add: plain_dict_def)

lemma plain_valueI:
  "is_bool j \<Longrightarrow> plain_value j" "is_ident j \<Longrightarrow> plain_value j" "reason_code_ok j \<Longrightarrow> plain_value j"
  "strict_int_in lo hi j \<Longrightarrow> 0 \<le> lo \<Longrightarrow> hi \<le> 10000 \<Longrightarrow> plain_value j"
  by (auto simp: plain_value_def strict_int_in_def)

lemma in_strs_True: "in_strs j ss = Inr True \<Longrightarrow> \<exists>s \<in> set ss. j = JStr s"
  by (simp add: in_strs_Inr)

text \<open>A report whose only structure is its coverage.\<close>

definition plain_report :: "dict \<Rightarrow> bool" where
  "plain_report e \<longleftrightarrow>
     list_all (\<lambda>(k, x). if k = ''coverage'' then (case x of JObj c \<Rightarrow> plain_dict c | _ \<Rightarrow> False) else plain_value x) e"

lemma plain_report_simps [simp]:
  "plain_report []" "k \<noteq> ''coverage'' \<Longrightarrow> plain_report ((k, v) # d) \<longleftrightarrow> plain_value v \<and> plain_report d"
  "plain_report ((''coverage'', JObj c) # d) \<longleftrightarrow> plain_dict c \<and> plain_report d"
  "plain_report (a @ b) \<longleftrightarrow> plain_report a \<and> plain_report b"
  by (simp_all add: plain_report_def)

lemma kept_report:
  "(\<And>j. ok j \<Longrightarrow> plain_value j) \<Longrightarrow> ''coverage'' \<notin> set ks \<Longrightarrow> plain_report (kept ok id ks d)"
  by (induction ks) (auto simp: kept_def)

text \<open>
  The diagnostics kept with a failed run carry no text of their own: every value of a sanitized
  source-navigation report, and every value of a sanitized validation report and of its coverage,
  is a boolean, a number between 0 and 10000, or a name of a fixed alphabet and a bounded length.
\<close>

theorem sanitized_diagnostics_plain:
  "(sanitize_source_navigation v = Inr (Some d) \<longrightarrow> plain_dict d) \<and>
   (sanitize_answer_validation v = Inr (Some e) \<longrightarrow> plain_report e)"
proof (intro conjI impI)
  assume a: "sanitize_source_navigation v = Inr (Some d)"
  have c: "plain_dict (kept (\<lambda>j. is_int j \<and> \<not> is_bool j \<and> 0 \<le> int_of j) (\<lambda>j. JInt (min (int_of j) 10000)) ks x)" for ks x
    by (rule kept_plain) (simp add: plain_value_def strict_int_in_def)
  have b: "plain_dict (kept is_bool id ks x)" for ks x
    by (rule kept_plain) (simp add: plain_valueI)
  have s: "list_all plain_value (map JStr (SOURCE_NAVIGATION_POLICY_VERSION # SOURCE_NAVIGATION_REASON_CODES @
      SOURCE_NAVIGATION_TOOL_CLASSES))" by code_simp
  then have p: "plain_value (JStr t)" if "t \<in> set (SOURCE_NAVIGATION_POLICY_VERSION # SOURCE_NAVIGATION_REASON_CODES @
      SOURCE_NAVIGATION_TOOL_CLASSES)" for t
    using that by (auto simp: list_all_iff)
  show "plain_dict d"
    using a by (auto simp: sanitize_source_navigation_def Let_def b c p split: json.splits if_splits
        elim!: rbind_InrE dest!: in_strs_True)
next
  assume a: "sanitize_answer_validation v = Inr (Some e)"
  have cov: "plain_dict (safe_coverage x)" for x
    by (cases x) (auto simp: safe_coverage_def plain_value_def intro!: kept_plain)
  obtain x where v: "v = JObj x" using a by (auto simp: sanitize_answer_validation_def split: json.splits)
  from a have f: "is_ident (dget x ''validator_id'' JNull)" "reason_code_ok (dget x ''reason_code'' JNull)"
    "strict_int_in 1 20 (dget x ''rejection_count'' JNull)" "strict_int_in 0 20 (dget x ''max_rewrites'' JNull)"
    "is_bool (dget x ''rewrite_available'' JNull)"
    by (auto simp: sanitize_answer_validation_def v Let_def split: if_splits)
  from a f obtain s where r: "dget x ''recovery_mode'' JNull = JStr s" "s \<in> {''answer_rewrite'', ''tool_planning'', ''none''}"
    by (auto simp: sanitize_answer_validation_def v Let_def split: if_splits elim!: rbind_InrE dest!: in_strs_True)
  have e: "e = map (\<lambda>k. (k, dget x k JNull)) [''validator_id'', ''reason_code'', ''rejection_count'', ''max_rewrites'',
       ''rewrite_available'', ''recovery_mode''] @
     (if safe_coverage (dget x ''coverage'' JNull) = [] then [] else [(''coverage'', JObj (safe_coverage (dget x ''coverage'' JNull)))]) @
     kept is_bool id [''answer_denied_global_coverage''] x @ kept (strict_int_in 0 100) id [''uncertainty_clause_count''] x"
    using a f r by (auto simp: sanitize_answer_validation_def v Let_def in_strs_def split: if_splits)
  have "plain_value (dget x ''recovery_mode'' JNull)" using r by (auto simp: plain_value_def)
  then show "plain_report e"
    unfolding e using f cov by (auto simp: plain_value_def strict_int_in_def intro!: kept_report)
qed

definition sample_navigation :: dict where
  "sample_navigation =
     [(''policy_version'', JStr ''source-navigation-v5''), (''reason_code'', JStr ''DISCOVERY_NO_PROGRESS''),
      (''tool_class'', JStr ''read''), (''missing_slot_count'', JInt 20000), (''path'', JStr ''/etc/passwd'')]"

lemma sanitized_diagnostics_plain_witness:
  "\<exists>d. sanitize_source_navigation (JObj sample_navigation) = Inr (Some d) \<and> plain_dict d"
proof -
  have "(case sanitize_source_navigation (JObj sample_navigation) of Inr (Some d) \<Rightarrow> True | _ \<Rightarrow> False)" by code_simp
  then obtain d where d: "sanitize_source_navigation (JObj sample_navigation) = Inr (Some d)"
    by (auto split: sum.splits option.splits)
  then show ?thesis using sanitized_diagnostics_plain [of "JObj sample_navigation" d] by blast
qed

end
