(* ===== verification/Projection.thy ===== *)
theory Projection
  imports RunService Sanitize
begin

text \<open>
  \<open>runtime/service.py\<close>: how an event of a worker becomes durable.  \<open>RuntimeApplicationService\<close> checks
  the envelope, strips what is internal, projects the event onto the domain tables and writes the
  event and its outbox row, all in one transaction guarded by the inbox.  The artifact file store,
  the URL parser and the text of a UUID are parameters (\<open>host\<close>).  A column typed as text holds a
  text: a payload value of another type is stored as its \<open>str()\<close> where the code says so, and as
  NULL where the code passes the value on.
\<close>

section \<open>Parameters\<close>

record stored_file =
  sf_relative_path :: string
  sf_size_bytes :: int
  sf_sha256 :: string
  sf_mime_type :: string

datatype store_result = Stored stored_file | CapacityExceeded string | StoreFails error

record host =
  h_repr :: "json \<Rightarrow> string"
  h_uuid_text :: "uuid \<Rightarrow> string"
  h_is_uuid_text :: "string \<Rightarrow> bool"
  h_urlparse :: "string \<Rightarrow> string \<times> string"
  h_ttl_env :: string
  h_write_text :: "(uuid \<Rightarrow> json \<Rightarrow> uuid \<Rightarrow> uuid option \<Rightarrow> string \<Rightarrow> string \<Rightarrow> string \<Rightarrow> store_result) option"
  h_inline_max_bytes :: nat
  h_memory_extraction :: bool

text \<open>\<open>str(value)\<close> as a text; \<open>value\<close> where only a text is kept.\<close>

definition text_of :: "host \<Rightarrow> json \<Rightarrow> string" where
  "text_of h j = (case py_str (h_repr h) j of JStr s \<Rightarrow> s | v \<Rightarrow> h_repr h v)"

definition text_or_null :: "json \<Rightarrow> string option" where
  "text_or_null j = (case j of JStr s \<Rightarrow> Some s | _ \<Rightarrow> None)"

definition dict_or_null :: "json \<Rightarrow> dict option" where
  "dict_or_null j = (case j of JObj d \<Rightarrow> Some d | _ \<Rightarrow> None)"

definition uuid_of :: "host \<Rightarrow> json \<Rightarrow> uuid res" where
  "uuid_of h j = to_uuid (py_str (h_repr h) j)"

text \<open>\<open>value.get(...)\<close>: only a dict has the method.\<close>

definition as_dict :: "json \<Rightarrow> dict res" where
  "as_dict j = (case j of JObj d \<Rightarrow> Inr d | _ \<Rightarrow> Inl AttributeError)"

text \<open>\<open>datetime.fromisoformat\<close> of a text; a time without a zone is not represented.\<close>

definition parse_timestamp :: "json \<Rightarrow> int res" where
  "parse_timestamp j = (case j of JTime t \<Rightarrow> Inr t | JStr _ \<Rightarrow> Inl ValueError | JId _ \<Rightarrow> Inl ValueError
     | _ \<Rightarrow> Inl AttributeError)"

definition DURABLE_EVENT_TYPES :: "string list" where
  "DURABLE_EVENT_TYPES =
     [''task.created'', ''task.updated'', ''agent.run.started'', ''agent.run.paused'', ''agent.run.resumed'',
      ''agent.run.completed'', ''agent.run.failed'', ''agent.run.cancelled'', ''agent.step.started'',
      ''agent.step.updated'', ''agent.step.completed'', ''agent.step.failed'', ''model.call.started'',
      ''model.context.prepared'', ''model.call.completed'', ''model.call.failed'', ''tool.call.started'',
      ''tool.call.finished'', ''tool.call.failed'', ''permission.required'', ''permission.resolved'',
      ''permission.expired'', ''artifact.created'']"

definition MEMORY_EXTRACTION_POLICY_VERSION :: string where
  "MEMORY_EXTRACTION_POLICY_VERSION = ''memory-extraction-v2''"

section \<open>Transitions and steps\<close>

text \<open>\<open>_transition\<close>: the row is updated under the version that was read, then the object in memory.\<close>

definition transition :: "agent_run \<Rightarrow> run_status \<Rightarrow> run_field list \<Rightarrow> int \<Rightarrow> agent_run tx" where
  "transition run target columns now db =
     (let (success, db) = update_with_lock \<lparr>lu_run_id = ar_id run, lu_new_status = target,
            lu_expected_version = ar_version run, lu_expected_status = Some (ar_status run),
            lu_fields = columns, lu_now = now\<rparr> db
      in if \<not> success then Inl RuntimeError
         else Inr (fold apply_field columns (run\<lparr>ar_status := target, ar_version := ar_version run + 1\<rparr>), db))"

definition create_execution_step :: "agent_run \<Rightarrow> execution_step \<Rightarrow> int \<Rightarrow> (execution_step \<times> agent_run) tx" where
  "create_execution_step run step now db =
     (let persisted = steps_by_run (ar_id run) db; n = length persisted in
      if ar_step_count run \<noteq> int n \<or> map st_order_index persisted \<noteq> map int [0..<n] \<or>
         (case ar_current_step_id run of None \<Rightarrow> False | Some c \<Rightarrow> c \<notin> st_id ` set persisted)
      then Inl RuntimeError
      else
        (let step = step\<lparr>st_order_index := ar_step_count run\<rparr> in
         rbind (transition run (ar_status run) [SetStepCount (ar_step_count run + 1), SetCurrentStep (Some (st_id step))]
           now db) (\<lambda>(run, db).
         rbind (step_create step db) (\<lambda>db. Inr ((step, run), db)))))"

definition validate_execution_step ::
  "host \<Rightarrow> execution_step \<Rightarrow> agent_run \<Rightarrow> uuid \<Rightarrow> step_type \<Rightarrow> string \<Rightarrow> json \<Rightarrow> unit res" where
  "validate_execution_step h step run tid expected field identity =
     (let existing = py_str (h_repr h) (dget (st_metadata step) field (JStr [])) in
      if st_run_id step \<noteq> ar_id run \<or> st_task_id step \<noteq> tid then Inl ValueError
      else if st_type step \<noteq> expected then Inl ValueError
      else if truthy existing \<and> truthy identity \<and> existing \<noteq> identity then Inl ValueError
      else Inr ())"

definition started_step :: "uuid \<Rightarrow> uuid \<Rightarrow> uuid \<Rightarrow> step_type \<Rightarrow> string \<Rightarrow> dict \<Rightarrow> int \<Rightarrow> execution_step" where
  "started_step sid rid tid ty title metadata created_at =
     \<lparr>st_id = sid, st_run_id = rid, st_task_id = tid, st_type = ty, st_status = StepRunning,
      st_parent_step_id = None, st_title = title, st_summary = None, st_input_data = JNull, st_output_data = JNull,
      st_error = None, st_started_at = Some created_at, st_completed_at = None, st_duration_ms = None,
      st_order_index = 0, st_metadata = metadata\<rparr>"

text \<open>The step an event is about: created when it is new, checked when it is not.\<close>

definition step_for_event ::
  "host \<Rightarrow> agent_run \<Rightarrow> uuid \<Rightarrow> uuid \<Rightarrow> step_type \<Rightarrow> string \<Rightarrow> dict \<Rightarrow> string \<Rightarrow> json \<Rightarrow> int \<Rightarrow> int \<Rightarrow>
   (execution_step \<times> agent_run) tx" where
  "step_for_event h run tid sid ty title metadata field identity created_at now db =
     (case step_get sid db of
        None \<Rightarrow> create_execution_step run (started_step sid (ar_id run) tid ty title metadata created_at) now db
      | Some step \<Rightarrow> rbind (validate_execution_step h step run tid ty field identity) (\<lambda>_. Inr ((step, run), db)))"

section \<open>Model calls\<close>

definition finish_model_step :: "host \<Rightarrow> string \<Rightarrow> dict \<Rightarrow> int \<Rightarrow> execution_step \<Rightarrow> execution_step res" where
  "finish_model_step h event_type p created_at step =
     (let duration = dget p ''duration_ms'' JNull;
          step = step\<lparr>st_completed_at := Some created_at, st_duration_ms :=
            (if is_int duration \<and> 0 \<le> int_of duration then Some (int_of duration) else None)\<rparr>
      in if event_type = ''model.call.completed'' then
           Inr (step\<lparr>st_status := StepCompleted, st_summary := Some (text_of h
             (or_empty (JStr ''model call completed'') (dget p ''action_type'' JNull)))\<rparr>)
         else
           rbind (sanitize_answer_validation (dget p ''validation'' JNull)) (\<lambda>validation.
           rbind (sanitize_source_navigation (dget p ''navigation_guard'' JNull)) (\<lambda>navigation.
           (let details = (case validation of None \<Rightarrow> [] | Some v \<Rightarrow> [(''answer_validation'', JObj v)]) @
                  (case navigation of None \<Rightarrow> [] | Some n \<Rightarrow> [(''source_navigation'', JObj n)])
            in Inr (step\<lparr>st_status := StepFailed, st_summary := Some ''model call failed'',
                 st_error := Some ([(''code'', py_str (h_repr h)
                      (or_empty (JStr ''MODEL_CALL_FAILED'') (dget p ''error_code'' JNull))),
                    (''message'', JStr ''model call failed''), (''category'', JStr ''model''),
                    (''recoverable'', JBool (truthy (dget p ''recoverable'' JNull)))] @
                    (if details = [] then [] else [(''details'', JObj details)]))\<rparr>)))))"

definition record_model_event ::
  "host \<Rightarrow> string \<Rightarrow> json \<Rightarrow> uuid \<Rightarrow> agent_run \<Rightarrow> uuid option \<Rightarrow> int \<Rightarrow> int \<Rightarrow> agent_run tx" where
  "record_model_event h event_type payload tid run step_id created_at now db =
     (case step_id of None \<Rightarrow> Inr (run, db)
      | Some sid \<Rightarrow>
        rbind (as_dict payload) (\<lambda>p.
        (let f = (\<lambda>k d. py_str (h_repr h) (dget p k (JStr d))) in
         rbind (step_for_event h run tid sid ModelCall ''model call''
           [(''provider'', f ''provider'' ''unknown''), (''model_name'', f ''model_name'' ''unknown''),
            (''call_id'', f ''call_id'' []), (''purpose'', f ''purpose'' ''agent_action'')]
           ''call_id'' (f ''call_id'' []) created_at now db) (\<lambda>((step, run), db).
         if event_type = ''model.call.started'' then Inr (run, db)
         else rbind (finish_model_step h event_type p created_at step) (\<lambda>step.
              Inr (run, step_update step db))))))"

section \<open>Permission requests\<close>

definition mark_tool_call_permission_expired :: "permission_request \<Rightarrow> db \<Rightarrow> db" where
  "mark_tool_call_permission_expired req db =
     (case pr_tool_call_id req of None \<Rightarrow> db
      | Some cid \<Rightarrow> (case tool_call_get cid db of None \<Rightarrow> db
      | Some call \<Rightarrow>
          if tc_permission_status call \<noteq> ''pending'' then db
          else tool_call_update (call\<lparr>tc_permission_status := ''expired''\<rparr>) db))"

definition expiry_audit :: "permission_request \<Rightarrow> uuid \<Rightarrow> uuid \<Rightarrow> uuid option \<Rightarrow> string \<Rightarrow> int \<Rightarrow> uuid \<Rightarrow> audit_log" where
  "expiry_audit req tid rid sid reason created_at pk =
     (new_audit ''permission.expired'' ''system'' tid rid
        [(''request_id'', JId (pr_id req)), (''reason'', JStr reason)] created_at pk)
     \<lparr>au_step_id := sid, au_tool_call_id := pr_tool_call_id req, au_risk_level := Some (pr_risk_level req),
      au_action_summary := pr_action_summary req, au_result_summary := Some ''expired''\<rparr>"

definition expire_pending_permission :: "int \<Rightarrow> string \<Rightarrow> permission_request \<Rightarrow> db \<Rightarrow> db" where
  "expire_pending_permission created_at reason req db =
     (let req = req\<lparr>pr_status := PermExpired, pr_decided_at := Some created_at, pr_note := Some reason\<rparr>;
          db = mark_tool_call_permission_expired req (permission_update req db)
      in audit_create (expiry_audit req (pr_task_id req) (pr_run_id req) (pr_step_id req) reason created_at) db)"

definition expire_pending_permissions :: "uuid \<Rightarrow> int \<Rightarrow> string \<Rightarrow> db \<Rightarrow> db" where
  "expire_pending_permissions rid created_at reason db =
     fold (expire_pending_permission created_at reason) (list_pending_by_run rid db) db"

text \<open>\<open>dict(value or default)\<close> and \<open>list(value or default)\<close>; only texts are kept of the list.\<close>

definition dict_of :: "json \<Rightarrow> dict \<Rightarrow> dict res" where
  "dict_of j dflt = (if truthy j then keyword_dict j else Inr dflt)"

definition texts_of :: "json \<Rightarrow> string list \<Rightarrow> string list res" where
  "texts_of j dflt = (if truthy j then rbind (iterate j) (\<lambda>xs. Inr [s. JStr s \<leftarrow> xs]) else Inr dflt)"

definition required_request ::
  "host \<Rightarrow> dict \<Rightarrow> uuid \<Rightarrow> uuid \<Rightarrow> uuid \<Rightarrow> uuid option \<Rightarrow> int \<Rightarrow> dict \<Rightarrow> permission_request res" where
  "required_request h data pid tid rid step_id created_at checkpoint =
     (let f = (\<lambda>k. dget data k JNull); t = (\<lambda>k d. text_of h (dget data k (JStr d))) in
      rbind (dict_of (f ''scope'') [(''type'', JStr ''once'')]) (\<lambda>scope.
      rbind (dict_of (f ''arguments_summary'') []) (\<lambda>arguments.
      rbind (texts_of (f ''allowed_decisions'') [''allow_once'', ''deny'']) (\<lambda>allowed.
      rbind (if truthy (f ''tool_call_id'') then rbind (uuid_of h (f ''tool_call_id'')) (\<lambda>u. Inr (Some u))
             else Inr None) (\<lambda>tool_call_id.
      rbind (ditem data ''expires_at'') (\<lambda>expires.
      rbind (parse_timestamp (py_str (h_repr h) expires)) (\<lambda>deadline.
      Inr \<lparr>pr_id = pid, pr_task_id = tid, pr_run_id = rid, pr_tool_name = t ''tool_name'' ''unknown'',
           pr_action_summary = t ''action_summary'' ''user confirmation needed'',
           pr_risk_level = t ''risk_level'' ''L3'', pr_scope = scope, pr_arguments_summary = arguments,
           pr_allowed_decisions = allowed, pr_checkpoint = checkpoint, pr_step_id = step_id,
           pr_tool_call_id = tool_call_id, pr_reason = text_or_null (f ''reason''), pr_status = PermPending,
           pr_decision = None, pr_decided_at = None, pr_note = None, pr_created_at = created_at,
           pr_expires_at = Some deadline\<rparr>)))))))"

definition record_permission_required ::
  "host \<Rightarrow> json \<Rightarrow> uuid \<Rightarrow> uuid \<Rightarrow> uuid option \<Rightarrow> int \<Rightarrow> dict \<Rightarrow> db \<Rightarrow> db res" where
  "record_permission_required h payload tid rid step_id created_at checkpoint db =
     rbind (as_dict payload) (\<lambda>p.
     rbind (as_dict (or_empty (JObj []) (dget p ''request'' JNull))) (\<lambda>data.
     rbind (ditem data ''id'') (\<lambda>raw.
     rbind (uuid_of h raw) (\<lambda>pid.
     if permission_get pid db \<noteq> None then Inr db
     else
       rbind (required_request h data pid tid rid step_id created_at checkpoint) (\<lambda>req.
       rbind (permission_insert req db) (\<lambda>db.
       (let db = (case pr_tool_call_id req of None \<Rightarrow> db
              | Some cid \<Rightarrow> (case tool_call_get cid db of None \<Rightarrow> db
              | Some call \<Rightarrow> tool_call_update
                  (call\<lparr>tc_permission_request_id := Some (pr_id req), tc_permission_status := ''pending''\<rparr>) db));
            db = (case step_id of None \<Rightarrow> db
              | Some sid \<Rightarrow> (case step_get sid db of None \<Rightarrow> db
              | Some step \<Rightarrow> step_update (step\<lparr>st_status := StepWaitingForPermission\<rparr>) db))
        in Inr (audit_create (\<lambda>pk. (new_audit ''permission.required'' ''agent'' tid rid
             [(''request_id'', JId pid), (''tool_name'', JStr (pr_tool_name req))] created_at pk)
             \<lparr>au_step_id := step_id, au_risk_level := Some (pr_risk_level req),
              au_action_summary := pr_action_summary req\<rparr>) db))))))))"

section \<open>Tool calls\<close>

definition result_summary :: "json \<Rightarrow> string option" where
  "result_summary result = (case result of JObj r \<Rightarrow> text_or_null (dget r ''summary'' JNull) | _ \<Rightarrow> None)"

definition optional_uuid :: "host \<Rightarrow> json \<Rightarrow> uuid option res" where
  "optional_uuid h j = (if truthy j then rbind (uuid_of h j) (\<lambda>u. Inr (Some u)) else Inr None)"

definition new_tool_call ::
  "host \<Rightarrow> string \<Rightarrow> dict \<Rightarrow> uuid \<Rightarrow> uuid \<Rightarrow> uuid \<Rightarrow> uuid \<Rightarrow> int \<Rightarrow> tool_call res" where
  "new_tool_call h event_type data cid tid rid sid created_at =
     (let f = (\<lambda>k. dget data k JNull); t = (\<lambda>k d. text_of h (dget data k (JStr d)));
          started = (event_type = ''tool.call.started'')
      in rbind (dict_of (if truthy (f ''arguments'') then f ''arguments'' else f ''arguments_summary'') []) (\<lambda>arguments.
         rbind (dict_of (f ''arguments_summary'') []) (\<lambda>summary.
         rbind (optional_uuid h (f ''permission_request_id'')) (\<lambda>request.
         Inr \<lparr>tc_id = cid, tc_task_id = tid, tc_run_id = rid, tc_step_id = sid, tc_provider = t ''provider'' ''native'',
              tc_tool_name = t ''tool_name'' ''unknown'', tc_risk_level = t ''risk_level'' ''L0'',
              tc_arguments = arguments,
              tc_mcp_server_id = (if truthy (f ''mcp_server_id'') then Some (text_of h (f ''mcp_server_id'')) else None),
              tc_arguments_summary = Some summary, tc_result = f ''result'',
              tc_result_summary = result_summary (f ''result''), tc_permission_request_id = request,
              tc_permission_status = t ''permission_status'' ''not_required'',
              tc_status = (if started then ''running'' else t ''status'' ''failed''),
              tc_error = dict_or_null (f ''error''), tc_started_at = Some created_at,
              tc_completed_at = (if started then None else Some created_at), tc_duration_ms = None\<rparr>))))"

definition finished_tool_call :: "host \<Rightarrow> string \<Rightarrow> dict \<Rightarrow> int \<Rightarrow> tool_call \<Rightarrow> tool_call res" where
  "finished_tool_call h event_type data created_at call =
     (let f = (\<lambda>k. dget data k JNull) in
      rbind (optional_uuid h (f ''permission_request_id'')) (\<lambda>request.
      Inr (call\<lparr>tc_status := (if event_type = ''tool.call.finished'' then ''completed'' else ''failed''),
        tc_permission_request_id := (case request of None \<Rightarrow> tc_permission_request_id call | Some r \<Rightarrow> Some r),
        tc_permission_status := (if truthy (f ''permission_status'') then text_of h (f ''permission_status'')
          else tc_permission_status call),
        tc_result := f ''result'', tc_result_summary := result_summary (f ''result''),
        tc_error := dict_or_null (f ''error''), tc_completed_at := Some created_at,
        tc_duration_ms := (case tc_started_at call of None \<Rightarrow> tc_duration_ms call
          | Some t \<Rightarrow> Some (elapsed_ms t created_at))\<rparr>)))"

text \<open>The tool call an event is about, as it is stored after the event.\<close>

definition tool_call_for_event ::
  "host \<Rightarrow> string \<Rightarrow> dict \<Rightarrow> uuid \<Rightarrow> uuid \<Rightarrow> uuid \<Rightarrow> uuid \<Rightarrow> int \<Rightarrow> tool_call tx" where
  "tool_call_for_event h event_type data cid tid rid sid created_at db =
     (case tool_call_get cid db of
        None \<Rightarrow> rbind (new_tool_call h event_type data cid tid rid sid created_at) (\<lambda>call.
          rbind (tool_call_create call db) (\<lambda>db. Inr (call, db)))
      | Some call \<Rightarrow>
          if event_type = ''tool.call.started'' then Inr (call, db)
          else rbind (finished_tool_call h event_type data created_at call) (\<lambda>call.
            Inr (call, tool_call_update call db)))"

text \<open>A finished call uses up the approval it ran under.\<close>

definition consume_permission :: "tool_call \<Rightarrow> db \<Rightarrow> db" where
  "consume_permission call db =
     (case tc_permission_request_id call of None \<Rightarrow> db
      | Some pid \<Rightarrow> (case permission_get pid db of None \<Rightarrow> db
      | Some req \<Rightarrow>
          if pr_status req = PermApproved then permission_update (req\<lparr>pr_status := PermConsumed\<rparr>) db else db))"

definition finish_tool_step :: "string \<Rightarrow> dict \<Rightarrow> int \<Rightarrow> execution_step \<Rightarrow> execution_step" where
  "finish_tool_step event_type data created_at step =
     step\<lparr>st_status := (if event_type = ''tool.call.finished'' then StepCompleted else StepFailed),
       st_completed_at := Some created_at, st_output_data := dget data ''result'' JNull,
       st_error := dict_or_null (dget data ''error'' JNull)\<rparr>"

definition tool_audit :: "string \<Rightarrow> tool_call \<Rightarrow> uuid \<Rightarrow> uuid \<Rightarrow> uuid \<Rightarrow> int \<Rightarrow> uuid \<Rightarrow> audit_log" where
  "tool_audit event_type call tid rid sid created_at pk =
     (new_audit event_type ''agent'' tid rid
       [(''tool_name'', JStr (tc_tool_name call)), (''provider'', JStr (tc_provider call)),
        (''arguments_summary'', JObj (case tc_arguments_summary call of None \<Rightarrow> [] | Some a \<Rightarrow> a)),
        (''status'', JStr (tc_status call)),
        (''duration_ms'', case tc_duration_ms call of None \<Rightarrow> JNull | Some d \<Rightarrow> JInt d)] created_at pk)
     \<lparr>au_step_id := Some sid, au_tool_call_id := Some (tc_id call), au_risk_level := Some (tc_risk_level call),
      au_action_summary := tc_tool_name call @ '': '' @ event_type, au_result_summary := tc_result_summary call,
      au_error := tc_error call\<rparr>"

definition record_tool_event ::
  "host \<Rightarrow> string \<Rightarrow> json \<Rightarrow> uuid \<Rightarrow> agent_run \<Rightarrow> uuid option \<Rightarrow> int \<Rightarrow> int \<Rightarrow> agent_run tx" where
  "record_tool_event h event_type payload tid run step_id created_at now db =
     rbind (as_dict payload) (\<lambda>p.
     rbind (as_dict (or_empty (JObj []) (dget p ''tool_call'' JNull))) (\<lambda>data.
     (case (truthy (dget data ''id'' JNull), step_id) of
        (True, Some sid) \<Rightarrow>
          rbind (uuid_of h (dget data ''id'' JNull)) (\<lambda>cid.
          rbind (step_for_event h run tid sid ToolCallStep (text_of h (dget data ''tool_name'' (JStr ''Tool call'')))
            [(''tool_call_id'', JId cid)] ''tool_call_id'' (JId cid) created_at now db) (\<lambda>((step, run), db).
          rbind (tool_call_for_event h event_type data cid tid (ar_id run) sid created_at db) (\<lambda>(call, db).
          (let db = (if event_type = ''tool.call.started'' then db
                 else step_update (finish_tool_step event_type data created_at step) (consume_permission call db))
           in Inr (run, audit_create (tool_audit event_type call tid (ar_id run) sid created_at) db)))))
      | _ \<Rightarrow> Inr (run, db))))"

section \<open>Artifacts\<close>

definition artifact_of ::
  "host \<Rightarrow> dict \<Rightarrow> uuid \<Rightarrow> uuid \<Rightarrow> uuid option \<Rightarrow> int \<Rightarrow> artifact res" where
  "artifact_of h data tid rid step_id created_at =
     (let f = (\<lambda>k. dget data k JNull); s = (\<lambda>k. py_str (h_repr h) (f k)) in
      rbind (uuid_of h (f ''id'')) (\<lambda>aid.
      if s ''task_id'' \<noteq> JId tid \<or> s ''run_id'' \<noteq> JId rid then Inl ValueError
      else
        (let metadata = (case f ''metadata'' of JObj m \<Rightarrow> m | _ \<Rightarrow> []);
             purpose = (if f ''purpose'' \<noteq> JNull then f ''purpose''
               else JStr (if dget metadata ''is_final_output'' JNull = JBool True then ''final_response'' else ''deliverable''));
             producer = (if f ''producer'' = JNull then JObj [(''type'', JStr ''runtime'')] else f ''producer'')
         in rbind (need_in purpose [''final_response'', ''deliverable'']) (\<lambda>_.
            rbind (need (is_dict producer)) (\<lambda>_.
            (let ty = dget (entries_of producer) ''type'' JNull;
                 call = dget (entries_of producer) ''tool_call_id'' JNull
             in rbind (need_in ty [''runtime'', ''tool'']) (\<lambda>_.
                if ty = JStr ''runtime'' \<and> call \<noteq> JNull then Inl ValueError
                else if ty = JStr ''tool'' \<and> call = JNull then Inl ValueError
                else
                  rbind (if call = JNull then Inr None else rbind (uuid_of h call) (\<lambda>u. Inr (Some u))) (\<lambda>source.
                  Inr \<lparr>af_id = aid, af_task_id = tid, af_run_id = rid,
                       af_kind = text_of h (dget data ''kind'' (JStr ''text'')),
                       af_title = text_of h (dget data ''title'' (JStr ''artifact'')),
                       af_purpose = text_of h purpose, af_producer_type = text_of h ty,
                       af_source_tool_call_id = source, af_step_id = step_id,
                       af_content = (if is_str (f ''content'') then Some (f ''content'') else None),
                       af_file_path = text_or_null (f ''file_path''),
                       af_file_size_bytes = (if is_int (f ''file_size_bytes'') then Some (int_of (f ''file_size_bytes'')) else None),
                       af_mime_type = text_or_null (f ''mime_type''),
                       af_content_hash = text_or_null (f ''content_hash''), af_metadata = metadata,
                       af_created_at = created_at\<rparr>))))))))"

definition record_artifact ::
  "host \<Rightarrow> json \<Rightarrow> uuid \<Rightarrow> agent_run \<Rightarrow> uuid option \<Rightarrow> int \<Rightarrow> int \<Rightarrow> agent_run tx" where
  "record_artifact h payload tid run step_id created_at now db =
     rbind (as_dict payload) (\<lambda>p.
     (case dget p ''artifact'' JNull of
        JObj data \<Rightarrow>
          rbind (artifact_of h data tid (ar_id run) step_id created_at) (\<lambda>a.
          rbind (artifact_create a db) (\<lambda>db.
          if af_purpose a = ''final_response''
          then transition run (ar_status run) [SetFinalOutput (Some (af_id a))] now db
          else Inr (run, db)))
      | _ \<Rightarrow> Inl ValueError))"

section \<open>The end of a run\<close>

definition cancel_step :: "int \<Rightarrow> execution_step \<Rightarrow> execution_step" where
  "cancel_step now s = s\<lparr>st_status := StepCancelled, st_summary := Some ''run cancelled'', st_completed_at := Some now,
     st_duration_ms := (case st_started_at s of None \<Rightarrow> st_duration_ms s | Some t \<Rightarrow> Some (elapsed_ms t now))\<rparr>"

definition cancel_tool_call :: "int \<Rightarrow> tool_call \<Rightarrow> tool_call" where
  "cancel_tool_call now c = c\<lparr>tc_status := ''cancelled'',
     tc_error := Some (run_error ''RUN_CANCELLED'' ''run cancelled''), tc_completed_at := Some now,
     tc_duration_ms := (case tc_started_at c of None \<Rightarrow> tc_duration_ms c | Some t \<Rightarrow> Some (elapsed_ms t now))\<rparr>"

definition cancel_open_children :: "uuid \<Rightarrow> int \<Rightarrow> db \<Rightarrow> db" where
  "cancel_open_children rid now db =
     (let db = fold step_update (map (cancel_step now) (filter step_open (steps_by_run rid db))) db in
      fold tool_call_update (map (cancel_tool_call now) (filter tool_call_open (tool_calls_by_run rid db))) db)"

definition memory_job_for :: "task \<Rightarrow> uuid \<Rightarrow> int \<Rightarrow> memory_job" where
  "memory_job_for task rid created_at =
     \<lparr>mj_id = Uuid5 [PLit ''jarvis:memory-extraction:'', PUuid rid, PLit '':'', PLit MEMORY_EXTRACTION_POLICY_VERSION],
      mj_source_task_id = tk_id task, mj_source_run_id = rid, mj_policy_version = MEMORY_EXTRACTION_POLICY_VERSION,
      mj_status = MjQueued, mj_attempts = 0, mj_next_retry_at = None, mj_error_code = None,
      mj_created_at = created_at, mj_updated_at = created_at\<rparr>"

definition record_output :: "host \<Rightarrow> json \<Rightarrow> uuid \<Rightarrow> task \<Rightarrow> int \<Rightarrow> db \<Rightarrow> db res" where
  "record_output h output rid task created_at db =
     (if \<not> is_str output \<or> \<not> truthy (strip_str output) then Inr db
      else
        (let db = message_create \<lparr>mg_id = fresh db, mg_conversation_id = tk_conversation_id task,
               mg_role = ''assistant'', mg_content = output, mg_task_id = Some (tk_id task), mg_run_id = Some rid,
               mg_created_at = created_at\<rparr> (bump db)
         in if h_memory_extraction h \<and> tk_scheduled_execution_id task = None \<and>
               memory_job_by_policy rid MEMORY_EXTRACTION_POLICY_VERSION db = None
            then memory_job_create (memory_job_for task rid created_at) db
            else Inr db))"

definition project_completed :: "host \<Rightarrow> json \<Rightarrow> agent_run \<Rightarrow> task \<Rightarrow> int \<Rightarrow> int \<Rightarrow> db \<Rightarrow> db res" where
  "project_completed h payload run task created_at now db =
     rbind (transition run Completed [SetCompletedAt created_at, SetLeaseUntil None, SetCheckpoint []] now
       (expire_pending_permissions (ar_id run) created_at ''run_completed'' db)) (\<lambda>(_, db).
     (let db = task_update (task\<lparr>tk_status := TaskCompleted, tk_completed_at := Some created_at,
            tk_updated_at := created_at\<rparr>) db
      in rbind (as_dict payload) (\<lambda>p. record_output h (dget p ''output'' JNull) (ar_id run) task created_at db)))"

text \<open>The error a failed run keeps: of a stalled navigation only the sanitized report.\<close>

definition failure_error :: "json \<Rightarrow> dict res" where
  "failure_error raw =
     (let error = entries_of raw in
      if dget error ''code'' JNull \<noteq> JStr ''SOURCE_CHAIN_NAVIGATION_STALLED'' then Inr error
      else
        (let details = entries_of (dget error ''details'' JNull) in
         rbind (sanitize_source_navigation (dget details ''source_navigation'' JNull)) (\<lambda>navigation.
         (let error = filter (\<lambda>(k, _). k \<noteq> ''details'') error in
          Inr (case navigation of None \<Rightarrow> error
               | Some n \<Rightarrow> error @ [(''details'', JObj [(''source_navigation'', JObj n)])])))))"

definition retry_checkpoint_of :: "agent_run \<Rightarrow> dict \<Rightarrow> dict res" where
  "retry_checkpoint_of run error =
     (if \<not> truthy (dget error ''recoverable'' JNull) then Inr []
      else rbind (is_resumable_run_checkpoint (ar_checkpoint run)) (\<lambda>resumable.
           if \<not> resumable then Inr []
           else rbind (in_strs (dget (ar_checkpoint run) ''resume_node'' JNull) [''extract_intent'', ''call_model'']) (\<lambda>b.
                Inr (if b then ar_checkpoint run else []))))"

definition project_failed :: "json \<Rightarrow> agent_run \<Rightarrow> task \<Rightarrow> int \<Rightarrow> int \<Rightarrow> db \<Rightarrow> db res" where
  "project_failed payload run task created_at now db =
     rbind (as_dict payload) (\<lambda>p.
     rbind (failure_error (dget p ''error'' JNull)) (\<lambda>error.
     rbind (retry_checkpoint_of run error) (\<lambda>checkpoint.
     rbind (transition run Failed [SetFailedAt created_at, SetError (Some error), SetLeaseUntil None,
         SetCheckpoint checkpoint] now
       (fail_open_children (ar_id run) error created_at
         (expire_pending_permissions (ar_id run) created_at ''run_failed'' db))) (\<lambda>(_, db).
     Inr (task_update (task\<lparr>tk_status := TaskFailed, tk_updated_at := created_at\<rparr>) db)))))"

text \<open>A run that was not asked to stop passes through the stations of a cancellation at once.\<close>

definition project_cancelled :: "agent_run \<Rightarrow> task \<Rightarrow> int \<Rightarrow> int \<Rightarrow> db \<Rightarrow> db res" where
  "project_cancelled run task created_at now db =
     (let db = cancel_open_children (ar_id run) created_at
            (expire_pending_permissions (ar_id run) created_at ''run_cancelled'' db);
          finish = (\<lambda>(run, db). transition run Cancelled [SetLeaseUntil None, SetCheckpoint []] now db)
      in rbind (if ar_status run = CancelRequested then transition run Cancelling [] now db else Inr (run, db)) (\<lambda>(run, db).
         rbind (if ar_status run = Cancelling then finish (run, db)
                else if ar_status run \<in> {Running, WaitingPermission} then
                  rbind (transition run CancelRequested [] now db) (\<lambda>(run, db).
                  rbind (transition run Cancelling [] now db) finish)
                else Inr (run, db)) (\<lambda>(run, db).
         Inr (task_update (task\<lparr>tk_status := TaskCancelled, tk_cancelled_at := Some created_at,
           tk_updated_at := created_at\<rparr>) db))))"

definition project_paused :: "agent_run \<Rightarrow> task \<Rightarrow> int \<Rightarrow> int \<Rightarrow> db \<Rightarrow> db res" where
  "project_paused run task created_at now db =
     rbind (if ar_status run \<in> {Running, PauseRequested}
            then transition run Paused [SetWorkerId None, SetLeaseUntil None] now db
            else if ar_status run \<in> {CancelRequested, Cancelling, Paused} then Inr (run, db)
            else Inl RuntimeError) (\<lambda>(run, db).
     Inr (audit_create (\<lambda>pk. (new_audit ''run.paused'' ''system'' (tk_id task) (ar_id run)
       [(''resume_node'', dget (ar_checkpoint run) ''resume_node'' (JStr []))] created_at pk)
       \<lparr>au_result_summary := Some ''paused''\<rparr>) db))"

definition project_resumed :: "agent_run \<Rightarrow> task \<Rightarrow> int \<Rightarrow> db \<Rightarrow> db res" where
  "project_resumed run task created_at db =
     (if ar_status run \<in> {CancelRequested, Cancelling} then Inr db
      else if ar_status run \<noteq> Running then Inl RuntimeError
      else Inr (audit_create (\<lambda>pk. (new_audit ''run.resumed'' ''system'' (tk_id task) (ar_id run)
             [(''resume_node'', dget (ar_checkpoint run) ''resume_node'' (JStr []))] created_at pk)
             \<lparr>au_result_summary := Some ''running''\<rparr>)
           (task_update (task\<lparr>tk_status := TaskRunning, tk_updated_at := created_at\<rparr>) db)))"

section \<open>Permission events\<close>

definition project_permission_required ::
  "host \<Rightarrow> json \<Rightarrow> agent_run \<Rightarrow> task \<Rightarrow> uuid option \<Rightarrow> int \<Rightarrow> dict \<Rightarrow> int \<Rightarrow> db \<Rightarrow> db res" where
  "project_permission_required h payload run task step_id created_at checkpoint now db =
     rbind (record_permission_required h payload (tk_id task) (ar_id run) step_id created_at checkpoint db) (\<lambda>db.
     rbind (if ar_status run = Running then transition run WaitingPermission [] now db else Inr (run, db)) (\<lambda>(_, db).
     Inr (task_update (task\<lparr>tk_status := TaskWaitingForUser, tk_updated_at := created_at\<rparr>) db)))"

text \<open>The request an event names, when it is pending.\<close>

definition pending_request :: "host \<Rightarrow> json \<Rightarrow> db \<Rightarrow> permission_request option res" where
  "pending_request h request_id db =
     (if \<not> truthy request_id then Inr None
      else rbind (uuid_of h request_id) (\<lambda>pid.
        Inr (case permission_get pid db of None \<Rightarrow> None
             | Some req \<Rightarrow> if pr_status req = PermPending then Some req else None)))"

definition project_permission_resolved ::
  "host \<Rightarrow> json \<Rightarrow> agent_run \<Rightarrow> task \<Rightarrow> int \<Rightarrow> int \<Rightarrow> db \<Rightarrow> db res" where
  "project_permission_resolved h payload run task created_at now db =
     rbind (as_dict payload) (\<lambda>p.
     (let decision = text_of h (dget p ''decision'' (JStr [])); deny = (decision = ''deny'') in
      rbind (pending_request h (dget p ''request_id'' JNull) db) (\<lambda>req.
      (let db = (case req of None \<Rightarrow> db
             | Some req \<Rightarrow> permission_update (req\<lparr>pr_status := (if deny then PermDenied else PermApproved),
                 pr_decision := Some decision, pr_decided_at := Some created_at\<rparr>) db)
       in rbind (if ar_status run = WaitingPermission \<and> \<not> deny then transition run Running [] now db
                 else Inr (run, db)) (\<lambda>(run, db).
          Inr (if ar_status run = Running \<and> \<not> deny
               then task_update (task\<lparr>tk_status := TaskRunning, tk_updated_at := created_at\<rparr>) db
               else db))))))"

definition project_permission_expired ::
  "host \<Rightarrow> json \<Rightarrow> agent_run \<Rightarrow> task \<Rightarrow> uuid option \<Rightarrow> int \<Rightarrow> db \<Rightarrow> db res" where
  "project_permission_expired h payload run task step_id created_at db =
     rbind (as_dict payload) (\<lambda>p.
     rbind (pending_request h (dget p ''request_id'' JNull) db) (\<lambda>req.
     (case req of None \<Rightarrow> Inr db
      | Some req \<Rightarrow>
          (let reason = text_of h (or_empty (JStr ''timeout'') (dget p ''reason'' JNull));
               req = req\<lparr>pr_status := PermExpired, pr_decided_at := Some created_at, pr_note := Some reason\<rparr>;
               db = mark_tool_call_permission_expired req (permission_update req db)
           in Inr (audit_create (expiry_audit req (tk_id task) (ar_id run) step_id reason created_at) db)))))"

section \<open>The projection\<close>

definition project_event ::
  "host \<Rightarrow> string \<Rightarrow> json \<Rightarrow> agent_run \<Rightarrow> task \<Rightarrow> uuid option \<Rightarrow> int \<Rightarrow> dict \<Rightarrow> int \<Rightarrow> db \<Rightarrow> db res" where
  "project_event h event_type payload run task step_id created_at checkpoint now db =
     (let tid = tk_id task; only_db = (\<lambda>m. rbind m (\<lambda>(_, db). Inr db)) in
      if event_type = ''permission.required''
      then project_permission_required h payload run task step_id created_at checkpoint now db
      else if event_type = ''permission.resolved''
      then project_permission_resolved h payload run task created_at now db
      else if event_type = ''permission.expired''
      then project_permission_expired h payload run task step_id created_at db
      else if starts_with ''tool.call.'' event_type
      then only_db (record_tool_event h event_type payload tid run step_id created_at now db)
      else if starts_with ''model.call.'' event_type
      then only_db (record_model_event h event_type payload tid run step_id created_at now db)
      else if event_type = ''artifact.created''
      then only_db (record_artifact h payload tid run step_id created_at now db)
      else if event_type = ''agent.run.completed'' then project_completed h payload run task created_at now db
      else if event_type = ''agent.run.failed'' then project_failed payload run task created_at now db
      else if event_type = ''agent.run.cancelled'' then project_cancelled run task created_at now db
      else if event_type = ''agent.run.paused'' then project_paused run task created_at now db
      else if event_type = ''agent.run.resumed'' then project_resumed run task created_at db
      else Inr db)"

definition apply_projection ::
  "host \<Rightarrow> string \<Rightarrow> json \<Rightarrow> agent_run \<Rightarrow> task \<Rightarrow> uuid option \<Rightarrow> int \<Rightarrow> dict \<Rightarrow> dict \<Rightarrow> int \<Rightarrow> db \<Rightarrow> db res" where
  "apply_projection h event_type payload run task step_id created_at checkpoint run_checkpoint now db =
     rbind (if run_checkpoint = [] then Inr (run, db)
            else transition run (ar_status run) [SetCheckpoint run_checkpoint] now db) (\<lambda>(run, db).
     project_event h event_type payload run task step_id created_at checkpoint now db)"

end
