(* ===== verification/Recording.thy ===== *)
theory Recording
  imports Projection
begin

text \<open>
  \<open>runtime/service.py\<close>, continued: what \<open>record_envelope\<close> does around the projection.  Internal
  checkpoints are stripped, file deliverables of trusted tools are checked and turned into artifacts,
  long texts leave the event, and the event row and its outbox row are written with the projection.
\<close>

section \<open>The public envelope\<close>

text \<open>The envelope rebuilt around an edited event; the internal part is dropped.\<close>

definition with_event :: "event_envelope \<Rightarrow> dict \<Rightarrow> event_envelope" where
  "with_event e raw = e\<lparr>ee_runtime_event := raw, ee_internal := []\<rparr>"

definition without_key :: "string \<Rightarrow> dict \<Rightarrow> dict" where
  "without_key k d = filter (\<lambda>(k', _). k' \<noteq> k) d"

text \<open>\<open>raw["payload"][k] = v\<close> for an event whose payload is a dict.\<close>

definition set_payload :: "string \<Rightarrow> json \<Rightarrow> dict \<Rightarrow> dict" where
  "set_payload k v raw = dset ''payload'' (JObj (dset k v (entries_of (dget raw ''payload'' JNull)))) raw"

text \<open>\<open>(raw.get("payload") or {}).get(k)\<close>\<close>

definition payload_get :: "dict \<Rightarrow> string \<Rightarrow> json res" where
  "payload_get raw k = rbind (as_dict (or_empty (JObj []) (dget raw ''payload'' JNull))) (\<lambda>p. Inr (dget p k JNull))"

definition extract_internal_checkpoints :: "event_envelope \<Rightarrow> (event_envelope \<times> dict \<times> dict) res" where
  "extract_internal_checkpoints e =
     (let raw = ee_runtime_event e in
      rbind (if ee_event_type e \<noteq> JStr ''permission.required'' then Inr (raw, [])
             else
               rbind (payload_get raw ''request'') (\<lambda>request.
               if \<not> truthy request then Inr (raw, [])
               else rbind (as_dict request) (\<lambda>request.
                    Inr (set_payload ''request'' (JObj (without_key ''_internal_checkpoint'' request)) raw,
                         entries_of (dget request ''_internal_checkpoint'' JNull))))) (\<lambda>(raw, checkpoint).
      (let run_checkpoint = entries_of (dget (ee_internal e) ''run_checkpoint'' (JObj [])) in
       rbind (if run_checkpoint = [] then Inr () else validate_run_checkpoint run_checkpoint) (\<lambda>_.
       Inr (with_event e raw, checkpoint, run_checkpoint)))))"

definition project_permission_expiry :: "host \<Rightarrow> event_envelope \<Rightarrow> int \<Rightarrow> event_envelope res" where
  "project_permission_expiry h e created_at =
     (if ee_event_type e \<noteq> JStr ''permission.required'' then Inr e
      else
        rbind (payload_get (ee_runtime_event e) ''request'') (\<lambda>request.
        rbind (need (is_dict request)) (\<lambda>_.
        rbind (permission_request_deadline (h_ttl_env h) None created_at) (\<lambda>deadline.
        Inr (with_event e (set_payload ''request''
          (JObj (dset ''expires_at'' (JTime deadline) (entries_of request))) (ee_runtime_event e)))))))"

section \<open>File deliverables\<close>

record deliverable =
  dv_id :: uuid
  dv_tool_call_id :: uuid
  dv_title :: string
  dv_path :: string
  dv_size_bytes :: int
  dv_mime_type :: string
  dv_content_hash :: string
  dv_storage :: string
  dv_metadata :: dict

text \<open>A canonical path relative to the workspace: \<open>str(PurePosixPath(path)) == path\<close>, no \<open>..\<close>.\<close>

definition canonical_relative :: "string \<Rightarrow> bool" where
  "canonical_relative path \<longleftrightarrow> \<not> path_absolute path \<and>
     (if path_parts path = [] then ''.'' else join_with ''/'' (path_parts path)) = path \<and>
     list_all (\<lambda>p. p \<notin> {[], ''.'', ''..''}) (path_parts path)"

definition hex_char :: "char \<Rightarrow> bool" where
  "hex_char c \<longleftrightarrow> c \<in> set ''0123456789abcdef''"

definition is_local_artifact_path :: "host \<Rightarrow> string \<Rightarrow> string \<Rightarrow> uuid \<Rightarrow> string \<Rightarrow> bool" where
  "is_local_artifact_path h path run_id aid suffix =
     (let parts = path_parts path; name = h_uuid_text h aid; file = name @ suffix in
      if parts = [take 2 name, file] then True
      else if length parts \<noteq> 5 \<or> parts ! 0 \<noteq> ''scoped'' then False
      else
        (let bucket = parts ! 1;
             valid = (if starts_with ''id-'' bucket then h_is_uuid_text h (drop 3 bucket)
               else bucket = ''unscoped'' \<or>
                 starts_with ''path-'' bucket \<and> length bucket = 37 \<and> list_all hex_char (drop 5 bucket))
         in valid \<and> parts ! 2 = run_id \<and> parts ! 3 = take 2 name \<and> parts ! 4 = file))"

definition file_tools :: "string list" where
  "file_tools = [''workspace.create_file'', ''literature.download_arxiv_pdf'']"

text \<open>The checks on one candidate against the trusted result data.\<close>

definition candidate_ok :: "host \<Rightarrow> dict \<Rightarrow> json \<Rightarrow> bool" where
  "candidate_ok h data candidate \<longleftrightarrow>
     (let f = (\<lambda>k. dget (entries_of candidate) k JNull);
          path = f ''path''; size = f ''size_bytes''; mime = f ''mime_type''; hash = f ''content_hash''
      in is_dict candidate \<and> f ''kind'' = JStr ''file'' \<and>
         is_str path \<and> truthy path \<and> str_len path \<le> 4096 \<and> canonical_relative (text_of h path) \<and>
         is_int size \<and> \<not> is_bool size \<and> 0 \<le> int_of size \<and> int_of size \<le> 100 * 1024 * 1024 \<and>
         is_str mime \<and> truthy mime \<and> str_len mime \<le> 100 \<and>
         is_str hash \<and> str_len hash = 64 \<and> list_all hex_char (text_of h hash) \<and>
         dget data ''path'' JNull = path \<and> eq_int (dget data ''size_bytes'' JNull) (int_of size) \<and>
         dget data ''sha256'' JNull = hash)"

definition arxiv_source_ok :: "host \<Rightarrow> dict \<Rightarrow> string \<Rightarrow> json \<Rightarrow> string \<Rightarrow> uuid \<Rightarrow> bool" where
  "arxiv_source_ok h data path mime run_id aid \<longleftrightarrow>
     (let url = dget data ''source_url'' JNull; parsed = h_urlparse h (text_of h url) in
      is_local_artifact_path h path run_id aid ''.pdf'' \<and> mime = JStr ''application/pdf'' \<and> is_str url \<and>
      fst parsed = ''https'' \<and> py_lower (snd parsed) \<in> {''arxiv.org'', ''www.arxiv.org'', ''export.arxiv.org''} \<and>
      is_str (dget data ''arxiv_id'' JNull))"

definition prepare_deliverable ::
  "host \<Rightarrow> json \<Rightarrow> uuid \<Rightarrow> string \<Rightarrow> dict \<Rightarrow> int \<Rightarrow> json \<Rightarrow> deliverable res" where
  "prepare_deliverable h run_id tool_call_id tool data index candidate =
     (let f = (\<lambda>k. dget (entries_of candidate) k JNull); path = text_of h (f ''path''); title = f ''title'';
          head = [PLit ''jarvis:artifact:'', (case run_id of JId u \<Rightarrow> PUuid u | j \<Rightarrow> PLit (text_of h j)), PLit '':'',
                  PUuid tool_call_id, PLit '':'', PInt index, PLit '':''];
          workspace = (tool = ''workspace.create_file'');
          aid = Uuid5 (head @ [PLit (if workspace then path else ''literature-pdf'')])
      in rbind (need (candidate_ok h data candidate)) (\<lambda>_.
         rbind (need (workspace \<or> arxiv_source_ok h data path (f ''mime_type'') (text_of h run_id) aid)) (\<lambda>_.
         Inr \<lparr>dv_id = aid, dv_tool_call_id = tool_call_id,
              dv_title = take 500 (if is_str title \<and> truthy (strip_str title) then text_of h title else path_name path),
              dv_path = path, dv_size_bytes = int_of (f ''size_bytes''), dv_mime_type = text_of h (f ''mime_type''),
              dv_content_hash = text_of h (f ''content_hash''),
              dv_storage = (if workspace then ''workspace'' else ''local_file''),
              dv_metadata = (if workspace then []
                else [(''source'', JStr ''arxiv''), (''arxiv_id'', dget data ''arxiv_id'' JNull),
                      (''source_url'', dget data ''source_url'' JNull)])\<rparr>)))"

text \<open>\<open>_prepare_tool_deliverables\<close>: exactly one candidate of a tool that may produce files.\<close>

definition trusted_result :: "string \<Rightarrow> dict \<Rightarrow> bool" where
  "trusted_result tool data \<longleftrightarrow>
     (tool = ''workspace.create_file'' \<longrightarrow> dget data ''created'' JNull = JBool True) \<and>
     (tool = ''literature.download_arxiv_pdf'' \<longrightarrow>
        dget data ''downloaded'' JNull = JBool True \<and> dget data ''source'' JNull = JStr ''arxiv'')"

text \<open>The deliverables of a call whose result lists candidates.\<close>

definition call_deliverables :: "host \<Rightarrow> json \<Rightarrow> dict \<Rightarrow> dict \<Rightarrow> deliverable list res" where
  "call_deliverables h run_id call result =
     (let candidates = dget result ''deliverables'' JNull; name = dget call ''tool_name'' JNull; tool = text_of h name;
          data = entries_of (dget result ''data'' JNull)
      in rbind (need_in name file_tools) (\<lambda>_.
         rbind (need (dget result ''kind'' JNull = JStr ''file'' \<and> is_list candidates \<and>
           length (items_of candidates) = 1 \<and> is_dict (dget result ''data'' JNull))) (\<lambda>_.
         rbind (need (trusted_result tool data)) (\<lambda>_.
         rbind (uuid_of h (dget call ''id'' JNull)) (\<lambda>cid.
         mapR (\<lambda>(i, c). prepare_deliverable h run_id cid tool data (int i) c) (enumerate 0 (items_of candidates)))))))"

definition prepare_tool_deliverables :: "host \<Rightarrow> event_envelope \<Rightarrow> (event_envelope \<times> deliverable list) res" where
  "prepare_tool_deliverables h e =
     (if ee_event_type e \<noteq> JStr ''tool.call.finished'' then Inr (e, [])
      else
        rbind (payload_get (ee_runtime_event e) ''tool_call'') (\<lambda>tool_call.
        rbind (need (is_dict tool_call)) (\<lambda>_.
        (let call = entries_of tool_call; result = dget call ''result'' JNull in
         rbind (need (is_dict result)) (\<lambda>_.
         if dget (entries_of result) ''deliverables'' JNull = JNull then Inr (e, [])
         else
           rbind (call_deliverables h (ee_run_id e) call (entries_of result)) (\<lambda>prepared.
           (let result = dset ''artifact_ids'' (JList (map (\<lambda>d. JId (dv_id d)) prepared)) (entries_of result);
                call = dset ''result'' (JObj result) call
            in Inr (with_event e (set_payload ''tool_call'' (JObj call) (ee_runtime_event e)), prepared))))))))"

definition deliverable_artifact :: "deliverable \<Rightarrow> uuid \<Rightarrow> uuid \<Rightarrow> uuid option \<Rightarrow> int \<Rightarrow> artifact" where
  "deliverable_artifact d tid rid step_id created_at =
     (let workspace = (dv_storage d = ''workspace'') in
      \<lparr>af_id = dv_id d, af_task_id = tid, af_run_id = rid, af_kind = ''file'', af_title = dv_title d,
       af_purpose = ''deliverable'', af_producer_type = ''tool'', af_source_tool_call_id = Some (dv_tool_call_id d),
       af_step_id = step_id, af_content = None, af_file_path = (if workspace then None else Some (dv_path d)),
       af_file_size_bytes = Some (dv_size_bytes d), af_mime_type = Some (dv_mime_type d),
       af_content_hash = Some (dv_content_hash d),
       af_metadata = (if workspace
         then [(''storage'', JStr ''workspace''), (''workspace_relative_path'', JStr (dv_path d))]
         else dupdate [(''storage'', JStr ''local_file'')] (dv_metadata d)),
       af_created_at = created_at\<rparr>)"

text \<open>The event an artifact is announced with.\<close>

definition artifact_payload :: "artifact \<Rightarrow> uuid \<Rightarrow> dict" where
  "artifact_payload a cid =
     [(''id'', JId (af_id a)), (''task_id'', JId (af_task_id a)), (''run_id'', JId (af_run_id a)),
      (''kind'', JStr ''file''), (''title'', JStr (af_title a)), (''purpose'', JStr ''deliverable''),
      (''producer'', JObj [(''type'', JStr ''tool''), (''tool_call_id'', JId cid)]),
      (''file_size_bytes'', case af_file_size_bytes a of None \<Rightarrow> JNull | Some n \<Rightarrow> JInt n),
      (''mime_type'', case af_mime_type a of None \<Rightarrow> JNull | Some t \<Rightarrow> JStr t),
      (''content_hash'', case af_content_hash a of None \<Rightarrow> JNull | Some t \<Rightarrow> JStr t),
      (''metadata'', JObj (af_metadata a)), (''created_at'', JTime (af_created_at a))]"

definition build_deliverable_records ::
  "event_envelope \<Rightarrow> uuid \<Rightarrow> uuid \<Rightarrow> uuid option \<Rightarrow> uuid \<Rightarrow> int \<Rightarrow> int \<Rightarrow> clock \<Rightarrow> nat \<times> deliverable \<Rightarrow>
   (runtime_event \<times> (uuid \<Rightarrow> outbox_event)) tx" where
  "build_deliverable_records source tid rid step_id trace start_sequence created_at clk item db =
     (let (i, d) = item; moment = created_at + int i + 1; a = deliverable_artifact d tid rid step_id moment;
          eid = Uuid5 [PLit ''jarvis:event:artifact.created:'', PUuid (dv_id d)];
          payload = [(''artifact'', JObj (artifact_payload a (dv_tool_call_id d)))];
          raw = [(''id'', JId eid), (''type'', JStr ''artifact.created''), (''task_id'', JId tid), (''run_id'', JId rid),
            (''timestamp'', JTime moment), (''payload'', JObj payload)] @
            (case step_id of None \<Rightarrow> [] | Some s \<Rightarrow> [(''step_id'', JId s)]);
          envelope = source\<lparr>ee_event_id := JId eid, ee_trace_id := JId trace, ee_task_id := JId tid,
            ee_run_id := JId rid, ee_event_type := JStr ''artifact.created'', ee_runtime_event := raw, ee_internal := []\<rparr>
      in if dv_storage d \<notin> {''workspace'', ''local_file''} then Inl ValueError
         else
           rbind (artifact_create a db) (\<lambda>db.
           rbind (envelope_validate envelope) (\<lambda>_.
           Inr (((new_runtime_event eid eid tid rid ''artifact.created'' (start_sequence + int i) payload moment)
                  \<lparr>ev_step_id := step_id\<rparr>,
                new_outbox_event eid rid ''artifact.created'' (envelope_payload envelope) trace None None moment (clk 2)), db))))"

section \<open>Long texts\<close>

text \<open>\<open>len(text.encode("utf-8"))\<close>: the Latin-1 characters from 128 on take two bytes.\<close>

definition utf8_len :: "json \<Rightarrow> nat" where
  "utf8_len j = (case j of JStr s \<Rightarrow> sum_list (map (\<lambda>c. if (of_char c :: nat) < 128 then 1 else 2) s) | _ \<Rightarrow> str_len j)"

definition artifact_file_type :: "string \<Rightarrow> string \<times> string" where
  "artifact_file_type kind =
     (if kind = ''markdown'' then (''.md'', ''text/markdown; charset=utf-8'')
      else if kind = ''json'' then (''.json'', ''application/json; charset=utf-8'')
      else if kind = ''diff'' then (''.diff'', ''text/x-diff; charset=utf-8'')
      else (''.txt'', ''text/plain; charset=utf-8''))"

definition externalize_large_artifact ::
  "host \<Rightarrow> event_envelope \<Rightarrow> uuid option \<Rightarrow> string \<Rightarrow> event_envelope res" where
  "externalize_large_artifact h e workspace_id workspace_path =
     (if ee_event_type e \<noteq> JStr ''artifact.created'' then Inr e
      else
        rbind (payload_get (ee_runtime_event e) ''artifact'') (\<lambda>raw_artifact.
        (let a = entries_of raw_artifact; content = dget a ''content'' JNull;
             put = (\<lambda>a. with_event e (set_payload ''artifact'' (JObj a) (ee_runtime_event e)));
             metadata = entries_of (dget a ''metadata'' JNull)
         in if \<not> is_dict raw_artifact \<or> \<not> is_str content \<or> utf8_len content \<le> h_inline_max_bytes h then Inr e
            else
              (case h_write_text h of
                 None \<Rightarrow> Inl RuntimeError
               | Some write \<Rightarrow>
                   (let kind = text_of h (or_empty (JStr ''text'') (dget a ''kind'' JNull));
                        (suffix, mime) = artifact_file_type kind
                    in rbind (uuid_of h (dget a ''id'' JNull)) (\<lambda>aid.
                       rbind (to_uuid (ee_run_id e)) (\<lambda>rid.
                       (case write aid content rid workspace_id workspace_path suffix mime of
                          StoreFails err \<Rightarrow> Inl err
                        | CapacityExceeded code \<Rightarrow>
                            Inr (put (dset ''metadata'' (JObj (dset ''capacity_fallback'' (JStr code)
                              (dset ''storage'' (JStr ''inline'') metadata))) a))
                        | Stored f \<Rightarrow>
                            (let a = dset ''content_hash'' (JStr (sf_sha256 f)) (dset ''mime_type'' (JStr (sf_mime_type f))
                                   (dset ''file_size_bytes'' (JInt (sf_size_bytes f))
                                     (dset ''file_path'' (JStr (sf_relative_path f)) (without_key ''content'' a))))
                             in Inr (put (dset ''metadata'' (JObj (dset ''content_encoding'' (JStr ''utf-8'')
                                  (dset ''storage'' (JStr ''local_file'') metadata))) a)))))))))))"

definition bound_large_completed_output :: "host \<Rightarrow> event_envelope \<Rightarrow> uuid option \<Rightarrow> event_envelope res" where
  "bound_large_completed_output h e final_output =
     (let payload = dget (ee_runtime_event e) ''payload'' JNull; p = entries_of payload; out = dget p ''output'' JNull in
      if ee_event_type e \<noteq> JStr ''agent.run.completed'' \<or> \<not> is_dict payload \<or> \<not> is_str out \<or>
         utf8_len out \<le> h_inline_max_bytes h then Inr e
      else (case final_output of None \<Rightarrow> Inl RuntimeError
        | Some aid \<Rightarrow> Inr (with_event e (dset ''payload'' (JObj
            (dset ''final_output_artifact_id'' (JId aid) (dset ''output_externalized'' (JBool True)
              (without_key ''output'' p)))) (ee_runtime_event e)))))"

section \<open>record_envelope\<close>

definition is_durable :: "json \<Rightarrow> bool res" where
  "is_durable event_type = in_strs event_type DURABLE_EVENT_TYPES"

text \<open>What the envelope is turned into before the database is touched.\<close>

record prepared =
  pp_envelope :: event_envelope
  pp_checkpoint :: dict
  pp_run_checkpoint :: dict
  pp_deliverables :: "deliverable list"
  pp_event_id :: uuid
  pp_task_id :: uuid
  pp_run_id :: uuid
  pp_trace_id :: uuid
  pp_step_id :: "uuid option"
  pp_created_at :: int

definition prepare_envelope :: "host \<Rightarrow> event_envelope \<Rightarrow> prepared res" where
  "prepare_envelope h e =
     rbind (envelope_validate e) (\<lambda>_.
     rbind (extract_internal_checkpoints e) (\<lambda>(public, checkpoint, run_checkpoint).
     rbind (prepare_tool_deliverables h public) (\<lambda>(public, deliverables).
     rbind (envelope_validate public) (\<lambda>_.
     rbind (to_uuid (ee_event_id e)) (\<lambda>eid.
     rbind (to_uuid (ee_task_id e)) (\<lambda>tid.
     rbind (to_uuid (ee_run_id e)) (\<lambda>rid.
     rbind (to_uuid (ee_trace_id e)) (\<lambda>trace.
     (let step = dget (ee_runtime_event public) ''step_id'' JNull in
      rbind (if truthy step then rbind (to_uuid step) (\<lambda>u. Inr (Some u)) else Inr None) (\<lambda>step_id.
      rbind (ditem (ee_runtime_event public) ''timestamp'') (\<lambda>stamp.
      rbind (parse_timestamp stamp) (\<lambda>created_at.
      rbind (project_permission_expiry h public created_at) (\<lambda>public.
      Inr \<lparr>pp_envelope = public, pp_checkpoint = checkpoint, pp_run_checkpoint = run_checkpoint,
           pp_deliverables = deliverables, pp_event_id = eid, pp_task_id = tid, pp_run_id = rid,
           pp_trace_id = trace, pp_step_id = step_id, pp_created_at = created_at\<rparr>)))))))))))))"

text \<open>The event row and the outbox row of the envelope itself.\<close>

definition envelope_event :: "prepared \<Rightarrow> event_envelope \<Rightarrow> int \<Rightarrow> runtime_event" where
  "envelope_event p public sequence =
     (new_runtime_event (pp_event_id p) (pp_event_id p) (pp_task_id p) (pp_run_id p)
        (case ee_event_type public of JStr t \<Rightarrow> t | _ \<Rightarrow> []) sequence
        (entries_of (dget (ee_runtime_event public) ''payload'' (JObj []))) (pp_created_at p))
     \<lparr>ev_step_id := pp_step_id p\<rparr>"

definition envelope_outbox :: "prepared \<Rightarrow> event_envelope \<Rightarrow> clock \<Rightarrow> uuid \<Rightarrow> outbox_event" where
  "envelope_outbox p public clk =
     new_outbox_event (pp_event_id p) (pp_run_id p) (case ee_event_type public of JStr t \<Rightarrow> t | _ \<Rightarrow> [])
       (envelope_payload public) (pp_trace_id p) None None (pp_created_at p) (clk 1)"

text \<open>The envelope that is stored and the one that is projected.\<close>

definition bounded_envelopes ::
  "host \<Rightarrow> event_envelope \<Rightarrow> agent_run \<Rightarrow> task \<Rightarrow> (event_envelope \<times> event_envelope) res" where
  "bounded_envelopes h public run task =
     rbind (externalize_large_artifact h public (tk_workspace_id task)
       (case tk_workspace_path task of None \<Rightarrow> [] | Some path \<Rightarrow> path)) (\<lambda>external.
     rbind (bound_large_completed_output h external (ar_final_output_artifact_id run)) (\<lambda>stored.
     Inr (stored, if ee_event_type public = JStr ''artifact.created'' then external else public)))"

fun deliverable_records ::
  "event_envelope \<Rightarrow> prepared \<Rightarrow> int \<Rightarrow> clock \<Rightarrow> (nat \<times> deliverable) list \<Rightarrow>
   (runtime_event \<times> (uuid \<Rightarrow> outbox_event)) list tx" where
  "deliverable_records source p start clk [] db = Inr ([], db)"
| "deliverable_records source p start clk (item # items) db =
     rbind (build_deliverable_records source (pp_task_id p) (pp_run_id p) (pp_step_id p) (pp_trace_id p) start
       (pp_created_at p) clk item db) (\<lambda>(row, db).
     rbind (deliverable_records source p start clk items db) (\<lambda>(rows, db).
     Inr (row # rows, db)))"

definition record_first_seen :: "host \<Rightarrow> prepared \<Rightarrow> clock \<Rightarrow> db \<Rightarrow> db res" where
  "record_first_seen h p clk db =
     (let sequence = get_next_sequence (pp_run_id p) db in
      case (run_get (pp_run_id p) db, task_get (pp_task_id p) db) of
        (Some run, Some task) \<Rightarrow>
          rbind (bounded_envelopes h (pp_envelope p) run task) (\<lambda>(stored, projected).
          rbind (apply_projection h (case ee_event_type projected of JStr t \<Rightarrow> t | _ \<Rightarrow> [])
            (dget (ee_runtime_event projected) ''payload'' (JObj [])) run task (pp_step_id p) (pp_created_at p)
            (pp_checkpoint p) (pp_run_checkpoint p) (clk 0) db) (\<lambda>db.
          rbind (deliverable_records stored p (sequence + 1) clk (enumerate 0 (pp_deliverables p)) db) (\<lambda>(rows, db).
          rbind (events_append (envelope_event p stored sequence # map fst rows) db) (\<lambda>db.
          foldR outbox_create (envelope_outbox p stored clk # map snd rows) db))))
      | _ \<Rightarrow> Inl ValueError)"

definition record_envelope :: "host \<Rightarrow> event_envelope \<Rightarrow> clock \<Rightarrow> bool tx" where
  "record_envelope h e clk db =
     rbind (is_durable (ee_event_type e)) (\<lambda>durable.
     if \<not> durable then Inr (False, db)
     else
       rbind (prepare_envelope h e) (\<lambda>p.
       (let key = (''runtime-event'', ee_event_id e); (first_seen, db) = inbox_try_insert key db in
        if \<not> first_seen then Inr (False, db)
        else rbind (record_first_seen h p clk db) (\<lambda>db. Inr (True, inbox_mark_processed key (clk 3) db)))))"

end
