(* ===== verification/Children.thy ===== *)
theory Children
  imports RunService
begin

text \<open>
  Closing the children of a run: the fold of updates by which the services fail or cancel every open
  step and tool call of a run leaves none of them open.
\<close>

lemma merge_step_keeps [simp]: "st_id (merge_step s x) = st_id x" "st_run_id (merge_step s x) = st_run_id x"
  "st_status (merge_step s x) = st_status s"
  by (simp_all add: merge_step_def)

lemma merge_tool_call_keeps [simp]: "tc_id (merge_tool_call c x) = tc_id x"
  "tc_run_id (merge_tool_call c x) = tc_run_id x" "tc_status (merge_tool_call c x) = tc_status c"
  by (simp_all add: merge_tool_call_def)

section \<open>Folds of updates\<close>

text \<open>
  A fold of updates leaves the rows whose key is not among the updated ones, and gives the others
  the status of some update.
\<close>

lemma fold_row_update:
  assumes "\<And>s y. key (m s y) = key y" "\<And>s y. stat (m s y) = stat s"
  shows "x \<in> set (fold (\<lambda>s. row_update (\<lambda>y. key y = key s) (m s)) ss rows) \<Longrightarrow>
     (x \<in> set rows \<and> key x \<notin> key ` set ss) \<or> (\<exists>s \<in> set ss. key x = key s \<and> stat x = stat s)"
proof (induction ss arbitrary: rows)
  case (Cons s ss)
  from Cons.IH [of "row_update (\<lambda>y. key y = key s) (m s) rows"] Cons.prems
  consider "x \<in> set (row_update (\<lambda>y. key y = key s) (m s) rows)" "key x \<notin> key ` set ss"
    | "\<exists>t \<in> set ss. key x = key t \<and> stat x = stat t" by auto
  then show ?case
  proof cases
    case 1
    then obtain y where y: "y \<in> set rows" "x = (if key y = key s then m s y else y)"
      unfolding set_row_update by blast
    then show ?thesis using 1(2) assms by (cases "key y = key s") auto
  qed auto
qed simp

lemma fold_step_update: "db_steps (fold step_update ss db) =
    fold (\<lambda>s. row_update (\<lambda>y. st_id y = st_id s) (merge_step s)) ss (db_steps db)"
  by (induction ss arbitrary: db) (simp_all add: step_update_def)

lemma fold_tool_call_update: "db_tool_calls (fold tool_call_update cs db) =
    fold (\<lambda>c. row_update (\<lambda>y. tc_id y = tc_id c) (merge_tool_call c)) cs (db_tool_calls db)"
  by (induction cs arbitrary: db) (simp_all add: tool_call_update_def)

definition children_closed :: "uuid \<Rightarrow> db \<Rightarrow> bool" where
  "children_closed rid db \<longleftrightarrow>
     (\<forall>s \<in> set (db_steps db). st_run_id s = rid \<longrightarrow> \<not> step_open s) \<and>
     (\<forall>c \<in> set (db_tool_calls db). tc_run_id c = rid \<longrightarrow> \<not> tool_call_open c)"

lemma fold_frames:
  "db_tool_calls (fold step_update ss db) = db_tool_calls db"
  "db_steps (fold tool_call_update cs db) = db_steps db"
  by (rule fold_frame; simp)+

lemma children_closed_same:
  "db_steps db' = db_steps db \<Longrightarrow> db_tool_calls db' = db_tool_calls db \<Longrightarrow> children_closed rid db' = children_closed rid db"
  by (simp add: children_closed_def)

section \<open>Closing\<close>

text \<open>Each open step is replaced by a closed one of the same id, and each open tool call likewise.\<close>

lemma close_children_closed:
  assumes "\<And>s. st_id (f s) = st_id s" "\<And>s. \<not> step_open (f s)"
    and "\<And>c. tc_id (g c) = tc_id c" "\<And>c. \<not> tool_call_open (g c)"
    and db1: "db1 = fold step_update (map f (filter step_open (steps_by_run rid db))) db"
  shows "children_closed rid (fold tool_call_update (map g (filter tool_call_open (tool_calls_by_run rid db1))) db1)"
proof -
  let ?ss = "map f (filter step_open (steps_by_run rid db))"
  let ?cs = "map g (filter tool_call_open (tool_calls_by_run rid db))"
  have cs: "tool_calls_by_run rid db1 = tool_calls_by_run rid db"
    by (simp add: db1 tool_calls_by_run_def fold_frames)
  have calls: "set (tool_calls_by_run rid db) = {c \<in> set (db_tool_calls db). tc_run_id c = rid}"
    by (auto simp: tool_calls_by_run_def)
  have step_ids: "st_id ` set ?ss = st_id ` {s. (s \<in> set (db_steps db) \<and> st_run_id s = rid) \<and> step_open s}"
    by (simp add: image_image steps_by_run_def assms(1))
  have call_ids: "tc_id ` set ?cs = tc_id ` {c. (c \<in> set (db_tool_calls db) \<and> tc_run_id c = rid) \<and> tool_call_open c}"
    by (simp add: image_image calls assms(3))
  have steps: "\<not> step_open x" if x: "x \<in> set (db_steps db1)" "st_run_id x = rid" for x
  proof
    assume o: "step_open x"
    from fold_row_update [OF merge_step_keeps(1,3) x(1) [unfolded db1 fold_step_update]] show False
    proof
      assume "x \<in> set (db_steps db) \<and> st_id x \<notin> st_id ` set ?ss"
      then show False unfolding step_ids using o x(2) by blast
    next
      assume "\<exists>s \<in> set ?ss. st_id x = st_id s \<and> st_status x = st_status s"
      then obtain s where "st_status x = st_status (f s)" by auto
      then show False using o assms(2) [of s] by (simp add: step_open_def)
    qed
  qed
  have calls: "\<not> tool_call_open x" if x: "x \<in> set (db_tool_calls (fold tool_call_update ?cs db1))"
    "tc_run_id x = rid" for x
  proof
    assume o: "tool_call_open x"
    from fold_row_update [OF merge_tool_call_keeps(1,3) x(1) [unfolded fold_tool_call_update db1 fold_frames]] show False
    proof
      assume "x \<in> set (db_tool_calls db) \<and> tc_id x \<notin> tc_id ` set ?cs"
      then show False unfolding call_ids using o x(2) by blast
    next
      assume "\<exists>c \<in> set ?cs. tc_id x = tc_id c \<and> tc_status x = tc_status c"
      then obtain c where "tc_status x = tc_status (g c)" by auto
      then show False using o assms(4) [of c] by (simp add: tool_call_open_def)
    qed
  qed
  show ?thesis unfolding children_closed_def cs fold_frames(2) using steps calls by blast
qed

lemma fail_open_children_closed: "children_closed rid (fail_open_children rid error now db)"
  unfolding fail_open_children_def Let_def
  by (rule close_children_closed [OF _ _ _ _ refl])
    (simp_all add: fail_step_def fail_tool_call_def step_open_def tool_call_open_def)

section \<open>What closing leaves alone\<close>

lemma fold_updates_frame [simp]:
  "db_next (fold step_update xs db) = db_next db" "db_next (fold tool_call_update ys db) = db_next db"
  "db_tasks (fold step_update xs db) = db_tasks db" "db_tasks (fold tool_call_update ys db) = db_tasks db"
  "db_runs (fold step_update xs db) = db_runs db" "db_runs (fold tool_call_update ys db) = db_runs db"
  "db_events (fold step_update xs db) = db_events db" "db_events (fold tool_call_update ys db) = db_events db"
  "db_permissions (fold step_update xs db) = db_permissions db"
  "db_permissions (fold tool_call_update ys db) = db_permissions db"
  "db_outbox (fold step_update xs db) = db_outbox db" "db_outbox (fold tool_call_update ys db) = db_outbox db"
  "db_inbox (fold step_update xs db) = db_inbox db" "db_inbox (fold tool_call_update ys db) = db_inbox db"
  by (rule fold_frame; simp)+

lemma fail_open_children_frame [simp]:
  "db_tasks (fail_open_children rid e now db) = db_tasks db"
  "db_runs (fail_open_children rid e now db) = db_runs db"
  "db_events (fail_open_children rid e now db) = db_events db"
  "db_permissions (fail_open_children rid e now db) = db_permissions db"
  "db_outbox (fail_open_children rid e now db) = db_outbox db"
  "db_inbox (fail_open_children rid e now db) = db_inbox db"
  by (simp_all add: fail_open_children_def Let_def)

end
