(* ===== verification/ProjectionFacts.thy ===== *)
theory ProjectionFacts
  imports Recording Children
begin

text \<open>
  What the projections of \<open>runtime/service.py\<close> touch: the log tables (events, outbox, inbox) never, the
  runs only through \<open>transition\<close>, and the steps only by numbered inserts and updates in place.
\<close>

section \<open>Frames\<close>

definition logs :: "db \<Rightarrow> runtime_event list \<times> outbox_event list \<times> inbox_event list" where
  "logs db = (db_events db, db_outbox db, db_inbox db)"

lemma artifact_create_frame:
  "artifact_create a db = Inr db' \<Longrightarrow> logs db' = logs db \<and> db_runs db' = db_runs db \<and> db_steps db' = db_steps db \<and>
     db_tasks db' = db_tasks db \<and> db_tool_calls db' = db_tool_calls db \<and> db_permissions db' = db_permissions db"
  by (auto simp: artifact_create_def logs_def split: if_splits)

lemma memory_job_create_frame:
  "memory_job_create j db = Inr db' \<Longrightarrow> logs db' = logs db \<and> db_runs db' = db_runs db \<and> db_steps db' = db_steps db \<and>
     db_tasks db' = db_tasks db \<and> db_tool_calls db' = db_tool_calls db \<and> db_permissions db' = db_permissions db"
  by (auto simp: memory_job_create_def logs_def split: if_splits)

lemma message_create_frame [simp]:
  "logs (message_create m db) = logs db" "db_runs (message_create m db) = db_runs db"
  "db_steps (message_create m db) = db_steps db" "db_tasks (message_create m db) = db_tasks db"
  "db_tool_calls (message_create m db) = db_tool_calls db" "db_permissions (message_create m db) = db_permissions db"
  by (simp_all add: message_create_def logs_def)

lemma logs_frame [simp]:
  "logs (bump db) = logs db" "logs (task_update t db) = logs db" "logs (step_update s db) = logs db"
  "logs (tool_call_update c db) = logs db" "logs (permission_update p db) = logs db"
  "logs (audit_create a db) = logs db" "logs (run_put r db) = logs db"
  "logs (snd (update_with_lock u db)) = logs db"
  "logs (fail_open_children rid e now db) = logs db"
  by (simp_all add: logs_def)

lemma create_frames:
  "step_create s db = Inr db' \<Longrightarrow> logs db' = logs db \<and> db_runs db' = db_runs db \<and> db_tasks db' = db_tasks db"
  "tool_call_create c db = Inr db' \<Longrightarrow> logs db' = logs db \<and> db_runs db' = db_runs db \<and> db_steps db' = db_steps db"
  "permission_insert p db = Inr db' \<Longrightarrow> logs db' = logs db \<and> db_runs db' = db_runs db \<and> db_steps db' = db_steps db"
  by (auto simp: logs_def dest!: step_create_frame tool_call_create_frame permission_insert_frame)

text \<open>Expiring the requests of a run: other tables, and the requests, tool calls and audits.\<close>

lemma mark_tool_call_permission_expired_frame [simp]:
  "logs (mark_tool_call_permission_expired req db) = logs db"
  "db_runs (mark_tool_call_permission_expired req db) = db_runs db"
  "db_steps (mark_tool_call_permission_expired req db) = db_steps db"
  "db_tasks (mark_tool_call_permission_expired req db) = db_tasks db"
  "db_permissions (mark_tool_call_permission_expired req db) = db_permissions db"
  by (simp_all add: mark_tool_call_permission_expired_def split: option.split)

lemma expire_pending_permission_frame [simp]:
  "logs (expire_pending_permission at' reason req db) = logs db"
  "db_runs (expire_pending_permission at' reason req db) = db_runs db"
  "db_steps (expire_pending_permission at' reason req db) = db_steps db"
  "db_tasks (expire_pending_permission at' reason req db) = db_tasks db"
  by (simp_all add: expire_pending_permission_def Let_def)

lemma expire_pending_permissions_frame [simp]:
  "logs (expire_pending_permissions rid at' reason db) = logs db"
  "db_runs (expire_pending_permissions rid at' reason db) = db_runs db"
  "db_steps (expire_pending_permissions rid at' reason db) = db_steps db"
  "db_tasks (expire_pending_permissions rid at' reason db) = db_tasks db"
  unfolding expire_pending_permissions_def by (rule fold_frame; simp)+

lemma cancel_open_children_frame [simp]:
  "logs (cancel_open_children rid now db) = logs db"
  "db_runs (cancel_open_children rid now db) = db_runs db"
  "db_tasks (cancel_open_children rid now db) = db_tasks db"
  "db_permissions (cancel_open_children rid now db) = db_permissions db"
  by (simp_all add: cancel_open_children_def Let_def logs_def)

lemma consume_permission_frame [simp]:
  "logs (consume_permission call db) = logs db"
  "db_runs (consume_permission call db) = db_runs db"
  "db_steps (consume_permission call db) = db_steps db"
  "db_tasks (consume_permission call db) = db_tasks db"
  by (simp_all add: consume_permission_def split: option.split)

lemma record_output_frame:
  "record_output h out rid task now db = Inr db' \<Longrightarrow> logs db' = logs db \<and> db_runs db' = db_runs db \<and>
     db_steps db' = db_steps db \<and> db_tasks db' = db_tasks db \<and> db_tool_calls db' = db_tool_calls db \<and>
     db_permissions db' = db_permissions db"
  by (auto simp: record_output_def Let_def dest!: memory_job_create_frame split: if_splits)

section \<open>The locked update\<close>

definition transition_lock :: "agent_run \<Rightarrow> run_status \<Rightarrow> run_field list \<Rightarrow> int \<Rightarrow> lock_update" where
  "transition_lock run target columns now =
     \<lparr>lu_run_id = ar_id run, lu_new_status = target, lu_expected_version = ar_version run,
      lu_expected_status = Some (ar_status run), lu_fields = columns, lu_now = now\<rparr>"

lemma transition_Inr:
  "transition run target columns now db = Inr (run', db') \<longleftrightarrow>
     update_with_lock (transition_lock run target columns now) db = (True, db') \<and>
     run' = fold apply_field columns (run\<lparr>ar_status := target, ar_version := ar_version run + 1\<rparr>)"
  by (auto simp: transition_def transition_lock_def split: prod.splits if_splits)

lemma update_with_lock_logs: "update_with_lock u db = (b, db') \<Longrightarrow> logs db' = logs db"
  by (metis logs_frame(8) snd_conv)

lemma transition_logs: "transition run t cs now db = Inr (run', db') \<Longrightarrow> logs db' = logs db"
  by (auto simp: transition_Inr dest: update_with_lock_logs)

section \<open>The log tables\<close>

lemma create_execution_step_logs: "create_execution_step run st now db = Inr (x, db') \<Longrightarrow> logs db' = logs db"
  by (auto simp: create_execution_step_def Let_def split: if_splits prod.splits elim!: rbind_InrE
      dest!: transition_logs create_frames)

lemma step_for_event_logs: "step_for_event h run tid sid ty ti md f i c now db = Inr (x, db') \<Longrightarrow> logs db' = logs db"
  by (auto simp: step_for_event_def split: option.splits elim!: rbind_InrE dest: create_execution_step_logs)

lemma record_model_event_logs: "record_model_event h et p tid run sid c now db = Inr (r, db') \<Longrightarrow> logs db' = logs db"
  by (auto simp: record_model_event_def Let_def split: option.splits if_splits prod.splits elim!: rbind_InrE
      dest!: step_for_event_logs)

lemma tool_call_for_event_logs: "tool_call_for_event h et data cid tid rid sid c db = Inr (x, db') \<Longrightarrow> logs db' = logs db"
  by (auto simp: tool_call_for_event_def split: option.splits if_splits elim!: rbind_InrE dest!: create_frames)

lemma record_tool_event_logs: "record_tool_event h et p tid run sid c now db = Inr (r, db') \<Longrightarrow> logs db' = logs db"
  by (auto simp: record_tool_event_def Let_def split: option.splits if_splits prod.splits bool.splits elim!: rbind_InrE
      dest!: step_for_event_logs tool_call_for_event_logs)

lemma record_artifact_logs: "record_artifact h p tid run sid c now db = Inr (r, db') \<Longrightarrow> logs db' = logs db"
  by (auto simp: record_artifact_def split: json.splits if_splits elim!: rbind_InrE
      dest!: artifact_create_frame transition_logs)

lemma record_permission_required_logs:
  "record_permission_required h p tid rid sid c cp db = Inr db' \<Longrightarrow> logs db' = logs db"
  by (auto simp: record_permission_required_def Let_def split: option.splits if_splits elim!: rbind_InrE
      dest!: create_frames)

lemma project_event_logs: "project_event h et p run task sid c cp now db = Inr db' \<Longrightarrow> logs db' = logs db"
  by (auto simp: project_event_def Let_def project_permission_required_def project_permission_resolved_def
      project_permission_expired_def project_completed_def project_failed_def project_cancelled_def
      project_paused_def project_resumed_def split: if_splits option.splits prod.splits elim!: rbind_InrE
      dest!: record_permission_required_logs transition_logs record_tool_event_logs record_model_event_logs
        record_artifact_logs record_output_frame)

lemma apply_projection_logs: "apply_projection h et p run task sid c cp rc now db = Inr db' \<Longrightarrow> logs db' = logs db"
  by (auto simp: apply_projection_def split: if_splits prod.splits elim!: rbind_InrE
      dest!: project_event_logs transition_logs)

section \<open>Step numbers\<close>

text \<open>
  The steps of a run are numbered 0, 1, ... in the order they are listed, and \<open>step_count\<close> is the
  next number.  Only \<open>numbering\<close> of the store matters for it.
\<close>

definition steps_numbered :: "db \<Rightarrow> bool" where
  "steps_numbered db \<longleftrightarrow> (\<forall>rid run. run_get rid db = Some run \<longrightarrow>
     map st_order_index (steps_by_run rid db) = map int [0..<length (steps_by_run rid db)] \<and>
     ar_step_count run = int (length (steps_by_run rid db)))"

definition numbering :: "db \<Rightarrow> (uuid \<times> int) list \<times> (uuid \<Rightarrow> int option)" where
  "numbering db = (map (\<lambda>s. (st_run_id s, st_order_index s)) (db_steps db),
     \<lambda>rid. map_option ar_step_count (run_get rid db))"

lemma map_insort_key: "map f (insort_key f x xs) = insort (f x) (map f xs)"
  by (induction xs) auto

lemma map_sort_key: "map f (sort_key f xs) = sort (map f xs)"
  by (induction xs) (auto simp: map_insort_key)

lemma steps_by_run_order:
  "map st_order_index (steps_by_run rid db) = sort (map snd (filter (\<lambda>p. fst p = rid) (fst (numbering db))))"
proof -
  have "map snd (filter (\<lambda>p. fst p = rid) (map (\<lambda>s. (st_run_id s, st_order_index s)) xs)) =
      map st_order_index (filter (\<lambda>s. st_run_id s = rid) xs)" for xs by (induction xs) auto
  from this [of "db_steps db"] show ?thesis by (simp add: steps_by_run_def map_sort_key numbering_def del: map_map)
qed

lemma steps_by_run_length:
  "length (steps_by_run rid db) = length (filter (\<lambda>p. fst p = rid) (fst (numbering db)))"
  using arg_cong [OF steps_by_run_order, of length rid db] by simp

lemma steps_numbered_iff:
  "steps_numbered db \<longleftrightarrow> (\<forall>rid n. snd (numbering db) rid = Some n \<longrightarrow>
     (let os = map snd (filter (\<lambda>p. fst p = rid) (fst (numbering db)))
      in sort os = map int [0..<length os] \<and> n = int (length os)))"
  unfolding steps_numbered_def steps_by_run_order steps_by_run_length
  by (auto simp: numbering_def Let_def)

lemma steps_numbered_same: "numbering db' = numbering db \<Longrightarrow> steps_numbered db' = steps_numbered db"
  by (simp add: steps_numbered_iff)

lemma numbering_frame: "db_steps db' = db_steps db \<Longrightarrow> db_runs db' = db_runs db \<Longrightarrow> numbering db' = numbering db"
  by (simp add: numbering_def run_get_def)

lemma numbering_step_update [simp]: "numbering (step_update s db) = numbering db"
  by (simp add: numbering_def step_update_def run_get_def row_update_def merge_step_def cong: map_cong if_cong)

lemma numbering_fold_step_update [simp]: "numbering (fold step_update ss db) = numbering db"
  by (induction ss arbitrary: db) simp_all

lemma numbering_simps [simp]:
  "numbering (bump db) = numbering db" "numbering (task_update t db) = numbering db"
  "numbering (tool_call_update c db) = numbering db" "numbering (permission_update p db) = numbering db"
  "numbering (audit_create a db) = numbering db" "numbering (message_create m db) = numbering db"
  "numbering (mark_tool_call_permission_expired req db) = numbering db"
  "numbering (expire_pending_permissions rid now reason db) = numbering db"
  "numbering (consume_permission call db) = numbering db"
  "numbering (fold tool_call_update cs db) = numbering db"
  "numbering (inbox_mark_processed k now db) = numbering db"
  "numbering (snd (inbox_try_insert k db)) = numbering db"
  by (rule numbering_frame; simp add: fold_frames)+

lemma numbering_children [simp]:
  "numbering (fail_open_children rid e now db) = numbering db"
  "numbering (cancel_open_children rid now db) = numbering db"
  by (simp_all add: fail_open_children_def cancel_open_children_def Let_def)

lemma numbering_create:
  "artifact_create a db = Inr db' \<Longrightarrow> numbering db' = numbering db"
  "tool_call_create c db = Inr db' \<Longrightarrow> numbering db' = numbering db"
  "permission_insert p db = Inr db' \<Longrightarrow> numbering db' = numbering db"
  "record_output h out rid task now db = Inr db' \<Longrightarrow> numbering db' = numbering db"
  "events_append es db = Inr db' \<Longrightarrow> numbering db' = numbering db"
  "outbox_create mk db = Inr db' \<Longrightarrow> numbering db' = numbering db"
  by (auto intro!: numbering_frame dest: artifact_create_frame create_frames record_output_frame
      events_append_frame outbox_create_frame)

text \<open>A transition that leaves \<open>step_count\<close> alone.\<close>

fun counts_steps :: "run_field \<Rightarrow> bool" where
  "counts_steps (SetStepCount _) = True"
| "counts_steps _ = False"

lemma apply_field_step_count: "\<not> counts_steps f \<Longrightarrow> ar_step_count (apply_field f r) = ar_step_count r"
  by (cases f) simp_all

lemma fold_apply_field_step_count:
  "\<not> list_ex counts_steps cs \<Longrightarrow> ar_step_count (fold apply_field cs r) = ar_step_count r"
  by (induction cs arbitrary: r) (simp_all add: apply_field_step_count)

lemma transition_numbering:
  assumes "transition run t cs now db = Inr (run', db')" "\<not> list_ex counts_steps cs"
  shows "numbering db' = numbering db"
proof -
  have u: "update_with_lock (transition_lock run t cs now) db = (True, db')"
    using assms(1) by (simp add: transition_Inr)
  have "run_get k db' = (if k = ar_id run then map_option (\<lambda>r. if lock_ok (transition_lock run t cs now) r
      then updated_run (transition_lock run t cs now) r else r) (run_get k db) else run_get k db)" for k
    using run_get_update_with_lock [of k "transition_lock run t cs now" db] u by (simp add: transition_lock_def)
  moreover have "ar_step_count (updated_run (transition_lock run t cs now) r) = ar_step_count r" for r
    using assms(2) by (simp add: updated_run_def transition_lock_def fold_apply_field_step_count)
  moreover have "db_steps db' = db_steps db" using update_with_lock_frame(3) [of "transition_lock run t cs now" db] u by simp
  ultimately show ?thesis by (auto simp: numbering_def fun_eq_iff option.map_comp comp_def if_distrib [of ar_step_count]
      cong: if_cong)
qed

text \<open>A new step takes the next number of its run.\<close>

lemma create_execution_step_numbered:
  assumes "create_execution_step run st now db = Inr ((st', run'), db')" "steps_numbered db" "st_run_id st = ar_id run"
  shows "steps_numbered db'"
proof -
  define cs where "cs = [SetStepCount (ar_step_count run + 1), SetCurrentStep (Some (st_id st))]"
  define u where "u = transition_lock run (ar_status run) cs now"
  let ?n = "length (steps_by_run (ar_id run) db)"
  let ?new = "st\<lparr>st_order_index := ar_step_count run\<rparr>"
  from assms(1) obtain db1 where d: "ar_step_count run = int ?n" "update_with_lock u db = (True, db1)"
    "step_create ?new db1 = Inr db'"
    by (auto simp: create_execution_step_def Let_def transition_Inr u_def cs_def split: if_splits elim!: rbind_InrE)
  have steps: "db_steps db' = db_steps db @ [?new]" "db_runs db' = db_runs db1"
    using d(3) update_with_lock_frame(3) [of u db] d(2) by (auto simp: step_create_def split: if_splits)
  have get: "run_get k db' = (if k = ar_id run then map_option (\<lambda>r. if lock_ok u r then updated_run u r else r)
      (run_get k db) else run_get k db)" for k
    using run_get_update_with_lock [of k u db] d(2) steps(2) by (simp add: u_def transition_lock_def run_get_def)
  obtain r where r: "run_get (ar_id run) db = Some r" "lock_ok u r"
    using d(2) by (auto simp: update_with_lock_True u_def transition_lock_def)
  have count: "snd (numbering db') k = (if k = ar_id run then Some (int ?n + 1) else snd (numbering db) k)" for k
    using r by (simp add: numbering_def get) (simp add: u_def cs_def transition_lock_def updated_run_def d(1))
  let ?os = "\<lambda>db rid. map snd (filter (\<lambda>p. fst p = rid) (fst (numbering db)))"
  have os: "?os db' rid = ?os db rid @ (if rid = ar_id run then [int ?n] else [])" for rid
    using assms(3) by (simp add: numbering_def steps d(1))
  have sort: "sort (xs @ [int n]) = map int [0..<n] @ [int n]" if "sort xs = map int [0..<n]" for xs n
  proof -
    have "set xs = set (map int [0..<n])" using that by (metis set_sort)
    then show ?thesis using sort_key_snoc [of xs "\<lambda>x. x" "int n"] that by auto
  qed
  show ?thesis
    unfolding steps_numbered_iff Let_def
  proof (intro allI impI)
    fix rid m assume m: "snd (numbering db') rid = Some m"
    show "sort (?os db' rid) = map int [0..<length (?os db' rid)] \<and> m = int (length (?os db' rid))"
    proof (cases "rid = ar_id run")
      case True
      have "snd (numbering db) (ar_id run) = Some (ar_step_count r)" using r by (simp add: numbering_def)
      then have o: "sort (?os db (ar_id run)) = map int [0..<length (?os db (ar_id run))]"
        using assms(2) unfolding steps_numbered_iff Let_def by blast
      have n: "length (?os db (ar_id run)) = ?n" by (simp add: steps_by_run_length)
      show ?thesis using sort [OF o [unfolded n]] m True by (simp add: os count n del: length_map)
    next
      case False
      then show ?thesis using assms(2) m unfolding steps_numbered_iff Let_def by (simp add: os count)
    qed
  qed
qed

lemma step_for_event_numbered:
  "step_for_event h run tid sid ty ti md f i c now db = Inr (x, db') \<Longrightarrow> steps_numbered db \<Longrightarrow> steps_numbered db'"
  by (cases x) (auto simp: step_for_event_def started_step_def split: option.splits elim!: rbind_InrE
      elim: create_execution_step_numbered)

text \<open>Every other write keeps \<open>numbering\<close>.\<close>

lemma steps_numbered_simps [simp]:
  "steps_numbered (step_update s db) = steps_numbered db"
  "steps_numbered (task_update t db) = steps_numbered db"
  "steps_numbered (audit_create a db) = steps_numbered db"
  "steps_numbered (permission_update p db) = steps_numbered db"
  "steps_numbered (tool_call_update tc db) = steps_numbered db"
  "steps_numbered (consume_permission tc db) = steps_numbered db"
  "steps_numbered (mark_tool_call_permission_expired req db) = steps_numbered db"
  "steps_numbered (expire_pending_permissions rid now reason db) = steps_numbered db"
  "steps_numbered (fail_open_children rid e now db) = steps_numbered db"
  "steps_numbered (cancel_open_children rid now db) = steps_numbered db"
  "steps_numbered (inbox_mark_processed k now db) = steps_numbered db"
  by (rule steps_numbered_same; simp)+

lemmas numbered_dests = numbering_create [THEN steps_numbered_same] transition_numbering [THEN steps_numbered_same]

lemma record_model_event_numbered:
  "record_model_event h et p tid run sid c now db = Inr (r, db') \<Longrightarrow> steps_numbered db \<Longrightarrow> steps_numbered db'"
  by (auto simp: record_model_event_def Let_def
      split: option.splits if_splits prod.splits elim!: rbind_InrE dest!: step_for_event_numbered)

lemma tool_call_for_event_numbered:
  "tool_call_for_event h et data cid tid rid sid c db = Inr (x, db') \<Longrightarrow> steps_numbered db \<Longrightarrow> steps_numbered db'"
  by (auto simp: tool_call_for_event_def split: option.splits if_splits elim!: rbind_InrE dest!: numbered_dests)

lemma record_tool_event_numbered:
  "record_tool_event h et p tid run sid c now db = Inr (r, db') \<Longrightarrow> steps_numbered db \<Longrightarrow> steps_numbered db'"
  by (auto simp: record_tool_event_def Let_def split: option.splits if_splits prod.splits bool.splits elim!: rbind_InrE
      dest!: step_for_event_numbered tool_call_for_event_numbered)

lemma record_artifact_numbered:
  "record_artifact h p tid run sid c now db = Inr (r, db') \<Longrightarrow> steps_numbered db \<Longrightarrow> steps_numbered db'"
  by (auto simp: record_artifact_def split: json.splits if_splits elim!: rbind_InrE dest!: numbered_dests)

lemma record_permission_required_numbered:
  "record_permission_required h p tid rid sid c cp db = Inr db' \<Longrightarrow> steps_numbered db' = steps_numbered db"
  by (auto simp: record_permission_required_def Let_def split: option.splits if_splits elim!: rbind_InrE
      dest!: numbered_dests)

lemma project_event_numbered:
  "project_event h et p run task sid c cp now db = Inr db' \<Longrightarrow> steps_numbered db \<Longrightarrow> steps_numbered db'"
  by (auto simp: project_event_def Let_def project_permission_required_def project_permission_resolved_def
      project_permission_expired_def project_completed_def project_failed_def project_cancelled_def
      project_paused_def project_resumed_def split: if_splits option.splits prod.splits elim!: rbind_InrE
      dest!: record_permission_required_numbered record_tool_event_numbered record_model_event_numbered
        record_artifact_numbered numbered_dests)

lemma apply_projection_numbered:
  "apply_projection h et p run task sid c cp rc now db = Inr db' \<Longrightarrow> steps_numbered db \<Longrightarrow> steps_numbered db'"
  by (auto simp: apply_projection_def split: if_splits prod.splits elim!: rbind_InrE
      dest!: project_event_numbered numbered_dests)

end
