(* ===== verification/RecordingFacts.thy ===== *)
theory RecordingFacts
  imports ProjectionFacts
begin

text \<open>
  What \<open>record_envelope\<close> of \<open>runtime/service.py\<close> guarantees over any sequence of deliveries: an
  envelope takes effect once however often it is delivered, the event log stays gap-free and
  published, and steps stay numbered.
\<close>

section \<open>The shape of a recording\<close>

text \<open>The domain tables: what the rows of a projection are about.\<close>

definition core :: "db \<Rightarrow> agent_run list \<times> execution_step list \<times> task list \<times> tool_call list \<times> permission_request list" where
  "core db = (db_runs db, db_steps db, db_tasks db, db_tool_calls db, db_permissions db)"

lemma core_create:
  "artifact_create a db = Inr db' \<Longrightarrow> core db' = core db"
  "events_append es db = Inr db' \<Longrightarrow> core db' = core db"
  "outbox_create mk db = Inr db' \<Longrightarrow> core db' = core db"
  by (auto simp: core_def dest: artifact_create_frame events_append_frame outbox_create_frame)

lemma core_inbox [simp]:
  "core (inbox_mark_processed k now db) = core db" "core (snd (inbox_try_insert k db)) = core db"
  by (simp_all add: core_def)

lemma outbox_create_all_keeps:
  "foldR outbox_create os db = Inr db' \<Longrightarrow> core db' = core db \<and> db_events db' = db_events db \<and> db_inbox db' = db_inbox db"
  by (induction os arbitrary: db) (auto elim!: rbind_InrE dest!: outbox_create_frame simp: core_def)

lemma build_deliverable_keeps:
  "build_deliverable_records src tid rid sid tr st c clk item db = Inr (x, db') \<Longrightarrow> core db' = core db \<and> logs db' = logs db"
  by (cases item) (auto simp: build_deliverable_records_def Let_def split: if_splits elim!: rbind_InrE
      dest: core_create artifact_create_frame)

lemma deliverable_records_keeps:
  "deliverable_records src p st clk items db = Inr (rows, db') \<Longrightarrow> core db' = core db \<and> logs db' = logs db"
  by (induction items arbitrary: db rows)
    (auto elim!: rbind_InrE dest!: build_deliverable_keeps split: prod.splits)

text \<open>Everything that happened in a transaction that recorded an envelope.\<close>

definition recorded ::
  "host \<Rightarrow> event_envelope \<Rightarrow> clock \<Rightarrow> db \<Rightarrow> db \<Rightarrow> prepared \<Rightarrow> agent_run \<Rightarrow> task \<Rightarrow> event_envelope \<Rightarrow> event_envelope \<Rightarrow> db \<Rightarrow>
   (runtime_event \<times> (uuid \<Rightarrow> outbox_event)) list \<Rightarrow> db \<Rightarrow> db \<Rightarrow> bool" where
  "recorded h e clk db db' p run task stored projected db1 rows db2 db3 \<longleftrightarrow>
     prepare_envelope h e = Inr p \<and> \<not> inbox_seen (''runtime-event'', ee_event_id e) db \<and>
     run_get (pp_run_id p) db = Some run \<and> task_get (pp_task_id p) db = Some task \<and>
     bounded_envelopes h (pp_envelope p) run task = Inr (stored, projected) \<and>
     apply_projection h (case ee_event_type projected of JStr t \<Rightarrow> t | _ \<Rightarrow> [])
       (dget (ee_runtime_event projected) ''payload'' (JObj [])) run task (pp_step_id p) (pp_created_at p)
       (pp_checkpoint p) (pp_run_checkpoint p) (clk 0) (snd (inbox_try_insert (''runtime-event'', ee_event_id e) db)) = Inr db1 \<and>
     deliverable_records stored p (get_next_sequence (pp_run_id p) db + 1) clk (enumerate 0 (pp_deliverables p)) db1 = Inr (rows, db2) \<and>
     events_append (envelope_event p stored (get_next_sequence (pp_run_id p) db) # map fst rows) db2 = Inr db3 \<and>
     (\<exists>db4. foldR outbox_create (envelope_outbox p stored clk # map snd rows) db3 = Inr db4 \<and>
        db' = inbox_mark_processed (''runtime-event'', ee_event_id e) (clk 3) db4)"

lemma get_after_insert [simp]:
  "run_get rid (snd (inbox_try_insert k db)) = run_get rid db" "task_get tid (snd (inbox_try_insert k db)) = task_get tid db"
  "get_next_sequence rid (snd (inbox_try_insert k db)) = get_next_sequence rid db"
  by (simp_all add: run_get_def task_get_def get_next_sequence_def)

lemma record_envelope_True:
  assumes "record_envelope h e clk db = Inr (True, db')"
  obtains p run task stored projected db1 rows db2 db3
  where "recorded h e clk db db' p run task stored projected db1 rows db2 db3"
proof -
  let ?k = "(''runtime-event'', ee_event_id e)"
  obtain b d where ins: "inbox_try_insert ?k db = (b, d)" by fastforce
  then have d: "d = snd (inbox_try_insert ?k db)" and b: "b \<longleftrightarrow> \<not> inbox_seen ?k db"
    by (auto simp: inbox_try_insert_def split: if_splits)
  from assms ins obtain p db4 where p: "prepare_envelope h e = Inr p" "b" "record_first_seen h p clk d = Inr db4"
    "db' = inbox_mark_processed ?k (clk 3) db4"
    by (auto simp: record_envelope_def Let_def split: if_splits elim!: rbind_InrE)
  from p(3) obtain run task where rt: "run_get (pp_run_id p) d = Some run" "task_get (pp_task_id p) d = Some task"
    by (auto simp: record_first_seen_def Let_def split: option.splits)
  show thesis
    using p rt b that unfolding record_first_seen_def Let_def recorded_def d
    by (auto elim!: rbind_InrE simp del: foldR.simps)
qed

section \<open>Once\<close>

lemma recorded_inbox:
  assumes "recorded h e clk db db' p run task stored projected db1 rows db2 db3"
  shows "inbox_seen k db' \<longleftrightarrow> inbox_seen k db \<or> k = (''runtime-event'', ee_event_id e)"
proof -
  let ?k = "(''runtime-event'', ee_event_id e)"
  note r = assms [unfolded recorded_def]
  have "db_inbox db1 = db_inbox (snd (inbox_try_insert ?k db))" using r apply_projection_logs by (auto simp: logs_def)
  moreover have "db_inbox db2 = db_inbox db1" using r deliverable_records_keeps by (auto simp: logs_def)
  moreover have "db_inbox db3 = db_inbox db2" using r events_append_frame by blast
  moreover obtain db4 where "db_inbox db4 = db_inbox db3" "db' = inbox_mark_processed ?k (clk 3) db4"
    using r outbox_create_all_keeps by blast
  moreover have "inbox_seen k (snd (inbox_try_insert ?k db)) \<longleftrightarrow> inbox_seen k db \<or> k = ?k"
    by (auto simp: inbox_try_insert_def inbox_seen_def)
  moreover have "inbox_seen k db' = inbox_seen k db4" using calculation(5) by (simp add: inbox_seen_mark)
  ultimately show ?thesis by (simp add: inbox_seen_def)
qed

lemma record_envelope_False: "record_envelope h e clk db = Inr (False, db') \<Longrightarrow> db' = db"
  by (auto simp: record_envelope_def Let_def inbox_try_insert_def split: if_splits elim!: rbind_InrE)

text \<open>A property of the store that every recording keeps.\<close>

lemma record_envelope_keeps:
  assumes "record_envelope h e clk db = Inr (b, db')" "P db"
    and "\<And>p run task stored projected db1 rows db2 db3.
      recorded h e clk db db' p run task stored projected db1 rows db2 db3 \<Longrightarrow> P db'"
  shows "P db'"
proof (cases b)
  case True
  with assms(1,3) show ?thesis by (auto elim!: record_envelope_True)
next
  case False
  with assms(1) have "db' = db" by (intro record_envelope_False) simp
  then show ?thesis using assms(2) by simp
qed

lemma record_envelope_inbox:
  assumes "inbox_seen k db" "record_envelope h e clk db = Inr (b, db')" shows "inbox_seen k db'"
  using assms(2,1) by (rule record_envelope_keeps [where P = "inbox_seen k"]) (simp add: recorded_inbox [of _ _ _ db] assms(1))

text \<open>The consumer: every delivery is a transaction of its own; one that fails changes nothing.\<close>

definition deliver :: "host \<Rightarrow> event_envelope \<times> clock \<Rightarrow> db \<Rightarrow> db" where
  "deliver h item db = snd (transact (record_envelope h (fst item) (snd item)) db)"

lemma deliver_cases:
  obtains "deliver h item db = db"
  | b where "record_envelope h (fst item) (snd item) db = Inr (b, deliver h item db)"
proof (cases "record_envelope h (fst item) (snd item) db")
  case (Inl x)
  then show ?thesis using that(1) by (simp add: deliver_def transact_def)
next
  case (Inr x)
  obtain b db' where x: "x = (b, db')" by fastforce
  then show ?thesis using that(2) Inr by (simp add: deliver_def transact_def)
qed

lemma deliver_invariant:
  assumes "P db" "\<And>e clk db b db'. P db \<Longrightarrow> record_envelope h e clk db = Inr (b, db') \<Longrightarrow> P db'"
  shows "P (fold (deliver h) items db)"
  using assms(1)
proof (induction items arbitrary: db)
  case (Cons item items)
  have "P (deliver h item db)" by (rule deliver_cases [of h item db]) (use Cons.prems assms(2) in auto)
  then show ?case by (simp add: Cons.IH)
qed simp

text \<open>
  C6. An event takes effect once: after an envelope was recorded, every later delivery of it, whatever
  other envelopes are delivered in between, is answered with False and changes nothing.
\<close>

theorem event_recorded_once:
  assumes "record_envelope h e clk db = Inr (True, db1)"
  shows "record_envelope h e clk' (fold (deliver h) others db1) = Inr (False, fold (deliver h) others db1)"
proof -
  let ?k = "(''runtime-event'', ee_event_id e)"
  have "inbox_seen ?k db1" using assms by (auto elim!: record_envelope_True simp: recorded_inbox)
  then have "inbox_seen ?k (fold (deliver h) others db1)"
    by (rule deliver_invariant) (rule record_envelope_inbox)
  moreover obtain p where "prepare_envelope h e = Inr p" "is_durable (ee_event_type e) = Inr True"
    using assms by (auto simp: record_envelope_def split: if_splits elim!: rbind_InrE)
  ultimately show ?thesis by (simp add: record_envelope_def inbox_try_insert_def)
qed

section \<open>The event log\<close>

text \<open>
  The events of every run are numbered without a gap, and every event has a row in the outbox, from
  which it is published.
\<close>

definition log_complete :: "db \<Rightarrow> bool" where
  "log_complete db \<longleftrightarrow> (\<forall>rid. contiguous rid db) \<and>
     ev_event_id ` set (db_events db) \<subseteq> ob_event_id ` set (db_outbox db)"

lemma events_append_all:
  "events_append es db = Inr db' \<Longrightarrow> distinct (map ev_event_id es) \<Longrightarrow>
     set (map ev_event_id es) \<inter> ev_event_id ` set (db_events db) = {} \<Longrightarrow> db_events db' = db_events db @ es"
proof (induction es db rule: events_append.induct)
  case (2 e es db)
  then show ?case by (auto simp: events_append.simps split: if_splits)
qed (simp add: events_append.simps)

lemma outbox_create_all:
  "foldR outbox_create mks db = Inr db' \<Longrightarrow> (\<And>mk x. mk \<in> set mks \<Longrightarrow> ob_event_id (mk x) = eid mk) \<Longrightarrow>
     distinct (map eid mks) \<and> set (map eid mks) \<inter> ob_event_id ` set (db_outbox db) = {} \<and>
     ob_event_id ` set (db_outbox db') = set (map eid mks) \<union> ob_event_id ` set (db_outbox db)"
proof (induction mks arbitrary: db)
  case (Cons mk mks)
  from Cons.prems(1) obtain d where d: "outbox_create mk db = Inr d" "foldR outbox_create mks d = Inr db'"
    by (auto elim: rbind_InrE)
  have new: "ob_event_id ` set (db_outbox d) = insert (eid mk) (ob_event_id ` set (db_outbox db))"
    "eid mk \<notin> ob_event_id ` set (db_outbox db)"
    using d(1) Cons.prems(2) by (auto simp: outbox_create_def Let_def split: if_splits)
  show ?case using Cons.IH [OF d(2)] Cons.prems(2) new by auto
qed simp

text \<open>Each derived event is numbered after the one before it and shares its id with its outbox row.\<close>

lemma deliverable_records_rows:
  "deliverable_records src p st clk (enumerate n ds) db = Inr (rows, db') \<Longrightarrow>
     map (ev_sequence \<circ> fst) rows = map (\<lambda>i. st + int i) [n..<n + length ds] \<and>
     (\<forall>(e, mk) \<in> set rows. ev_run_id e = Some (pp_run_id p) \<and> (\<forall>x. ob_event_id (mk x) = ev_event_id e))"
proof (induction ds arbitrary: n db rows)
  case (Cons d ds)
  from Cons.prems obtain row rows' db1 where
    b: "build_deliverable_records src (pp_task_id p) (pp_run_id p) (pp_step_id p) (pp_trace_id p) st
      (pp_created_at p) clk (n, d) db = Inr (row, db1)"
    "deliverable_records src p st clk (enumerate (Suc n) ds) db1 = Inr (rows', db')" "rows = row # rows'"
    by (auto elim!: rbind_InrE)
  have "ev_sequence (fst row) = st + int n" "ev_run_id (fst row) = Some (pp_run_id p)"
    "ob_event_id (snd row x) = ev_event_id (fst row)" for x
    using b(1) by (auto simp: build_deliverable_records_def Let_def new_runtime_event_def new_outbox_event_def
        split: if_splits elim!: rbind_InrE)
  moreover have "[n..<n + length (d # ds)] = n # [Suc n..<Suc n + length ds]" by (simp add: upt_conv_Cons del: upt_Suc)
  ultimately show ?case using Cons.IH [OF b(2)] by (simp add: b(3) case_prod_unfold)
qed simp

lemma recorded_log_complete:
  assumes "recorded h e clk db db' p run task stored projected db1 rows db2 db3" "log_complete db"
  shows "log_complete db'"
proof -
  let ?k = "(''runtime-event'', ee_event_id e)" and ?n = "get_next_sequence (pp_run_id p) db"
  define ev where "ev = envelope_event p stored ?n"
  define es where "es = ev # map fst rows"
  define mks where "mks = envelope_outbox p stored clk # map snd rows"
  note r = assms(1) [unfolded recorded_def, folded ev_def, folded es_def mks_def]
  have l2: "db_events db2 = db_events db" "db_outbox db2 = db_outbox db"
    using r apply_projection_logs deliverable_records_keeps by (fastforce simp: logs_def)+
  have o3: "db_outbox db3 = db_outbox db" using r events_append_frame l2 by metis
  obtain db4 where f: "foldR outbox_create mks db3 = Inr db4" and db': "db' = inbox_mark_processed ?k (clk 3) db4"
    using r by blast
  have rows: "map (ev_sequence \<circ> fst) rows = map (\<lambda>i. ?n + 1 + int i) [0..<length (pp_deliverables p)]"
    "\<forall>(e, mk) \<in> set rows. ev_run_id e = Some (pp_run_id p) \<and> (\<forall>x. ob_event_id (mk x) = ev_event_id e)"
    using deliverable_records_rows [of stored p "?n + 1" clk 0 "pp_deliverables p" db1 rows db2] r by simp_all
  have ev: "ev_event_id ev = pp_event_id p" "ev_run_id ev = Some (pp_run_id p)" "ev_sequence ev = ?n"
    "ob_event_id (envelope_outbox p stored clk x) = pp_event_id p" for x
    by (simp_all add: ev_def envelope_event_def envelope_outbox_def new_runtime_event_def new_outbox_event_def)
  have ids: "map (\<lambda>mk. ob_event_id (mk (Uuid4 0))) mks = map ev_event_id es"
    using rows(2) by (auto simp: mks_def es_def ev)
  have fixed: "ob_event_id (mk x) = ob_event_id (mk (Uuid4 0))" if "mk \<in> set mks" for mk x
    using that rows(2) ev(4) by (auto simp: mks_def)
  have "distinct (map ev_event_id es) \<and> set (map ev_event_id es) \<inter> ob_event_id ` set (db_outbox db) = {} \<and>
      ob_event_id ` set (db_outbox db4) = set (map ev_event_id es) \<union> ob_event_id ` set (db_outbox db)"
    using outbox_create_all [OF f fixed] unfolding ids o3 .
  note new = this
  have ev3: "db_events db3 = db_events db @ es"
  proof -
    have "set (map ev_event_id es) \<inter> ev_event_id ` set (db_events db) = {}"
      using new assms(2) unfolding log_complete_def by blast
    then show ?thesis using events_append_all [of es db2 db3] r new l2(1) by simp
  qed
  have ev': "db_events db' = db_events db @ es" "db_outbox db' = db_outbox db4"
    using outbox_create_all_keeps [OF f] ev3 by (simp_all add: db')
  have run: "\<forall>e \<in> set es. ev_run_id e = Some (pp_run_id p)" using rows(2) ev(2) by (auto simp: es_def)
  have len: "length rows = length (pp_deliverables p)" using arg_cong [OF rows(1), of length] by simp
  have seqs: "map ev_sequence es = map (\<lambda>i. ?n + int i) [0..<length es]"
  proof -
    have "map (\<lambda>i. ?n + 1 + int i) [0..<m] = map (\<lambda>i. ?n + int i) [1..<Suc m]" for m
      unfolding map_Suc_upt [symmetric] One_nat_def by (simp add: comp_def)
    then show ?thesis using rows(1) by (simp add: es_def ev len upt_conv_Cons del: upt_Suc)
  qed
  have "contiguous rid db'" for rid
  proof (cases "rid = pp_run_id p")
    case True
    have "contiguous rid db" using assms(2) by (simp add: log_complete_def)
    then show ?thesis by (rule contiguous_extend [OF _ ev'(1)]) (use True run seqs in simp_all)
  next
    case False
    then show ?thesis
      using contiguous_other [OF ev'(1)] run assms(2) by (simp add: log_complete_def)
  qed
  then show ?thesis using new assms(2) by (auto simp: log_complete_def ev')
qed

text \<open>
  C7. The event log of a run can be replayed: whatever envelopes are delivered, in whatever order and
  however often, the events of every run stay numbered 1, 2, ... without a gap, also when a file
  deliverable adds events of its own, and each has the outbox row that publishes it.
\<close>

theorem event_log_stays_complete:
  assumes "log_complete db"
  shows "log_complete (fold (deliver h) items db)"
  using assms
proof (rule deliver_invariant)
  fix e clk db b db'
  assume "log_complete db" "record_envelope h e clk db = Inr (b, db')"
  from this(2,1) show "log_complete db'"
    by (rule record_envelope_keeps [where P = log_complete]) (rule recorded_log_complete [OF _ \<open>log_complete db\<close>])
qed

section \<open>Step numbers\<close>

lemma core_numbering: "core db' = core db \<Longrightarrow> steps_numbered db' = steps_numbered db"
  by (intro steps_numbered_same numbering_frame) (simp_all add: core_def)

lemma recorded_core:
  assumes "recorded h e clk db db' p run task stored projected db1 rows db2 db3"
  shows "core db' = core db1"
proof -
  from assms [unfolded recorded_def] have "core db2 = core db1" "core db3 = core db2"
    using deliverable_records_keeps core_create(2) by blast+
  moreover obtain db4 where "core db4 = core db3" "core db' = core db4"
    using assms [unfolded recorded_def] outbox_create_all_keeps by fastforce
  ultimately show ?thesis by simp
qed

text \<open>
  C30. Whatever envelopes are delivered, the steps of every run stay numbered 0, 1, ... in the order in
  which they are listed, and the step count of the run is their number.
\<close>

theorem steps_stay_numbered:
  assumes "steps_numbered db"
  shows "steps_numbered (fold (deliver h) items db)"
  using assms
proof (rule deliver_invariant)
  fix e clk db b db'
  assume s: "steps_numbered db" and r: "record_envelope h e clk db = Inr (b, db')"
  from r s show "steps_numbered db'"
  proof (rule record_envelope_keeps [where P = steps_numbered])
    fix p run task stored projected db1 rows db2 db3
    assume rec: "recorded h e clk db db' p run task stored projected db1 rows db2 db3"
    have "steps_numbered (snd (inbox_try_insert (''runtime-event'', ee_event_id e) db))"
      by (rule steps_numbered_same [THEN iffD2, OF _ s]) simp
    then have "steps_numbered db1" using rec [unfolded recorded_def] apply_projection_numbered by blast
    then show "steps_numbered db'" by (rule core_numbering [OF recorded_core [OF rec], THEN iffD2])
  qed
qed

section \<open>What an envelope is about\<close>

text \<open>Preparing and bounding an envelope keeps what it is about.\<close>

lemma with_event_type [simp]: "ee_event_type (with_event e raw) = ee_event_type e"
  by (simp add: with_event_def)

lemma extract_keeps_type: "extract_internal_checkpoints e = Inr (e', c, rc) \<Longrightarrow> ee_event_type e' = ee_event_type e"
  by (auto simp: extract_internal_checkpoints_def Let_def split: if_splits elim!: rbind_InrE)

lemma deliverables_type: "prepare_tool_deliverables h e = Inr (e', ds) \<Longrightarrow> ee_event_type e' = ee_event_type e"
  by (auto simp: prepare_tool_deliverables_def Let_def split: if_splits json.splits elim!: rbind_InrE)

lemma expiry_type: "project_permission_expiry h e c = Inr e' \<Longrightarrow> ee_event_type e' = ee_event_type e"
  by (auto simp: project_permission_expiry_def split: if_splits elim!: rbind_InrE)

lemma prepare_facts:
  assumes "prepare_envelope h e = Inr p"
  shows "ee_event_type (pp_envelope p) = ee_event_type e" "to_uuid (ee_run_id e) = Inr (pp_run_id p)"
    "to_uuid (ee_task_id e) = Inr (pp_task_id p)" "to_uuid (ee_event_id e) = Inr (pp_event_id p)"
  using assms by (auto simp: prepare_envelope_def Let_def elim!: rbind_InrE split: if_splits
      dest!: extract_keeps_type deliverables_type expiry_type)

lemma bounded_type:
  assumes "bounded_envelopes h e run task = Inr (stored, projected)"
  shows "ee_event_type stored = ee_event_type e" "ee_event_type projected = ee_event_type e"
proof -
  have x: "externalize_large_artifact h e w path = Inr e' \<Longrightarrow> ee_event_type e' = ee_event_type e" for w path e'
    by (auto simp: externalize_large_artifact_def Let_def split: if_splits option.splits prod.splits store_result.splits
        elim!: rbind_InrE)
  have b: "bound_large_completed_output h e1 out = Inr e' \<Longrightarrow> ee_event_type e' = ee_event_type e1" for e1 e' out
    by (auto simp: bound_large_completed_output_def Let_def split: if_splits option.splits)
  show "ee_event_type stored = ee_event_type e" "ee_event_type projected = ee_event_type e"
    using assms by (auto simp: bounded_envelopes_def split: option.splits elim!: rbind_InrE dest!: x b)
qed

text \<open>A transition writes the run and nothing else.\<close>

lemma transition_writes:
  assumes "transition run t cs now db = Inr (run', db')"
  shows "\<exists>r. run_get (ar_id run) db = Some r \<and> lock_ok (transition_lock run t cs now) r \<and>
      run_get (ar_id run) db' = Some (updated_run (transition_lock run t cs now) r)"
    and "db_tasks db' = db_tasks db" "db_steps db' = db_steps db" "db_tool_calls db' = db_tool_calls db"
      "db_permissions db' = db_permissions db" "ar_id run' = ar_id run" "ar_status run' = t"
proof -
  have u: "update_with_lock (transition_lock run t cs now) db = (True, db')"
    "run' = fold apply_field cs (run\<lparr>ar_status := t, ar_version := ar_version run + 1\<rparr>)"
    using assms by (simp_all add: transition_Inr)
  show "db_tasks db' = db_tasks db" "db_steps db' = db_steps db" "db_tool_calls db' = db_tool_calls db"
      "db_permissions db' = db_permissions db"
    using update_with_lock_frame [of "transition_lock run t cs now" db] u(1) by simp_all
  show "ar_id run' = ar_id run" "ar_status run' = t" by (simp_all add: u(2))
  obtain r where r: "run_get (ar_id run) db = Some r" "lock_ok (transition_lock run t cs now) r"
    using u(1) by (auto simp: update_with_lock_True transition_lock_def)
  then have "run_get (ar_id run) db' = Some (updated_run (transition_lock run t cs now) r)"
    using run_get_update_with_lock [of "ar_id run" "transition_lock run t cs now" db] u(1)
    by (simp add: transition_lock_def)
  with r show "\<exists>r. run_get (ar_id run) db = Some r \<and> lock_ok (transition_lock run t cs now) r \<and>
      run_get (ar_id run) db' = Some (updated_run (transition_lock run t cs now) r)" by blast
qed

end
