(* ===== verification/RunLifecycle.thy ===== *)
theory RunLifecycle
  imports PermissionService RecordingFacts
begin

text \<open>
  What the operations of \<open>runtime/runs/service.py\<close> do to the rows of \<open>agent_runs\<close>, over every
  interleaving: the status graph, version monotonicity, who may execute a run, and that no held
  run escapes reconciliation.  Every operation is a locked update of one run, before and after
  which only other tables change (\<open>op_evolves\<close>).
\<close>

section \<open>Transitions the service makes\<close>

inductive run_edge :: "run_status \<Rightarrow> run_status \<Rightarrow> bool" where
  valid: "target \<in> set (VALID_TRANSITIONS current) \<Longrightarrow> run_edge current target"
| never_claimed: "run_edge Queued Failed"

inductive_simps run_edge_iff: "run_edge current target"

abbreviation run_path :: "run_status \<Rightarrow> run_status \<Rightarrow> bool" where
  "run_path \<equiv> run_edge\<^sup>*\<^sup>*"

text \<open>
  A run that a worker holds, or holds until the user decides, names the worker and the end of its lease.
\<close>

abbreviation held_statuses :: "run_status set" where
  "held_statuses \<equiv> {Running, PauseRequested, WaitingPermission}"

definition run_leased :: "agent_run \<Rightarrow> bool" where
  "run_leased r \<longleftrightarrow> (ar_status r \<in> held_statuses \<longrightarrow> ar_worker_id r \<noteq> None \<and> ar_lease_until r \<noteq> None)"

definition run_evolves :: "agent_run \<Rightarrow> agent_run \<Rightarrow> bool" where
  "run_evolves r r' \<longleftrightarrow> ar_id r' = ar_id r \<and> ar_task_id r' = ar_task_id r \<and> ar_version r \<le> ar_version r' \<and>
     run_path (ar_status r) (ar_status r') \<and> (ar_status r' = ar_status r \<or> ar_version r < ar_version r') \<and>
     (run_leased r \<longrightarrow> run_leased r')"

text \<open>No run vanishes, every run evolves, and a new run is queued at version 1.\<close>

definition new_or_old :: "agent_run option \<Rightarrow> agent_run \<Rightarrow> bool" where
  "new_or_old old r' \<longleftrightarrow> (case old of None \<Rightarrow> 1 \<le> ar_version r' \<and> run_path Queued (ar_status r') \<and> run_leased r'
     | Some r \<Rightarrow> run_evolves r r')"

definition runs_evolve :: "db \<Rightarrow> db \<Rightarrow> bool" where
  "runs_evolve db db' \<longleftrightarrow> (\<forall>rid. case run_get rid db' of None \<Rightarrow> run_get rid db = None
     | Some r' \<Rightarrow> new_or_old (run_get rid db) r')"

lemma run_evolves_refl [simp]: "run_evolves r r"
  by (simp add: run_evolves_def)

lemma run_evolves_trans: "run_evolves a b \<Longrightarrow> run_evolves b c \<Longrightarrow> run_evolves a c"
  unfolding run_evolves_def by (metis order_trans order_le_less_trans order_less_le_trans rtranclp_trans)

lemma new_or_old_trans: "new_or_old old b \<Longrightarrow> run_evolves b c \<Longrightarrow> new_or_old old c"
  by (auto simp: new_or_old_def run_evolves_def split: option.splits intro: rtranclp_trans)

lemma new_or_old_Some [simp]: "new_or_old (Some r) r' = run_evolves r r'"
  by (simp add: new_or_old_def)

lemma runs_evolve_Some:
  "runs_evolve db db' \<Longrightarrow> run_get rid db = Some r \<Longrightarrow> \<exists>r'. run_get rid db' = Some r' \<and> run_evolves r r'"
  unfolding runs_evolve_def by (drule spec [of _ rid]) (auto split: option.splits)

lemma runs_evolve_refl [simp]: "runs_evolve db db"
  by (simp add: runs_evolve_def split: option.split)

lemma runs_evolve_trans [trans]:
  assumes "runs_evolve a b" "runs_evolve b c" shows "runs_evolve a c"
  unfolding runs_evolve_def
proof
  fix rid
  show "case run_get rid c of None \<Rightarrow> run_get rid a = None | Some r' \<Rightarrow> new_or_old (run_get rid a) r'"
    using assms [unfolded runs_evolve_def, THEN spec [of _ rid]]
    by (auto split: option.splits intro: new_or_old_trans)
qed

lemma runs_evolve_same: "db_runs db' = db_runs db \<Longrightarrow> runs_evolve db db'"
  by (simp add: runs_evolve_def run_get_def split: option.split)

text \<open>A run that was read earlier, possibly several transactions ago.\<close>

definition snapshot :: "agent_run \<Rightarrow> db \<Rightarrow> bool" where
  "snapshot r db \<longleftrightarrow> (\<exists>r'. run_get (ar_id r) db = Some r' \<and> run_evolves r r')"

lemma snapshot_read: "run_get rid db = Some r \<Longrightarrow> snapshot r db"
  using runs.get_key by (fastforce simp: snapshot_def)

lemma snapshot_evolve: "snapshot r db \<Longrightarrow> runs_evolve db db' \<Longrightarrow> snapshot r db'"
  unfolding snapshot_def by (meson run_evolves_trans runs_evolve_Some)

lemma snapshot_same: "db_runs db' = db_runs db \<Longrightarrow> snapshot r db' = snapshot r db"
  by (simp add: snapshot_def run_get_def)

text \<open>An update that makes a run held names the holder, or takes over a held run.\<close>

definition keeps_lease :: "lock_update \<Rightarrow> bool" where
  "keeps_lease u \<longleftrightarrow> (\<forall>c. lock_ok u c \<longrightarrow> run_leased c \<longrightarrow> run_leased (updated_run u c))"

lemma update_with_lock_evolves:
  assumes "\<And>r. run_get (lu_run_id u) db = Some r \<Longrightarrow> lock_ok u r \<Longrightarrow> run_path (ar_status r) (lu_new_status u)"
    and "keeps_lease u"
  shows "runs_evolve db (snd (update_with_lock u db))"
  using assms by (auto simp: runs_evolve_def run_get_update_with_lock run_evolves_def lock_ok_def keeps_lease_def
      split: option.split)

text \<open>
  The pattern of the service: the update expects the version of a run read earlier, and the
  transition was decided on its status.
\<close>

lemma snapshot_lock_evolves:
  assumes "snapshot r db" "lu_run_id u = ar_id r" "lu_expected_version u = ar_version r"
    "run_path (ar_status r) (lu_new_status u)" "keeps_lease u"
  shows "runs_evolve db (snd (update_with_lock u db))"
  using assms by (intro update_with_lock_evolves) (auto simp: snapshot_def run_evolves_def lock_ok_def)

lemma locked_Inr: "locked u db = Inr db' \<longleftrightarrow> update_with_lock u db = (True, db')"
  by (auto simp: locked_def split_def Let_def prod_eq_iff split: if_splits)

lemma locked_evolves:
  assumes "locked u db = Inr db'" "snapshot r db" "lu_run_id u = ar_id r" "lu_expected_version u = ar_version r"
    "run_path (ar_status r) (lu_new_status u)" "keeps_lease u"
  shows "runs_evolve db db'"
  using snapshot_lock_evolves [OF assms(2-6)] assms(1) by (simp add: locked_Inr)

lemma check_transition_path: "check_transition s s' = Inr u \<Longrightarrow> run_path s s'"
  by (auto simp: check_transition_def intro: run_edge.valid)

lemma run_create_evolves:
  "run_create r db = Inr db' \<Longrightarrow> ar_status r = Queued \<Longrightarrow> 1 \<le> ar_version r \<Longrightarrow> runs_evolve db db'"
  by (auto simp: run_create_def runs_evolve_def run_get_def row_simps new_or_old_def run_leased_def
      split: if_splits option.split)

lemma new_agent_run_queued [simp]:
  "ar_status (new_agent_run i t n c m) = Queued" "ar_version (new_agent_run i t n c m) = 1"
  "ar_id (new_agent_run i t n c m) = i" "ar_task_id (new_agent_run i t n c m) = t"
  by (simp_all add: new_agent_run_def)

lemma keeps_lease_simps [simp]:
  "lu_new_status u \<notin> held_statuses \<Longrightarrow> keeps_lease u"
  "lu_fields u = [] \<Longrightarrow> lu_expected_status u = Some Running \<Longrightarrow> keeps_lease u"
  "lu_fields u = [SetWorkerId (Some w), SetStartedAt s, SetLeaseUntil (Some l)] \<Longrightarrow> keeps_lease u"
  "lu_fields u = [SetWorkerId (Some w), SetLeaseUntil (Some l)] \<Longrightarrow> keeps_lease u"
  "lu_fields u = [SetWorkerId (Some w), SetLeaseUntil (Some l), SetCheckpoint cp] \<Longrightarrow> keeps_lease u"
  by (auto simp: keeps_lease_def run_leased_def updated_run_def lock_ok_def)

section \<open>Operations that leave the runs alone\<close>


lemma rbind_keeps:
  assumes "rbind m f = Inr db'" "\<And>x. m = Inr x \<Longrightarrow> f x = Inr db' \<Longrightarrow> P" shows P
  using assms by (auto simp: rbind_Inr_iff)

lemma trace_or_new_runs: "trace_or_new r db = (t, db') \<Longrightarrow> db_runs db' = db_runs db"
  by (auto simp: trace_or_new_def split: option.splits)

lemma outbox_create_runs: "outbox_create mk db = Inr db' \<Longrightarrow> db_runs db' = db_runs db"
  using outbox_create_frame by blast

lemma events_append_runs: "events_append es db = Inr db' \<Longrightarrow> db_runs db' = db_runs db"
  using events_append_frame by blast

lemma publish_event_runs: "publish_event run e ty p t w c now clk db = Inr db' \<Longrightarrow> db_runs db' = db_runs db"
  by (auto simp: publish_event_def rbind_Inr_iff dest!: outbox_create_runs events_append_runs)

lemma fail_task_runs [simp]: "db_runs (fail_task tid now db) = db_runs db"
  by (simp add: fail_task_def split: option.splits)

lemma send_control_runs: "send_control run et ty reason clk db = Inr db' \<Longrightarrow> db_runs db' = db_runs db"
  by (auto simp: send_control_def rbind_Inr_iff Let_def dest!: outbox_create_runs dest: trace_or_new_runs split: prod.splits)

lemma enqueue_resume_runs: "enqueue_resume run aty ac now clk db = Inr db' \<Longrightarrow> db_runs db' = db_runs db"
  by (auto simp: enqueue_resume_def rbind_Inr_iff Let_def dest!: outbox_create_runs dest: trace_or_new_runs split: prod.splits)

lemma publish_run_failed_runs: "publish_run_failed run e s t w now clk db = Inr db' \<Longrightarrow> db_runs db' = db_runs db"
  by (auto simp: publish_run_failed_def Let_def dest!: publish_event_runs dest: trace_or_new_runs split: prod.splits option.splits)

lemma pause_expired_runs: "pause_expired run now clk db = Inr db' \<Longrightarrow> db_runs db' = db_runs db"
  by (auto simp: pause_expired_def rbind_Inr_iff Let_def dest!: publish_event_runs dest: trace_or_new_runs split: prod.splits)

lemma fail_expired_runs: "fail_expired run ex a now clk db = Inr db' \<Longrightarrow> db_runs db' = db_runs db"
  by (auto simp: fail_expired_def rbind_Inr_iff Let_def dest!: publish_run_failed_runs)

lemmas keeps_runs = send_control_runs enqueue_resume_runs publish_run_failed_runs pause_expired_runs
  fail_expired_runs publish_event_runs outbox_create_runs events_append_runs

section \<open>Every operation moves runs along the transitions\<close>

lemma inbox_try_insert_runs: "inbox_try_insert k db = (b, db') \<Longrightarrow> db_runs db' = db_runs db"
  using inbox_try_insert_frame(3) [of k db] by simp

text \<open>The shape of every operation: a locked update of a run, before and after it only other tables.\<close>

lemma op_evolves:
  assumes "locked u db1 = Inr db2" "db_runs db1 = db_runs db" "db_runs db' = db_runs db2" "snapshot r db"
    "lu_run_id u = ar_id r" "lu_expected_version u = ar_version r" "run_path (ar_status r) (lu_new_status u)" "keeps_lease u"
  shows "runs_evolve db db'"
proof -
  have "runs_evolve db1 db2"
    using assms by (intro locked_evolves [of u db1 db2 r]) (simp_all add: snapshot_same [of db1 db])
  then show ?thesis using assms(2,3) by (metis runs_evolve_same runs_evolve_trans)
qed

lemmas op_simps = rbind_Inr_iff Let_def

text \<open>Without a snapshot the transition is justified by the status the update expects.\<close>

lemma op_evolves_expected:
  assumes "update_with_lock u db1 = (True, db2)" "db_runs db1 = db_runs db" "db_runs db' = db_runs db2"
    "lu_expected_status u = Some s" "run_path s (lu_new_status u)" "keeps_lease u"
  shows "runs_evolve db db'"
proof -
  have "runs_evolve db1 (snd (update_with_lock u db1))"
    by (rule update_with_lock_evolves) (use assms(4-6) in \<open>simp_all add: lock_ok_def\<close>)
  then show ?thesis using assms(1-3) by (metis runs_evolve_same runs_evolve_trans snd_conv)
qed

lemma run_put_evolves:
  "run_get (ar_id r) db = Some old \<Longrightarrow> run_evolves old r \<Longrightarrow> runs_evolve db (run_put r db)"
  by (auto simp: runs_evolve_def runs.get_put split: option.split)

lemma claim_run_evolves:
  assumes "claim_run rid w v clk db = Inr (x, db')" shows "runs_evolve db db'"
  using assms
  by (auto simp: claim_run_def op_simps locked_Inr split: option.splits
      elim!: op_evolves_expected intro!: run_edge.valid)

lemma claim_job_evolves:
  assumes "claim_job_from r w e clk db = Inr (d, db')" "snapshot r db" shows "runs_evolve db db'"
proof -
  obtain b db1 where ins: "inbox_try_insert (''run-queue'', e) db = (b, db1)" by fastforce
  show ?thesis
    using assms ins inbox_try_insert_runs [OF ins]
    by (auto simp: claim_job_from_def op_simps split: if_splits
      intro: runs_evolve_same elim!: op_evolves dest: check_transition_path)
qed

lemma claim_permission_resume_evolves:
  assumes "claim_permission_resume_from r w clk db = Inr (d, db')" "snapshot r db" shows "runs_evolve db db'"
  using assms
  by (auto simp: claim_permission_resume_from_def op_simps split: if_splits
      elim!: op_evolves dest: check_transition_path)

lemma claim_recovery_evolves:
  assumes "claim_recovery_from r w e clk db = Inr (d, db')" "snapshot r db" shows "runs_evolve db db'"
proof -
  obtain b db1 where ins: "inbox_try_insert (''run-recovery'', e) db = (b, db1)" by fastforce
  show ?thesis
    using assms ins inbox_try_insert_runs [OF ins]
    by (auto simp: claim_recovery_from_def op_simps split: if_splits
      intro: runs_evolve_same elim!: op_evolves intro!: r_into_rtranclp run_edge.valid)
qed

lemma run_get_id: "run_get rid db = Some r \<Longrightarrow> run_get (ar_id r) db = Some r"
  using runs.get_key by fastforce

lemma renew_lease_evolves: "renew_run_lease rid w clk db = Inr (b, db') \<Longrightarrow> runs_evolve db db'"
  by (auto simp: renew_run_lease_def renew_lease_def split: option.splits if_splits
      intro!: run_put_evolves run_get_id simp: run_evolves_def run_leased_def)

lemma cancel_run_evolves:
  assumes "cancel_run_from r reason clk db = Inr (x, db')" "snapshot r db" shows "runs_evolve db db'"
  using assms
  by (auto simp: cancel_run_from_def op_simps split: if_splits
      elim!: op_evolves dest: check_transition_path dest!: send_control_runs)

lemma pause_run_evolves:
  assumes "pause_run_from r reason clk db = Inr (x, db')" "snapshot r db" shows "runs_evolve db db'"
  using assms
  by (auto simp: pause_run_from_def op_simps split: if_splits
      elim!: op_evolves dest: check_transition_path dest!: send_control_runs)

lemma resume_run_evolves:
  assumes "resume_run_from r clk db = Inr (x, db')" "snapshot r db" shows "runs_evolve db db'"
  using assms
  by (auto simp: resume_run_from_def op_simps split: if_splits
      elim!: op_evolves dest: check_transition_path dest!: enqueue_resume_runs)

lemma open_status_fails:
  "s \<notin> set TERMINAL_STATUSES \<Longrightarrow> s \<notin> {CancelRequested, Cancelling} \<Longrightarrow> run_edge s Failed"
  by (cases s) (auto simp: run_edge_iff TERMINAL_STATUSES_def)

lemma fail_run_queue_delivery_evolves:
  assumes "fail_run_queue_delivery_from r e c n clk db = Inr db'" "snapshot r db" shows "runs_evolve db db'"
  using assms
  by (auto simp: fail_run_queue_delivery_from_def op_simps split: if_splits
      intro: runs_evolve_same elim!: op_evolves dest!: publish_run_failed_runs intro!: r_into_rtranclp open_status_fails)

text \<open>A branch of a reconciliation: nothing when the lock is lost, other tables when it is won.\<close>

lemma branch_evolves:
  assumes "(case update_with_lock u db of (success, d) \<Rightarrow>
      if \<not> success then Inr (k, d) else rbind (f d) (\<lambda>d'. Inr (k', g d'))) = Inr (k'', db')"
    and "\<And>d d'. f d = Inr d' \<Longrightarrow> db_runs (g d') = db_runs d"
    and "\<And>r. run_get (lu_run_id u) db = Some r \<Longrightarrow> lock_ok u r \<Longrightarrow> run_path (ar_status r) (lu_new_status u)"
    and "db_runs db = db_runs db0" and "keeps_lease u"
  shows "runs_evolve db0 db'"
proof -
  obtain b d where u: "update_with_lock u db = (b, d)" by fastforce
  with update_with_lock_evolves [of u db] assms(3,5) have "runs_evolve db d" by simp
  moreover have "db_runs db' = db_runs d"
    using assms(1,2) u by (auto simp: rbind_Inr_iff split: if_splits)
  ultimately show ?thesis using assms(4) by (metis runs_evolve_same runs_evolve_trans)
qed

lemma snapshot_path:
  assumes "snapshot s db" "run_get (lu_run_id u) db = Some r" "lock_ok u r" "lu_run_id u = ar_id s"
    "lu_expected_version u = ar_version s"
  shows "ar_status r = ar_status s"
  using assms by (auto simp: snapshot_def run_evolves_def lock_ok_def)

lemma reconcile_expired_run_evolves:
  assumes "reconcile_expired_run now clk r (k, db) = Inr (k', db')" "snapshot r db"
    "ar_status r \<in> {Running, PauseRequested}"
  shows "runs_evolve db db'"
proof -
  have path: "run_path Running Paused" "run_path PauseRequested Paused" "run_path (ar_status r) Failed"
    using assms(3) by (auto intro!: run_edge.valid)
  obtain m n where k: "k = (m, n)" by fastforce
  from assms(1) obtain resumable where "is_resumable_run_checkpoint (ar_checkpoint r) = Inr resumable"
    by (auto simp: reconcile_expired_run_def Let_def k rbind_Inr_iff)
  with assms(1) show ?thesis
    unfolding reconcile_expired_run_def Let_def k prod.case rbind_simps
    by (auto split: if_splits elim!: branch_evolves dest!: keeps_runs snapshot_path [OF assms(2)]
        simp: path simp del: append.simps)
qed

lemma reconcile_queued_run_evolves:
  assumes "reconcile_queued_run q stale now clk r (k, db) = Inr (k', db')"
  shows "runs_evolve db db'"
proof -
  have path: "run_path Queued Failed" by (auto intro: run_edge.never_claimed)
  obtain m n where k: "k = (m, n)" by fastforce
  show ?thesis
  proof (cases "get_latest_run_job (ar_id r) db")
    case None
    with assms show ?thesis by (simp add: reconcile_queued_run_def k)
  next
    case (Some latest)
    show ?thesis
      using assms path unfolding reconcile_queued_run_def Let_def k prod.case Some option.case
      by (auto split: if_splits elim!: branch_evolves rbind_InrE dest!: keeps_runs
        simp: lock_ok_def)
  qed
qed

lemma permission_insert_runs: "permission_insert p db = Inr db' \<Longrightarrow> db_runs db' = db_runs db"
  using permission_insert_frame by blast

lemma create_dlq_retry_request_runs:
  "create_dlq_retry_request wp env e clk db = Inr (p, db') \<Longrightarrow> db_runs db' = db_runs db"
  by (auto simp: create_dlq_retry_request_def op_simps split: option.splits prod.splits if_splits
      dest!: permission_insert_runs)

lemma create_terminal_event_repair_request_runs:
  "create_terminal_event_repair_request repr env rid clk db = Inr (p, db') \<Longrightarrow> db_runs db' = db_runs db"
  by (auto simp: create_terminal_event_repair_request_def op_simps split: option.splits prod.splits if_splits bool.splits
      dest!: permission_insert_runs)

lemma snd_frames [simp]:
  "db_runs (snd (trace_or_new r db)) = db_runs db"
  "db_runs (snd (deny_request p ty note now db)) = db_runs db"
  by (simp_all add: trace_or_new_def deny_request_def Let_def split: option.split)

lemma resolve_terminal_event_repair_request_runs:
  assumes "resolve_terminal_event_repair_request repr pid decision note clk db = Inr (x, db')"
  shows "db_runs db' = db_runs db"
proof -
  from assms obtain request g where "guard_request (permission_get pid db) TERMINAL_EVENT_REPAIR_TOOL_NAME decision (clk 0) = Inr (request, g)"
    by (auto simp: resolve_terminal_event_repair_request_def elim!: rbind_InrE)
  with assms show ?thesis
    unfolding resolve_terminal_event_repair_request_def Let_def rbind_simps prod.case
    by (auto simp: split_def split: if_splits option.splits elim!: rbind_InrE dest!: publish_event_runs)
qed

text \<open>The two retries write a new run beside the failed one.\<close>

lemma created_evolves:
  assumes "run_create r d = Inr d1" "db_runs d = db_runs db" "db_runs db' = db_runs d1"
    "ar_status r = Queued" "1 \<le> ar_version r"
  shows "runs_evolve db db'"
  using run_create_evolves [OF assms(1,4,5)] assms(2,3) by (metis runs_evolve_same runs_evolve_trans)

lemma retry_failed_step_evolves:
  assumes "retry_failed_step rid sid clk db = Inr (x, db')" shows "runs_evolve db db'"
proof (cases "run_get (retry_replacement_id rid sid) db")
  case (Some r)
  then show ?thesis using assms by (simp add: retry_failed_step_def Let_def)
next
  case None
  have step: "runs_evolve db db2" if "locked u d = Inr d1" "run_create r d1 = Inr d2" "db_runs d = db_runs db"
    "db_runs db2 = db_runs d2" "lu_expected_status u = Some Failed" "lu_new_status u = Failed" "keeps_lease u"
    "ar_status r = Queued" "1 \<le> ar_version r" for u d d1 r d2 db2
  proof -
    have "runs_evolve db d1"
      using that by (intro op_evolves_expected [of u d d1 db d1 Failed]) (simp_all add: locked_Inr)
    then show ?thesis using created_evolves [OF that(2) refl that(4,8,9)] by (rule runs_evolve_trans)
  qed
  show ?thesis
    using assms unfolding retry_failed_step_def Let_def None option.case
    by (auto split: option.splits if_splits elim!: rbind_InrE dest!: events_append_runs outbox_create_runs)
      (erule (1) step; simp)
qed

lemma resolve_dlq_retry_request_evolves:
  assumes "resolve_dlq_retry_request repr wp pid decision note clk db = Inr (x, db')" shows "runs_evolve db db'"
proof -
  from assms obtain request g where "guard_request (permission_get pid db) DLQ_RETRY_TOOL_NAME decision (clk 0) = Inr (request, g)"
    by (auto simp: resolve_dlq_retry_request_def elim!: rbind_InrE)
  with assms show ?thesis
    unfolding resolve_dlq_retry_request_def Let_def rbind_simps prod.case
    by (auto simp: split_def split: if_splits option.splits elim!: rbind_InrE
        dest!: outbox_create_runs events_append_runs elim!: created_evolves intro: runs_evolve_same)
qed

text \<open>An expired permission request takes the run that waits for it along; a decision leaves the runs alone.\<close>

lemma expire_run_evolves:
  assumes "expire_run req now clk db = Inr db'" shows "runs_evolve db db'"
proof (cases "run_get (pr_run_id req) db")
  case None
  then show ?thesis using assms by (simp add: expire_run_def)
next
  case (Some run)
  have step: "run_path WaitingPermission Failed" by (auto intro!: run_edge.valid)
  show ?thesis
    using assms Some step unfolding expire_run_def Let_def
    by (auto split: if_splits prod.splits dest!: append_expiry_events_runs elim!: op_evolves_expected)
qed

lemma expire_request_evolves:
  assumes "expire_request_locked req now clk db = Inr db'" shows "runs_evolve db db'"
proof (cases "pr_status req = PermPending")
  case True
  let ?req = "req\<lparr>pr_status := PermExpired, pr_decided_at := Some now, pr_note := Some ''deadline_elapsed''\<rparr>"
  let ?d = "expire_step ?req now (expire_tool_call ?req now (permission_update ?req db))"
  from assms True obtain d where d: "expire_run ?req now clk ?d = Inr d" "db_runs db' = db_runs d"
    unfolding expire_request_locked_def Let_def by (auto elim!: rbind_InrE)
  have "runs_evolve db ?d" by (rule runs_evolve_same) simp
  also have "runs_evolve ?d d" by (rule expire_run_evolves [OF d(1)])
  also have "runs_evolve d db'" using d(2) by (rule runs_evolve_same)
  finally show ?thesis .
qed (use assms in \<open>simp add: expire_request_locked_def\<close>)

lemma expire_pending_evolves:
  assumes "expire_pending_requests limit clk db = Inr (n, db')" shows "runs_evolve db db'"
proof -
  have "foldR (\<lambda>req. expire_request_locked req now clk) reqs d = Inr d' \<Longrightarrow> runs_evolve d d'" for now reqs d d'
    by (induction reqs arbitrary: d) (auto elim!: rbind_InrE dest!: expire_request_evolves intro: runs_evolve_trans)
  with assms show ?thesis by (auto simp: expire_pending_requests_def Let_def split: if_splits elim!: rbind_InrE)
qed

lemma decide_evolves:
  assumes "decide_tx pid decision txt clk db = Inr (x, db')" shows "runs_evolve db db'"
  using assms by (auto simp: decide_tx_def split: option.splits if_splits elim!: rbind_InrE
      dest!: expire_request_evolves intro: runs_evolve_same dest: record_decision_runs)

section \<open>Events of a worker\<close>

text \<open>
  The events that end a run are not checked against the table; an event is in order when the run it
  ends is in a status from which the table allows it.
\<close>

definition event_in_order :: "event_envelope \<Rightarrow> db \<Rightarrow> bool" where
  "event_in_order e db \<longleftrightarrow> (\<forall>rid r. ee_run_id e = JId rid \<longrightarrow> run_get rid db = Some r \<longrightarrow>
     (ee_event_type e = JStr ''agent.run.completed'' \<longrightarrow> Completed \<in> set (VALID_TRANSITIONS (ar_status r))) \<and>
     (ee_event_type e = JStr ''agent.run.failed'' \<longrightarrow> Failed \<in> set (VALID_TRANSITIONS (ar_status r))))"

text \<open>\<open>runs_evolve\<close> looks at the rows of the runs only.\<close>

definition evolves :: "agent_run list \<Rightarrow> agent_run list \<Rightarrow> bool" where
  "evolves rs rs' \<longleftrightarrow> runs_evolve (empty_db\<lparr>db_runs := rs\<rparr>) (empty_db\<lparr>db_runs := rs'\<rparr>)"

lemma runs_evolve_iff: "runs_evolve db db' \<longleftrightarrow> evolves (db_runs db) (db_runs db')"
  unfolding evolves_def runs_evolve_def run_get_def by (simp cong: option.case_cong)

lemma evolves_refl [simp]: "evolves rs rs"
  by (simp add: evolves_def)

fun holder_field :: "run_field \<Rightarrow> bool" where
  "holder_field (SetWorkerId _) = True"
| "holder_field (SetLeaseUntil _) = True"
| "holder_field _ = False"

lemma fold_apply_field_holder:
  "\<not> list_ex holder_field cs \<Longrightarrow>
     ar_worker_id (fold apply_field cs r) = ar_worker_id r \<and> ar_lease_until (fold apply_field cs r) = ar_lease_until r"
proof (induction cs arbitrary: r)
  case (Cons c cs)
  then show ?case by (cases c) simp_all
qed simp

lemma transition_keeps_lease:
  "t \<notin> held_statuses \<or> \<not> list_ex holder_field cs \<and> ar_status run \<in> held_statuses \<union> {t} \<Longrightarrow>
     keeps_lease (transition_lock run t cs now)"
  by (auto simp: keeps_lease_def transition_lock_def updated_run_def lock_ok_def run_leased_def fold_apply_field_holder)

lemma transition_evolves:
  assumes "transition run t cs now db = Inr (run', db')" "run_path (ar_status run) t"
    "t \<notin> held_statuses \<or> \<not> list_ex holder_field cs \<and> ar_status run \<in> held_statuses \<union> {t}" "evolves rs (db_runs db)"
  shows "evolves rs (db_runs db')"
proof -
  let ?u = "transition_lock run t cs now"
  have "runs_evolve db (snd (update_with_lock ?u db))"
    by (rule update_with_lock_evolves) (use assms(2,3) transition_keeps_lease in \<open>auto simp: transition_lock_def lock_ok_def\<close>)
  then have "runs_evolve db db'" using assms(1) by (simp add: transition_Inr)
  with assms(4) show ?thesis
    unfolding evolves_def using runs_evolve_trans [of "empty_db\<lparr>db_runs := rs\<rparr>" "empty_db\<lparr>db_runs := db_runs db\<rparr>"]
    by (simp add: runs_evolve_iff)
qed

lemma create_execution_step_evolves:
  "create_execution_step run st now db = Inr ((st', run'), db') \<Longrightarrow> evolves rs (db_runs db) \<Longrightarrow> evolves rs (db_runs db')"
  by (auto simp: create_execution_step_def Let_def split: if_splits elim!: rbind_InrE dest!: create_frames(1)
      elim!: transition_evolves)

lemma step_for_event_evolves:
  "step_for_event h run tid sid ty ti md f i c now db = Inr (x, db') \<Longrightarrow> evolves rs (db_runs db) \<Longrightarrow> evolves rs (db_runs db')"
  by (cases x) (auto simp: step_for_event_def split: option.splits elim!: rbind_InrE elim: create_execution_step_evolves)

lemma record_model_event_evolves:
  "record_model_event h et p tid run sid c now db = Inr (r, db') \<Longrightarrow> evolves rs (db_runs db) \<Longrightarrow> evolves rs (db_runs db')"
  by (auto simp: record_model_event_def Let_def split: option.splits if_splits prod.splits elim!: rbind_InrE
      dest!: step_for_event_evolves)

lemma tool_call_for_event_runs: "tool_call_for_event h et data cid tid rid sid c db = Inr (x, db') \<Longrightarrow> db_runs db' = db_runs db"
  by (auto simp: tool_call_for_event_def split: option.splits if_splits elim!: rbind_InrE dest!: create_frames(2))

lemma record_tool_event_evolves:
  "record_tool_event h et p tid run sid c now db = Inr (r, db') \<Longrightarrow> evolves rs (db_runs db) \<Longrightarrow> evolves rs (db_runs db')"
  by (auto simp: record_tool_event_def Let_def split: option.splits if_splits prod.splits bool.splits elim!: rbind_InrE
      dest!: step_for_event_evolves tool_call_for_event_runs)

lemma record_artifact_evolves:
  "record_artifact h p tid run sid c now db = Inr (r, db') \<Longrightarrow> evolves rs (db_runs db) \<Longrightarrow> evolves rs (db_runs db')"
  by (auto simp: record_artifact_def split: json.splits if_splits elim!: rbind_InrE dest!: artifact_create_frame
      elim!: transition_evolves)

lemma record_permission_required_runs:
  "record_permission_required h p tid rid sid c cp db = Inr db' \<Longrightarrow> db_runs db' = db_runs db"
  by (auto simp: record_permission_required_def Let_def split: option.splits if_splits elim!: rbind_InrE
      dest!: create_frames(3))

lemma table_paths [simp]:
  "run_path Running WaitingPermission" "run_path WaitingPermission Running" "run_path Running Paused"
  "run_path PauseRequested Paused" "run_path Running CancelRequested" "run_path WaitingPermission CancelRequested"
  "run_path CancelRequested Cancelling" "run_path Cancelling Cancelled"
  by (auto intro!: run_edge.valid)

lemma project_cancelled_evolves:
  "project_cancelled run task c now db = Inr db' \<Longrightarrow> evolves rs (db_runs db) \<Longrightarrow> evolves rs (db_runs db')"
proof -
  let ?x = "cancel_open_children (ar_id run) c (expire_pending_permissions (ar_id run) c ''run_cancelled'' db)"
  assume p: "project_cancelled run task c now db = Inr db'" and e: "evolves rs (db_runs db)"
  have x: "evolves rs (db_runs ?x)" using e by simp
  have step: "evolves rs (db_runs d1) \<and> ar_status r1 = t"
    if "transition r t [] now d = Inr (r1, d1)" "run_edge (ar_status r) t" "t \<notin> held_statuses" "evolves rs (db_runs d)"
    for r t d r1 d1
    using transition_evolves [OF that(1) _ _ that(4)] transition_writes(7) [OF that(1)] that(2,3) by auto
  have last: "evolves rs (db_runs d1)"
    if "transition r Cancelled [SetLeaseUntil None, SetCheckpoint []] now d = Inr (r1, d1)" "ar_status r = Cancelling"
      "evolves rs (db_runs d)" for r d r1 d1
    by (rule transition_evolves [OF that(1) _ _ that(3)]) (simp_all add: that(2))
  have edges: "run_edge Running CancelRequested" "run_edge WaitingPermission CancelRequested" "run_edge CancelRequested Cancelling"
    by (auto intro: run_edge.valid)
  show ?thesis
    using p x edges
    by (auto simp: project_cancelled_def Let_def split: if_splits elim!: rbind_InrE dest!: step last) 
qed

lemma project_event_evolves:
  assumes "project_event h et p run task sid c cp now db = Inr db'" "evolves rs (db_runs db)"
    and "et = ''agent.run.completed'' \<Longrightarrow> Completed \<in> set (VALID_TRANSITIONS (ar_status run))"
    and "et = ''agent.run.failed'' \<Longrightarrow> Failed \<in> set (VALID_TRANSITIONS (ar_status run))"
  shows "evolves rs (db_runs db')"
proof -
  have path: "et = ''agent.run.completed'' \<Longrightarrow> run_path (ar_status run) Completed"
    "et = ''agent.run.failed'' \<Longrightarrow> run_path (ar_status run) Failed"
    using assms(3,4) by (auto intro!: run_edge.valid)
  have x: "project_completed h p run task c now db = Inr db' \<Longrightarrow> et = ''agent.run.completed'' \<Longrightarrow> ?thesis"
    "project_failed p run task c now db = Inr db' \<Longrightarrow> et = ''agent.run.failed'' \<Longrightarrow> ?thesis"
    "project_paused run task c now db = Inr db' \<Longrightarrow> ?thesis" "project_resumed run task c db = Inr db' \<Longrightarrow> ?thesis"
    "project_permission_required h p run task sid c cp now db = Inr db' \<Longrightarrow> ?thesis"
    "project_permission_resolved h p run task c now db = Inr db' \<Longrightarrow> ?thesis"
    "project_permission_expired h p run task sid c db = Inr db' \<Longrightarrow> ?thesis"
    using assms(2) path
    by (auto simp: project_completed_def project_failed_def project_paused_def project_resumed_def Let_def
        project_permission_required_def project_permission_resolved_def project_permission_expired_def
        split: if_splits option.splits prod.splits elim!: rbind_InrE dest!: record_output_frame record_permission_required_runs
        elim!: transition_evolves)
  show ?thesis
    using assms(1,2) x
    by (auto simp: project_event_def Let_def split: if_splits elim!: rbind_InrE
        dest: record_tool_event_evolves record_model_event_evolves record_artifact_evolves project_cancelled_evolves)
qed

lemma record_envelope_evolves:
  assumes "record_envelope h e clk db = Inr (b, db')" "event_in_order e db"
  shows "runs_evolve db db'"
  using assms(1) runs_evolve_refl
proof (rule record_envelope_keeps [where P = "runs_evolve db"])
  fix p run task stored projected db1 rows db2 db3
  assume rec: "recorded h e clk db db' p run task stored projected db1 rows db2 db3"
  note q = rec [unfolded recorded_def]
  let ?et = "case ee_event_type projected of JStr t \<Rightarrow> t | _ \<Rightarrow> []"
  have ty: "ee_event_type projected = ee_event_type e" using q bounded_type(2) prepare_facts(1) by metis
  have rid: "ee_run_id e = JId (pp_run_id p)"
    using prepare_facts(2) [of h e p] q by (cases "ee_run_id e") auto
  have ok: "?et = ''agent.run.completed'' \<Longrightarrow> Completed \<in> set (VALID_TRANSITIONS (ar_status run))"
    "?et = ''agent.run.failed'' \<Longrightarrow> Failed \<in> set (VALID_TRANSITIONS (ar_status run))"
    using assms(2) q rid ty by (auto simp: event_in_order_def split: json.splits)
  let ?d = "snd (inbox_try_insert (''runtime-event'', ee_event_id e) db)"
  let ?pl = "dget (ee_runtime_event projected) ''payload'' (JObj [])"
  have "evolves (db_runs db) (db_runs db1)"
  proof (cases "pp_run_checkpoint p = []")
    case True
    then have "project_event h ?et ?pl run task (pp_step_id p) (pp_created_at p) (pp_checkpoint p) (clk 0) ?d = Inr db1"
      using q by (simp add: apply_projection_def)
    from project_event_evolves [OF this _ ok, of "db_runs db"] show ?thesis by simp
  next
    case False
    with q obtain run1 d1 where tr: "transition run (ar_status run) [SetCheckpoint (pp_run_checkpoint p)] (clk 0) ?d = Inr (run1, d1)"
      and pe: "project_event h ?et ?pl run1 task (pp_step_id p) (pp_created_at p) (pp_checkpoint p) (clk 0) d1 = Inr db1"
      by (auto simp: apply_projection_def elim!: rbind_InrE)
    have "evolves (db_runs db) (db_runs d1)" by (rule transition_evolves [OF tr]) simp_all
    from project_event_evolves [OF pe this] ok transition_writes(7) [OF tr] show ?thesis by simp
  qed
  then show "runs_evolve db db'" using recorded_core [OF rec] by (simp add: runs_evolve_iff core_def)
qed

section \<open>Interleaved transactions\<close>

text \<open>
  A configuration is the store and the runs that some transaction has read.  A run that was read
  may be acted on much later, after any number of other transactions.
\<close>

inductive svc_step :: "agent_run set \<times> db \<Rightarrow> agent_run set \<times> db \<Rightarrow> bool" where
  read: "run_get rid db = Some r \<Longrightarrow> svc_step (S, db) (insert r S, db)"
| claim_run: "claim_run rid w v clk db = Inr (x, db') \<Longrightarrow> svc_step (S, db) (S, db')"
| claim_job: "r \<in> S \<Longrightarrow> claim_job_from r w e clk db = Inr (d, db') \<Longrightarrow> svc_step (S, db) (S, db')"
| claim_permission_resume:
    "r \<in> S \<Longrightarrow> claim_permission_resume_from r w clk db = Inr (d, db') \<Longrightarrow> svc_step (S, db) (S, db')"
| claim_recovery: "r \<in> S \<Longrightarrow> claim_recovery_from r w e clk db = Inr (d, db') \<Longrightarrow> svc_step (S, db) (S, db')"
| renew_lease: "renew_run_lease rid w clk db = Inr (b, db') \<Longrightarrow> svc_step (S, db) (S, db')"
| cancel: "r \<in> S \<Longrightarrow> cancel_run_from r reason clk db = Inr (u, db') \<Longrightarrow> svc_step (S, db) (S, db')"
| pause: "r \<in> S \<Longrightarrow> pause_run_from r reason clk db = Inr (u, db') \<Longrightarrow> svc_step (S, db) (S, db')"
| resume: "r \<in> S \<Longrightarrow> resume_run_from r clk db = Inr (u, db') \<Longrightarrow> svc_step (S, db) (S, db')"
| fail_delivery: "r \<in> S \<Longrightarrow> fail_run_queue_delivery_from r e code n clk db = Inr db' \<Longrightarrow> svc_step (S, db) (S, db')"
| reconcile_expired: "r \<in> S \<Longrightarrow> ar_status r \<in> {Running, PauseRequested} \<Longrightarrow>
    reconcile_expired_run now clk r (k, db) = Inr (k', db') \<Longrightarrow> svc_step (S, db) (S, db')"
| reconcile_queued: "r \<in> S \<Longrightarrow> reconcile_queued_run q stale now clk r (k, db) = Inr (k', db') \<Longrightarrow>
    svc_step (S, db) (S, db')"
| retry_step: "retry_failed_step rid sid clk db = Inr (x, db') \<Longrightarrow> svc_step (S, db) (S, db')"
| request_dlq_retry: "create_dlq_retry_request wp env ev clk db = Inr (p, db') \<Longrightarrow> svc_step (S, db) (S, db')"
| resolve_dlq_retry: "resolve_dlq_retry_request repr wp pid decision note clk db = Inr (y, db') \<Longrightarrow>
    svc_step (S, db) (S, db')"
| request_repair: "create_terminal_event_repair_request repr env rid clk db = Inr (p, db') \<Longrightarrow>
    svc_step (S, db) (S, db')"
| resolve_repair: "resolve_terminal_event_repair_request repr pid decision note clk db = Inr (y, db') \<Longrightarrow>
    svc_step (S, db) (S, db')"
| decide_permission: "decide_tx pid decision note clk db = Inr (z, db') \<Longrightarrow> svc_step (S, db) (S, db')"
| record_event: "record_envelope h e clk db = Inr (b, db') \<Longrightarrow> event_in_order e db \<Longrightarrow> svc_step (S, db) (S, db')"
| expire_permissions: "expire_pending_requests limit clk db = Inr (n, db') \<Longrightarrow> svc_step (S, db) (S, db')"

inductive_cases svc_stepE: "svc_step (S, db) (S', db')"

lemma svc_step_evolves:
  assumes "svc_step (S, db) (S', db')" "\<forall>r \<in> S. snapshot r db"
  shows "runs_evolve db db' \<and> (\<forall>r \<in> S'. snapshot r db')"
proof -
  have "runs_evolve db db'"
    using assms by (cases rule: svc_stepE) (auto intro: claim_run_evolves claim_job_evolves
      claim_permission_resume_evolves claim_recovery_evolves renew_lease_evolves cancel_run_evolves pause_run_evolves
      resume_run_evolves fail_run_queue_delivery_evolves reconcile_expired_run_evolves reconcile_queued_run_evolves
      retry_failed_step_evolves resolve_dlq_retry_request_evolves runs_evolve_same create_dlq_retry_request_runs
      create_terminal_event_repair_request_runs resolve_terminal_event_repair_request_runs
      decide_evolves expire_pending_evolves record_envelope_evolves)
  moreover have "\<forall>r \<in> S'. snapshot r db \<or> snapshot r db'"
    using assms by (cases rule: svc_stepE) (auto intro: snapshot_read)
  ultimately show ?thesis using snapshot_evolve by blast
qed

abbreviation svc_steps :: "agent_run set \<times> db \<Rightarrow> agent_run set \<times> db \<Rightarrow> bool" where
  "svc_steps \<equiv> svc_step\<^sup>*\<^sup>*"

lemma svc_steps_read: "run_get rid db = Some r \<Longrightarrow> svc_steps ({}, db) ({r}, db)"
proof -
  assume "run_get rid db = Some r"
  then have "svc_step ({}, db) ({r}, db)" by (rule svc_step.read)
  then show ?thesis by (rule r_into_rtranclp)
qed

lemma svc_steps_evolve:
  assumes "svc_steps (S, db) (S', db')" "\<forall>r \<in> S. snapshot r db"
  shows "runs_evolve db db' \<and> (\<forall>r \<in> S'. snapshot r db')"
  using assms
proof (induction rule: rtranclp_induct2)
  case (step S1 db1 S2 db2)
  then show ?case using svc_step_evolves runs_evolve_trans by blast
qed simp

lemma run_path_terminal: "run_path s s' \<Longrightarrow> s \<in> set TERMINAL_STATUSES \<Longrightarrow> s' = s"
  by (induction rule: rtranclp_induct) (auto simp: run_edge_iff TERMINAL_STATUSES_def)

lemma run_path_cancel:
  "run_path s s' \<Longrightarrow> s \<in> {CancelRequested, Cancelling, Cancelled} \<Longrightarrow> s' \<in> {CancelRequested, Cancelling, Cancelled}"
  by (induction rule: rtranclp_induct) (auto simp: run_edge_iff)

section \<open>Properties of the lifecycle\<close>


text \<open>
  A run that is completed, failed or cancelled keeps its status in every interleaving of the
  service's operations.
\<close>

theorem terminal_runs_frozen:
  assumes "svc_steps ({}, db) (S, db')" and "run_get rid db = Some r"
    and "ar_status r \<in> set TERMINAL_STATUSES"
  shows "\<exists>r'. run_get rid db' = Some r' \<and> ar_status r' = ar_status r"
proof -
  have "runs_evolve db db'" using svc_steps_evolve [OF assms(1)] by simp
  from runs_evolve_Some [OF this assms(2)] show ?thesis
    using run_path_terminal assms(3) by (auto simp: run_evolves_def)
qed

section \<open>Claims\<close>

text \<open>The three ways a worker is told to execute a run it read as \<open>r\<close>.\<close>

inductive claim_executes :: "agent_run \<Rightarrow> string \<Rightarrow> clock \<Rightarrow> db \<Rightarrow> db \<Rightarrow> bool" where
  job: "claim_job_from r w e clk db = Inr (Execute, db') \<Longrightarrow> claim_executes r w clk db db'"
| permission: "claim_permission_resume_from r w clk db = Inr (Execute, db') \<Longrightarrow> claim_executes r w clk db db'"
| recovery: "claim_recovery_from r w e clk db = Inr (Execute, db') \<Longrightarrow> claim_executes r w clk db db'"

inductive_cases claim_executesE: "claim_executes r w clk db db'"

lemma claim_executes_step: "claim_executes r w clk db db' \<Longrightarrow> r \<in> S \<Longrightarrow> svc_step (S, db) (S, db')"
  by (erule claim_executesE) (auto intro: svc_step.intros)

definition taken_over :: "agent_run \<Rightarrow> string \<Rightarrow> clock \<Rightarrow> db \<Rightarrow> db \<Rightarrow> bool" where
  "taken_over r w clk db db' \<longleftrightarrow> (\<exists>c c'. run_get (ar_id r) db = Some c \<and> ar_version c = ar_version r \<and>
     ar_status c \<in> {Queued, WaitingPermission, Paused, ResumeRequested} \<and>
     run_get (ar_id r) db' = Some c' \<and> ar_status c' = Running \<and> ar_version c' = ar_version r + 1 \<and>
     ar_worker_id c' = Some w \<and> ar_lease_until c' = Some (clk 1 + seconds 60))"

lemma locked_taken_over:
  assumes "locked u d = Inr d'" "db_runs d = db_runs db" "db_runs db' = db_runs d'"
    "lu_run_id u = ar_id r" "lu_expected_version u = ar_version r" "lu_new_status u = Running"
    "lu_expected_status u = Some s" "s \<in> {Queued, WaitingPermission, Paused, ResumeRequested}"
    "\<And>c. ar_worker_id (updated_run u c) = Some w" "\<And>c. ar_lease_until (updated_run u c) = Some (clk 1 + seconds 60)"
  shows "taken_over r w clk db db'"
proof -
  from assms(1) obtain c where c: "run_get (lu_run_id u) d = Some c" "lock_ok u c" "d' = run_put (updated_run u c) d"
    by (auto simp: locked_Inr update_with_lock_True)
  have get: "run_get k db = run_get k d" "run_get k db' = run_get k d'" for k
    using assms(2,3) by (simp_all add: run_get_def)
  show ?thesis
    unfolding taken_over_def get
    using c assms(4-8) runs.get_key [OF c(1)]
    by (intro exI [of _ c] exI [of _ "updated_run u c"]) (auto simp: runs.get_put lock_ok_def assms(9,10))
qed

lemma claim_executes_taken_over: "claim_executes r w clk db db' \<Longrightarrow> taken_over r w clk db db'"
proof (erule claim_executesE)
  fix e assume c: "claim_job_from r w e clk db = Inr (Execute, db')"
  obtain b d where ins: "inbox_try_insert (''run-queue'', e) db = (b, d)" by fastforce
  from c show ?thesis
    using ins inbox_try_insert_runs [OF ins]
    by (auto simp: claim_job_from_def op_simps updated_run_def split: if_splits elim!: locked_taken_over)
next
  assume "claim_permission_resume_from r w clk db = Inr (Execute, db')"
  then show ?thesis
    by (auto simp: claim_permission_resume_from_def op_simps updated_run_def split: if_splits elim!: locked_taken_over)
next
  fix e assume c: "claim_recovery_from r w e clk db = Inr (Execute, db')"
  obtain b d where ins: "inbox_try_insert (''run-recovery'', e) db = (b, d)" by fastforce
  from c show ?thesis
    using ins inbox_try_insert_runs [OF ins]
    by (auto simp: claim_recovery_from_def op_simps updated_run_def split: if_splits elim!: locked_taken_over)
qed

text \<open>
  A worker that is told to execute owns the run: the run was waiting for a worker at the version
  that was read, and is now running under that worker's name, one version later, with a lease of
  sixty seconds.
\<close>

theorem execute_owns_run:
  assumes "claim_executes r w clk db db'"
  shows "\<exists>c c'. run_get (ar_id r) db = Some c \<and> ar_version c = ar_version r \<and>
     ar_status c \<in> {Queued, WaitingPermission, Paused, ResumeRequested} \<and>
     run_get (ar_id r) db' = Some c' \<and> ar_status c' = Running \<and> ar_version c' = ar_version r + 1 \<and>
     ar_worker_id c' = Some w \<and> ar_lease_until c' = Some (clk 1 + seconds 60)"
  using claim_executes_taken_over [OF assms] by (simp add: taken_over_def)

text \<open>
  C2. Two workers that read the same run, or one that read an older version of it, are never both
  told to execute it, whatever transactions happen in between and whichever of the three claims
  each of them uses.
\<close>

theorem claim_exclusive:
  assumes "svc_steps ({}, db) (S, db1)" and "r \<in> S" and "claim_executes r w clk db1 db2"
    and "svc_steps (S, db2) (S', db3)" and "ar_id r' = ar_id r" and "ar_version r' \<le> ar_version r"
  shows "\<not> claim_executes r' w' clk' db3 db4"
proof
  assume again: "claim_executes r' w' clk' db3 db4"
  have snap: "\<forall>x \<in> S. snapshot x db1" using svc_steps_evolve [OF assms(1)] by simp
  have "\<forall>x \<in> S. snapshot x db2"
    using svc_step_evolves [OF claim_executes_step [OF assms(3,2)] snap] by simp
  then have "runs_evolve db2 db3" using svc_steps_evolve [OF assms(4)] by simp
  moreover obtain c' where "run_get (ar_id r) db2 = Some c'" "ar_version c' = ar_version r + 1"
    using claim_executes_taken_over [OF assms(3)] by (auto simp: taken_over_def)
  ultimately obtain c3 where "run_get (ar_id r) db3 = Some c3" "ar_version r + 1 \<le> ar_version c3"
    using runs_evolve_Some by (fastforce simp: run_evolves_def)
  with claim_executes_taken_over [OF again] show False using assms(5,6) by (auto simp: taken_over_def)
qed

text \<open>
  A queue message is claimed at most once: after a claim of a job succeeded, every later claim
  with the same source event id, of whatever version of the run, is answered as a duplicate and
  leaves the store as it was.
\<close>

theorem claim_job_once:
  assumes "claim_job_from r w e clk db = Inr (d, db1)" and "\<And>k. inbox_seen k db1 \<Longrightarrow> inbox_seen k db2"
  shows "claim_job_from r' w' e clk' db2 = Inr (Duplicate, db2)"
proof -
  let ?k = "(''run-queue'', e)"
  obtain b d1 where ins: "inbox_try_insert ?k db = (b, d1)" by fastforce
  have seen1: "inbox_seen ?k d1" using inbox.seen_after [of ?k ?k db] ins by simp
  have lock: "inbox_seen ?k d2" if "locked u d1 = Inr d2" for u d2
    using that seen1 by (auto simp: locked_Inr update_with_lock_True inbox_seen_def)
  have "inbox_seen ?k db1"
    using assms(1) ins seen1 lock by (auto simp: claim_job_from_def op_simps inbox_seen_mark split: if_splits)
  then have "inbox_seen ?k db2" by (rule assms(2))
  then have "inbox_try_insert ?k db2 = (False, db2)" by (simp add: inbox_try_insert_def)
  then show ?thesis by (simp add: claim_job_from_def)
qed


text \<open>
  No run is lost with its worker: in every reachable store a run that is running, or asked to
  pause, names its worker and the end of its lease, and once the lease has expired the
  reconciliation query returns it.
\<close>

theorem held_runs_reconcilable:
  assumes "svc_steps ({}, db0) (S, db)" and "\<And>rid r. run_get rid db0 = Some r \<Longrightarrow> run_leased r"
    and "run_get rid db = Some r" and "ar_status r \<in> {Running, PauseRequested}"
  shows "\<exists>w t. ar_worker_id r = Some w \<and> ar_lease_until r = Some t \<and>
    (t \<le> now \<longrightarrow> int (length (db_runs db)) \<le> limit \<longrightarrow> r \<in> set (list_expired_running now limit db))"
proof -
  have "runs_evolve db0 db" using svc_steps_evolve [OF assms(1)] by simp
  then have "new_or_old (run_get rid db0) r"
    unfolding runs_evolve_def using assms(3) by (metis option.simps(5))
  then have "run_leased r"
    using assms(2) by (auto simp: new_or_old_def run_evolves_def split: option.splits)
  then obtain w t where wt: "ar_worker_id r = Some w" "ar_lease_until r = Some t"
    using assms(4) by (auto simp: run_leased_def)
  have mem: "r \<in> set (db_runs db)" using assms(3) row_get_mem by (auto simp: run_get_def)
  have "r \<in> set (list_expired_running now limit db)" if "t \<le> now" "int (length (db_runs db)) \<le> limit"
  proof -
    let ?xs = "filter (\<lambda>r. ar_status r \<in> {Running, PauseRequested} \<and>
          (case ar_lease_until r of None \<Rightarrow> False | Some t \<Rightarrow> t \<le> now)) (db_runs db)"
    have "length (filter P (db_runs db)) \<le> length (db_runs db)" for P by simp
    then have "length (filter P (db_runs db)) \<le> nat limit" for P using that(2) by (meson le_nat_iff of_nat_le_iff order_trans nat_le_iff of_nat_0_le_iff)
    then have "length (sort_key (\<lambda>r. the (ar_lease_until r)) ?xs) \<le> nat limit" by (simp only: length_sort)
    then show ?thesis
      using mem wt assms(4) that(1) by (simp add: list_expired_running_def)
  qed
  then show ?thesis using wt by blast
qed

section \<open>Witnesses\<close>

definition sample_run :: agent_run where
  "sample_run = new_agent_run (Uuid4 0) (Uuid4 1) 0 [] []"

definition sample_db :: db where
  "sample_db = empty_db\<lparr>db_next := 100, db_runs := [sample_run]\<rparr>"

definition claimed_db :: db where
  "claimed_db = (case claim_job (Uuid4 0) ''w1'' (JStr ''1-0'') int sample_db of Inr (_, db) \<Rightarrow> db | Inl _ \<Rightarrow> empty_db)"

lemma sample_claim: "claim_job_from sample_run ''w1'' (JStr ''1-0'') int sample_db = Inr (Execute, claimed_db)"
  by code_simp

lemma sample_read: "run_get (Uuid4 0) sample_db = Some sample_run"
  by code_simp

lemma sample_steps:
  "svc_steps ({}, sample_db) ({sample_run}, sample_db)"
  "svc_steps ({}, sample_db) ({sample_run}, claimed_db)"
proof -
  show read: "svc_steps ({}, sample_db) ({sample_run}, sample_db)"
    by (rule svc_steps_read [OF sample_read])
  have "svc_step ({sample_run}, sample_db) ({sample_run}, claimed_db)"
    by (rule svc_step.claim_job [OF _ sample_claim]) simp
  with read show "svc_steps ({}, sample_db) ({sample_run}, claimed_db)" by (rule rtranclp.rtrancl_into_rtrancl)
qed


definition completed_run :: agent_run where
  "completed_run = sample_run\<lparr>ar_status := Completed\<rparr>"

definition completed_db :: db where
  "completed_db = sample_db\<lparr>db_runs := [completed_run]\<rparr>"

lemma terminal_runs_frozen_witness:
  "\<exists>db'. svc_steps ({}, completed_db) ({completed_run}, db') \<and> db_inbox db' = [] \<and>
    (\<exists>r'. run_get (Uuid4 0) db' = Some r' \<and> ar_status r' = Completed)"
proof -
  have get: "run_get (Uuid4 0) completed_db = Some completed_run" by code_simp
  let ?db' = "inbox_mark_processed (''run-queue-dlq'', JStr ''1-0'') 4 completed_db"
  have fail: "fail_run_queue_delivery_from completed_run (JStr ''1-0'') ''E'' 5 int completed_db = Inr ?db'"
    by code_simp
  have "svc_steps ({}, completed_db) ({completed_run}, completed_db)"
    by (rule svc_steps_read [OF get])
  moreover have "svc_step ({completed_run}, completed_db) ({completed_run}, ?db')"
    by (rule svc_step.fail_delivery [OF _ fail]) simp
  ultimately have steps: "svc_steps ({}, completed_db) ({completed_run}, ?db')"
    by (rule rtranclp.rtrancl_into_rtrancl)
  have "ar_status completed_run \<in> set TERMINAL_STATUSES" "db_inbox ?db' = []" by code_simp+
  with terminal_runs_frozen [OF steps get] show ?thesis using steps by (auto simp: completed_run_def)
qed

lemma sample_executes: "claim_executes sample_run ''w1'' int sample_db claimed_db"
  by (rule claim_executes.job [OF sample_claim])

lemma execute_owns_run_witness:
  "\<exists>c c'. run_get (ar_id sample_run) sample_db = Some c \<and> ar_version c = ar_version sample_run \<and>
     ar_status c \<in> {Queued, WaitingPermission, Paused, ResumeRequested} \<and>
     run_get (ar_id sample_run) claimed_db = Some c' \<and> ar_status c' = Running \<and>
     ar_version c' = ar_version sample_run + 1 \<and> ar_worker_id c' = Some ''w1'' \<and>
     ar_lease_until c' = Some (int 1 + seconds 60)"
  by (rule execute_owns_run [OF sample_executes])

lemma claim_exclusive_witness: "\<nexists>db4. claim_executes sample_run ''w2'' int claimed_db db4"
  using claim_exclusive [OF sample_steps(1) _ sample_executes rtranclp.rtrancl_refl] by blast

lemma claim_job_once_witness:
  "claim_job_from sample_run ''w2'' (JStr ''1-0'') int claimed_db = Inr (Duplicate, claimed_db)"
  by (rule claim_job_once [OF sample_claim])

definition cancelled_db :: db where
  "cancelled_db = (case cancel_run (Uuid4 0) ''stop'' int claimed_db of Inr (_, db) \<Rightarrow> db | Inl _ \<Rightarrow> empty_db)"


lemma held_runs_reconcilable_witness:
  "\<exists>r w t. run_get (Uuid4 0) claimed_db = Some r \<and> ar_worker_id r = Some w \<and> ar_lease_until r = Some t \<and>
    (t \<le> seconds 90 \<longrightarrow> int (length (db_runs claimed_db)) \<le> 32 \<longrightarrow>
       r \<in> set (list_expired_running (seconds 90) 32 claimed_db))"
proof -
  obtain c' where c': "run_get (Uuid4 0) claimed_db = Some c'" "ar_status c' = Running"
    using claim_executes_taken_over [OF sample_executes] by (auto simp: taken_over_def sample_run_def)
  have init: "run_leased r" if "run_get rid sample_db = Some r" for rid r
    using that by (auto simp: sample_db_def run_get_def sample_run_def run_leased_def split: if_splits)
  show ?thesis
    using held_runs_reconcilable [OF sample_steps(2) init c'(1), where now = "seconds 90" and limit = 32] c' by auto
qed

end
