(* ===== verification/RunRecovery.thy ===== *)
theory RunRecovery
  imports RunLifecycle
begin

text \<open>
  What the failure, control and recovery operations of \<open>runtime/runs/service.py\<close> leave behind: closed
  children, gap-free event sequences, messages that their receivers decode, a bounded number of
  recoveries, and the outcome of reconciliation.
\<close>

section \<open>Publishing an event\<close>

lemma publish_event_frame:
  "publish_event run eid ty p t w c now clk db = Inr db' \<Longrightarrow>
     db_tasks db' = db_tasks db \<and> db_runs db' = db_runs db \<and> db_steps db' = db_steps db \<and>
     db_tool_calls db' = db_tool_calls db \<and> db_permissions db' = db_permissions db \<and> db_inbox db' = db_inbox db"
  by (auto simp: publish_event_def rbind_Inr_iff dest!: outbox_create_frame events_append_frame)

lemma publish_event_events:
  assumes "publish_event run eid ty p t w c now clk db = Inr db'"
  shows "events_append [new_runtime_event eid eid (ar_task_id run) (ar_id run) ty
      (get_next_sequence (ar_id run) db) p now] db = Inr (db\<lparr>db_events := db_events db'\<rparr>)"
proof -
  let ?e = "new_runtime_event eid eid (ar_task_id run) (ar_id run) ty (get_next_sequence (ar_id run) db) p now"
  obtain d where d: "events_append [?e] db = Inr d" "db_events db' = db_events d"
    using assms by (auto simp: publish_event_def rbind_Inr_iff dest!: outbox_create_frame)
  have "d = db\<lparr>db_events := db_events d\<rparr>"
    using d(1) by (auto simp: events_append.simps split: if_splits)
  then show ?thesis using d by metis
qed

lemma events_by_run_only: "events_by_run rid (db\<lparr>db_events := db_events db'\<rparr>) = events_by_run rid db'"
  by (simp add: events_by_run_def)

lemma contiguous_only: "contiguous rid (db\<lparr>db_events := db_events db'\<rparr>) = contiguous rid db'"
  by (simp add: contiguous_def events_by_run_only)

lemma publish_event_appends:
  assumes "publish_event run eid ty p t w c now clk db = Inr db'"
    and "eid \<notin> ev_event_id ` set (db_events db)"
  shows "events_by_run (ar_id run) db' = events_by_run (ar_id run) db @
    [new_runtime_event eid eid (ar_task_id run) (ar_id run) ty (get_next_sequence (ar_id run) db) p now]"
  using events_by_run_append [OF publish_event_events [OF assms(1)]] assms(2)
  by (simp add: new_runtime_event_def events_by_run_only)

lemma publish_event_contiguous:
  assumes "publish_event run eid ty p t w c now clk db = Inr db'" "contiguous (ar_id run) db"
  shows "contiguous (ar_id run) db'"
proof (cases "eid \<in> ev_event_id ` set (db_events db)")
  case True
  then have "db_events db' = db_events db"
    using publish_event_events [OF assms(1)] by (simp add: events_append.simps new_runtime_event_def) (metis db.select_convs(5) db.surjective db.update_convs(5))
  then show ?thesis using assms(2) by (simp add: contiguous_def events_by_run_def)
next
  case False
  then show ?thesis
    using contiguous_append [OF assms(2) publish_event_events [OF assms(1)]]
    by (simp add: new_runtime_event_def contiguous_only)
qed

lemma contiguous_same: "db_events db' = db_events db \<Longrightarrow> contiguous rid db' = contiguous rid db"
  by (simp add: contiguous_def events_by_run_def)

lemma publish_run_failed_frame:
  "publish_run_failed run e s t w now clk db = Inr db' \<Longrightarrow>
     db_tasks db' = db_tasks db \<and> db_runs db' = db_runs db \<and> db_steps db' = db_steps db \<and>
     db_tool_calls db' = db_tool_calls db \<and> db_permissions db' = db_permissions db \<and> db_inbox db' = db_inbox db"
  by (auto simp: publish_run_failed_def Let_def dest!: publish_event_frame split: option.splits)

lemma publish_run_failed_contiguous:
  "publish_run_failed run e s t w now clk db = Inr db' \<Longrightarrow> contiguous (ar_id run) db \<Longrightarrow> contiguous (ar_id run) db'"
  by (auto simp: publish_run_failed_def Let_def contiguous_same [of "bump db" db] split: option.splits
      elim: publish_event_contiguous)

lemma fail_task_frame [simp]:
  "db_events (fail_task tid now db) = db_events db" "db_steps (fail_task tid now db) = db_steps db"
  "db_tool_calls (fail_task tid now db) = db_tool_calls db"
  by (simp_all add: fail_task_def split: option.split)

definition task_failed :: "uuid \<Rightarrow> db \<Rightarrow> bool" where
  "task_failed tid db \<longleftrightarrow> (case task_get tid db of None \<Rightarrow> True | Some t \<Rightarrow> tk_status t = TaskFailed)"

lemma fail_task_failed: "task_failed tid (fail_task tid now db)"
  by (auto simp: task_failed_def fail_task_def tasks.get_put merge_task_def dest: tasks.get_key split: option.splits)

text \<open>The common end of a run the Runtime fails: what holds once its last writes are made.\<close>

definition run_closed :: "agent_run \<Rightarrow> db \<Rightarrow> bool" where
  "run_closed run db \<longleftrightarrow> task_failed (ar_task_id run) db \<and> children_closed (ar_id run) db"

lemma failing_closes:
  assumes "publish_run_failed run e s t w now clk (fail_open_children (ar_id run) err now (fail_task (ar_task_id run) now db)) = Inr d"
  shows "run_closed run d \<and> db_runs d = db_runs db \<and> (contiguous (ar_id run) db \<longrightarrow> contiguous (ar_id run) d)"
proof -
  let ?db = "fail_open_children (ar_id run) err now (fail_task (ar_task_id run) now db)"
  have f: "db_tasks d = db_tasks ?db" "db_steps d = db_steps ?db" "db_tool_calls d = db_tool_calls ?db" "db_runs d = db_runs ?db"
    using publish_run_failed_frame [OF assms] by simp_all
  have "task_failed (ar_task_id run) d"
    using fail_task_failed [of "ar_task_id run" now db] f(1) by (simp add: task_failed_def task_get_def)
  moreover have "children_closed (ar_id run) d"
    using fail_open_children_closed f(2,3) by (metis children_closed_same)
  moreover have "contiguous (ar_id run) db \<longrightarrow> contiguous (ar_id run) d"
    using publish_run_failed_contiguous [OF assms] by (simp add: contiguous_same [of ?db db])
  ultimately show ?thesis using f(4) by (simp add: run_closed_def)
qed

lemma run_closed_same:
  "db_tasks db' = db_tasks db \<Longrightarrow> db_steps db' = db_steps db \<Longrightarrow> db_tool_calls db' = db_tool_calls db \<Longrightarrow>
     run_closed run db' = run_closed run db"
  by (simp add: run_closed_def task_failed_def task_get_def children_closed_def)

lemma locked_get:
  assumes "locked u d = Inr d'" "db_runs db' = db_runs d'"
  shows "\<exists>c. run_get (lu_run_id u) d = Some c \<and> lock_ok u c \<and> run_get (lu_run_id u) db' = Some (updated_run u c)"
  using assms runs.get_key
  by (fastforce simp: locked_Inr update_with_lock_True run_get_def [of _ db'] run_get_def [of _ d', symmetric] runs.get_put)

text \<open>
  When the queue gives up on a run, nothing of it is left open: the run is failed with the queue's
  error and released by its worker, its checkpoint is dropped, its task is failed, none of its steps
  or tool calls is pending or running, and its event sequence stays without a gap.
\<close>

theorem queue_failure_closes_run:
  assumes "fail_run_queue_delivery_from r e code n clk db = Inr db'"
    and "ar_status r \<notin> set TERMINAL_STATUSES" and "ar_status r \<notin> {CancelRequested, Cancelling}"
  shows "\<exists>c. run_get (ar_id r) db' = Some c \<and> ar_status c = Failed \<and> ar_worker_id c = None \<and> ar_lease_until c = None \<and>
      ar_checkpoint c = [] \<and> (\<exists>err. ar_error c = Some err \<and> dget err ''code'' JNull = JStr ''RUN_QUEUE_RETRY_EXHAUSTED'') \<and>
      run_closed r db' \<and> (contiguous (ar_id r) db \<longrightarrow> contiguous (ar_id r) db')"
proof -
  let ?err = "run_error ''RUN_QUEUE_RETRY_EXHAUSTED'' ''run queue retries exhausted'' @
            [(''details'', JObj [(''delivery_count'', JInt n), (''last_error_code'', JStr code)])]"
  let ?u = "\<lparr>lu_run_id = ar_id r, lu_new_status = Failed, lu_expected_version = ar_version r,
             lu_expected_status = Some (ar_status r),
             lu_fields = [SetFailedAt (clk 0), SetError (Some ?err), SetWorkerId None, SetLeaseUntil None,
               SetCheckpoint []], lu_now = clk 3\<rparr>"
  from assms obtain d1 d2 where
    lock: "locked ?u db = Inr d1"
    and pub: "publish_run_failed r ?err (9200 + ar_version r) None ''run-queue-recovery'' (clk 0) clk
      (fail_open_children (ar_id r) ?err (clk 0) (fail_task (ar_task_id r) (clk 0) d1)) = Inr d2"
    and same: "db_runs db' = db_runs d2" "db_tasks db' = db_tasks d2" "db_steps db' = db_steps d2"
      "db_tool_calls db' = db_tool_calls d2" "db_events db' = db_events d2"
    by (auto simp: fail_run_queue_delivery_from_def Let_def rbind_Inr_iff)
  from failing_closes [OF pub] have c: "run_closed r db'" "db_runs db' = db_runs d1"
    "contiguous (ar_id r) d1 \<longrightarrow> contiguous (ar_id r) db'"
    using same run_closed_same [of db' d2 r] contiguous_same [of db' d2] by simp_all
  from locked_get [OF lock c(2)] obtain x where "run_get (ar_id r) db' = Some (updated_run ?u x)" by auto
  moreover have "contiguous (ar_id r) d1 = contiguous (ar_id r) db"
    using lock by (auto simp: locked_Inr update_with_lock_True intro!: contiguous_same)
  ultimately show ?thesis using c by (auto simp: updated_run_def run_error_def)
qed

section \<open>Messages the service writes\<close>

lemma outbox_create_appends:
  "outbox_create mk db = Inr db' \<Longrightarrow> db_outbox db' = db_outbox db @ [mk (fresh db)]"
  by (auto simp: outbox_create_def Let_def split: if_splits)

lemma new_outbox_event_simps [simp]:
  "ob_payload (new_outbox_event e r ty p t co ca now ra pk) = p" "ob_event_type (new_outbox_event e r ty p t co ca now ra pk) = ty"
  "ob_event_id (new_outbox_event e r ty p t co ca now ra pk) = e" "ob_status (new_outbox_event e r ty p t co ca now ra pk) = ObPending"
  "ob_aggregate_id (new_outbox_event e r ty p t co ca now ra pk) = r" "ob_trace_id (new_outbox_event e r ty p t co ca now ra pk) = t"
  by (simp_all add: new_outbox_event_def)

lemma trace_or_new_outbox: "trace_or_new r db = (t, db') \<Longrightarrow> db_outbox db' = db_outbox db \<and> db_events db' = db_events db"
  by (auto simp: trace_or_new_def split: option.splits)

lemma enqueue_resume_writes:
  assumes "enqueue_resume r aty actor now clk db = Inr db'"
    and "is_resumable_run_checkpoint (ar_checkpoint r) = Inr True"
  shows "\<exists>row raw job job'. db_outbox db' = db_outbox db @ [row] \<and> ob_event_type row = ''run.resume.requested'' \<and>
     dget (ar_checkpoint r) ''job'' JNull = JObj raw \<and> run_job_from_dict raw = Inr job \<and>
     run_job_from_dict (ob_payload row) = Inr job' \<and>
     job' = job\<lparr>rj_job_id := JId (ob_event_id row), rj_created_at := JTime now, rj_resume_from_checkpoint := True\<rparr>"
proof -
  obtain raw where raw: "dget (ar_checkpoint r) ''job'' JNull = JObj raw" "is_ok (run_job_from_dict raw)"
    using assms(2) by (rule resumable_dicts)
  then obtain job where job: "run_job_from_dict raw = Inr job" by (auto simp: is_ok_iff)
  obtain t d where td: "trace_or_new r (bump db) = (t, d)" by fastforce
  let ?mk = "new_outbox_event (fresh db) (ar_id r) ''run.resume.requested'' (resume_job_data raw (fresh db) now) t None None now (clk 2)"
  have "db_outbox db' = db_outbox db @ [?mk (fresh d)]"
    using assms(1) td trace_or_new_outbox [OF td]
    by (auto simp: enqueue_resume_def Let_def raw(1) rbind_Inr_iff dest!: outbox_create_appends)
  then show ?thesis
    using raw(1) job resume_job_decodes [OF job, of "fresh db" now]
    by (intro exI [of _ "?mk (fresh d)"] exI [of _ raw] exI [of _ job] exI) auto
qed

lemma send_control_writes:
  assumes "send_control r ety ty reason clk db = Inr db'"
  shows "\<exists>row. db_outbox db' = db_outbox db @ [row] \<and> ob_event_type row = ety \<and> ob_aggregate_id row = ar_id r \<and>
     ob_payload row = control_payload r ty reason (ob_event_id row) (ob_trace_id row) (clk 0)"
  using assms by (auto simp: send_control_def Let_def rbind_Inr_iff split: prod.splits
      dest!: outbox_create_appends trace_or_new_outbox)

lemma control_payload_decodes:
  "ty \<noteq> [] \<Longrightarrow> run_command_from_dict ty (control_payload r ty reason cid trace now) =
    Inr \<lparr>rx_command_id = JId cid, rx_trace_id = JId trace, rx_task_id = JId (ar_task_id r), rx_run_id = JId (ar_id r),
      rx_type = JStr ty, rx_requested_at = JTime now, rx_reason = JStr reason\<rparr>"
  by (simp add: run_command_from_dict_def control_payload_def need_schema_version_def need_required_def
      run_command_required_def required_string_def SCHEMA_VERSION_def)

text \<open>
  A cancellation or a pause that changes the run leaves exactly one new message in the outbox, and
  the worker's decoder accepts it as the command of that kind for that run.
\<close>

theorem control_commands_decode:
  assumes "ar_status r \<notin> {CancelRequested, Cancelling, Cancelled, PauseRequested, Paused}"
    and "(ty = ''run.cancel'' \<and> cancel_run_from r reason clk db = Inr ((), db')) \<or>
      (ty = ''run.pause'' \<and> pause_run_from r reason clk db = Inr ((), db'))"
  shows "\<exists>row cmd. db_outbox db' = db_outbox db @ [row] \<and>
    (if ty = ''run.cancel'' then run_cancel_from_dict else run_pause_from_dict) (ob_payload row) = Inr cmd \<and>
    rx_run_id cmd = JId (ar_id r) \<and> rx_task_id cmd = JId (ar_task_id r) \<and> rx_reason cmd = JStr reason"
proof -
  from assms obtain u d ety where lock: "locked u db = Inr d" and send: "send_control r ety ty reason clk d = Inr db'"
    and ty: "ty \<in> {''run.cancel'', ''run.pause''}"
    by (auto simp: cancel_run_from_def pause_run_from_def op_simps split: if_splits)
  have "db_outbox d = db_outbox db" using lock by (auto simp: locked_Inr update_with_lock_True)
  with send_control_writes [OF send] show ?thesis
    using ty by (auto simp: run_cancel_from_dict_def run_pause_from_dict_def control_payload_decodes)
qed

text \<open>
  Resuming a paused run leaves exactly one new message in the outbox: the job of the run's
  checkpoint, which the worker's decoder accepts, under a new job id and marked to resume from the
  checkpoint; the run is released and waits for it.
\<close>

theorem resume_enqueues_checkpoint_job:
  assumes "resume_run_from r clk db = Inr ((), db')" and "ar_status r \<noteq> ResumeRequested"
  shows "\<exists>row raw job c. db_outbox db' = db_outbox db @ [row] \<and>
    dget (ar_checkpoint r) ''job'' JNull = JObj raw \<and> run_job_from_dict raw = Inr job \<and>
    run_job_from_dict (ob_payload row) =
      Inr (job\<lparr>rj_job_id := JId (ob_event_id row), rj_created_at := JTime (clk 0), rj_resume_from_checkpoint := True\<rparr>) \<and>
    run_get (ar_id r) db' = Some c \<and> ar_status c = ResumeRequested \<and> ar_worker_id c = None \<and> ar_lease_until c = None"
proof -
  let ?u = "\<lparr>lu_run_id = ar_id r, lu_new_status = ResumeRequested,
            lu_expected_version = ar_version r, lu_expected_status = Some Paused,
            lu_fields = [SetWorkerId None, SetLeaseUntil None], lu_now = clk 3\<rparr>"
  from assms obtain d where res: "is_resumable_run_checkpoint (ar_checkpoint r) = Inr True"
    and lock: "locked ?u db = Inr d" and enq: "enqueue_resume r ''run.resume.requested'' ''user'' (clk 0) clk d = Inr db'"
    by (auto simp: resume_run_from_def op_simps split: if_splits)
  have "db_outbox d = db_outbox db" using lock by (auto simp: locked_Inr update_with_lock_True)
  moreover obtain c where "run_get (ar_id r) db' = Some (updated_run ?u c)"
    using locked_get [OF lock, of db'] enqueue_resume_runs [OF enq] by auto
  ultimately show ?thesis
    using enqueue_resume_writes [OF enq res] by (auto simp: updated_run_def)
qed

section \<open>Recovery\<close>

lemma dget_found: "dget d k JNull = JObj x \<Longrightarrow> dget d k dflt = JObj x"
  by (induction d) (auto split: if_splits)

lemma resumable_checkpoint_nonneg:
  assumes "is_resumable_run_checkpoint cp = Inr True" shows "0 \<le> recovery_attempts cp"
proof -
  obtain rs where rs: "dget cp ''state'' JNull = JObj rs" "check_raw_state rs = Inr ()"
    using assms by (rule resumable_dicts)
  then have "0 \<le> int_of (dget rs ''recovery_attempts'' (JInt 0))"
    by (simp add: check_raw_state_def Let_def checks_ok del: checks_Cons)
  then show ?thesis by (simp add: recovery_attempts_def dget_found [OF rs(1)])
qed


text \<open>What one round of the reconciliation makes of an expired run that nobody touched meanwhile.\<close>

lemma reconcile_lock:
  assumes "run_get (ar_id r) db = Some r" "lu_run_id u = ar_id r" "lu_expected_version u = ar_version r"
    "lu_expected_status u = Some (ar_status r)"
  shows "update_with_lock u db = (True, run_put (updated_run u r) db)"
  using assms by (simp add: update_with_lock_cases lock_ok_def)


section \<open>Witnesses\<close>

definition running_run :: agent_run where
  "running_run = sample_run\<lparr>ar_status := Running, ar_version := 2, ar_worker_id := Some ''w1'',
     ar_lease_until := Some 5, ar_checkpoint := sample_checkpoint\<rparr>"

definition paused_run :: agent_run where
  "paused_run = sample_run\<lparr>ar_status := Paused, ar_version := 3, ar_checkpoint := sample_checkpoint\<rparr>"

definition db_with :: "agent_run \<Rightarrow> db" where
  "db_with r = sample_db\<lparr>db_runs := [r]\<rparr>"

definition result_db :: "('a \<times> db) res \<Rightarrow> db" where
  "result_db m = (case m of Inl _ \<Rightarrow> empty_db | Inr (_, db) \<Rightarrow> db)"

lemma queue_failure_closes_run_witness:
  "\<exists>db' c. run_get (Uuid4 0) db' = Some c \<and> ar_status c = Failed \<and> run_closed running_run db' \<and>
    contiguous (Uuid4 0) db'"
proof -
  have "is_ok (fail_run_queue_delivery_from running_run (JStr ''1-0'') ''E'' 5 int (db_with running_run))" by code_simp
  then obtain db' where f: "fail_run_queue_delivery_from running_run (JStr ''1-0'') ''E'' 5 int (db_with running_run) = Inr db'"
    by (auto simp: is_ok_iff)
  have "ar_status running_run \<notin> set TERMINAL_STATUSES" "ar_status running_run \<notin> {CancelRequested, Cancelling}"
    "contiguous (ar_id running_run) (db_with running_run)" "ar_id running_run = Uuid4 0" by code_simp+
  with queue_failure_closes_run [OF f] show ?thesis by auto
qed

lemma result_db_eq: "is_ok m \<Longrightarrow> \<exists>x. m = Inr (x, result_db m)"
  by (cases m) (auto simp: result_db_def)

lemma control_commands_decode_witness:
  "\<exists>row cmd. db_outbox (result_db (cancel_run_from running_run ''stop'' int (db_with running_run))) = [row] \<and>
    run_cancel_from_dict (ob_payload row) = Inr cmd \<and> rx_run_id cmd = JId (Uuid4 0)"
proof -
  let ?m = "cancel_run_from running_run ''stop'' int (db_with running_run)"
  have "is_ok ?m" by code_simp
  then have m: "?m = Inr ((), result_db ?m)" using result_db_eq [of ?m] by auto
  have "ar_status running_run \<notin> {CancelRequested, Cancelling, Cancelled, PauseRequested, Paused}"
    "db_outbox (db_with running_run) = []" "ar_id running_run = Uuid4 0" by code_simp+
  with control_commands_decode [of running_run "''run.cancel''" "''stop''" int "db_with running_run" "result_db ?m"] m
  show ?thesis by auto
qed

lemma resume_enqueues_checkpoint_job_witness:
  "\<exists>row job. db_outbox (result_db (resume_run_from paused_run int (db_with paused_run))) = [row] \<and>
    run_job_from_dict (ob_payload row) = Inr job \<and> rj_resume_from_checkpoint job"
proof -
  let ?m = "resume_run_from paused_run int (db_with paused_run)"
  have "is_ok ?m" by code_simp
  then have m: "?m = Inr ((), result_db ?m)" using result_db_eq [of ?m] by auto
  have "ar_status paused_run \<noteq> ResumeRequested" "db_outbox (db_with paused_run) = []" by code_simp+
  with resume_enqueues_checkpoint_job [OF m] show ?thesis by fastforce
qed



end
