(* ===== verification/RunRetry.thy ===== *)
theory RunRetry
  imports RunRecovery
begin

text \<open>
  The two confirmed maintenance flows of \<open>runtime/runs/service.py\<close>: an approved request is carried
  out exactly once, and asking again returns what was done.
\<close>

section \<open>Confirmation requests\<close>

lemma consume_request_simps [simp]:
  "pr_id (consume_request p note k v now) = pr_id p" "pr_status (consume_request p note k v now) = PermConsumed"
  "pr_decision (consume_request p note k v now) = Some ''allow_once''"
  "pr_tool_name (consume_request p note k v now) = pr_tool_name p"
  "pr_run_id (consume_request p note k v now) = pr_run_id p" "pr_task_id (consume_request p note k v now) = pr_task_id p"
  "dget (pr_checkpoint (consume_request p note k v now)) k d = v"
  by (simp_all add: consume_request_def)

lemma merge_consumed [simp]: "merge_permission (consume_request p note k v now) p = consume_request p note k v now"
  by (simp add: merge_permission_def consume_request_def)

lemma guard_pending:
  assumes "guard_request (permission_get pid db) tool decision now = Inr (p, g)" "pr_status p = PermPending"
  shows "g = StillPending \<and> permission_get pid db = Some p \<and> pr_id p = pid \<and> pr_tool_name p = tool \<and>
    permission_request_is_expired (pr_expires_at p) now = False"
  using assms permissions.get_key [of pid db p] by (auto simp: guard_request_def split: option.splits if_splits)

lemma guard_consumed:
  assumes "permission_get pid db = Some p" "pr_status p = PermConsumed" "pr_decision p = Some decision"
    "pr_tool_name p = tool" "decision \<in> {''allow_once'', ''deny''}"
  shows "guard_request (permission_get pid db) tool decision now = Inr (p, AlreadyDecided)"
  using assms by (simp add: guard_request_def)

lemma consumed_stored:
  assumes "permission_get pid d = Some p" "pr_id p = pid" "p' = consume_request p note k v now"
    "db_permissions db' = db_permissions (permission_update p' d)"
  shows "permission_get pid db' = Some p'"
  using assms permissions.get_put [of pid p' d] by (simp add: permission_get_def)

section \<open>Repairing a missing terminal event\<close>

lemma assess_eligible:
  assumes "assess_terminal_event_repair repr rid db = ((True, code), t)"
  obtains run where "run_get rid db = Some run" "ar_status run = Failed" "contiguous rid db"
    "set (map ev_type (events_by_run rid db)) \<inter> set terminal_event_types = {}"
proof -
  from assms obtain run where run: "run_get rid db = Some run"
    by (auto simp: assess_terminal_event_repair_def split: option.splits)
  have "ar_id run = rid" using run by (rule runs.get_key)
  with assms run have "ar_status run = Failed \<and> contiguous rid db \<and>
      set (map ev_type (events_by_run rid db)) \<inter> set terminal_event_types = {}"
    by (auto simp: assess_terminal_event_repair_def Let_def contiguous_def split: if_splits)
  with run that show ?thesis by blast
qed

text \<open>
  An approved repair writes the missing terminal event exactly once: the failed run, whose events
  were gap-free and had no terminal event, gets one \<open>agent.run.failed\<close> event as the next of its
  sequence; the run itself is not touched; the request is consumed, and asking again returns the
  same event id and changes nothing.
\<close>

theorem terminal_repair_once:
  assumes "resolve_terminal_event_repair_request repr pid ''allow_once'' note clk db = Inr ((p', ev), db')"
    and "permission_get pid db = Some p" and "pr_status p = PermPending"
    and "deterministic_event_id (JId (pr_run_id p)) ''agent.run.failed'' (get_next_sequence (pr_run_id p) db)
      \<notin> ev_event_id ` set (db_events db)"
  shows "\<exists>e. ev = Some (ev_event_id e) \<and>
    events_by_run (pr_run_id p) db' = events_by_run (pr_run_id p) db @ [e] \<and> ev_type e = ''agent.run.failed'' \<and>
    contiguous (pr_run_id p) db' \<and>
    filter (\<lambda>x. ev_type x \<in> set terminal_event_types) (events_by_run (pr_run_id p) db') = [e] \<and>
    db_runs db' = db_runs db \<and> pr_status p' = PermConsumed \<and>
    resolve_terminal_event_repair_request repr pid ''allow_once'' note' clk' db' = Inr ((p', ev), db')"
proof -
  let ?rid = "pr_run_id p"
  let ?eid = "deterministic_event_id (JId ?rid) ''agent.run.failed'' (get_next_sequence ?rid db)"
  obtain p1 g where g: "guard_request (permission_get pid db) TERMINAL_EVENT_REPAIR_TOOL_NAME ''allow_once'' (clk 0) = Inr (p1, g)"
    using assms(1) by (auto simp: resolve_terminal_event_repair_request_def elim!: rbind_InrE)
  have "p1 = p" using g assms(2) by (auto simp: guard_request_def split: if_splits)
  from guard_pending [OF g [unfolded this] assms(3)] have gp: "g = StillPending" "pr_id p = pid"
    "pr_tool_name p = TERMINAL_EVENT_REPAIR_TOOL_NAME" by simp_all
  from assms(1) obtain code t run payload trace d db2 where
    as: "assess_terminal_event_repair repr ?rid db = ((True, code), t)"
    and run: "run_get ?rid db = Some run" and tr: "trace_or_new run db = (trace, d)"
    and pub: "publish_event run ?eid ''agent.run.failed'' payload trace ''storage-repair'' (Some pid) (clk 0) clk d = Inr db2"
    and res: "ev = Some ?eid" "p' = consume_request p note ''repaired_event_id'' (JId ?eid) (clk 0)"
    and db': "db_runs db' = db_runs db2" "db_events db' = db_events db2"
      "db_permissions db' = db_permissions (permission_update p' db2)"
    unfolding resolve_terminal_event_repair_request_def g rbind_simps prod.case Let_def \<open>p1 = p\<close> gp(1)
    by (auto simp: gp(2) split: prod.splits if_splits option.splits elim!: rbind_InrE dest: runs.get_key)
  from as obtain run' where el: "contiguous ?rid db" "set (map ev_type (events_by_run ?rid db)) \<inter> set terminal_event_types = {}"
    by (rule assess_eligible) blast
  have id: "ar_id run = ?rid" using run by (rule runs.get_key)
  have d: "db_events d = db_events db" "db_runs d = db_runs db" "db_permissions d = db_permissions db"
    using tr by (auto simp: trace_or_new_def split: option.splits)
  let ?e = "new_runtime_event ?eid ?eid (ar_task_id run) ?rid ''agent.run.failed'' (get_next_sequence ?rid db) payload (clk 0)"
  have ev: "events_by_run ?rid db' = events_by_run ?rid db @ [?e]"
    using publish_event_appends [OF pub] assms(4) d(1) db'(2)
    by (simp add: id events_by_run_def get_next_sequence_def)
  have ct: "contiguous ?rid db'"
    using publish_event_contiguous [OF pub] el(1) contiguous_same [OF d(1)] contiguous_same [OF db'(2)] by (simp add: id)
  have none: "filter (\<lambda>x. ev_type x \<in> set terminal_event_types) (events_by_run ?rid db) = []"
    using el(2) by (auto simp: filter_empty_conv)
  have "permission_get pid db2 = Some p"
    using assms(2) publish_event_frame [OF pub] d(3) by (simp add: permission_get_def)
  from consumed_stored [OF this gp(2) res(2) db'(3)] have perm: "permission_get pid db' = Some p'" .
  have again: "resolve_terminal_event_repair_request repr pid ''allow_once'' note' clk' db' = Inr ((p', ev), db')"
    unfolding resolve_terminal_event_repair_request_def
    by (subst guard_consumed [OF perm]) (simp_all add: res gp Let_def py_str.simps)
  show ?thesis
    by (rule exI [of _ ?e]) (use ev ct none again res db'(1) publish_event_frame [OF pub] d(2) in
      \<open>auto simp: new_runtime_event_def terminal_event_types_def\<close>)
qed

section \<open>Retrying from the dead-letter queue\<close>

lemma assess_dlq_eligible:
  assumes "fst (assess_dlq_retry wp evidence run task db)"
  obtains r t where "run = Some r" "task = Some t" "ar_task_id r = tk_id t" "ar_status r = Failed"
    "tk_status t = TaskFailed" "tk_active_run_id t = Some (ar_id r)"
  using assms by (auto simp: assess_dlq_retry_def split: option.splits if_splits)

text \<open>
  C33. An approved retry from the dead-letter queue is done exactly once: only for a task that is still
  failed with that failed run, it adds one queued run of version 1 to the runs, makes it the task's
  active run and queues one job for it; the request is consumed, and asking again returns that
  same run and changes nothing.
\<close>

theorem dlq_retry_once:
  assumes "resolve_dlq_retry_request repr wp pid ''allow_once'' note clk db = Inr ((p', nr), db')"
    and "permission_get pid db = Some p" and "pr_status p = PermPending"
  shows "\<exists>run old t t' row. nr = Some run \<and> db_runs db' = db_runs db @ [run] \<and>
    ar_status run = Queued \<and> ar_version run = 1 \<and> run_get (pr_run_id p) db = Some old \<and> ar_status old = Failed \<and>
    task_get (pr_task_id p) db = Some t \<and> tk_status t = TaskFailed \<and> tk_active_run_id t = Some (ar_id old) \<and>
    task_get (pr_task_id p) db' = Some t' \<and> tk_status t' = TaskRunning \<and> tk_active_run_id t' = Some (ar_id run) \<and>
    db_outbox db' = db_outbox db @ [row] \<and> dget (ob_payload row) ''run_id'' JNull = JId (ar_id run) \<and>
    pr_status p' = PermConsumed \<and>
    resolve_dlq_retry_request repr wp pid ''allow_once'' note' clk' db' = Inr ((p', nr), db')"
proof -
  obtain p1 g where g: "guard_request (permission_get pid db) DLQ_RETRY_TOOL_NAME ''allow_once'' (clk 0) = Inr (p1, g)"
    using assms(1) by (auto simp: resolve_dlq_retry_request_def elim!: rbind_InrE)
  have "p1 = p" using g assms(2) by (auto simp: guard_request_def split: if_splits)
  from guard_pending [OF g [unfolded this] assms(3)] have gp: "g = StillPending" "pr_id p = pid"
    "pr_tool_name p = DLQ_RETRY_TOOL_NAME" by simp_all
  obtain evidence where ev: "evidence_from_request repr p = Inr evidence"
    using assms(1) unfolding resolve_dlq_retry_request_def g rbind_simps prod.case Let_def \<open>p1 = p\<close> gp(1)
    by (auto elim!: rbind_InrE)
  have el: "fst (assess_dlq_retry wp evidence (run_get (pr_run_id p) db) (task_get (pr_task_id p) db) db)"
    using assms(1) unfolding resolve_dlq_retry_request_def g rbind_simps prod.case Let_def \<open>p1 = p\<close> gp(1) ev
    by (auto split: if_splits prod.splits)
  obtain old t where old: "run_get (pr_run_id p) db = Some old" "task_get (pr_task_id p) db = Some t"
    "ar_status old = Failed" "tk_status t = TaskFailed" "tk_active_run_id t = Some (ar_id old)"
    by (rule assess_dlq_eligible [OF el]) blast
  let ?new = "new_agent_run (fresh (bump db)) (tk_id t) (clk 0) []
     [(''trace_id'', JId (fresh db)), (''retry_of_run_id'', JId (ar_id old)), (''dlq_record_id'', dl_record_id evidence)]"
  let ?task = "t\<lparr>tk_status := TaskRunning, tk_active_run_id := Some (fresh (bump db)), tk_updated_at := clk 0,
     tk_completed_at := None, tk_cancelled_at := None\<rparr>"
  obtain d1 d2 d3 e mk where
    create: "run_create ?new (bump (bump db)) = Inr d1"
    and events: "events_append e (bump (bump (task_update ?task d1))) = Inr d2"
    and out: "outbox_create mk (bump d2) = Inr d3"
    and mk: "\<And>pk. dget (ob_payload (mk pk)) ''run_id'' JNull = JId (fresh (bump db))"
    and res: "nr = Some ?new" "p' = consume_request p note ''new_run_id'' (JId (fresh (bump db))) (clk 0)"
    and db': "db_runs db' = db_runs d3" "db_tasks db' = db_tasks d3" "db_outbox db' = db_outbox d3"
      "db_permissions db' = db_permissions (permission_update p' d3)"
    using assms(1) el unfolding resolve_dlq_retry_request_def g rbind_simps prod.case Let_def \<open>p1 = p\<close> gp(1) ev old(1,2)
    by (auto simp: split_def elim!: rbind_InrE)
  have runs: "db_runs db' = db_runs db @ [?new]"
    using create events_append_frame [OF events] outbox_create_frame [OF out] db'(1)
    by (auto simp: run_create_def split: if_splits)
  have fresh: "run_get (fresh (bump db)) db = None"
    using create row_get_None_iff [of ar_id "fresh (bump db)" "db_runs db"] by (auto simp: run_create_def run_get_def split: if_splits)
  have new: "run_get (fresh (bump db)) db' = Some ?new"
    using fresh by (simp add: run_get_def runs row_get_append)
  have tid: "tk_id t = pr_task_id p" using old(2) by (rule tasks.get_key)
  have "task_get (pr_task_id p) d1 = Some t"
    using old(2) run_create_frame [OF create] by (simp add: task_get_def)
  then have "task_get (pr_task_id p) (task_update ?task d1) = Some (merge_task ?task t)"
    using tid by (simp add: tasks.get_put)
  then have task: "task_get (pr_task_id p) db' = Some (merge_task ?task t)"
    using events_append_frame [OF events] outbox_create_frame [OF out] db'(2) by (simp add: task_get_def)
  have outbox: "db_outbox db' = db_outbox db @ [mk (fresh (bump d2))]"
    using outbox_create_appends [OF out] events_append_frame [OF events] run_create_frame [OF create] db'(3) by simp
  have "permission_get pid d3 = Some p"
    using assms(2) run_create_frame [OF create] events_append_frame [OF events] outbox_create_frame [OF out]
    by (simp add: permission_get_def)
  from consumed_stored [OF this gp(2) res(2) db'(4)] have perm: "permission_get pid db' = Some p'" .
  have again: "resolve_dlq_retry_request repr wp pid ''allow_once'' note' clk' db' = Inr ((p', nr), db')"
    unfolding resolve_dlq_retry_request_def
    by (subst guard_consumed [OF perm]) (simp_all add: res gp Let_def new)
  show ?thesis
    by (intro exI [of _ ?new] exI [of _ old] exI [of _ t] exI [of _ "merge_task ?task t"] exI [of _ "mk (fresh (bump d2))"])
      (use res runs old task outbox mk again in \<open>simp add: merge_task_def\<close>)
qed

section \<open>Witnesses\<close>

definition sample_task :: task where
  "sample_task = \<lparr>tk_id = Uuid4 1, tk_title = ''t'', tk_user_goal = ''goal'', tk_conversation_id = Uuid4 2,
     tk_status = TaskFailed, tk_priority = 0, tk_workspace_path = None, tk_workspace_id = None,
     tk_active_run_id = Some (Uuid4 0), tk_last_step_summary = None, tk_risk_level = None, tk_created_at = 0,
     tk_updated_at = 0, tk_completed_at = None, tk_cancelled_at = None, tk_metadata = [],
     tk_scheduled_execution_id = None\<rparr>"

definition failed_run :: agent_run where
  "failed_run = sample_run\<lparr>ar_status := Failed, ar_version := 4, ar_failed_at := Some 7,
     ar_error := Some (run_error DLQ_RETRY_ERROR_CODE ''m'')\<rparr>"

definition failed_db :: db where
  "failed_db = (db_with failed_run)\<lparr>db_tasks := [sample_task]\<rparr>"

definition repair_db :: db where
  "repair_db = result_db (create_terminal_event_repair_request (\<lambda>_. []) [] (Uuid4 0) int failed_db)"

definition repair_request :: permission_request where
  "repair_request = the (permission_get (terminal_repair_request_id (Uuid4 0)) repair_db)"

lemma terminal_repair_once_witness:
  "\<exists>e. ev_type e = ''agent.run.failed'' \<and> events_by_run (Uuid4 0) (result_db (resolve_terminal_event_repair_request
     (\<lambda>_. []) (terminal_repair_request_id (Uuid4 0)) ''allow_once'' [] int repair_db)) = [e]"
proof -
  let ?m = "resolve_terminal_event_repair_request (\<lambda>_. []) (terminal_repair_request_id (Uuid4 0)) ''allow_once'' [] int repair_db"
  have "is_ok ?m" by code_simp
  then obtain p' ev where m: "?m = Inr ((p', ev), result_db ?m)" using result_db_eq [of ?m] by auto
  have get: "permission_get (terminal_repair_request_id (Uuid4 0)) repair_db = Some repair_request" by code_simp
  have pend: "pr_status repair_request = PermPending" by code_simp
  have new: "deterministic_event_id (JId (pr_run_id repair_request)) ''agent.run.failed''
      (get_next_sequence (pr_run_id repair_request) repair_db) \<notin> ev_event_id ` set (db_events repair_db)" by code_simp
  have "events_by_run (pr_run_id repair_request) repair_db = []" "pr_run_id repair_request = Uuid4 0" by code_simp+
  with terminal_repair_once [OF m get pend new, of "[]" int] show ?thesis by auto
qed

definition sample_evidence :: dlq_evidence where
  "sample_evidence = \<lparr>dl_source = JStr ''run_queue'', dl_record_id = JStr ''1-0'', dl_original_message_id = JStr ''0-1'',
     dl_error_code = JStr DLQ_RETRY_ERROR_CODE, dl_task_id = Uuid4 1, dl_run_id = Uuid4 0, dl_payload_sha256 = JStr ''s''\<rparr>"

definition retry_db :: db where
  "retry_db = result_db (create_dlq_retry_request None [] sample_evidence int failed_db)"

definition retry_request :: permission_request where
  "retry_request = the (permission_get (dlq_retry_request_id sample_evidence) retry_db)"

lemma dlq_retry_once_witness:
  "\<exists>run. ar_status run = Queued \<and> db_runs (result_db (resolve_dlq_retry_request (\<lambda>_. []) None
     (dlq_retry_request_id sample_evidence) ''allow_once'' [] int retry_db)) = [failed_run, run]"
proof -
  let ?m = "resolve_dlq_retry_request (\<lambda>_. []) None (dlq_retry_request_id sample_evidence) ''allow_once'' [] int retry_db"
  have "is_ok ?m" by code_simp
  then obtain p' nr where m: "?m = Inr ((p', nr), result_db ?m)" using result_db_eq [of ?m] by auto
  have get: "permission_get (dlq_retry_request_id sample_evidence) retry_db = Some retry_request" by code_simp
  have pend: "pr_status retry_request = PermPending" by code_simp
  have "db_runs retry_db = [failed_run]" by code_simp
  with dlq_retry_once [OF m get pend, of "[]" int] show ?thesis by auto
qed

end
