(* ===== verification/PermissionFacts.thy ===== *)
theory PermissionFacts
  imports RunRecovery
begin

text \<open>
  What deciding a permission request, and letting it expire, guarantee: a decision is final and reaches
  the worker as exactly one command, a standing grant is never written for the two highest risk levels,
  and an expired request takes the waiting run, task and tool call with it.
\<close>

section \<open>What expiry leaves alone\<close>

lemma outbox_create_all_types:
  "outbox_create_all mks db = Inr db' \<Longrightarrow> (\<And>mk pk. mk \<in> set mks \<Longrightarrow> \<not> P (mk pk)) \<Longrightarrow>
     filter P (db_outbox db') = filter P (db_outbox db)"
proof (induction mks arbitrary: db)
  case (Cons mk mks)
  from Cons.prems(1) obtain d where d: "outbox_create mk db = Inr d" "outbox_create_all mks d = Inr db'"
    by (auto elim: rbind_InrE)
  have "filter P (db_outbox db') = filter P (db_outbox d)" using Cons.IH [OF d(2)] Cons.prems(2) by simp
  then show ?case using outbox_create_appends [OF d(1)] Cons.prems(2) by simp
qed simp

lemma append_expiry_events_frame:
  assumes "append_expiry_events req run err now n clk db = Inr db'"
  shows "db_runs db' = db_runs db \<and> db_permissions db' = db_permissions db \<and> db_tool_calls db' = db_tool_calls db \<and>
    db_tasks db' = db_tasks db \<and>
    filter (\<lambda>r. ob_event_type r = ''permission.decision'') (db_outbox db') =
      filter (\<lambda>r. ob_event_type r = ''permission.decision'') (db_outbox db)"
proof -
  obtain trace d where tr: "trace_or_new run db = (trace, d)" by fastforce
  have keep: "db_runs d = db_runs db" "db_permissions d = db_permissions db" "db_tool_calls d = db_tool_calls db"
    "db_tasks d = db_tasks db" "db_outbox d = db_outbox db"
    using tr by (auto simp: trace_or_new_def split: option.splits)
  let ?mk = "\<lambda>lit ty p. new_outbox_event (Uuid5 [PLit lit, PUuid (pr_id req)]) (pr_run_id req) ty p trace None None now (clk 1)"
  from assms obtain es d1 p1 p2 where ap: "events_append es d = Inr d1"
    and out: "outbox_create_all [?mk ''jarvis:permission-expired:'' ''permission.expired'' p1,
      ?mk ''jarvis:permission-expired-run-failed:'' ''agent.run.failed'' p2] d1 = Inr db'"
    unfolding append_expiry_events_def Let_def tr prod.case
    by (elim rbind_InrE) (auto simp: expiry_events_def simp del: outbox_create_all.simps split: prod.splits elim!: rbind_InrE)
  have "filter (\<lambda>r. ob_event_type r = ''permission.decision'') (db_outbox db') =
      filter (\<lambda>r. ob_event_type r = ''permission.decision'') (db_outbox d1)"
    by (rule outbox_create_all_types [OF out]) auto
  then show ?thesis using outbox_create_all_frame [OF out] events_append_frame [OF ap] keep by simp
qed

lemma expire_run_frame:
  assumes "expire_run req now clk db = Inr db'"
  shows "db_permissions db' = db_permissions db \<and> db_tool_calls db' = db_tool_calls db \<and>
    filter (\<lambda>r. ob_event_type r = ''permission.decision'') (db_outbox db') =
      filter (\<lambda>r. ob_event_type r = ''permission.decision'') (db_outbox db)"
proof -
  have ft: "db_permissions (fail_task t now d) = db_permissions d" "db_outbox (fail_task t now d) = db_outbox d" for t d
    by (simp_all add: fail_task_def split: option.split)
  show ?thesis
    using assms unfolding expire_run_def Let_def
    by (auto split: option.splits if_splits prod.splits simp: update_with_lock_True ft dest!: append_expiry_events_frame)
qed

lemma merge_decided [simp]: "merge_permission (decided p d n t) p = decided p d n t"
  by (simp add: merge_permission_def decided_def)

lemma decided_simps [simp]:
  "pr_id (decided p d n t) = pr_id p" "pr_decision (decided p d n t) = Some d"
  "pr_allowed_decisions (decided p d n t) = pr_allowed_decisions p" "pr_risk_level (decided p d n t) = pr_risk_level p"
  "pr_tool_call_id (decided p d n t) = pr_tool_call_id p" "pr_task_id (decided p d n t) = pr_task_id p"
  "pr_run_id (decided p d n t) = pr_run_id p"
  "pr_status (decided p d n t) = (if d \<noteq> ''deny'' then PermApproved else PermDenied)"
  by (simp_all add: decided_def)

lemma validate_decided [simp]: "validate_permission_decision (decided p d n t) x = validate_permission_decision p x"
  by (simp add: validate_permission_decision_def)

lemma tool_call_get_same: "db_tool_calls db' = db_tool_calls db \<Longrightarrow> tool_call_get c db' = tool_call_get c db"
  by (simp add: tool_call_get_def)

lemma permission_get_same: "db_permissions db' = db_permissions db \<Longrightarrow> permission_get c db' = permission_get c db"
  by (simp add: permission_get_def)

section \<open>Recording a decision\<close>

lemma record_decision_effect:
  assumes "record_decision p run d note now clk db = Inr (p', db')" and "permission_get (pr_id p) db = Some p"
  shows "p' = decided p d note now \<and> permission_get (pr_id p) db' = Some p' \<and>
    db_tool_calls db' = db_tool_calls (sync_tool_call_permission p' (permission_update p' db)) \<and>
    db_runs db' = db_runs db \<and>
    (\<exists>row. db_outbox db' = db_outbox db @ [row] \<and> ob_event_type row = ''permission.decision'' \<and>
       (\<exists>c t. ob_payload row = decision_payload p' d note c t now)) \<and>
    db_grants db' = db_grants (grant_for p' d now (sync_tool_call_permission p' (permission_update p' db)))"
proof -
  let ?q = "decided p d note now"
  let ?db1 = "grant_for ?q d now (sync_tool_call_permission ?q (permission_update ?q db))"
  obtain trace d2 where tr: "trace_or_new run ?db1 = (trace, d2)" by fastforce
  have keep: "db_runs d2 = db_runs ?db1" "db_permissions d2 = db_permissions ?db1" "db_tool_calls d2 = db_tool_calls ?db1"
    "db_outbox d2 = db_outbox ?db1" "db_grants d2 = db_grants ?db1"
    using tr by (auto simp: trace_or_new_def split: option.splits)
  from assms(1) obtain d3 mk cid where out: "outbox_create mk (bump (bump d2)) = Inr d3" and p': "p' = ?q"
    and mk: "\<And>pk. ob_event_type (mk pk) = ''permission.decision'' \<and> ob_payload (mk pk) = decision_payload ?q d note cid trace now"
    and db': "db_runs db' = db_runs d3" "db_permissions db' = db_permissions d3" "db_tool_calls db' = db_tool_calls d3"
      "db_outbox db' = db_outbox d3" "db_grants db' = db_grants d3"
    unfolding record_decision_def Let_def tr prod.case by (elim rbind_InrE) auto
  have "permission_get (pr_id p) (permission_update ?q db) = Some ?q"
    using assms(2) permissions.get_put [of "pr_id p" ?q db] by simp
  then have "permission_get (pr_id p) db' = Some ?q"
    using outbox_create_frame [OF out] db' keep by (simp add: permission_get_def)
  then show ?thesis
    using outbox_create_frame [OF out] outbox_create_appends [OF out] db' keep p' mk by auto
qed

lemma sync_idem:
  "sync_tool_call_permission p (sync_tool_call_permission p db) = sync_tool_call_permission p db"
proof (cases "pr_tool_call_id p")
  case (Some cid)
  show ?thesis
  proof (cases "tool_call_get cid db")
    case (Some call)
    have id: "tc_id call = cid" using Some by (rule tool_calls.get_key)
    show ?thesis
    proof (cases "permission_status_text (pr_status p)")
      case (Some st)
      let ?c = "call\<lparr>tc_permission_request_id := Some (pr_id p), tc_permission_status := st\<rparr>"
      have c': "tool_call_get cid (tool_call_update ?c db) = Some (merge_tool_call ?c call)"
        using \<open>tool_call_get cid db = Some call\<close> id by (simp add: tool_calls.get_put)
      have mc: "merge_tool_call ?c call = ?c" by (simp add: merge_tool_call_def)
      have twice: "tool_call_update ?c (tool_call_update ?c db) = tool_call_update ?c db"
        by (simp add: tool_call_update_def row_update_def merge_tool_call_def)
      show ?thesis
        using \<open>pr_tool_call_id p = Some cid\<close> \<open>tool_call_get cid db = Some call\<close> Some c' twice
        by (simp add: sync_tool_call_permission_def mc)
    next
      case None
      then show ?thesis using \<open>pr_tool_call_id p = Some cid\<close> \<open>tool_call_get cid db = Some call\<close>
        by (simp add: sync_tool_call_permission_def)
    qed
  qed (use Some in \<open>simp add: sync_tool_call_permission_def\<close>)
qed (simp add: sync_tool_call_permission_def)

lemma sync_call:
  assumes "pr_tool_call_id p = Some cid" and "tool_call_get cid db = Some call"
    and "permission_status_text (pr_status p) = Some st"
  shows "tool_call_get cid (sync_tool_call_permission p db) =
    Some (call\<lparr>tc_permission_request_id := Some (pr_id p), tc_permission_status := st\<rparr>)"
proof -
  have "tc_id call = cid" using assms(2) by (rule tool_calls.get_key)
  then show ?thesis using assms
    by (simp add: sync_tool_call_permission_def tool_calls.get_put merge_tool_call_def)
qed

lemma sync_same:
  assumes "db_tool_calls db' = db_tool_calls (sync_tool_call_permission p d)"
  shows "sync_tool_call_permission p db' = db'"
proof -
  have "db_tool_calls (sync_tool_call_permission p db') = db_tool_calls db'"
    using arg_cong [OF sync_idem [of p d], of db_tool_calls] assms
    by (auto simp: sync_tool_call_permission_def tool_call_get_def tool_call_update_def split: option.splits)
  then show ?thesis by (auto simp: sync_tool_call_permission_def tool_call_update_def split: option.splits)
qed

text \<open>
  A decision is final: once a decision was accepted, submitting the same one again returns the same
  request and changes nothing, and submitting any other is refused and changes nothing.
\<close>

theorem decision_is_final:
  assumes "decide pid d note clk db = (Inr p, db1)"
  shows "decide pid d note' clk' db1 = (Inr p, db1) \<and>
    (d' \<noteq> d \<longrightarrow> (\<exists>e. decide pid d' note' clk' db1 = (Inl e, db1)))"
proof -
  have "permission_get pid db1 = Some p \<and> pr_status p \<in> {PermApproved, PermDenied, PermConsumed} \<and>
      pr_decision p = Some d \<and> validate_permission_decision p d = Inr () \<and> sync_tool_call_permission p db1 = db1"
  proof -
    from assms have tx: "decide_tx pid d note clk db = Inr (Some p, db1)"
      by (auto simp: decide_def transact_def split: sum.splits prod.splits option.splits)
    then obtain q where q: "permission_get pid db = Some q" "validate_permission_decision q d = Inr ()"
      by (auto simp: decide_tx_def split: option.splits elim: rbind_InrE)
    have id: "pr_id q = pid" using q(1) by (rule permissions.get_key)
    show ?thesis
    proof (cases "pr_status q \<in> {PermApproved, PermDenied, PermConsumed}")
      case True
      with tx q have "p = q" "pr_decision q = Some d" "db1 = sync_tool_call_permission q db"
        by (auto simp: decide_tx_def split: if_splits)
      with q True show ?thesis by (simp add: sync_idem permission_get_def)
    next
      case False
      with tx q obtain run where "record_decision q run d note (clk 0) clk db = Inr (p, db1)"
        by (auto simp: decide_tx_def split: option.splits if_splits elim!: rbind_InrE)
      from record_decision_effect [OF this] q id have e: "p = decided q d note (clk 0)"
        "permission_get pid db1 = Some p" "db_tool_calls db1 = db_tool_calls (sync_tool_call_permission p (permission_update p db))"
        by simp_all
      with q(2) sync_same [OF e(3)] show ?thesis by simp
    qed
  qed
  then show ?thesis
    by (auto simp: decide_def decide_tx_def transact_def validate_permission_decision_def)
qed

lemma decision_payload_decodes:
  assumes "d \<noteq> []"
  shows "permission_decision_from_dict (decision_payload p d note c t now) =
    Inr \<lparr>pd_command_id = JId c, pd_trace_id = JId t, pd_request_id = JId (pr_id p), pd_task_id = JId (pr_task_id p),
      pd_run_id = JId (pr_run_id p), pd_decision = JStr d, pd_decided_at = JTime now, pd_note = JStr note\<rparr>"
  using assms by (simp add: permission_decision_from_dict_def decision_payload_def need_schema_version_def
      need_required_def required_string_def SCHEMA_VERSION_def)

text \<open>
  C38. What accepting a pending request does: the request, and the tool call it guards, carry the
  decision; exactly one command is queued, and the worker decodes it as that decision on that request
  and run; a standing grant is written exactly for the standing decisions, and never for a request of
  level L4 or L5.
\<close>

theorem decision_recorded:
  assumes "decide pid d note clk db = (Inr p, db1)" and "permission_get pid db = Some q"
    and "pr_status q = PermPending"
  shows "permission_get pid db1 = Some p \<and> pr_status p = (if d \<noteq> ''deny'' then PermApproved else PermDenied) \<and>
    d \<in> set (pr_allowed_decisions q) \<and> pr_decision p = Some d \<and>
    (\<exists>row cmd. db_outbox db1 = db_outbox db @ [row] \<and> permission_decision_from_dict (ob_payload row) = Inr cmd \<and>
       pd_decision cmd = JStr d \<and> pd_request_id cmd = JId pid \<and> pd_run_id cmd = JId (pr_run_id q)) \<and>
    (\<forall>cid call. pr_tool_call_id q = Some cid \<longrightarrow> tool_call_get cid db = Some call \<longrightarrow>
       (\<exists>call'. tool_call_get cid db1 = Some call' \<and>
          tc_permission_status call' = (if d \<noteq> ''deny'' then ''approved'' else ''denied''))) \<and>
    (if map_of GRANT_TYPE_BY_DECISION d = None then db_grants db1 = db_grants db
     else pr_risk_level q \<notin> {''L4'', ''L5''} \<and>
       (\<exists>g. db_grants db1 = db_grants db @ [g] \<and> pg_created_from_request_id g = Some pid \<and>
          pg_tool_name g = Some (pr_tool_name q)))"
proof -
  from assms have tx: "decide_tx pid d note clk db = Inr (Some p, db1)"
    by (auto simp: decide_def transact_def split: sum.splits prod.splits option.splits)
  with assms(2,3) obtain run where val: "validate_permission_decision q d = Inr ()"
    and rd: "record_decision q run d note (clk 0) clk db = Inr (p, db1)"
    by (auto simp: decide_tx_def split: option.splits if_splits elim!: rbind_InrE)
  have id: "pr_id q = pid" using assms(2) by (rule permissions.get_key)
  from record_decision_effect [OF rd] assms(2) id obtain row c t where e: "p = decided q d note (clk 0)"
    "permission_get pid db1 = Some p"
    "db_tool_calls db1 = db_tool_calls (sync_tool_call_permission p (permission_update p db))"
    "db_outbox db1 = db_outbox db @ [row]" "ob_payload row = decision_payload p d note c t (clk 0)"
    "db_grants db1 = db_grants (grant_for p d (clk 0) (sync_tool_call_permission p (permission_update p db)))"
    by auto
  have d: "d \<noteq> []" "d \<in> set (pr_allowed_decisions q)"
    using val by (auto simp: validate_permission_decision_def VALID_DECISIONS_def split: if_splits)
  have call: "\<exists>call'. tool_call_get cid db1 = Some call' \<and>
      tc_permission_status call' = (if d \<noteq> ''deny'' then ''approved'' else ''denied'')"
    if "pr_tool_call_id q = Some cid" "tool_call_get cid db = Some call" for cid call
  proof -
    have "tool_call_get cid (permission_update p db) = Some call" using that(2) by (simp add: tool_call_get_def)
    moreover have "permission_status_text (pr_status p) = Some (if d \<noteq> ''deny'' then ''approved'' else ''denied'')"
      by (simp add: e(1) permission_status_text_def)
    ultimately show ?thesis
      unfolding tool_call_get_same [OF e(3)] using sync_call [of p cid] that(1) by (simp add: e(1))
  qed
  have grant: "if map_of GRANT_TYPE_BY_DECISION d = None then db_grants db1 = db_grants db
     else pr_risk_level q \<notin> {''L4'', ''L5''} \<and>
       (\<exists>g. db_grants db1 = db_grants db @ [g] \<and> pg_created_from_request_id g = Some pid \<and>
          pg_tool_name g = Some (pr_tool_name q))"
    using val by (auto simp: e(6) grant_for_def grant_create_def validate_permission_decision_def e(1) id decided_def
        split: option.splits if_splits)
  have pay: "\<exists>row cmd. db_outbox db1 = db_outbox db @ [row] \<and> permission_decision_from_dict (ob_payload row) = Inr cmd \<and>
       pd_decision cmd = JStr d \<and> pd_request_id cmd = JId pid \<and> pd_run_id cmd = JId (pr_run_id q)"
    using e(1,4,5) decision_payload_decodes [OF d(1), of p "note" c t "clk 0"] id by simp
  show ?thesis
    by (intro conjI allI impI; (rule pay | rule call | rule grant)?) (simp_all add: e(1,2) d(2))
qed

section \<open>Expiry\<close>

text \<open>The ids of the two expiry events of a request are not used yet.\<close>

definition expiry_unpublished :: "permission_request \<Rightarrow> db \<Rightarrow> bool" where
  "expiry_unpublished req db \<longleftrightarrow>
     (\<forall>lit \<in> {''jarvis:permission-expired:'', ''jarvis:permission-expired-run-failed:''}.
        let eid = Uuid5 [PLit lit, PUuid (pr_id req)] in
        eid \<notin> ev_event_id ` set (db_events db) \<and> eid \<notin> ev_id ` set (db_events db) \<and>
        eid \<notin> ob_event_id ` set (db_outbox db))"

lemma expiry_unpublished_same:
  "db_events db' = db_events db \<Longrightarrow> db_outbox db' = db_outbox db \<Longrightarrow> pr_id req' = pr_id req \<Longrightarrow>
     expiry_unpublished req' db' = expiry_unpublished req db"
  by (simp add: expiry_unpublished_def)

lemma events_append_two:
  assumes "distinct [ev_event_id e1, ev_event_id e2]" "distinct [ev_id e1, ev_id e2]"
    "{ev_event_id e1, ev_event_id e2} \<inter> ev_event_id ` set (db_events db) = {}"
    "{ev_id e1, ev_id e2} \<inter> ev_id ` set (db_events db) = {}"
  shows "events_append [e1, e2] db = Inr (db\<lparr>db_events := db_events db @ [e1, e2]\<rparr>)"
  using assms by (simp add: events_append.simps)

lemma outbox_create_all_two:
  assumes "\<And>pk. ob_event_id (mk1 pk) = i1" "\<And>pk. ob_event_id (mk2 pk) = i2" "i1 \<noteq> i2"
    "{i1, i2} \<inter> ob_event_id ` set (db_outbox db) = {}"
  shows "is_ok (outbox_create_all [mk1, mk2] db)"
  using assms by (simp add: outbox_create_def Let_def)

lemma append_expiry_events_ok:
  assumes "expiry_unpublished req db"
  shows "is_ok (append_expiry_events req run err now n clk db)"
proof -
  obtain trace d where tr: "trace_or_new run db = (trace, d)" by fastforce
  have keep: "db_events d = db_events db" "db_outbox d = db_outbox db"
    using tr by (auto simp: trace_or_new_def split: option.splits)
  define i1 i2 where ids: "i1 = Uuid5 [PLit ''jarvis:permission-expired:'', PUuid (pr_id req)]"
    "i2 = Uuid5 [PLit ''jarvis:permission-expired-run-failed:'', PUuid (pr_id req)]"
  have free: "i1 \<noteq> i2" "{i1, i2} \<inter> ev_event_id ` set (db_events d) = {}"
    "{i1, i2} \<inter> ev_id ` set (db_events d) = {}" "{i1, i2} \<inter> ob_event_id ` set (db_outbox d) = {}"
    using assms keep by (auto simp: expiry_unpublished_def ids)
  have out: "is_ok (outbox_create_all [new_outbox_event i1 a b c e f g h j,
      new_outbox_event i2 a' b' c' e' f' g' h' j'] d')"
    if "db_outbox d' = db_outbox d" for a b c e f g h j a' b' c' e' f' g' h' j' d'
    by (rule outbox_create_all_two [where ?i1.0 = i1 and ?i2.0 = i2])
      (use free that in \<open>simp_all add: new_outbox_event_def\<close>)
  show ?thesis
    unfolding append_expiry_events_def Let_def tr prod.case expiry_events_def ids [symmetric] mapR.simps
      envelope_of_event rbind_simps list.map zip.simps
    by (simp add: new_runtime_event_def, subst events_append_two)
      (use free in \<open>simp_all add: out del: outbox_create_all.simps\<close>)
qed

lemma append_expiry_events_contiguous:
  assumes "append_expiry_events req run err now (get_next_sequence (pr_run_id req) db) clk db = Inr db'"
    and "expiry_unpublished req db" and "contiguous (pr_run_id req) db"
  shows "contiguous (pr_run_id req) db'"
proof -
  let ?rid = "pr_run_id req" and ?n = "get_next_sequence (pr_run_id req) db"
  obtain trace d where tr: "trace_or_new run db = (trace, d)" by fastforce
  have keep: "db_events d = db_events db" using tr by (auto simp: trace_or_new_def split: option.splits)
  from assms(1) obtain e1 e2 d2 mks where ap: "events_append [e1, e2] d = Inr d2" and out: "outbox_create_all mks d2 = Inr db'"
    and e: "ev_event_id e1 = Uuid5 [PLit ''jarvis:permission-expired:'', PUuid (pr_id req)]"
      "ev_event_id e2 = Uuid5 [PLit ''jarvis:permission-expired-run-failed:'', PUuid (pr_id req)]"
      "ev_run_id e1 = Some ?rid" "ev_run_id e2 = Some ?rid" "ev_sequence e1 = ?n" "ev_sequence e2 = ?n + 1"
    unfolding append_expiry_events_def Let_def tr prod.case
    by (elim rbind_InrE) (auto simp: expiry_events_def new_runtime_event_def simp del: outbox_create_all.simps split: prod.splits elim!: rbind_InrE)
  let ?d1 = "d\<lparr>db_events := db_events d @ [e1]\<rparr>"
  have new: "ev_event_id e1 \<notin> ev_event_id ` set (db_events d)" "ev_event_id e2 \<notin> ev_event_id ` set (db_events d)"
    using assms(2) e keep by (auto simp: expiry_unpublished_def)
  from ap new e have ap1: "events_append [e1] d = Inr ?d1" and ap2: "events_append [e2] ?d1 = Inr d2"
    by (auto simp: events_append.simps split: if_splits)
  have c: "contiguous ?rid d" "?n = get_next_sequence ?rid d"
    using assms(3) contiguous_same [OF keep] keep by (simp_all add: get_next_sequence_def)
  have c1: "contiguous ?rid ?d1" using contiguous_append [OF c(1) ap1 new(1) e(3)] e(5) c(2) by simp
  have "ev_sequence e2 = get_next_sequence ?rid ?d1"
    using contiguous_next [OF c1] contiguous_next [OF c(1)] events_by_run_append [OF ap1 new(1) e(3)] e(5,6) c(2) by simp
  then have "contiguous ?rid d2" using contiguous_append [OF c1 ap2 _ e(4)] new(2) e(1,2) by simp
  moreover have "db_events db' = db_events d2" using outbox_create_all_frame [OF out] by simp
  ultimately show ?thesis by (metis contiguous_same)
qed

text \<open>The children an expired request leaves behind, and the request itself.\<close>

lemma expire_step_outbox [simp]:
  "db_outbox (expire_step r now db) = db_outbox db" "db_outbox (expire_tool_call r now db) = db_outbox db"
  by simp_all

lemma run_get_fail_task: "run_get k (fail_task t now db) = run_get k db"
  by (simp add: run_get_def)

lemma expire_run_ok:
  assumes "run_get (pr_run_id req) db = Some run" "ar_status run = WaitingPermission" "expiry_unpublished req db"
  shows "\<exists>db'. expire_run req now clk db = Inr db' \<and> task_failed (pr_task_id req) db' \<and>
    (\<exists>r. run_get (pr_run_id req) db' = Some r \<and> ar_status r = Failed \<and> ar_worker_id r = None \<and>
       ar_lease_until r = None \<and> ar_checkpoint r = []) \<and>
    (contiguous (pr_run_id req) db \<longrightarrow> contiguous (pr_run_id req) db')"
proof -
  let ?rid = "pr_run_id req"
  let ?u = "\<lparr>lu_run_id = ar_id run, lu_new_status = Failed, lu_expected_version = ar_version run,
    lu_expected_status = Some WaitingPermission, lu_fields = [SetFailedAt now, SetError (Some expired_request_error),
    SetWorkerId None, SetLeaseUntil None, SetCheckpoint []], lu_now = clk 2\<rparr>"
  let ?d = "fail_task (pr_task_id req) now (run_put (updated_run ?u run) db)"
  have id: "ar_id run = ?rid" using assms(1) by (rule runs.get_key)
  have lock: "update_with_lock ?u db = (True, run_put (updated_run ?u run) db)"
    using assms(1,2) id by (simp add: update_with_lock_cases lock_ok_def)
  have "db_outbox (fail_task t now x) = db_outbox x" for t x by (simp add: fail_task_def split: option.split)
  then have same: "db_events ?d = db_events db" "db_outbox ?d = db_outbox db" by simp_all
  then have "expiry_unpublished req ?d" using assms(3) by (simp add: expiry_unpublished_def)
  from append_expiry_events_ok [OF this] obtain db' where
    ap: "append_expiry_events req run expired_request_error now (get_next_sequence ?rid ?d) clk ?d = Inr db'"
    unfolding is_ok_iff by blast
  have seq: "get_next_sequence ?rid ?d = get_next_sequence ?rid db" using same by (simp add: get_next_sequence_def)
  have ok: "expire_run req now clk db = Inr db'"
    using assms(1,2) lock ap seq by (simp add: expire_run_def Let_def)
  have f: "db_runs db' = db_runs ?d" "db_tasks db' = db_tasks ?d" using append_expiry_events_frame [OF ap] by simp_all
  have "run_get ?rid ?d = Some (updated_run ?u run)"
    using assms(1) id by (simp add: run_get_fail_task runs.get_put)
  then have "run_get ?rid db' = Some (updated_run ?u run)" using f(1) by (simp add: run_get_def)
  moreover have "task_failed (pr_task_id req) db'"
    using fail_task_failed [of "pr_task_id req" now] f(2) by (simp add: task_failed_def task_get_def)
  moreover have "contiguous ?rid db'" if "contiguous ?rid db"
    using append_expiry_events_contiguous [OF ap \<open>expiry_unpublished req ?d\<close>] contiguous_same [OF same(1)] that by blast
  ultimately show ?thesis using ok by (auto simp: updated_run_def)
qed

lemma expire_tool_call_closes:
  assumes "pr_tool_call_id r = Some cid" "tool_call_get cid (expire_tool_call r now db) = Some call"
  shows "tc_permission_status call \<noteq> ''pending''"
proof (cases "tool_call_get cid db")
  case None
  then show ?thesis using assms by (simp add: expire_tool_call_def)
next
  case (Some c)
  then have "tc_id c = cid" by (rule tool_calls.get_key)
  show ?thesis
  proof (cases "tc_permission_status c = ''pending''")
    case True
    let ?c = "c\<lparr>tc_permission_request_id := Some (pr_id r), tc_permission_status := ''expired''\<rparr>"
    let ?w = "if tool_call_open ?c then fail_tool_call expired_request_error now ?c else ?c"
    have w: "tc_id ?w = cid" "tc_permission_status (merge_tool_call ?w c) = ''expired''"
      using \<open>tc_id c = cid\<close> by (simp_all add: fail_tool_call_def merge_tool_call_def)
    have "expire_tool_call r now db = tool_call_update ?w db"
      using True Some assms(1) by (simp add: expire_tool_call_def Let_def)
    then have "tool_call_get cid (expire_tool_call r now db) = Some (merge_tool_call ?w c)"
      using Some w(1) tool_calls.get_put [of cid ?w db] by simp
    then show ?thesis using assms(2) w(2) by simp
  qed (use Some assms in \<open>simp add: expire_tool_call_def\<close>)
qed

text \<open>
  C37. A decision that comes too late is refused, and the request it answers is closed for good: the
  request is expired, the tool call waiting for it is no longer pending, the run that waited has failed,
  is held by nobody and has no checkpoint, its task has failed and its events have no gap; no command
  reaches the worker, and every later decision on the request is refused as well.
\<close>

theorem late_decision_fails_run:
  assumes "permission_get pid db = Some q" and "pr_status q = PermPending"
    and "validate_permission_decision q d = Inr ()" and "permission_request_is_expired (pr_expires_at q) (clk 0)"
    and "run_get (pr_run_id q) db = Some run" and "ar_status run = WaitingPermission"
    and "expiry_unpublished q db"
  shows "\<exists>db1 p r. decide pid d txt clk db = (Inl permission_not_pending, db1) \<and>
    permission_get pid db1 = Some p \<and> pr_status p = PermExpired \<and>
    run_get (pr_run_id q) db1 = Some r \<and> ar_status r = Failed \<and> ar_worker_id r = None \<and>
    ar_lease_until r = None \<and> ar_checkpoint r = [] \<and> task_failed (pr_task_id q) db1 \<and>
    (\<forall>cid call. pr_tool_call_id q = Some cid \<longrightarrow> tool_call_get cid db1 = Some call \<longrightarrow>
       tc_permission_status call \<noteq> ''pending'') \<and>
    (contiguous (pr_run_id q) db \<longrightarrow> contiguous (pr_run_id q) db1) \<and>
    filter (\<lambda>x. ob_event_type x = ''permission.decision'') (db_outbox db1) =
      filter (\<lambda>x. ob_event_type x = ''permission.decision'') (db_outbox db) \<and>
    (\<forall>d' txt' clk'. \<exists>e. decide pid d' txt' clk' db1 = (Inl e, db1))"
proof -
  let ?q = "q\<lparr>pr_status := PermExpired, pr_decided_at := Some (clk 0), pr_note := Some ''deadline_elapsed''\<rparr>"
  let ?d1 = "expire_tool_call ?q (clk 0) (permission_update ?q db)"
  let ?d = "expire_step ?q (clk 0) ?d1"
  have id: "pr_id q = pid" using assms(1) by (rule permissions.get_key)
  have ev: "db_events ?d = db_events db" "db_outbox ?d = db_outbox db" by simp_all
  have run: "run_get (pr_run_id ?q) ?d = Some run" using assms(5) by (simp add: run_get_def)
  have un: "expiry_unpublished ?q ?d" using assms(7) by (simp add: expiry_unpublished_def)
  obtain d2 where d2: "expire_run ?q (clk 0) clk ?d = Inr d2" "task_failed (pr_task_id q) d2"
    "\<exists>r. run_get (pr_run_id q) d2 = Some r \<and> ar_status r = Failed \<and> ar_worker_id r = None \<and>
       ar_lease_until r = None \<and> ar_checkpoint r = []"
    "contiguous (pr_run_id q) db \<longrightarrow> contiguous (pr_run_id q) d2"
    using expire_run_ok [OF run assms(6) un, of "clk 0" clk] contiguous_same [OF ev(1)] by auto
  let ?db1 = "audit_create (\<lambda>pk. (new_audit ''permission.expired'' ''system'' (pr_task_id ?q) (pr_run_id ?q)
      [(''request_id'', JId (pr_id ?q)), (''reason'', JStr ''deadline_elapsed''),
       (''expires_at'', json_time (pr_expires_at ?q))] (clk 0) pk)
      \<lparr>au_step_id := pr_step_id ?q, au_tool_call_id := pr_tool_call_id ?q,
       au_risk_level := Some (pr_risk_level ?q), au_action_summary := pr_action_summary ?q,
       au_error := Some expired_request_error, au_result_summary := Some ''expired''\<rparr>) d2"
  have locked: "expire_request_locked q (clk 0) clk db = Inr ?db1"
    using assms(2) d2(1) by (simp add: expire_request_locked_def Let_def)
  then have dec: "decide pid d txt clk db = (Inl permission_not_pending, ?db1)"
    using assms by (simp add: decide_def transact_def decide_tx_def)
  have frame: "db_permissions ?db1 = db_permissions (permission_update ?q db)" "db_tool_calls ?db1 = db_tool_calls ?d1"
    "filter (\<lambda>x. ob_event_type x = ''permission.decision'') (db_outbox ?db1) =
      filter (\<lambda>x. ob_event_type x = ''permission.decision'') (db_outbox db)"
    using expire_run_frame [OF d2(1)] ev(2) by simp_all
  have "permission_get pid (permission_update ?q db) = Some (merge_permission ?q q)"
    using permissions.get_put [of pid ?q db] assms(1) id by simp
  then have p: "permission_get pid ?db1 = Some (merge_permission ?q q)"
    using permission_get_same [OF frame(1)] by simp
  have st: "pr_status (merge_permission ?q q) = PermExpired" by (simp add: merge_permission_def)
  have call: "tc_permission_status call \<noteq> ''pending''"
    if "pr_tool_call_id q = Some cid" "tool_call_get cid ?db1 = Some call" for cid call
  proof -
    have "tool_call_get cid ?d1 = Some call" using that(2) tool_call_get_same [OF frame(2)] by simp
    with that(1) show ?thesis by (intro expire_tool_call_closes [of ?q cid]) simp_all
  qed
  have later: "\<exists>e. decide pid d' txt' clk' ?db1 = (Inl e, ?db1)" for d' txt' clk'
    using p st by (auto simp: decide_def transact_def decide_tx_def validate_permission_decision_def)
  have same: "db_runs ?db1 = db_runs d2" "db_tasks ?db1 = db_tasks d2" "db_events ?db1 = db_events d2" by simp_all
  have run': "\<exists>r. run_get (pr_run_id q) ?db1 = Some r \<and> ar_status r = Failed \<and> ar_worker_id r = None \<and>
       ar_lease_until r = None \<and> ar_checkpoint r = []"
    using d2(3) same(1) by (simp add: run_get_def)
  have "task_failed (pr_task_id q) ?db1" using d2(2) same(2) by (simp add: task_failed_def task_get_def)
  moreover have "contiguous (pr_run_id q) db \<longrightarrow> contiguous (pr_run_id q) ?db1"
    using d2(4) contiguous_same [OF same(3)] by blast
  ultimately show ?thesis using dec p st run' call frame(3) later by blast
qed

section \<open>Witnesses\<close>

definition asked_call :: tool_call where
  "asked_call = \<lparr>tc_id = Uuid4 7, tc_task_id = Uuid4 1, tc_run_id = Uuid4 0, tc_step_id = Uuid4 6,
     tc_provider = ''local'', tc_tool_name = ''write_file'', tc_risk_level = ''L2'', tc_arguments = [],
     tc_mcp_server_id = None, tc_arguments_summary = None, tc_result = JNull, tc_result_summary = None,
     tc_permission_request_id = None, tc_permission_status = ''pending'', tc_status = ''pending'',
     tc_error = None, tc_started_at = None, tc_completed_at = None, tc_duration_ms = None\<rparr>"

definition asked_request :: permission_request where
  "asked_request = (confirmation_request (Uuid4 9) (Uuid4 1) (Uuid4 0) ''write_file'' [] [] [] 0 100)
     \<lparr>pr_risk_level := ''L2'', pr_allowed_decisions := VALID_DECISIONS, pr_tool_call_id := Some (Uuid4 7)\<rparr>"

definition waiting_run :: agent_run where
  "waiting_run = sample_run\<lparr>ar_status := WaitingPermission, ar_version := 3\<rparr>"

definition asked_db :: db where
  "asked_db = (db_with waiting_run)\<lparr>db_tool_calls := [asked_call], db_permissions := [asked_request]\<rparr>"

definition decided_db :: db where
  "decided_db = snd (decide (Uuid4 9) ''allow_for_task'' ''fine'' int asked_db)"

lemma asked_decides:
  "\<exists>p. decide (Uuid4 9) ''allow_for_task'' ''fine'' int asked_db = (Inr p, decided_db)"
proof -
  have "is_ok (fst (decide (Uuid4 9) ''allow_for_task'' ''fine'' int asked_db))" by code_simp
  then show ?thesis unfolding decided_db_def is_ok_iff by (metis prod.collapse)
qed

lemma asked_facts:
  "permission_get (Uuid4 9) asked_db = Some asked_request" "pr_status asked_request = PermPending"
  "tool_call_get (Uuid4 7) asked_db = Some asked_call" "pr_tool_call_id asked_request = Some (Uuid4 7)"
  "run_get (pr_run_id asked_request) asked_db = Some waiting_run" "ar_status waiting_run = WaitingPermission"
  by code_simp+

lemma decision_is_final_witness:
  "\<exists>p. decide (Uuid4 9) ''allow_for_task'' ''again'' int decided_db = (Inr p, decided_db) \<and>
    (\<exists>e. decide (Uuid4 9) ''deny'' ''no'' int decided_db = (Inl e, decided_db))"
proof -
  obtain p where "decide (Uuid4 9) ''allow_for_task'' ''fine'' int asked_db = (Inr p, decided_db)"
    using asked_decides by blast
  from decision_is_final [OF this, where d' = "''deny''"] show ?thesis by auto
qed

lemma decision_recorded_witness:
  "\<exists>row cmd g. db_outbox decided_db = [row] \<and> permission_decision_from_dict (ob_payload row) = Inr cmd \<and>
    pd_decision cmd = JStr ''allow_for_task'' \<and> db_grants decided_db = [g] \<and> pg_tool_name g = Some ''write_file''"
proof -
  obtain p where "decide (Uuid4 9) ''allow_for_task'' ''fine'' int asked_db = (Inr p, decided_db)"
    using asked_decides by blast
  note d = decision_recorded [OF this asked_facts(1,2)]
  have "map_of GRANT_TYPE_BY_DECISION ''allow_for_task'' \<noteq> None" "db_grants asked_db = []" "db_outbox asked_db = []"
    "pr_tool_name asked_request = ''write_file''" by code_simp+
  with d show ?thesis by auto
qed

lemma late_decision_fails_run_witness:
  "\<exists>db1 r. decide (Uuid4 9) ''allow_once'' ''late'' (\<lambda>i. 200 + int i) asked_db = (Inl permission_not_pending, db1) \<and>
    run_get (Uuid4 0) db1 = Some r \<and> ar_status r = Failed \<and> contiguous (Uuid4 0) db1"
proof -
  have v: "validate_permission_decision asked_request ''allow_once'' = Inr ()" by code_simp
  have x: "permission_request_is_expired (pr_expires_at asked_request) (200 + int 0)" by code_simp
  have u: "expiry_unpublished asked_request asked_db" by code_simp
  have "contiguous (pr_run_id asked_request) asked_db" "pr_run_id asked_request = Uuid4 0" by code_simp+
  with late_decision_fails_run [where clk = "\<lambda>i. 200 + int i", OF asked_facts(1,2) v x asked_facts(5,6) u, of "''late''"]
  show ?thesis by auto
qed

end
