(* ===== verification/Outbox.thy ===== *)
theory Outbox
  imports RunService
begin

text \<open>
  The transactional outbox: \<open>database/outbox/repository.py\<close> (claiming and marking rows) and
  \<open>database/outbox/publisher.py\<close> (the publisher, with the script it runs inside Redis).  Redis is a
  parameter: the record \<open>redis\<close> holds the three commands the script calls, and \<open>redis_laws\<close> what is
  documented of them.  How a call to Redis ends is a parameter too (\<open>redis_reply\<close>), so that lost
  connections, lost replies and a flushed script cache are cases of every statement.
\<close>

section \<open>Rows\<close>

definition claimed :: "string \<Rightarrow> int \<Rightarrow> int \<Rightarrow> outbox_event \<Rightarrow> outbox_event" where
  "claimed publisher lease_seconds now row =
     row\<lparr>ob_status := ObDispatching, ob_claimed_by := Some publisher, ob_claimed_at := Some now,
       ob_lease_until := Some (now + seconds lease_seconds)\<rparr>"

definition claim_pending :: "nat \<Rightarrow> int \<Rightarrow> string \<Rightarrow> int \<Rightarrow> db \<Rightarrow> outbox_event list \<times> db" where
  "claim_pending batch_size lease_seconds publisher now db =
     (let rows = take batch_size (sort_key ob_created_at
            (filter (\<lambda>r. ob_status r = ObPending \<and> ob_next_retry_at r \<le> now) (db_outbox db)));
          ids = map ob_id rows; mark = claimed publisher lease_seconds now
      in if rows = [] then ([], db)
         else (map mark rows, db\<lparr>db_outbox := row_update (\<lambda>r. ob_id r \<in> set ids) mark (db_outbox db)\<rparr>))"

definition mark_delivered :: "uuid list \<Rightarrow> int \<Rightarrow> db \<Rightarrow> db" where
  "mark_delivered ids now db =
     db\<lparr>db_outbox := row_update (\<lambda>r. ob_id r \<in> set ids)
       (\<lambda>r. r\<lparr>ob_status := ObDelivered, ob_delivered_at := Some now, ob_claimed_by := None, ob_lease_until := None\<rparr>)
       (db_outbox db)\<rparr>"

text \<open>\<open>min(0.1 * 2 ** n, 60)\<close> seconds, in microseconds.\<close>

definition retry_backoff :: "int \<Rightarrow> int" where
  "retry_backoff n = min (100000 * 2 ^ nat n) (seconds 60)"

definition failed_row :: "string \<Rightarrow> string \<Rightarrow> int \<Rightarrow> outbox_event \<Rightarrow> outbox_event" where
  "failed_row code message now row =
     (let n = ob_retry_count row + 1;
          row = row\<lparr>ob_retry_count := n, ob_claimed_by := None, ob_claimed_at := None, ob_lease_until := None,
            ob_error_code := Some code, ob_error_message := Some message\<rparr>
      in if n \<ge> ob_max_retries row then row\<lparr>ob_status := ObDead\<rparr>
         else row\<lparr>ob_status := ObPending, ob_next_retry_at := now + retry_backoff n\<rparr>)"

definition mark_failed :: "uuid list \<Rightarrow> string \<Rightarrow> string \<Rightarrow> int \<Rightarrow> db \<Rightarrow> db" where
  "mark_failed ids code message now =
     fold (\<lambda>i db. db\<lparr>db_outbox := row_update (\<lambda>r. ob_id r = i) (failed_row code message now) (db_outbox db)\<rparr>) ids"

text \<open>The argument \<open>stale_seconds\<close> is not used: what counts is the lease.\<close>

definition stale_dispatching :: "int \<Rightarrow> outbox_event \<Rightarrow> bool" where
  "stale_dispatching now r \<longleftrightarrow> ob_status r = ObDispatching \<and>
     (case ob_lease_until r of None \<Rightarrow> False | Some t \<Rightarrow> t \<le> now)"

definition reset_stale_dispatching :: "int \<Rightarrow> int \<Rightarrow> db \<Rightarrow> nat \<times> db" where
  "reset_stale_dispatching stale_seconds now db =
     (length (filter (stale_dispatching now) (db_outbox db)),
      db\<lparr>db_outbox := row_update (stale_dispatching now)
        (\<lambda>r. r\<lparr>ob_status := ObPending, ob_claimed_by := None, ob_claimed_at := None, ob_lease_until := None\<rparr>)
        (db_outbox db)\<rparr>)"

section \<open>Streams\<close>

definition run_queue_stream :: string where "run_queue_stream = ''jarvis:stream:run-queue''"
definition worker_command_stream :: string where "worker_command_stream = ''jarvis:stream:worker-command''"
definition runtime_event_stream :: string where "runtime_event_stream = ''jarvis:stream:runtime-event''"

definition EVENT_TO_STREAM :: "(string \<times> string) list" where
  "EVENT_TO_STREAM =
     [(''task.created'', run_queue_stream), (''run.resume.requested'', run_queue_stream),
      (''run.retry.requested'', run_queue_stream), (''run.step_retry.requested'', run_queue_stream),
      (''run.queue.reconciled'', run_queue_stream), (''run.pause.requested'', worker_command_stream),
      (''run.cancel.requested'', worker_command_stream), (''permission.decision'', worker_command_stream)]"

definition RUN_JOB_EVENT_TYPES :: "string list" where
  "RUN_JOB_EVENT_TYPES = [''task.created'', ''run.resume.requested'', ''run.retry.requested'',
     ''run.step_retry.requested'', ''run.queue.reconciled'']"

definition WORKER_COMMAND_EVENT_TYPES :: "string list" where
  "WORKER_COMMAND_EVENT_TYPES = [''run.pause.requested'', ''run.cancel.requested'', ''permission.decision'']"

definition EVENT_TO_RUNTIME_STREAM :: "string list" where
  "EVENT_TO_RUNTIME_STREAM =
     [''task.updated'', ''agent.run.started'', ''agent.run.paused'', ''agent.run.resumed'', ''agent.run.completed'',
      ''agent.run.failed'', ''agent.run.cancelled'', ''agent.step.started'', ''agent.step.updated'',
      ''agent.step.completed'', ''agent.step.failed'', ''model.call.started'', ''model.context.prepared'',
      ''model.call.completed'', ''model.call.failed'', ''tool.call.started'', ''tool.call.finished'',
      ''tool.call.failed'', ''permission.required'', ''permission.resolved'', ''permission.expired'',
      ''artifact.created'']"

definition DEDUPE_TTL_SECONDS :: int where
  "DEDUPE_TTL_SECONDS = 86400"

text \<open>The stream of an event type, if the type is known.\<close>

definition stream_of :: "string \<Rightarrow> string option" where
  "stream_of ty =
     (case map_of EVENT_TO_STREAM ty of Some s \<Rightarrow> Some s
      | None \<Rightarrow> if ty \<in> set EVENT_TO_RUNTIME_STREAM then Some runtime_event_stream else None)"

text \<open>The fields of an entry; a field holds the value whose text is sent, the payload its JSON text.\<close>

definition copied :: "outbox_event \<Rightarrow> string list \<Rightarrow> dict" where
  "copied row ks = map (\<lambda>k. (k, dget (ob_payload row) k JNull)) ks"

definition fields_of :: "outbox_event \<Rightarrow> string list \<Rightarrow> dict \<Rightarrow> dict res" where
  "fields_of row required rest =
     (if \<exists>k \<in> set required. \<not> truthy (dget (ob_payload row) k JNull) then Inl ValueError
      else Inr ([(''schema_version'', JStr (ob_schema_version row)), (''payload'', JObj (ob_payload row))] @ rest))"

definition build_xadd_fields :: "outbox_event \<Rightarrow> dict res" where
  "build_xadd_fields row =
     (let ty = ob_event_type row in
      if ty \<in> set RUN_JOB_EVENT_TYPES then
        fields_of row [''job_id'', ''trace_id'', ''task_id'', ''run_id'', ''created_at'']
          (copied row [''job_id'', ''trace_id'', ''task_id'', ''run_id''] @ [(''type'', JStr ''run.job'')] @
           copied row [''created_at''])
      else if ty \<in> set WORKER_COMMAND_EVENT_TYPES then
        (let special = (if ty = ''permission.decision'' then [''request_id'', ''decided_at''] else [''requested_at''])
         in fields_of row ([''command_id'', ''trace_id'', ''task_id'', ''run_id'', ''type''] @ special)
              (copied row [''command_id'', ''trace_id'', ''task_id'', ''run_id'', ''type''] @ copied row special))
      else if ty \<in> set EVENT_TO_RUNTIME_STREAM then
        fields_of row [''event_id'', ''trace_id'', ''task_id'', ''run_id'', ''event_type'', ''produced_by'']
          (copied row [''event_id'', ''trace_id'', ''task_id'', ''run_id''] @
           [(''type'', dget (ob_payload row) ''event_type'' JNull)] @ copied row [''produced_by''])
      else
        (let own = dget (ob_payload row) ''type'' JNull in
         Inr [(''schema_version'', JStr (ob_schema_version row)), (''payload'', JObj (ob_payload row)),
           (''event_id'', JId (ob_event_id row)), (''trace_id'', JId (ob_trace_id row)),
           (''type'', if is_str own then own else JStr ty), (''created_at'', JTime (ob_created_at row))]))"

section \<open>The script\<close>

text \<open>The key \<open>jarvis:outbox:dedupe:<event id>\<close>.\<close>

datatype redis_key = Dedupe uuid

record 'r redis =
  rx_exists :: "redis_key \<Rightarrow> 'r \<Rightarrow> bool"
  rx_xadd :: "string \<Rightarrow> dict \<Rightarrow> 'r \<Rightarrow> 'r"
  rx_set_ex :: "redis_key \<Rightarrow> int \<Rightarrow> 'r \<Rightarrow> 'r"

definition dedupe_key :: "outbox_event \<Rightarrow> redis_key" where
  "dedupe_key row = Dedupe (ob_event_id row)"

text \<open>The result is whether the entry was added; Redis runs a script without interleaving.\<close>

definition atomic_xadd :: "'r redis \<Rightarrow> redis_key \<Rightarrow> string \<Rightarrow> dict \<Rightarrow> int \<Rightarrow> 'r \<Rightarrow> bool \<times> 'r" where
  "atomic_xadd rx key stream entry ttl r =
     (if rx_exists rx key r then (False, r) else (True, rx_set_ex rx key ttl (rx_xadd rx stream entry r)))"

text \<open>
  How a call ends: with the script's answer, with a flushed script cache, or with an exception (name
  and text), after which the script may have run or not.
\<close>

datatype redis_reply = Answered | NoScript | Broken (exc_name: string) (exc_text: string) (ran: bool)

type_synonym exc = "string \<times> string"

definition evalsha :: "redis_reply \<Rightarrow> ('r \<Rightarrow> bool \<times> 'r) \<Rightarrow> 'r \<Rightarrow> (exc + bool) \<times> 'r" where
  "evalsha reply script r =
     (case reply of
        Answered \<Rightarrow> (Inr (fst (script r)), snd (script r))
      | NoScript \<Rightarrow> (Inl (''NoScriptError'', ''NOSCRIPT''), r)
      | Broken e t b \<Rightarrow> (Inl (e, t), if b then snd (script r) else r))"

text \<open>\<open>_eval_atomic_xadd\<close>: reload once, which may itself fail, and try again.\<close>

record redis_call =
  rc_first :: redis_reply
  rc_reload :: "exc option"
  rc_second :: redis_reply

definition eval_atomic_xadd :: "redis_call \<Rightarrow> ('r \<Rightarrow> bool \<times> 'r) \<Rightarrow> 'r \<Rightarrow> (exc + bool) \<times> 'r" where
  "eval_atomic_xadd call script r =
     (case rc_first call of
        NoScript \<Rightarrow> (case rc_reload call of Some e \<Rightarrow> (Inl e, r) | None \<Rightarrow> evalsha (rc_second call) script r)
      | _ \<Rightarrow> evalsha (rc_first call) script r)"

definition classify_error :: "string \<Rightarrow> string" where
  "classify_error name =
     (if contains ''timeout'' (py_lower name) \<or> contains ''Timeout'' name then ''REDIS_TIMEOUT''
      else if contains ''connection'' (py_lower name) \<or> contains ''Connection'' name then ''REDIS_CONNECTION_ERROR''
      else if contains ''ResponseError'' name then ''REDIS_RESPONSE_ERROR''
      else ''REDIS_PUBLISH_ERROR'')"

section \<open>The publisher\<close>

type_synonym publish_result = "(string \<times> string) + bool"

definition publish_row :: "'r redis \<Rightarrow> redis_call \<Rightarrow> outbox_event \<Rightarrow> 'r \<Rightarrow> publish_result \<times> 'r" where
  "publish_row rx call row r =
     (let fail = (\<lambda>(name, txt). Inl (classify_error name, take 500 (name @ '': '' @ txt))) in
      case stream_of (ob_event_type row) of
        None \<Rightarrow> (Inl (''UNKNOWN_EVENT_TYPE'', ''event_type='' @ ob_event_type row @ '' is not a known type''), r)
      | Some stream \<Rightarrow>
          (case build_xadd_fields row of
             Inl e \<Rightarrow> (fail (''ValueError'', ''payload is missing fields''), r)
           | Inr entry \<Rightarrow>
               (case eval_atomic_xadd call (atomic_xadd rx (dedupe_key row) stream entry DEDUPE_TTL_SECONDS) r of
                  (Inl e, r) \<Rightarrow> (fail e, r) | (Inr b, r) \<Rightarrow> (Inr b, r))))"

fun publish_rows ::
  "'r redis \<Rightarrow> (uuid \<Rightarrow> redis_call) \<Rightarrow> outbox_event list \<Rightarrow> 'r \<Rightarrow> (uuid \<times> publish_result) list \<times> 'r" where
  "publish_rows rx calls [] r = ([], r)"
| "publish_rows rx calls (row # rows) r =
     (let (res, r) = publish_row rx (calls (ob_id row)) row r; (rest, r) = publish_rows rx calls rows r
      in ((ob_id row, res) # rest, r))"

definition mark_results :: "(uuid \<times> publish_result) list \<Rightarrow> int \<Rightarrow> db \<Rightarrow> db" where
  "mark_results results now db =
     (let success_ids = [i. (i, Inr b) \<leftarrow> results]; failed_info = [(i, e). (i, Inl e) \<leftarrow> results]
      in fold (\<lambda>(i, code, msg). mark_failed [i] code msg now) failed_info
           (if success_ids = [] then db else mark_delivered success_ids now db))"

definition publish_once ::
  "'r redis \<Rightarrow> nat \<Rightarrow> int \<Rightarrow> string \<Rightarrow> clock \<Rightarrow> (uuid \<Rightarrow> redis_call) \<Rightarrow> db \<times> 'r \<Rightarrow> nat \<times> db \<times> 'r" where
  "publish_once rx batch_size lease_seconds publisher clk calls s =
     (let (db, r) = s; (events, db) = claim_pending batch_size lease_seconds publisher (clk 0) db in
      if events = [] then (0, db, r)
      else (let (results, r) = publish_rows rx calls events r
            in (length (filter (\<lambda>(_, res). res = Inr True) results), mark_results results (clk 1) db, r)))"

section \<open>Reconciliation\<close>

text \<open>
  \<open>_queue_event_exists\<close>: when Redis is not configured or cannot be asked the event counts as present.
\<close>

definition queue_event_exists :: "'r redis option \<Rightarrow> (uuid \<Rightarrow> bool) \<Rightarrow> 'r \<Rightarrow> uuid \<Rightarrow> bool res" where
  "queue_event_exists rx reachable r event_id =
     (case rx of None \<Rightarrow> Inr True
      | Some rx \<Rightarrow> Inr (\<not> reachable event_id \<or> rx_exists rx (Dedupe event_id) r))"

end
