(* ===== verification/OutboxFacts.thy ===== *)
theory OutboxFacts
  imports Outbox
begin

text \<open>
  What the outbox promises.  The script refines a channel that takes every event once; over every
  interleaving of publishers no event is added to a stream twice within a day, and a row is delivered
  only when its event is in a stream; a failed attempt is bounded, and a cycle delivers what it can.
\<close>

section \<open>What is documented of Redis\<close>

text \<open>
  The view of a Redis state: its clock (microseconds), the entries ever added to the streams, and when
  each dedupe key expires.  A key that was set with an expiry exists until then, and only then.
\<close>

record redis_view =
  rv_now :: int
  rv_log :: "(string \<times> dict) list"
  rv_expires :: "redis_key \<Rightarrow> int option"

definition live :: "redis_key \<Rightarrow> redis_view \<Rightarrow> bool" where
  "live key v \<longleftrightarrow> (case rv_expires v key of None \<Rightarrow> False | Some t \<Rightarrow> rv_now v \<le> t)"

lemma live_added [simp]:
  "live k (v\<lparr>rv_log := l, rv_expires := (rv_expires v)(key \<mapsto> t)\<rparr>) = (if k = key then rv_now v \<le> t else live k v)"
  by (simp add: live_def split: option.split)

definition redis_laws :: "'r redis \<Rightarrow> ('r \<Rightarrow> redis_view) \<Rightarrow> bool" where
  "redis_laws rx view \<longleftrightarrow>
     (\<forall>key r. rx_exists rx key r = live key (view r)) \<and>
     (\<forall>stream entry r. view (rx_xadd rx stream entry r) = (view r)\<lparr>rv_log := rv_log (view r) @ [(stream, entry)]\<rparr>) \<and>
     (\<forall>key ttl r. view (rx_set_ex rx key ttl r) =
        (view r)\<lparr>rv_expires := (rv_expires (view r))(key \<mapsto> rv_now (view r) + seconds ttl)\<rparr>)"

text \<open>Time passes.\<close>

definition elapsed :: "redis_view \<Rightarrow> redis_view \<Rightarrow> bool" where
  "elapsed v v' \<longleftrightarrow> rv_now v \<le> rv_now v' \<and> rv_log v' = rv_log v \<and> rv_expires v' = rv_expires v"

section \<open>The script refines a channel that takes every key once\<close>

text \<open>
  The abstract channel remembers the keys it has taken and the entries in order; offering a key it has
  taken does nothing.
\<close>

type_synonym once = "redis_key set \<times> (string \<times> dict) list"

definition offer :: "redis_key \<Rightarrow> string \<times> dict \<Rightarrow> once \<Rightarrow> once" where
  "offer key entry c = (if key \<in> fst c then c else (insert key (fst c), snd c @ [entry]))"

text \<open>Executions of the script by any publishers, while time passes, within the lifetime of the first key.\<close>

inductive script_runs :: "'r redis \<Rightarrow> ('r \<Rightarrow> redis_view) \<Rightarrow> 'r \<Rightarrow> (redis_key \<times> string \<times> dict) list \<Rightarrow> 'r \<Rightarrow> bool"
  for rx :: "'r redis" and view :: "'r \<Rightarrow> redis_view" and r0 :: 'r where
  start: "script_runs rx view r0 [] r0"
| run: "script_runs rx view r0 xs r \<Longrightarrow>
    script_runs rx view r0 (xs @ [(key, stream, entry)]) (snd (atomic_xadd rx key stream entry DEDUPE_TTL_SECONDS r))"
| wait: "script_runs rx view r0 xs r \<Longrightarrow> elapsed (view r) (view r') \<Longrightarrow>
    rv_now (view r') \<le> rv_now (view r0) + seconds DEDUPE_TTL_SECONDS \<Longrightarrow> script_runs rx view r0 xs r'"

definition once_rel :: "redis_view \<Rightarrow> redis_view \<Rightarrow> once \<Rightarrow> bool" where
  "once_rel v0 v c \<longleftrightarrow> rv_log v = rv_log v0 @ snd c \<and> (\<forall>key. live key v \<longleftrightarrow> key \<in> fst c) \<and>
     rv_now v0 \<le> rv_now v \<and> rv_now v \<le> rv_now v0 + seconds DEDUPE_TTL_SECONDS \<and>
     (\<forall>key t. rv_expires v key = Some t \<longrightarrow> rv_now v0 + seconds DEDUPE_TTL_SECONDS \<le> t)"

lemma atomic_xadd_view:
  assumes "redis_laws rx view"
  shows "view (snd (atomic_xadd rx key stream entry ttl r)) =
    (if live key (view r) then view r
     else (view r)\<lparr>rv_log := rv_log (view r) @ [(stream, entry)],
       rv_expires := (rv_expires (view r))(key \<mapsto> rv_now (view r) + seconds ttl)\<rparr>)"
    and "fst (atomic_xadd rx key stream entry ttl r) = (\<not> live key (view r))"
  using assms by (auto simp: atomic_xadd_def redis_laws_def)

lemma seconds_nonneg: "0 \<le> n \<Longrightarrow> 0 \<le> seconds n"
  by (simp add: seconds_def)

lemma script_step_refines:
  assumes "redis_laws rx view" and "once_rel v0 (view r) c"
  shows "once_rel v0 (view (snd (atomic_xadd rx key stream entry DEDUPE_TTL_SECONDS r))) (offer key (stream, entry) c)"
  using assms(2) seconds_nonneg [of DEDUPE_TTL_SECONDS]
  by (auto simp: once_rel_def offer_def atomic_xadd_view [OF assms(1)] DEDUPE_TTL_SECONDS_def)

lemma once_rel_elapsed:
  assumes "once_rel v0 v c" and "elapsed v v'" and "rv_now v' \<le> rv_now v0 + seconds DEDUPE_TTL_SECONDS"
  shows "once_rel v0 v' c"
proof -
  have "live key v' = live key v" for key
    using assms by (cases "rv_expires v key") (fastforce simp: once_rel_def elapsed_def live_def)+
  then show ?thesis using assms by (simp add: once_rel_def elapsed_def)
qed

text \<open>
  C35. Within the lifetime of a dedupe key the streams behave as a channel that takes every event once:
  whatever publishers execute the script, in whatever order and how often, the streams contain
  exactly the entries of the events in the order in which each was first offered.
\<close>

theorem script_refines_once:
  assumes "redis_laws rx view" and "\<forall>key. rv_expires (view r0) key = None" and "script_runs rx view r0 xs r"
  shows "rv_log (view r) = rv_log (view r0) @
    snd (fold (\<lambda>(key, stream, entry). offer key (stream, entry)) xs ({}, []))"
proof -
  have "once_rel (view r0) (view r) (fold (\<lambda>(key, stream, entry). offer key (stream, entry)) xs ({}, []))"
    using assms(3)
  proof induction
    case start
    then show ?case using assms(2) seconds_nonneg [of DEDUPE_TTL_SECONDS]
      by (auto simp: once_rel_def live_def DEDUPE_TTL_SECONDS_def)
  next
    case (run xs r key stream entry)
    then show ?case using script_step_refines [OF assms(1)] by simp
  next
    case (wait xs r r')
    then show ?case using once_rel_elapsed by blast
  qed
  then show ?thesis by (simp add: once_rel_def)
qed

section \<open>Interleaved publishers\<close>

text \<open>
  A configuration of any number of publishers: the rows handed to some publisher, the results some
  publisher holds but may not have marked yet, the outbox, Redis, and when which event was added to a
  stream.  A publisher that crashes simply takes no further step; one that hangs may mark very late.
\<close>

record 'r pub =
  pb_claimed :: "outbox_event set"
  pb_results :: "(outbox_event \<times> publish_result) set"
  pb_db :: db
  pb_redis :: 'r
  pb_added :: "(uuid \<times> int) list"

inductive pub_step :: "'r redis \<Rightarrow> ('r \<Rightarrow> redis_view) \<Rightarrow> 'r pub \<Rightarrow> 'r pub \<Rightarrow> bool"
  for rx :: "'r redis" and view :: "'r \<Rightarrow> redis_view" where
  claim: "claim_pending n lease w now (pb_db c) = (rows, db') \<Longrightarrow>
    pub_step rx view c (c\<lparr>pb_claimed := pb_claimed c \<union> set rows, pb_db := db'\<rparr>)"
| publish: "row \<in> pb_claimed c \<Longrightarrow> publish_row rx call row (pb_redis c) = (res, r') \<Longrightarrow>
    pub_step rx view c (c\<lparr>pb_results := insert (row, res) (pb_results c), pb_redis := r',
      pb_added := pb_added c @ (if length (rv_log (view r')) = length (rv_log (view (pb_redis c))) then []
        else [(ob_event_id row, rv_now (view (pb_redis c)))])\<rparr>)"
| delivered: "\<forall>i \<in> set ids. \<exists>row b. (row, Inr b) \<in> pb_results c \<and> ob_id row = i \<Longrightarrow>
    pub_step rx view c (c\<lparr>pb_db := mark_delivered ids now (pb_db c)\<rparr>)"
| failed: "(row, Inl (code, msg)) \<in> pb_results c \<Longrightarrow>
    pub_step rx view c (c\<lparr>pb_db := mark_failed [ob_id row] code msg now (pb_db c)\<rparr>)"
| reset: "pub_step rx view c (c\<lparr>pb_db := snd (reset_stale_dispatching n now (pb_db c))\<rparr>)"
| written: "outbox_create mk (pb_db c) = Inr db' \<Longrightarrow> ob_status (mk (fresh (pb_db c))) = ObPending \<Longrightarrow>
    ob_id (mk (fresh (pb_db c))) \<notin> ob_id ` set (db_outbox (pb_db c)) \<Longrightarrow>
    pub_step rx view c (c\<lparr>pb_db := db'\<rparr>)"
| time: "elapsed (view (pb_redis c)) (view r') \<Longrightarrow> pub_step rx view c (c\<lparr>pb_redis := r'\<rparr>)"

abbreviation pub_steps :: "'r redis \<Rightarrow> ('r \<Rightarrow> redis_view) \<Rightarrow> 'r pub \<Rightarrow> 'r pub \<Rightarrow> bool" where
  "pub_steps rx view \<equiv> (pub_step rx view)\<^sup>*\<^sup>*"

inductive_cases pub_stepE: "pub_step rx view c c'"

text \<open>How publishing one row changes Redis: not at all, or by exactly one execution of the script.\<close>

definition script_for :: "'r redis \<Rightarrow> outbox_event \<Rightarrow> 'r \<Rightarrow> bool \<times> 'r" where
  "script_for rx row = atomic_xadd rx (dedupe_key row) (the (stream_of (ob_event_type row)))
     (case build_xadd_fields row of Inr entry \<Rightarrow> entry | Inl _ \<Rightarrow> []) DEDUPE_TTL_SECONDS"

lemma eval_atomic_xadd_cases:
  "eval_atomic_xadd call script r = (res, r') \<Longrightarrow> r' = snd (script r) \<or> (r' = r \<and> (\<forall>b. res \<noteq> Inr b))"
  by (auto simp: eval_atomic_xadd_def evalsha_def split: redis_reply.splits option.splits if_splits)

lemma eval_atomic_xadd_Inr: "eval_atomic_xadd call script r = (Inr b, r') \<Longrightarrow> script r = (b, r')"
  by (auto simp: eval_atomic_xadd_def evalsha_def prod_eq_iff split: redis_reply.splits option.splits if_splits)

lemma publish_row_cases:
  assumes "publish_row rx call row r = (res, r')"
  shows "(r' = r \<and> (\<forall>b. res \<noteq> Inr b)) \<or>
    (r' = snd (script_for rx row r) \<and> stream_of (ob_event_type row) \<noteq> None)"
  using assms
  by (auto simp: publish_row_def Let_def script_for_def split: option.splits sum.splits prod.splits dest!: eval_atomic_xadd_cases)

lemma publish_row_Inr:
  assumes "publish_row rx call row r = (Inr b, r')"
  shows "script_for rx row r = (b, r') \<and> stream_of (ob_event_type row) \<noteq> None"
  using assms
  by (auto simp: publish_row_def Let_def script_for_def split: option.splits sum.splits prod.splits dest!: eval_atomic_xadd_Inr)

subsection \<open>Events are added once in a window\<close>

definition added_spaced :: "(uuid \<times> int) list \<Rightarrow> bool" where
  "added_spaced xs \<longleftrightarrow> sorted_wrt (\<lambda>(e, t) (e', t'). e = e' \<longrightarrow> t + seconds DEDUPE_TTL_SECONDS < t') xs"

definition added_inv :: "(uuid \<times> int) list \<Rightarrow> redis_view \<Rightarrow> bool" where
  "added_inv xs v \<longleftrightarrow> added_spaced xs \<and>
     (\<forall>e t. (e, t) \<in> set xs \<longrightarrow>
        (\<exists>x. rv_expires v (Dedupe e) = Some x \<and> t + seconds DEDUPE_TTL_SECONDS \<le> x)) \<and>
     (\<forall>e. rv_expires v (Dedupe e) \<noteq> None \<longrightarrow> e \<in> fst ` set xs)"

lemma added_inv_script:
  assumes "redis_laws rx view" and "added_inv xs (view r)" and "script_for rx row r = (b, r')"
  shows "added_inv (xs @ (if length (rv_log (view r')) = length (rv_log (view r)) then []
      else [(ob_event_id row, rv_now (view r))])) (view r') \<and>
    ob_event_id row \<in> fst ` set (xs @ (if length (rv_log (view r')) = length (rv_log (view r)) then []
      else [(ob_event_id row, rv_now (view r))]))"
proof -
  let ?e = "ob_event_id row" and ?v = "view r"
  have r': "view r' = (if live (Dedupe ?e) ?v then ?v else ?v\<lparr>
      rv_log := rv_log ?v @ [(the (stream_of (ob_event_type row)), case build_xadd_fields row of Inr entry \<Rightarrow> entry | Inl _ \<Rightarrow> [])],
      rv_expires := (rv_expires ?v)(Dedupe ?e \<mapsto> rv_now ?v + seconds DEDUPE_TTL_SECONDS)\<rparr>)"
    using assms(3) atomic_xadd_view(1) [OF assms(1)] unfolding script_for_def dedupe_key_def by (metis snd_conv)
  show ?thesis
  proof (cases "live (Dedupe ?e) ?v")
    case True
    then have "?e \<in> fst ` set xs" using assms(2) by (auto simp: added_inv_def live_def split: option.splits)
    then show ?thesis using True r' assms(2) by simp
  next
    case False
    have old: "t + seconds DEDUPE_TTL_SECONDS < rv_now ?v" if "(?e, t) \<in> set xs" for t
      using assms(2) False that by (fastforce simp: added_inv_def live_def split: option.splits)
    then have "added_spaced (xs @ [(?e, rv_now ?v)])"
      using assms(2) by (auto simp: added_inv_def added_spaced_def sorted_wrt_append)
    moreover have "t \<le> rv_now ?v" if "(?e, t) \<in> set xs" for t
      using old [OF that] by (simp add: seconds_def DEDUPE_TTL_SECONDS_def)
    ultimately show ?thesis
      using False r' assms(2) by (auto simp: added_inv_def)
  qed
qed

lemma pub_step_added:
  assumes "pub_step rx view c c'" and "redis_laws rx view" and "added_inv (pb_added c) (view (pb_redis c))"
  shows "added_inv (pb_added c') (view (pb_redis c'))"
  using assms(1)
proof cases
  case (publish row call res r')
  from publish_row_cases [OF publish(3)] show ?thesis
  proof
    assume "r' = pb_redis c \<and> (\<forall>b. res \<noteq> Inr b)"
    then show ?thesis using publish(1) assms(3) by simp
  next
    assume "r' = snd (script_for rx row (pb_redis c)) \<and> stream_of (ob_event_type row) \<noteq> None"
    then have "script_for rx row (pb_redis c) = (fst (script_for rx row (pb_redis c)), r')" by simp
    from added_inv_script [OF assms(2,3) this] show ?thesis using publish(1) by simp
  qed
next
  case (time r')
  then show ?thesis using assms(3) by (simp add: elapsed_def added_inv_def)
qed (use assms(3) in simp_all)

text \<open>
  C34. No event is added to a stream twice within a day: however many publishers claim, publish, crash,
  time out, retry and reset each other's rows, two additions of the same event are more than the
  86400 seconds of its dedupe key apart.
\<close>

theorem event_added_once_a_day:
  assumes "redis_laws rx view" and "pub_steps rx view c0 c" and "pb_added c0 = []"
    and "\<forall>key. rv_expires (view (pb_redis c0)) key = None"
    and "i < j" and "j < length (pb_added c)" and "fst (pb_added c ! i) = fst (pb_added c ! j)"
  shows "snd (pb_added c ! i) + seconds 86400 < snd (pb_added c ! j)"
proof -
  have "added_inv (pb_added c) (view (pb_redis c))"
    using assms(2)
  proof (induction rule: rtranclp_induct)
    case base
    then show ?case using assms(3,4) by (simp add: added_inv_def added_spaced_def)
  next
    case (step c1 c2)
    then show ?case using pub_step_added assms(1) by blast
  qed
  then have "added_spaced (pb_added c)" by (simp add: added_inv_def)
  then show ?thesis
    using assms(5-7) by (auto simp: added_spaced_def sorted_wrt_iff_nth_less split_def DEDUPE_TTL_SECONDS_def)
qed

subsection \<open>Delivered means published\<close>

text \<open>What no operation on a row changes.\<close>

definition row_core :: "outbox_event \<Rightarrow> uuid \<times> uuid \<times> string" where
  "row_core r = (ob_id r, ob_event_id r, ob_event_type r)"

definition cores :: "db \<Rightarrow> (uuid \<times> uuid \<times> string) list" where
  "cores db = map row_core (db_outbox db)"

definition delivered_cores :: "db \<Rightarrow> (uuid \<times> uuid \<times> string) set" where
  "delivered_cores db = row_core ` {r \<in> set (db_outbox db). ob_status r = ObDelivered}"

lemma row_update_cores:
  assumes "\<And>r. row_core (f r) = row_core r"
  shows "map row_core (row_update p f rows) = map row_core rows"
  using assms by (induction rows) simp_all

lemma row_update_delivered:
  assumes "\<And>r. row_core (f r) = row_core r" "\<And>r. ob_status (f r) \<noteq> ObDelivered"
  shows "row_core ` {r \<in> set (row_update p f rows). ob_status r = ObDelivered} \<subseteq>
    row_core ` {r \<in> set rows. ob_status r = ObDelivered}"
  using assms by (auto simp: set_row_update)

lemma failed_row_core [simp]: "row_core (failed_row code msg now r) = row_core r"
  "ob_status (failed_row code msg now r) \<noteq> ObDelivered"
  by (simp_all add: failed_row_def row_core_def Let_def)

lemma claim_pending_rows:
  assumes "claim_pending n lease w now db = (rows, db')"
  shows "cores db' = cores db \<and> delivered_cores db' \<subseteq> delivered_cores db \<and> row_core ` set rows \<subseteq> set (cores db)"
proof (cases "rows = []")
  case True
  then have "db' = db" using assms by (auto simp: claim_pending_def Let_def split: if_splits)
  with True show ?thesis by simp
next
  case False
  let ?rows = "take n (sort_key ob_created_at
      (filter (\<lambda>r. ob_status r = ObPending \<and> ob_next_retry_at r \<le> now) (db_outbox db)))"
  have eq: "rows = map (claimed w lease now) ?rows"
    "db' = db\<lparr>db_outbox := row_update (\<lambda>r. ob_id r \<in> ob_id ` set ?rows) (claimed w lease now) (db_outbox db)\<rparr>"
    using assms False by (auto simp: claim_pending_def Let_def split: if_splits)
  have c: "row_core (claimed w lease now r) = row_core r" "ob_status (claimed w lease now r) \<noteq> ObDelivered" for r
    by (simp_all add: claimed_def row_core_def)
  have "set ?rows \<subseteq> set (db_outbox db)" using set_take_subset by fastforce
  then have "row_core ` set rows \<subseteq> set (cores db)" using eq(1) c(1) by (auto simp: cores_def)
  then show ?thesis
    unfolding eq(2) cores_def delivered_cores_def
    using row_update_cores [OF c(1)] row_update_delivered [OF c] by simp
qed

lemma mark_delivered_rows:
  "cores (mark_delivered ids now db) = cores db"
  "delivered_cores (mark_delivered ids now db) \<subseteq> delivered_cores db \<union> {x \<in> set (cores db). fst x \<in> set ids}"
proof -
  show "cores (mark_delivered ids now db) = cores db"
    unfolding cores_def mark_delivered_def by (simp add: row_update_cores row_core_def)
  show "delivered_cores (mark_delivered ids now db) \<subseteq> delivered_cores db \<union> {x \<in> set (cores db). fst x \<in> set ids}"
    by (auto simp: delivered_cores_def cores_def mark_delivered_def set_row_update row_core_def split: if_splits)
qed

lemma mark_failed_rows:
  "cores (mark_failed ids code msg now db) = cores db"
  "delivered_cores (mark_failed ids code msg now db) \<subseteq> delivered_cores db"
proof -
  let ?f = "failed_row code msg now"
  have c: "cores (mark_failed ids code msg now db) = cores db \<and>
      delivered_cores (mark_failed ids code msg now db) \<subseteq> delivered_cores db"
  proof (induction ids arbitrary: db)
    case (Cons i ids)
    let ?d = "db\<lparr>db_outbox := row_update (\<lambda>r. ob_id r = i) ?f (db_outbox db)\<rparr>"
    have "cores ?d = cores db" "delivered_cores ?d \<subseteq> delivered_cores db"
      using row_update_cores [of ?f] row_update_delivered [of ?f] by (simp_all add: cores_def delivered_cores_def)
    then show ?case using Cons.IH [of ?d] by (auto simp: mark_failed_def)
  qed (simp add: mark_failed_def)
  then show "cores (mark_failed ids code msg now db) = cores db"
    "delivered_cores (mark_failed ids code msg now db) \<subseteq> delivered_cores db" by auto
qed

lemma reset_rows:
  "cores (snd (reset_stale_dispatching n now db)) = cores db"
  "delivered_cores (snd (reset_stale_dispatching n now db)) \<subseteq> delivered_cores db"
proof -
  let ?f = "\<lambda>r. r\<lparr>ob_status := ObPending, ob_claimed_by := None, ob_claimed_at := None, ob_lease_until := None\<rparr>"
  have "row_core (?f r) = row_core r" "ob_status (?f r) \<noteq> ObDelivered" for r by (simp_all add: row_core_def)
  from row_update_cores [OF this(1)] row_update_delivered [OF this]
  show "cores (snd (reset_stale_dispatching n now db)) = cores db"
    "delivered_cores (snd (reset_stale_dispatching n now db)) \<subseteq> delivered_cores db"
    by (simp_all add: reset_stale_dispatching_def cores_def delivered_cores_def)
qed

definition published :: "(uuid \<times> int) list \<Rightarrow> uuid \<times> uuid \<times> string \<Rightarrow> bool" where
  "published added = (\<lambda>(_, event, ty). event \<in> fst ` set added \<and> stream_of ty \<noteq> None)"

definition delivered_inv :: "'r pub \<Rightarrow> bool" where
  "delivered_inv c \<longleftrightarrow> distinct (map fst (cores (pb_db c))) \<and>
     row_core ` pb_claimed c \<subseteq> set (cores (pb_db c)) \<and>
     (\<forall>row b. (row, Inr b) \<in> pb_results c \<longrightarrow>
        row_core row \<in> set (cores (pb_db c)) \<and> published (pb_added c) (row_core row)) \<and>
     (\<forall>x \<in> delivered_cores (pb_db c). published (pb_added c) x)"

lemma published_mono: "published xs x \<Longrightarrow> published (xs @ ys) x"
  by (auto simp: published_def)

text \<open>An operation on the outbox that adds no delivered row keeps the invariant.\<close>

lemma delivered_inv_db:
  assumes "delivered_inv c" and "cores db' = cores (pb_db c) @ new" and "delivered_cores db' \<subseteq> delivered_cores (pb_db c)"
    and "distinct (map fst (cores (pb_db c) @ new))" and "row_core ` E \<subseteq> set (cores db')"
  shows "delivered_inv (c\<lparr>pb_claimed := E, pb_db := db'\<rparr>)"
  using assms unfolding delivered_inv_def by auto

lemma pub_step_delivered:
  assumes "pub_step rx view c c'" and "redis_laws rx view" and "added_inv (pb_added c) (view (pb_redis c))"
    and "delivered_inv c"
  shows "delivered_inv c'"
proof -
  have inv: "distinct (map fst (cores (pb_db c)))" "row_core ` pb_claimed c \<subseteq> set (cores (pb_db c))"
    using assms(4) by (simp_all add: delivered_inv_def)
  have keep: "delivered_inv (c\<lparr>pb_db := db'\<rparr>)"
    if "cores db' = cores (pb_db c) @ new" "delivered_cores db' \<subseteq> delivered_cores (pb_db c)"
      "distinct (map fst (cores (pb_db c) @ new))" for db' new
    using delivered_inv_db [OF assms(4) that(1,2,3), of "pb_claimed c"] inv(2) that(1) by auto
  from assms(1) show ?thesis
  proof cases
    case (claim n lease w now rows db')
    note q = claim_pending_rows [OF claim(2)]
    have "delivered_inv (c\<lparr>pb_claimed := pb_claimed c \<union> set rows, pb_db := db'\<rparr>)"
      by (rule delivered_inv_db [OF assms(4), where new = "[]"]) (use q inv in auto)
    then show ?thesis using claim(1) by simp
  next
    case (publish row call res r')
    have core: "row_core row \<in> set (cores (pb_db c))" using inv(2) publish(2) by auto
    let ?xs = "pb_added c @ (if length (rv_log (view r')) = length (rv_log (view (pb_redis c))) then []
        else [(ob_event_id row, rv_now (view (pb_redis c)))])"
    have "published ?xs (row_core row)" if "res = Inr b" for b
    proof -
      from publish_row_Inr [OF publish(3) [unfolded that]] have "script_for rx row (pb_redis c) = (b, r')"
        "stream_of (ob_event_type row) \<noteq> None" by simp_all
      with added_inv_script [OF assms(2,3) this(1)] show ?thesis by (simp add: published_def row_core_def)
    qed
    then show ?thesis
      using assms(4) core publish(1) unfolding delivered_inv_def by (auto intro: published_mono)
  next
    case (delivered ids now)
    have ids: "published (pb_added c) x" if x: "x \<in> set (cores (pb_db c))" "fst x \<in> set ids" for x
    proof -
      from delivered(2) x(2) obtain row b where row: "(row, Inr b) \<in> pb_results c" "ob_id row = fst x" by auto
      then have r: "row_core row \<in> set (cores (pb_db c))" "published (pb_added c) (row_core row)"
        using assms(4) by (auto simp: delivered_inv_def)
      have "fst (row_core row) = fst x" using row(2) by (simp add: row_core_def)
      then have "row_core row = x" using inv(1) r(1) x(1) by (metis distinct_map inj_onD)
      then show ?thesis using r(2) by simp
    qed
    show ?thesis
      using assms(4) delivered(1) mark_delivered_rows [of ids now "pb_db c"] ids
      unfolding delivered_inv_def by auto
  next
    case (failed row code msg now)
    then show ?thesis using keep [of _ "[]"] mark_failed_rows inv(1) by simp
  next
    case (reset n now)
    then show ?thesis using keep [of _ "[]"] reset_rows inv(1) by simp
  next
    case (written mk db')
    let ?row = "mk (fresh (pb_db c))"
    have out: "db_outbox db' = db_outbox (pb_db c) @ [?row]"
      using written(2) by (auto simp: outbox_create_def Let_def split: if_splits)
    then have "cores db' = cores (pb_db c) @ [row_core ?row]" "delivered_cores db' = delivered_cores (pb_db c)"
      using written(3) by (auto simp: cores_def delivered_cores_def)
    moreover have "distinct (map fst (cores (pb_db c) @ [row_core ?row]))"
      using inv(1) written(4) by (auto simp: cores_def row_core_def)
    ultimately show ?thesis using keep written(1) by simp
  next
    case (time r')
    then show ?thesis using assms(4) by (simp add: delivered_inv_def)
  qed
qed

text \<open>
  A row is marked delivered only when its event is in a stream: in every interleaving of
  publishers, each row with status delivered has an event type the publisher knows, and its event was
  added to a stream, by this attempt or by an earlier one.
\<close>

theorem delivered_is_published:
  assumes "redis_laws rx view" and "pub_steps rx view c0 c"
    and "pb_claimed c0 = {}" and "pb_results c0 = {}" and "pb_added c0 = []"
    and "\<forall>key. rv_expires (view (pb_redis c0)) key = None"
    and "distinct (map ob_id (db_outbox (pb_db c0)))"
    and "\<forall>row \<in> set (db_outbox (pb_db c0)). ob_status row \<noteq> ObDelivered"
    and "row \<in> set (db_outbox (pb_db c))" and "ob_status row = ObDelivered"
  shows "ob_event_id row \<in> fst ` set (pb_added c) \<and> stream_of (ob_event_type row) \<noteq> None"
proof -
  have "added_inv (pb_added c) (view (pb_redis c)) \<and> delivered_inv c"
    using assms(2)
  proof (induction rule: rtranclp_induct)
    case base
    have "map fst (cores (pb_db c0)) = map ob_id (db_outbox (pb_db c0))" by (simp add: cores_def row_core_def)
    then have "delivered_inv c0"
      using assms(3,4,7,8) by (auto simp: delivered_inv_def delivered_cores_def simp del: map_map)
    then show ?case using assms(5,6) by (simp add: added_inv_def added_spaced_def)
  next
    case (step c1 c2)
    then show ?case using pub_step_added pub_step_delivered assms(1) by blast
  qed
  moreover have "row_core row \<in> delivered_cores (pb_db c)" using assms(9,10) by (simp add: delivered_cores_def)
  ultimately have "published (pb_added c) (row_core row)" by (simp add: delivered_inv_def)
  then show ?thesis by (simp add: published_def row_core_def)
qed

section \<open>Failures\<close>

lemma retry_backoff_bounds: "0 < n \<Longrightarrow> 200000 \<le> retry_backoff n \<and> retry_backoff n \<le> seconds 60"
proof -
  assume "0 < n"
  then have "(2::int) ^ 1 \<le> 2 ^ nat n" by (intro power_increasing) auto
  then show ?thesis by (simp add: retry_backoff_def seconds_def)
qed

text \<open>
  A failed attempt is counted and bounded: the row waits between 0.2 and 60 seconds for its next
  attempt, and after \<open>max_retries\<close> attempts it is dead, with the error that ended it, and no publisher
  claims it again.
\<close>

theorem failed_attempt_bounded:
  assumes "row \<in> set (db_outbox db)" and "0 \<le> ob_retry_count row"
  shows "\<exists>row' \<in> set (db_outbox (mark_failed [ob_id row] code msg now db)).
    ob_id row' = ob_id row \<and> ob_retry_count row' = ob_retry_count row + 1 \<and> ob_error_code row' = Some code \<and>
    (if ob_retry_count row' < ob_max_retries row'
     then ob_status row' = ObPending \<and> now + 200000 \<le> ob_next_retry_at row' \<and> ob_next_retry_at row' \<le> now + seconds 60
     else ob_status row' = ObDead \<and> (\<forall>n lease w t db2. row' \<notin> set (fst (claim_pending n lease w t db2))))"
proof -
  let ?row' = "failed_row code msg now row"
  have "?row' \<in> set (db_outbox (mark_failed [ob_id row] code msg now db))"
    using assms(1) by (auto simp: mark_failed_def set_row_update)
  moreover have "r \<notin> set (fst (claim_pending n lease w t db2))" if "ob_status r = ObDead" for r n lease w t db2
    using that by (auto simp: claim_pending_def Let_def claimed_def)
  ultimately show ?thesis
    using assms(2) retry_backoff_bounds [of "ob_retry_count row + 1"]
    by (intro bexI [of _ ?row']) (auto simp: failed_row_def Let_def)
qed

section \<open>A cycle delivers\<close>

lemma publish_rows_ids: "map fst (fst (publish_rows rx calls rows r)) = map ob_id rows"
  by (induction rows arbitrary: r) (auto split: prod.splits simp: split_def Let_def)

text \<open>A row that can be encoded, and whose call is answered.\<close>

definition answerable :: "(uuid \<Rightarrow> redis_call) \<Rightarrow> outbox_event \<Rightarrow> string \<Rightarrow> dict \<Rightarrow> bool" where
  "answerable calls row stream entry \<longleftrightarrow> rc_first (calls (ob_id row)) = Answered \<and>
     stream_of (ob_event_type row) = Some stream \<and> build_xadd_fields row = Inr entry"

lemma publish_row_answered:
  assumes "answerable calls row stream entry"
  shows "publish_row rx (calls (ob_id row)) row r =
    map_prod Inr id (atomic_xadd rx (dedupe_key row) stream entry DEDUPE_TTL_SECONDS r)"
  using assms by (simp add: answerable_def publish_row_def eval_atomic_xadd_def evalsha_def prod_eq_iff)

lemma publish_rows_answered:
  "row \<in> set rows \<Longrightarrow> answerable calls row stream entry \<Longrightarrow>
     \<exists>b. (ob_id row, Inr b) \<in> set (fst (publish_rows rx calls rows r))"
  by (induction rows arbitrary: r) (auto simp: publish_row_answered split_def Let_def)

lemma publish_row_log:
  assumes "redis_laws rx view" and "publish_row rx call row r = (res, r')"
  shows "set (rv_log (view r)) \<subseteq> set (rv_log (view r')) \<and>
    (\<forall>key. key \<noteq> dedupe_key row \<longrightarrow> live key (view r') = live key (view r))"
proof -
  have "r' = r \<or> r' = snd (script_for rx row r)" using publish_row_cases [OF assms(2)] by blast
  then show ?thesis
    using atomic_xadd_view(1) [OF assms(1), of "dedupe_key row"]
    by (auto simp: script_for_def split: if_splits)
qed

lemma publish_rows_log:
  assumes "redis_laws rx view"
  shows "publish_rows rx calls rows r = (res, r') \<Longrightarrow> set (rv_log (view r)) \<subseteq> set (rv_log (view r'))"
proof (induction rows arbitrary: r res)
  case (Cons row rows)
  obtain x r1 where p: "publish_row rx (calls (ob_id row)) row r = (x, r1)" by fastforce
  obtain res' where "publish_rows rx calls rows r1 = (res', r')"
    using Cons.prems p by (auto split: prod.splits)
  then show ?case using Cons.IH publish_row_log [OF assms p] by blast
qed simp

lemma publish_rows_logged:
  assumes "redis_laws rx view" and "answerable calls row stream entry"
  shows "publish_rows rx calls rows r = (res, r') \<Longrightarrow> row \<in> set rows \<Longrightarrow> distinct (map ob_event_id rows) \<Longrightarrow>
    \<not> live (dedupe_key row) (view r) \<Longrightarrow> (stream, entry) \<in> set (rv_log (view r'))"
proof (induction rows arbitrary: r res)
  case (Cons x rows)
  obtain y r1 where p: "publish_row rx (calls (ob_id x)) x r = (y, r1)" by fastforce
  obtain res' where ps: "publish_rows rx calls rows r1 = (res', r')"
    using Cons.prems(1) p by (auto split: prod.splits)
  show ?case
  proof (cases "x = row")
    case True
    then have "(stream, entry) \<in> set (rv_log (view r1))"
      using p Cons.prems(4) publish_row_answered [OF assms(2), of rx r]
        atomic_xadd_view(1) [OF assms(1), of "dedupe_key row" stream entry DEDUPE_TTL_SECONDS r]
      by (auto simp: prod_eq_iff)
    then show ?thesis using publish_rows_log [OF assms(1) ps] by blast
  next
    case False
    then have "row \<in> set rows" "dedupe_key row \<noteq> dedupe_key x"
      using Cons.prems(2,3) by (auto simp: dedupe_key_def image_iff)
    then have "\<not> live (dedupe_key row) (view r1)" using publish_row_log [OF assms(1) p] Cons.prems(4) by simp
    then show ?thesis using Cons.IH [OF ps \<open>row \<in> set rows\<close>] Cons.prems(3) by simp
  qed
qed simp

lemma mark_failed_other:
  "row \<in> set (db_outbox db) \<Longrightarrow> ob_id row \<notin> fst ` set fs \<Longrightarrow>
     row \<in> set (db_outbox (fold (\<lambda>(i, code, msg). mark_failed [i] code msg now) fs db))"
proof (induction fs arbitrary: db)
  case (Cons f fs)
  obtain i code msg where f: "f = (i, code, msg)" by (cases f)
  have "row \<in> set (db_outbox (mark_failed [i] code msg now db))"
    using Cons.prems f by (auto simp: mark_failed_def row_update_def image_iff intro!: bexI [of _ row])
  then show ?case using Cons.IH Cons.prems(2) f by simp
qed simp

lemma mark_results_delivered:
  assumes "(i, Inr b) \<in> set results" and "distinct (map fst results)"
    and "row \<in> set (db_outbox db)" and "ob_id row = i"
  shows "\<exists>row' \<in> set (db_outbox (mark_results results now db)). row_core row' = row_core row \<and> ob_status row' = ObDelivered"
proof -
  let ?ids = "[i. (i, Inr b) \<leftarrow> results]" and ?fs = "[(i, e). (i, Inl e) \<leftarrow> results]"
  let ?row = "row\<lparr>ob_status := ObDelivered, ob_delivered_at := Some now, ob_claimed_by := None, ob_lease_until := None\<rparr>"
  have i: "i \<in> set ?ids" using assms(1) by force
  have "?row \<in> set (db_outbox (mark_delivered ?ids now db))"
    using assms(3,4) i by (auto simp: mark_delivered_def set_row_update)
  moreover have "i \<notin> fst ` set ?fs"
    using assms(1,2) by (auto simp: distinct_map inj_on_def split: sum.splits) force
  ultimately have "?row \<in> set (db_outbox (mark_results results now db))"
    using mark_failed_other [of ?row _ ?fs] assms(4) i by (auto simp: mark_results_def Let_def)
  then show ?thesis by (intro bexI [of _ ?row]) (simp_all add: row_core_def)
qed

lemma claimed_simps [simp]:
  "ob_id (claimed w l t r) = ob_id r" "ob_event_id (claimed w l t r) = ob_event_id r"
  "ob_event_type (claimed w l t r) = ob_event_type r" "dedupe_key (claimed w l t r) = dedupe_key r"
  "ob_payload (claimed w l t r) = ob_payload r" "ob_schema_version (claimed w l t r) = ob_schema_version r"
  "ob_trace_id (claimed w l t r) = ob_trace_id r" "ob_created_at (claimed w l t r) = ob_created_at r"
  by (simp_all add: claimed_def dedupe_key_def)

lemma claimed_fields [simp]: "build_xadd_fields (claimed w l t r) = build_xadd_fields r"
  by (simp add: build_xadd_fields_def fields_of_def copied_def Let_def)


section \<open>Witnesses\<close>

text \<open>A Redis that is nothing but its view.\<close>

definition plain_redis :: "redis_view redis" where
  "plain_redis = \<lparr>rx_exists = live, rx_xadd = (\<lambda>s e v. v\<lparr>rv_log := rv_log v @ [(s, e)]\<rparr>),
     rx_set_ex = (\<lambda>k ttl v. v\<lparr>rv_expires := (rv_expires v)(k \<mapsto> rv_now v + seconds ttl)\<rparr>)\<rparr>"

lemma plain_redis_laws: "redis_laws plain_redis id"
  by (simp add: redis_laws_def plain_redis_def)

definition no_entries :: redis_view where
  "no_entries = \<lparr>rv_now = 0, rv_log = [], rv_expires = Map.empty\<rparr>"

definition sample_row :: outbox_event where
  "sample_row = new_outbox_event (Uuid4 20) (Uuid4 1) ''task.created'' sample_job (Uuid4 11) None None 0 0 (Uuid4 21)"

definition outbox_db :: db where
  "outbox_db = empty_db\<lparr>db_outbox := [sample_row]\<rparr>"

definition answered :: redis_call where
  "answered = \<lparr>rc_first = Answered, rc_reload = None, rc_second = Answered\<rparr>"

definition pub_init :: "redis_view pub" where
  "pub_init = \<lparr>pb_claimed = {}, pb_results = {}, pb_db = outbox_db, pb_redis = no_entries, pb_added = []\<rparr>"

lemma script_refines_once_witness:
  "\<exists>r. rv_log r = [(run_queue_stream, sample_job)] \<and>
    script_runs plain_redis id no_entries [(Dedupe (Uuid4 20), run_queue_stream, sample_job),
      (Dedupe (Uuid4 20), run_queue_stream, [])] r"
proof -
  let ?run = "\<lambda>key s e r. snd (atomic_xadd plain_redis key s e DEDUPE_TTL_SECONDS r)"
  let ?r = "?run (Dedupe (Uuid4 20)) run_queue_stream [] (?run (Dedupe (Uuid4 20)) run_queue_stream sample_job no_entries)"
  have runs: "script_runs plain_redis id no_entries ([] @ [(Dedupe (Uuid4 20), run_queue_stream, sample_job)] @
      [(Dedupe (Uuid4 20), run_queue_stream, [])]) ?r"
    unfolding append_assoc [symmetric] by (intro script_runs.intros)
  have "\<forall>key. rv_expires (id no_entries) key = None" by (simp add: no_entries_def)
  from script_refines_once [OF plain_redis_laws this runs] have "rv_log ?r = [(run_queue_stream, sample_job)]"
    by (simp add: no_entries_def offer_def)
  then show ?thesis using runs by auto
qed

definition sample_claimed :: outbox_event where
  "sample_claimed = claimed ''p1'' 30 1 sample_row"

definition claimed_outbox :: db where
  "claimed_outbox = outbox_db\<lparr>db_outbox := [sample_claimed]\<rparr>"

definition later :: "redis_view \<Rightarrow> redis_view" where
  "later v = v\<lparr>rv_now := seconds 90000\<rparr>"

abbreviation sample_publish :: "redis_view \<Rightarrow> publish_result \<times> redis_view" where
  "sample_publish r \<equiv> publish_row plain_redis answered sample_claimed r"

lemma sample_fields: "is_ok (build_xadd_fields sample_claimed)"
  by code_simp

lemma sample_publishes:
  "sample_publish v = (Inr (\<not> live (Dedupe (Uuid4 20)) v), snd (sample_publish v))"
  "rv_log (snd (sample_publish v)) = (if live (Dedupe (Uuid4 20)) v then rv_log v
     else rv_log v @ [(run_queue_stream, case build_xadd_fields sample_claimed of Inr e \<Rightarrow> e | Inl _ \<Rightarrow> [])])"
  "rv_now (snd (sample_publish v)) = rv_now v"
  "rv_expires (snd (sample_publish v)) = (if live (Dedupe (Uuid4 20)) v then rv_expires v
     else (rv_expires v)(Dedupe (Uuid4 20) \<mapsto> rv_now v + seconds 86400))"
proof -
  obtain e where e: "build_xadd_fields sample_claimed = Inr e" using sample_fields by (auto simp: is_ok_iff)
  have t: "stream_of (ob_event_type sample_claimed) = Some run_queue_stream"
    "ob_event_id sample_claimed = Uuid4 20" by code_simp+
  show "sample_publish v = (Inr (\<not> live (Dedupe (Uuid4 20)) v), snd (sample_publish v))"
    "rv_log (snd (sample_publish v)) = (if live (Dedupe (Uuid4 20)) v then rv_log v
     else rv_log v @ [(run_queue_stream, case build_xadd_fields sample_claimed of Inr e \<Rightarrow> e | Inl _ \<Rightarrow> [])])"
    "rv_now (snd (sample_publish v)) = rv_now v"
    "rv_expires (snd (sample_publish v)) = (if live (Dedupe (Uuid4 20)) v then rv_expires v
     else (rv_expires v)(Dedupe (Uuid4 20) \<mapsto> rv_now v + seconds 86400))"
    by (simp_all add: publish_row_def eval_atomic_xadd_def answered_def evalsha_def t e atomic_xadd_def dedupe_key_def
        plain_redis_def DEDUPE_TTL_SECONDS_def)
qed

lemma sample_claims: "claim_pending 32 30 ''p1'' 1 outbox_db = ([sample_claimed], claimed_outbox)"
  by code_simp

definition pub_claimed :: "redis_view pub" where
  "pub_claimed = pub_init\<lparr>pb_claimed := {sample_claimed}, pb_db := claimed_outbox\<rparr>"

definition pub_once :: "redis_view pub" where
  "pub_once = pub_claimed\<lparr>pb_results := {(sample_claimed, Inr True)},
     pb_redis := snd (sample_publish no_entries), pb_added := [(Uuid4 20, 0)]\<rparr>"

lemma pub_once_steps: "pub_steps plain_redis id pub_init pub_once"
proof -
  have "pub_step plain_redis id pub_init pub_claimed"
    using pub_step.claim [of 32 30 "''p1''" 1 pub_init "[sample_claimed]" claimed_outbox] sample_claims
    by (simp add: pub_claimed_def pub_init_def)
  moreover have "pub_step plain_redis id pub_claimed pub_once"
  proof -
    have "ob_event_id sample_claimed = Uuid4 20" by code_simp
    moreover have "sample_publish no_entries = (Inr True, snd (sample_publish no_entries))"
      using sample_publishes(1) [of no_entries] by (simp add: no_entries_def live_def)
    ultimately show ?thesis
      using pub_step.publish [of sample_claimed pub_claimed plain_redis answered "Inr True" "snd (sample_publish no_entries)" id]
        sample_publishes(2) [of no_entries]
      by (simp add: pub_claimed_def pub_init_def pub_once_def no_entries_def live_def)
  qed
  ultimately show ?thesis by auto
qed

lemma event_added_once_a_day_witness:
  "\<exists>c. pub_steps plain_redis id pub_init c \<and> length (pb_added c) = 2 \<and>
    snd (pb_added c ! 0) + seconds 86400 < snd (pb_added c ! 1)"
proof -
  let ?r = "later (pb_redis pub_once)"
  let ?c = "pub_once\<lparr>pb_redis := ?r\<rparr>"
  let ?c' = "?c\<lparr>pb_results := insert (sample_claimed, Inr True) (pb_results ?c), pb_redis := snd (sample_publish ?r),
    pb_added := pb_added ?c @ [(Uuid4 20, seconds 90000)]\<rparr>"
  have r: "rv_now (pb_redis pub_once) = 0" "rv_expires (pb_redis pub_once) (Dedupe (Uuid4 20)) = Some (seconds 86400)"
    by (simp_all add: pub_once_def sample_publishes(3,4) no_entries_def live_def)
  have "pub_step plain_redis id pub_once ?c"
    by (rule pub_step.time) (simp add: elapsed_def later_def r seconds_def)
  moreover have dead: "\<not> live (Dedupe (Uuid4 20)) ?r" using r(2) by (simp add: live_def later_def seconds_def)
  have "pub_step plain_redis id ?c ?c'"
  proof -
    have "ob_event_id sample_claimed = Uuid4 20" by code_simp
    moreover have "sample_publish ?r = (Inr True, snd (sample_publish ?r))" using sample_publishes(1) [of ?r] dead by simp
    ultimately show ?thesis
      using pub_step.publish [of sample_claimed ?c plain_redis answered "Inr True" "snd (sample_publish ?r)" id]
        sample_publishes(2) [of ?r] dead
      by (simp add: pub_once_def pub_claimed_def later_def)
  qed
  ultimately have steps: "pub_steps plain_redis id pub_init ?c'"
    using pub_once_steps by (meson rtranclp.rtrancl_into_rtrancl)
  have "pb_added pub_init = []" "\<forall>key. rv_expires (id (pb_redis pub_init)) key = None"
    by (simp_all add: pub_init_def no_entries_def)
  from event_added_once_a_day [OF plain_redis_laws steps this, of 0 1] show ?thesis
    using steps by (intro exI [of _ ?c']) (simp add: pub_once_def)
qed

lemma delivered_is_published_witness:
  "\<exists>c row. pub_steps plain_redis id pub_init c \<and> row \<in> set (db_outbox (pb_db c)) \<and> ob_status row = ObDelivered \<and>
    ob_event_id row \<in> fst ` set (pb_added c)"
proof -
  let ?c = "pub_once\<lparr>pb_db := mark_delivered [Uuid4 21] 5 (pb_db pub_once)\<rparr>"
  let ?row = "hd (db_outbox (pb_db ?c))"
  have "ob_id sample_claimed = Uuid4 21" by code_simp
  then have "pub_step plain_redis id pub_once ?c"
    by (intro pub_step.delivered) (auto simp: pub_once_def)
  then have steps: "pub_steps plain_redis id pub_init ?c"
    using pub_once_steps by (meson rtranclp.rtrancl_into_rtrancl)
  have row: "?row \<in> set (db_outbox (pb_db ?c))" "ob_status ?row = ObDelivered"
    using \<open>ob_id sample_claimed = Uuid4 21\<close> by (simp_all add: pub_once_def pub_claimed_def claimed_outbox_def mark_delivered_def)
  have init: "pb_claimed pub_init = {}" "pb_results pub_init = {}" "pb_added pub_init = []"
    "\<forall>key. rv_expires (id (pb_redis pub_init)) key = None" "distinct (map ob_id (db_outbox (pb_db pub_init)))"
    "\<forall>row \<in> set (db_outbox (pb_db pub_init)). ob_status row \<noteq> ObDelivered"
    by (simp_all add: pub_init_def no_entries_def outbox_db_def sample_row_def new_outbox_event_def)
  from delivered_is_published [OF plain_redis_laws steps init row] show ?thesis using steps row by blast
qed

lemma failed_attempt_bounded_witness:
  "\<exists>row' \<in> set (db_outbox (mark_failed [ob_id sample_row] ''E'' [] 7 outbox_db)).
    ob_status row' = ObPending \<and> 7 + 200000 \<le> ob_next_retry_at row'"
proof -
  have row: "sample_row \<in> set (db_outbox outbox_db)" "0 \<le> ob_retry_count sample_row" by code_simp+
  note f = failed_attempt_bounded [OF this, of "''E''" "[]" 7]
  have "ob_max_retries r = 20 \<and> ob_retry_count r = 1"
    if "r \<in> set (db_outbox (mark_failed [ob_id sample_row] ''E'' [] 7 outbox_db))" for r
  proof -
    have "list_all (\<lambda>r. ob_max_retries r = 20 \<and> ob_retry_count r = 1)
        (db_outbox (mark_failed [ob_id sample_row] ''E'' [] 7 outbox_db))" by code_simp
    then show ?thesis using that by (simp add: list_all_iff)
  qed
  with f show ?thesis by fastforce
qed


end
