(* ===== verification/Reconciliation.thy ===== *)
theory Reconciliation
  imports Outbox RunLifecycle
begin

text \<open>
  \<open>database/outbox/reconciliation.py\<close>: the periodic job that resets stale outbox rows and calls the
  reconciliations of the run and the permission service, each in a transaction of its own.
\<close>

section \<open>The job\<close>

record reconciliation_counts =
  rk_stale_dispatching_reset :: nat
  rk_queued :: "int \<times> int"
  rk_expired :: "int \<times> int"
  rk_permissions_expired :: nat

text \<open>\<open>run_service\<close> and \<open>permission_service\<close> say whether the job was given the service.\<close>

definition expire_permissions ::
  "bool \<Rightarrow> clock \<Rightarrow> reconciliation_counts \<Rightarrow> db \<Rightarrow> reconciliation_counts res \<times> db" where
  "expire_permissions permission_service clk result db =
     (if \<not> permission_service then (Inr result, db)
      else (case transact (expire_pending_requests 32 clk) db of
              (Inl e, db) \<Rightarrow> (Inl e, db)
            | (Inr n, db) \<Rightarrow> (Inr (result\<lparr>rk_permissions_expired := n\<rparr>), db)))"

definition run_once ::
  "'r redis option \<Rightarrow> (uuid \<Rightarrow> bool) \<Rightarrow> bool \<Rightarrow> bool \<Rightarrow> int \<Rightarrow> clock \<Rightarrow> db \<times> 'r \<Rightarrow> reconciliation_counts res \<times> db" where
  "run_once rx reachable run_service permission_service stale_seconds clk s =
     (let (db, r) = s; (count, db) = reset_stale_dispatching stale_seconds (clk 0) db;
          result = \<lparr>rk_stale_dispatching_reset = count, rk_queued = (0, 0), rk_expired = (0, 0), rk_permissions_expired = 0\<rparr>
      in if \<not> run_service then expire_permissions permission_service clk result db
         else (case transact (reconcile_stale_queued_runs (Some (queue_event_exists rx reachable r)) stale_seconds 32 clk) db of
                 (Inl e, db) \<Rightarrow> (Inl e, db)
               | (Inr queued, db) \<Rightarrow>
                   (case transact (reconcile_expired_runs 32 clk) db of
                      (Inl e, db) \<Rightarrow> (Inl e, db)
                    | (Inr expired, db) \<Rightarrow>
                          expire_permissions permission_service clk (result\<lparr>rk_queued := queued, rk_expired := expired\<rparr>) db)))"

section \<open>Primary keys\<close>

definition run_keys :: "db \<Rightarrow> uuid list" where
  "run_keys db = map ar_id (db_runs db)"

lemma run_keys_same: "db_runs db' = db_runs db \<Longrightarrow> run_keys db' = run_keys db"
  by (simp add: run_keys_def)

lemma row_update_key: "(\<And>r. p r \<Longrightarrow> key (f r) = key r) \<Longrightarrow> map key (row_update p f rows) = map key rows"
  by (induction rows) auto

lemma update_with_lock_keys: "update_with_lock u db = (b, db') \<Longrightarrow> run_keys db' = run_keys db"
  by (auto simp: update_with_lock_cases run_keys_def run_put_def intro!: row_update_key
      dest!: runs.get_key split: option.splits if_splits)

lemma branch_keys:
  assumes "(case update_with_lock u db of (success, d) \<Rightarrow>
      if \<not> success then Inr (k, d) else rbind (f d) (\<lambda>d'. Inr (k', g d'))) = Inr (k'', db')"
    and "\<And>d d'. f d = Inr d' \<Longrightarrow> db_runs (g d') = db_runs d" and "db_runs db = db_runs db0"
  shows "run_keys db' = run_keys db0"
proof -
  obtain b d where u: "update_with_lock u db = (b, d)" by fastforce
  have "db_runs db' = db_runs d" using assms(1,2) u by (auto simp: rbind_Inr_iff split: if_splits)
  then show ?thesis using update_with_lock_keys [OF u] run_keys_same assms(3) by metis
qed

lemma reconcile_queued_run_keys:
  assumes "reconcile_queued_run q stale now clk r (k, db) = Inr (k', db')"
  shows "run_keys db' = run_keys db"
proof -
  obtain m n where k: "k = (m, n)" by fastforce
  show ?thesis
  proof (cases "get_latest_run_job (ar_id r) db")
    case None
    with assms show ?thesis by (simp add: reconcile_queued_run_def k)
  next
    case (Some latest)
    show ?thesis
      using assms unfolding reconcile_queued_run_def Let_def k prod.case Some option.case
      by (auto split: if_splits elim!: branch_keys rbind_InrE dest!: keeps_runs)
  qed
qed

section \<open>A cycle keeps the run lifecycle\<close>

lemma snapshot_listed:
  assumes "distinct (run_keys db)" and "r \<in> set (db_runs db)"
  shows "snapshot r db"
proof -
  have "run_get (ar_id r) db = Some r" using assms by (simp add: run_get_def run_keys_def row_get_unique)
  then show ?thesis by (rule snapshot_read)
qed

lemma reconcile_stale_queued_evolves:
  assumes "reconcile_stale_queued_runs q stale limit clk db = Inr (k, db')"
  shows "runs_evolve db db' \<and> run_keys db' = run_keys db"
proof -
  let ?P = "\<lambda>s. runs_evolve db (snd s) \<and> run_keys (snd s) = run_keys db"
  have "?P (k, db')"
  proof (rule foldR_invariant [where P = ?P])
    show "foldR (reconcile_queued_run q stale (clk 0) clk) (list_stale_queued (clk 0 - seconds (max 1 stale)) limit db) ((0, 0), db)
        = Inr (k, db')" using assms by (simp add: reconcile_stale_queued_runs_def Let_def)
  next
    fix x s s' assume "?P s" "reconcile_queued_run q stale (clk 0) clk x s = Inr s'"
    then show "?P s'"
      using reconcile_queued_run_evolves [of q stale "clk 0" clk x "fst s" "snd s" "fst s'" "snd s'"]
        reconcile_queued_run_keys [of q stale "clk 0" clk x "fst s" "snd s" "fst s'" "snd s'"] runs_evolve_trans by auto
  qed simp
  then show ?thesis by simp
qed

lemma reconcile_expired_evolves:
  assumes "reconcile_expired_runs limit clk db = Inr (k, db')" and "distinct (run_keys db)"
  shows "runs_evolve db db'"
proof -
  have listed: "snapshot r db \<and> ar_status r \<in> {Running, PauseRequested}" if "r \<in> set (list_expired_running (clk 0) limit db)" for r
    using that snapshot_listed [OF assms(2)] by (auto simp: list_expired_running_def dest!: in_set_takeD)
  have "runs_evolve db (snd (k, db'))"
  proof (rule foldR_invariant [where P = "\<lambda>s. runs_evolve db (snd s)"])
    show "foldR (reconcile_expired_run (clk 0) clk) (list_expired_running (clk 0) limit db) ((0, 0), db) = Inr (k, db')"
      using assms(1) by (simp add: reconcile_expired_runs_def Let_def)
  next
    fix x s s' assume x: "x \<in> set (list_expired_running (clk 0) limit db)" and s: "runs_evolve db (snd s)"
      and run: "reconcile_expired_run (clk 0) clk x s = Inr s'"
    have "runs_evolve (snd s) (snd s')"
      using reconcile_expired_run_evolves [of "clk 0" clk x "fst s" "snd s" "fst s'" "snd s'"] run
        snapshot_evolve [OF _ s, of x] listed [OF x] by simp
    with s show "runs_evolve db (snd s')" by (rule runs_evolve_trans)
  qed simp
  then show ?thesis by simp
qed

lemma transact_evolves:
  assumes "transact m db = (res, db')" and "\<And>x db'. m db = Inr (x, db') \<Longrightarrow> runs_evolve db db'"
  shows "runs_evolve db db'"
  using assms by (auto simp: transact_def split: sum.splits prod.splits)

text \<open>
  A cycle of the reconciliation job respects the life cycle of every run, also when one of its
  transactions fails and the rest of the cycle is skipped: no run disappears, and each run's status
  moves along the table of transitions with a growing version.
\<close>

theorem reconciliation_cycle_legal:
  assumes "run_once rx reachable run_service permission_service stale clk (db, r) = (res, db')"
    and "distinct (map ar_id (db_runs db))" and "run_get rid db = Some run"
  shows "\<exists>run'. run_get rid db' = Some run' \<and> run_path (ar_status run) (ar_status run') \<and>
    ar_version run \<le> ar_version run' \<and> (ar_status run' = ar_status run \<or> ar_version run < ar_version run')"
proof -
  obtain n d where reset: "reset_stale_dispatching stale (clk 0) db = (n, d)" by fastforce
  have d: "runs_evolve db d" "distinct (run_keys d)"
    using reset assms(2) by (auto simp: reset_stale_dispatching_def run_keys_def intro: runs_evolve_same)
  have perm: "runs_evolve x y" if "expire_permissions permission_service clk c x = (res, y)" for x y c
    using that transact_evolves [of "expire_pending_requests 32 clk" x] expire_pending_evolves
    by (auto simp: expire_permissions_def split: if_splits prod.splits sum.splits)
  let ?q = "transact (reconcile_stale_queued_runs (Some (queue_event_exists rx reachable r)) stale 32 clk) d"
  have "runs_evolve d db'"
  proof (cases run_service)
    case False
    then show ?thesis using assms(1) reset perm by (simp add: run_once_def Let_def)
  next
    case True
    obtain qres d1 where q: "?q = (qres, d1)" by fastforce
    have q1: "runs_evolve d d1 \<and> run_keys d1 = run_keys d"
      using q reconcile_stale_queued_evolves by (auto simp: transact_def split: sum.splits prod.splits)
    show ?thesis
    proof (cases qres)
      case (Inl e)
      then show ?thesis using assms(1) True reset q q1 by (simp add: run_once_def Let_def)
    next
      case (Inr queued)
      obtain eres d2 where e: "transact (reconcile_expired_runs 32 clk) d1 = (eres, d2)" by fastforce
      have e1: "runs_evolve d1 d2"
        using transact_evolves [OF e] reconcile_expired_evolves q1 d(2) by metis
      show ?thesis
      proof (cases eres)
        case (Inl x)
        then show ?thesis using assms(1) True reset q q1 e e1 Inr runs_evolve_trans by (auto simp: run_once_def Let_def)
      next
        case (Inr y)
        then have "runs_evolve d2 db'"
          using assms(1) True reset q e \<open>qres = Inr queued\<close> perm by (simp add: run_once_def Let_def)
        then show ?thesis using q1 e1 runs_evolve_trans by blast
      qed
    qed
  qed
  with d(1) have "runs_evolve db db'" by (rule runs_evolve_trans)
  from runs_evolve_Some [OF this assms(3)] show ?thesis by (auto simp: run_evolves_def)
qed

lemma reconciliation_cycle_legal_witness:
  "\<exists>run' res db'. run_once None (\<lambda>_. True) True True 60 (\<lambda>i. seconds 90 + int i) (claimed_db, ()) = (res, db') \<and>
    run_get (Uuid4 0) db' = Some run' \<and> run_path Running (ar_status run')"
proof -
  obtain res db' where c: "run_once None (\<lambda>_. True) True True 60 (\<lambda>i. seconds 90 + int i) (claimed_db, ()) = (res, db')"
    by fastforce
  have d: "distinct (map ar_id (db_runs claimed_db))" by code_simp
  obtain c' where c': "run_get (Uuid4 0) claimed_db = Some c'" "ar_status c' = Running"
    using claim_executes_taken_over [OF sample_executes] by (auto simp: taken_over_def sample_run_def)
  from reconciliation_cycle_legal [OF c d c'(1)] c c'(2) show ?thesis by auto
qed

end
