(* ===== verification/EventFacts.thy ===== *)
theory EventFacts
  imports RecordingFacts
begin

text \<open>
  What single events leave behind (\<open>runtime/service.py\<close>): terminal events settle their run, and what the
  worker sends is not trusted with deadlines, checkpoints or files.  The witnesses of \<open>RecordingFacts\<close>
  and of this theory share the samples at the end.
\<close>

section \<open>Terminal events\<close>

text \<open>Expiring the pending requests of a run leaves none pending.\<close>

definition expired_request :: "int \<Rightarrow> string \<Rightarrow> permission_request \<Rightarrow> permission_request" where
  "expired_request now reason req = req\<lparr>pr_status := PermExpired, pr_decided_at := Some now, pr_note := Some reason\<rparr>"

lemma expire_pending_permissions_rows:
  "db_permissions (fold (expire_pending_permission now reason) reqs db) =
     fold (\<lambda>req. row_update (\<lambda>x. pr_id x = pr_id req) (merge_permission req))
       (map (expired_request now reason) reqs) (db_permissions db)"
proof (induction reqs arbitrary: db)
  case (Cons req reqs)
  have "db_permissions (expire_pending_permission now reason req db) =
      row_update (\<lambda>x. pr_id x = pr_id req) (merge_permission (expired_request now reason req)) (db_permissions db)"
    by (simp add: expire_pending_permission_def Let_def permission_update_def expired_request_def)
  then show ?case using Cons by (simp add: expired_request_def)
qed simp

lemma none_pending_after_expiry: "list_pending_by_run rid (expire_pending_permissions rid now reason db) = []"
proof -
  let ?reqs = "list_pending_by_run rid db"
  let ?exp = "map (expired_request now reason) ?reqs"
  have keep: "pr_id (merge_permission req y) = pr_id y" "pr_status (merge_permission req y) = pr_status req" for req y
    by (simp_all add: merge_permission_def)
  have "\<not> (pr_run_id x = rid \<and> pr_status x = PermPending)"
    if x: "x \<in> set (db_permissions (expire_pending_permissions rid now reason db))" for x
  proof
    assume p: "pr_run_id x = rid \<and> pr_status x = PermPending"
    from fold_row_update [of pr_id merge_permission pr_status, OF keep
        x [unfolded expire_pending_permissions_def expire_pending_permissions_rows]]
    show False
    proof
      assume a: "x \<in> set (db_permissions db) \<and> pr_id x \<notin> pr_id ` set ?exp"
      then have "x \<in> set ?reqs" using p by (simp add: list_pending_by_run_def)
      then show False using a by (simp add: image_image expired_request_def)
    next
      assume "\<exists>s \<in> set ?exp. pr_id x = pr_id s \<and> pr_status x = pr_status s"
      then show False using p by (auto simp: expired_request_def)
    qed
  qed
  then show ?thesis by (simp add: list_pending_by_run_def filter_empty_conv)
qed

lemma list_pending_same: "db_permissions db' = db_permissions db \<Longrightarrow> list_pending_by_run rid db' = list_pending_by_run rid db"
  by (simp add: list_pending_by_run_def)

lemma cancel_open_children_closed: "children_closed rid (cancel_open_children rid now db)"
  unfolding cancel_open_children_def Let_def
  by (rule close_children_closed [OF _ _ _ _ refl])
    (simp_all add: cancel_step_def cancel_tool_call_def step_open_def tool_call_open_def)

text \<open>What is left of a run when its terminal event was recorded.\<close>

definition settled :: "uuid \<Rightarrow> uuid \<Rightarrow> run_status \<Rightarrow> task_status \<Rightarrow> db \<Rightarrow> bool" where
  "settled rid tid rs ts db \<longleftrightarrow> list_pending_by_run rid db = [] \<and>
     (\<exists>r. run_get rid db = Some r \<and> ar_status r = rs \<and> ar_lease_until r = None) \<and>
     (\<exists>t. task_get tid db = Some t \<and> tk_status t = ts) \<and> (rs \<noteq> Completed \<longrightarrow> children_closed rid db)"

lemma settled_core: "core db' = core db \<Longrightarrow> settled rid tid rs ts db' \<longleftrightarrow> settled rid tid rs ts db"
  by (simp add: settled_def core_def list_pending_by_run_def run_get_def task_get_def children_closed_def)

lemma settledI:
  assumes "transition run rs cs now d = Inr (run', d')" "ar_id run = rid" "SetLeaseUntil None \<in> set cs"
    "list_pending_by_run rid d = []" "rs \<noteq> Completed \<longrightarrow> children_closed rid d" "task_get (tk_id task) d = Some t0"
    "tk_status task = ts" "core db' = core (task_update task d')" "\<And>l. SetLeaseUntil l \<in> set cs \<Longrightarrow> l = None"
  shows "settled rid (tk_id task) rs ts db'"
proof -
  note w = transition_writes [OF assms(1)]
  have lease: "ar_lease_until (fold apply_field cs r) = None" if "SetLeaseUntil None \<in> set cs \<or> ar_lease_until r = None"
    "\<And>l. SetLeaseUntil l \<in> set cs \<Longrightarrow> l = None" for cs r using that
  proof (induction cs arbitrary: r)
    case (Cons c cs)
    then show ?case by (cases c) auto
  qed simp
  let ?u = "transition_lock run rs cs now" and ?e = "task_update task d'"
  obtain r where r: "run_get rid ?e = Some (updated_run ?u r)"
    using w(1) assms(2) by (auto simp: run_get_def)
  have "list_pending_by_run rid ?e = []" using assms(4) w(5) by (simp add: list_pending_by_run_def)
  moreover have "ar_status (updated_run ?u r) = rs" "ar_lease_until (updated_run ?u r) = None"
    using lease [of cs] assms(3,9) by (simp_all add: updated_run_def transition_lock_def)
  moreover have "task_get (tk_id task) ?e = Some (merge_task task t0)"
    using assms(6) w(2) by (simp add: tasks.get_put) (simp add: task_get_def)
  moreover have "tk_status (merge_task task t0) = ts" using assms(7) by (simp add: merge_task_def)
  moreover have "rs \<noteq> Completed \<longrightarrow> children_closed rid ?e" using assms(5) w(3,4) by (simp add: children_closed_def)
  ultimately have "settled rid (tk_id task) rs ts ?e" using r by (auto simp: settled_def)
  then show ?thesis using assms(8) settled_core by blast
qed

text \<open>The events that end a run, with the status they give the run and its task.\<close>

fun terminal_event :: "string \<Rightarrow> (run_status \<times> task_status) option" where
  "terminal_event ty =
     (if ty = ''agent.run.completed'' then Some (Completed, TaskCompleted)
      else if ty = ''agent.run.failed'' then Some (Failed, TaskFailed)
      else if ty = ''agent.run.cancelled'' then Some (Cancelled, TaskCancelled) else None)"

lemma project_completed_settles:
  assumes "project_completed h payload run task c now db = Inr db'" "task_get (tk_id task) db = Some t0"
  shows "settled (ar_id run) (tk_id task) Completed TaskCompleted db'"
proof -
  let ?d = "expire_pending_permissions (ar_id run) c ''run_completed'' db"
  let ?t = "task\<lparr>tk_status := TaskCompleted, tk_completed_at := Some c, tk_updated_at := c\<rparr>"
  from assms(1) obtain run1 d p where tr: "transition run Completed [SetCompletedAt c, SetLeaseUntil None, SetCheckpoint []] now ?d = Inr (run1, d)"
    and out: "record_output h (dget p ''output'' JNull) (ar_id run) task c (task_update ?t d) = Inr db'"
    by (auto simp: project_completed_def Let_def elim!: rbind_InrE)
  have "core db' = core (task_update ?t d)" using record_output_frame [OF out] by (simp add: core_def)
  with settledI [OF tr, of "ar_id run" ?t t0 TaskCompleted db'] assms(2) show ?thesis
    by (simp add: none_pending_after_expiry task_get_def)
qed

lemma project_failed_settles:
  assumes "project_failed payload run task c now db = Inr db'" "task_get (tk_id task) db = Some t0"
  shows "settled (ar_id run) (tk_id task) Failed TaskFailed db'"
proof -
  let ?t = "task\<lparr>tk_status := TaskFailed, tk_updated_at := c\<rparr>"
  let ?x = "expire_pending_permissions (ar_id run) c ''run_failed'' db"
  from assms(1) obtain error cp run1 d where tr: "transition run Failed [SetFailedAt c, SetError (Some error), SetLeaseUntil None,
      SetCheckpoint cp] now (fail_open_children (ar_id run) error c ?x) = Inr (run1, d)" and db': "db' = task_update ?t d"
    by (auto simp: project_failed_def elim!: rbind_InrE)
  have "list_pending_by_run (ar_id run) (fail_open_children (ar_id run) error c ?x) = []"
    using none_pending_after_expiry [of "ar_id run" c "''run_failed''" db] by (simp add: list_pending_by_run_def)
  with settledI [OF tr, of "ar_id run" ?t t0 TaskFailed db'] assms(2) show ?thesis
    by (simp add: fail_open_children_closed task_get_def db')
qed

text \<open>A run and a store reached by transitions of that run.\<close>

definition moved :: "agent_run \<times> db \<Rightarrow> agent_run \<times> db \<Rightarrow> bool" where
  "moved a b \<longleftrightarrow> ar_id (fst b) = ar_id (fst a) \<and> db_permissions (snd b) = db_permissions (snd a) \<and>
     db_steps (snd b) = db_steps (snd a) \<and> db_tool_calls (snd b) = db_tool_calls (snd a) \<and> db_tasks (snd b) = db_tasks (snd a)"

lemma moved_refl: "moved a a"
  by (simp add: moved_def)

lemma moved_transition: "moved a (run, d) \<Longrightarrow> transition run t cs now d = Inr b \<Longrightarrow> moved a b"
  by (cases b) (auto simp: moved_def transition_writes)

lemma project_cancelled_settles:
  assumes "project_cancelled run task c now db = Inr db'" "task_get (tk_id task) db = Some t0"
    and "ar_status run \<in> {Running, WaitingPermission, CancelRequested, Cancelling}"
  shows "settled (ar_id run) (tk_id task) Cancelled TaskCancelled db'"
proof -
  let ?t = "task\<lparr>tk_status := TaskCancelled, tk_cancelled_at := Some c, tk_updated_at := c\<rparr>"
  let ?x = "cancel_open_children (ar_id run) c (expire_pending_permissions (ar_id run) c ''run_cancelled'' db)"
  have x: "list_pending_by_run (ar_id run) ?x = []" "children_closed (ar_id run) ?x" "db_tasks ?x = db_tasks db"
    using none_pending_after_expiry [of "ar_id run" c "''run_cancelled''" db] cancel_open_children_closed
    by (simp_all add: list_pending_by_run_def)
  have "\<exists>run1 d1 run2 d2. transition run1 Cancelled [SetLeaseUntil None, SetCheckpoint []] now d1 = Inr (run2, d2) \<and>
      moved (run, ?x) (run1, d1) \<and> db' = task_update ?t d2"
    using assms(3,1)
    by (auto simp: project_cancelled_def Let_def transition_writes(7) elim!: rbind_InrE split: if_splits)
      (blast intro: moved_refl moved_transition)+
  then obtain run1 d1 run2 d2 where tr: "transition run1 Cancelled [SetLeaseUntil None, SetCheckpoint []] now d1 = Inr (run2, d2)"
    and d1: "ar_id run1 = ar_id run" "db_permissions d1 = db_permissions ?x" "db_steps d1 = db_steps ?x"
      "db_tool_calls d1 = db_tool_calls ?x" "db_tasks d1 = db_tasks ?x" and db': "db' = task_update ?t d2"
    unfolding moved_def by auto
  have "list_pending_by_run (ar_id run) d1 = []" "children_closed (ar_id run) d1" "task_get (tk_id task) d1 = Some t0"
    using x d1 assms(2) by (simp_all add: list_pending_by_run_def children_closed_def task_get_def)
  with settledI [OF tr, of "ar_id run" ?t t0 TaskCancelled db'] d1(1) show ?thesis by (simp add: db')
qed

lemma apply_projection_event:
  assumes "apply_projection h et payload run task sid c cp rc now db = Inr db'"
  obtains run1 d where "project_event h et payload run1 task sid c cp now d = Inr db'" "moved (run, db) (run1, d)"
    "ar_status run1 = ar_status run"
proof (cases "rc = []")
  case True
  then show thesis using assms that moved_refl by (simp add: apply_projection_def)
next
  case False
  with assms obtain run1 d where "transition run (ar_status run) [SetCheckpoint rc] now db = Inr (run1, d)"
    "project_event h et payload run1 task sid c cp now d = Inr db'"
    by (auto simp: apply_projection_def elim!: rbind_InrE)
  then show thesis using that moved_transition [OF moved_refl] transition_writes(7) by blast
qed


section \<open>Permission requests\<close>

definition request_of :: "dict \<Rightarrow> dict" where
  "request_of payload = entries_of (dget payload ''request'' JNull)"

text \<open>What \<open>prepare_envelope\<close> makes of a permission request.\<close>

lemma dget_without_key: "dget (without_key k d) k' dflt = (if k' = k then dflt else dget d k' dflt)"
  by (induction d) (auto simp: without_key_def)

lemma keys_without_key: "k \<notin> set (keys (without_key k d))"
  by (auto simp: without_key_def keys_def)

lemma payload_get_Inr: "payload_get raw k = Inr v \<Longrightarrow> truthy v \<Longrightarrow>
    \<exists>p. dget raw ''payload'' JNull = JObj p \<and> v = dget p k JNull"
  by (auto simp: payload_get_def or_empty_def as_dict_def split: if_splits json.splits elim!: rbind_InrE)

lemma payload_get_request:
  "dget raw ''payload'' JNull = JObj pl \<Longrightarrow> dget pl k JNull = v \<Longrightarrow> v \<noteq> JNull \<Longrightarrow> payload_get raw k = Inr v"
  by (cases pl) (auto simp: payload_get_def or_empty_def as_dict_def)

lemma prepared_permission:
  assumes "prepare_envelope h e = Inr p" "ee_event_type e = JStr ''permission.required''"
    and "dget (ee_runtime_event e) ''payload'' JNull = JObj pl" "dget pl ''request'' JNull = JObj rq"
  shows "\<exists>pl' rq' d. dget (ee_runtime_event (pp_envelope p)) ''payload'' (JObj []) = JObj pl' \<and>
      dget pl' ''request'' JNull = JObj rq' \<and> ''_internal_checkpoint'' \<notin> set (keys rq') \<and>
      permission_request_deadline (h_ttl_env h) None (pp_created_at p) = Inr d \<and> dget rq' ''expires_at'' JNull = JTime d \<and>
      (\<forall>k. k \<noteq> ''expires_at'' \<longrightarrow> k \<noteq> ''_internal_checkpoint'' \<longrightarrow> dget rq' k JNull = dget rq k JNull) \<and>
      pp_checkpoint p = entries_of (dget rq ''_internal_checkpoint'' JNull)"
proof -
  define rq1 where "rq1 = without_key ''_internal_checkpoint'' rq"
  let ?raw = "ee_runtime_event e"
  have req: "payload_get ?raw ''request'' = Inr (JObj rq)" by (rule payload_get_request [OF assms(3,4)]) simp
  have rq1: "''_internal_checkpoint'' \<notin> set (keys rq1)" "dget rq1 k JNull = (if k = ''_internal_checkpoint'' then JNull else dget rq k JNull)" for k
    by (simp_all add: rq1_def keys_without_key dget_without_key)
  from assms(1) obtain public c rc where ext: "extract_internal_checkpoints e = Inr (public, c, rc)"
    and exp: "project_permission_expiry h public (pp_created_at p) = Inr (pp_envelope p)" and c: "pp_checkpoint p = c"
    using assms(2)
    by (auto simp: prepare_envelope_def Let_def prepare_tool_deliverables_def extract_keeps_type elim!: rbind_InrE split: if_splits)
  have type: "ee_event_type public = JStr ''permission.required''" using extract_keeps_type [OF ext] assms(2) by simp
  have pub: "\<exists>pl1. dget (ee_runtime_event public) ''payload'' JNull = JObj pl1 \<and> dget pl1 ''request'' JNull = JObj rq1"
    and cp: "c = entries_of (dget rq ''_internal_checkpoint'' JNull)"
  proof -
    have "(\<exists>pl1. dget (ee_runtime_event public) ''payload'' JNull = JObj pl1 \<and> dget pl1 ''request'' JNull = JObj rq1) \<and>
        c = entries_of (dget rq ''_internal_checkpoint'' JNull)"
    proof (cases "rq = []")
      case True
      then show ?thesis using ext assms(2-4) req
        by (auto simp: extract_internal_checkpoints_def with_event_def Let_def rq1_def without_key_def elim!: rbind_InrE)
    next
      case False
      then show ?thesis using ext assms(2-4) req
        by (auto simp: extract_internal_checkpoints_def with_event_def Let_def as_dict_def set_payload_def rq1_def elim!: rbind_InrE)
    qed
    then show "\<exists>pl1. dget (ee_runtime_event public) ''payload'' JNull = JObj pl1 \<and> dget pl1 ''request'' JNull = JObj rq1"
      "c = entries_of (dget rq ''_internal_checkpoint'' JNull)" by simp_all
  qed
  from pub obtain pl1 where pl1: "dget (ee_runtime_event public) ''payload'' JNull = JObj pl1" "dget pl1 ''request'' JNull = JObj rq1"
    by blast
  have "payload_get (ee_runtime_event public) ''request'' = Inr (JObj rq1)" by (rule payload_get_request [OF pl1]) simp
  with exp type obtain d where d: "permission_request_deadline (h_ttl_env h) None (pp_created_at p) = Inr d"
    "pp_envelope p = with_event public (set_payload ''request'' (JObj (dset ''expires_at'' (JTime d) rq1)) (ee_runtime_event public))"
    by (auto simp: project_permission_expiry_def elim!: rbind_InrE)
  then show ?thesis
    using rq1 pl1 c cp by (auto simp: with_event_def set_payload_def keys_dset)
qed

lemma prepared_request_dict:
  assumes "prepare_envelope h e = Inr p" "ee_event_type e = JStr ''permission.required''"
  obtains pl rq where "dget (ee_runtime_event e) ''payload'' JNull = JObj pl" "dget pl ''request'' JNull = JObj rq"
proof -
  let ?raw = "ee_runtime_event e"
  from assms obtain public c rc where ext: "extract_internal_checkpoints e = Inr (public, c, rc)"
    and exp: "project_permission_expiry h public (pp_created_at p) = Inr (pp_envelope p)"
    by (auto simp: prepare_envelope_def Let_def prepare_tool_deliverables_def extract_keeps_type elim!: rbind_InrE split: if_splits)
  from ext assms(2) obtain v where v: "payload_get ?raw ''request'' = Inr v" "truthy v \<longrightarrow> is_dict v"
    "\<not> truthy v \<longrightarrow> ee_runtime_event public = ?raw"
    by (cases "payload_get ?raw ''request''")
      (auto simp: extract_internal_checkpoints_def with_event_def as_dict_def Let_def split: if_splits json.splits elim!: rbind_InrE)
  have "is_dict v"
  proof (cases "truthy v")
    case False
    then show ?thesis using v exp extract_keeps_type [OF ext] assms(2)
      by (auto simp: project_permission_expiry_def split: if_splits elim!: rbind_InrE)
  qed (use v(2) in simp)
  then obtain rq where rq: "v = JObj rq" by (cases v) auto
  obtain pl where "dget ?raw ''payload'' JNull = JObj pl" "dget pl ''request'' JNull = JObj rq"
    using v(1) rq by (auto simp: payload_get_def or_empty_def as_dict_def split: if_splits json.splits elim!: rbind_InrE)
  then show thesis by (rule that)
qed

lemma events_append_subset: "events_append es db = Inr db' \<Longrightarrow> set (db_events db') \<subseteq> set (db_events db) \<union> set es"
  by (induction es db rule: events_append.induct) (auto simp: events_append.simps split: if_splits)

lemma outbox_create_subset: "outbox_create mk db = Inr db' \<Longrightarrow> set (db_outbox db') \<subseteq> set (db_outbox db) \<union> range mk"
  by (auto simp: outbox_create_def Let_def split: if_splits)

text \<open>An event other than a finished tool call writes one event and one outbox row at most.\<close>

lemma recorded_single:
  assumes "recorded h e clk db db' p run task stored projected db1 rows db2 db3"
    and "ee_event_type e \<noteq> JStr ''tool.call.finished''"
  shows "set (db_events db') \<subseteq> insert (envelope_event p stored (get_next_sequence (pp_run_id p) db)) (set (db_events db))"
    and "set (db_outbox db') \<subseteq> set (db_outbox db) \<union> range (envelope_outbox p stored clk)"
proof -
  note q = assms(1) [unfolded recorded_def]
  have "pp_deliverables p = []"
    using q assms(2) by (auto simp: prepare_envelope_def Let_def prepare_tool_deliverables_def elim!: rbind_InrE
        dest!: extract_keeps_type split: if_splits)
  then have rows: "rows = []" using q by simp
  have l: "db_events db2 = db_events db" "db_outbox db2 = db_outbox db"
    using q apply_projection_logs deliverable_records_keeps by (fastforce simp: logs_def)+
  have o3: "db_outbox db3 = db_outbox db" using q events_append_frame l by metis
  obtain db4 where f: "foldR outbox_create [envelope_outbox p stored clk] db3 = Inr db4"
    and db': "db' = inbox_mark_processed (''runtime-event'', ee_event_id e) (clk 3) db4"
    using q rows by auto
  have "set (db_events db3) \<subseteq> insert (envelope_event p stored (get_next_sequence (pp_run_id p) db)) (set (db_events db))"
    using q events_append_subset rows l(1) by fastforce
  then show "set (db_events db') \<subseteq> insert (envelope_event p stored (get_next_sequence (pp_run_id p) db)) (set (db_events db))"
    using outbox_create_all_keeps [OF f] by (simp add: db')
  show "set (db_outbox db') \<subseteq> set (db_outbox db) \<union> range (envelope_outbox p stored clk)"
    using f outbox_create_subset o3 by (fastforce simp: db' elim: rbind_InrE)
qed

text \<open>What a consumer of an outbox row sees of a permission request.\<close>

definition published_request :: "outbox_event \<Rightarrow> dict" where
  "published_request ob =
     request_of (entries_of (dget (entries_of (dget (ob_payload ob) ''runtime_event'' JNull)) ''payload'' JNull))"

text \<open>
  The state from which a run resumes stays inside: when a permission request is recorded, neither
  the event nor the outbox row written for it holds the internal checkpoint that came with it.
\<close>

theorem checkpoint_stays_internal:
  assumes "record_envelope h e clk db = Inr (True, db')" and "ee_event_type e = JStr ''permission.required''"
  shows "(\<forall>ev \<in> set (db_events db') - set (db_events db). ''_internal_checkpoint'' \<notin> set (keys (request_of (ev_payload ev)))) \<and>
     (\<forall>ob \<in> set (db_outbox db') - set (db_outbox db). ''_internal_checkpoint'' \<notin> set (keys (published_request ob)))"
proof -
  from assms(1) obtain p run task stored projected db1 rows db2 db3
    where rec: "recorded h e clk db db' p run task stored projected db1 rows db2 db3"
    by (auto elim!: record_envelope_True)
  note q = rec [unfolded recorded_def]
  have stored: "stored = pp_envelope p"
    using q prepare_facts(1) assms(2)
    by (auto simp: bounded_envelopes_def externalize_large_artifact_def bound_large_completed_output_def Let_def
        split: if_splits elim!: rbind_InrE)
  obtain pl rq where "dget (ee_runtime_event e) ''payload'' JNull = JObj pl" "dget pl ''request'' JNull = JObj rq"
    using q assms(2) by (auto elim: prepared_request_dict)
  then obtain pl' rq' where c: "dget (ee_runtime_event stored) ''payload'' (JObj []) = JObj pl'"
    "dget pl' ''request'' JNull = JObj rq'" "''_internal_checkpoint'' \<notin> set (keys rq')"
    using q prepared_permission assms(2) stored by blast
  have n: "dget (ee_runtime_event stored) ''payload'' JNull \<in> {JObj pl', JNull}"
    using c(1) by (auto simp: dget_def split: option.splits)
  have "''_internal_checkpoint'' \<notin> set (keys (request_of (ev_payload (envelope_event p stored i))))" for i
    using c by (simp add: envelope_event_def new_runtime_event_def request_of_def)
  moreover have "''_internal_checkpoint'' \<notin> set (keys (published_request (envelope_outbox p stored clk x)))" for x
    using c n by (auto simp: published_request_def envelope_outbox_def new_outbox_event_def envelope_payload_def request_of_def)
  ultimately show ?thesis using recorded_single [OF rec] assms(2) by auto
qed

lemma extract_keeps_entry:
  "extract_internal_checkpoints e = Inr (e', c, rc) \<Longrightarrow> k \<noteq> ''payload'' \<Longrightarrow>
     dget (ee_runtime_event e') k dflt = dget (ee_runtime_event e) k dflt"
  by (auto simp: extract_internal_checkpoints_def with_event_def set_payload_def Let_def split: if_splits elim!: rbind_InrE)

lemma ditem_dget: "dget d k JNull = v \<Longrightarrow> v \<noteq> JNull \<Longrightarrow> ditem d k = Inr v"
  by (auto simp: ditem_def dget_def split: option.splits)

lemma prepared_created_at:
  assumes "prepare_envelope h e = Inr p" "ee_event_type e = JStr ''permission.required''"
    "dget (ee_runtime_event e) ''timestamp'' JNull = JTime now"
  shows "pp_created_at p = now"
proof -
  from assms(1,2) obtain public c rc t where ext: "extract_internal_checkpoints e = Inr (public, c, rc)"
    and t: "ditem (ee_runtime_event public) ''timestamp'' = Inr t" "parse_timestamp t = Inr (pp_created_at p)"
    by (auto simp: prepare_envelope_def Let_def prepare_tool_deliverables_def extract_keeps_type elim!: rbind_InrE split: if_splits)
  have "dget (ee_runtime_event public) ''timestamp'' JNull = JTime now" using extract_keeps_entry [OF ext] assms(3) by simp
  then have "ditem (ee_runtime_event public) ''timestamp'' = Inr (JTime now)" by (rule ditem_dget) simp
  then show ?thesis using t by (simp add: parse_timestamp_def)
qed

text \<open>A permission event whose request is new inserts exactly that request.\<close>

lemma permission_required_inserts:
  assumes "record_permission_required h (JObj pl) tid rid sid c cp db = Inr db'"
    and "dget pl ''request'' JNull = JObj rq" "dget rq ''id'' JNull = JId pid" "permission_get pid db = None"
    and "dget rq ''expires_at'' JNull = JTime d"
  shows "\<exists>req. permission_get pid db' = Some req \<and> pr_status req = PermPending \<and> pr_run_id req = rid \<and>
    pr_expires_at req = Some d \<and> pr_checkpoint req = cp"
proof -
  have rq: "or_empty (JObj []) (dget pl ''request'' JNull) = JObj rq" using assms(2,3) by (cases rq) (auto simp: or_empty_def)
  have "ditem rq ''id'' = Inr (JId pid)" by (rule ditem_dget [OF assms(3)]) simp
  moreover have "ditem rq ''expires_at'' = Inr (JTime d)" by (rule ditem_dget [OF assms(5)]) simp
  ultimately obtain req db1 where req: "required_request h rq pid tid rid sid c cp = Inr req"
    and ins: "permission_insert req db = Inr db1" "db_permissions db' = db_permissions db1"
    and f: "pr_expires_at req = Some d" "pr_checkpoint req = cp" "pr_id req = pid" "pr_status req = PermPending" "pr_run_id req = rid"
    using assms(1,4) rq
    by (auto simp: record_permission_required_def as_dict_def uuid_of_def required_request_def parse_timestamp_def Let_def
        elim!: rbind_InrE split: option.splits)
  have "permission_get pid db' = Some req"
    using ins f(3) assms(4) by (auto simp: permission_get_def permission_insert_def row_simps split: if_splits)
  then show ?thesis using f by blast
qed

text \<open>
  The host alone decides how long a permission request lives: whatever deadline the worker sends
  with it, a new request is stored as pending with the deadline of the host's policy, together with
  the checkpoint the run resumes from, and a running run waits for the decision.
\<close>

theorem permission_deadline_from_host:
  assumes "record_envelope h e clk db = Inr (True, db')" and "ee_event_type e = JStr ''permission.required''"
    and "dget (ee_runtime_event e) ''payload'' JNull = JObj pl" and "dget pl ''request'' JNull = JObj rq"
    and "dget rq ''id'' JNull = JId pid" and "permission_get pid db = None"
    and "ee_run_id e = JId rid" and "run_get rid db = Some r" and "dget (ee_runtime_event e) ''timestamp'' JNull = JTime now"
  shows "\<exists>req d. permission_get pid db' = Some req \<and> pr_status req = PermPending \<and> pr_run_id req = rid \<and>
      permission_request_deadline (h_ttl_env h) None now = Inr d \<and> pr_expires_at req = Some d \<and>
      pr_checkpoint req = entries_of (dget rq ''_internal_checkpoint'' JNull) \<and>
      (ar_status r = Running \<longrightarrow> (\<exists>r'. run_get rid db' = Some r' \<and> ar_status r' = WaitingPermission))"
proof -
  from assms(1) obtain p run task stored projected db1 rows db2 db3
    where rec: "recorded h e clk db db' p run task stored projected db1 rows db2 db3"
    by (auto elim!: record_envelope_True)
  note q = rec [unfolded recorded_def]
  have p: "pp_run_id p = rid" "pp_created_at p = now"
    using prepare_facts [of h e p] prepared_created_at [of h e p now] q assms(2,7,9) by auto
  have run: "run = r" "ar_id run = rid" using q p assms(8) runs.get_key by fastforce+
  have proj: "projected = pp_envelope p"
    using q prepare_facts(1) assms(2)
    by (auto simp: bounded_envelopes_def externalize_large_artifact_def split: if_splits elim!: rbind_InrE)
  then have ty: "ee_event_type projected = JStr ''permission.required''" using prepare_facts(1) q assms(2) by metis
  obtain pl' rq' d where c: "dget (ee_runtime_event projected) ''payload'' (JObj []) = JObj pl'"
    "dget pl' ''request'' JNull = JObj rq'" "permission_request_deadline (h_ttl_env h) None now = Inr d"
    "dget rq' ''expires_at'' JNull = JTime d" "dget rq' ''id'' JNull = JId pid"
    "pp_checkpoint p = entries_of (dget rq ''_internal_checkpoint'' JNull)"
    using prepared_permission [of h e p pl rq] q assms(2-5) proj p(2) by auto
  let ?d = "snd (inbox_try_insert (''runtime-event'', ee_event_id e) db)"
  from q ty c(1) obtain run1 d1 where pe: "project_event h ''permission.required'' (JObj pl') run1 task (pp_step_id p) now
      (pp_checkpoint p) (clk 0) d1 = Inr db1" "moved (run, ?d) (run1, d1)" "ar_status run1 = ar_status run"
    by (auto simp: p(2) elim!: apply_projection_event)
  have new: "permission_get pid d1 = None" "ar_id run1 = rid"
    using pe(2) assms(6) run(2) by (simp_all add: moved_def permission_get_def)
  from pe(1) obtain d2 run2 d3 where r: "record_permission_required h (JObj pl') (tk_id task) (ar_id run1) (pp_step_id p) now
      (pp_checkpoint p) d1 = Inr d2"
    and t: "(if ar_status run1 = Running then transition run1 WaitingPermission [] (clk 0) d2 else Inr (run1, d2)) = Inr (run2, d3)"
    and db1: "db_permissions db1 = db_permissions d3" "db_runs db1 = db_runs d3"
    by (auto simp: project_event_def Let_def project_permission_required_def elim!: rbind_InrE)
  obtain req where req: "permission_get pid d2 = Some req" "pr_status req = PermPending" "pr_run_id req = rid"
    "pr_expires_at req = Some d" "pr_checkpoint req = pp_checkpoint p"
    using permission_required_inserts [OF r c(2,5) new(1) c(4)] new(2) by auto
  have "db_permissions d3 = db_permissions d2" using t transition_writes(5) by (auto split: if_splits)
  then have "permission_get pid db' = Some req"
    using req(1) db1(1) recorded_core [OF rec] by (simp add: permission_get_def core_def)
  moreover have "\<exists>r'. run_get rid db' = Some r' \<and> ar_status r' = WaitingPermission" if "ar_status r = Running"
  proof -
    have "transition run1 WaitingPermission [] (clk 0) d2 = Inr (run2, d3)" using t that pe(3) run(1) by simp
    from transition_writes(1) [OF this] new(2) obtain r' where "run_get rid d3 = Some r'" "ar_status r' = WaitingPermission"
      by (auto simp: transition_lock_def)
    then show ?thesis using db1(2) recorded_core [OF rec] by (auto simp: run_get_def core_def)
  qed
  ultimately show ?thesis using req c(3,6) by auto
qed

section \<open>File deliverables\<close>

text \<open>
  C29. A file a tool produced is believed only when the host can check it: a finished tool call yields at
  most one deliverable, only for the two built-in tools that write files, with a relative path that
  stays below its root, at most 100 MB, and the very path, size and hash the trusted result reports; a
  downloaded paper must lie where the artifact store keeps it.
\<close>

theorem deliverables_are_trusted:
  assumes "prepare_tool_deliverables h e = Inr (e', ds)" and "d \<in> set ds"
  shows "ds = [d] \<and> (\<exists>pl call result data tool. dget (ee_runtime_event e) ''payload'' JNull = JObj pl \<and>
      dget pl ''tool_call'' JNull = JObj call \<and> dget call ''result'' JNull = JObj result \<and>
      dget result ''data'' JNull = JObj data \<and> dget call ''tool_name'' JNull = JStr tool \<and> tool \<in> set file_tools \<and>
      trusted_result tool data \<and> dget call ''id'' JNull = JId (dv_tool_call_id d) \<and>
      \<not> path_absolute (dv_path d) \<and> ''..'' \<notin> set (path_parts (dv_path d)) \<and>
      text_of h (dget data ''path'' JNull) = dv_path d \<and> dget data ''sha256'' JNull = JStr (dv_content_hash d) \<and>
      length (dv_content_hash d) = 64 \<and> list_all hex_char (dv_content_hash d) \<and>
      eq_int (dget data ''size_bytes'' JNull) (dv_size_bytes d) \<and> 0 \<le> dv_size_bytes d \<and> dv_size_bytes d \<le> 104857600 \<and>
      (tool = ''literature.download_arxiv_pdf'' \<longrightarrow>
        is_local_artifact_path h (dv_path d) (text_of h (ee_run_id e)) (dv_id d) ''.pdf''))"
proof -
  have "ds \<noteq> []" using assms(2) by auto
  with assms(1) obtain tool_call where pg: "payload_get (ee_runtime_event e) ''tool_call'' = Inr tool_call" "is_dict tool_call"
    and rest: "is_dict (dget (entries_of tool_call) ''result'' JNull)"
    and cd: "call_deliverables h (ee_run_id e) (entries_of tool_call) (entries_of (dget (entries_of tool_call) ''result'' JNull)) = Inr ds"
    by (auto simp: prepare_tool_deliverables_def Let_def split: if_splits elim!: rbind_InrE)
  from pg(2) obtain call where call: "tool_call = JObj call" by (cases tool_call) auto
  from rest call obtain result where result: "dget call ''result'' JNull = JObj result"
    by (cases "dget call ''result'' JNull") auto
  obtain pl where pl: "dget (ee_runtime_event e) ''payload'' JNull = JObj pl" "dget pl ''tool_call'' JNull = JObj call"
    using pg(1) call by (auto simp: payload_get_def or_empty_def as_dict_def split: if_splits json.splits elim!: rbind_InrE)
  define candidates where "candidates = dget result ''deliverables'' JNull"
  define data where "data = entries_of (dget result ''data'' JNull)"
  from cd obtain tool where tool: "dget call ''tool_name'' JNull = JStr tool" "tool \<in> set file_tools"
    and shape: "is_list candidates" "length (items_of candidates) = 1" "is_dict (dget result ''data'' JNull)"
    and tr: "trusted_result tool data"
    and cid: "\<exists>cid. uuid_of h (dget call ''id'' JNull) = Inr cid \<and>
      mapR (\<lambda>(i, c). prepare_deliverable h (ee_run_id e) cid tool data (int i) c) (enumerate 0 (items_of candidates)) = Inr ds"
    by (auto simp: call_deliverables_def Let_def data_def candidates_def need_in_Inr text_of_def call result
        split: if_splits elim!: rbind_InrE)
  from shape(2) obtain cand where cand: "items_of candidates = [cand]" by (auto simp: length_Suc_conv)
  from cid obtain k where k: "uuid_of h (dget call ''id'' JNull) = Inr k" "prepare_deliverable h (ee_run_id e) k tool data 0 cand = Inr d"
    and ds: "ds = [d]" using assms(2) by (auto simp: cand elim!: rbind_InrE)
  have id: "dget call ''id'' JNull = JId k"
    using k(1) by (cases "dget call ''id'' JNull") (auto simp: uuid_of_def)
  have hash: "j = JStr (text_of h j)" if "str_len j = 64" for j using that by (cases j) (auto simp: text_of_def split: if_splits)
  from shape(3) have data: "dget result ''data'' JNull = JObj data" unfolding data_def by (cases "dget result ''data'' JNull") auto
  have tools: "tool = ''workspace.create_file'' \<or> tool = ''literature.download_arxiv_pdf''" using tool(2) by (simp add: file_tools_def)
  have ok: "candidate_ok h data cand" and src: "tool = ''literature.download_arxiv_pdf'' \<Longrightarrow>
      is_local_artifact_path h (dv_path d) (text_of h (ee_run_id e)) (dv_id d) ''.pdf''"
    and f: "dv_tool_call_id d = k" "dv_path d = text_of h (dget (entries_of cand) ''path'' JNull)"
      "dv_size_bytes d = int_of (dget (entries_of cand) ''size_bytes'' JNull)"
      "dv_content_hash d = text_of h (dget (entries_of cand) ''content_hash'' JNull)"
    using k(2) by (auto simp: prepare_deliverable_def arxiv_source_ok_def Let_def split: if_splits)
  have "\<not> path_absolute (dv_path d) \<and> ''..'' \<notin> set (path_parts (dv_path d)) \<and>
      text_of h (dget data ''path'' JNull) = dv_path d \<and> dget data ''sha256'' JNull = JStr (dv_content_hash d) \<and>
      length (dv_content_hash d) = 64 \<and> list_all hex_char (dv_content_hash d) \<and>
      eq_int (dget data ''size_bytes'' JNull) (dv_size_bytes d) \<and> 0 \<le> dv_size_bytes d \<and> dv_size_bytes d \<le> 104857600"
    using ok hash [of "dget (entries_of cand) ''content_hash'' JNull"] f
    by (auto simp: candidate_ok_def canonical_relative_def Let_def list_all_iff) (metis str_len.simps(1))
  then show ?thesis using ds pl result data tool tr id f(1) src by blast
qed

text \<open>
  C31. Nothing guards a run that has ended against a late event: whatever status the run has, also
  completed, failed or cancelled, the event of a completion turns it into a completed run.
\<close>

theorem late_completion_overwrites:
  assumes "run_get rid db = Some r" and "task_get tid db = Some t"
  shows "\<exists>db' r'. apply_projection h ''agent.run.completed'' (JObj []) r t sid c cp [] now db = Inr db' \<and>
    run_get rid db' = Some r' \<and> ar_status r' = Completed"
proof -
  let ?cs = "[SetCompletedAt c, SetLeaseUntil None, SetCheckpoint []]"
  let ?x = "expire_pending_permissions (ar_id r) c ''run_completed'' db"
  let ?u = "transition_lock r Completed ?cs now"
  have id: "ar_id r = rid" using assms(1) by (rule runs.get_key)
  have get: "run_get rid ?x = Some r" using assms(1) by (simp add: run_get_def)
  then have up: "update_with_lock ?u ?x = (True, run_put (updated_run ?u r) ?x)"
    by (auto simp: update_with_lock_True transition_lock_def lock_ok_def id)
  then obtain run1 where tr: "transition r Completed ?cs now ?x = Inr (run1, run_put (updated_run ?u r) ?x)"
    by (auto simp: transition_Inr)
  let ?db' = "task_update (t\<lparr>tk_status := TaskCompleted, tk_completed_at := Some c, tk_updated_at := c\<rparr>)
    (run_put (updated_run ?u r) ?x)"
  have "apply_projection h ''agent.run.completed'' (JObj []) r t sid c cp [] now db = Inr ?db'"
    by (simp add: apply_projection_def project_event_def starts_with_def project_completed_def tr as_dict_def record_output_def)
  moreover have "run_get rid ?db' = Some (updated_run ?u r)"
    using get id by (simp add: run_get_def [of _ "task_update _ _"] run_get_def [of _ "run_put _ _", symmetric] runs.get_put)
  moreover have "ar_status (updated_run ?u r) = Completed" by (simp add: transition_lock_def)
  ultimately show ?thesis by blast
qed

section \<open>Witnesses\<close>

definition plain_host :: host where
  "plain_host = \<lparr>h_repr = (\<lambda>_. []), h_uuid_text = (\<lambda>_. []), h_is_uuid_text = (\<lambda>_. False), h_urlparse = (\<lambda>_. ([], [])),
     h_ttl_env = [], h_write_text = None, h_inline_max_bytes = 8192, h_memory_extraction = True\<rparr>"

definition event_task :: task where
  "event_task = \<lparr>tk_id = Uuid4 1, tk_title = [], tk_user_goal = [], tk_conversation_id = Uuid4 2, tk_status = TaskRunning,
     tk_priority = 0, tk_workspace_path = None, tk_workspace_id = None, tk_active_run_id = Some (Uuid4 0),
     tk_last_step_summary = None, tk_risk_level = None, tk_created_at = 0, tk_updated_at = 0, tk_completed_at = None,
     tk_cancelled_at = None, tk_metadata = [], tk_scheduled_execution_id = None\<rparr>"

definition event_db :: db where
  "event_db = empty_db\<lparr>db_next := 100, db_tasks := [event_task],
     db_runs := [(new_agent_run (Uuid4 0) (Uuid4 1) 0 [] [])\<lparr>ar_status := Running, ar_version := 2,
       ar_worker_id := Some ''w'', ar_lease_until := Some 60\<rparr>]\<rparr>"

definition event_of :: "string \<Rightarrow> nat \<Rightarrow> dict \<Rightarrow> event_envelope" where
  "event_of ty n payload =
     \<lparr>ee_event_id = JId (Uuid4 n), ee_trace_id = JId (Uuid4 3), ee_task_id = JId (Uuid4 1), ee_run_id = JId (Uuid4 0),
      ee_event_type = JStr ty,
      ee_runtime_event = [(''id'', JId (Uuid4 n)), (''type'', JStr ty), (''task_id'', JId (Uuid4 1)),
        (''run_id'', JId (Uuid4 0)), (''timestamp'', JTime 7), (''step_id'', JId (Uuid4 40)), (''payload'', JObj payload)],
      ee_produced_by = JStr ''w'', ee_schema_version = JStr SCHEMA_VERSION, ee_internal = []\<rparr>"

text \<open>The store after an envelope that is recorded.\<close>

definition after_event :: "event_envelope \<Rightarrow> db \<Rightarrow> db" where
  "after_event e db = (case record_envelope plain_host e int db of Inr (_, db') \<Rightarrow> db' | Inl _ \<Rightarrow> empty_db)"

definition is_recorded :: "event_envelope \<Rightarrow> db \<Rightarrow> bool" where
  "is_recorded e db \<longleftrightarrow> (case record_envelope plain_host e int db of Inr (b, _) \<Rightarrow> b | Inl _ \<Rightarrow> False)"

lemma after_event: "is_recorded e db \<Longrightarrow> record_envelope plain_host e int db = Inr (True, after_event e db)"
  by (auto simp: is_recorded_def after_event_def split: sum.splits)

definition failure_event :: event_envelope where
  "failure_event = event_of ''agent.run.failed'' 10 [(''error'', JObj [(''code'', JStr ''X'')])]"

definition request_event :: event_envelope where
  "request_event = event_of ''permission.required'' 11 [(''request'', JObj [(''id'', JId (Uuid4 20)),
     (''expires_at'', JTime 999999999999), (''_internal_checkpoint'', JObj [(''secret'', JStr ''s'')])])]"

definition file_result :: dict where
  "file_result = [(''kind'', JStr ''file''), (''data'', JObj [(''created'', JBool True), (''path'', JStr ''a/b.txt''),
     (''size_bytes'', JInt 3), (''sha256'', JStr (replicate 64 CHR ''a''))]),
     (''deliverables'', JList [JObj [(''kind'', JStr ''file''), (''path'', JStr ''a/b.txt''), (''size_bytes'', JInt 3),
       (''mime_type'', JStr ''text/plain''), (''content_hash'', JStr (replicate 64 CHR ''a''))]])]"

definition file_event :: event_envelope where
  "file_event = event_of ''tool.call.finished'' 12 [(''tool_call'', JObj [(''id'', JId (Uuid4 30)),
     (''tool_name'', JStr ''workspace.create_file''), (''result'', JObj file_result)])]"

lemma samples_recorded: "is_recorded failure_event event_db" "is_recorded request_event event_db"
  "is_recorded file_event event_db"
  by code_simp+

lemma event_run: "run_get (Uuid4 0) event_db = Some ((new_agent_run (Uuid4 0) (Uuid4 1) 0 [] [])\<lparr>ar_status := Running,
    ar_version := 2, ar_worker_id := Some ''w'', ar_lease_until := Some 60\<rparr>)"
  by (simp add: event_db_def run_get_def new_agent_run_def)

lemma event_recorded_once_witness:
  "record_envelope plain_host failure_event int (after_event failure_event event_db) =
     Inr (False, after_event failure_event event_db)"
  using event_recorded_once [OF after_event [OF samples_recorded(1)], of int "[]"] by simp

lemma event_log_stays_complete_witness:
  "log_complete (fold (deliver plain_host) [(file_event, int), (failure_event, int), (file_event, int)] event_db)"
proof (rule event_log_stays_complete)
  show "log_complete event_db" by (simp add: log_complete_def contiguous_def events_by_run_def event_db_def empty_db_def)
qed

lemma steps_stay_numbered_witness:
  "steps_numbered (fold (deliver plain_host) [(file_event, int), (failure_event, int), (file_event, int)] event_db)"
proof (rule steps_stay_numbered)
  show "steps_numbered event_db"
    by (simp add: steps_numbered_def steps_by_run_def run_get_def event_db_def empty_db_def new_agent_run_def)
qed


lemma checkpoint_stays_internal_witness:
  "set (db_outbox (after_event request_event event_db)) - set (db_outbox event_db) \<subseteq>
     {ob. ''_internal_checkpoint'' \<notin> set (keys (published_request ob))}"
  using checkpoint_stays_internal [OF after_event [OF samples_recorded(2)]] by (auto simp: request_event_def event_of_def)

lemma permission_deadline_from_host_witness:
  "\<exists>req. permission_get (Uuid4 20) (after_event request_event event_db) = Some req \<and> pr_status req = PermPending \<and>
     pr_checkpoint req = [(''secret'', JStr ''s'')]"
proof -
  let ?rq = "[(''id'', JId (Uuid4 20)), (''expires_at'', JTime 999999999999), (''_internal_checkpoint'', JObj [(''secret'', JStr ''s'')])]"
  have none: "permission_get (Uuid4 20) event_db = None" by (simp add: permission_get_def event_db_def empty_db_def)
  obtain req where "permission_get (Uuid4 20) (after_event request_event event_db) = Some req" "pr_status req = PermPending"
    "pr_checkpoint req = entries_of (dget ?rq ''_internal_checkpoint'' JNull)"
    using permission_deadline_from_host [OF after_event [OF samples_recorded(2)], of "[(''request'', JObj ?rq)]" ?rq
        "Uuid4 20" "Uuid4 0", OF _ _ _ _ none _ event_run, of 7]
    by (auto simp: request_event_def event_of_def)
  then show ?thesis by simp
qed

lemma deliverables_are_trusted_witness:
  "\<exists>e' d. prepare_tool_deliverables plain_host file_event = Inr (e', [d]) \<and> ''..'' \<notin> set (path_parts (dv_path d)) \<and>
     length (dv_content_hash d) = 64"
proof -
  have "case prepare_tool_deliverables plain_host file_event of Inr (_, [d]) \<Rightarrow> True | _ \<Rightarrow> False" by code_simp
  then obtain e' d where p: "prepare_tool_deliverables plain_host file_event = Inr (e', [d])"
    by (cases "prepare_tool_deliverables plain_host file_event") (auto split: list.splits)
  from deliverables_are_trusted [OF p, of d] p show ?thesis by auto
qed

lemma late_completion_overwrites_witness:
  "\<exists>db' r'. apply_projection plain_host ''agent.run.completed'' (JObj [])
      ((new_agent_run (Uuid4 0) (Uuid4 1) 0 [] [])\<lparr>ar_status := Cancelled\<rparr>) event_task None 5 [] [] 6
      (event_db\<lparr>db_runs := [(new_agent_run (Uuid4 0) (Uuid4 1) 0 [] [])\<lparr>ar_status := Cancelled\<rparr>]\<rparr>) = Inr db' \<and>
    run_get (Uuid4 0) db' = Some r' \<and> ar_status r' = Completed"
  by (rule late_completion_overwrites) (simp_all add: run_get_def task_get_def event_db_def event_task_def new_agent_run_def)

end
