(* ===== verification/UText.thy ===== *)
theory UText
  imports Prelude "HOL-Library.Product_Lexorder" "HOL-Library.List_Lexorder" "HOL-Library.Sublist"
begin

text \<open>
  Unicode text for the retrieval components, where the scripts matter: a Python string is its list
  of code points, compared as Python compares strings (lexicographically).  Holds \<open>strip\<close> and
  \<open>join\<close>, the token estimate of \<open>agent/rag/chunking/deterministic.py\<close> and the lemmas on its growth,
  and the bisection that both callers of the estimate use.
\<close>

section \<open>Strings as code points\<close>

type_synonym ustr = "int list"

text \<open>The code points with \<open>str.isspace\<close>, which are also what \<open>\s\<close> matches.\<close>

definition uspace :: "int \<Rightarrow> bool" where
  "uspace c \<longleftrightarrow> (9 \<le> c \<and> c \<le> 13) \<or> (28 \<le> c \<and> c \<le> 32) \<or> c = 133 \<or> c = 160 \<or> c = 5760 \<or>
     (8192 \<le> c \<and> c \<le> 8202) \<or> c = 8232 \<or> c = 8233 \<or> c = 8239 \<or> c = 8287 \<or> c = 12288"

definition ulstrip :: "ustr \<Rightarrow> ustr" where
  "ulstrip = dropWhile uspace"

definition urstrip :: "ustr \<Rightarrow> ustr" where
  "urstrip t = rev (dropWhile uspace (rev t))"

definition ustrip :: "ustr \<Rightarrow> ustr" where
  "ustrip t = urstrip (ulstrip t)"

text \<open>\<open>sep.join(parts)\<close>\<close>

fun ujoin :: "ustr \<Rightarrow> ustr list \<Rightarrow> ustr" where
  "ujoin sep [] = []"
| "ujoin sep [t] = t"
| "ujoin sep (t # u # ts) = t @ sep @ ujoin sep (u # ts)"

abbreviation blank_line :: ustr where
  "blank_line \<equiv> [10, 10]"

text \<open>\<open>t.find(needle)\<close>: the first position, or -1.\<close>

fun ufind :: "ustr \<Rightarrow> ustr \<Rightarrow> int" where
  "ufind needle [] = (if needle = [] then 0 else -1)"
| "ufind needle (c # cs) =
     (if prefix needle (c # cs) then 0 else let i = ufind needle cs in if i < 0 then -1 else i + 1)"

lemma suffix_ulstrip: "suffix (ulstrip t) t"
  by (simp add: ulstrip_def suffix_dropWhile)

lemma prefix_urstrip: "prefix (urstrip t) t"
proof -
  have "suffix (dropWhile uspace (rev t)) (rev t)"
    by (rule suffix_dropWhile)
  then show ?thesis
    by (simp add: urstrip_def suffix_to_prefix)
qed

lemma sublist_ustrip: "sublist (ustrip t) t"
  unfolding ustrip_def
  by (meson prefix_imp_sublist prefix_urstrip sublist_order.order_trans suffix_imp_sublist suffix_ulstrip)

lemma ustrip_Nil [simp]: "ustrip [] = []"
  by (simp add: ustrip_def urstrip_def ulstrip_def)

lemma ustrip_eq_Nil: "ustrip t = [] \<longleftrightarrow> (\<forall>c \<in> set t. uspace c)"
proof
  assume "ustrip t = []"
  then have "\<forall>c \<in> set (dropWhile uspace t). uspace c"
    by (simp add: ustrip_def urstrip_def ulstrip_def)
  then have "dropWhile uspace t = []"
    using hd_dropWhile [of uspace t] hd_in_set [of "dropWhile uspace t"] by blast
  then show "\<forall>c \<in> set t. uspace c"
    by simp
next
  assume "\<forall>c \<in> set t. uspace c"
  then show "ustrip t = []"
    by (simp add: ustrip_def urstrip_def ulstrip_def dropWhile_eq_Nil_conv [THEN iffD2])
qed

lemma ujoin_snoc: "ts \<noteq> [] \<Longrightarrow> ujoin sep (ts @ [u]) = ujoin sep ts @ sep @ u"
  by (induction sep ts rule: ujoin.induct) auto

lemma sublist_tail [simp]: "sublist b (a @ s @ b)"
  by (metis append.assoc append_Nil2 sublist_def)

lemma ulstrip_keeps:
  assumes "s \<noteq> []" "\<not> uspace (hd s)"
  shows "\<exists>a'. ulstrip (a @ s @ b) = a' @ s @ b"
  using assms by (cases s; induction a) (auto simp: ulstrip_def)

lemma urstrip_keeps:
  assumes "s \<noteq> []" "\<not> uspace (last s)"
  shows "\<exists>b'. urstrip (a @ s @ b) = a @ s @ b'"
proof -
  have "rev s \<noteq> []" "\<not> uspace (hd (rev s))"
    using assms by (auto simp: hd_rev)
  from ulstrip_keeps [OF this, of "rev b" "rev a"]
  obtain a' where "ulstrip (rev b @ rev s @ rev a) = a' @ rev s @ rev a"
    by blast
  then have "urstrip (a @ s @ b) = rev (a' @ rev s @ rev a)"
    by (simp add: urstrip_def ulstrip_def)
  then show ?thesis
    by simp
qed

lemma stripped_ends:
  assumes "ustrip s = s" "s \<noteq> []"
  shows "\<not> uspace (hd s)" "\<not> uspace (last s)"
proof -
  obtain c cs where s: "s = c # cs"
    using assms(2) by (cases s) auto
  have "length (ulstrip s) = length s"
    using assms(1) length_dropWhile_le [of uspace s] prefix_length_le [OF prefix_urstrip [of "ulstrip s"]]
    by (simp add: ustrip_def ulstrip_def)
  then have left: "ulstrip s = s"
    using suffix_ulstrip [of s] by (metis append_eq_append_conv append_self_conv2 suffix_def)
  then show "\<not> uspace (hd s)"
    using assms(2) by (metis hd_dropWhile ulstrip_def)
  have "urstrip s = s"
    using assms(1) left by (simp add: ustrip_def)
  then show "\<not> uspace (last s)"
    using assms(2) by (metis hd_dropWhile hd_rev rev_is_Nil_conv rev_rev_ident urstrip_def)
qed

lemma strip_keeps:
  assumes "ustrip s = s" "s \<noteq> []" "sublist s t"
  shows "sublist s (ustrip t)"
proof -
  obtain a b where t: "t = a @ s @ b"
    using assms(3) by (auto simp: sublist_def)
  obtain a' where l: "ulstrip t = a' @ s @ b"
    using ulstrip_keeps [OF assms(2) stripped_ends(1) [OF assms(1,2)]] t by blast
  obtain b' where "urstrip (a' @ s @ b) = a' @ s @ b'"
    using urstrip_keeps [OF assms(2) stripped_ends(2) [OF assms(1,2)]] by blast
  then show ?thesis
    by (simp add: ustrip_def l)
qed

lemma nonspace_kept:
  assumes "c \<in> set t" "\<not> uspace c"
  shows "c \<in> set (ustrip t)"
proof -
  have "ustrip [c] = [c]" "sublist [c] t"
    using assms by (auto simp: ustrip_def urstrip_def ulstrip_def sublist_def in_set_conv_decomp)
  then show ?thesis
    using strip_keeps [of "[c]" t] set_mono_sublist by fastforce
qed

lemma ustrip_blank [simp]: "ustrip (ustrip t) = [] \<longleftrightarrow> ustrip t = []"
  by (metis nonspace_kept set_mono_sublist sublist_ustrip subsetD ustrip_eq_Nil)

text \<open>The text of a Latin-1 literal.\<close>

definition utext :: "string \<Rightarrow> ustr" where
  "utext s = map of_char s"

section \<open>The token estimate\<close>

definition is_cjk :: "int \<Rightarrow> bool" where
  "is_cjk c \<longleftrightarrow> 0x3400 \<le> c \<and> c \<le> 0x9fff"

text \<open>\<open>math.ceil(remaining / 4)\<close> is \<open>(remaining + 3) div 4\<close>.\<close>

definition estimate_tokens :: "ustr \<Rightarrow> int" where
  "estimate_tokens t =
     (if t = [] then 0
      else let cjk = int (length (filter is_cjk t)); remaining = max (int (length t) - cjk) 0
           in max 1 (cjk + (remaining + 3) div 4))"

lemma estimate_Nil [simp]: "estimate_tokens [] = 0"
  by (simp add: estimate_tokens_def)

text \<open>Counting the other code points directly is easier to reason about.\<close>

lemma estimate_alt:
  "estimate_tokens t = int (length (filter is_cjk t)) + (int (length (filter (\<lambda>c. \<not> is_cjk c) t)) + 3) div 4"
proof -
  let ?a = "int (length (filter is_cjk t))" and ?b = "int (length (filter (\<lambda>c. \<not> is_cjk c) t))"
  have len: "int (length t) = ?a + ?b"
    by (metis of_nat_add sum_length_filter_compl)
  show ?thesis
  proof (cases "t = []")
    case False
    then have "0 < int (length t)"
      by simp
    then have "1 \<le> ?a + (?b + 3) div 4"
      using len by linarith
    then show ?thesis
      using False unfolding estimate_tokens_def len Let_def by (simp del: One_nat_def of_nat_add)
  qed simp
qed

lemma estimate_nonneg [simp]: "0 \<le> estimate_tokens t"
  by (simp add: estimate_alt)

lemma estimate_sublist: "sublist s t \<Longrightarrow> estimate_tokens s \<le> estimate_tokens t"
  unfolding sublist_def estimate_alt by (auto intro!: add_mono zdiv_mono1)

lemma estimate_drop_mono: "i \<le> j \<Longrightarrow> estimate_tokens (drop j t) \<le> estimate_tokens (drop i t)"
  by (metis drop_drop estimate_sublist le_add_diff_inverse2 sublist_drop)

lemma estimate_strip: "estimate_tokens (ustrip t) \<le> estimate_tokens t"
  by (rule estimate_sublist [OF sublist_ustrip])

lemma estimate_append: "estimate_tokens (s @ t) \<le> estimate_tokens s + estimate_tokens t"
proof -
  have "(a + b + 3) div 4 \<le> (a + 3) div 4 + (b + 3) div (4 :: int)" for a b :: int
    by linarith
  then show ?thesis
    by (simp add: estimate_alt)
qed

lemma estimate_pos: "t \<noteq> [] \<Longrightarrow> 1 \<le> estimate_tokens t"
  by (auto simp: estimate_tokens_def Let_def)

lemma estimate_single [simp]: "estimate_tokens [c] = 1"
  by (simp add: estimate_alt)

lemma estimate_le_length: "estimate_tokens t \<le> int (length t)"
proof -
  have "int (length t) = int (length (filter is_cjk t)) + int (length (filter (\<lambda>c. \<not> is_cjk c) t))"
    by (metis of_nat_add sum_length_filter_compl)
  then show ?thesis
    unfolding estimate_alt by linarith
qed

section \<open>Bisection\<close>

text \<open>
  A predicate that, once true, stays true.  The loop \<open>while low < high\<close> that halves the interval
  ends at its first true point; it is used with the interval \<open>[0, length]\<close>.
\<close>

function bisect_first :: "(nat \<Rightarrow> bool) \<Rightarrow> nat \<Rightarrow> nat \<Rightarrow> nat" where
  "bisect_first P low high =
     (if low < high
      then let middle = (low + high) div 2
           in if \<not> P middle then bisect_first P (middle + 1) high else bisect_first P low middle
      else low)"
  by pat_completeness auto
termination
  by (relation "measure (\<lambda>(P, low, high). high - low)") auto

declare bisect_first.simps [simp del]

lemma bisect_first_step:
  "low < high \<Longrightarrow> P ((low + high) div 2) \<Longrightarrow>
    bisect_first P low high = bisect_first P low ((low + high) div 2)"
  "low < high \<Longrightarrow> \<not> P ((low + high) div 2) \<Longrightarrow>
    bisect_first P low high = bisect_first P ((low + high) div 2 + 1) high"
  "\<not> low < high \<Longrightarrow> bisect_first P low high = low"
  by (simp_all add: bisect_first.simps [of P low high] Let_def)

lemma bisect_first_is_first:
  assumes mono: "\<And>i j. i \<le> j \<Longrightarrow> P i \<Longrightarrow> P j"
    and "low \<le> high" "P high" "\<And>i. i < low \<Longrightarrow> \<not> P i"
  shows "P (bisect_first P low high) \<and> (\<forall>i < bisect_first P low high. \<not> P i)"
  using assms(2-)
proof (induction "high - low" arbitrary: low high rule: less_induct)
  case less
  let ?m = "(low + high) div 2"
  consider "\<not> low < high" | "low < high" "P ?m" | "low < high" "\<not> P ?m"
    by blast
  then show ?case
  proof cases
    case 1
    then show ?thesis
      using less.prems by (simp add: bisect_first_step(3))
  next
    case 2
    then have "P (bisect_first P low ?m) \<and> (\<forall>i < bisect_first P low ?m. \<not> P i)"
      by (intro less.hyps) (auto dest: less.prems(3))
    then show ?thesis
      using 2 by (simp add: bisect_first_step(1))
  next
    case 3
    then have "\<not> P i" if "i < ?m + 1" for i
      using mono [of i ?m] that by auto
    then have "P (bisect_first P (?m + 1) high) \<and> (\<forall>i < bisect_first P (?m + 1) high. \<not> P i)"
      using 3 less.prems by (intro less.hyps) auto
    then show ?thesis
      using 3 by (simp add: bisect_first_step(2))
  qed
qed

end
