(* ===== verification/Chunking.thy ===== *)
theory Chunking
  imports UText
begin

text \<open>
  \<open>agent/rag/chunking/contracts.py\<close> and \<open>agent/rag/chunking/deterministic.py\<close>: the chunks a document is
  indexed by.  Coordinates are rationals (floats that are compared, never computed with);
  \<open>sha256\<close> is the hash of the UTF-8 encoding.
\<close>

section \<open>Contracts\<close>

datatype chunk_modality = ModText | ModTable | ModImage | ModChart | ModFormula | ModCode

record chunk_policy =
  cp_target_tokens :: int
  cp_max_tokens :: int
  cp_min_tokens :: int
  cp_semantic_overlap_tokens :: int
  cp_policy_version :: ustr

definition mk_chunk_policy :: "int \<Rightarrow> int \<Rightarrow> int \<Rightarrow> int \<Rightarrow> ustr \<Rightarrow> chunk_policy res" where
  "mk_chunk_policy target_tokens max_tokens min_tokens semantic_overlap_tokens policy_version =
     rbind (need (1 \<le> min_tokens \<and> min_tokens \<le> target_tokens \<and> target_tokens \<le> max_tokens)) (\<lambda>_.
     rbind (need (0 \<le> semantic_overlap_tokens \<and> semantic_overlap_tokens < max_tokens)) (\<lambda>_.
     rbind (need (ustrip policy_version \<noteq> [])) (\<lambda>_.
     Inr \<lparr>cp_target_tokens = target_tokens, cp_max_tokens = max_tokens, cp_min_tokens = min_tokens,
       cp_semantic_overlap_tokens = semantic_overlap_tokens, cp_policy_version = policy_version\<rparr>)))"

record chunk_draft =
  cd_ordinal :: int
  cd_content :: ustr
  cd_token_count :: int
  cd_content_hash :: string
  cd_page_start :: int
  cd_page_end :: int
  cd_block_start :: int
  cd_block_end :: int
  cd_heading_path :: "ustr list"
  cd_overlap_tokens :: int
  cd_modality :: chunk_modality
  cd_node_ids :: "string list"
  cd_element_node_ids :: "string list"

datatype pdf_block_type = PdfHeading | PdfParagraph | PdfList | PdfCode | PdfTableProxy

record document_block =
  blk_page_number :: int
  blk_order_index :: int
  blk_block_type :: pdf_block_type
  blk_text :: ustr
  blk_bounding_box :: "rat \<times> rat \<times> rat \<times> rat"
  blk_page_width :: rat
  blk_page_height :: rat
  blk_heading_level :: "int option"
  blk_font_size :: rat
  blk_bold :: bool

text \<open>\<open>_Unit\<close>: a block with text, or a part of one.\<close>

record chunk_unit =
  cu_text :: ustr
  cu_page_number :: int
  cu_block_start :: int
  cu_block_end :: int
  cu_heading_path :: "ustr list"
  cu_overlap_tokens :: int

definition cu_token_count :: "chunk_unit \<Rightarrow> int" where
  "cu_token_count u = estimate_tokens (cu_text u)"

section \<open>Units\<close>

definition remove_nul :: "ustr \<Rightarrow> ustr" where
  "remove_nul t = filter (\<lambda>c. c \<noteq> 0) t"

text \<open>The slice \<open>xs[:k]\<close>; a negative \<open>k\<close> counts from the end.\<close>

definition slice_to :: "int \<Rightarrow> 'a list \<Rightarrow> 'a list" where
  "slice_to k xs = (if 0 \<le> k then take (nat k) xs else take (length xs - nat (- k)) xs)"

text \<open>\<open>block.heading_level or 1\<close>\<close>

definition heading_level :: "document_block \<Rightarrow> int" where
  "heading_level b = (case blk_heading_level b of None \<Rightarrow> 1 | Some l \<Rightarrow> if l = 0 then 1 else l)"

fun build_units :: "ustr list \<Rightarrow> (int \<times> document_block) list \<Rightarrow> chunk_unit list" where
  "build_units heading_stack [] = []"
| "build_units heading_stack ((source_index, block) # rest) =
     (let t = ustrip (remove_nul (blk_text block)) in
      if t = [] then build_units heading_stack rest
      else let heading_stack = (if blk_block_type block = PdfHeading
                                then slice_to (heading_level block - 1) heading_stack @ [t] else heading_stack)
           in \<lparr>cu_text = t, cu_page_number = blk_page_number block, cu_block_start = source_index,
                cu_block_end = source_index, cu_heading_path = heading_stack, cu_overlap_tokens = 0\<rparr>
              # build_units heading_stack rest)"

text \<open>Reading order: page, then top to bottom, then left to right; the sort is stable.\<close>

definition reading_key :: "int \<times> document_block \<Rightarrow> int \<times> rat \<times> rat \<times> int" where
  "reading_key = (\<lambda>(i, b). case blk_bounding_box b of (x0, y0, x1, y1) \<Rightarrow>
     (blk_page_number b, y0, x0, blk_order_index b))"

definition chunk_units :: "document_block list \<Rightarrow> chunk_unit list" where
  "chunk_units blocks =
     build_units [] (sort_key reading_key (map (\<lambda>(i, b). (int i, b)) (enumerate 0 blocks)))"

section \<open>Oversized units\<close>

definition sentence_end :: "int \<Rightarrow> bool" where
  "sentence_end c \<longleftrightarrow> c \<in> {0x3002, 0xFF01, 0xFF1F, 0x21, 0x3F, 0xFF1B, 0x3B, 0x2E}"

text \<open>
  The expression \<open>_BOUNDARY\<close> matches whitespace that follows a sentence end, or else newlines; both
  repetitions are greedy.  \<open>boundary_len\<close> is the length of the match at a position (0 for none),
  given the character before it.
\<close>

definition boundary_len :: "int option \<Rightarrow> ustr \<Rightarrow> nat" where
  "boundary_len before rest =
     (let spaces = length (takeWhile uspace rest) in
      if (case before of None \<Rightarrow> False | Some c \<Rightarrow> sentence_end c) \<and> 0 < spaces then spaces
      else length (takeWhile (\<lambda>c. c = 10) rest))"

function boundary_split :: "ustr \<Rightarrow> int option \<Rightarrow> ustr \<Rightarrow> ustr list" where
  "boundary_split field before [] = [field]"
| "boundary_split field before (c # cs) =
     (let n = boundary_len before (c # cs) in
      if n = 0 then boundary_split (field @ [c]) (Some c) cs
      else field # boundary_split [] (Some (last (take n (c # cs)))) (drop n (c # cs)))"
  by pat_completeness auto
termination
  by (relation "measure (\<lambda>(field, before, rest). length rest)") auto

definition sentences_of :: "ustr \<Rightarrow> ustr list" where
  "sentences_of t = map ustrip (filter (\<lambda>part. ustrip part \<noteq> []) (boundary_split [] None t))"

text \<open>A single sentence is cut into its characters.\<close>

definition split_parts :: "ustr \<Rightarrow> ustr list" where
  "split_parts t = (let sentences = sentences_of t in
     if length sentences = 1 then map (\<lambda>c. [c]) t else sentences)"

text \<open>The longest suffix within a budget, found by bisection.\<close>

definition suffix_for_budget :: "ustr \<Rightarrow> int \<Rightarrow> ustr" where
  "suffix_for_budget t token_budget =
     (if token_budget \<le> 0 then []
      else ustrip (drop (bisect_first (\<lambda>middle. \<not> token_budget < estimate_tokens (drop middle t)) 0 (length t)) t))"

fun pack_parts :: "chunk_policy \<Rightarrow> ustr list \<Rightarrow> ustr list \<Rightarrow> ustr \<Rightarrow> ustr list" where
  "pack_parts p [] chunks current = (if ustrip current \<noteq> [] then chunks @ [ustrip current] else chunks)"
| "pack_parts p (part # parts) chunks current =
     (let separator = (if current \<noteq> [] \<and> 1 < length part then [32] else []);
          candidate = current @ separator @ part
      in if current \<noteq> [] \<and> cp_max_tokens p < estimate_tokens candidate
         then let overlap = suffix_for_budget current (cp_semantic_overlap_tokens p)
              in pack_parts p parts (chunks @ [ustrip current]) (ustrip (overlap @ separator @ part))
         else pack_parts p parts chunks candidate)"

definition split_oversized :: "chunk_policy \<Rightarrow> chunk_unit \<Rightarrow> chunk_unit list" where
  "split_oversized p u =
     map (\<lambda>(i, t). u\<lparr>cu_text := t,
            cu_overlap_tokens := (if 0 < i then min (cp_semantic_overlap_tokens p) (estimate_tokens t) else 0)\<rparr>)
       (enumerate 0 (pack_parts p (split_parts (cu_text u)) [] []))"

section \<open>Chunks\<close>

definition draft_of :: "(ustr \<Rightarrow> string) \<Rightarrow> int \<Rightarrow> chunk_unit list \<Rightarrow> chunk_draft" where
  "draft_of sha256 ordinal us =
     (let content = ustrip (ujoin blank_line (map cu_text us)) in
      \<lparr>cd_ordinal = ordinal, cd_content = content, cd_token_count = estimate_tokens content,
       cd_content_hash = sha256 content,
       cd_page_start = Min (set (map cu_page_number us)), cd_page_end = Max (set (map cu_page_number us)),
       cd_block_start = Min (set (map cu_block_start us)), cd_block_end = Max (set (map cu_block_end us)),
       cd_heading_path = cu_heading_path (last us),
       cd_overlap_tokens = Max (set (map cu_overlap_tokens us)),
       cd_modality = ModText, cd_node_ids = [], cd_element_node_ids = []\<rparr>)"

text \<open>\<open>drafts.append(self._draft(len(drafts), units))\<close>\<close>

definition add_draft :: "(ustr \<Rightarrow> string) \<Rightarrow> chunk_unit list \<Rightarrow> chunk_draft list \<Rightarrow> chunk_draft list" where
  "add_draft sha256 us drafts = drafts @ [draft_of sha256 (int (length drafts)) us]"

definition flush :: "(ustr \<Rightarrow> string) \<Rightarrow> chunk_unit list \<Rightarrow> chunk_draft list \<Rightarrow> chunk_draft list" where
  "flush sha256 pending drafts = (if pending \<noteq> [] then add_draft sha256 pending drafts else drafts)"

definition must_flush :: "chunk_policy \<Rightarrow> chunk_unit \<Rightarrow> chunk_unit list \<Rightarrow> bool" where
  "must_flush p u pending =
     (let pending_tokens = estimate_tokens (ujoin blank_line (map cu_text pending));
          heading_boundary = pending \<noteq> [] \<and> cu_heading_path u \<noteq> cu_heading_path (last pending) \<and>
            cp_min_tokens p \<le> pending_tokens;
          would_exceed = pending \<noteq> [] \<and>
            cp_max_tokens p < estimate_tokens (ujoin blank_line (map cu_text pending @ [cu_text u]));
          reached_target = cp_target_tokens p \<le> pending_tokens
      in heading_boundary \<or> would_exceed \<or> reached_target)"

fun chunk_loop :: "(ustr \<Rightarrow> string) \<Rightarrow> chunk_policy \<Rightarrow> chunk_unit list \<Rightarrow> chunk_draft list \<Rightarrow> chunk_unit list \<Rightarrow>
    chunk_draft list" where
  "chunk_loop sha256 p [] drafts pending = flush sha256 pending drafts"
| "chunk_loop sha256 p (u # us) drafts pending =
     (if cp_max_tokens p < cu_token_count u
      then chunk_loop sha256 p us
             (fold (\<lambda>v. add_draft sha256 [v]) (split_oversized p u) (flush sha256 pending drafts)) []
      else if must_flush p u pending
      then chunk_loop sha256 p us (add_draft sha256 pending drafts) [u]
      else chunk_loop sha256 p us drafts (pending @ [u]))"

definition chunk :: "(ustr \<Rightarrow> string) \<Rightarrow> chunk_policy \<Rightarrow> document_block list \<Rightarrow> chunk_draft list" where
  "chunk sha256 p blocks = chunk_loop sha256 p (chunk_units blocks) [] []"

end
