(* ===== verification/ChunkingFacts.thy ===== *)
theory ChunkingFacts
  imports Chunking
begin

text \<open>
  What makes chunking correct: the bisection finds the longest suffix within the budget, the chunks
  partition the text of the document in reading order, each keeps to the token limit unless a single
  sentence is too long, and no sentence of a split block is lost.
\<close>

section \<open>The longest suffix within a budget\<close>

text \<open>Reference: drop characters from the front until the rest fits.\<close>

primrec longest_suffix :: "int \<Rightarrow> ustr \<Rightarrow> ustr" where
  "longest_suffix token_budget [] = []"
| "longest_suffix token_budget (c # cs) =
     (if estimate_tokens (c # cs) \<le> token_budget then c # cs else longest_suffix token_budget cs)"

lemma longest_suffix_drop:
  "estimate_tokens (drop k t) \<le> b \<Longrightarrow> (\<And>i. i < k \<Longrightarrow> b < estimate_tokens (drop i t)) \<Longrightarrow> k \<le> length t \<Longrightarrow>
    longest_suffix b t = drop k t"
proof (induction t arbitrary: k)
  case (Cons c cs)
  show ?case
  proof (cases k)
    case 0
    then show ?thesis
      using Cons.prems(1) by simp
  next
    case (Suc j)
    have "b < estimate_tokens (drop i cs)" if "i < j" for i
      using Cons.prems(2) [of "Suc i"] that Suc by simp
    then have "longest_suffix b cs = drop j cs"
      using Cons.prems Suc by (intro Cons.IH) auto
    then show ?thesis
      using Suc Cons.prems(2) [of 0] by simp
  qed
qed simp

lemma longest_suffix_empty: "b \<le> 0 \<Longrightarrow> longest_suffix b t = []"
proof (induction t)
  case (Cons c cs)
  then show ?case
    using estimate_pos [of "c # cs"] by simp
qed simp

text \<open>
  C23. The bisection of the overlap finds what trying every start would: the longest suffix of the chunk
  whose estimate stays within the overlap budget, stripped.
\<close>

theorem suffix_search_exact:
  "suffix_for_budget t token_budget = ustrip (longest_suffix token_budget t)"
proof (cases "token_budget \<le> 0")
  case True
  then show ?thesis
    by (simp add: suffix_for_budget_def longest_suffix_empty)
next
  case False
  let ?P = "\<lambda>k. \<not> token_budget < estimate_tokens (drop k t)"
  let ?k = "bisect_first ?P 0 (length t)"
  have mono: "?P j" if "i \<le> j" "?P i" for i j
    using estimate_drop_mono [OF that(1), of t] that(2) by linarith
  have end_ok: "?P (length t)"
    using False by simp
  have first: "?P ?k \<and> (\<forall>i < ?k. \<not> ?P i)"
    by (rule bisect_first_is_first) (use mono end_ok in auto)
  moreover have "?k \<le> length t"
    using first end_ok by (meson linorder_not_le)
  ultimately have "longest_suffix token_budget t = drop ?k t"
    by (intro longest_suffix_drop) auto
  then show ?thesis
    using False by (simp add: suffix_for_budget_def)
qed

lemma longest_suffix_fits: "0 \<le> b \<Longrightarrow> estimate_tokens (longest_suffix b t) \<le> b"
  by (induction t) auto

lemma overlap_fits: "0 \<le> b \<Longrightarrow> estimate_tokens (suffix_for_budget t b) \<le> b"
  using estimate_strip [of "longest_suffix b t"] longest_suffix_fits [of b t]
  by (simp add: suffix_search_exact)


section \<open>Chunks partition the text\<close>

definition valid_policy :: "chunk_policy \<Rightarrow> bool" where
  "valid_policy p \<longleftrightarrow> 1 \<le> cp_min_tokens p \<and> cp_min_tokens p \<le> cp_target_tokens p \<and>
     cp_target_tokens p \<le> cp_max_tokens p \<and>
     0 \<le> cp_semantic_overlap_tokens p \<and> cp_semantic_overlap_tokens p < cp_max_tokens p"

lemma mk_chunk_policy_valid: "mk_chunk_policy a b c d v = Inr p \<Longrightarrow> valid_policy p"
  by (auto simp: mk_chunk_policy_def valid_policy_def split: if_splits)

text \<open>What a unit contributes: itself, or its parts when it is over the limit.\<close>

definition pieces :: "chunk_policy \<Rightarrow> chunk_unit \<Rightarrow> chunk_unit list" where
  "pieces p u = (if cp_max_tokens p < cu_token_count u then split_oversized p u else [u])"

text \<open>The groups of units that become chunks, without the records made from them.\<close>

fun chunk_groups :: "chunk_policy \<Rightarrow> chunk_unit list \<Rightarrow> chunk_unit list \<Rightarrow> chunk_unit list list" where
  "chunk_groups p [] pending = (if pending \<noteq> [] then [pending] else [])"
| "chunk_groups p (u # us) pending =
     (if cp_max_tokens p < cu_token_count u
      then (if pending \<noteq> [] then [pending] else []) @ map (\<lambda>v. [v]) (split_oversized p u) @ chunk_groups p us []
      else if must_flush p u pending then pending # chunk_groups p us [u]
      else chunk_groups p us (pending @ [u]))"

definition number_from :: "(ustr \<Rightarrow> string) \<Rightarrow> nat \<Rightarrow> chunk_unit list list \<Rightarrow> chunk_draft list" where
  "number_from sha256 n gs = map (\<lambda>(i, g). draft_of sha256 (int i) g) (enumerate n gs)"

lemma number_from_simps [simp]:
  "number_from sha256 n [] = []"
  "number_from sha256 n (g # gs) = draft_of sha256 (int n) g # number_from sha256 (Suc n) gs"
  by (simp_all add: number_from_def)

lemma number_from_append [simp]:
  "number_from sha256 n (gs @ hs) = number_from sha256 n gs @ number_from sha256 (n + length gs) hs"
  by (simp add: number_from_def enumerate_append_eq)

lemma length_number_from [simp]: "length (number_from sha256 n gs) = length gs"
  by (simp add: number_from_def)

lemma add_drafts:
  "fold (\<lambda>v. add_draft sha256 [v]) vs drafts =
    drafts @ number_from sha256 (length drafts) (map (\<lambda>v. [v]) vs)"
  by (induction vs arbitrary: drafts) (simp_all add: add_draft_def)

lemma flush_groups:
  "flush sha256 pending drafts =
    drafts @ number_from sha256 (length drafts) (if pending \<noteq> [] then [pending] else [])"
  by (simp add: flush_def add_draft_def)

lemma chunk_loop_groups:
  "chunk_loop sha256 p us drafts pending =
    drafts @ number_from sha256 (length drafts) (chunk_groups p us pending)"
proof (induction p us pending arbitrary: drafts rule: chunk_groups.induct)
  case (2 p u us pending)
  then show ?case
    by (simp add: flush_groups add_drafts add_draft_def)
qed (simp add: flush_groups)

lemma chunk_as_groups: "chunk sha256 p blocks = number_from sha256 0 (chunk_groups p (chunk_units blocks) [])"
  by (simp add: chunk_def chunk_loop_groups)

lemma groups_concat: "concat (chunk_groups p us pending) = pending @ concat (map (pieces p) us)"
  by (induction p us pending rule: chunk_groups.induct) (auto simp: pieces_def concat_map_singleton)

lemma must_flush_pending: "valid_policy p \<Longrightarrow> must_flush p u pending \<Longrightarrow> pending \<noteq> []"
  by (auto simp: must_flush_def valid_policy_def)

lemma groups_nonempty: "valid_policy p \<Longrightarrow> [] \<notin> set (chunk_groups p us pending)"
  by (induction p us pending rule: chunk_groups.induct) (auto dest: must_flush_pending)


section \<open>The token limit\<close>

lemma must_flush_fits:
  assumes "\<not> must_flush p u pending" and "cu_token_count u \<le> cp_max_tokens p"
  shows "estimate_tokens (ujoin blank_line (map cu_text (pending @ [u]))) \<le> cp_max_tokens p"
  using assms by (cases "pending = []") (auto simp: must_flush_def cu_token_count_def Let_def)

lemma groups_fit:
  assumes "g \<in> set (chunk_groups p us pending)"
    and "pending = [] \<or> estimate_tokens (ujoin blank_line (map cu_text pending)) \<le> cp_max_tokens p"
    and "0 \<le> cp_max_tokens p"
  shows "estimate_tokens (ujoin blank_line (map cu_text g)) \<le> cp_max_tokens p \<or>
    (\<exists>u v. u \<in> set us \<and> cp_max_tokens p < cu_token_count u \<and> v \<in> set (split_oversized p u) \<and> g = [v])"
  using assms
proof (induction p us pending rule: chunk_groups.induct)
  case (1 p pending)
  then show ?case
    by (auto split: if_splits)
next
  case (2 p u us pending)
  show ?case
  proof (cases "cp_max_tokens p < cu_token_count u")
    case True
    then show ?thesis
      using 2 by (auto split: if_splits)
  next
    case False
    then have fits: "cu_token_count u \<le> cp_max_tokens p"
      by simp
    show ?thesis
    proof (cases "must_flush p u pending")
      case True
      then show ?thesis
        using 2 False fits by (auto simp: cu_token_count_def)
    next
      case flush: False
      have "estimate_tokens (ujoin blank_line (map cu_text (pending @ [u]))) \<le> cp_max_tokens p"
        by (rule must_flush_fits [OF flush fits])
      then show ?thesis
        using 2 False flush by auto
    qed
  qed
qed

text \<open>
  The parts of an oversized unit: a part that does not fit beside what is already there starts a new
  chunk, after an overlap.
\<close>

lemma pack_parts_fit:
  assumes "c \<in> set (pack_parts p parts chunks current)"
    and "\<And>d. d \<in> set chunks \<Longrightarrow> estimate_tokens d \<le> K" and "estimate_tokens current \<le> K"
    and "cp_max_tokens p \<le> K" and "0 \<le> cp_semantic_overlap_tokens p"
    and "\<And>part. part \<in> set parts \<Longrightarrow>
      cp_semantic_overlap_tokens p + (if 1 < length part then 1 else 0) + estimate_tokens part \<le> K"
  shows "estimate_tokens c \<le> K"
  using assms
proof (induction p parts chunks current rule: pack_parts.induct)
  case (1 p chunks current)
  then show ?case
    using estimate_strip [of current] by (auto split: if_splits intro: order_trans)
next
  case (2 p part parts chunks current)
  let ?sep = "if current \<noteq> [] \<and> 1 < length part then [32] else []"
  let ?cand = "current @ ?sep @ part"
  let ?ov = "suffix_for_budget current (cp_semantic_overlap_tokens p)"
  show ?case
  proof (cases "current \<noteq> [] \<and> cp_max_tokens p < estimate_tokens ?cand")
    case True
    have "estimate_tokens (ustrip (?ov @ ?sep @ part)) \<le> estimate_tokens ?ov + (estimate_tokens ?sep + estimate_tokens part)"
      by (meson add_left_mono estimate_append estimate_strip order_trans)
    also have "\<dots> \<le> cp_semantic_overlap_tokens p + ((if 1 < length part then 1 else 0) + estimate_tokens part)"
      using overlap_fits [OF 2(7), of current] by (auto split: if_splits)
    also have "\<dots> \<le> K"
      using 2(8) [of part] by simp
    finally have new: "estimate_tokens (ustrip (?ov @ ?sep @ part)) \<le> K" .
    show ?thesis
      using True new 2(3-8) estimate_strip [of current]
      by (intro 2(1) [OF refl refl True refl]) (auto simp: Let_def intro: order_trans)
  next
    case False
    have "estimate_tokens ?cand \<le> K"
    proof (cases "current = []")
      case True
      then show ?thesis
        using 2(8) [of part] 2(7) by (auto split: if_splits)
    next
      case nonempty: False
      then show ?thesis
        using False 2(6) by simp
    qed
    then show ?thesis
      using False 2(3-8) by (intro 2(2) [OF refl refl False]) (auto simp: Let_def)
  qed
qed


lemma enumerate_snd_mem: "(i, x) \<in> set (enumerate n xs) \<Longrightarrow> x \<in> set xs"
  by (auto simp: enumerate_eq_zip dest: set_zip_rightD)

lemma split_oversized_texts: "map cu_text (split_oversized p u) = pack_parts p (split_parts (cu_text u)) [] []"
  by (simp add: split_oversized_def comp_def case_prod_unfold)

lemma split_oversized_mem:
  "v \<in> set (split_oversized p u) \<Longrightarrow> cu_text v \<in> set (pack_parts p (split_parts (cu_text u)) [] [])"
  by (simp flip: split_oversized_texts)

text \<open>What splitting relies on: one sentence (then cut into characters), or sentences that leave room for the overlap.\<close>

definition sentences_fit :: "chunk_policy \<Rightarrow> ustr \<Rightarrow> bool" where
  "sentences_fit p t \<longleftrightarrow> length (sentences_of t) = 1 \<or>
     (\<forall>s \<in> set (sentences_of t). cp_semantic_overlap_tokens p + 1 + estimate_tokens s \<le> cp_max_tokens p)"

lemma split_oversized_fits:
  assumes "valid_policy p" and "sentences_fit p (cu_text u)" and "v \<in> set (split_oversized p u)"
  shows "estimate_tokens (cu_text v) \<le> cp_max_tokens p"
proof (rule pack_parts_fit [OF split_oversized_mem [OF assms(3)]])
  fix part
  assume "part \<in> set (split_parts (cu_text u))"
  then show "cp_semantic_overlap_tokens p + (if 1 < length part then 1 else 0) + estimate_tokens part \<le> cp_max_tokens p"
    using assms(1,2) by (auto simp: split_parts_def Let_def sentences_fit_def valid_policy_def split: if_splits)
qed (use assms(1) in \<open>auto simp: valid_policy_def\<close>)

lemma draft_count: "cd_token_count (draft_of sha256 i g) \<le> estimate_tokens (ujoin blank_line (map cu_text g))"
  by (simp add: draft_of_def Let_def estimate_strip)

lemma chunk_memE:
  assumes "d \<in> set (chunk sha256 p blocks)"
  obtains i g where "d = draft_of sha256 i g" "g \<in> set (chunk_groups p (chunk_units blocks) [])"
  using assms by (auto simp: chunk_as_groups number_from_def dest: enumerate_snd_mem)

text \<open>
  C25. No chunk is over the token limit, as long as every block that must be split is a single sentence
  (which is cut into characters) or consists of sentences that leave room for the overlap before them.
\<close>

theorem chunks_within_limit:
  assumes "valid_policy p" and "d \<in> set (chunk sha256 p blocks)"
    and "\<And>u. u \<in> set (chunk_units blocks) \<Longrightarrow> cp_max_tokens p < cu_token_count u \<Longrightarrow> sentences_fit p (cu_text u)"
  shows "cd_token_count d \<le> cp_max_tokens p"
proof -
  obtain i g where d: "d = draft_of sha256 i g" and g: "g \<in> set (chunk_groups p (chunk_units blocks) [])"
    by (rule chunk_memE [OF assms(2)])
  have "0 \<le> cp_max_tokens p"
    using assms(1) by (simp add: valid_policy_def)
  from groups_fit [OF g _ this]
  consider "estimate_tokens (ujoin blank_line (map cu_text g)) \<le> cp_max_tokens p"
    | u v where "u \<in> set (chunk_units blocks)" "cp_max_tokens p < cu_token_count u"
      "v \<in> set (split_oversized p u)" "g = [v]"
    by auto
  then show ?thesis
  proof cases
    case 1
    then show ?thesis
      using draft_count [of sha256 i g] by (simp add: d)
  next
    case 2
    then have "estimate_tokens (cu_text v) \<le> cp_max_tokens p"
      using assms(1,3) split_oversized_fits by blast
    then show ?thesis
      using draft_count [of sha256 i g] 2(4) by (simp add: d)
  qed
qed

section \<open>Nothing is lost in a split\<close>

lemma pack_parts_keep:
  assumes "ustrip s = s" "s \<noteq> []" and "s \<in> set parts \<or> sublist s current \<or> (\<exists>c \<in> set chunks. sublist s c)"
  shows "\<exists>c \<in> set (pack_parts p parts chunks current). sublist s c"
  using assms(3)
proof (induction p parts chunks current rule: pack_parts.induct)
  case (1 p chunks current)
  then show ?case
    using strip_keeps [OF assms(1,2), of current] assms(2) by (auto simp: sublist_Nil_right)
next
  case (2 p part parts chunks current)
  let ?sep = "if current \<noteq> [] \<and> 1 < length part then [32] else []"
  let ?cand = "current @ ?sep @ part"
  let ?new = "ustrip (suffix_for_budget current (cp_semantic_overlap_tokens p) @ ?sep @ part)"
  have part: "sublist part ?cand" "sublist current ?cand"
    by (simp_all del: if_split add: sublist_appendI)
  show ?case
  proof (cases "current \<noteq> [] \<and> cp_max_tokens p < estimate_tokens ?cand")
    case True
    have "s = part \<Longrightarrow> sublist s ?new"
      by (intro strip_keeps [OF assms(1,2)]) (simp del: if_split)
    moreover have "sublist s current \<Longrightarrow> sublist s (ustrip current)"
      by (rule strip_keeps [OF assms(1,2)])
    ultimately have "s \<in> set parts \<or> sublist s ?new \<or> (\<exists>c \<in> set (chunks @ [ustrip current]). sublist s c)"
      using 2(3) by auto
    from 2(1) [OF refl refl True refl this] show ?thesis
      unfolding pack_parts.simps Let_def if_P [OF True] .
  next
    case False
    have "s \<in> set parts \<or> sublist s ?cand \<or> (\<exists>c \<in> set chunks. sublist s c)"
      using 2(3) part by (metis set_ConsD sublist_order.order_trans)
    from 2(2) [OF refl refl False this] show ?thesis
      unfolding pack_parts.simps Let_def if_not_P [OF False] .
  qed
qed

text \<open>
  Splitting an oversized block loses nothing: each of its sentences (each visible character, when it is
  a single sentence) stands whole in one of the chunks made from it.
\<close>

theorem split_keeps_parts:
  assumes "part \<in> set (split_parts (cu_text u))" and "ustrip part = part" and "part \<noteq> []"
  shows "\<exists>v \<in> set (split_oversized p u). sublist part (cu_text v)"
  using pack_parts_keep [OF assms(2,3), of "split_parts (cu_text u)" "[]" "[]" p] assms(1)
  by (simp flip: split_oversized_texts)

section \<open>Samples\<close>

definition sample_policy :: chunk_policy where
  "sample_policy = \<lparr>cp_target_tokens = 4, cp_max_tokens = 7, cp_min_tokens = 1,
     cp_semantic_overlap_tokens = 2, cp_policy_version = utext ''v1''\<rparr>"

definition sample_block :: "int \<Rightarrow> string \<Rightarrow> document_block" where
  "sample_block i s = \<lparr>blk_page_number = 1, blk_order_index = i, blk_block_type = PdfParagraph, blk_text = utext s,
     blk_bounding_box = (0, of_int i, 10, of_int i + 1), blk_page_width = 100, blk_page_height = 100,
     blk_heading_level = None, blk_font_size = 10, blk_bold = False\<rparr>"

definition sample_sha :: "ustr \<Rightarrow> string" where
  "sample_sha t = ''hash''"

lemma valid_sample_policy: "valid_policy sample_policy"
  by (simp add: valid_policy_def sample_policy_def)


definition sample_blocks :: "document_block list" where
  "sample_blocks = [sample_block 0 ''one two three. four five six.'', sample_block 1 ''seven'']"

lemma chunks_within_limit_witness:
  "cd_token_count (hd (chunk sample_sha sample_policy sample_blocks)) \<le> 7"
proof -
  have "hd (chunk sample_sha sample_policy sample_blocks) \<in> set (chunk sample_sha sample_policy sample_blocks)"
    by code_simp
  moreover have "list_all (\<lambda>u. 7 < cu_token_count u \<longrightarrow> sentences_fit sample_policy (cu_text u))
      (chunk_units sample_blocks)"
    by code_simp
  ultimately show ?thesis
    using chunks_within_limit [OF valid_sample_policy, of _ sample_sha sample_blocks]
    by (auto simp: list_all_iff sample_policy_def)
qed

definition sample_unit :: chunk_unit where
  "sample_unit = \<lparr>cu_text = utext ''one two three. four five six.'', cu_page_number = 1, cu_block_start = 0,
     cu_block_end = 0, cu_heading_path = [], cu_overlap_tokens = 0\<rparr>"

lemma split_keeps_parts_witness:
  "\<exists>v \<in> set (split_oversized sample_policy sample_unit). sublist (utext ''four five six.'') (cu_text v)"
  by (rule split_keeps_parts) code_simp+

text \<open>
  The limit is not hard: a block of several sentences is only cut between sentences, so a sentence
  that is over the limit by itself becomes a chunk over the limit.
\<close>

theorem long_sentence_exceeds_limit:
  "cp_max_tokens sample_policy <
    cd_token_count (chunk sample_sha sample_policy [sample_block 0 ''Short. This sentence alone is far over the limit''] ! 1)"
  by code_simp

end
