(* ===== verification/Ranking.thy ===== *)
theory Ranking
  imports UText "HOL-Library.Sublist"
begin

text \<open>
  The ranking half of retrieval (\<open>agent/rag/retrieval\<close> and \<open>agent/rag/reranking\<close>): requests, candidates,
  keyword terms, the two routes and their fusion, document coverage, the ranking stages and the checks
  between them.  A UUID is its 128-bit number: the canonical texts the code compares have one length, so
  they are ordered as the numbers.  Scores are rationals; rounding is not modelled.
\<close>

section \<open>Contracts\<close>

type_synonym rid = int

text \<open>Values of a source locator; only heading paths are looked into.\<close>

datatype locator_value = LText ustr | LSeq "locator_value list" | LOther int

type_synonym locator = "(string \<times> locator_value) list"

record candidate_trace =
  ct_sources :: "string list"
  ct_semantic_rank :: "int option"
  ct_semantic_score :: "rat option"
  ct_keyword_rank :: "int option"
  ct_keyword_score :: "rat option"
  ct_rrf_score :: "rat option"
  ct_feature_score :: "rat option"
  ct_cross_encoder_score :: "rat option"
  ct_fused_score :: "rat option"
  ct_mmr_score :: "rat option"

record candidate =
  rc_chunk_id :: rid
  rc_document_id :: rid
  rc_workspace_id :: rid
  rc_source_artifact_id :: rid
  rc_document_title :: ustr
  rc_ordinal :: int
  rc_content :: ustr
  rc_content_hash :: string
  rc_token_count :: int
  rc_source_locator :: locator
  rc_score :: rat
  rc_trace :: candidate_trace

record rag_query =
  rq_query :: ustr
  rq_top_k :: int
  rq_candidate_limit :: int
  rq_feature_limit :: int
  rq_cross_encoder_limit :: int
  rq_diversity_limit :: int
  rq_token_budget :: int
  rq_document_ids :: "rid list"
  rq_min_score :: rat
  rq_neighbor_window :: int
  rq_max_chunks_per_document :: int

text \<open>\<open>__post_init__\<close>\<close>

definition check_query :: "rag_query \<Rightarrow> rag_query res" where
  "check_query q =
     rbind (checks [
       need (ustrip (rq_query q) \<noteq> [] \<and> length (ustrip (rq_query q)) \<le> 2000),
       need (1 \<le> rq_top_k q \<and> rq_top_k q \<le> 20),
       need (rq_top_k q \<le> rq_candidate_limit q \<and> rq_candidate_limit q \<le> 100),
       need (list_all (\<lambda>v. 1 \<le> v \<and> v \<le> 100) [rq_feature_limit q, rq_cross_encoder_limit q, rq_diversity_limit q]),
       need (256 \<le> rq_token_budget q \<and> rq_token_budget q \<le> 16000),
       need (length (rq_document_ids q) \<le> 50 \<and> distinct (rq_document_ids q)),
       need (0 \<le> rq_min_score q \<and> rq_min_score q \<le> 1),
       need (0 \<le> rq_neighbor_window q \<and> rq_neighbor_window q \<le> 2),
       need (1 \<le> rq_max_chunks_per_document q \<and> rq_max_chunks_per_document q \<le> 10)])
       (\<lambda>_. Inr q)"

definition effective_feature_limit :: "rag_query \<Rightarrow> int" where
  "effective_feature_limit q = max (rq_top_k q) (min (rq_feature_limit q) (rq_candidate_limit q))"

definition effective_cross_encoder_limit :: "rag_query \<Rightarrow> int" where
  "effective_cross_encoder_limit q = max (rq_top_k q) (min (rq_cross_encoder_limit q) (effective_feature_limit q))"

definition effective_diversity_limit :: "rag_query \<Rightarrow> int" where
  "effective_diversity_limit q = max (rq_top_k q) (min (rq_diversity_limit q) (effective_cross_encoder_limit q))"

text \<open>One stage's report; its constructor refuses blank names, negative counts and more output than input.\<close>

datatype stage_status = Applied | Degraded | Skipped

record rerank_step =
  rs_stage_id :: string
  rs_status :: stage_status
  rs_provider :: string
  rs_model :: string
  rs_input_count :: int
  rs_output_count :: int
  rs_latency_ms :: int
  rs_failure_code :: string

definition mk_step :: "rerank_step \<Rightarrow> rerank_step res" where
  "mk_step s =
     rbind (checks [
       need (py_strip (rs_stage_id s) \<noteq> [] \<and> py_strip (rs_provider s) \<noteq> []),
       need (0 \<le> Min {rs_input_count s, rs_output_count s, rs_latency_ms s}),
       need (rs_output_count s \<le> rs_input_count s)])
       (\<lambda>_. Inr s)"

text \<open>
  What the stages take from their environment: \<open>unicodedata.normalize\<close> with \<open>casefold\<close>, \<open>casefold\<close>
  alone, \<open>str\<close> of a locator value that is not a text, and the elapsed milliseconds of a stage, which
  the code keeps from being negative.
\<close>

record rank_host =
  rh_nfkc_casefold :: "ustr \<Rightarrow> ustr"
  rh_casefold :: "ustr \<Rightarrow> ustr"
  rh_str :: "locator_value \<Rightarrow> ustr"
  rh_elapsed :: "string \<Rightarrow> int"

definition elapsed_ms_of :: "rank_host \<Rightarrow> string \<Rightarrow> int" where
  "elapsed_ms_of h stage = max 0 (rh_elapsed h stage)"

type_synonym rerank_result = "(candidate list \<times> rerank_step list) res"

text \<open>A stage maps the original query, the candidates and the request to a result.\<close>

type_synonym stage = "ustr \<Rightarrow> candidate list \<Rightarrow> rag_query \<Rightarrow> rerank_result"

definition stage_result :: "rank_host \<Rightarrow> string \<Rightarrow> string \<Rightarrow> string \<Rightarrow> stage_status \<Rightarrow> string \<Rightarrow>
    candidate list \<Rightarrow> candidate list \<Rightarrow> rerank_result" where
  "stage_result h stage_id provider model status failure_code candidates selected =
     rbind (mk_step \<lparr>rs_stage_id = stage_id, rs_status = status, rs_provider = provider, rs_model = model,
         rs_input_count = int (length candidates), rs_output_count = int (length selected),
         rs_latency_ms = elapsed_ms_of h stage_id, rs_failure_code = failure_code\<rparr>)
       (\<lambda>s. Inr (selected, [s]))"

section \<open>Keyword terms\<close>

definition ascii_alnum :: "int \<Rightarrow> bool" where
  "ascii_alnum c \<longleftrightarrow> (97 \<le> c \<and> c \<le> 122) \<or> (48 \<le> c \<and> c \<le> 57)"

definition term_punct :: "ustr" where
  "term_punct = [95, 43, 46, 35, 47, 45]"

definition term_char :: "int \<Rightarrow> bool" where
  "term_char c \<longleftrightarrow> ascii_alnum c \<or> c \<in> set term_punct"

text \<open>Length of the match of \<open>_TOKEN\<close> at a position, 0 for none; the repetitions are greedy.\<close>

fun keyword_len :: "ustr \<Rightarrow> nat" where
  "keyword_len [] = 0"
| "keyword_len (c # cs) =
     (if ascii_alnum c
      then let n = min 63 (length (takeWhile term_char cs)) in if n = 0 then 0 else n + 1
      else let n = min 48 (length (takeWhile is_cjk (c # cs))) in if n < 2 then 0 else n)"

text \<open>\<open>finditer\<close>: matches from left to right that do not overlap.\<close>

function find_tokens :: "(ustr \<Rightarrow> nat) \<Rightarrow> ustr \<Rightarrow> ustr list" where
  "find_tokens match_len [] = []"
| "find_tokens match_len (c # cs) =
     (let n = match_len (c # cs) in
      if n = 0 then find_tokens match_len cs
      else take n (c # cs) # find_tokens match_len (drop n (c # cs)))"
  by pat_completeness auto
termination
  by (relation "measure (\<lambda>(match_len, t). length t)") auto

definition strip_chars :: "ustr \<Rightarrow> ustr \<Rightarrow> ustr" where
  "strip_chars cs t = rev (dropWhile (\<lambda>c. c \<in> set cs) (rev (dropWhile (\<lambda>c. c \<in> set cs) t)))"

text \<open>The four-character windows of a long Chinese run, at offsets 0, 2, ...\<close>

definition windows_of :: "ustr \<Rightarrow> ustr list" where
  "windows_of t = map (\<lambda>i. take 4 (drop (2 * i) t)) [0 ..< (length t - 3 + 1) div 2]"

definition term_candidates :: "ustr \<Rightarrow> ustr list" where
  "term_candidates normalized =
     concat (map (\<lambda>raw. let token = strip_chars term_punct raw in
        if length token < 2 then []
        else token # (if list_all is_cjk token \<and> 8 < length token then windows_of token else []))
       (find_tokens keyword_len normalized))"

definition MAX_TERMS :: nat where
  "MAX_TERMS = 16"

definition build_keyword_terms :: "rank_host \<Rightarrow> ustr \<Rightarrow> ustr list" where
  "build_keyword_terms h query =
     take MAX_TERMS (remdups (sort_key (\<lambda>t. (- int (length t), t)) (term_candidates (rh_nfkc_casefold h query))))"

section \<open>Document coverage\<close>

text \<open>The best candidate of every requested document.\<close>

fun coverage_loop :: "candidate list \<Rightarrow> rid list \<Rightarrow> candidate list \<Rightarrow> candidate list" where
  "coverage_loop candidates [] selected = selected"
| "coverage_loop candidates (d # ds) selected =
     (case find (\<lambda>c. rc_document_id c = d \<and> rc_chunk_id c \<notin> set (map rc_chunk_id selected)) candidates of
        None \<Rightarrow> coverage_loop candidates ds selected
      | Some c \<Rightarrow> coverage_loop candidates ds (selected @ [c]))"

definition document_coverage_candidates :: "candidate list \<Rightarrow> rid list \<Rightarrow> candidate list" where
  "document_coverage_candidates candidates document_ids = coverage_loop candidates document_ids []"

fun fill_loop :: "int \<Rightarrow> candidate list \<Rightarrow> candidate list \<Rightarrow> candidate list" where
  "fill_loop limit [] selected = selected"
| "fill_loop limit (c # cs) selected =
     (if limit \<le> int (length selected) then selected
      else if rc_chunk_id c \<in> set (map rc_chunk_id selected) then fill_loop limit cs selected
      else fill_loop limit cs (selected @ [c]))"

definition select_with_document_coverage :: "candidate list \<Rightarrow> int \<Rightarrow> rid list \<Rightarrow> candidate list" where
  "select_with_document_coverage candidates limit document_ids =
     (if limit \<le> 0 then []
      else fill_loop limit candidates (take (nat limit) (document_coverage_candidates candidates document_ids)))"

section \<open>The two routes and their fusion\<close>

text \<open>The best score of each chunk over the queries of the plan, in the order of the dictionary \<open>by_chunk\<close>.\<close>

fun keep_best :: "candidate \<Rightarrow> candidate list \<Rightarrow> candidate list" where
  "keep_best c [] = [c]"
| "keep_best c (d # ds) =
     (if rc_chunk_id d = rc_chunk_id c then (if rc_score d < rc_score c then c else d) # ds
      else d # keep_best c ds)"

definition by_score :: "candidate \<Rightarrow> rat \<times> rid" where
  "by_score c = (- rc_score c, rc_chunk_id c)"

text \<open>
  \<open>search v document_ids limit\<close> is the repository's search for one prepared query: a vector for the
  semantic route, the keyword terms for the other, which skips queries without terms.
\<close>

definition semantic_retrieve :: "('v \<Rightarrow> rid list \<Rightarrow> int \<Rightarrow> candidate list) \<Rightarrow> 'v list \<Rightarrow> rag_query \<Rightarrow> candidate list" where
  "semantic_retrieve search vectors request =
     sort_key by_score (fold keep_best
       (concat (map (\<lambda>v. search v (rq_document_ids request) (rq_candidate_limit request)) vectors)) [])"

definition keyword_retrieve :: "(ustr list \<Rightarrow> rid list \<Rightarrow> int \<Rightarrow> candidate list) \<Rightarrow> ustr list list \<Rightarrow> rag_query \<Rightarrow> candidate list" where
  "keyword_retrieve search terms_by_query request =
     sort_key by_score (fold keep_best
       (concat (map (\<lambda>terms. if terms = [] then []
          else search terms (rq_document_ids request) (rq_candidate_limit request)) terms_by_query)) [])"

text \<open>Reciprocal rank fusion.  Per chunk: the first record, the sum of its contributions, its rank and score by route.\<close>

record rrf_entry =
  re_record :: candidate
  re_contribution :: rat
  re_ranks :: "(string \<times> int \<times> rat) list"

definition set_rank :: "string \<Rightarrow> int \<Rightarrow> rat \<Rightarrow> (string \<times> int \<times> rat) list \<Rightarrow> (string \<times> int \<times> rat) list" where
  "set_rank source rank score ranks = (source, rank, score) # filter (\<lambda>(s, _). s \<noteq> source) ranks"

fun rrf_add :: "int \<Rightarrow> string \<Rightarrow> int \<Rightarrow> candidate \<Rightarrow> rrf_entry list \<Rightarrow> rrf_entry list" where
  "rrf_add rank_constant source rank c [] =
     [\<lparr>re_record = c, re_contribution = 0 + 1 / of_int (rank_constant + rank),
       re_ranks = set_rank source rank (rc_score c) []\<rparr>]"
| "rrf_add rank_constant source rank c (e # es) =
     (if rc_chunk_id (re_record e) = rc_chunk_id c
      then e\<lparr>re_contribution := re_contribution e + 1 / of_int (rank_constant + rank),
             re_ranks := set_rank source rank (rc_score c) (re_ranks e)\<rparr> # es
      else e # rrf_add rank_constant source rank c es)"

fun rrf_route :: "int \<Rightarrow> string \<Rightarrow> int \<Rightarrow> candidate list \<Rightarrow> rrf_entry list \<Rightarrow> rrf_entry list" where
  "rrf_route rank_constant source rank [] es = es"
| "rrf_route rank_constant source rank (c # cs) es =
     rrf_route rank_constant source (rank + 1) cs (rrf_add rank_constant source rank c es)"

definition fused_candidate :: "rat \<Rightarrow> rrf_entry \<Rightarrow> candidate" where
  "fused_candidate maximum e =
     (let score = min 1 (re_contribution e / maximum); ranks = map_of (re_ranks e) in
      (re_record e)\<lparr>rc_score := score,
        rc_trace := \<lparr>ct_sources = filter (\<lambda>s. ranks s \<noteq> None) [''semantic'', ''keyword''],
          ct_semantic_rank = map_option fst (ranks ''semantic''), ct_semantic_score = map_option snd (ranks ''semantic''),
          ct_keyword_rank = map_option fst (ranks ''keyword''), ct_keyword_score = map_option snd (ranks ''keyword''),
          ct_rrf_score = Some score, ct_feature_score = None, ct_cross_encoder_score = None,
          ct_fused_score = None, ct_mmr_score = None\<rparr>\<rparr>)"

definition reciprocal_rank_fuse :: "(string \<times> candidate list) list \<Rightarrow> int \<Rightarrow> candidate list res" where
  "reciprocal_rank_fuse rankings rank_constant =
     rbind (need (1 \<le> rank_constant)) (\<lambda>_.
     if rankings = [] then Inr []
     else let maximum = of_int (int (length rankings)) / of_int (rank_constant + 1);
              entries = fold (\<lambda>(source, cs). rrf_route rank_constant source 1 cs) rankings []
          in Inr (sort_key by_score (map (fused_candidate maximum) entries)))"

definition deduplicate_candidates :: "candidate list \<Rightarrow> candidate list" where
  "deduplicate_candidates cs = rev (fold (\<lambda>c seen. if rc_chunk_id c \<in> set (map rc_chunk_id seen) then seen else c # seen) cs [])"

definition relevant :: "rag_query \<Rightarrow> candidate list \<Rightarrow> candidate list" where
  "relevant request cs = filter (\<lambda>c. rq_min_score request \<le> rc_score c) cs"

text \<open>A requested document that neither route covers is searched for by itself.\<close>

fun cover_documents :: "(rag_query \<Rightarrow> candidate list) \<Rightarrow> (rag_query \<Rightarrow> candidate list) \<Rightarrow> rag_query \<Rightarrow> rid set \<Rightarrow>
    rid list \<Rightarrow> candidate list \<Rightarrow> candidate list \<Rightarrow> candidate list \<times> candidate list" where
  "cover_documents sem_route key_route request covered [] semantic keyword = (semantic, keyword)"
| "cover_documents sem_route key_route request covered (d # ds) semantic keyword =
     (if d \<in> covered then cover_documents sem_route key_route request covered ds semantic keyword
      else let scoped = request\<lparr>rq_document_ids := [d]\<rparr>
           in cover_documents sem_route key_route request covered ds
                (semantic @ relevant request (sem_route scoped)) (keyword @ relevant request (key_route scoped)))"

definition hybrid_retrieve :: "(rag_query \<Rightarrow> candidate list) \<Rightarrow> (rag_query \<Rightarrow> candidate list) \<Rightarrow> rag_query \<Rightarrow>
    candidate list res" where
  "hybrid_retrieve sem_route key_route request =
     (let semantic = relevant request (sem_route request); keyword = relevant request (key_route request);
          covered = rc_document_id ` set (semantic @ keyword);
          (semantic, keyword) = cover_documents sem_route key_route request covered (rq_document_ids request) semantic keyword
      in rbind (reciprocal_rank_fuse [(''semantic'', deduplicate_candidates semantic),
                  (''keyword'', deduplicate_candidates keyword)] 60) (\<lambda>fused.
         Inr (select_with_document_coverage fused (rq_candidate_limit request) (rq_document_ids request))))"

end
