(* ===== verification/Stages.thy ===== *)
theory Stages
  imports Ranking
begin

text \<open>
  The ranking stages of \<open>agent/rag/reranking\<close>, their composition and the checks of
  \<open>agent/rag/retrieval/pipeline.py\<close> around it.  The scoring provider is a parameter that returns scores
  or fails, with the code of a \<open>RerankerProviderError\<close> or without one.
\<close>

section \<open>Hard filter\<close>

definition filter_key :: "rag_query \<Rightarrow> candidate \<Rightarrow> rid option \<times> string" where
  "filter_key request c =
     (if rq_document_ids request \<noteq> [] then (Some (rc_document_id c), rc_content_hash c) else (None, rc_content_hash c))"

fun hard_loop :: "rag_query \<Rightarrow> candidate list \<Rightarrow> (rid option \<times> string) list \<Rightarrow> candidate list \<Rightarrow> candidate list" where
  "hard_loop request [] seen_hashes selected = selected"
| "hard_loop request (c # cs) seen_hashes selected =
     (if rc_score c < rq_min_score request then hard_loop request cs seen_hashes selected
      else if ustrip (rc_content c) = [] \<or> filter_key request c \<in> set seen_hashes
      then hard_loop request cs seen_hashes selected
      else if rq_candidate_limit request \<le> int (length (selected @ [c])) then selected @ [c]
      else hard_loop request cs (filter_key request c # seen_hashes) (selected @ [c]))"

definition hard_filter :: "rank_host \<Rightarrow> stage" where
  "hard_filter h plan_query candidates request =
     stage_result h ''hard-filter-v1'' ''deterministic-filter'' ''hard-filter-v1'' Applied [] candidates
       (hard_loop request candidates [] [])"

section \<open>Feature ranking\<close>

definition normalize_text :: "rank_host \<Rightarrow> ustr \<Rightarrow> ustr" where
  "normalize_text h t = ustrip (rh_nfkc_casefold h t)"

definition locator_str :: "rank_host \<Rightarrow> locator_value \<Rightarrow> ustr" where
  "locator_str h v = (case v of LText t \<Rightarrow> t | _ \<Rightarrow> rh_str h v)"

definition heading_values :: "rank_host \<Rightarrow> locator \<Rightarrow> ustr list" where
  "heading_values h l =
     (case map_of l ''heading_path'' of Some (LSeq vs) \<Rightarrow>
        filter (\<lambda>t. ustrip t \<noteq> []) (map (locator_str h) vs) | _ \<Rightarrow> [])"

definition heading_text :: "rank_host \<Rightarrow> locator \<Rightarrow> ustr" where
  "heading_text h l = ujoin [32] (heading_values h l)"

definition term_coverage :: "ustr list \<Rightarrow> ustr \<Rightarrow> rat" where
  "term_coverage terms t =
     (if terms = [] \<or> t = [] then 0
      else of_int (int (length (filter (\<lambda>term. sublist term t) terms))) / of_int (int (length terms)))"

definition content_quality :: "int \<Rightarrow> ustr \<Rightarrow> rat" where
  "content_quality token_count content =
     (if content = [] then 0 else if token_count < 8 then 1/4 else if token_count < 24 then 7/10 else 1)"

definition rank_score :: "int \<Rightarrow> int \<Rightarrow> rat" where
  "rank_score rank count = (if count \<le> 1 then 1 else 1 - of_int (rank - 1) / of_int (count - 1))"

definition feature_score :: "rank_host \<Rightarrow> ustr \<Rightarrow> ustr list \<Rightarrow> int \<Rightarrow> int \<Rightarrow> candidate \<Rightarrow> rat" where
  "feature_score h query terms count rank c =
     (let content = normalize_text h (rc_content c); title = normalize_text h (rc_document_title c);
          heading = normalize_text h (heading_text h (rc_source_locator c));
          whole = title @ [10] @ heading @ [10] @ content;
          exact_phrase = (if 2 \<le> length query \<and> sublist query whole then 1 else 0)
      in 30/100 * rank_score rank count + 25/100 * term_coverage terms whole + 15/100 * term_coverage terms title
         + 15/100 * term_coverage terms heading + 10/100 * exact_phrase
         + 5/100 * content_quality (rc_token_count c) content)"

definition with_feature_score :: "rat \<Rightarrow> candidate \<Rightarrow> candidate" where
  "with_feature_score s c = c\<lparr>rc_score := s, rc_trace := (rc_trace c)\<lparr>ct_feature_score := Some s\<rparr>\<rparr>"

definition feature_scored :: "rank_host \<Rightarrow> ustr \<Rightarrow> candidate list \<Rightarrow> candidate list" where
  "feature_scored h plan_query candidates =
     (let query = normalize_text h plan_query; terms = build_keyword_terms h query
      in map (\<lambda>(rank, c). with_feature_score
           (feature_score h query terms (int (length candidates)) (int rank) c) c) (enumerate 1 candidates))"

definition feature_reranker :: "rank_host \<Rightarrow> stage" where
  "feature_reranker h plan_query candidates request =
     (if candidates = []
      then stage_result h ''feature-rank-v1'' ''deterministic-feature'' ''feature-rank-v1'' Skipped [] [] []
      else let selected = select_with_document_coverage (sort_key by_score (feature_scored h plan_query candidates))
                 (effective_feature_limit request) (rq_document_ids request)
           in stage_result h ''feature-rank-v1'' ''deterministic-feature'' ''feature-rank-v1'' Applied [] candidates selected)"

section \<open>Semantic ranking\<close>

record semantic_config =
  sc_semantic_weight :: rat
  sc_retrieval_weight :: rat
  sc_max_candidates :: int
  sc_max_content_chars :: int
  sc_max_heading_chars :: int
  sc_fallback_on_error :: bool

definition check_semantic_config :: "semantic_config \<Rightarrow> semantic_config res" where
  "check_semantic_config g =
     rbind (checks [
       need (0 \<le> sc_semantic_weight g \<and> 0 \<le> sc_retrieval_weight g),
       need (0 < sc_semantic_weight g + sc_retrieval_weight g),
       need (1 \<le> sc_max_candidates g \<and> sc_max_candidates g \<le> 100),
       need (256 \<le> sc_max_content_chars g \<and> sc_max_content_chars g \<le> 20000),
       need (0 \<le> sc_max_heading_chars g \<and> sc_max_heading_chars g \<le> 2000)])
       (\<lambda>_. Inr g)"

record rerank_document =
  rd_chunk_id :: rid
  rd_document_title :: ustr
  rd_heading_path :: "ustr list"
  rd_content :: ustr

definition mk_rerank_document :: "rerank_document \<Rightarrow> rerank_document res" where
  "mk_rerank_document d =
     rbind (need (ustrip (rd_document_title d) \<noteq> [])) (\<lambda>_.
     rbind (need (ustrip (rd_content d) \<noteq> [])) (\<lambda>_. Inr d))"

fun bounded_headings :: "int \<Rightarrow> ustr list \<Rightarrow> ustr list" where
  "bounded_headings heading_budget [] = []"
| "bounded_headings heading_budget (t # ts) =
     (if heading_budget \<le> 0 then []
      else let bounded = take (nat heading_budget) t
           in bounded # bounded_headings (heading_budget - int (length bounded)) ts)"

definition ellipsis_line :: ustr where
  "ellipsis_line = [10, 0x2026, 10]"

definition slice :: "int \<Rightarrow> int \<Rightarrow> ustr \<Rightarrow> ustr" where
  "slice a b t = take (nat (b - a)) (drop (nat a) t)"

definition compact_content :: "rank_host \<Rightarrow> ustr \<Rightarrow> ustr \<Rightarrow> int \<Rightarrow> ustr" where
  "compact_content h content query max_chars =
     (let normalized = ustrip content in
      if int (length normalized) \<le> max_chars then normalized
      else let usable = max_chars - int (length ellipsis_line) * 2;
               head_budget = usable div 3; tail_budget = usable div 4;
               middle_budget = usable - head_budget - tail_budget;
               query_position = (if ustrip query \<noteq> []
                 then ufind (rh_casefold h (ustrip query)) (rh_casefold h normalized) else -1);
               middle_start = (if query_position < 0
                 then max head_budget ((int (length normalized) - middle_budget) div 2)
                 else max head_budget (query_position - middle_budget div 2));
               middle_start = min middle_start (int (length normalized) - tail_budget - middle_budget)
           in urstrip (slice 0 head_budget normalized) @ ellipsis_line
              @ ustrip (slice middle_start (middle_start + middle_budget) normalized) @ ellipsis_line
              @ ulstrip (drop (length normalized - nat tail_budget) normalized))"

definition rerank_document_of :: "rank_host \<Rightarrow> semantic_config \<Rightarrow> ustr \<Rightarrow> candidate \<Rightarrow> rerank_document res" where
  "rerank_document_of h g query c =
     mk_rerank_document \<lparr>rd_chunk_id = rc_chunk_id c, rd_document_title = rc_document_title c,
       rd_heading_path = bounded_headings (sc_max_heading_chars g)
         (map ustrip (heading_values h (rc_source_locator c))),
       rd_content = compact_content h (rc_content c) query (sc_max_content_chars g)\<rparr>"

type_synonym provider = "ustr \<Rightarrow> rerank_document list \<Rightarrow> string option + (rid \<times> rat) list"

definition validate_scores :: "rerank_document list \<Rightarrow> (rid \<times> rat) list \<Rightarrow> string option + (rid \<times> rat) list" where
  "validate_scores documents scores =
     (if \<not> distinct (map fst scores) \<or> set (map fst scores) \<noteq> set (map rd_chunk_id documents)
      then Inl (Some ''RERANKER_PROVIDER_CONTRACT_VIOLATION'') else Inr scores)"

definition provider_scores :: "provider \<Rightarrow> ustr \<Rightarrow> rerank_document list \<Rightarrow> string option + (rid \<times> rat) list" where
  "provider_scores provider query documents =
     (case provider query documents of Inl e \<Rightarrow> Inl e | Inr scores \<Rightarrow> validate_scores documents scores)"

definition the_score :: "(rid \<times> rat) list \<Rightarrow> candidate \<Rightarrow> rat" where
  "the_score scores c = (case map_of scores (rc_chunk_id c) of Some s \<Rightarrow> s | None \<Rightarrow> 0)"

text \<open>Position of each candidate in the order of the provider's scores, ties in retrieval order.\<close>

definition semantic_ranks :: "(rid \<times> rat) list \<Rightarrow> candidate list \<Rightarrow> (rid \<times> int) list" where
  "semantic_ranks scores candidates =
     map (\<lambda>(rank, (i, c)). (rc_chunk_id c, int rank))
       (enumerate 1 (sort_key (\<lambda>(i, c). (- the_score scores c, i, rc_chunk_id c)) (enumerate 0 candidates)))"

definition rank_of :: "(rid \<times> int) list \<Rightarrow> candidate \<Rightarrow> int" where
  "rank_of ranks c = (case map_of (rev ranks) (rc_chunk_id c) of Some r \<Rightarrow> r | None \<Rightarrow> 0)"

definition with_semantic_score :: "rat \<Rightarrow> rat \<Rightarrow> candidate \<Rightarrow> candidate" where
  "with_semantic_score cross fused c =
     c\<lparr>rc_score := fused, rc_trace := (rc_trace c)\<lparr>ct_cross_encoder_score := Some cross, ct_fused_score := Some fused\<rparr>\<rparr>"

definition blended :: "semantic_config \<Rightarrow> (rid \<times> rat) list \<Rightarrow> candidate list \<Rightarrow> candidate list" where
  "blended g scores candidates =
     (let ranks = semantic_ranks scores candidates; count = int (length candidates);
          total = sc_semantic_weight g + sc_retrieval_weight g
      in sort_key (\<lambda>c. (- rc_score c, rank_of ranks c, rc_chunk_id c))
           (map (\<lambda>(retrieval_rank, c). with_semantic_score (the_score scores c)
              (sc_semantic_weight g / total * rank_score (rank_of ranks c) count
               + sc_retrieval_weight g / total * rank_score (int retrieval_rank) count) c)
             (enumerate 1 candidates)))"

definition semantic_reranker :: "rank_host \<Rightarrow> semantic_config \<Rightarrow> provider \<Rightarrow> stage" where
  "semantic_reranker h g provider plan_query candidates request =
     (let result = stage_result h ''cross-encoder-rank-fusion-v1'' ''reranker'' ''unknown'' in
      if candidates = [] then result Skipped [] [] []
      else if sc_max_candidates g < int (length candidates) then Inl ValueError
      else rbind (mapR (rerank_document_of h g plan_query) candidates) (\<lambda>documents.
        case provider_scores provider plan_query documents of
          Inl failure \<Rightarrow>
            if \<not> sc_fallback_on_error g then Inl RuntimeError
            else result Degraded (case failure of Some code \<Rightarrow> code | None \<Rightarrow> ''RERANKER_PROVIDER_FAILED'') candidates candidates
        | Inr scores \<Rightarrow>
            result Applied [] candidates
              (select_with_document_coverage (blended g scores candidates) (effective_cross_encoder_limit request)
                 (rq_document_ids request))))"

section \<open>Diversity\<close>

definition check_mmr_weight :: "rat \<Rightarrow> rat res" where
  "check_mmr_weight w = rbind (need (1/2 \<le> w \<and> w \<le> 1)) (\<lambda>_. Inr w)"

fun diversity_len :: "ustr \<Rightarrow> nat" where
  "diversity_len [] = 0"
| "diversity_len (c # cs) =
     (if term_char c
      then let n = min 64 (length (takeWhile term_char (c # cs))) in if n < 2 then 0 else n
      else let n = min 8 (length (takeWhile is_cjk (c # cs))) in if n < 2 then 0 else n)"

definition diversity_tokens :: "rank_host \<Rightarrow> ustr \<Rightarrow> ustr set" where
  "diversity_tokens h content = set (find_tokens diversity_len (rh_nfkc_casefold h content))"

definition jaccard :: "ustr set \<Rightarrow> ustr set \<Rightarrow> rat" where
  "jaccard left right =
     (if left = {} \<or> right = {} then 0
      else of_int (int (card (left \<inter> right))) / of_int (int (card (left \<union> right))))"

definition mmr_score :: "rank_host \<Rightarrow> rat \<Rightarrow> candidate list \<Rightarrow> candidate \<Rightarrow> rat" where
  "mmr_score h weight selected c =
     (if selected = [] then rc_score c
      else let tokens = diversity_tokens h \<circ> rc_content
           in weight * rc_score c - (1 - weight) * Max ((\<lambda>s. jaccard (tokens c) (tokens s)) ` set selected))"

definition with_mmr_score :: "rat \<Rightarrow> candidate \<Rightarrow> candidate" where
  "with_mmr_score s c = c\<lparr>rc_trace := (rc_trace c)\<lparr>ct_mmr_score := Some s\<rparr>\<rparr>"

text \<open>\<open>per_document\<close> counts the selected candidates of a document.\<close>

definition per_document :: "candidate list \<Rightarrow> rid \<Rightarrow> int" where
  "per_document selected d = int (length (filter (\<lambda>c. rc_document_id c = d) selected))"

fun mmr_cover :: "rank_host \<Rightarrow> rat \<Rightarrow> int \<Rightarrow> candidate list \<Rightarrow> candidate list \<times> candidate list \<Rightarrow>
    candidate list \<times> candidate list" where
  "mmr_cover h weight limit [] (selected, remaining) = (selected, remaining)"
| "mmr_cover h weight limit (c # cs) (selected, remaining) =
     (if limit \<le> int (length selected) then (selected, remaining)
      else mmr_cover h weight limit cs
             (selected @ [with_mmr_score (mmr_score h weight selected c) c], remove1 c remaining))"

text \<open>Python's \<open>max\<close> with a key returns the first of the greatest.\<close>

fun best_by :: "('a \<Rightarrow> 'k :: linorder) \<Rightarrow> 'a \<Rightarrow> 'a list \<Rightarrow> 'a" where
  "best_by key best [] = best"
| "best_by key best (x # xs) = best_by key (if key best < key x then x else best) xs"

lemma best_by_mem: "best_by key b xs \<in> insert b (set xs)"
proof (induction key b xs rule: best_by.induct)
  case (2 key best x xs)
  then show ?case
    by (auto split: if_splits)
qed simp

definition eligible :: "rag_query \<Rightarrow> candidate list \<Rightarrow> candidate list \<Rightarrow> candidate list" where
  "eligible request selected remaining =
     filter (\<lambda>c. per_document selected (rc_document_id c) < rq_max_chunks_per_document request) remaining"

lemma eligible_best:
  assumes "eligible request selected remaining = e # es"
  shows "best_by key e es \<in> set remaining"
    "per_document selected (rc_document_id (best_by key e es)) < rq_max_chunks_per_document request"
proof -
  have "best_by key e es \<in> set (eligible request selected remaining)"
    using best_by_mem [of key e es] assms by simp
  then show "best_by key e es \<in> set remaining"
    "per_document selected (rc_document_id (best_by key e es)) < rq_max_chunks_per_document request"
    by (auto simp: eligible_def)
qed

text \<open>The selection loop; each round takes a candidate out of \<open>remaining\<close>.\<close>

function mmr_fill :: "rank_host \<Rightarrow> rat \<Rightarrow> rag_query \<Rightarrow> candidate list \<Rightarrow> candidate list \<Rightarrow> candidate list" where
  "mmr_fill h weight request selected remaining =
     (if remaining \<noteq> [] \<and> int (length selected) < effective_diversity_limit request
      then case eligible request selected remaining of
             [] \<Rightarrow> selected
           | e # es \<Rightarrow>
               let best = best_by (\<lambda>c. (mmr_score h weight selected c, rc_score c, rc_chunk_id c)) e es
               in mmr_fill h weight request
                    (selected @ [with_mmr_score (mmr_score h weight selected best) best]) (remove1 best remaining)
      else selected)"
  by pat_completeness auto

termination
  by (relation "measure (\<lambda>(h, weight, request, selected, remaining). length remaining)")
    (auto simp: length_remove1 dest!: eligible_best(1) intro: length_pos_if_in_set)

declare mmr_fill.simps [simp del]

definition mmr_select :: "rank_host \<Rightarrow> rat \<Rightarrow> candidate list \<Rightarrow> rag_query \<Rightarrow> candidate list" where
  "mmr_select h weight candidates request =
     (let (selected, remaining) = mmr_cover h weight (effective_diversity_limit request)
        (document_coverage_candidates candidates (rq_document_ids request)) ([], candidates)
      in mmr_fill h weight request selected remaining)"

definition mmr_reranker :: "rank_host \<Rightarrow> rat \<Rightarrow> stage" where
  "mmr_reranker h weight plan_query candidates request =
     stage_result h ''quota-mmr-v1'' ''deterministic-mmr'' ''lexical-jaccard-lambda''
       (if candidates \<noteq> [] then Applied else Skipped) [] candidates (mmr_select h weight candidates request)"

section \<open>Policy selection\<close>

fun policy_cover :: "int \<Rightarrow> candidate list \<Rightarrow> candidate list \<Rightarrow> candidate list" where
  "policy_cover top_k [] selected = selected"
| "policy_cover top_k (c # cs) selected =
     (if top_k \<le> int (length (selected @ [c])) then selected @ [c] else policy_cover top_k cs (selected @ [c]))"

fun policy_fill :: "rag_query \<Rightarrow> candidate list \<Rightarrow> candidate list \<Rightarrow> candidate list" where
  "policy_fill request [] selected = selected"
| "policy_fill request (c # cs) selected =
     (if rq_top_k request \<le> int (length selected) then selected
      else if rc_chunk_id c \<in> set (map rc_chunk_id selected) then policy_fill request cs selected
      else if rc_content_hash c \<in> set (map rc_content_hash selected) then policy_fill request cs selected
      else if rq_max_chunks_per_document request \<le> per_document selected (rc_document_id c)
      then policy_fill request cs selected
      else policy_fill request cs (selected @ [c]))"

definition policy_select :: "candidate list \<Rightarrow> rag_query \<Rightarrow> candidate list" where
  "policy_select candidates request =
     policy_fill request candidates
       (if rq_document_ids request \<noteq> []
        then policy_cover (rq_top_k request) (document_coverage_candidates candidates (rq_document_ids request)) []
        else [])"

definition policy_selector :: "rank_host \<Rightarrow> stage" where
  "policy_selector h plan_query candidates request =
     stage_result h ''policy-selector-v2'' ''deterministic-policy'' ''policy-selector-v2''
       (if candidates \<noteq> [] then Applied else Skipped) [] candidates (policy_select candidates request)"

section \<open>Composition and the pipeline's checks\<close>

abbreviation chunk_ids :: "candidate list \<Rightarrow> rid list" where
  "chunk_ids cs \<equiv> map rc_chunk_id cs"

fun composite_loop :: "stage list \<Rightarrow> ustr \<Rightarrow> candidate list \<Rightarrow> rag_query \<Rightarrow> rerank_step list \<Rightarrow> rerank_result" where
  "composite_loop [] plan_query current request steps = Inr (current, steps)"
| "composite_loop (rerank # stages) plan_query current request steps =
     rbind (rerank plan_query current request) (\<lambda>(out, new_steps).
     rbind (need (distinct (chunk_ids out) \<and> set (chunk_ids out) \<subseteq> set (chunk_ids current))) (\<lambda>_.
     composite_loop stages plan_query out request (steps @ new_steps)))"

definition composite_reranker :: "stage list \<Rightarrow> stage" where
  "composite_reranker stages plan_query candidates request =
     rbind (need (stages \<noteq> [])) (\<lambda>_. composite_loop stages plan_query candidates request [])"

text \<open>The stages \<open>RagRetrievalService\<close> sets up, with or without a scoring provider.\<close>

definition default_stages :: "rank_host \<Rightarrow> rat \<Rightarrow> (semantic_config \<times> provider) option \<Rightarrow> stage list" where
  "default_stages h weight semantic =
     [hard_filter h, feature_reranker h]
     @ (case semantic of None \<Rightarrow> [] | Some (g, provider) \<Rightarrow> [semantic_reranker h g provider])
     @ [mmr_reranker h weight, policy_selector h]"

definition validate_retrieved :: "candidate list \<Rightarrow> rid \<Rightarrow> unit res" where
  "validate_retrieved candidates workspace_id =
     checks [
       ensure (length candidates \<le> 800) (AppError ''RAG_RETRIEVER_LIMIT_VIOLATION'' ''runtime'' False),
       ensure (list_all (\<lambda>c. rc_workspace_id c = workspace_id) candidates)
         (AppError ''RAG_RETRIEVER_SCOPE_VIOLATION'' ''security'' False)]"

definition validate_ranked :: "candidate list \<Rightarrow> candidate list \<Rightarrow> rag_query \<Rightarrow> unit res" where
  "validate_ranked ranked retrieved request =
     ensure (int (length ranked) \<le> rq_top_k request \<and> distinct (chunk_ids ranked) \<and>
         set (chunk_ids ranked) \<subseteq> set (chunk_ids retrieved))
       (AppError ''RAG_RERANKER_CONTRACT_VIOLATION'' ''runtime'' False)"

text \<open>The part of \<open>RagRetrievalPipeline.run\<close> between retrieval and the assembly of the context.\<close>

definition run_ranking :: "stage \<Rightarrow> rid \<Rightarrow> ustr \<Rightarrow> candidate list \<Rightarrow> rag_query \<Rightarrow> candidate list res" where
  "run_ranking rerank workspace_id plan_query candidates request =
     rbind (ensure (plan_query = ustrip (rq_query request))
              (AppError ''RAG_QUERY_REWRITER_CONTRACT_VIOLATION'' ''runtime'' False)) (\<lambda>_.
     rbind (validate_retrieved candidates workspace_id) (\<lambda>_.
     rbind (rerank plan_query candidates request) (\<lambda>(ranked, steps).
     rbind (validate_ranked ranked candidates request) (\<lambda>_. Inr ranked))))"

end
