(* ===== verification/RankingFacts.thy ===== *)
theory RankingFacts
  imports Stages
begin

text \<open>
  The interface of a ranking stage as locales: a stage selects among its input, succeeds on what it
  accepts, and (the covering ones) keeps every requested document it is given.  The stages of the code
  interpret them, and the pipeline's guarantees follow: its checks never fail on the default stages, and
  a document the user selected is represented in the final ranking.
\<close>

section \<open>Document coverage\<close>

text \<open>A candidate apart from what the stages write into it.\<close>

definition chunk_core :: "candidate \<Rightarrow> candidate" where
  "chunk_core c = c\<lparr>rc_score := 0, rc_trace := \<lparr>ct_sources = [], ct_semantic_rank = None, ct_semantic_score = None,
     ct_keyword_rank = None, ct_keyword_score = None, ct_rrf_score = None, ct_feature_score = None,
     ct_cross_encoder_score = None, ct_fused_score = None, ct_mmr_score = None\<rparr>\<rparr>"

lemma chunk_core_fields:
  assumes "chunk_core c = chunk_core d"
  shows "rc_chunk_id c = rc_chunk_id d" "rc_document_id c = rc_document_id d" "rc_content c = rc_content d"
    "rc_document_title c = rc_document_title d" "rc_workspace_id c = rc_workspace_id d"
    "rc_content_hash c = rc_content_hash d"
  using assms by (cases c, cases d, simp add: chunk_core_def)+

lemma chunk_core_updates [simp]:
  "chunk_core (with_feature_score s c) = chunk_core c" "chunk_core (with_semantic_score x s c) = chunk_core c" "chunk_core (with_mmr_score s c) = chunk_core c"
  by (simp_all add: chunk_core_def with_feature_score_def with_semantic_score_def with_mmr_score_def)

lemma update_fields [simp]:
  "rc_chunk_id (with_feature_score s c) = rc_chunk_id c" "rc_document_id (with_feature_score s c) = rc_document_id c"
  "rc_chunk_id (with_semantic_score x s c) = rc_chunk_id c" "rc_document_id (with_semantic_score x s c) = rc_document_id c"
  "rc_chunk_id (with_mmr_score s c) = rc_chunk_id c" "rc_document_id (with_mmr_score s c) = rc_document_id c"
  "rc_content_hash (with_mmr_score s c) = rc_content_hash c"
  by (simp_all add: with_feature_score_def with_semantic_score_def with_mmr_score_def)

text \<open>\<open>picks out cs\<close>: \<open>out\<close> is a choice among \<open>cs\<close>, each taken at most once.\<close>

definition picks :: "candidate list \<Rightarrow> candidate list \<Rightarrow> bool" where
  "picks out cs \<longleftrightarrow> distinct (chunk_ids out) \<and> chunk_core ` set out \<subseteq> chunk_core ` set cs"

lemma picks_ids: "picks out cs \<Longrightarrow> set (chunk_ids out) \<subseteq> set (chunk_ids cs)"
  unfolding picks_def by (force dest: chunk_core_fields(1))

lemma picks_length: "picks out cs \<Longrightarrow> length out \<le> length cs"
  using picks_ids [of out cs] card_length [of "chunk_ids cs"]
  by (metis (no_types, lifting) List.finite_set card_mono distinct_card le_trans length_map picks_def)

lemma picks_mem:
  assumes "picks out cs" "c \<in> set out"
  obtains d where "d \<in> set cs" "chunk_core c = chunk_core d"
  using assms unfolding picks_def by (metis image_eqI image_iff subsetD)

lemma picks_trans: "picks out mid \<Longrightarrow> picks mid cs \<Longrightarrow> picks out cs"
  by (auto simp: picks_def)

lemma picks_self: "distinct (chunk_ids cs) \<Longrightarrow> picks cs cs"
  by (simp add: picks_def)

lemma picks_subset: "distinct (chunk_ids out) \<Longrightarrow> set out \<subseteq> set cs \<Longrightarrow> picks out cs"
  by (auto simp: picks_def)

lemma coverage_loop_facts:
  assumes "distinct (chunk_ids selected)" "set selected \<subseteq> set cs"
  shows "distinct (chunk_ids (coverage_loop cs ds selected)) \<and> set (coverage_loop cs ds selected) \<subseteq> set cs \<and>
    length (coverage_loop cs ds selected) \<le> length selected + length ds \<and> set selected \<subseteq> set (coverage_loop cs ds selected)"
  using assms
proof (induction cs ds selected rule: coverage_loop.induct)
  case (2 cs d ds selected)
  show ?case
  proof (cases "find (\<lambda>c. rc_document_id c = d \<and> rc_chunk_id c \<notin> set (chunk_ids selected)) cs")
    case None
    then show ?thesis
      using 2 by (simp add: le_SucI)
  next
    case (Some c)
    then have "c \<in> set cs" "rc_chunk_id c \<notin> set (chunk_ids selected)"
      by (auto simp: find_Some_iff)
    then show ?thesis
      using 2 Some by auto
  qed
qed simp

lemma coverage_loop_mono: "set selected \<subseteq> set (coverage_loop cs ds selected)"
  by (induction cs ds selected rule: coverage_loop.induct) (auto split: option.splits)

lemma coverage_loop_covers:
  assumes "d \<in> set ds" "c \<in> set cs" "rc_document_id c = d" "distinct (chunk_ids cs)" "set selected \<subseteq> set cs"
  shows "d \<in> rc_document_id ` set (coverage_loop cs ds selected)"
  using assms
proof (induction cs ds selected rule: coverage_loop.induct)
  case (2 cs e ds selected)
  let ?P = "\<lambda>c. rc_document_id c = e \<and> rc_chunk_id c \<notin> set (chunk_ids selected)"
  show ?case
  proof (cases "find ?P cs")
    case None
    show ?thesis
    proof (cases "e = d")
      case True
      have "rc_chunk_id c \<in> set (chunk_ids selected)"
        using None True 2(4,5) by (auto simp: find_None_iff)
      then obtain s where "s \<in> set selected" "rc_chunk_id s = rc_chunk_id c"
        by auto
      then have "c \<in> set selected"
        using 2(4,6,7) by (metis distinct_map inj_onD subsetD)
      then show ?thesis
        using None coverage_loop_mono [of selected cs ds] 2(5) by auto
    next
      case False
      then show ?thesis
        using None 2 by auto
    qed
  next
    case (Some b)
    then have b: "b \<in> set cs" "rc_document_id b = e"
      by (auto simp: find_Some_iff)
    have "b \<in> set (coverage_loop cs ds (selected @ [b]))"
      using coverage_loop_mono [of "selected @ [b]" cs ds] by auto
    then show ?thesis
      using Some b 2 by (cases "e = d") auto
  qed
qed simp

lemmas coverage_facts = coverage_loop_facts [of "[]", folded document_coverage_candidates_def, simplified]

lemma coverage_covers:
  assumes "d \<in> set ds" "d \<in> rc_document_id ` set cs" "distinct (chunk_ids cs)"
  shows "d \<in> rc_document_id ` set (document_coverage_candidates cs ds)"
  using assms coverage_loop_covers [of d ds _ cs "[]"] by (auto simp: document_coverage_candidates_def)

lemma fill_loop_facts:
  assumes "distinct (chunk_ids selected)"
  shows "distinct (chunk_ids (fill_loop limit cs selected)) \<and> set selected \<subseteq> set (fill_loop limit cs selected) \<and>
    set (fill_loop limit cs selected) \<subseteq> set selected \<union> set cs \<and>
    int (length (fill_loop limit cs selected)) \<le> max limit (int (length selected))"
  using assms
proof (induction limit cs selected rule: fill_loop.induct)
  case (2 limit c cs selected)
  show ?case
  proof (cases "limit \<le> int (length selected) \<or> rc_chunk_id c \<in> set (chunk_ids selected)")
    case True
    then show ?thesis
      using 2 by auto
  next
    case False
    then have "distinct (chunk_ids (selected @ [c]))"
      using 2(3) by auto
    from 2(2) [OF _ _ this] False show ?thesis
      by auto
  qed
qed simp

lemma select_facts:
  assumes "distinct (chunk_ids cs)"
  shows "picks (select_with_document_coverage cs limit ds) cs"
    and "0 \<le> limit \<Longrightarrow> int (length (select_with_document_coverage cs limit ds)) \<le> limit"
proof -
  let ?cov = "take (nat limit) (document_coverage_candidates cs ds)"
  have cov: "distinct (chunk_ids ?cov)" "set ?cov \<subseteq> set cs" "length ?cov \<le> nat limit"
    using coverage_facts [of cs ds] by (auto simp: take_map [symmetric] dest: in_set_takeD)
  note f = fill_loop_facts [OF cov(1), of limit cs]
  show "picks (select_with_document_coverage cs limit ds) cs"
    using f cov(2) by (auto simp: select_with_document_coverage_def intro!: picks_subset)
  show "int (length (select_with_document_coverage cs limit ds)) \<le> limit" if "0 \<le> limit"
    using f cov(3) that by (auto simp: select_with_document_coverage_def)
qed

lemma select_covers:
  assumes "d \<in> set ds" "d \<in> rc_document_id ` set cs" "distinct (chunk_ids cs)" "int (length ds) \<le> limit"
  shows "d \<in> rc_document_id ` set (select_with_document_coverage cs limit ds)"
proof -
  let ?cov = "document_coverage_candidates cs ds"
  have facts: "distinct (chunk_ids ?cov)" "length ?cov \<le> length ds"
    using coverage_facts [of cs ds] by auto
  then have take: "take (nat limit) ?cov = ?cov"
    using assms(4) by simp
  have "0 < limit"
    using assms(1,4) by (cases ds) auto
  then show ?thesis
    using coverage_covers [OF assms(1-3)] fill_loop_facts [OF facts(1), of limit cs]
    by (auto simp: select_with_document_coverage_def take)
qed

section \<open>The interface of a stage\<close>

locale ranking_stage =
  fixes rerank :: stage
    and accepts :: "rag_query \<Rightarrow> candidate list \<Rightarrow> bool"
  assumes total: "distinct (chunk_ids cs) \<Longrightarrow> 1 \<le> rq_top_k request \<Longrightarrow> accepts request cs \<Longrightarrow> \<exists>out steps. rerank q cs request = Inr (out, steps)"
    and selects: "distinct (chunk_ids cs) \<Longrightarrow> 1 \<le> rq_top_k request \<Longrightarrow> rerank q cs request = Inr (out, steps) \<Longrightarrow> picks out cs"
begin

lemma composite_step:
  assumes "distinct (chunk_ids cs)" "1 \<le> rq_top_k request" "accepts request cs"
  obtains out new_steps where "rerank q cs request = Inr (out, new_steps)" "picks out cs"
    "\<And>stages steps. composite_loop (rerank # stages) q cs request steps = composite_loop stages q out request (steps @ new_steps)"
proof -
  obtain out new_steps where out: "rerank q cs request = Inr (out, new_steps)"
    using total [OF assms] by blast
  then have "picks out cs"
    by (rule selects [OF assms(1,2)])
  then show ?thesis
    using out picks_ids [of out cs] by (intro that [of out new_steps]) (auto simp: picks_def)
qed

end

text \<open>A request whose documents fit in the final ranking.\<close>

abbreviation wide :: "rag_query \<Rightarrow> bool" where
  "wide request \<equiv> int (length (rq_document_ids request)) \<le> rq_top_k request"

abbreviation documents :: "candidate list \<Rightarrow> rid set" where
  "documents cs \<equiv> rc_document_id ` set cs"

locale covering_stage = ranking_stage +
  assumes covers: "distinct (chunk_ids cs) \<Longrightarrow> 1 \<le> rq_top_k request \<Longrightarrow> rerank q cs request = Inr (out, steps) \<Longrightarrow> wide request \<Longrightarrow>
    d \<in> set (rq_document_ids request) \<Longrightarrow> d \<in> documents cs \<Longrightarrow> d \<in> documents out"
begin

lemma keeps_documents:
  assumes "distinct (chunk_ids cs)" "1 \<le> rq_top_k request" "rerank q cs request = Inr (out, steps)" "wide request"
  shows "set (rq_document_ids request) \<inter> documents cs \<subseteq> documents out"
  using covers [OF assms] by blast

end

subsection \<open>The stages of the code\<close>

lemma stage_result_out: "stage_result h i p m st f cs sel = Inr (out, steps) \<Longrightarrow> out = sel"
  by (auto simp: stage_result_def rbind_Inr_iff)

lemma stage_result_ok:
  assumes "length sel \<le> length cs" "py_strip i \<noteq> []" "py_strip p \<noteq> []"
  shows "\<exists>out steps. stage_result h i p m st f cs sel = Inr (out, steps)"
  using assms by (simp add: stage_result_def mk_step_def elapsed_ms_of_def need_def ensure_def)

lemma stage_names [simp]:
  "py_strip ''hard-filter-v1'' \<noteq> []" "py_strip ''deterministic-filter'' \<noteq> []"
  "py_strip ''feature-rank-v1'' \<noteq> []" "py_strip ''deterministic-feature'' \<noteq> []"
  "py_strip ''cross-encoder-rank-fusion-v1'' \<noteq> []" "py_strip ''reranker'' \<noteq> []"
  "py_strip ''quota-mmr-v1'' \<noteq> []" "py_strip ''deterministic-mmr'' \<noteq> []"
  "py_strip ''policy-selector-v2'' \<noteq> []" "py_strip ''deterministic-policy'' \<noteq> []"
  by code_simp+

lemma stage_by_picks:
  assumes "picks sel cs" "py_strip i \<noteq> []" "py_strip p \<noteq> []"
  shows "\<exists>out steps. stage_result h i p m st f cs sel = Inr (out, steps)"
  using assms picks_length by (intro stage_result_ok) auto

lemma hard_loop_facts:
  "\<exists>zs. hard_loop request cs seen selected = selected @ zs \<and> subseq zs cs \<and>
     (\<forall>c \<in> set zs. rq_min_score request \<le> rc_score c \<and> ustrip (rc_content c) \<noteq> [])"
proof (induction request cs seen selected rule: hard_loop.induct)
  case (2 request c cs seen selected)
  show ?case
  proof (cases "rc_score c < rq_min_score request \<or> ustrip (rc_content c) = [] \<or> filter_key request c \<in> set seen")
    case True
    then obtain zs where "hard_loop request cs seen selected = selected @ zs" "subseq zs cs"
      "\<forall>c \<in> set zs. rq_min_score request \<le> rc_score c \<and> ustrip (rc_content c) \<noteq> []"
      using 2(1,2) by blast
    then show ?thesis
      using True by (intro exI [of _ zs]) auto
  next
    case False
    show ?thesis
    proof (cases "rq_candidate_limit request \<le> int (length (selected @ [c]))")
      case True
      then show ?thesis
        using False by (intro exI [of _ "[c]"]) auto
    next
      case cont: False
      then obtain zs where "hard_loop request cs (filter_key request c # seen) (selected @ [c]) = (selected @ [c]) @ zs"
        "subseq zs cs" "\<forall>c \<in> set zs. rq_min_score request \<le> rc_score c \<and> ustrip (rc_content c) \<noteq> []"
        using 2(3) False by (metis linorder_not_less)
      then show ?thesis
        using False cont by (intro exI [of _ "c # zs"]) auto
    qed
  qed
qed simp

lemma picks_subseq: "distinct (chunk_ids cs) \<Longrightarrow> subseq zs cs \<Longrightarrow> picks zs cs"
  by (auto simp: subseq_conv_nths nths_map [symmetric] intro!: picks_subset distinct_nthsI dest: in_set_nthsD)

lemma hard_loop_picks: "distinct (chunk_ids cs) \<Longrightarrow> picks (hard_loop request cs [] []) cs"
  using hard_loop_facts [of request cs "[]" "[]"] by (auto intro: picks_subseq)

interpretation hard_filter: ranking_stage "hard_filter h" "\<lambda>request cs. True" for h
  by unfold_locales (auto simp: hard_filter_def intro!: stage_by_picks hard_loop_picks dest!: stage_result_out)

text \<open>Scores and traces are rewritten in place, then the candidates are sorted.\<close>

lemma rescored:
  assumes "\<And>i c. chunk_core (f i c) = chunk_core c"
  shows "picks cs' (sort_key k (map (\<lambda>(i, c). f i c) (enumerate n cs))) \<longleftrightarrow> picks cs' cs"
    "documents (sort_key k (map (\<lambda>(i, c). f i c) (enumerate n cs))) = documents cs"
    "distinct (chunk_ids (sort_key k (map (\<lambda>(i, c). f i c) (enumerate n cs)))) \<longleftrightarrow> distinct (chunk_ids cs)"
proof -
  let ?m = "map (\<lambda>(i, c). f i c) (enumerate n cs)"
  have fields: "rc_chunk_id (f i c) = rc_chunk_id c" "rc_document_id (f i c) = rc_document_id c" for i c
    using assms chunk_core_fields by blast+
  have map_snd: "map (\<lambda>(i, c). g c) (enumerate n cs) = map g cs" for g :: "candidate \<Rightarrow> 'x"
    by (metis (no_types, lifting) case_prod_unfold comp_apply map_map map_snd_enumerate list.map_cong0)
  have cores: "map chunk_core ?m = map chunk_core cs"
    using map_snd [of chunk_core] assms by (simp add: comp_def case_prod_unfold)
  have ids: "chunk_ids ?m = chunk_ids cs"
    using map_snd [of rc_chunk_id] fields by (simp add: comp_def case_prod_unfold)
  have docs: "map rc_document_id ?m = map rc_document_id cs"
    using map_snd [of rc_document_id] fields by (simp add: comp_def case_prod_unfold)
  show "picks cs' (sort_key k ?m) \<longleftrightarrow> picks cs' cs"
    using arg_cong [OF cores, of set] by (simp add: picks_def image_image)
  show "documents (sort_key k ?m) = documents cs"
    using arg_cong [OF docs, of set] by (simp add: image_image)
  show "distinct (chunk_ids (sort_key k ?m)) \<longleftrightarrow> distinct (chunk_ids cs)"
    by (metis ids distinct_map distinct_sort set_sort)
qed

lemma select_rescored:
  assumes "\<And>i c. chunk_core (f i c) = chunk_core c" and "distinct (chunk_ids cs)"
  shows "picks (select_with_document_coverage (sort_key k (map (\<lambda>(i, c). f i c) (enumerate n cs))) limit ds) cs"
    "d \<in> set ds \<Longrightarrow> d \<in> documents cs \<Longrightarrow> int (length ds) \<le> limit \<Longrightarrow>
      d \<in> documents (select_with_document_coverage (sort_key k (map (\<lambda>(i, c). f i c) (enumerate n cs))) limit ds)"
  using select_facts(1) [of "sort_key k (map (\<lambda>(i, c). f i c) (enumerate n cs))"]
    select_covers [of d ds "sort_key k (map (\<lambda>(i, c). f i c) (enumerate n cs))"] assms(2)
  by (simp_all only: rescored [OF assms(1)])

lemma feature_select:
  assumes "distinct (chunk_ids cs)"
  shows "picks (select_with_document_coverage (sort_key by_score (feature_scored h q cs)) limit ds) cs"
    "d \<in> set ds \<Longrightarrow> d \<in> documents cs \<Longrightarrow> int (length ds) \<le> limit \<Longrightarrow>
      d \<in> documents (select_with_document_coverage (sort_key by_score (feature_scored h q cs)) limit ds)"
  unfolding feature_scored_def Let_def using assms by (rule select_rescored [OF chunk_core_updates(1)])+

lemma feature_fits: "rq_top_k request \<le> effective_feature_limit request"
  by (simp add: effective_feature_limit_def)

interpretation feature: covering_stage "feature_reranker h" "\<lambda>request cs. True" for h
proof
  fix cs :: "candidate list" and request :: rag_query and q :: ustr
  assume d: "distinct (chunk_ids cs)"
  show "\<exists>out steps. feature_reranker h q cs request = Inr (out, steps)"
    by (auto simp: feature_reranker_def Let_def intro!: stage_by_picks feature_select(1) d picks_self)
  fix out steps
  assume r: "feature_reranker h q cs request = Inr (out, steps)"
  then show "picks out cs"
    using feature_select(1) [OF d]
    by (auto simp: feature_reranker_def Let_def picks_self dest!: stage_result_out split: if_splits)
  fix x
  assume "wide request" "x \<in> set (rq_document_ids request)" "x \<in> documents cs"
  then show "x \<in> documents out"
    using r feature_select(2) [OF d, of x] feature_fits [of request]
    by (auto simp: feature_reranker_def Let_def dest!: stage_result_out split: if_splits)
qed

text \<open>The semantic stage accepts up to its limit of candidates with a title and a text.\<close>

definition scorable :: "semantic_config \<Rightarrow> rag_query \<Rightarrow> candidate list \<Rightarrow> bool" where
  "scorable g request cs \<longleftrightarrow> sc_fallback_on_error g \<and> 256 \<le> sc_max_content_chars g \<and>
     int (length cs) \<le> sc_max_candidates g \<and>
     (\<forall>c \<in> set cs. ustrip (rc_document_title c) \<noteq> [] \<and> ustrip (rc_content c) \<noteq> [])"

lemma compact_nonblank:
  assumes "ustrip content \<noteq> []"
  shows "ustrip (compact_content h content query max_chars) \<noteq> []"
proof (cases "int (length (ustrip content)) \<le> max_chars")
  case True
  then show ?thesis
    using assms by (simp add: compact_content_def)
next
  case False
  then have "0x2026 \<in> set (compact_content h content query max_chars)"
    by (simp add: compact_content_def Let_def ellipsis_line_def)
  moreover have "\<not> uspace 0x2026"
    by (simp add: uspace_def)
  ultimately show ?thesis
    unfolding ustrip_eq_Nil by blast
qed

lemma mapR_ok: "(\<And>x. x \<in> set xs \<Longrightarrow> is_ok (f x)) \<Longrightarrow> \<exists>ys. mapR f xs = Inr ys"
proof (induction xs)
  case (Cons x xs)
  then show ?case
    using Cons.prems [of x] by (fastforce simp: is_ok_iff)
qed simp

lemma documents_ok: "scorable g request cs \<Longrightarrow> \<exists>ds. mapR (rerank_document_of h g q) cs = Inr ds"
  by (intro mapR_ok) (auto simp: scorable_def rerank_document_of_def mk_rerank_document_def compact_nonblank)

lemma blended_select:
  assumes "distinct (chunk_ids cs)"
  shows "picks (select_with_document_coverage (blended g scores cs) limit ds) cs"
    "d \<in> set ds \<Longrightarrow> d \<in> documents cs \<Longrightarrow> int (length ds) \<le> limit \<Longrightarrow>
      d \<in> documents (select_with_document_coverage (blended g scores cs) limit ds)"
  unfolding blended_def Let_def using assms by (rule select_rescored [OF chunk_core_updates(2)])+

interpretation semantic: covering_stage "semantic_reranker h g provider" "scorable g" for h g provider
proof
  fix cs :: "candidate list" and request :: rag_query and q :: ustr
  assume d: "distinct (chunk_ids cs)"
  show "\<exists>out steps. semantic_reranker h g provider q cs request = Inr (out, steps)" if "scorable g request cs"
  proof -
    obtain ds where "mapR (rerank_document_of h g q) cs = Inr ds"
      using documents_ok \<open>scorable g request cs\<close> by blast
    then show ?thesis
      using that by (auto simp: semantic_reranker_def Let_def scorable_def split: sum.splits
          intro!: stage_by_picks blended_select(1) d picks_self)
  qed
  fix out steps
  assume r: "semantic_reranker h g provider q cs request = Inr (out, steps)"
  have out: "out = cs \<or> (\<exists>scores. out = select_with_document_coverage (blended g scores cs)
      (effective_cross_encoder_limit request) (rq_document_ids request))"
  proof (cases "cs = []")
    case True
    then show ?thesis
      using r by (auto simp: semantic_reranker_def dest: stage_result_out)
  next
    case False
    then obtain docs where "(case provider_scores provider q docs of
        Inl failure \<Rightarrow> if \<not> sc_fallback_on_error g then Inl RuntimeError
          else stage_result h ''cross-encoder-rank-fusion-v1'' ''reranker'' ''unknown'' Degraded
            (case failure of Some code \<Rightarrow> code | None \<Rightarrow> ''RERANKER_PROVIDER_FAILED'') cs cs
      | Inr scores \<Rightarrow> stage_result h ''cross-encoder-rank-fusion-v1'' ''reranker'' ''unknown'' Applied [] cs
            (select_with_document_coverage (blended g scores cs) (effective_cross_encoder_limit request)
               (rq_document_ids request))) = Inr (out, steps)"
      using r by (auto simp: semantic_reranker_def Let_def rbind_Inr_iff split: if_splits)
    then show ?thesis
      by (cases "provider_scores provider q docs") (auto dest: stage_result_out split: if_splits)
  qed
  then show "picks out cs"
    using blended_select(1) [OF d] by (auto intro: picks_self d)
  fix x
  assume "wide request" "x \<in> set (rq_document_ids request)" "x \<in> documents cs"
  then show "x \<in> documents out"
    using out blended_select(2) [OF d, of x] by (auto simp: effective_cross_encoder_limit_def)
qed

end
