(* ===== verification/DiversityFacts.thy ===== *)
theory DiversityFacts
  imports RankingFacts
begin

text \<open>
  The diversity selection and the policy selector: they select among their input, keep to their limits
  and quotas, and keep the requested documents, so both interpret \<open>covering_stage\<close>.
\<close>

section \<open>Diversity\<close>

text \<open>The state of the diversity selection: what is selected and what remains are apart.\<close>

definition mmr_inv :: "candidate list \<Rightarrow> candidate list \<Rightarrow> candidate list \<Rightarrow> bool" where
  "mmr_inv cs selected remaining \<longleftrightarrow> picks selected cs \<and> distinct (chunk_ids remaining) \<and> set remaining \<subseteq> set cs \<and>
     set (chunk_ids selected) \<inter> set (chunk_ids remaining) = {}"

lemma mmr_inv_step:
  assumes "mmr_inv cs selected remaining" "c \<in> set remaining"
  shows "mmr_inv cs (selected @ [with_mmr_score s c]) (remove1 c remaining)"
proof -
  have rem: "set (remove1 c remaining) = set remaining - {c}" "distinct (chunk_ids (remove1 c remaining))"
    using assms(1) by (auto simp: mmr_inv_def distinct_map inj_on_def)
  have "rc_chunk_id c \<notin> set (chunk_ids (remove1 c remaining))"
    using assms rem(1) by (auto simp: mmr_inv_def distinct_map inj_on_def)
  moreover have "rc_chunk_id c \<notin> set (chunk_ids selected)"
    using assms by (auto simp: mmr_inv_def)
  moreover have "set (chunk_ids (remove1 c remaining)) \<subseteq> set (chunk_ids remaining)"
    using rem(1) by auto
  ultimately show ?thesis
    using assms rem by (auto simp: mmr_inv_def picks_def)
qed

lemma mmr_cover_facts:
  assumes "mmr_inv cs selected remaining" "distinct cov" "set cov \<subseteq> set remaining"
    and "mmr_cover h w limit cov (selected, remaining) = (selected', remaining')"
  shows "mmr_inv cs selected' remaining' \<and> documents selected \<subseteq> documents selected' \<and>
    (int (length selected + length cov) \<le> limit \<longrightarrow> documents cov \<subseteq> documents selected') \<and>
    int (length selected') \<le> max limit (int (length selected))"
  using assms
proof (induction cov arbitrary: selected remaining)
  case (Cons c cov)
  show ?case
  proof (cases "limit \<le> int (length selected)")
    case True
    then show ?thesis
      using Cons.prems by auto
  next
    case False
    let ?sel = "selected @ [with_mmr_score (mmr_score h w selected c) c]"
    have "set (remove1 c remaining) = set remaining - {c}"
      using Cons.prems(1) by (auto simp: mmr_inv_def distinct_map)
    then have "mmr_inv cs selected' remaining' \<and> documents ?sel \<subseteq> documents selected' \<and>
        (int (length ?sel + length cov) \<le> limit \<longrightarrow> documents cov \<subseteq> documents selected') \<and>
        int (length selected') \<le> max limit (int (length ?sel))"
      using Cons.prems False by (intro Cons.IH) (auto intro: mmr_inv_step)
    then show ?thesis
      using False by auto
  qed
qed simp

lemma per_document_snoc [simp]:
  "per_document (selected @ [with_mmr_score s c]) d = per_document selected d + (if rc_document_id c = d then 1 else 0)"
  by (simp add: per_document_def)

lemma mmr_fill_unfold:
  "mmr_fill h w request selected remaining = selected \<or>
    (\<exists>best. best \<in> set remaining \<and> int (length selected) < effective_diversity_limit request \<and>
       per_document selected (rc_document_id best) < rq_max_chunks_per_document request \<and>
       mmr_fill h w request selected remaining =
         mmr_fill h w request (selected @ [with_mmr_score (mmr_score h w selected best) best]) (remove1 best remaining))"
proof (cases "remaining \<noteq> [] \<and> int (length selected) < effective_diversity_limit request")
  case True
  show ?thesis
  proof (cases "eligible request selected remaining")
    case Nil
    then show ?thesis
      by (simp add: mmr_fill.simps [of h w request selected remaining])
  next
    case (Cons e es)
    then show ?thesis
      using True eligible_best [OF Cons]
      by (auto simp: mmr_fill.simps [of h w request selected remaining] Let_def)
  qed
qed (auto simp: mmr_fill.simps [of h w request selected remaining])

lemma mmr_fill_facts:
  assumes "mmr_inv cs selected remaining"
  shows "picks (mmr_fill h w request selected remaining) cs \<and>
    documents selected \<subseteq> documents (mmr_fill h w request selected remaining) \<and>
    int (length (mmr_fill h w request selected remaining)) \<le> max (effective_diversity_limit request) (int (length selected)) \<and>
    (\<forall>d. per_document (mmr_fill h w request selected remaining) d
       \<le> max (rq_max_chunks_per_document request) (per_document selected d))"
  using assms
proof (induction "length remaining" arbitrary: selected remaining rule: less_induct)
  case less
  from mmr_fill_unfold [of h w request selected remaining] show ?case
  proof (elim disjE exE conjE)
    assume "mmr_fill h w request selected remaining = selected"
    then show ?thesis
      using less.prems by (simp add: mmr_inv_def)
  next
    fix best
    let ?sel = "selected @ [with_mmr_score (mmr_score h w selected best) best]"
    assume best: "best \<in> set remaining" "int (length selected) < effective_diversity_limit request"
      "per_document selected (rc_document_id best) < rq_max_chunks_per_document request"
      and eq: "mmr_fill h w request selected remaining = mmr_fill h w request ?sel (remove1 best remaining)"
    have "length (remove1 best remaining) < length remaining"
      using best(1) length_pos_if_in_set [OF best(1)] by (simp add: length_remove1)
    note ih = less.hyps [OF this mmr_inv_step [OF less.prems best(1)], of "mmr_score h w selected best"]
    have "per_document (mmr_fill h w request ?sel (remove1 best remaining)) d
        \<le> max (rq_max_chunks_per_document request) (per_document selected d)" for d
    proof -
      have "per_document ?sel d \<le> max (rq_max_chunks_per_document request) (per_document selected d)"
        using best(3) by auto
      from order_trans [OF _ max.boundedI [OF max.cobounded1 this]] show ?thesis
        using ih by blast
    qed
    then show ?thesis
      unfolding eq using ih best(2) by auto
  qed
qed

lemma mmr_select_facts:
  assumes "distinct (chunk_ids cs)"
  shows "picks (mmr_select h w cs request) cs"
    and "wide request \<Longrightarrow> d \<in> set (rq_document_ids request) \<Longrightarrow> d \<in> documents cs \<Longrightarrow>
      d \<in> documents (mmr_select h w cs request)"
proof -
  let ?cov = "document_coverage_candidates cs (rq_document_ids request)"
  obtain sel rem where m: "mmr_cover h w (effective_diversity_limit request) ?cov ([], cs) = (sel, rem)"
    by fastforce
  have cov: "distinct ?cov" "set ?cov \<subseteq> set cs" "length ?cov \<le> length (rq_document_ids request)"
    using coverage_facts [of cs "rq_document_ids request"] by (auto simp: distinct_map)
  have inv: "mmr_inv cs [] cs"
    using assms by (simp add: mmr_inv_def picks_def)
  note c = mmr_cover_facts [OF inv cov(1,2) m]
  have eq: "mmr_select h w cs request = mmr_fill h w request sel rem"
    by (simp add: mmr_select_def m)
  note f = mmr_fill_facts [OF conjunct1 [OF c], of h w request]
  show "picks (mmr_select h w cs request) cs"
    using f by (simp add: eq)
  show "d \<in> documents (mmr_select h w cs request)"
    if "wide request" "d \<in> set (rq_document_ids request)" "d \<in> documents cs"
  proof -
    have "int (length ?cov) \<le> effective_diversity_limit request"
      using cov(3) that(1) by (simp add: effective_diversity_limit_def)
    then have "documents ?cov \<subseteq> documents sel"
      using c by simp
    moreover have "d \<in> documents ?cov"
      by (rule coverage_covers [OF that(2,3) assms])
    ultimately show ?thesis
      using f by (auto simp: eq)
  qed
qed

interpretation diversity: covering_stage "mmr_reranker h w" "\<lambda>request cs. True" for h w
  by unfold_locales
    (auto simp: mmr_reranker_def intro!: stage_by_picks mmr_select_facts dest!: stage_result_out)

section \<open>Policy\<close>

lemma policy_cover_facts:
  assumes "int (length selected) < top_k"
  shows "policy_cover top_k cov selected = selected @ take (nat (top_k - int (length selected))) cov"
  using assms
proof (induction top_k cov selected rule: policy_cover.induct)
  case (2 top_k c cs selected)
  show ?case
  proof (cases "top_k \<le> int (length (selected @ [c]))")
    case True
    then have "nat (top_k - int (length selected)) = 1"
      using 2(2) by simp
    then show ?thesis
      using True by simp
  next
    case False
    then have "nat (top_k - int (length selected)) = Suc (nat (top_k - int (length (selected @ [c]))))"
      by simp
    then show ?thesis
      using 2 False by simp
  qed
qed simp

lemma policy_fill_facts:
  assumes "distinct (chunk_ids selected)"
  shows "distinct (chunk_ids (policy_fill request cs selected)) \<and> set selected \<subseteq> set (policy_fill request cs selected) \<and>
    set (policy_fill request cs selected) \<subseteq> set selected \<union> set cs \<and>
    int (length (policy_fill request cs selected)) \<le> max (rq_top_k request) (int (length selected)) \<and>
    (\<forall>d. per_document (policy_fill request cs selected) d
       \<le> max (rq_max_chunks_per_document request) (per_document selected d))"
  using assms
proof (induction request cs selected rule: policy_fill.induct)
  case (2 request c cs selected)
  consider "rq_top_k request \<le> int (length selected)"
    | "\<not> rq_top_k request \<le> int (length selected)" "rc_chunk_id c \<in> set (chunk_ids selected) \<or>
        rc_content_hash c \<in> set (map rc_content_hash selected) \<or>
        rq_max_chunks_per_document request \<le> per_document selected (rc_document_id c)"
    | "\<not> rq_top_k request \<le> int (length selected)" "rc_chunk_id c \<notin> set (chunk_ids selected)"
        "rc_content_hash c \<notin> set (map rc_content_hash selected)"
        "\<not> rq_max_chunks_per_document request \<le> per_document selected (rc_document_id c)"
    by blast
  then show ?case
  proof cases
    case 1
    then show ?thesis
      using 2 by auto
  next
    case 2
    then show ?thesis
      using "2.IH"(1,2,3) "2.prems" by (auto split: if_splits)
  next
    case 3
    then have "distinct (chunk_ids (selected @ [c]))"
      using "2.prems" by auto
    note ih = "2.IH"(4) [OF 3 this]
    have step: "policy_fill request (c # cs) selected = policy_fill request cs (selected @ [c])"
      using 3 by simp
    have "per_document (policy_fill request cs (selected @ [c])) d
        \<le> max (rq_max_chunks_per_document request) (per_document selected d)" for d
    proof -
      have "per_document (selected @ [c]) d \<le> max (rq_max_chunks_per_document request) (per_document selected d)"
        using 3(4) by (auto simp: per_document_def)
      from order_trans [OF _ max.boundedI [OF max.cobounded1 this]] show ?thesis
        using ih by blast
    qed
    then show ?thesis
      using ih 3(1) unfolding step by auto
  qed
qed simp

lemma policy_select_facts:
  assumes "distinct (chunk_ids cs)" "1 \<le> rq_top_k request"
  shows "picks (policy_select cs request) cs"
    and "int (length (policy_select cs request)) \<le> rq_top_k request"
    and "wide request \<Longrightarrow> d \<in> set (rq_document_ids request) \<Longrightarrow> d \<in> documents cs \<Longrightarrow>
      d \<in> documents (policy_select cs request)"
proof -
  let ?cov = "document_coverage_candidates cs (rq_document_ids request)"
  define sel where "sel = (if rq_document_ids request \<noteq> [] then policy_cover (rq_top_k request) ?cov [] else [])"
  have cov: "distinct (chunk_ids ?cov)" "set ?cov \<subseteq> set cs" "length ?cov \<le> length (rq_document_ids request)"
    using coverage_facts [of cs "rq_document_ids request"] by auto
  have sel: "sel = (if rq_document_ids request \<noteq> [] then take (nat (rq_top_k request)) ?cov else [])"
    using policy_cover_facts [of "[]" "rq_top_k request" ?cov] assms(2) by (simp add: sel_def)
  then have "distinct (chunk_ids sel)" "set sel \<subseteq> set cs" "int (length sel) \<le> rq_top_k request"
    using cov assms(2) by (auto simp: take_map [symmetric] dest: in_set_takeD)
  note f = policy_fill_facts [OF this(1), of request cs] this
  have eq: "policy_select cs request = policy_fill request cs sel"
    by (simp add: policy_select_def sel_def)
  show "picks (policy_select cs request) cs"
    using f by (auto simp: eq intro!: picks_subset)
  show "int (length (policy_select cs request)) \<le> rq_top_k request"
    using f by (auto simp: eq)
  show "d \<in> documents (policy_select cs request)"
    if "wide request" "d \<in> set (rq_document_ids request)" "d \<in> documents cs"
  proof -
    have "sel = ?cov"
      using that(1,2) cov(3) by (auto simp: sel)
    then have "d \<in> documents sel"
      using coverage_covers [OF that(2,3) assms(1)] by simp
    then show ?thesis
      using f by (auto simp: eq)
  qed
qed

interpretation policy: covering_stage "policy_selector h" "\<lambda>request cs. True" for h
  by unfold_locales
    (auto simp: policy_selector_def intro!: stage_by_picks policy_select_facts dest!: stage_result_out)

end
