(* ===== verification/RetrievalFacts.thy ===== *)
theory RetrievalFacts
  imports DiversityFacts
begin

text \<open>
  The ranking of \<open>RagRetrievalService\<close> as a whole: its default stages always pass the checks of the
  pipeline, and a document the user selected stays represented.
\<close>

section \<open>The default stages\<close>

definition filter_passes :: "rag_query \<Rightarrow> candidate \<Rightarrow> bool" where
  "filter_passes request c \<longleftrightarrow> rq_min_score request \<le> rc_score c \<and> ustrip (rc_content c) \<noteq> []"

lemma hard_loop_covers:
  assumes "c \<in> set cs" "filter_passes request c" "int (length selected + length cs) \<le> rq_candidate_limit request"
    and "set seen \<subseteq> filter_key request ` set selected"
  shows "filter_key request c \<in> filter_key request ` set (hard_loop request cs seen selected)"
  using assms
proof (induction request cs seen selected rule: hard_loop.induct)
  case (2 request b cs seen selected)
  have kept: "set selected \<subseteq> set (hard_loop request cs seen selected)" for cs seen selected
    using hard_loop_facts [of request cs seen selected] by auto
  consider "rc_score b < rq_min_score request" | "\<not> rc_score b < rq_min_score request" "ustrip (rc_content b) = []"
    | "filter_passes request b" "filter_key request b \<in> set seen"
    | "filter_passes request b" "filter_key request b \<notin> set seen"
    using linorder_not_less [of "rc_score b" "rq_min_score request"] unfolding filter_passes_def by blast
  then show ?case
  proof cases
    case 1
    then show ?thesis
      using "2.IH"(1) "2.prems" by (auto simp: filter_passes_def)
  next
    case 2
    then show ?thesis
      using "2.IH"(2) "2.prems" by (auto simp: filter_passes_def)
  next
    case 3
    then have step: "hard_loop request (b # cs) seen selected = hard_loop request cs seen selected"
      by (auto simp: filter_passes_def)
    show ?thesis
    proof (cases "c = b")
      case True
      then show ?thesis
        using 3 "2.prems"(4) kept [of selected cs seen] unfolding step by blast
    next
      case False
      then show ?thesis
        using 3 "2.IH"(2) "2.prems" unfolding step by (auto simp: filter_passes_def)
    qed
  next
    case 4
    then have new: "\<not> rc_score b < rq_min_score request" "\<not> (ustrip (rc_content b) = [] \<or> filter_key request b \<in> set seen)"
      by (auto simp: filter_passes_def)
    show ?thesis
    proof (cases "rq_candidate_limit request \<le> int (length (selected @ [b]))")
      case True
      then have "cs = []"
        using "2.prems"(3) by (cases cs) auto
      then show ?thesis
        using True new "2.prems"(1) by simp
    next
      case False
      then have step: "hard_loop request (b # cs) seen selected =
          hard_loop request cs (filter_key request b # seen) (selected @ [b])"
        using new by simp
      show ?thesis
      proof (cases "c = b")
        case True
        then show ?thesis
          using kept [of "selected @ [b]" cs "filter_key request b # seen"] unfolding step by auto
      next
        case c: False
        then show ?thesis
          using "2.IH"(3) [OF new False] "2.prems" unfolding step by auto
      qed
    qed
  qed
qed simp

text \<open>Requested documents that survive the filter.\<close>

lemma hard_filter_covers:
  assumes "hard_filter h q cs request = Inr (out, steps)" "int (length cs) \<le> rq_candidate_limit request"
    and "rq_document_ids request \<noteq> []" "c \<in> set cs" "filter_passes request c"
  shows "rc_document_id c \<in> documents out"
proof -
  have "filter_key request c \<in> filter_key request ` set out"
    using hard_loop_covers [of c cs request "[]" "[]"] assms by (auto simp: hard_filter_def dest!: stage_result_out)
  then show ?thesis
    using assms(3) by (auto simp: filter_key_def)
qed

lemma hard_filter_nonblank:
  assumes "hard_filter h q cs request = Inr (out, steps)" "c \<in> set out"
  shows "ustrip (rc_content c) \<noteq> []"
  using assms hard_loop_facts [of request cs "[]" "[]"] by (auto simp: hard_filter_def dest!: stage_result_out)

lemma feature_length:
  assumes "feature_reranker h q cs request = Inr (out, steps)" "distinct (chunk_ids cs)" "1 \<le> rq_top_k request"
  shows "int (length out) \<le> effective_feature_limit request"
proof (cases "cs = []")
  case True
  then show ?thesis
    using assms by (auto simp: feature_reranker_def effective_feature_limit_def dest!: stage_result_out)
next
  case False
  have "distinct (chunk_ids (sort_key by_score (feature_scored h q cs)))"
    unfolding feature_scored_def Let_def using assms(2) by (simp only: rescored(3) [OF chunk_core_updates(1)])
  then show ?thesis
    using False assms select_facts(2) [of "sort_key by_score (feature_scored h q cs)" "effective_feature_limit request"]
    by (auto simp: feature_reranker_def Let_def effective_feature_limit_def dest!: stage_result_out)
qed

text \<open>What the service sets up: no provider, or one with a valid configuration that falls back on errors.\<close>

definition semantic_ready :: "rag_query \<Rightarrow> (semantic_config \<times> provider) option \<Rightarrow> bool" where
  "semantic_ready request semantic \<longleftrightarrow> (case semantic of None \<Rightarrow> True | Some (g, provider) \<Rightarrow>
     check_semantic_config g = Inr g \<and> sc_fallback_on_error g \<and>
     effective_feature_limit request \<le> sc_max_candidates g)"

lemma semantic_ready_scorable:
  assumes "semantic_ready request (Some (g, provider))" "int (length cs) \<le> effective_feature_limit request"
    and "\<And>c. c \<in> set cs \<Longrightarrow> ustrip (rc_document_title c) \<noteq> [] \<and> ustrip (rc_content c) \<noteq> []"
  shows "scorable g request cs"
  using assms by (auto simp: semantic_ready_def scorable_def check_semantic_config_def rbind_Inr_iff split: if_splits)

text \<open>The middle of the chain: with or without the semantic stage.\<close>

lemma semantic_part:
  assumes "distinct (chunk_ids cs)" "1 \<le> rq_top_k request" "semantic_ready request semantic"
    and "int (length cs) \<le> effective_feature_limit request"
    and "\<And>c. c \<in> set cs \<Longrightarrow> ustrip (rc_document_title c) \<noteq> [] \<and> ustrip (rc_content c) \<noteq> []"
  obtains out new_steps where "picks out cs"
    "wide request \<Longrightarrow> set (rq_document_ids request) \<inter> documents cs \<subseteq> documents out"
    "\<And>stages steps. composite_loop ((case semantic of None \<Rightarrow> [] | Some (g, provider) \<Rightarrow> [semantic_reranker h g provider]) @ stages)
       q cs request steps = composite_loop stages q out request (steps @ new_steps)"
proof (cases semantic)
  case None
  then show ?thesis
    using that [of cs "[]"] picks_self [OF assms(1)] by simp
next
  case (Some gp)
  obtain g provider where gp: "gp = (g, provider)"
    by fastforce
  have "scorable g request cs"
    using assms(3-5) by (intro semantic_ready_scorable [of request g provider]) (auto simp: Some gp)
  from semantic.composite_step [OF assms(1,2) this, of h provider q]
  obtain out new_steps where out: "semantic_reranker h g provider q cs request = Inr (out, new_steps)" "picks out cs"
    "\<And>stages steps. composite_loop (semantic_reranker h g provider # stages) q cs request steps =
       composite_loop stages q out request (steps @ new_steps)"
    by metis
  then show ?thesis
    using that [of out new_steps] semantic.keeps_documents [OF assms(1,2) out(1)] by (simp add: Some gp)
qed

lemma default_chain:
  assumes "distinct (chunk_ids cs)" "1 \<le> rq_top_k request" "semantic_ready request semantic"
    and "\<And>c. c \<in> set cs \<Longrightarrow> ustrip (rc_document_title c) \<noteq> []"
  obtains filtered ranked steps fsteps where "hard_filter h q cs request = Inr (filtered, fsteps)"
    "composite_reranker (default_stages h w semantic) q cs request = Inr (ranked, steps)"
    "picks ranked cs" "int (length ranked) \<le> rq_top_k request"
    "wide request \<Longrightarrow> set (rq_document_ids request) \<inter> documents filtered \<subseteq> documents ranked"
proof -
  note top = assms(2)
  obtain out1 s1 where h1: "hard_filter h q cs request = Inr (out1, s1)" "picks out1 cs"
    "\<And>stages steps. composite_loop (hard_filter h # stages) q cs request steps = composite_loop stages q out1 request (steps @ s1)"
    using hard_filter.composite_step [OF assms(1) top TrueI] by metis
  then have d1: "distinct (chunk_ids out1)"
    by (simp add: picks_def)
  obtain out2 s2 where h2: "feature_reranker h q out1 request = Inr (out2, s2)" "picks out2 out1"
    "\<And>stages steps. composite_loop (feature_reranker h # stages) q out1 request steps = composite_loop stages q out2 request (steps @ s2)"
    using feature.composite_step [OF d1 top TrueI] by metis
  then have d2: "distinct (chunk_ids out2)"
    by (simp add: picks_def)
  have texts: "ustrip (rc_document_title c) \<noteq> [] \<and> ustrip (rc_content c) \<noteq> []" if "c \<in> set out2" for c
  proof -
    note mem = that
    obtain b where b: "b \<in> set out1" "chunk_core c = chunk_core b"
      by (rule picks_mem [OF h2(2) mem])
    obtain a where a: "a \<in> set cs" "chunk_core b = chunk_core a"
      by (rule picks_mem [OF h1(2) b(1)])
    show ?thesis
      using assms(4) [OF a(1)] hard_filter_nonblank [OF h1(1) b(1)] chunk_core_fields [OF b(2)] chunk_core_fields [OF a(2)] by simp
  qed
  obtain out3 s3 where h3: "picks out3 out2"
    "wide request \<Longrightarrow> set (rq_document_ids request) \<inter> documents out2 \<subseteq> documents out3"
    "\<And>stages steps. composite_loop ((case semantic of None \<Rightarrow> [] | Some (g, provider) \<Rightarrow> [semantic_reranker h g provider]) @ stages)
       q out2 request steps = composite_loop stages q out3 request (steps @ s3)"
    using semantic_part [OF d2 top assms(3) feature_length [OF h2(1) d1 top] texts] by metis
  then have d3: "distinct (chunk_ids out3)"
    by (simp add: picks_def)
  obtain out4 s4 where h4: "mmr_reranker h w q out3 request = Inr (out4, s4)" "picks out4 out3"
    "\<And>stages steps. composite_loop (mmr_reranker h w # stages) q out3 request steps = composite_loop stages q out4 request (steps @ s4)"
    using diversity.composite_step [OF d3 top TrueI] by metis
  then have d4: "distinct (chunk_ids out4)"
    by (simp add: picks_def)
  obtain out5 s5 where h5: "policy_selector h q out4 request = Inr (out5, s5)" "picks out5 out4"
    "\<And>stages steps. composite_loop (policy_selector h # stages) q out4 request steps = composite_loop stages q out5 request (steps @ s5)"
    using policy.composite_step [OF d4 top TrueI] by metis
  show ?thesis
  proof
    show "hard_filter h q cs request = Inr (out1, s1)"
      by (rule h1(1))
    show "composite_reranker (default_stages h w semantic) q cs request = Inr (out5, s1 @ s2 @ s3 @ s4 @ s5)"
      using h3(3) [of "[mmr_reranker h w, policy_selector h]"]
      by (simp add: composite_reranker_def default_stages_def h1(3) h2(3) h4(3) h5(3) del: composite_loop.simps(2))
    show "picks out5 cs"
      using h1(2) h2(2) h3(1) h4(2) h5(2) by (blast intro: picks_trans)
    have "out5 = policy_select out4 request"
      using h5(1) by (auto simp: policy_selector_def dest: stage_result_out)
    then show "int (length out5) \<le> rq_top_k request"
      using policy_select_facts(2) [OF d4 top] by simp
    assume w: "wide request"
    show "set (rq_document_ids request) \<inter> documents out1 \<subseteq> documents out5"
      using feature.keeps_documents [OF d1 top h2(1) w] h3(2) [OF w] diversity.keeps_documents [OF d3 top h4(1) w]
        policy.keeps_documents [OF d4 top h5(1) w] by blast
  qed
qed

lemma check_query_top: "check_query request = Inr request' \<Longrightarrow> 1 \<le> rq_top_k request"
  by (auto simp: check_query_def split: if_splits)

text \<open>
  C10. The default ranking stages always satisfy the contracts that are checked around them: for every
  valid request and every retrieved set within the limits, no stage and no check fails, whatever the
  scoring provider answers, and the ranking is a choice of at most \<open>top_k\<close> distinct retrieved chunks.
\<close>

theorem ranking_never_refused:
  assumes "check_query request = Inr request" "semantic_ready request semantic"
    and "distinct (chunk_ids cs)" "length cs \<le> 800" "\<And>c. c \<in> set cs \<Longrightarrow> rc_workspace_id c = workspace_id"
    and "\<And>c. c \<in> set cs \<Longrightarrow> ustrip (rc_document_title c) \<noteq> []"
  shows "\<exists>ranked. run_ranking (composite_reranker (default_stages h w semantic)) workspace_id
      (ustrip (rq_query request)) cs request = Inr ranked \<and>
    distinct (chunk_ids ranked) \<and> chunk_core ` set ranked \<subseteq> chunk_core ` set cs \<and> int (length ranked) \<le> rq_top_k request"
proof -
  obtain filtered ranked steps fsteps where r:
    "composite_reranker (default_stages h w semantic) (ustrip (rq_query request)) cs request = Inr (ranked, steps)"
    "picks ranked cs" "int (length ranked) \<le> rq_top_k request"
    using default_chain [OF assms(3) check_query_top [OF assms(1)] assms(2,6)] by metis
  have "validate_retrieved cs workspace_id = Inr ()"
    using assms(4,5) by (simp add: validate_retrieved_def list_all_iff ensure_def)
  moreover have "validate_ranked ranked cs request = Inr ()"
    using r(2,3) picks_ids [OF r(2)] by (simp add: validate_ranked_def picks_def ensure_def)
  ultimately show ?thesis
    using r by (auto simp: run_ranking_def ensure_def picks_def)
qed


end

