(* ===== verification/FusionFacts.thy ===== *)
theory FusionFacts
  imports RetrievalFacts
begin

text \<open>Reciprocal rank fusion: what it keeps, how its scores are bounded, and what the hard filter makes of them.\<close>

section \<open>The entries of a fusion\<close>

definition entry_ids :: "rrf_entry list \<Rightarrow> rid list" where
  "entry_ids es = map (rc_chunk_id \<circ> re_record) es"

definition entry_sources :: "rrf_entry \<Rightarrow> string set" where
  "entry_sources e = fst ` set (re_ranks e)"

text \<open>Each route contributes at most \<open>1 / (rank_constant + 1)\<close>, and at most once to a chunk.\<close>

definition entry_ok :: "int \<Rightarrow> rrf_entry \<Rightarrow> bool" where
  "entry_ok k e \<longleftrightarrow> 0 < re_contribution e \<and>
     re_contribution e \<le> of_nat (card (entry_sources e)) / of_int (k + 1)"

definition entries_ok :: "int \<Rightarrow> (string \<Rightarrow> rid set) \<Rightarrow> rrf_entry list \<Rightarrow> bool" where
  "entries_ok k seen es \<longleftrightarrow> distinct (entry_ids es) \<and>
     (\<forall>e \<in> set es. entry_ok k e \<and> (\<forall>s \<in> entry_sources e. rc_chunk_id (re_record e) \<in> seen s))"

lemma sources_set_rank: "fst ` set (set_rank s r x ranks) = insert s (fst ` set ranks)"
  by (force simp: set_rank_def)

lemma entry_sources_step [simp]:
  "entry_sources (e\<lparr>re_contribution := x, re_ranks := set_rank s r y (re_ranks e)\<rparr>) = insert s (entry_sources e)"
  by (simp add: entry_sources_def sources_set_rank)

lemma finite_sources [simp]: "finite (entry_sources e)"
  by (simp add: entry_sources_def)

lemma rrf_add_ids: "set (entry_ids (rrf_add k s r c es)) = insert (rc_chunk_id c) (set (entry_ids es))"
  by (induction k s r c es rule: rrf_add.induct) (auto simp: entry_ids_def)

lemma rrf_add_ok:
  assumes "entries_ok k seen es" "1 \<le> k" "1 \<le> r" "rc_chunk_id c \<notin> seen s"
  shows "entries_ok k (seen(s := insert (rc_chunk_id c) (seen s))) (rrf_add k s r c es)"
  using assms
proof (induction k s r c es rule: rrf_add.induct)
  case (1 k s r c)
  have "(1 :: rat) / of_int (k + r) \<le> 1 / of_int (k + 1)"
    using 1 by (intro divide_left_mono) auto
  then show ?case
    using 1 by (simp add: entries_ok_def entry_ids_def entry_ok_def entry_sources_def set_rank_def)
next
  case (2 k s r c e es)
  have step: "(1 :: rat) / of_int (k + r) \<le> 1 / of_int (k + 1)"
    using 2 by (intro divide_left_mono) auto
  show ?case
  proof (cases "rc_chunk_id (re_record e) = rc_chunk_id c")
    case True
    have "s \<notin> entry_sources e"
      using 2(2,5) True by (auto simp: entries_ok_def)
    then have "card (insert s (entry_sources e)) = card (entry_sources e) + 1"
      by simp
    moreover have "0 < re_contribution e" "re_contribution e \<le> of_nat (card (entry_sources e)) / of_int (k + 1)"
      using 2(2) by (auto simp: entries_ok_def entry_ok_def)
    ultimately have "entry_ok k (e\<lparr>re_contribution := re_contribution e + 1 / of_int (k + r),
        re_ranks := set_rank s r (rc_score c) (re_ranks e)\<rparr>)"
      using step 2(3,4) by (simp add: entry_ok_def add_divide_distrib add_pos_pos)
    then show ?thesis
      using 2(2) True by (auto simp: entries_ok_def entry_ids_def)
  next
    case False
    then have "entries_ok k (seen(s := insert (rc_chunk_id c) (seen s))) (rrf_add k s r c es)"
      using 2 by (intro "2.IH") (auto simp: entries_ok_def entry_ids_def)
    then show ?thesis
      using 2(2) False rrf_add_ids [of k s r c es] by (auto simp: entries_ok_def entry_ids_def)
  qed
qed

lemma rrf_route_ok:
  assumes "entries_ok k seen es" "1 \<le> k" "1 \<le> r" "distinct (chunk_ids cs)" "seen s \<inter> set (chunk_ids cs) = {}"
  shows "entries_ok k (seen(s := seen s \<union> set (chunk_ids cs))) (rrf_route k s r cs es) \<and>
    set (entry_ids (rrf_route k s r cs es)) = set (entry_ids es) \<union> set (chunk_ids cs)"
  using assms
proof (induction cs arbitrary: r es seen)
  case (Cons c cs)
  define seen' where "seen' = seen(s := insert (rc_chunk_id c) (seen s))"
  let ?es = "rrf_add k s r c es"
  have "entries_ok k seen' ?es"
    unfolding seen'_def using Cons.prems by (intro rrf_add_ok) auto
  moreover have "1 \<le> r + 1" "distinct (chunk_ids cs)" "seen' s \<inter> set (chunk_ids cs) = {}"
    using Cons.prems by (auto simp: seen'_def)
  ultimately have ih: "entries_ok k (seen'(s := seen' s \<union> set (chunk_ids cs))) (rrf_route k s (r + 1) cs ?es)"
    "set (entry_ids (rrf_route k s (r + 1) cs ?es)) = set (entry_ids ?es) \<union> set (chunk_ids cs)"
    using Cons.IH Cons.prems(2) by blast+
  moreover have "seen'(s := seen' s \<union> set (chunk_ids cs)) = seen(s := seen s \<union> set (chunk_ids (c # cs)))"
    by (auto simp: seen'_def)
  moreover have "set (entry_ids ?es) \<union> set (chunk_ids cs) = set (entry_ids es) \<union> set (chunk_ids (c # cs))"
    by (auto simp: rrf_add_ids)
  ultimately show ?case
    by (simp only: rrf_route.simps simp_thms)
qed simp

section \<open>What fusion returns\<close>

abbreviation two_routes :: "candidate list \<Rightarrow> candidate list \<Rightarrow> (string \<times> candidate list) list" where
  "two_routes semantic keyword \<equiv> [(''semantic'', semantic), (''keyword'', keyword)]"

lemma fuse_entries:
  assumes "distinct (chunk_ids semantic)" "distinct (chunk_ids keyword)" "1 \<le> k"
  obtains es where "reciprocal_rank_fuse (two_routes semantic keyword) k =
      Inr (sort_key by_score (map (fused_candidate (2 / of_int (k + 1))) es))"
    "distinct (entry_ids es)" "set (entry_ids es) = set (chunk_ids semantic) \<union> set (chunk_ids keyword)"
    "\<And>e. e \<in> set es \<Longrightarrow> entry_ok k e \<and> entry_sources e \<subseteq> {''semantic'', ''keyword''} \<and>
       (''semantic'' \<in> entry_sources e \<longrightarrow> rc_chunk_id (re_record e) \<in> set (chunk_ids semantic)) \<and>
       (''keyword'' \<in> entry_sources e \<longrightarrow> rc_chunk_id (re_record e) \<in> set (chunk_ids keyword))"
proof -
  let ?es1 = "rrf_route k ''semantic'' 1 semantic []"
  let ?es = "rrf_route k ''keyword'' 1 keyword ?es1"
  have "entries_ok k (\<lambda>_. {}) []"
    by (simp add: entries_ok_def entry_ids_def)
  from rrf_route_ok [OF this assms(3) _ assms(1), of 1 "''semantic''"]
  have one: "entries_ok k ((\<lambda>_. {})(''semantic'' := set (chunk_ids semantic))) ?es1"
    "set (entry_ids ?es1) = set (chunk_ids semantic)"
    by (auto simp: entry_ids_def)
  from rrf_route_ok [OF one(1) assms(3) _ assms(2), of 1 "''keyword''"]
  have two: "entries_ok k ((\<lambda>_. {})(''semantic'' := set (chunk_ids semantic), ''keyword'' := set (chunk_ids keyword))) ?es"
    "set (entry_ids ?es) = set (chunk_ids semantic) \<union> set (chunk_ids keyword)"
    using one(2) by auto
  show ?thesis
  proof
    show "reciprocal_rank_fuse (two_routes semantic keyword) k =
        Inr (sort_key by_score (map (fused_candidate (2 / of_int (k + 1))) ?es))"
      using assms(3) by (simp add: reciprocal_rank_fuse_def Let_def)
    show "distinct (entry_ids ?es)"
      using two(1) by (simp add: entries_ok_def)
    show "set (entry_ids ?es) = set (chunk_ids semantic) \<union> set (chunk_ids keyword)"
      by (rule two(2))
    fix e
    assume "e \<in> set ?es"
    with two(1) show "entry_ok k e \<and> entry_sources e \<subseteq> {''semantic'', ''keyword''} \<and>
       (''semantic'' \<in> entry_sources e \<longrightarrow> rc_chunk_id (re_record e) \<in> set (chunk_ids semantic)) \<and>
       (''keyword'' \<in> entry_sources e \<longrightarrow> rc_chunk_id (re_record e) \<in> set (chunk_ids keyword))"
      by (fastforce simp: entries_ok_def split: if_splits)
  qed
qed

lemma fused_fields [simp]:
  "rc_chunk_id (fused_candidate m e) = rc_chunk_id (re_record e)"
  "rc_score (fused_candidate m e) = min 1 (re_contribution e / m)"
  by (simp_all add: fused_candidate_def Let_def)

lemma entry_score:
  assumes "entry_ok k e" "card (entry_sources e) \<le> n" "1 \<le> k"
  shows "re_contribution e / (2 / of_int (k + 1)) \<le> of_nat n / 2" and "0 < re_contribution e / (2 / of_int (k + 1))"
proof -
  have pos: "(0 :: rat) < of_int (k + 1)"
    using assms(3) by simp
  have "re_contribution e \<le> of_nat (card (entry_sources e)) / of_int (k + 1)"
    using assms(1) by (simp add: entry_ok_def)
  also have "\<dots> \<le> of_nat n / of_int (k + 1)"
    using assms(2) pos by (intro divide_right_mono) auto
  finally have "re_contribution e \<le> of_nat n / of_int (k + 1)" .
  then show "re_contribution e / (2 / of_int (k + 1)) \<le> of_nat n / 2"
    using pos by (simp add: field_simps)
  show "0 < re_contribution e / (2 / of_int (k + 1))"
    using assms(1) pos by (simp add: entry_ok_def)
qed

text \<open>
  Fusion ranks exactly the chunks of the two routes, each once, in the order of their scores; a fused
  score is above 0 and at most 1, and at most one half for a chunk only one route found.
\<close>

theorem fusion_sound:
  assumes "distinct (chunk_ids semantic)" "distinct (chunk_ids keyword)" "1 \<le> k"
  shows "\<exists>out. reciprocal_rank_fuse (two_routes semantic keyword) k = Inr out \<and> distinct (chunk_ids out) \<and>
    set (chunk_ids out) = set (chunk_ids semantic) \<union> set (chunk_ids keyword) \<and> sorted (map by_score out) \<and>
    set out \<subseteq> {c. 0 < rc_score c \<and> rc_score c \<le> 1 \<and>
      (rc_chunk_id c \<notin> set (chunk_ids semantic) \<inter> set (chunk_ids keyword) \<longrightarrow> rc_score c \<le> 1/2)}"
proof -
  obtain es where es: "reciprocal_rank_fuse (two_routes semantic keyword) k =
      Inr (sort_key by_score (map (fused_candidate (2 / of_int (k + 1))) es))"
    "distinct (entry_ids es)" "set (entry_ids es) = set (chunk_ids semantic) \<union> set (chunk_ids keyword)"
    "\<And>e. e \<in> set es \<Longrightarrow> entry_ok k e \<and> entry_sources e \<subseteq> {''semantic'', ''keyword''} \<and>
       (''semantic'' \<in> entry_sources e \<longrightarrow> rc_chunk_id (re_record e) \<in> set (chunk_ids semantic)) \<and>
       (''keyword'' \<in> entry_sources e \<longrightarrow> rc_chunk_id (re_record e) \<in> set (chunk_ids keyword))"
    using fuse_entries [OF assms] by metis
  let ?m = "map (fused_candidate (2 / of_int (k + 1))) es"
  let ?out = "sort_key by_score ?m"
  have ids: "chunk_ids ?m = entry_ids es"
    by (simp add: entry_ids_def comp_def)
  have "distinct (chunk_ids ?out)"
    using es(2) unfolding ids [symmetric] by (metis distinct_map distinct_sort set_sort)
  moreover have "set (chunk_ids ?out) = set (chunk_ids semantic) \<union> set (chunk_ids keyword)"
    using es(3) unfolding ids [symmetric] by (simp add: image_image)
  moreover have "set ?out \<subseteq> {c. 0 < rc_score c \<and> rc_score c \<le> 1 \<and>
      (rc_chunk_id c \<notin> set (chunk_ids semantic) \<inter> set (chunk_ids keyword) \<longrightarrow> rc_score c \<le> 1/2)}"
  proof
    fix c
    assume "c \<in> set ?out"
    then obtain e where e: "e \<in> set es" "c = fused_candidate (2 / of_int (k + 1)) e"
      by auto
    note ok = es(4) [OF e(1)]
    have score: "rc_score c = min 1 (re_contribution e / (2 / of_int (k + 1)))"
      by (simp add: e(2))
    have half: "rc_score c \<le> 1/2" if "rc_chunk_id c \<notin> set (chunk_ids semantic) \<inter> set (chunk_ids keyword)"
    proof -
      have "entry_sources e \<subseteq> {''semantic''} \<or> entry_sources e \<subseteq> {''keyword''}"
        using ok that e(2) by auto
      then have "card (entry_sources e) \<le> 1"
        using card_mono [of "{''semantic''}" "entry_sources e"] card_mono [of "{''keyword''}" "entry_sources e"] by auto
      from entry_score(1) [OF conjunct1 [OF ok] this assms(3)] show ?thesis
        unfolding score by (simp only: of_nat_1 min.coboundedI2)
    qed
    have "0 < rc_score c" "rc_score c \<le> 1"
      using entry_score(2) [OF conjunct1 [OF ok] order_refl assms(3)] unfolding score by auto
    then show "c \<in> {c. 0 < rc_score c \<and> rc_score c \<le> 1 \<and>
      (rc_chunk_id c \<notin> set (chunk_ids semantic) \<inter> set (chunk_ids keyword) \<longrightarrow> rc_score c \<le> 1/2)}"
      using half by blast
  qed
  ultimately show ?thesis
    using es(1) by auto
qed

text \<open>
  The filter after the fusion reads the fused score as a relevance: with a minimum score above one
  half, nothing that only one of the two routes found passes it, however relevant that route found it.
\<close>

theorem single_route_filtered:
  assumes "distinct (chunk_ids semantic)" "distinct (chunk_ids keyword)"
    and "reciprocal_rank_fuse (two_routes semantic keyword) 60 = Inr out" "c \<in> set out"
    and "rc_chunk_id c \<notin> set (chunk_ids semantic) \<inter> set (chunk_ids keyword)" "1/2 < rq_min_score request"
  shows "\<not> filter_passes request c"
  using fusion_sound [OF assms(1,2), of 60] assms(3-6) by (auto simp: filter_passes_def)

section \<open>Samples\<close>

definition plain_rank_host :: rank_host where
  "plain_rank_host = \<lparr>rh_nfkc_casefold = id, rh_casefold = id, rh_str = (\<lambda>v. []), rh_elapsed = (\<lambda>s. 0)\<rparr>"

definition sample_trace :: candidate_trace where
  "sample_trace = \<lparr>ct_sources = [], ct_semantic_rank = None, ct_semantic_score = None, ct_keyword_rank = None,
     ct_keyword_score = None, ct_rrf_score = None, ct_feature_score = None, ct_cross_encoder_score = None,
     ct_fused_score = None, ct_mmr_score = None\<rparr>"

definition sample_candidate :: "rid \<Rightarrow> rid \<Rightarrow> rat \<Rightarrow> candidate" where
  "sample_candidate i d s = \<lparr>rc_chunk_id = i, rc_document_id = d, rc_workspace_id = 7, rc_source_artifact_id = 9,
     rc_document_title = utext ''Report'', rc_ordinal = i, rc_content = utext ''some text'', rc_content_hash = ''h'',
     rc_token_count = 3, rc_source_locator = [], rc_score = s, rc_trace = sample_trace\<rparr>"

definition sample_rag_query :: rag_query where
  "sample_rag_query = \<lparr>rq_query = utext ''text'', rq_top_k = 2, rq_candidate_limit = 50, rq_feature_limit = 30,
     rq_cross_encoder_limit = 16, rq_diversity_limit = 10, rq_token_budget = 4000, rq_document_ids = [21, 22],
     rq_min_score = 3/20, rq_neighbor_window = 1, rq_max_chunks_per_document = 3\<rparr>"

definition sample_candidates :: "candidate list" where
  "sample_candidates = [sample_candidate 1 21 (9/10), sample_candidate 2 21 (4/5), sample_candidate 3 22 (1/5)]"

definition sample_provider :: provider where
  "sample_provider query docs = Inl None"

definition sample_semantic :: "(semantic_config \<times> provider) option" where
  "sample_semantic = Some (\<lparr>sc_semantic_weight = 3/4, sc_retrieval_weight = 1/4, sc_max_candidates = 30,
     sc_max_content_chars = 3200, sc_max_heading_chars = 500, sc_fallback_on_error = True\<rparr>, sample_provider)"

lemma sample_rag_query_ok: "check_query sample_rag_query = Inr sample_rag_query"
  by code_simp

lemma sample_semantic_ready: "semantic_ready sample_rag_query sample_semantic"
  by code_simp

lemma sample_candidates_ok:
  "distinct (chunk_ids sample_candidates)" "length sample_candidates \<le> 800"
  "c \<in> set sample_candidates \<Longrightarrow> rc_workspace_id c = 7"
  "c \<in> set sample_candidates \<Longrightarrow> ustrip (rc_document_title c) \<noteq> []"
proof -
  show "distinct (chunk_ids sample_candidates)" "length sample_candidates \<le> 800"
    by code_simp+
  have "ustrip (utext ''Report'') \<noteq> []"
    by code_simp
  then show "c \<in> set sample_candidates \<Longrightarrow> rc_workspace_id c = 7"
    "c \<in> set sample_candidates \<Longrightarrow> ustrip (rc_document_title c) \<noteq> []"
    by (auto simp: sample_candidates_def sample_candidate_def)
qed

lemma ranking_never_refused_witness:
  "\<exists>ranked. run_ranking (composite_reranker (default_stages plain_rank_host (4/5) sample_semantic)) 7
      (ustrip (rq_query sample_rag_query)) sample_candidates sample_rag_query = Inr ranked \<and>
    distinct (chunk_ids ranked) \<and> chunk_core ` set ranked \<subseteq> chunk_core ` set sample_candidates \<and>
    int (length ranked) \<le> rq_top_k sample_rag_query"
  by (rule ranking_never_refused [OF sample_rag_query_ok sample_semantic_ready sample_candidates_ok])


lemma fusion_sound_witness:
  "\<exists>out. reciprocal_rank_fuse (two_routes sample_candidates [sample_candidate 3 22 1]) 60 = Inr out \<and> distinct (chunk_ids out) \<and>
    set (chunk_ids out) = set (chunk_ids sample_candidates) \<union> set (chunk_ids [sample_candidate 3 22 1]) \<and>
    sorted (map by_score out) \<and>
    set out \<subseteq> {c. 0 < rc_score c \<and> rc_score c \<le> 1 \<and>
      (rc_chunk_id c \<in> set (chunk_ids sample_candidates) \<inter> set (chunk_ids [sample_candidate 3 22 1]) \<or> rc_score c \<le> 1/2)}"
  using fusion_sound [OF sample_candidates_ok(1), of "[sample_candidate 3 22 1]" 60]
  by (simp add: subset_iff) blast

definition strict_request :: rag_query where
  "strict_request = sample_rag_query\<lparr>rq_min_score := 3/5\<rparr>"

lemma single_route_filtered_witness:
  "\<exists>c. reciprocal_rank_fuse (two_routes [sample_candidate 1 21 (9/10)] []) 60 = Inr [c] \<and> \<not> filter_passes strict_request c"
proof -
  obtain c where c: "reciprocal_rank_fuse (two_routes [sample_candidate 1 21 (9/10)] []) 60 = Inr [c]"
    by (simp add: reciprocal_rank_fuse_def)
  have "\<not> filter_passes strict_request c"
    by (rule single_route_filtered [OF _ _ c]) (simp_all add: strict_request_def)
  then show ?thesis
    using c by blast
qed

end
