(* ===== verification/ContextAssembly.thy ===== *)
theory ContextAssembly
  imports Ranking "HOL-Library.While_Combinator"
begin

text \<open>
  \<open>agent/rag/retrieval/stages.py\<close>: the evidence that goes into the model's context, cut to a token
  budget.  The two loops whose end is not structural are \<open>while_option\<close> loops, so that a loop that does
  not end is \<open>None\<close>; everything built on them returns an option.
\<close>

section \<open>Records\<close>

record neighbor =
  nb_chunk_id :: rid
  nb_document_id :: rid
  nb_ordinal :: int
  nb_content :: ustr
  nb_token_count :: int
  nb_source_locator :: locator

text \<open>The structured data of an element is the text \<open>json.dumps\<close> gives it, \<open>None\<close> for an empty dict.\<close>

record element_evidence =
  ee_chunk_id :: rid
  ee_element_id :: rid
  ee_element_type :: ustr
  ee_page_number :: int
  ee_caption_text :: ustr
  ee_ocr_text :: ustr
  ee_structured_data :: "ustr option"
  ee_derived_description :: ustr
  ee_confidence :: rat
  ee_asset_ids :: "rid list"

datatype chunk_role = Primary | Previous | Next

record context_chunk =
  cc_chunk_id :: rid
  cc_role :: chunk_role
  cc_ordinal :: int
  cc_content :: ustr
  cc_token_count :: int
  cc_source_locator :: locator
  cc_truncated :: bool

record context_element =
  ce_element_id :: rid
  ce_element_type :: ustr
  ce_page_number :: int
  ce_text :: ustr
  ce_confidence :: rat
  ce_asset_ids :: "rid list"
  ce_truncated :: bool

record context_item =
  ci_chunk_id :: rid
  ci_document_id :: rid
  ci_document_title :: ustr
  ci_source_artifact_id :: rid
  ci_score :: rat
  ci_chunks :: "context_chunk list"
  ci_elements :: "context_element list"
  ci_token_count :: int

record item_draft =
  dr_candidate :: candidate
  dr_chunks :: "context_chunk list"
  dr_elements :: "context_element list"

section \<open>A window around the query\<close>

text \<open>\<open>text[start : start + width]\<close> with its start.\<close>

definition window_start :: "int \<Rightarrow> int \<Rightarrow> ustr \<Rightarrow> int" where
  "window_start anchor width t = max 0 (min (anchor - width div 3) (int (length t) - width))"

definition window :: "int \<Rightarrow> int \<Rightarrow> ustr \<Rightarrow> ustr" where
  "window anchor width t = take (nat width) (drop (nat (window_start anchor width t)) t)"

text \<open>The bisection for the widest window within the budget.\<close>

definition window_step :: "ustr \<Rightarrow> int \<Rightarrow> int \<Rightarrow> int \<times> int \<Rightarrow> int \<times> int" where
  "window_step t anchor token_budget = (\<lambda>(low, high).
     let width = (low + high + 1) div 2
     in if estimate_tokens (window anchor width t) \<le> token_budget then (width, high) else (low, width - 1))"

definition window_size :: "ustr \<Rightarrow> int \<Rightarrow> int \<Rightarrow> int option" where
  "window_size t anchor token_budget =
     map_option fst (while_option (\<lambda>(low, high). low < high) (window_step t anchor token_budget) (1, int (length t)))"

abbreviation ellipsis :: ustr where
  "ellipsis \<equiv> [0x2026]"

text \<open>The last characters go until the text fits with its ellipses.\<close>

definition trim_window :: "ustr \<Rightarrow> ustr \<Rightarrow> int \<Rightarrow> ustr \<Rightarrow> ustr option" where
  "trim_window pre suf token_budget bounded =
     while_option (\<lambda>b. b \<noteq> [] \<and> token_budget < estimate_tokens (pre @ b @ suf))
       (\<lambda>b. urstrip (butlast b)) bounded"

definition query_anchor :: "rank_host \<Rightarrow> ustr \<Rightarrow> ustr \<Rightarrow> int" where
  "query_anchor h t query =
     (let terms = ustrip query # build_keyword_terms h query;
          positions = map (\<lambda>term. ufind (rh_casefold h term) (rh_casefold h t)) (filter (\<lambda>term. ustrip term \<noteq> []) terms)
      in case find (\<lambda>p. 0 \<le> p) positions of Some p \<Rightarrow> p | None \<Rightarrow> 0)"

definition query_aware_window :: "rank_host \<Rightarrow> ustr \<Rightarrow> ustr \<Rightarrow> int \<Rightarrow> ustr option" where
  "query_aware_window h t query token_budget =
     (if estimate_tokens t \<le> token_budget then Some t
      else let anchor = query_anchor h t query in
        Option.bind (window_size t anchor token_budget) (\<lambda>low.
        let start = window_start anchor low t;
            bounded = ustrip (window anchor low t);
            pre = (if 0 < start then ellipsis else []);
            suf = (if start + low < int (length t) then ellipsis else [])
        in map_option (\<lambda>b. pre @ b @ suf) (trim_window pre suf token_budget bounded)))"

definition bounded_text :: "rank_host \<Rightarrow> ustr \<Rightarrow> int \<Rightarrow> int \<Rightarrow> ustr \<Rightarrow> (ustr \<times> int \<times> bool) option" where
  "bounded_text h t estimated_tokens available query =
     (if estimated_tokens \<le> available then Some (t, estimated_tokens, False)
      else let bounded_tokens = max 1 available
           in map_option (\<lambda>b. (b, min bounded_tokens (estimate_tokens b), True))
                (query_aware_window h t query bounded_tokens))"

section \<open>Chunks and elements\<close>

definition context_chunk_of :: "rank_host \<Rightarrow> rid \<Rightarrow> chunk_role \<Rightarrow> int \<Rightarrow> ustr \<Rightarrow> int \<Rightarrow> locator \<Rightarrow> int \<Rightarrow> ustr \<Rightarrow>
    (context_chunk \<times> int) option" where
  "context_chunk_of h chunk_id role ordinal content token_count source_locator available query =
     map_option (\<lambda>(bounded, used, truncated).
         (\<lparr>cc_chunk_id = chunk_id, cc_role = role, cc_ordinal = ordinal, cc_content = bounded, cc_token_count = used,
           cc_source_locator = source_locator, cc_truncated = truncated\<rparr>, used))
       (bounded_text h content token_count available query)"

definition element_text :: "element_evidence \<Rightarrow> ustr" where
  "element_text e =
     (let parts = map ustrip (filter (\<lambda>v. ustrip v \<noteq> []) [ee_caption_text e, ee_ocr_text e, ee_derived_description e])
            @ (case ee_structured_data e of None \<Rightarrow> [] | Some dumped \<Rightarrow> [dumped]);
          joined = ujoin [10] (dedup parts)
      in take 16000 (if joined \<noteq> [] then joined else [91] @ ee_element_type e @ [93]))"

text \<open>What a longer chunk repeats of the previous one, at least 32 characters, is cut off.\<close>

definition remove_prefix_overlap :: "ustr \<Rightarrow> ustr \<Rightarrow> ustr" where
  "remove_prefix_overlap previous current =
     (if previous = [] \<or> current = [] then current
      else let maximum = min (min (length previous) (length current)) 1024 in
        case find (\<lambda>width. drop (length previous - width) previous = take width current) (rev [32 ..< maximum + 1]) of
          Some width \<Rightarrow> ulstrip (drop width current)
        | None \<Rightarrow> current)"

fun deduplicate_ordered :: "ustr \<Rightarrow> context_chunk list \<Rightarrow> context_chunk list" where
  "deduplicate_ordered previous [] = []"
| "deduplicate_ordered previous (c # cs) =
     (let content = remove_prefix_overlap previous (cc_content c) in
      if content = [] then deduplicate_ordered previous cs
      else c\<lparr>cc_content := content, cc_token_count := estimate_tokens content\<rparr> # deduplicate_ordered content cs)"

section \<open>The three rounds\<close>

text \<open>Round one: every main chunk gets its fair share.\<close>

fun primary_round :: "rank_host \<Rightarrow> ustr \<Rightarrow> int \<Rightarrow> candidate list \<Rightarrow> int \<Rightarrow> bool \<Rightarrow>
    (item_draft list \<times> int \<times> bool) option" where
  "primary_round h query cap [] remaining truncated = Some ([], remaining, truncated)"
| "primary_round h query cap (c # cs) remaining truncated =
     Option.bind (context_chunk_of h (rc_chunk_id c) Primary (rc_ordinal c) (rc_content c) (rc_token_count c)
         (rc_source_locator c) (min remaining cap) query) (\<lambda>(primary, consumed).
     map_option (\<lambda>(drafts, rest). (\<lparr>dr_candidate = c, dr_chunks = [primary], dr_elements = []\<rparr> # drafts, rest))
       (primary_round h query cap cs (remaining - consumed) (truncated \<or> cc_truncated primary)))"

text \<open>Round two: the neighbours of each candidate, nearest first.\<close>

fun neighbor_loop :: "rank_host \<Rightarrow> ustr \<Rightarrow> int \<Rightarrow> rid set \<Rightarrow> candidate \<Rightarrow> neighbor list \<Rightarrow>
    context_chunk list \<Rightarrow> rid set \<Rightarrow> int \<Rightarrow> bool \<Rightarrow> (context_chunk list \<times> rid set \<times> int \<times> bool) option" where
  "neighbor_loop h query cap primary_ids c [] chunks expanded remaining truncated =
     Some (chunks, expanded, remaining, truncated)"
| "neighbor_loop h query cap primary_ids c (n # ns) chunks expanded remaining truncated =
     (if nb_chunk_id n \<in> primary_ids \<or> nb_chunk_id n \<in> expanded \<or> nb_ordinal n = rc_ordinal c
      then neighbor_loop h query cap primary_ids c ns chunks expanded remaining truncated
      else if remaining < 32 then Some (chunks, expanded, remaining, True)
      else Option.bind (context_chunk_of h (nb_chunk_id n) (if nb_ordinal n < rc_ordinal c then Previous else Next)
             (nb_ordinal n) (nb_content n) (nb_token_count n) (nb_source_locator n) (min remaining cap) query)
        (\<lambda>(context, used). neighbor_loop h query cap primary_ids c ns (chunks @ [context])
           (insert (nb_chunk_id n) expanded) (remaining - used) (truncated \<or> cc_truncated context)))"

definition nearby :: "neighbor list \<Rightarrow> candidate \<Rightarrow> neighbor list" where
  "nearby neighbors c =
     sort_key (\<lambda>n. (\<bar>nb_ordinal n - rc_ordinal c\<bar>, nb_ordinal n))
       (filter (\<lambda>n. nb_document_id n = rc_document_id c) neighbors)"

fun neighbor_round :: "rank_host \<Rightarrow> ustr \<Rightarrow> int \<Rightarrow> rid set \<Rightarrow> neighbor list \<Rightarrow> item_draft list \<Rightarrow> rid set \<Rightarrow> int \<Rightarrow> bool \<Rightarrow>
    (item_draft list \<times> int \<times> bool) option" where
  "neighbor_round h query cap primary_ids neighbors [] expanded remaining truncated = Some ([], remaining, truncated)"
| "neighbor_round h query cap primary_ids neighbors (d # ds) expanded remaining truncated =
     Option.bind (neighbor_loop h query cap primary_ids (dr_candidate d) (nearby neighbors (dr_candidate d))
         (dr_chunks d) expanded remaining truncated) (\<lambda>(chunks, expanded, remaining, truncated).
     map_option (\<lambda>(drafts, rest). (d\<lparr>dr_chunks := chunks\<rparr> # drafts, rest))
       (neighbor_round h query cap primary_ids neighbors ds expanded remaining truncated))"

text \<open>Round three: the tables, formulas and images of each candidate.\<close>

fun element_loop :: "rank_host \<Rightarrow> ustr \<Rightarrow> int \<Rightarrow> element_evidence list \<Rightarrow> context_element list \<Rightarrow> int \<Rightarrow> bool \<Rightarrow>
    (context_element list \<times> int \<times> bool) option" where
  "element_loop h query cap [] elements remaining truncated = Some (elements, remaining, truncated)"
| "element_loop h query cap (e # es) elements remaining truncated =
     (if remaining < 16 then Some (elements, remaining, True)
      else let t = element_text e in
        Option.bind (bounded_text h t (estimate_tokens t) (min remaining cap) query) (\<lambda>(bounded, used, cut).
        element_loop h query cap es
          (elements @ [\<lparr>ce_element_id = ee_element_id e, ce_element_type = ee_element_type e,
             ce_page_number = ee_page_number e, ce_text = bounded, ce_confidence = ee_confidence e,
             ce_asset_ids = ee_asset_ids e, ce_truncated = cut\<rparr>])
          (remaining - used) (truncated \<or> cut)))"

fun element_round :: "rank_host \<Rightarrow> ustr \<Rightarrow> int \<Rightarrow> element_evidence list \<Rightarrow> item_draft list \<Rightarrow> int \<Rightarrow> bool \<Rightarrow>
    (item_draft list \<times> int \<times> bool) option" where
  "element_round h query cap elements [] remaining truncated = Some ([], remaining, truncated)"
| "element_round h query cap elements (d # ds) remaining truncated =
     Option.bind (element_loop h query cap (filter (\<lambda>e. ee_chunk_id e = rc_chunk_id (dr_candidate d)) elements)
         (dr_elements d) remaining truncated) (\<lambda>(found, remaining, truncated).
     map_option (\<lambda>(drafts, rest). (d\<lparr>dr_elements := found\<rparr> # drafts, rest))
       (element_round h query cap elements ds remaining truncated))"

definition item_of :: "item_draft \<Rightarrow> context_item" where
  "item_of d =
     (let ordered = deduplicate_ordered [] (dr_chunks d); c = dr_candidate d in
      \<lparr>ci_chunk_id = rc_chunk_id c, ci_document_id = rc_document_id c, ci_document_title = rc_document_title c,
       ci_source_artifact_id = rc_source_artifact_id c, ci_score = rc_score c, ci_chunks = ordered,
       ci_elements = dr_elements d,
       ci_token_count = sum_list (map cc_token_count ordered) + sum_list (map (estimate_tokens \<circ> ce_text) (dr_elements d))\<rparr>)"

definition active_candidates :: "candidate list \<Rightarrow> int \<Rightarrow> candidate list" where
  "active_candidates candidates token_budget = take (nat (max 1 (token_budget div 32))) candidates"

definition fair_share :: "candidate list \<Rightarrow> int \<Rightarrow> int" where
  "fair_share active token_budget = max 32 (token_budget div int (length active))"

definition build_context_items :: "rank_host \<Rightarrow> candidate list \<Rightarrow> neighbor list \<Rightarrow> element_evidence list \<Rightarrow> ustr \<Rightarrow> int \<Rightarrow>
    (context_item list \<times> int \<times> bool) option" where
  "build_context_items h candidates neighbors elements query token_budget =
     (if candidates = [] then Some ([], 0, False)
      else let primary_ids = set (map rc_chunk_id candidates);
               active = active_candidates candidates token_budget;
               share = fair_share active token_budget
        in Option.bind (primary_round h query share active token_budget (length active < length candidates))
             (\<lambda>(drafts, remaining, truncated).
           Option.bind (neighbor_round h query (max 32 (share div 2)) primary_ids neighbors drafts
               (set (map rc_chunk_id active)) remaining truncated) (\<lambda>(drafts, remaining, truncated).
           Option.bind (element_round h query (max 16 (share div 3)) elements drafts remaining truncated)
             (\<lambda>(drafts, remaining, truncated).
           let items = map item_of drafts
           in Some (items, sum_list (map ci_token_count items), truncated)))))"

end
