(* ===== verification/ContextFacts.thy ===== *)
theory ContextFacts
  imports ContextAssembly
begin

text \<open>
  The context never exceeds its token budget: the bisection ends with the widest window that fits, the
  trimming ends within the budget, and the three rounds account for every token they give out.
\<close>

section \<open>The widest window\<close>

lemma sublist_slice:
  assumes "j \<le> i" "i + n \<le> j + m"
  shows "sublist (take n (drop i t)) (take m (drop j t))"
proof -
  have "take n (drop i t) = take n (drop (i - j) (drop j t))"
    using assms(1) by simp
  also have "\<dots> = drop (i - j) (take (i - j + n) (drop j t))"
    by (simp add: take_drop ac_simps)
  also have "take (i - j + n) (drop j t) = take (i - j + n) (take m (drop j t))"
    using assms by (simp add: min_def)
  finally show ?thesis
    by (metis sublist_drop sublist_order.order_trans sublist_take)
qed

lemma window_nested:
  assumes "0 \<le> s" "s \<le> s'" "s' \<le> int (length t)"
  shows "sublist (window anchor s t) (window anchor s' t)"
proof -
  have "s div 3 \<le> s' div 3" "s' div 3 \<le> s div 3 + (s' - s)"
    using assms(1,2) by linarith+
  then have "window_start anchor s' t \<le> window_start anchor s t"
    "window_start anchor s t + s \<le> window_start anchor s' t + s'"
    using assms by (auto simp: window_start_def min_def max_def)
  moreover have "0 \<le> window_start anchor s' t"
    by (simp add: window_start_def)
  ultimately show ?thesis
    unfolding window_def using assms by (intro sublist_slice) linarith+
qed

definition fits :: "ustr \<Rightarrow> int \<Rightarrow> int \<Rightarrow> int \<Rightarrow> bool" where
  "fits t anchor token_budget s \<longleftrightarrow> estimate_tokens (window anchor s t) \<le> token_budget"

lemma fits_mono:
  "fits t anchor b s' \<Longrightarrow> 0 \<le> s \<Longrightarrow> s \<le> s' \<Longrightarrow> s' \<le> int (length t) \<Longrightarrow> fits t anchor b s"
  using estimate_sublist [OF window_nested, of s s' t anchor] by (simp add: fits_def)

lemma fits_one: "1 \<le> b \<Longrightarrow> fits t anchor b 1"
proof -
  assume "1 \<le> b"
  have "length (window anchor 1 t) \<le> 1"
    by (simp add: window_def)
  then have "estimate_tokens (window anchor 1 t) \<le> 1"
    using estimate_le_length [of "window anchor 1 t"] by linarith
  then show ?thesis
    using \<open>1 \<le> b\<close> by (simp add: fits_def)
qed

text \<open>
  C22. The bisection for the window ends, for every text, anchor and budget, and with the widest window
  that fits: the widths it skips are all too wide.
\<close>

theorem window_search_widest:
  assumes "1 \<le> token_budget" "t \<noteq> []"
  shows "window_size t anchor token_budget =
    Some (Max {s \<in> {1 .. int (length t)}. estimate_tokens (window anchor s t) \<le> token_budget})"
proof -
  let ?c = "window_step t anchor token_budget" and ?b = "\<lambda>(low, high :: int). low < high"
  let ?P = "\<lambda>(low, high). 1 \<le> low \<and> low \<le> high \<and> high \<le> int (length t) \<and> fits t anchor token_budget low \<and>
    (\<forall>s. high < s \<and> s \<le> int (length t) \<longrightarrow> \<not> fits t anchor token_budget s)"
  have step: "?P (?c st) \<and> nat (snd (?c st) - fst (?c st)) < nat (snd st - fst st)" if "?P st" "?b st" for st
  proof -
    obtain low high where st: "st = (low, high)"
      by fastforce
    let ?m = "(low + high + 1) div 2"
    have m: "low < ?m" "?m \<le> high"
      using that by (auto simp: st)
    show ?thesis
    proof (cases "fits t anchor token_budget ?m")
      case True
      then show ?thesis
        using that m by (auto simp: st window_step_def Let_def fits_def)
    next
      case False
      have "\<not> fits t anchor token_budget s" if "?m - 1 < s" "s \<le> int (length t)" for s
        using False fits_mono [of t anchor token_budget s ?m] that m \<open>?P st\<close> by (auto simp: st)
      then show ?thesis
        using that m False by (auto simp: st window_step_def Let_def fits_def)
    qed
  qed
  have init: "?P (1, int (length t))"
    using assms fits_one by (auto simp: Suc_le_eq)
  have "\<exists>st. while_option ?b ?c (1, int (length t)) = Some st"
    by (rule measure_while_option_Some [of ?P ?b ?c "\<lambda>st. nat (snd st - fst st)", OF step init])
  then obtain low high where w: "while_option ?b ?c (1, int (length t)) = Some (low, high)"
    by (metis surj_pair)
  have "?P (low, high)"
    by (rule while_option_rule [of ?P ?b ?c, OF step [THEN conjunct1] w init])
  moreover have "\<not> low < high"
    using while_option_stop [OF w] by simp
  ultimately have low: "1 \<le> low" "low \<le> int (length t)" "fits t anchor token_budget low"
    "\<And>s. low < s \<Longrightarrow> s \<le> int (length t) \<Longrightarrow> \<not> fits t anchor token_budget s"
    by auto
  have "Max {s \<in> {1 .. int (length t)}. fits t anchor token_budget s} = low"
  proof (rule Max_eqI)
    show "finite {s \<in> {1 .. int (length t)}. fits t anchor token_budget s}"
      by (rule finite_subset [of _ "{1 .. int (length t)}"]) auto
    show "s \<le> low" if "s \<in> {s \<in> {1 .. int (length t)}. fits t anchor token_budget s}" for s
      using low(4) [of s] that by force
    show "low \<in> {s \<in> {1 .. int (length t)}. fits t anchor token_budget s}"
      using low(1-3) by simp
  qed
  then show ?thesis
    by (simp add: window_size_def w fits_def)
qed

section \<open>Trimming\<close>

lemma trim_window_fits:
  assumes "estimate_tokens (pre @ suf) \<le> token_budget"
  shows "\<exists>b. trim_window pre suf token_budget bounded = Some b \<and> estimate_tokens (pre @ b @ suf) \<le> token_budget"
proof -
  let ?b = "\<lambda>b. b \<noteq> [] \<and> token_budget < estimate_tokens (pre @ b @ suf)" and ?c = "\<lambda>b. urstrip (butlast b)"
  have shorter: "length (?c b) < length b" if "?b b" for b
    using that prefix_length_le [OF prefix_urstrip, of "butlast b"] by (cases b) auto
  obtain b where b: "while_option ?b ?c bounded = Some b"
    using measure_while_option_Some [of "\<lambda>_. True" ?b ?c length bounded] shorter by blast
  have "\<not> ?b b"
    by (rule while_option_stop [OF b])
  then have "estimate_tokens (pre @ b @ suf) \<le> token_budget"
    using assms by (cases "b = []") auto
  then show ?thesis
    using b by (auto simp: trim_window_def)
qed

lemma ellipses_small: "pre \<in> {[], ellipsis} \<Longrightarrow> suf \<in> {[], ellipsis} \<Longrightarrow> estimate_tokens (pre @ suf) \<le> 1"
  by (auto simp: estimate_alt is_cjk_def)

lemma query_window_fits:
  assumes "1 \<le> token_budget"
  shows "\<exists>w. query_aware_window h t query token_budget = Some w \<and> estimate_tokens w \<le> token_budget"
proof (cases "estimate_tokens t \<le> token_budget")
  case True
  then show ?thesis
    by (simp add: query_aware_window_def)
next
  case False
  then have "t \<noteq> []"
    using assms by auto
  then obtain low where low: "window_size t (query_anchor h t query) token_budget = Some low"
    using window_search_widest [OF assms] by blast
  let ?a = "query_anchor h t query"
  let ?pre = "if 0 < window_start ?a low t then ellipsis else []"
  let ?suf = "if window_start ?a low t + low < int (length t) then ellipsis else []"
  have "estimate_tokens (?pre @ ?suf) \<le> token_budget"
    using ellipses_small [of ?pre ?suf] assms by auto
  from trim_window_fits [OF this, of "ustrip (window ?a low t)"] show ?thesis
    using False low by (auto simp: query_aware_window_def Let_def)
qed

text \<open>A text cut to what is available is charged at least what it holds.\<close>

lemma bounded_text_fits:
  assumes "1 \<le> available" "estimate_tokens t \<le> estimated"
  obtains b used cut where "bounded_text h t estimated available query = Some (b, used, cut)"
    "estimate_tokens b \<le> used" "used \<le> available"
proof (cases "estimated \<le> available")
  case True
  then show ?thesis
    using that [of t estimated False] assms(2) by (simp add: bounded_text_def)
next
  case False
  obtain w where "query_aware_window h t query available = Some w" "estimate_tokens w \<le> available"
    using query_window_fits [OF assms(1)] by blast
  then show ?thesis
    using that [of w "min available (estimate_tokens w)" True] False assms(1) by (simp add: bounded_text_def max_def)
qed

section \<open>The rounds\<close>

text \<open>The recorded count of a text covers its estimate, as it does for every chunk that was indexed.\<close>

definition counted :: "candidate list \<Rightarrow> neighbor list \<Rightarrow> bool" where
  "counted cs ns \<longleftrightarrow> (\<forall>c \<in> set cs. estimate_tokens (rc_content c) \<le> rc_token_count c) \<and>
     (\<forall>n \<in> set ns. estimate_tokens (nb_content n) \<le> nb_token_count n)"

definition chunks_ok :: "context_chunk list \<Rightarrow> bool" where
  "chunks_ok ccs \<longleftrightarrow> (\<forall>c \<in> set ccs. estimate_tokens (cc_content c) \<le> cc_token_count c)"

abbreviation chunk_cost :: "context_chunk list \<Rightarrow> int" where
  "chunk_cost ccs \<equiv> sum_list (map cc_token_count ccs)"

abbreviation element_cost :: "context_element list \<Rightarrow> int" where
  "element_cost es \<equiv> sum_list (map (estimate_tokens \<circ> ce_text) es)"

definition draft_cost :: "item_draft \<Rightarrow> int" where
  "draft_cost d = chunk_cost (dr_chunks d) + element_cost (dr_elements d)"

lemma draft_cost_updates [simp]:
  "draft_cost (d\<lparr>dr_chunks := x\<rparr>) = chunk_cost x + element_cost (dr_elements d)"
  "draft_cost (d\<lparr>dr_elements := y\<rparr>) = chunk_cost (dr_chunks d) + element_cost y"
  "draft_cost \<lparr>dr_candidate = c, dr_chunks = x, dr_elements = y\<rparr> = chunk_cost x + element_cost y"
  by (simp_all add: draft_cost_def)

abbreviation cost :: "item_draft list \<Rightarrow> int" where
  "cost ds \<equiv> sum_list (map draft_cost ds)"

definition drafts_ok :: "item_draft list \<Rightarrow> bool" where
  "drafts_ok ds \<longleftrightarrow> (\<forall>d \<in> set ds. chunks_ok (dr_chunks d))"

lemma context_chunk_fits:
  assumes "1 \<le> available" "estimate_tokens t \<le> token_count"
  obtains c used where "context_chunk_of h i role ordinal t token_count loc available query = Some (c, used)"
    "estimate_tokens (cc_content c) \<le> cc_token_count c" "cc_token_count c = used" "used \<le> available"
proof -
  obtain b used cut where b: "bounded_text h t token_count available query = Some (b, used, cut)"
    "estimate_tokens b \<le> used" "used \<le> available"
    by (rule bounded_text_fits [OF assms])
  show ?thesis
    by (rule that [of "\<lparr>cc_chunk_id = i, cc_role = role, cc_ordinal = ordinal, cc_content = b, cc_token_count = used,
      cc_source_locator = loc, cc_truncated = cut\<rparr>" used]) (simp_all add: context_chunk_of_def b)
qed

lemma primary_round_facts:
  assumes "1 \<le> cap" "int (length cs) * cap \<le> remaining" "counted cs []"
  shows "\<exists>ds rest truncated'. primary_round h query cap cs remaining truncated = Some (ds, rest, truncated') \<and>
    cost ds + rest = remaining \<and> 0 \<le> rest \<and> drafts_ok ds \<and> map dr_candidate ds = cs"
  using assms
proof (induction cs arbitrary: remaining truncated)
  case Nil
  then show ?case
    by (simp add: drafts_ok_def)
next
  case (Cons c cs)
  have "0 \<le> int (length cs) * cap"
    using Cons.prems(1) by simp
  then have room: "cap \<le> remaining"
    using Cons.prems(2) by (simp add: distrib_right)
  then have "1 \<le> min remaining cap"
    using Cons.prems(1) by simp
  moreover have "estimate_tokens (rc_content c) \<le> rc_token_count c"
    using Cons.prems(3) by (simp add: counted_def)
  ultimately obtain p used where p: "context_chunk_of h (rc_chunk_id c) Primary (rc_ordinal c) (rc_content c)
      (rc_token_count c) (rc_source_locator c) (min remaining cap) query = Some (p, used)"
    "estimate_tokens (cc_content p) \<le> cc_token_count p" "cc_token_count p = used" "used \<le> min remaining cap"
    by (rule context_chunk_fits)
  have "int (length cs) * cap \<le> remaining - used"
    using Cons.prems(2) p(4) by (simp add: distrib_right)
  moreover have "counted cs []"
    using Cons.prems(3) by (simp add: counted_def)
  ultimately obtain ds rest truncated' where "primary_round h query cap cs (remaining - used) (truncated \<or> cc_truncated p) =
      Some (ds, rest, truncated')" "cost ds + rest = remaining - used" "0 \<le> rest" "drafts_ok ds" "map dr_candidate ds = cs"
    using Cons.IH [OF Cons.prems(1)] by blast
  then show ?case
    using p by (auto simp: drafts_ok_def chunks_ok_def)
qed

lemma neighbor_loop_facts:
  assumes "1 \<le> cap" "0 \<le> remaining" "counted [] ns" "chunks_ok chunks"
  shows "\<exists>chunks' expanded' rest truncated'.
    neighbor_loop h query cap primary_ids c ns chunks expanded remaining truncated = Some (chunks', expanded', rest, truncated') \<and>
    chunk_cost chunks' + rest = chunk_cost chunks + remaining \<and> 0 \<le> rest \<and> chunks_ok chunks'"
  using assms
proof (induction ns arbitrary: chunks expanded remaining truncated)
  case (Cons n ns)
  have rest: "counted [] ns" "estimate_tokens (nb_content n) \<le> nb_token_count n"
    using Cons.prems(3) by (auto simp: counted_def)
  show ?case
  proof (cases "(nb_chunk_id n \<in> primary_ids \<or> nb_chunk_id n \<in> expanded \<or> nb_ordinal n = rc_ordinal c) \<or> remaining < 32")
    case True
    then show ?thesis
      using Cons.IH [OF Cons.prems(1,2) rest(1) Cons.prems(4)] Cons.prems by auto
  next
    case False
    then have "1 \<le> min remaining cap"
      using Cons.prems(1) by simp
    then obtain p used where p: "context_chunk_of h (nb_chunk_id n) (if nb_ordinal n < rc_ordinal c then Previous else Next)
        (nb_ordinal n) (nb_content n) (nb_token_count n) (nb_source_locator n) (min remaining cap) query = Some (p, used)"
      "estimate_tokens (cc_content p) \<le> cc_token_count p" "cc_token_count p = used" "used \<le> min remaining cap"
      by (rule context_chunk_fits [OF _ rest(2)])
    have "chunks_ok (chunks @ [p])" "0 \<le> remaining - used"
      using p Cons.prems(4) by (auto simp: chunks_ok_def)
    from Cons.IH [OF Cons.prems(1) this(2) rest(1) this(1)]
    obtain chunks' expanded' rest' truncated' where "neighbor_loop h query cap primary_ids c ns (chunks @ [p])
        (insert (nb_chunk_id n) expanded) (remaining - used) (truncated \<or> cc_truncated p) =
          Some (chunks', expanded', rest', truncated')"
      "chunk_cost chunks' + rest' = chunk_cost (chunks @ [p]) + (remaining - used)" "0 \<le> rest'" "chunks_ok chunks'"
      by blast
    then show ?thesis
      using False p by simp
  qed
qed simp

lemma neighbor_round_facts:
  assumes "1 \<le> cap" "0 \<le> remaining" "counted [] ns" "drafts_ok ds"
  shows "\<exists>ds' rest truncated'.
    neighbor_round h query cap primary_ids ns ds expanded remaining truncated = Some (ds', rest, truncated') \<and>
    cost ds' + rest = cost ds + remaining \<and> 0 \<le> rest \<and> drafts_ok ds' \<and> map dr_candidate ds' = map dr_candidate ds"
  using assms
proof (induction ds arbitrary: expanded remaining truncated)
  case (Cons d ds)
  have near: "counted [] (nearby ns (dr_candidate d))"
    using Cons.prems(3) by (auto simp: counted_def nearby_def)
  have ok: "chunks_ok (dr_chunks d)" "drafts_ok ds"
    using Cons.prems(4) by (auto simp: drafts_ok_def)
  obtain chunks expanded' rest truncated' where l:
    "neighbor_loop h query cap primary_ids (dr_candidate d) (nearby ns (dr_candidate d)) (dr_chunks d) expanded
       remaining truncated = Some (chunks, expanded', rest, truncated')"
    "chunk_cost chunks + rest = chunk_cost (dr_chunks d) + remaining" "0 \<le> rest" "chunks_ok chunks"
    using neighbor_loop_facts [OF Cons.prems(1,2) near ok(1)] by blast
  obtain ds' rest' truncated'' where r:
    "neighbor_round h query cap primary_ids ns ds expanded' rest truncated' = Some (ds', rest', truncated'')"
    "cost ds' + rest' = cost ds + rest" "0 \<le> rest'" "drafts_ok ds'" "map dr_candidate ds' = map dr_candidate ds"
    using Cons.IH [OF Cons.prems(1) l(3) Cons.prems(3) ok(2)] by blast
  then show ?case
    using l by (auto simp: drafts_ok_def draft_cost_def [of d])
qed (simp add: drafts_ok_def)

lemma element_loop_facts:
  assumes "1 \<le> cap" "0 \<le> remaining"
  shows "\<exists>found rest truncated'. element_loop h query cap es elements remaining truncated = Some (found, rest, truncated') \<and>
    element_cost found + rest \<le> element_cost elements + remaining \<and> 0 \<le> rest"
  using assms
proof (induction es arbitrary: elements remaining truncated)
  case (Cons e es)
  show ?case
  proof (cases "remaining < 16")
    case True
    then show ?thesis
      using Cons.prems by auto
  next
    case False
    then have "1 \<le> min remaining cap"
      using Cons.prems(1) by simp
    then obtain b used cut where b: "bounded_text h (element_text e) (estimate_tokens (element_text e))
        (min remaining cap) query = Some (b, used, cut)" "estimate_tokens b \<le> used" "used \<le> min remaining cap"
      by (rule bounded_text_fits [OF _ order_refl])
    let ?new = "\<lparr>ce_element_id = ee_element_id e, ce_element_type = ee_element_type e,
       ce_page_number = ee_page_number e, ce_text = b, ce_confidence = ee_confidence e,
       ce_asset_ids = ee_asset_ids e, ce_truncated = cut\<rparr>"
    have "0 \<le> remaining - used"
      using b(3) by simp
    from Cons.IH [OF Cons.prems(1) this, of "elements @ [?new]" "truncated \<or> cut"]
    show ?thesis
      using False b(1,2) by (auto simp: Let_def)
  qed
qed simp

lemma element_round_facts:
  assumes "1 \<le> cap" "0 \<le> remaining" "drafts_ok ds"
  shows "\<exists>ds' rest truncated'. element_round h query cap es ds remaining truncated = Some (ds', rest, truncated') \<and>
    cost ds' + rest \<le> cost ds + remaining \<and> 0 \<le> rest \<and> drafts_ok ds' \<and> map dr_candidate ds' = map dr_candidate ds"
  using assms
proof (induction ds arbitrary: remaining truncated)
  case (Cons d ds)
  let ?es = "filter (\<lambda>e. ee_chunk_id e = rc_chunk_id (dr_candidate d)) es"
  obtain found rest truncated' where l: "element_loop h query cap ?es (dr_elements d) remaining truncated =
      Some (found, rest, truncated')" "element_cost found + rest \<le> element_cost (dr_elements d) + remaining" "0 \<le> rest"
    using element_loop_facts [OF Cons.prems(1,2)] by blast
  have ok: "drafts_ok ds" "chunks_ok (dr_chunks d)"
    using Cons.prems(3) by (auto simp: drafts_ok_def)
  obtain ds' rest' truncated'' where r: "element_round h query cap es ds rest truncated' = Some (ds', rest', truncated'')"
    "cost ds' + rest' \<le> cost ds + rest" "0 \<le> rest'" "drafts_ok ds'" "map dr_candidate ds' = map dr_candidate ds"
    using Cons.IH [OF Cons.prems(1) l(3) ok(1)] by blast
  then show ?case
    using l ok by (auto simp: drafts_ok_def draft_cost_def [of d])
qed (simp add: drafts_ok_def)

section \<open>The whole context\<close>

lemma remove_overlap_small: "estimate_tokens (remove_prefix_overlap previous current) \<le> estimate_tokens current"
proof -
  have "sublist (ulstrip (drop k current)) current" for k
    by (meson sublist_drop sublist_order.order_trans suffix_imp_sublist suffix_ulstrip)
  then show ?thesis
    by (auto simp: remove_prefix_overlap_def Let_def split: option.split intro: estimate_sublist)
qed

lemma deduplicate_cost: "chunks_ok ccs \<Longrightarrow> chunk_cost (deduplicate_ordered previous ccs) \<le> chunk_cost ccs"
proof (induction previous ccs rule: deduplicate_ordered.induct)
  case (2 previous c ccs)
  have "estimate_tokens (cc_content c) \<le> cc_token_count c" "chunks_ok ccs"
    using 2(3) by (auto simp: chunks_ok_def)
  moreover have "0 \<le> cc_token_count c"
    using calculation(1) estimate_nonneg [of "cc_content c"] by linarith
  ultimately show ?case
    using 2(1,2) remove_overlap_small [of previous "cc_content c"] by (fastforce simp: Let_def)
qed simp

lemma item_cost: "chunks_ok (dr_chunks d) \<Longrightarrow> ci_token_count (item_of d) \<le> draft_cost d"
  using deduplicate_cost [of "dr_chunks d" "[]"] by (simp add: item_of_def Let_def draft_cost_def comp_def)

lemma fair_share_fits:
  assumes "32 \<le> token_budget" "cs \<noteq> []"
  shows "int (length (active_candidates cs token_budget)) * fair_share (active_candidates cs token_budget) token_budget
    \<le> token_budget"
proof -
  let ?n = "int (length (active_candidates cs token_budget))"
  have n: "1 \<le> ?n" "?n \<le> token_budget div 32"
    using assms by (auto simp: active_candidates_def Suc_le_eq min_def)
  have "?n * 32 \<le> token_budget"
    using n(2) by linarith
  then have "?n * 32 div ?n \<le> token_budget div ?n"
    using n(1) by (intro zdiv_mono1) auto
  then have "32 \<le> token_budget div ?n"
    using n(1) by (simp split: if_splits)
  then have "?n * fair_share (active_candidates cs token_budget) token_budget = ?n * (token_budget div ?n)"
    by (simp add: fair_share_def max_def)
  also have "\<dots> \<le> token_budget"
    using n(1) pos_mod_sign [of ?n token_budget] mult_div_mod_eq [of ?n token_budget] by linarith
  finally show ?thesis .
qed

text \<open>
  C8. The context that is assembled for the model never exceeds its token budget: for every query and all
  evidence whose recorded counts cover their estimates, assembly ends, the counted tokens are within the
  budget, and the items are the best candidates in their order.
\<close>

theorem context_within_budget:
  assumes "32 \<le> token_budget" "counted candidates neighbors"
  shows "\<exists>items total truncated. build_context_items h candidates neighbors elements query token_budget =
      Some (items, total, truncated) \<and> total \<le> token_budget \<and> total = sum_list (map ci_token_count items) \<and>
    map ci_chunk_id items = map rc_chunk_id (active_candidates candidates token_budget)"
proof (cases "candidates = []")
  case True
  then show ?thesis
    using assms(1) by (auto simp: build_context_items_def active_candidates_def)
next
  case False
  let ?active = "active_candidates candidates token_budget"
  let ?share = "fair_share ?active token_budget"
  have share: "1 \<le> ?share"
    by (simp add: fair_share_def)
  have counts: "counted ?active []" "counted [] neighbors"
    using assms(2) by (auto simp: counted_def active_candidates_def dest: in_set_takeD)
  obtain ds1 r1 t1 where one: "primary_round h query ?share ?active token_budget (length ?active < length candidates) =
      Some (ds1, r1, t1)" "cost ds1 + r1 = token_budget" "0 \<le> r1" "drafts_ok ds1" "map dr_candidate ds1 = ?active"
    using primary_round_facts [OF share fair_share_fits [OF assms(1) False] counts(1)] by blast
  have caps: "1 \<le> max 32 (?share div 2)" "1 \<le> max 16 (?share div 3)"
    by simp_all
  obtain ds2 r2 t2 where two: "neighbor_round h query (max 32 (?share div 2)) (set (map rc_chunk_id candidates)) neighbors
      ds1 (set (map rc_chunk_id ?active)) r1 t1 = Some (ds2, r2, t2)"
    "cost ds2 + r2 = cost ds1 + r1" "0 \<le> r2" "drafts_ok ds2" "map dr_candidate ds2 = map dr_candidate ds1"
    using neighbor_round_facts [OF caps(1) one(3) counts(2) one(4)] by blast
  obtain ds3 r3 t3 where three: "element_round h query (max 16 (?share div 3)) elements ds2 r2 t2 = Some (ds3, r3, t3)"
    "cost ds3 + r3 \<le> cost ds2 + r2" "0 \<le> r3" "drafts_ok ds3" "map dr_candidate ds3 = map dr_candidate ds2"
    using element_round_facts [OF caps(2) two(3,4)] by blast
  let ?items = "map item_of ds3"
  have "build_context_items h candidates neighbors elements query token_budget =
      Some (?items, sum_list (map ci_token_count ?items), t3)"
    using False one(1) two(1) three(1) by (simp add: build_context_items_def Let_def)
  moreover have "sum_list (map ci_token_count ?items) \<le> cost ds3"
    using three(4) item_cost by (auto simp: drafts_ok_def comp_def intro!: sum_list_mono)
  then have "sum_list (map ci_token_count ?items) \<le> token_budget"
    using one(2) two(2) three(2,3) by linarith
  moreover have "map ci_chunk_id ?items = map rc_chunk_id (map dr_candidate ds3)"
    by (simp add: item_of_def Let_def)
  then have "map ci_chunk_id ?items = map rc_chunk_id ?active"
    unfolding three(5) two(5) one(5) .
  ultimately show ?thesis
    by blast
qed

section \<open>Samples\<close>

definition sample_host :: rank_host where
  "sample_host = \<lparr>rh_nfkc_casefold = (\<lambda>t. t), rh_casefold = (\<lambda>t. t), rh_str = (\<lambda>v. []), rh_elapsed = (\<lambda>s. 0)\<rparr>"

definition long_candidate :: candidate where
  "long_candidate = \<lparr>rc_chunk_id = 1, rc_document_id = 21, rc_workspace_id = 7, rc_source_artifact_id = 9,
     rc_document_title = utext ''Report'', rc_ordinal = 1, rc_content = replicate 40 0x4e00, rc_content_hash = ''h'',
     rc_token_count = 40, rc_source_locator = [], rc_score = 1,
     rc_trace = \<lparr>ct_sources = [], ct_semantic_rank = None, ct_semantic_score = None, ct_keyword_rank = None,
       ct_keyword_score = None, ct_rrf_score = None, ct_feature_score = None, ct_cross_encoder_score = None,
       ct_fused_score = None, ct_mmr_score = None\<rparr>\<rparr>"

definition sample_neighbor :: neighbor where
  "sample_neighbor = \<lparr>nb_chunk_id = 2, nb_document_id = 21, nb_ordinal = 2, nb_content = utext ''some text'',
     nb_token_count = 3, nb_source_locator = []\<rparr>"

lemma sample_counted: "counted [long_candidate] [sample_neighbor]"
  by (simp add: counted_def long_candidate_def sample_neighbor_def) code_simp

lemma context_within_budget_witness:
  "\<exists>items total truncated. build_context_items sample_host [long_candidate] [sample_neighbor] [] (utext ''text'') 32 =
      Some (items, total, truncated) \<and> total \<le> 32 \<and> total = sum_list (map ci_token_count items) \<and>
    map ci_chunk_id items = map rc_chunk_id (active_candidates [long_candidate] 32)"
  by (rule context_within_budget [OF _ sample_counted]) simp

lemma window_search_widest_witness:
  "window_size (utext ''a text of some length'') 2 3 =
    Some (Max {s \<in> {1 .. int (length (utext ''a text of some length''))}.
      estimate_tokens (window 2 s (utext ''a text of some length'')) \<le> 3})"
  by (rule window_search_widest) (simp_all add: utext_def)

end
