(* ===== verification/EffectGuard.thy ===== *)
theory EffectGuard
  imports ToolGateway
begin

text \<open>
  \<open>agent/core/effect_guard.py\<close>: which tools a goal and an intent require, and whether the observations
  of the run, the recorded tool results, are evidence enough to finish.

  The regular expressions that read a goal (Chinese and English phrases) are parameters, one predicate
  per expression or group; \<open>NFKC\<close>, \<open>casefold\<close> and \<open>str()\<close> of numbers and containers are the interpreter's.
  Names of tools are texts, so the \<open>TypeError\<close> of looking an unhashable name up in a set does not occur.
\<close>

record goal_rules =
  gr_tool_directive :: "string \<Rightarrow> string \<Rightarrow> bool"
  gr_create_directive :: "string \<Rightarrow> bool"
  gr_conditional_existence :: "string \<Rightarrow> bool"
  gr_no_overwrite :: "string \<Rightarrow> bool"
  gr_exclusive_effect :: "string \<Rightarrow> bool"
  gr_path_candidates :: "string \<Rightarrow> string list"
  gr_content_search :: "string \<Rightarrow> bool"
  gr_collection_strong :: "string \<Rightarrow> bool"
  gr_collection_relation :: "string \<Rightarrow> bool"
  gr_collection_evidence :: "string \<Rightarrow> bool"
  gr_explicit_files :: "string \<Rightarrow> string list"
  gr_nfkc :: "string \<Rightarrow> string"
  gr_nfkc_casefold :: "string \<Rightarrow> string"
  gr_repr :: "json \<Rightarrow> string"

definition MAX_EFFECT_GUARD_GOAL_CHARS :: nat where "MAX_EFFECT_GUARD_GOAL_CHARS = 10000"
definition MAX_EFFECT_GUARD_TOOL_NAME_CHARS :: nat where "MAX_EFFECT_GUARD_TOOL_NAME_CHARS = 200"
definition MAX_REQUIRED_TOOL_EVIDENCE :: nat where "MAX_REQUIRED_TOOL_EVIDENCE = 8"

definition CONTENT_EVIDENCE_TOOLS :: "string list" where
  "CONTENT_EVIDENCE_TOOLS = [''workspace.read_file'', ''workspace.read_files'']"
definition CONTENT_SEARCH_EVIDENCE_TOOLS :: "string list" where
  "CONTENT_SEARCH_EVIDENCE_TOOLS = [''workspace.search_text'']"
definition METADATA_EVIDENCE_TOOLS :: "string list" where
  "METADATA_EVIDENCE_TOOLS = [''workspace.list_files'', ''workspace.get_file_info'']"
definition WRITE_EFFECT_TOOLS :: "string list" where
  "WRITE_EFFECT_TOOLS = [''workspace.create_file'', ''workspace.create_directory'', ''workspace.move_path'']"
definition DESTRUCTIVE_EFFECT_TOOLS :: "string list" where
  "DESTRUCTIVE_EFFECT_TOOLS = [''workspace.delete_path'']"
definition WORKSPACE_EFFECT_TOOLS :: "string list" where
  "WORKSPACE_EFFECT_TOOLS = WRITE_EFFECT_TOOLS @ DESTRUCTIVE_EFFECT_TOOLS"

section \<open>Reading observations\<close>

text \<open>\<open>observation.get(k)\<close> behind the \<open>isinstance\<close> test, and \<open>.. in {...}\<close> for a set of names.\<close>

definition field_of :: "json \<Rightarrow> string \<Rightarrow> json" where
  "field_of j k = dget (entries_of j) k JNull"

definition named :: "json \<Rightarrow> string list \<Rightarrow> bool" where
  "named j names \<longleftrightarrow> j \<in> set (map JStr names)"

definition succeeded :: "json \<Rightarrow> bool" where
  "succeeded ob \<longleftrightarrow> is_dict ob \<and> field_of ob ''ok'' = JBool True"

definition tool_name_of :: "json \<Rightarrow> json" where
  "tool_name_of ob = field_of ob ''tool_name''"

text \<open>The arguments of the model's action; \<open>{}\<close> for anything that is not a dictionary.\<close>

definition arguments_of :: "json \<Rightarrow> dict" where
  "arguments_of ob = entries_of (field_of (field_of ob ''model_action'') ''arguments'')"

definition successful_tools :: "json list \<Rightarrow> json list" where
  "successful_tools observations = map tool_name_of (filter succeeded observations)"

definition some_successful :: "json list \<Rightarrow> string list \<Rightarrow> bool" where
  "some_successful observations names \<longleftrightarrow> list_ex (\<lambda>t. named t names) (successful_tools observations)"

section \<open>Tools a goal asks for\<close>

definition goal_text :: "string \<Rightarrow> string" where
  "goal_text user_goal = take MAX_EFFECT_GUARD_GOAL_CHARS user_goal"

definition find_explicitly_requested_tools :: "goal_rules \<Rightarrow> string \<Rightarrow> tool_manifest list \<Rightarrow> string list" where
  "find_explicitly_requested_tools g user_goal manifests =
     (if py_strip user_goal = [] then []
      else take MAX_REQUIRED_TOOL_EVIDENCE (map tm_name (filter (\<lambda>m. tm_enabled m \<and> tm_name m \<noteq> [] \<and>
             length (tm_name m) \<le> MAX_EFFECT_GUARD_TOOL_NAME_CHARS \<and>
             gr_tool_directive g (goal_text user_goal) (tm_name m)) manifests)))"

definition has_workspace_create_file_directive :: "goal_rules \<Rightarrow> string \<Rightarrow> bool" where
  "has_workspace_create_file_directive g user_goal \<longleftrightarrow>
     py_strip user_goal \<noteq> [] \<and> gr_create_directive g (goal_text user_goal)"

definition find_required_goal_tools :: "goal_rules \<Rightarrow> string \<Rightarrow> tool_manifest list \<Rightarrow> string list" where
  "find_required_goal_tools g user_goal manifests =
     (let required = find_explicitly_requested_tools g user_goal manifests;
          enabled_names = map tm_name (filter (\<lambda>m. tm_enabled m \<and> tm_name m \<noteq> []) manifests)
      in if ''workspace.create_file'' \<in> set enabled_names \<and> has_workspace_create_file_directive g user_goal \<and>
            ''workspace.create_file'' \<notin> set required \<and> length required < MAX_REQUIRED_TOOL_EVIDENCE
         then required @ [''workspace.create_file''] else required)"

definition find_missing_successful_tool_evidence :: "json list \<Rightarrow> json list \<Rightarrow> json list" where
  "find_missing_successful_tool_evidence required observations =
     filter (\<lambda>name. name \<notin> set (successful_tools observations)) required"

definition find_required_workspace_effect_mismatch :: "json list \<Rightarrow> string \<Rightarrow> json option" where
  "find_required_workspace_effect_mismatch required proposed_tool_name =
     (let required_effects = dedup (filter (\<lambda>n. named n WORKSPACE_EFFECT_TOOLS) required)
      in case required_effects of
           [e] \<Rightarrow> if proposed_tool_name \<notin> set WORKSPACE_EFFECT_TOOLS \<or> JStr proposed_tool_name = e then None else Some e
         | _ \<Rightarrow> None)"

text \<open>The latest failed result, with an error, among the tools named.\<close>

definition latest_failed_among :: "(json \<Rightarrow> bool) \<Rightarrow> json list \<Rightarrow> json option" where
  "latest_failed_among relevant observations =
     find (\<lambda>ob. is_dict ob \<and> relevant (tool_name_of ob) \<and> field_of ob ''ok'' = JBool False \<and>
       is_dict (field_of ob ''error'')) (rev observations)"

definition find_latest_failed_required_tool :: "json list \<Rightarrow> json list \<Rightarrow> json option" where
  "find_latest_failed_required_tool required observations =
     latest_failed_among (\<lambda>t. t \<in> set required) observations"

section \<open>Targets inside the workspace\<close>

text \<open>\<open>str(PurePosixPath(s))\<close> and \<open>PurePosixPath(base) / name\<close> as text.\<close>

definition path_text :: "string \<Rightarrow> string" where
  "path_text s =
     (let root = (if starts_with ''//'' s \<and> \<not> starts_with ''///'' s then ''//'' else if path_absolute s then ''/'' else []);
          text = root @ join_with ''/'' (path_parts s)
      in if text = [] then ''.'' else text)"

definition posix_join :: "string \<Rightarrow> string \<Rightarrow> string" where
  "posix_join base name = (if path_absolute name then path_text name else path_text (base @ ''/'' @ name))"

definition target_quotes :: string where
  "target_quotes = [CHR 0x60, CHR 0x27, CHR 0x22]"

definition strip_quotes :: "string \<Rightarrow> string" where
  "strip_quotes s = rev (dropWhile (\<lambda>c. c \<in> set target_quotes) (rev (dropWhile (\<lambda>c. c \<in> set target_quotes) s)))"

definition normalize_target :: "goal_rules \<Rightarrow> bool \<Rightarrow> json \<Rightarrow> string" where
  "normalize_target g allow_directory value =
     (case value of
        JStr s \<Rightarrow>
          let t = strip_quotes (py_strip (gr_nfkc g s))
          in if t = [] \<or> 500 < length t \<or> CHR 0x5C \<in> set t \<or> CHR 0x00 \<in> set t \<or> hd t = CHR 0x2F then []
             else if path_absolute t \<or> list_ex (\<lambda>p. p \<in> set [[], ''.'', ''..'']) (path_parts t) then []
             else if \<not> allow_directory \<and> path_suffix t = [] then []
             else path_text t
      | _ \<Rightarrow> [])"

definition same_workspace_target :: "goal_rules \<Rightarrow> json \<Rightarrow> string \<Rightarrow> bool" where
  "same_workspace_target g value target \<longleftrightarrow> normalize_target g False value = target"

definition target_candidates :: "goal_rules \<Rightarrow> string \<Rightarrow> string list" where
  "target_candidates g goal =
     dedup (filter (\<lambda>t. t \<noteq> []) (map (\<lambda>raw. normalize_target g False (JStr raw)) (gr_path_candidates g goal)))"

definition conditional_no_overwrite_target :: "goal_rules \<Rightarrow> string \<Rightarrow> string" where
  "conditional_no_overwrite_target g user_goal =
     (let goal = goal_text user_goal
      in if py_strip user_goal = [] then []
         else if \<not> (has_workspace_create_file_directive g goal \<and> gr_conditional_existence g goal \<and>
             gr_no_overwrite g goal) then []
         else case target_candidates g goal of [t] \<Rightarrow> t | _ \<Rightarrow> [])"

definition has_exclusive_single_workspace_effect_scope :: "goal_rules \<Rightarrow> string \<Rightarrow> bool" where
  "has_exclusive_single_workspace_effect_scope g user_goal \<longleftrightarrow>
     py_strip user_goal \<noteq> [] \<and> gr_exclusive_effect g (goal_text user_goal) \<and>
     length (target_candidates g (goal_text user_goal)) = 1"

text \<open>Whether one observation shows that the target exists.\<close>

definition confirms_target :: "goal_rules \<Rightarrow> string \<Rightarrow> json \<Rightarrow> bool" where
  "confirms_target g target ob \<longleftrightarrow>
     (let tool = tool_name_of ob; data = field_of ob ''data''; arguments = arguments_of ob;
          same = (\<lambda>v. same_workspace_target g v target)
      in if \<not> is_dict ob then False
         else if field_of ob ''ok'' = JBool False \<and> tool = JStr ''workspace.create_file'' then
           is_dict (field_of ob ''error'') \<and> field_of (field_of ob ''error'') ''code'' = JStr ''PATH_ALREADY_EXISTS'' \<and>
           same (dget arguments ''path'' JNull)
         else if field_of ob ''ok'' \<noteq> JBool True \<or> \<not> is_dict data then False
         else if named tool [''workspace.get_file_info'', ''workspace.read_file''] then same (field_of data ''path'')
         else if tool = JStr ''workspace.read_files'' then
           list_ex (\<lambda>item. is_dict item \<and> field_of item ''ok'' = JBool True \<and> same (field_of item ''path''))
             (items_of (field_of data ''files''))
         else if tool = JStr ''workspace.search_files'' then
           list_ex (\<lambda>item. is_dict item \<and> same (field_of item ''path'')) (items_of (field_of data ''matches''))
         else if tool = JStr ''workspace.list_files'' then
           let search_path = normalize_target g True (dget arguments ''path'' JNull)
           in list_ex (\<lambda>item. is_dict item \<and>
                same (if search_path \<noteq> []
                      then case py_str (gr_repr g) (dget (entries_of item) ''name'' (JStr [])) of
                             JStr nm \<Rightarrow> JStr (posix_join search_path nm) | other \<Rightarrow> other
                      else field_of item ''name''))
                (items_of (field_of data ''entries''))
         else False)"

definition has_confirmed_workspace_target :: "goal_rules \<Rightarrow> json list \<Rightarrow> string \<Rightarrow> bool" where
  "has_confirmed_workspace_target g observations target \<longleftrightarrow>
     (let normalized = normalize_target g False (JStr target)
      in normalized \<noteq> [] \<and> list_ex (confirms_target g normalized) observations)"

section \<open>Reading the intent\<close>

definition retrieval_mode :: "json \<Rightarrow> string" where
  "retrieval_mode intent =
     (let mode = field_of (field_of intent ''retrieval'') ''mode''
      in case mode of JStr m \<Rightarrow> if m \<in> set [''skip'', ''retrieve'', ''required''] then m else ''skip'' | _ \<Rightarrow> ''skip'')"

definition rag_document_scope :: "json \<Rightarrow> string" where
  "rag_document_scope intent =
     (let scope = field_of (field_of intent ''retrieval'') ''document_scope''
      in case scope of JStr s \<Rightarrow> if s \<in> set [''none'', ''all'', ''selected'', ''unresolved''] then s else ''none'' | _ \<Rightarrow> ''none'')"

definition workspace_semantics :: "json \<Rightarrow> string \<times> string \<times> string" where
  "workspace_semantics intent =
     (let workspace = field_of intent ''workspace'';
          pick = (\<lambda>k modes dflt. case field_of workspace k of
             JStr s \<Rightarrow> if s \<in> set modes then s else dflt | _ \<Rightarrow> dflt)
      in if \<not> is_dict intent \<or> \<not> is_dict workspace then (''skip'', ''none'', ''clear'')
         else (pick ''evidence'' [''skip'', ''metadata'', ''required''] ''skip'',
               pick ''action'' [''none'', ''read'', ''write'', ''destructive''] ''none'',
               pick ''ambiguity'' [''clear'', ''clarification_required''] ''clear''))"

definition requires_rag_search :: "json \<Rightarrow> bool" where
  "requires_rag_search intent =
     (let mode = retrieval_mode intent; (evidence, action, _) = workspace_semantics intent
      in if mode = ''retrieve'' \<and> action = ''read'' \<and> evidence \<in> set [''metadata'', ''required''] then False
         else mode \<in> set [''retrieve'', ''required''] \<and> rag_document_scope intent \<noteq> ''unresolved'')"

fun unique_texts :: "json list \<Rightarrow> json list \<Rightarrow> json list option" where
  "unique_texts [] result = Some result"
| "unique_texts (v # vs) result =
     (if \<not> is_str v \<or> \<not> truthy v \<or> v \<in> set result then None else unique_texts vs (result @ [v]))"

definition resolved_rag_document_ids :: "json \<Rightarrow> json list" where
  "resolved_rag_document_ids intent =
     (let values = field_of (field_of intent ''retrieval'') ''resolved_document_ids''
      in if rag_document_scope intent \<noteq> ''selected'' \<or> \<not> is_list values \<or> 20 < length (items_of values) then []
         else case unique_texts (items_of values) [] of None \<Rightarrow> [] | Some ids \<Rightarrow> ids)"

definition required_effect_tools :: "json \<Rightarrow> string list \<Rightarrow> string list" where
  "required_effect_tools intent available_tool_names =
     map snd (filter (\<lambda>(effect, tool). field_of (field_of intent ''effects'') effect = JStr ''required'' \<and>
         tool \<in> set available_tool_names)
       [(''knowledge_write'', ''knowledge.create_document''), (''rag_ingestion'', ''rag.ingest_artifact'')])"

definition workspace_requires_clarification :: "json \<Rightarrow> bool" where
  "workspace_requires_clarification intent \<longleftrightarrow> snd (snd (workspace_semantics intent)) = ''clarification_required''"

definition intent_requires_clarification :: "json \<Rightarrow> bool" where
  "intent_requires_clarification intent \<longleftrightarrow> is_dict intent \<and> field_of intent ''primary_intent'' = JStr ''unknown''"

section \<open>Coverage of several materials\<close>

definition requires_workspace_collection_evidence :: "goal_rules \<Rightarrow> string \<Rightarrow> bool" where
  "requires_workspace_collection_evidence g user_goal =
     (let goal = goal_text user_goal
      in if py_strip user_goal = [] then False
         else if gr_collection_strong g goal then True
         else if length (gr_explicit_files g goal) = 1 then False
         else gr_collection_relation g goal \<and> gr_collection_evidence g goal)"

text \<open>A nonempty text as a path; UUID and timestamp texts are paths too.\<close>

definition path_of :: "json \<Rightarrow> json list" where
  "path_of j = (if is_str j \<and> truthy j then [j] else [])"

definition read_paths_of :: "json \<Rightarrow> json list" where
  "read_paths_of ob =
     (let data = field_of ob ''data''
      in if \<not> succeeded ob \<or> \<not> is_dict data then []
         else if tool_name_of ob = JStr ''workspace.read_file'' then path_of (field_of data ''path'')
         else if tool_name_of ob = JStr ''workspace.read_files'' then
           concat (map (\<lambda>item. if is_dict item \<and> field_of item ''ok'' = JBool True
                               then path_of (field_of item ''path'') else []) (items_of (field_of data ''files'')))
         else [])"

definition successful_workspace_read_paths :: "json list \<Rightarrow> json set" where
  "successful_workspace_read_paths observations = set (concat (map read_paths_of observations))"

text \<open>
  \<open>_normalize_discovery_query\<close>: every run of characters that are not \<open>\w\<close> becomes one blank and \<open>split\<close>
  drops the ends, so what is left are the maximal runs of \<open>\w\<close>.
\<close>

definition word_char :: "char \<Rightarrow> bool" where
  "word_char c \<longleftrightarrow>
     (let n = (of_char c :: nat)
      in (48 \<le> n \<and> n \<le> 57) \<or> (65 \<le> n \<and> n \<le> 90) \<or> n = 95 \<or> (97 \<le> n \<and> n \<le> 122) \<or>
         n \<in> set [0xAA, 0xB2, 0xB3, 0xB5, 0xB9, 0xBA, 0xBC, 0xBD, 0xBE] \<or> (0xC0 \<le> n \<and> n \<noteq> 0xD7 \<and> n \<noteq> 0xF7))"

fun word_runs :: "string \<Rightarrow> string \<Rightarrow> string list" where
  "word_runs run [] = (if run = [] then [] else [run])"
| "word_runs run (c # cs) =
     (if word_char c then word_runs (run @ [c]) cs
      else (if run = [] then [] else [run]) @ word_runs [] cs)"

definition query_words :: "goal_rules \<Rightarrow> json \<Rightarrow> string list" where
  "query_words g value = (case value of JStr s \<Rightarrow> word_runs [] (gr_nfkc_casefold g s) | _ \<Rightarrow> [])"

definition query_text :: "string list \<Rightarrow> string" where
  "query_text ws = join_with '' '' ws"

definition queries_share_discovery_anchor :: "string list \<Rightarrow> string list \<Rightarrow> bool" where
  "queries_share_discovery_anchor left right \<longleftrightarrow>
     query_text left = query_text right \<or> contains (query_text left) (query_text right) \<or>
     contains (query_text right) (query_text left) \<or>
     (left \<noteq> [] \<and> right \<noteq> [] \<and> (set left \<subseteq> set right \<or> set right \<subseteq> set left))"

text \<open>The files one listed or found item points to.\<close>

definition candidate_of :: "string \<Rightarrow> string \<Rightarrow> json \<Rightarrow> json list" where
  "candidate_of tool normalized_path item =
     (if \<not> is_dict item then []
      else if tool = ''workspace.list_files'' then
        (if field_of item ''type'' \<noteq> JStr ''file'' then []
         else case path_of (field_of item ''name'') of
                [JStr nm] \<Rightarrow> [JStr (if normalized_path \<notin> {[], ''.''} then posix_join normalized_path nm else nm)]
              | other \<Rightarrow> other)
      else if tool = ''workspace.search_files'' \<and> field_of item ''type'' \<noteq> JStr ''file'' then []
      else path_of (field_of item ''path''))"

record discovery =
  di_listed :: "string set"
  di_queries :: "string list list"
  di_candidates :: "json set"

definition discovery_step :: "goal_rules \<Rightarrow> json \<Rightarrow> discovery \<Rightarrow> discovery" where
  "discovery_step g ob acc =
     (let data = field_of ob ''data''; arguments = arguments_of ob;
          normalized_path = (case dget arguments ''path'' (JStr ''.'') of JStr p \<Rightarrow> py_strip p | _ \<Rightarrow> ''.'')
      in case tool_name_of ob of
           JStr tool \<Rightarrow>
             let searching = tool \<in> set [''workspace.search_text'', ''workspace.search_files''];
                 values = (if searching then field_of data ''matches'' else field_of data ''entries'');
                 found = set (concat (map (candidate_of tool normalized_path) (items_of values)));
                 query = query_words g (dget arguments ''query'' (JStr []))
             in if \<not> succeeded ob \<or> tool \<notin> set [''workspace.search_text'', ''workspace.search_files'', ''workspace.list_files''] \<or>
                   \<not> is_dict data \<or> \<not> is_list values then acc
                else if searching then
                  (if query = [] then acc
                   else if (tool = ''workspace.search_text'' \<or> items_of values \<noteq> []) \<and>
                           \<not> list_ex (queries_share_discovery_anchor query) (di_queries acc)
                   then acc\<lparr>di_queries := di_queries acc @ [query], di_candidates := di_candidates acc \<union> found\<rparr>
                   else acc\<lparr>di_candidates := di_candidates acc \<union> found\<rparr>)
                else acc\<lparr>di_listed := insert (if normalized_path = [] then ''.'' else normalized_path) (di_listed acc),
                         di_candidates := di_candidates acc \<union> found\<rparr>
         | _ \<Rightarrow> acc)"

definition workspace_discovery_progress :: "goal_rules \<Rightarrow> json list \<Rightarrow> discovery" where
  "workspace_discovery_progress g observations =
     fold (discovery_step g) observations \<lparr>di_listed = {}, di_queries = [], di_candidates = {}\<rparr>"

definition discovery_count :: "discovery \<Rightarrow> nat" where
  "discovery_count d = card (di_listed d) + length (di_queries d)"

definition has_workspace_collection_coverage :: "goal_rules \<Rightarrow> json list \<Rightarrow> bool" where
  "has_workspace_collection_coverage g observations =
     (let read_paths = successful_workspace_read_paths observations;
          d = workspace_discovery_progress g observations
      in if read_paths = {} then False
         else if \<not> di_candidates d \<subseteq> read_paths then False
         else if 2 \<le> card read_paths then True
         else 2 \<le> discovery_count d)"

section \<open>Missing evidence\<close>

text \<open>The requirements are named by short English texts.\<close>

definition find_missing_workspace_evidence :: "goal_rules \<Rightarrow> json \<Rightarrow> json list \<Rightarrow> string \<Rightarrow> bool \<Rightarrow> string list" where
  "find_missing_workspace_evidence g intent observations user_goal effect_satisfied =
     (let (evidence, action, ambiguity) = workspace_semantics intent;
          has_content = some_successful observations CONTENT_EVIDENCE_TOOLS;
          has_search = gr_content_search g user_goal \<and> some_successful observations CONTENT_SEARCH_EVIDENCE_TOOLS
      in (if evidence = ''metadata'' \<and> \<not> some_successful observations (METADATA_EVIDENCE_TOOLS @ WRITE_EFFECT_TOOLS)
          then [''workspace metadata (list_files/get_file_info)''] else [])
       @ (if evidence = ''required'' \<and> \<not> (has_content \<or> has_search)
          then [''workspace content (read_file/read_files/search_text)''] else [])
       @ (if evidence = ''required'' \<and> action = ''read'' \<and> ambiguity = ''clear'' \<and>
             requires_workspace_collection_evidence g user_goal \<and> \<not> has_workspace_collection_coverage g observations
          then [''workspace coverage of several materials''] else [])
       @ (if ambiguity = ''clear'' \<and> action = ''write'' \<and> \<not> effect_satisfied \<and>
             \<not> some_successful observations WRITE_EFFECT_TOOLS
          then [''workspace write (create_file/create_directory/move_path)''] else [])
       @ (if ambiguity = ''clear'' \<and> action = ''destructive'' \<and> \<not> effect_satisfied \<and>
             \<not> some_successful observations DESTRUCTIVE_EFFECT_TOOLS
          then [''workspace.delete_path''] else []))"

definition find_latest_failed_workspace_evidence :: "json \<Rightarrow> json list \<Rightarrow> json option" where
  "find_latest_failed_workspace_evidence intent observations =
     (let (evidence, action, ambiguity) = workspace_semantics intent;
          relevant = (if evidence = ''metadata'' then METADATA_EVIDENCE_TOOLS else [])
            @ (if evidence = ''required'' then CONTENT_EVIDENCE_TOOLS else [])
            @ (if ambiguity = ''clear'' \<and> action = ''write'' then WRITE_EFFECT_TOOLS else [])
            @ (if ambiguity = ''clear'' \<and> action = ''destructive'' then DESTRUCTIVE_EFFECT_TOOLS else [])
      in latest_failed_among (\<lambda>t. named t relevant) observations)"

end
