(* ===== verification/LoopControl.thy ===== *)
theory LoopControl
  imports EffectGuard LoopContracts
begin

text \<open>
  \<open>agent/loop/controller.py\<close>: the controller that decides when a run continues, completes, asks back or
  fails.  The state is the part of \<open>AgentState\<close> it works on; a failing operation is the end of the run, so
  only its error is kept.
\<close>

record loop_state =
  ls_user_goal :: string
  ls_intent :: json
  ls_observations :: "json list"
  ls_completion_contract :: json
  ls_loop_progress :: json
  ls_stop_decision :: json

text \<open>
  What the controller is built with: the goal rules, the registry, and the digest
  (\<open>sha256(json.dumps(.., sort_keys=True))\<close>) of a value whose keys have been sorted.
\<close>

record loop_host =
  lh_rules :: goal_rules
  lh_registry :: tool_registry
  lh_digest :: "json \<Rightarrow> string"

section \<open>Fingerprints\<close>

fun canonical :: "json \<Rightarrow> json" where
  "canonical (JObj d) = JObj (sort_key fst (map (\<lambda>(k, v). (k, canonical v)) d))"
| "canonical (JList xs) = JList (map canonical xs)"
| "canonical j = j"

definition action_fingerprint :: "loop_host \<Rightarrow> json \<Rightarrow> dict \<Rightarrow> string" where
  "action_fingerprint h tool_name arguments =
     lh_digest h (canonical (JObj [(''tool_name'', tool_name), (''arguments'', JObj arguments)]))"

text \<open>\<open>str(observation.get("tool_name", ""))\<close>\<close>

definition observed_tool :: "loop_host \<Rightarrow> json \<Rightarrow> json" where
  "observed_tool h ob = py_str (gr_repr (lh_rules h)) (dget (entries_of ob) ''tool_name'' (JStr []))"

definition observation_fingerprint :: "loop_host \<Rightarrow> json \<Rightarrow> string" where
  "observation_fingerprint h ob =
     lh_digest h (canonical (JObj [(''action'', JStr (action_fingerprint h (observed_tool h ob) (arguments_of ob))),
       (''ok'', JBool (field_of ob ''ok'' = JBool True))]))"

section \<open>Progress\<close>

record progress_acc =
  pa_successful :: "json list"
  pa_failed :: "json list"
  pa_successful_tools :: "json list"
  pa_failed_tools :: "json list"
  pa_streak :: int
  pa_advanced :: bool

definition add_once :: "json \<Rightarrow> json list \<Rightarrow> json list" where
  "add_once x xs = (if x \<in> set xs then xs else xs @ [x])"

definition add_name_once :: "json \<Rightarrow> json list \<Rightarrow> json list" where
  "add_name_once tool xs = (if is_str tool then add_once tool xs else xs)"

definition progress_step :: "loop_host \<Rightarrow> json \<Rightarrow> progress_acc \<Rightarrow> progress_acc" where
  "progress_step h ob acc =
     (let fingerprint = JStr (observation_fingerprint h ob); tool = tool_name_of ob;
          ok = (field_of ob ''ok'' = JBool True);
          advanced = (ok \<and> fingerprint \<notin> set (pa_successful acc));
          acc = (if ok
                 then acc\<lparr>pa_successful := add_once fingerprint (pa_successful acc),
                          pa_successful_tools := add_name_once tool (pa_successful_tools acc)\<rparr>
                 else acc\<lparr>pa_failed := add_once fingerprint (pa_failed acc),
                          pa_failed_tools := add_name_once tool (pa_failed_tools acc)\<rparr>)
      in acc\<lparr>pa_streak := (if advanced then 0 else pa_streak acc + 1), pa_advanced := advanced\<rparr>)"

definition no_progress_yet :: progress_acc where
  "no_progress_yet = \<lparr>pa_successful = [], pa_failed = [], pa_successful_tools = [], pa_failed_tools = [],
     pa_streak = 0, pa_advanced = False\<rparr>"

text \<open>An observation that is not a dictionary has no \<open>get\<close>.\<close>

definition build_progress :: "loop_host \<Rightarrow> json list \<Rightarrow> loop_progress res" where
  "build_progress h observations =
     (let recent = last_n 40 observations; acc = fold (progress_step h) recent no_progress_yet
      in rbind (ensure (list_all is_dict recent) AttributeError) (\<lambda>_.
         Inr \<lparr>lp_tool_calls_used = int (length recent), lp_successful_tool_names = pa_successful_tools acc,
              lp_failed_tool_names = pa_failed_tools acc, lp_successful_action_fingerprints = pa_successful acc,
              lp_failed_action_fingerprints = pa_failed acc, lp_no_progress_streak = pa_streak acc,
              lp_last_observation_advanced = pa_advanced acc\<rparr>))"

section \<open>Initialisation\<close>

definition decision :: "string \<Rightarrow> string \<Rightarrow> stop_decision" where
  "decision disposition reason_code =
     \<lparr>sd_disposition = JStr disposition, sd_reason_code = JStr reason_code, sd_missing_requirements = []\<rparr>"

definition no_overwrite_target :: "loop_host \<Rightarrow> loop_state \<Rightarrow> json list \<Rightarrow> string" where
  "no_overwrite_target h s required =
     (if JStr ''workspace.create_file'' \<in> set required
      then conditional_no_overwrite_target (lh_rules h) (ls_user_goal s) else [])"

definition with_target :: "string \<Rightarrow> completion_contract \<Rightarrow> completion_contract" where
  "with_target target c =
     c\<lparr>ct_workspace_effect_precondition := JStr (if target \<noteq> [] then ''target_absent'' else ''none''),
       ct_workspace_effect_target := JStr target\<rparr>"

definition build_completion_contract :: "loop_host \<Rightarrow> loop_state \<Rightarrow> completion_contract" where
  "build_completion_contract h s =
     (let manifests = list_manifests (lh_registry h);
          enabled_names = map tm_name (filter tm_enabled manifests);
          required = map JStr (dedup (find_required_goal_tools (lh_rules h) (ls_user_goal s) manifests
                       @ required_effect_tools (ls_intent s) enabled_names));
          (evidence, action, _) = workspace_semantics (ls_intent s)
      in with_target (no_overwrite_target h s required)
           \<lparr>ct_required_tool_names = required, ct_requires_rag_evidence = requires_rag_search (ls_intent s),
            ct_workspace_evidence = JStr evidence, ct_workspace_action = JStr action,
            ct_workspace_effect_precondition = JNull, ct_workspace_effect_target = JNull,
            ct_clarification_required =
              workspace_requires_clarification (ls_intent s) \<or> intent_requires_clarification (ls_intent s)\<rparr>)"

definition init_contract :: "loop_host \<Rightarrow> loop_state \<Rightarrow> loop_state res" where
  "init_contract h s =
     (if ls_completion_contract s = JNull
      then Inr (s\<lparr>ls_completion_contract := contract_to_state_dict (build_completion_contract h s)\<rparr>)
      else rbind (contract_from_state_dict (ls_completion_contract s)) (\<lambda>c.
        if field_of (ls_completion_contract s) ''version'' = JStr COMPLETION_CONTRACT_VERSION then Inr s
        else Inr (s\<lparr>ls_completion_contract :=
               contract_to_state_dict (with_target (no_overwrite_target h s (ct_required_tool_names c)) c)\<rparr>)))"

definition ensure_initialized :: "loop_host \<Rightarrow> loop_state \<Rightarrow> loop_state res" where
  "ensure_initialized h s =
     (if ls_intent s = JNull then Inr s
      else rbind (init_contract h s) (\<lambda>s.
      rbind (if ls_loop_progress s = JNull
             then rbind (build_progress h (ls_observations s)) (\<lambda>p. Inr (s\<lparr>ls_loop_progress := progress_to_state_dict p\<rparr>))
             else rbind (progress_from_state_dict (ls_loop_progress s)) (\<lambda>_. Inr s)) (\<lambda>s.
      if ls_stop_decision s = JNull
      then Inr (s\<lparr>ls_stop_decision := stop_to_state_dict (decision ''continue'' ''LOOP_INITIALIZED'')\<rparr>)
      else rbind (stop_from_state_dict (ls_stop_decision s)) (\<lambda>_. Inr s))))"

section \<open>Operations\<close>

definition decide_loop :: "stop_decision \<Rightarrow> loop_state \<Rightarrow> stop_decision \<times> loop_state" where
  "decide_loop d s = (d, s\<lparr>ls_stop_decision := stop_to_state_dict d\<rparr>)"

definition refresh_progress :: "loop_host \<Rightarrow> loop_state \<Rightarrow> (loop_progress \<times> loop_state) res" where
  "refresh_progress h s =
     rbind (ensure_initialized h s) (\<lambda>s.
     rbind (build_progress h (ls_observations s)) (\<lambda>p.
     Inr (p, s\<lparr>ls_loop_progress := progress_to_state_dict p,
               ls_stop_decision := stop_to_state_dict (decision ''continue''
                 (if lp_last_observation_advanced p then ''OBSERVATION_ADVANCED'' else ''OBSERVATION_NO_PROGRESS''))\<rparr>)))"

definition effect_precondition_short_circuited :: "loop_host \<Rightarrow> completion_contract \<Rightarrow> json list \<Rightarrow> bool" where
  "effect_precondition_short_circuited h c observations \<longleftrightarrow>
     ct_workspace_effect_precondition c = JStr ''target_absent'' \<and> truthy (ct_workspace_effect_target c) \<and>
     (case ct_workspace_effect_target c of
        JStr t \<Rightarrow> has_confirmed_workspace_target (lh_rules h) observations t | _ \<Rightarrow> False)"

definition GOAL_EFFECT_TOOLS :: "string list" where
  "GOAL_EFFECT_TOOLS = [''knowledge.create_document'', ''literature.download_arxiv_pdf'', ''rag.ingest_artifact'']"

text \<open>What is still missing for the contract, in order and without repetition.\<close>

definition missing_requirements :: "loop_host \<Rightarrow> completion_contract \<Rightarrow> loop_state \<Rightarrow> json list \<Rightarrow> json list" where
  "missing_requirements h c s ignored =
     (let short_circuited = effect_precondition_short_circuited h c (ls_observations s);
          ignored = ignored @ (if short_circuited then [JStr ''workspace.create_file''] else []);
          required = filter (\<lambda>name. name \<notin> set ignored) (ct_required_tool_names c)
      in dedup (find_missing_successful_tool_evidence required (ls_observations s)
           @ (if ct_requires_rag_evidence c \<and> \<not> some_successful (ls_observations s) [''rag.search''] \<and>
                 \<not> some_successful (ls_observations s) GOAL_EFFECT_TOOLS
              then [JStr ''rag.search''] else [])
           @ map JStr (find_missing_workspace_evidence (lh_rules h) (ls_intent s) (ls_observations s)
               (ls_user_goal s) short_circuited)))"

definition evaluate_finish :: "loop_host \<Rightarrow> loop_state \<Rightarrow> json list \<Rightarrow> (stop_decision \<times> loop_state) res" where
  "evaluate_finish h s ignored =
     rbind (ensure_initialized h s) (\<lambda>s.
     rbind (contract_from_state_dict (ls_completion_contract s)) (\<lambda>c.
     let missing = missing_requirements h c s ignored
     in Inr (decide_loop
          (if ct_clarification_required c then decision ''clarify'' ''CLARIFICATION_REQUIRED''
           else if missing \<noteq> []
           then (decision ''continue'' ''COMPLETION_REQUIREMENTS_MISSING'')\<lparr>sd_missing_requirements := missing\<rparr>
           else decision ''complete''
             (if effect_precondition_short_circuited h c (ls_observations s)
              then ''WORKSPACE_EFFECT_PRECONDITION_SHORT_CIRCUITED'' else ''COMPLETION_CONTRACT_SATISFIED'')) s)))"

definition workspace_effect_short_circuit_target :: "loop_host \<Rightarrow> loop_state \<Rightarrow> (json \<times> loop_state) res" where
  "workspace_effect_short_circuit_target h s =
     rbind (ensure_initialized h s) (\<lambda>s.
     rbind (contract_from_state_dict (ls_completion_contract s)) (\<lambda>c.
     Inr (if effect_precondition_short_circuited h c (ls_observations s)
          then ct_workspace_effect_target c else JStr [], s)))"

definition record_failure :: "string \<Rightarrow> loop_state \<Rightarrow> stop_decision \<times> loop_state" where
  "record_failure reason_code s = decide_loop (decision ''fail'' reason_code) s"

section \<open>Proposed actions\<close>

definition evidence_semantics :: "loop_host \<Rightarrow> json \<Rightarrow> (string \<times> string \<times> string list) option" where
  "evidence_semantics h tool_name =
     (case tool_name of
        JStr nm \<Rightarrow>
          (case get_manifest (lh_registry h) nm of
             None \<Rightarrow> None
           | Some m \<Rightarrow>
               let loop = dget (tm_metadata m) ''loop'' JNull;
                   substitutes = dget (entries_of loop) ''substitutable_evidence_domains'' (JList [])
               in (case (field_of loop ''operation'', field_of loop ''evidence_domain'') of
                     (JStr operation, JStr domain) \<Rightarrow>
                       if operation = [] \<or> domain = [] \<or> \<not> is_list substitutes \<or>
                          list_ex (\<lambda>i. \<not> is_str i \<or> \<not> truthy i) (items_of substitutes) then None
                       else Some (operation, domain,
                         concat (map (\<lambda>i. case i of JStr x \<Rightarrow> [x] | _ \<Rightarrow> []) (items_of substitutes)))
                   | _ \<Rightarrow> None))
      | _ \<Rightarrow> None)"

definition is_disallowed_evidence_substitution :: "loop_host \<Rightarrow> json \<Rightarrow> string \<Rightarrow> bool" where
  "is_disallowed_evidence_substitution h failed_tool_name proposed_tool_name \<longleftrightarrow>
     (case (evidence_semantics h failed_tool_name, evidence_semantics h (JStr proposed_tool_name)) of
        (Some (failed_operation, failed_domain, allowed), Some (proposed_operation, proposed_domain, _)) \<Rightarrow>
          failed_operation = ''retrieve_evidence'' \<and> proposed_operation = failed_operation \<and>
          proposed_domain \<noteq> failed_domain \<and> proposed_domain \<notin> set allowed
      | _ \<Rightarrow> False)"

definition successful_effects :: "json list \<Rightarrow> json list" where
  "successful_effects observations =
     filter (\<lambda>ob. succeeded ob \<and> named (tool_name_of ob) WORKSPACE_EFFECT_TOOLS) observations"

definition would_exceed_exclusive_workspace_effect_scope :: "loop_host \<Rightarrow> loop_state \<Rightarrow> string \<Rightarrow> bool" where
  "would_exceed_exclusive_workspace_effect_scope h s proposed_tool_name \<longleftrightarrow>
     proposed_tool_name \<in> set WORKSPACE_EFFECT_TOOLS \<and>
     has_exclusive_single_workspace_effect_scope (lh_rules h) (ls_user_goal s) \<and>
     length (successful_effects (ls_observations s)) = 1"

text \<open>A rejection asks for another action the first time and fails the run when it is repeated.\<close>

definition reject_action :: "string \<Rightarrow> string \<Rightarrow> loop_state \<Rightarrow> (stop_decision option \<times> loop_state) res" where
  "reject_action reason_code final_code s =
     rbind (stop_from_state_dict (ls_stop_decision s)) (\<lambda>prior.
     let (d, s) = decide_loop (if sd_reason_code prior = JStr reason_code then decision ''fail'' final_code
                               else decision ''continue'' reason_code) s
     in Inr (Some d, s))"

definition evaluate_proposed_action ::
    "loop_host \<Rightarrow> loop_state \<Rightarrow> string \<Rightarrow> dict \<Rightarrow> bool \<Rightarrow> (stop_decision option \<times> loop_state) res" where
  "evaluate_proposed_action h s tool_name arguments guard_repeated_success =
     rbind (ensure_initialized h s) (\<lambda>s.
     if ls_observations s = [] then Inr (None, s)
     else let latest = last (ls_observations s)
       in if \<not> is_dict latest then Inr (None, s)
          else if field_of latest ''ok'' = JBool False \<and>
                  is_disallowed_evidence_substitution h (observed_tool h latest) tool_name
          then reject_action ''SEMANTIC_SOURCE_SUBSTITUTION'' ''SEMANTIC_SOURCE_SUBSTITUTION'' s
          else if would_exceed_exclusive_workspace_effect_scope h s tool_name
          then reject_action ''WORKSPACE_EFFECT_SCOPE_SATISFIED'' ''WORKSPACE_EFFECT_SCOPE_SATISFIED'' s
          else if field_of latest ''ok'' \<noteq> JBool True then Inr (None, s)
          else if \<not> guard_repeated_success then Inr (None, s)
          else if action_fingerprint h (observed_tool h latest) (arguments_of latest) \<noteq>
                  action_fingerprint h (JStr tool_name) arguments then Inr (None, s)
          else reject_action ''STRATEGY_CHANGE_REQUIRED'' ''LOOP_NO_PROGRESS'' s)"

text \<open>\<open>AgentState.add_observation\<close>, followed by \<open>refresh_progress\<close> as \<open>ObservationPhase\<close> does.\<close>

definition observe :: "loop_host \<Rightarrow> json \<Rightarrow> loop_state \<Rightarrow> (loop_progress \<times> loop_state) res" where
  "observe h ob s = refresh_progress h (s\<lparr>ls_observations := ls_observations s @ [ob]\<rparr>)"

end
