(* ===== verification/EffectFacts.thy ===== *)
theory EffectFacts
  imports LoopControl
begin

text \<open>
  The targets and tools the effect guard derives from a goal are well formed: a target is a safe relative
  path that survives being stored, the required tools are few, distinct and registered.
\<close>

section \<open>Paths as text\<close>

lemma split_on_parts: "p \<in> set (split_on c s) \<Longrightarrow> c \<notin> set p \<and> set p \<subseteq> set s"
proof (induction c s arbitrary: p rule: split_on.induct)
  case (2 c x xs)
  obtain q qs where "split_on c xs = q # qs"
    by (cases "split_on c xs") auto
  then show ?case
    using 2 by (auto split: if_splits) blast+
qed simp

lemma set_join_with: "set (join_with sep ps) \<subseteq> set sep \<union> \<Union> (set ` set ps)"
  by (induction sep ps rule: join_with.induct) auto

lemma length_join_with: "length (join_with sep ps) + length sep = sum_list (map length ps) + length sep * max 1 (length ps)"
  by (induction sep ps rule: join_with.induct) auto

lemma length_join_filter: "length (join_with [c] (filter P ps)) \<le> length (join_with [c] ps)"
proof -
  have e: "length (join_with [c] qs) + 1 = sum_list (map length qs) + max 1 (length qs)" for qs
    using length_join_with [of "[c]" qs] by simp
  have "sum_list (map length (filter P ps)) \<le> sum_list (map length ps)"
    by (induction ps) auto
  moreover have "max 1 (length (filter P ps)) \<le> max 1 (length ps)"
    by (rule max.mono) simp_all
  ultimately show ?thesis
    using e [of ps] e [of "filter P ps"] by linarith
qed

lemma path_parts_mem: "p \<in> set (path_parts s) \<Longrightarrow> p \<noteq> [] \<and> p \<noteq> ''.'' \<and> CHR 0x2F \<notin> set p \<and> set p \<subseteq> set s"
  using split_on_parts [of p "CHR 0x2F" s] by (simp add: path_parts_def)

lemma path_parts_join:
  assumes "path_parts s \<noteq> []"
  shows "path_parts (join_with ''/'' (path_parts s)) = path_parts s"
proof -
  have "split_on CHR 0x2F (join_with ''/'' (path_parts s)) = path_parts s"
    using path_parts_mem [of _ s] by (intro split_on_join [OF assms]) blast
  then have "path_parts (join_with ''/'' (path_parts s)) = filter (\<lambda>p. p \<noteq> [] \<and> p \<noteq> ''.'') (path_parts s)"
    by (simp only: path_parts_def [of "join_with _ _"])
  also have "\<dots> = path_parts s"
    using path_parts_mem [of _ s] by (intro filter_True) blast
  finally show ?thesis .
qed

lemma hd_join: "ps \<noteq> [] \<Longrightarrow> hd ps \<noteq> [] \<Longrightarrow> join_with sep ps \<noteq> [] \<and> hd (join_with sep ps) = hd (hd ps)"
  by (induction sep ps rule: join_with.induct) auto

text \<open>The text of a relative path with at least one component.\<close>

lemma relative_path_text:
  assumes "\<not> path_absolute s" "path_parts s \<noteq> []"
  shows "path_text s = join_with ''/'' (path_parts s)" "path_parts (path_text s) = path_parts s"
    "path_text s \<noteq> []" "hd (path_text s) \<noteq> CHR 0x2F" "set (path_text s) \<subseteq> insert CHR 0x2F (set s)"
    "length (path_text s) \<le> length s" "path_suffix (path_text s) = path_suffix s"
proof -
  have p: "hd (path_parts s) \<noteq> []" "CHR 0x2F \<notin> set (hd (path_parts s))"
    using path_parts_mem [OF hd_in_set [OF assms(2)]] by blast+
  have rel: "\<not> starts_with ''//'' s"
    using assms(1) by (cases s) (auto simp: starts_with_def path_absolute_def)
  show eq: "path_text s = join_with ''/'' (path_parts s)"
    using assms rel hd_join [OF assms(2) p(1), of "''/''"] by (simp add: path_text_def)
  show pp: "path_parts (path_text s) = path_parts s"
    unfolding eq by (rule path_parts_join [OF assms(2)])
  show "path_text s \<noteq> []" "hd (path_text s) \<noteq> CHR 0x2F"
    unfolding eq using hd_join [OF assms(2) p(1), of "''/''"] hd_in_set [OF p(1)] p(2) by auto
  show "set (path_text s) \<subseteq> insert CHR 0x2F (set s)"
    unfolding eq using set_join_with [of "''/''" "path_parts s"] path_parts_mem [of _ s] by auto
  show "length (path_text s) \<le> length s"
    using length_join_filter [of "CHR 0x2F" "\<lambda>p. p \<noteq> [] \<and> p \<noteq> ''.''" "split_on CHR 0x2F s"]
    by (simp add: eq path_parts_def join_split_on)
  show "path_suffix (path_text s) = path_suffix s"
    by (simp add: path_suffix_def path_name_def pp)
qed

section \<open>Targets\<close>

text \<open>A normalised file target is a target a completion contract may hold.\<close>

lemma normalize_target_valid:
  assumes "normalize_target g False v = t" "t \<noteq> []"
  shows "valid_workspace_effect_target (JStr t)"
proof -
  obtain s where s: "v = JStr s"
    using assms by (auto simp: normalize_target_def split: json.splits)
  define u where "u = strip_quotes (py_strip (gr_nfkc g s))"
  have u: "u \<noteq> []" "length u \<le> 500" "CHR 0x5C \<notin> set u" "CHR 0x00 \<notin> set u" "\<not> path_absolute u"
      "\<forall>p \<in> set (path_parts u). p \<notin> {[], ''.'', ''..''}" "path_suffix u \<noteq> []" "t = path_text u"
    using assms by (auto simp: s u_def [symmetric] normalize_target_def Let_def list_ex_iff split: if_splits)
  have parts: "path_parts u \<noteq> []"
    using u(7) by (auto simp: path_suffix_def path_name_def name_suffix_def Let_def)
  note r = relative_path_text [OF u(5) parts]
  have "\<not> path_absolute (path_text u)"
    using r(3,4) by (simp add: path_absolute_def)
  moreover have "CHR 0x5C \<notin> set (path_text u)" "CHR 0x00 \<notin> set (path_text u)"
    using r(5) u(3,4) by auto
  ultimately show ?thesis
    using r u by (simp add: valid_workspace_effect_target_def)
qed

lemma no_overwrite_target_valid:
  "conditional_no_overwrite_target g goal = t \<Longrightarrow> valid_workspace_effect_target (JStr t)"
proof (cases "t = []")
  case False
  assume t: "conditional_no_overwrite_target g goal = t"
  with False have "t \<in> set (target_candidates g (goal_text goal))"
    by (auto simp: conditional_no_overwrite_target_def Let_def split: if_splits list.splits)
  then show ?thesis
    using False by (auto simp: target_candidates_def intro: normalize_target_valid [OF refl])
qed (simp add: valid_workspace_effect_target_def)

section \<open>Required tools\<close>

lemma find_required_goal_tools_few:
  "length (find_required_goal_tools g goal ms) \<le> 8 \<and>
   (\<forall>t \<in> set (find_required_goal_tools g goal ms). t \<noteq> [] \<and> length t \<le> 200)"
proof -
  have "length (find_explicitly_requested_tools g goal ms) \<le> 8 \<and>
    (\<forall>t \<in> set (find_explicitly_requested_tools g goal ms). t \<noteq> [] \<and> length t \<le> 200)"
    by (auto simp: find_explicitly_requested_tools_def MAX_REQUIRED_TOOL_EVIDENCE_def
        MAX_EFFECT_GUARD_TOOL_NAME_CHARS_def dest!: in_set_takeD)
  then show ?thesis
    by (auto simp: find_required_goal_tools_def Let_def MAX_REQUIRED_TOOL_EVIDENCE_def)
qed

lemma required_effect_tools_few:
  "length (required_effect_tools intent names) \<le> 2 \<and>
   (\<forall>t \<in> set (required_effect_tools intent names). t \<noteq> [] \<and> length t \<le> 200)"
  by (auto simp: required_effect_tools_def)

lemma length_dedup: "length (dedup xs) \<le> length xs"
  using distinct_card [OF distinct_dedup [of xs]] card_length [of xs] by simp

text \<open>The contract built from a goal and an intent is well formed.\<close>

lemma with_target_ok:
  assumes "is_ok (bounded_strings MAX_REQUIREMENTS 200 (JList (ct_required_tool_names c)))"
    "ct_workspace_evidence c \<in> set (map JStr workspace_evidence_modes)"
    "ct_workspace_action c \<in> set (map JStr workspace_action_modes)"
  shows "contract_ok (with_target (no_overwrite_target h s (ct_required_tool_names c)) c)"
  using assms no_overwrite_target_valid [OF refl, of "lh_rules h" "ls_user_goal s"]
  by (auto simp: contract_ok_def with_target_def no_overwrite_target_def valid_workspace_effect_target_def
      split: if_splits)

lemma workspace_semantics_modes:
  "workspace_semantics intent = (e, a, b) \<Longrightarrow> e \<in> set workspace_evidence_modes \<and> a \<in> set workspace_action_modes"
  by (auto simp: workspace_semantics_def Let_def workspace_evidence_modes_def workspace_action_modes_def
      split: if_splits json.splits)

lemma built_contract_ok: "contract_ok (build_completion_contract h s)"
proof -
  define ts where "ts = dedup (find_required_goal_tools (lh_rules h) (ls_user_goal s) (list_manifests (lh_registry h))
    @ required_effect_tools (ls_intent s) (map tm_name (filter tm_enabled (list_manifests (lh_registry h)))))"
  have ts: "length ts \<le> 10" "\<forall>t \<in> set ts. t \<noteq> [] \<and> length t \<le> 200" "distinct ts"
    using find_required_goal_tools_few [of "lh_rules h" "ls_user_goal s" "list_manifests (lh_registry h)"]
      required_effect_tools_few [of "ls_intent s" "map tm_name (filter tm_enabled (list_manifests (lh_registry h)))"]
      length_dedup [of "find_required_goal_tools (lh_rules h) (ls_user_goal s) (list_manifests (lh_registry h))
    @ required_effect_tools (ls_intent s) (map tm_name (filter tm_enabled (list_manifests (lh_registry h))))"]
    by (auto simp: ts_def)
  then have "is_ok (bounded_strings MAX_REQUIREMENTS 200 (JList (map JStr ts)))"
    by (auto simp: bounded_strings_def MAX_REQUIREMENTS_def distinct_map inj_on_def)
  moreover obtain e a b where "workspace_semantics (ls_intent s) = (e, a, b)"
    by (cases "workspace_semantics (ls_intent s)")
  ultimately show ?thesis
    unfolding build_completion_contract_def Let_def ts_def [symmetric]
    using workspace_semantics_modes [of "ls_intent s" e a b]
    by (auto simp: intro!: with_target_ok [where c = "\<lparr>ct_required_tool_names = _, ct_requires_rag_evidence = _,
        ct_workspace_evidence = _, ct_workspace_action = _, ct_workspace_effect_precondition = _,
        ct_workspace_effect_target = _, ct_clarification_required = _\<rparr>", simplified])
qed

lemma upgraded_contract_ok:
  "contract_ok c \<Longrightarrow> contract_ok (with_target (no_overwrite_target h s (ct_required_tool_names c)) c)"
  by (rule with_target_ok) (auto simp: contract_ok_def)

end
