(* ===== verification/LoopFacts.thy ===== *)
theory LoopFacts
  imports EffectFacts
begin

text \<open>What the loop controller guarantees over every history of its operations.\<close>

section \<open>What the operations keep\<close>

named_theorems loop_simps \<open>reading the loop state after an operation\<close>

lemma decide_loop_simps [loop_simps]:
  "fst (decide_loop d s) = d" "ls_user_goal (snd (decide_loop d s)) = ls_user_goal s"
  "ls_intent (snd (decide_loop d s)) = ls_intent s" "ls_observations (snd (decide_loop d s)) = ls_observations s"
  "ls_completion_contract (snd (decide_loop d s)) = ls_completion_contract s"
  "ls_loop_progress (snd (decide_loop d s)) = ls_loop_progress s"
  "ls_stop_decision (snd (decide_loop d s)) = stop_to_state_dict d"
  by (simp_all add: decide_loop_def)

text \<open>A contract of the current version is frozen: no operation replaces it.\<close>

definition frozen :: "loop_state \<Rightarrow> bool" where
  "frozen s \<longleftrightarrow> field_of (ls_completion_contract s) ''version'' = JStr COMPLETION_CONTRACT_VERSION"

lemma frozen_written: "ls_completion_contract s = contract_to_state_dict c \<Longrightarrow> frozen s"
  by (simp add: frozen_def field_of_def contract_to_state_dict_def)

lemma frozen_not_null: "frozen s \<Longrightarrow> ls_completion_contract s \<noteq> JNull"
  by (auto simp: frozen_def field_of_def)

definition keeps_run :: "loop_state \<Rightarrow> loop_state \<Rightarrow> bool" where
  "keeps_run s s' \<longleftrightarrow> ls_user_goal s' = ls_user_goal s \<and> ls_intent s' = ls_intent s \<and>
     (\<exists>obs. ls_observations s' = ls_observations s @ obs) \<and>
     (frozen s \<longrightarrow> ls_completion_contract s' = ls_completion_contract s)"

lemma keeps_run_refl [simp]: "keeps_run s s"
  by (simp add: keeps_run_def)

lemma keeps_run_frozen: "keeps_run s s' \<Longrightarrow> frozen s \<Longrightarrow> frozen s'"
  by (simp add: keeps_run_def frozen_def)

lemma keeps_run_trans: "keeps_run s t \<Longrightarrow> keeps_run t u \<Longrightarrow> keeps_run s u"
  using keeps_run_frozen [of s t] by (auto simp: keeps_run_def)

lemma init_contract_keeps:
  assumes "init_contract h s = Inr s'"
  shows "ls_user_goal s' = ls_user_goal s" "ls_intent s' = ls_intent s" "ls_observations s' = ls_observations s"
    "frozen s'" "frozen s \<Longrightarrow> ls_completion_contract s' = ls_completion_contract s"
proof -
  consider (new) c where "\<not> frozen s" "s' = s\<lparr>ls_completion_contract := contract_to_state_dict c\<rparr>"
    | (old) "frozen s" "s' = s"
    using assms frozen_not_null [of s]
    by (auto simp: init_contract_def rbind_Inr_iff frozen_def split: if_splits)
  then show "ls_user_goal s' = ls_user_goal s" "ls_intent s' = ls_intent s" "ls_observations s' = ls_observations s"
    "frozen s'" "frozen s \<Longrightarrow> ls_completion_contract s' = ls_completion_contract s"
    by (cases; simp add: frozen_written)+
qed

lemma stop_null [simp]: "stop_from_state_dict JNull = Inl ValueError"
  by (simp add: stop_from_state_dict_def Let_def need_def ensure_def)

text \<open>Initialisation changes the contract first, then at most the progress and the stop decision.\<close>

lemma ensure_initialized_Inr:
  assumes "ensure_initialized h s = Inr s'" "ls_intent s \<noteq> JNull"
  obtains t p d where "init_contract h s = Inr t" "s' = t\<lparr>ls_loop_progress := p, ls_stop_decision := d\<rparr>"
    "ls_stop_decision s = JNull \<Longrightarrow> d = stop_to_state_dict (decision ''continue'' ''LOOP_INITIALIZED'')"
    "ls_stop_decision s \<noteq> JNull \<Longrightarrow> d = ls_stop_decision t"
proof -
  obtain t where t: "init_contract h s = Inr t"
    using assms by (auto simp: ensure_initialized_def rbind_Inr_iff)
  have "ls_stop_decision t = ls_stop_decision s"
    using t by (auto simp: init_contract_def rbind_Inr_iff split: if_splits)
  then have "s' = t\<lparr>ls_loop_progress := ls_loop_progress s', ls_stop_decision := ls_stop_decision s'\<rparr> \<and>
      ls_stop_decision s' = (if ls_stop_decision s = JNull
        then stop_to_state_dict (decision ''continue'' ''LOOP_INITIALIZED'') else ls_stop_decision t)"
    using assms by (auto simp: ensure_initialized_def t rbind_Inr_iff split: if_splits)
  then show thesis
    by (metis that t)
qed

lemma ensure_keeps:
  assumes "ensure_initialized h s = Inr s'"
  shows "ls_user_goal s' = ls_user_goal s" "ls_intent s' = ls_intent s" "ls_observations s' = ls_observations s"
    "frozen s \<Longrightarrow> ls_completion_contract s' = ls_completion_contract s"
    "ls_intent s \<noteq> JNull \<Longrightarrow> frozen s'" "keeps_run s s'"
proof -
  have *: "ls_user_goal s' = ls_user_goal s \<and> ls_intent s' = ls_intent s \<and> ls_observations s' = ls_observations s \<and>
    (frozen s \<longrightarrow> ls_completion_contract s' = ls_completion_contract s) \<and> (ls_intent s \<noteq> JNull \<longrightarrow> frozen s')"
  proof (cases "ls_intent s = JNull")
    case True
    then show ?thesis
      using assms by (simp add: ensure_initialized_def)
  next
    case False
    then obtain t p d where "init_contract h s = Inr t" "s' = t\<lparr>ls_loop_progress := p, ls_stop_decision := d\<rparr>"
      using assms by (elim ensure_initialized_Inr)
    then show ?thesis
      using init_contract_keeps [of h s t] by (simp add: frozen_def)
  qed
  then show "ls_user_goal s' = ls_user_goal s" "ls_intent s' = ls_intent s" "ls_observations s' = ls_observations s"
    "frozen s \<Longrightarrow> ls_completion_contract s' = ls_completion_contract s"
    "ls_intent s \<noteq> JNull \<Longrightarrow> frozen s'" "keeps_run s s'"
    by (simp_all add: keeps_run_def)
qed

lemma keeps_decided: "keeps_run s t \<Longrightarrow> keeps_run s (snd (decide_loop d t))"
  by (simp add: keeps_run_def loop_simps)

lemma refresh_keeps:
  assumes "refresh_progress h s = Inr (p, s')"
  shows "keeps_run s s' \<and> ls_observations s' = ls_observations s"
proof -
  obtain t a d where "ensure_initialized h s = Inr t" "s' = t\<lparr>ls_loop_progress := a, ls_stop_decision := d\<rparr>"
    using assms by (auto simp: refresh_progress_def rbind_Inr_iff)
  then show ?thesis
    using ensure_keeps [of h s t] by (simp add: keeps_run_def)
qed

lemma observe_keeps:
  assumes "observe h ob s = Inr (p, s')"
  shows "keeps_run s s'" "ls_observations s' = ls_observations s @ [ob]"
  using refresh_keeps [OF assms [unfolded observe_def]] by (auto simp: keeps_run_def frozen_def)

lemma evaluate_finish_Inr:
  assumes "evaluate_finish h s ignored = Inr (d, s')"
  obtains t c where "ensure_initialized h s = Inr t" "contract_from_state_dict (ls_completion_contract t) = Inr c"
    "s' = snd (decide_loop d t)"
    "sd_disposition d = JStr ''complete'' \<Longrightarrow> missing_requirements h c t ignored = []"
  using assms by (auto simp: evaluate_finish_def Let_def rbind_Inr_iff decide_loop_def decision_def split: if_splits)

lemma finish_keeps: "evaluate_finish h s ignored = Inr (d, s') \<Longrightarrow> keeps_run s s'"
  by (elim evaluate_finish_Inr) (simp add: ensure_keeps(6) keeps_decided)

lemma target_keeps: "workspace_effect_short_circuit_target h s = Inr (t, s') \<Longrightarrow> keeps_run s s'"
  by (auto simp: workspace_effect_short_circuit_target_def rbind_Inr_iff dest!: ensure_keeps(6) split: if_splits)

lemma reject_keeps:
  "reject_action reason final s = Inr (d, s') \<Longrightarrow> \<exists>r. d = Some r \<and> s' = snd (decide_loop r s)"
  by (auto simp: reject_action_def rbind_Inr_iff Let_def decide_loop_def split: if_splits)

lemma propose_Inr:
  assumes "evaluate_proposed_action h s tool args guard = Inr (d, s')"
  obtains t where "ensure_initialized h s = Inr t" "s' = t \<or> (\<exists>r. s' = snd (decide_loop r t))"
proof -
  obtain t where t: "ensure_initialized h s = Inr t"
    using assms by (auto simp: evaluate_proposed_action_def rbind_Inr_iff)
  have "s' = t \<or> (\<exists>r. s' = snd (decide_loop r t))"
    using assms unfolding evaluate_proposed_action_def t Let_def
    by (simp split: if_splits) (use reject_keeps in blast)+
  then show thesis
    using that t by blast
qed

lemma propose_keeps:
  assumes "evaluate_proposed_action h s tool args guard = Inr (d, s')"
  shows "keeps_run s s'" "ls_observations s' = ls_observations s"
proof -
  obtain t where t: "ensure_initialized h s = Inr t" "s' = t \<or> (\<exists>r. s' = snd (decide_loop r t))"
    using assms by (elim propose_Inr)
  then show "keeps_run s s'" "ls_observations s' = ls_observations s"
    using ensure_keeps [OF t(1)] by (auto intro: keeps_decided simp: loop_simps)
qed

section \<open>Histories\<close>

inductive loop_op :: "loop_host \<Rightarrow> loop_state \<Rightarrow> loop_state \<Rightarrow> bool" for h where
  loop_init: "ensure_initialized h s = Inr s' \<Longrightarrow> loop_op h s s'"
| loop_observe: "observe h ob s = Inr (p, s') \<Longrightarrow> loop_op h s s'"
| loop_refresh: "refresh_progress h s = Inr (p, s') \<Longrightarrow> loop_op h s s'"
| loop_propose: "evaluate_proposed_action h s tool args guard = Inr (d, s') \<Longrightarrow> loop_op h s s'"
| loop_finish: "evaluate_finish h s ignored = Inr (d', s') \<Longrightarrow> loop_op h s s'"
| loop_target: "workspace_effect_short_circuit_target h s = Inr (t, s') \<Longrightarrow> loop_op h s s'"
| loop_fail: "s' = snd (record_failure ''TOOL_BUDGET_EXHAUSTED'' s) \<Longrightarrow> loop_op h s s'"

inductive_cases loop_opE: "loop_op h s s'"

lemma loop_op_keeps: "loop_op h s s' \<Longrightarrow> keeps_run s s'"
  by (induction rule: loop_op.induct)
    (auto dest: ensure_keeps(6) observe_keeps(1) refresh_keeps propose_keeps(1) finish_keeps target_keeps
      simp: record_failure_def intro: keeps_decided)

lemma loop_ops_keep: "(loop_op h)\<^sup>*\<^sup>* s s' \<Longrightarrow> keeps_run s s'"
  by (induction rule: rtranclp_induct) (auto dest: loop_op_keeps keeps_run_trans)

text \<open>
  The goalposts do not move: once a run has a completion contract of the current version, no
  sequence of controller operations changes it, nor the goal and the intent it was built from, and
  observations are only ever added.
\<close>

theorem completion_contract_frozen:
  assumes "(loop_op h)\<^sup>*\<^sup>* s s'" "field_of (ls_completion_contract s) ''version'' = JStr COMPLETION_CONTRACT_VERSION"
  shows "ls_completion_contract s' = ls_completion_contract s \<and> ls_user_goal s' = ls_user_goal s \<and>
    ls_intent s' = ls_intent s \<and> (\<exists>obs. ls_observations s' = ls_observations s @ obs)"
  using loop_ops_keep [OF assms(1)] assms(2) by (simp add: keeps_run_def frozen_def)

section \<open>Finishing needs evidence\<close>

lemma find_missing_Nil:
  "find_missing_successful_tool_evidence required obs = [] \<longleftrightarrow>
    (\<forall>name \<in> set required. \<exists>ob \<in> set obs. succeeded ob \<and> tool_name_of ob = name)"
  by (auto simp: find_missing_successful_tool_evidence_def filter_empty_conv successful_tools_def)

lemma ensured_contract:
  assumes "ensure_initialized h s = Inr s'" "ls_intent s \<noteq> JNull" "ls_completion_contract s = JNull"
  shows "ls_completion_contract s' = contract_to_state_dict (build_completion_contract h s)"
proof -
  obtain t p d where "init_contract h s = Inr t" "s' = t\<lparr>ls_loop_progress := p, ls_stop_decision := d\<rparr>"
    using assms(1,2) by (elim ensure_initialized_Inr)
  then show ?thesis
    using assms(3) by (auto simp: init_contract_def)
qed

lemma some_successful_iff:
  "some_successful obs names \<longleftrightarrow> (\<exists>ob \<in> set obs. succeeded ob \<and> (\<exists>n \<in> set names. tool_name_of ob = JStr n))"
  by (auto simp: some_successful_def successful_tools_def list_ex_iff named_def)

lemma built_contract_fields:
  "set (ct_required_tool_names (build_completion_contract h s)) =
     JStr ` (set (find_required_goal_tools (lh_rules h) (ls_user_goal s) (list_manifests (lh_registry h))) \<union>
       set (required_effect_tools (ls_intent s) (map tm_name (filter tm_enabled (list_manifests (lh_registry h))))))"
  "ct_workspace_effect_target (build_completion_contract h s) \<noteq> JStr [] \<Longrightarrow>
    ct_workspace_effect_target (build_completion_contract h s) =
      JStr (conditional_no_overwrite_target (lh_rules h) (ls_user_goal s))"
  by (auto simp: build_completion_contract_def with_target_def no_overwrite_target_def Let_def split_def image_Un)


section \<open>An exclusive effect happens once\<close>

lemma propose_None:
  assumes "evaluate_proposed_action h s tool args guard = Inr (None, s')"
  shows "ls_observations s = [] \<or> \<not> is_dict (last (ls_observations s)) \<or>
    \<not> would_exceed_exclusive_workspace_effect_scope h s tool"
proof -
  obtain t where t: "ensure_initialized h s = Inr t"
    using assms by (elim propose_Inr)
  have "would_exceed_exclusive_workspace_effect_scope h t tool = would_exceed_exclusive_workspace_effect_scope h s tool"
    using ensure_keeps(1,3) [OF t] by (simp add: would_exceed_exclusive_workspace_effect_scope_def)
  then show ?thesis
    using assms unfolding evaluate_proposed_action_def t Let_def
    by (auto simp: ensure_keeps(3) [OF t] dest!: reject_keeps split: if_splits)
qed

text \<open>
  A guarded run: an observation is added only for an action the controller has let through; everything
  else leaves the observations as they are.
\<close>

inductive guarded_step :: "loop_host \<Rightarrow> loop_state \<Rightarrow> loop_state \<Rightarrow> bool" for h where
  guarded_act: "evaluate_proposed_action h s tool args guard = Inr (None, t) \<Longrightarrow> tool_name_of ob = JStr tool \<Longrightarrow>
    observe h ob t = Inr (p, s') \<Longrightarrow> guarded_step h s s'"
| guarded_other: "loop_op h s s' \<Longrightarrow> ls_observations s' = ls_observations s \<Longrightarrow> guarded_step h s s'"

lemma tool_name_dict: "tool_name_of ob = JStr n \<Longrightarrow> is_dict ob"
  by (cases ob) (auto simp: tool_name_of_def field_of_def)

definition one_effect :: "loop_state \<Rightarrow> bool" where
  "one_effect s \<longleftrightarrow> length (successful_effects (ls_observations s)) \<le> 1 \<and>
     (ls_observations s \<noteq> [] \<longrightarrow> is_dict (last (ls_observations s)))"

lemma guarded_step_one_effect:
  assumes "guarded_step h s s'" "one_effect s" "has_exclusive_single_workspace_effect_scope (lh_rules h) (ls_user_goal s)"
  shows "one_effect s' \<and> ls_user_goal s' = ls_user_goal s"
  using assms(1)
proof cases
  case (guarded_act tool args guard t ob p)
  have obs: "ls_observations s' = ls_observations s @ [ob]"
    using observe_keeps(2) [OF guarded_act(3)] propose_keeps(2) [OF guarded_act(1)] by simp
  have goal: "ls_user_goal s' = ls_user_goal s"
    using observe_keeps(1) [OF guarded_act(3)] propose_keeps(1) [OF guarded_act(1)] by (simp add: keeps_run_def)
  have "tool \<notin> set WORKSPACE_EFFECT_TOOLS \<or> successful_effects (ls_observations s) = []"
    using propose_None [OF guarded_act(1)] assms(2,3)
    by (auto simp: one_effect_def would_exceed_exclusive_workspace_effect_scope_def successful_effects_def le_Suc_eq)
  then show ?thesis
    using assms(2) guarded_act(2) tool_name_dict [OF guarded_act(2)]
    by (auto simp: one_effect_def obs goal successful_effects_def named_def)
next
  case guarded_other
  then show ?thesis
    using assms(2) loop_op_keeps [OF guarded_other(1)] by (simp add: one_effect_def keeps_run_def)
qed

text \<open>
  C12. When the goal confines the run to one workspace item, at most one change of the workspace succeeds in
  the whole run, however the model's proposals and the other operations of the controller interleave.
\<close>

theorem exclusive_effect_once:
  assumes "(guarded_step h)\<^sup>*\<^sup>* s s'" "ls_observations s = []"
    and "has_exclusive_single_workspace_effect_scope (lh_rules h) (ls_user_goal s)"
  shows "length (successful_effects (ls_observations s')) \<le> 1"
proof -
  have "one_effect s' \<and> ls_user_goal s' = ls_user_goal s"
    using assms(1)
  proof (induction rule: rtranclp_induct)
    case base
    then show ?case
      using assms(2) by (simp add: one_effect_def successful_effects_def)
  next
    case (step t u)
    then show ?case
      using guarded_step_one_effect [OF step(2)] assms(3) by simp
  qed
  then show ?thesis
    by (simp add: one_effect_def)
qed

end
