(* ===== verification/LoopHistory.thy ===== *)
theory LoopHistory
  imports LoopFacts
begin

text \<open>
  What the progress snapshot counts, that the persisted loop state can always be read back, and when a
  rejected proposal fails the run.
\<close>

section \<open>Progress\<close>

lemma dedup_from_snoc: "dedup_from seen (xs @ [x]) = dedup_from seen xs @ (if x \<in> set seen \<union> set xs then [] else [x])"
  by (induction seen xs rule: dedup_from.induct) auto

lemma dedup_snoc: "dedup (xs @ [x]) = add_once x (dedup xs)"
  by (simp add: dedup_def dedup_from_snoc add_once_def set_dedup_from)

definition was_ok :: "json \<Rightarrow> bool" where
  "was_ok ob \<longleftrightarrow> field_of ob ''ok'' = JBool True"

text \<open>An observation advances the run when it is the first success of its action.\<close>

definition advancing :: "loop_host \<Rightarrow> json list \<Rightarrow> nat set" where
  "advancing h obs = {k. k < length obs \<and> was_ok (obs ! k) \<and>
     (\<forall>i < k. was_ok (obs ! i) \<longrightarrow> observation_fingerprint h (obs ! i) \<noteq> observation_fingerprint h (obs ! k))}"

definition since_advance :: "loop_host \<Rightarrow> json list \<Rightarrow> nat" where
  "since_advance h obs = (if advancing h obs = {} then length obs else length obs - 1 - Max (advancing h obs))"

definition reference_progress :: "loop_host \<Rightarrow> json list \<Rightarrow> loop_progress" where
  "reference_progress h obs =
     (let names = (\<lambda>P. dedup (filter is_str (map tool_name_of (filter P obs))));
          actions = (\<lambda>P. dedup (map (\<lambda>ob. JStr (observation_fingerprint h ob)) (filter P obs)))
      in \<lparr>lp_tool_calls_used = int (length obs), lp_successful_tool_names = names was_ok,
          lp_failed_tool_names = names (\<lambda>ob. \<not> was_ok ob), lp_successful_action_fingerprints = actions was_ok,
          lp_failed_action_fingerprints = actions (\<lambda>ob. \<not> was_ok ob), lp_no_progress_streak = int (since_advance h obs),
          lp_last_observation_advanced = (obs \<noteq> [] \<and> length obs - 1 \<in> advancing h obs)\<rparr>)"

lemma advancing_snoc:
  "advancing h (obs @ [ob]) = advancing h obs \<union>
     (if was_ok ob \<and> observation_fingerprint h ob \<notin> observation_fingerprint h ` {x \<in> set obs. was_ok x}
      then {length obs} else {})"
  by (auto simp: advancing_def nth_append less_Suc_eq image_iff in_set_conv_nth split: if_splits)

lemma advancing_finite: "finite (advancing h obs)" "k \<in> advancing h obs \<Longrightarrow> k < length obs"
  by (auto simp: advancing_def)

lemma since_advance_snoc:
  "since_advance h (obs @ [ob]) =
     (if was_ok ob \<and> observation_fingerprint h ob \<notin> observation_fingerprint h ` {x \<in> set obs. was_ok x}
      then 0 else since_advance h obs + 1)"
proof -
  have "Max (insert (length obs) (advancing h obs)) = length obs"
    using advancing_finite(1) [of h obs] advancing_finite(2) [of _ h obs] by (intro Max_eqI) (auto simp: less_imp_le)
  moreover have "length obs - Max (advancing h obs) = Suc (length obs - Suc (Max (advancing h obs)))"
    if "advancing h obs \<noteq> {}"
  proof -
    have "Max (advancing h obs) < length obs"
      using that advancing_finite(1) [of h obs] advancing_finite(2) [of _ h obs] by simp
    then show ?thesis
      by simp
  qed
  ultimately show ?thesis
    by (auto simp: since_advance_def advancing_snoc)
qed

lemma JStr_image: "JStr (f a) \<in> (\<lambda>x. JStr (f x)) ` A \<longleftrightarrow> f a \<in> f ` A"
  by auto

lemma progress_fold:
  "fold (progress_step h) obs no_progress_yet =
     \<lparr>pa_successful = lp_successful_action_fingerprints (reference_progress h obs),
      pa_failed = lp_failed_action_fingerprints (reference_progress h obs),
      pa_successful_tools = lp_successful_tool_names (reference_progress h obs),
      pa_failed_tools = lp_failed_tool_names (reference_progress h obs),
      pa_streak = lp_no_progress_streak (reference_progress h obs),
      pa_advanced = lp_last_observation_advanced (reference_progress h obs)\<rparr>"
proof (induction obs rule: rev_induct)
  case Nil
  then show ?case
    by (simp add: no_progress_yet_def reference_progress_def dedup_def since_advance_def advancing_def)
next
  case (snoc ob obs)
  have last: "length obs \<in> advancing h (obs @ [ob]) \<longleftrightarrow>
      was_ok ob \<and> observation_fingerprint h ob \<notin> observation_fingerprint h ` {x \<in> set obs. was_ok x}"
    using advancing_finite(2) [of "length obs"] by (auto simp: advancing_snoc)
  show ?case
    unfolding fold_append comp_apply snoc.IH
    by (simp add: progress_step_def reference_progress_def Let_def JStr_image last since_advance_snoc dedup_snoc
        add_name_once_def flip: was_ok_def)
qed

text \<open>
  C27. The snapshot the loop maintains is the one its definition asks for: over the last forty results, the
  distinct successful and failed actions and tools in the order of their first occurrence, and the number
  of results since the last one that was the first success of its action.
\<close>

theorem progress_is_reference:
  "build_progress h obs =
     (if list_all is_dict (last_n 40 obs) then Inr (reference_progress h (last_n 40 obs)) else Inl AttributeError)"
  by (simp add: build_progress_def Let_def progress_fold)
    (simp add: reference_progress_def Let_def)

section \<open>The persisted loop state\<close>

text \<open>Observations as the phases record them: dictionaries of the results of a set of tools.\<close>

definition recorded_by :: "string set \<Rightarrow> json list \<Rightarrow> bool" where
  "recorded_by tools obs \<longleftrightarrow> (\<forall>ob \<in> set obs. is_dict ob \<and> tool_name_of ob \<in> JStr ` tools)"

definition small_names :: "string set \<Rightarrow> bool" where
  "small_names tools \<longleftrightarrow> finite tools \<and> card tools \<le> 24 \<and> tools \<subseteq> {t. t \<noteq> [] \<and> length t \<le> 200}"

definition digest_ok :: "loop_host \<Rightarrow> bool" where
  "digest_ok h \<longleftrightarrow> range (lh_digest h) \<subseteq> {t. t \<noteq> [] \<and> length t \<le> 64}"

lemma bounded_dedup:
  assumes "set xs \<subseteq> JStr ` S" "finite S" "card S \<le> n" "S \<subseteq> {t. t \<noteq> [] \<and> length t \<le> m}"
  shows "is_ok (bounded_strings n m (JList (dedup xs)))"
proof -
  have "length (dedup xs) = card (set xs)"
    using distinct_card [OF distinct_dedup [of xs]] by simp
  also have "\<dots> \<le> card (JStr ` S)"
    using assms(1,2) by (intro card_mono) simp_all
  also have "\<dots> \<le> n"
    using assms(2,3) card_image_le [of S JStr] by simp
  finally show ?thesis
    using subsetD [OF assms(1)] subsetD [OF assms(4)] by (fastforce simp: bounded_strings_def)
qed

lemma since_advance_le: "since_advance h obs \<le> length obs"
  by (simp add: since_advance_def)

lemma reference_progress_ok:
  assumes "digest_ok h" "small_names tools" "recorded_by tools obs" "length obs \<le> 40"
  shows "progress_ok (reference_progress h obs)"
proof -
  have names: "is_ok (bounded_strings MAX_REQUIREMENTS 200 (JList (dedup (filter is_str (map tool_name_of (filter P obs))))))" for P
    using assms(2,3)
    by (intro bounded_dedup [of _ tools]) (auto simp: small_names_def recorded_by_def MAX_REQUIREMENTS_def)
  have actions: "is_ok (bounded_strings MAX_ACTION_FINGERPRINTS 64
      (JList (dedup (map (\<lambda>ob. JStr (observation_fingerprint h ob)) (filter P obs)))))" for P
  proof (rule bounded_dedup [of _ "observation_fingerprint h ` set obs"])
    show "card (observation_fingerprint h ` set obs) \<le> MAX_ACTION_FINGERPRINTS"
      using card_image_le [of "set obs" "observation_fingerprint h"] card_length [of obs] assms(4)
      by (simp add: MAX_ACTION_FINGERPRINTS_def)
    show "observation_fingerprint h ` set obs \<subseteq> {t. t \<noteq> [] \<and> length t \<le> 64}"
      using assms(1) by (auto simp: digest_ok_def observation_fingerprint_def)
  qed auto
  show ?thesis
    using since_advance_le [of h obs] assms(4)
    by (simp add: progress_ok_def reference_progress_def Let_def names actions) (simp add: MAX_ACTION_FINGERPRINTS_def)
qed

lemma recorded_last_n: "recorded_by tools obs \<Longrightarrow> recorded_by tools (last_n n obs) \<and> list_all is_dict (last_n n obs)"
  by (auto simp: recorded_by_def last_n_def list_all_iff dest: in_set_dropD)

lemma build_progress_ok:
  assumes "digest_ok h" "small_names tools" "recorded_by tools obs"
  obtains p where "build_progress h obs = Inr p" "progress_ok p"
  using that recorded_last_n [OF assms(3), of 40] reference_progress_ok [OF assms(1,2), of "last_n 40 obs"]
  by (simp add: progress_is_reference)

lemma decision_ok:
  "stop_ok (decision d r) \<longleftrightarrow> d \<in> set stop_dispositions \<and> reason_code_ok (JStr r)"
  by (auto simp: stop_ok_def decision_def bounded_strings_def)

lemma reason_codes_ok:
  "\<forall>r \<in> set [''LOOP_INITIALIZED'', ''OBSERVATION_ADVANCED'', ''OBSERVATION_NO_PROGRESS'', ''CLARIFICATION_REQUIRED'',
      ''COMPLETION_REQUIREMENTS_MISSING'', ''WORKSPACE_EFFECT_PRECONDITION_SHORT_CIRCUITED'',
      ''COMPLETION_CONTRACT_SATISFIED'', ''TOOL_BUDGET_EXHAUSTED'', ''SEMANTIC_SOURCE_SUBSTITUTION'',
      ''WORKSPACE_EFFECT_SCOPE_SATISFIED'', ''STRATEGY_CHANGE_REQUIRED'', ''LOOP_NO_PROGRESS''].
    reason_code_ok (JStr r)"
  by code_simp

text \<open>Each of the three parts is absent or was written by the controller in a form it reads back.\<close>

definition loop_inv :: "loop_state \<Rightarrow> bool" where
  "loop_inv s \<longleftrightarrow>
     (ls_completion_contract s \<noteq> JNull \<longrightarrow> (\<exists>b. contract_ok b \<and> length (ct_required_tool_names b) \<le> 10 \<and>
        ls_completion_contract s = contract_to_state_dict b)) \<and>
     (ls_loop_progress s \<noteq> JNull \<longrightarrow> (\<exists>p. progress_ok p \<and> ls_loop_progress s = progress_to_state_dict p)) \<and>
     (ls_stop_decision s \<noteq> JNull \<longrightarrow> (\<exists>d. stop_ok d \<and> ls_stop_decision s = stop_to_state_dict d))"

definition loop_settled :: "loop_state \<Rightarrow> bool" where
  "loop_settled s \<longleftrightarrow> loop_inv s \<and> ls_completion_contract s \<noteq> JNull \<and> ls_loop_progress s \<noteq> JNull \<and> ls_stop_decision s \<noteq> JNull"

lemma written_not_null [simp]:
  "contract_to_state_dict b \<noteq> JNull" "progress_to_state_dict p \<noteq> JNull" "stop_to_state_dict d \<noteq> JNull"
  by (simp_all add: contract_to_state_dict_def progress_to_state_dict_def stop_to_state_dict_def)

lemma contract_version [simp]:
  "field_of (contract_to_state_dict b) ''version'' = JStr COMPLETION_CONTRACT_VERSION"
  by (simp add: field_of_def contract_to_state_dict_def)

lemma loop_settled_inv: "loop_settled s \<Longrightarrow> loop_inv s"
  by (simp add: loop_settled_def)

lemma ensure_settled: "loop_settled s \<Longrightarrow> ensure_initialized h s = Inr s"
  by (auto simp: loop_settled_def loop_inv_def ensure_initialized_def init_contract_def contract_to_from progress_to_from
      stop_to_from)

lemma built_contract_few: "length (ct_required_tool_names (build_completion_contract h s)) \<le> 10"
  using find_required_goal_tools_few [of "lh_rules h" "ls_user_goal s" "list_manifests (lh_registry h)"]
    required_effect_tools_few [of "ls_intent s" "map tm_name (filter tm_enabled (list_manifests (lh_registry h)))"]
    length_dedup [of "find_required_goal_tools (lh_rules h) (ls_user_goal s) (list_manifests (lh_registry h))
      @ required_effect_tools (ls_intent s) (map tm_name (filter tm_enabled (list_manifests (lh_registry h))))"]
  by (auto simp: build_completion_contract_def with_target_def Let_def split_def)

lemma ensure_total:
  assumes "digest_ok h" "small_names tools" "recorded_by tools (ls_observations s)" "loop_inv s" "ls_intent s \<noteq> JNull"
  obtains t where "ensure_initialized h s = Inr t" "loop_settled t"
proof -
  obtain t where t: "init_contract h s = Inr t" "loop_inv t" "ls_completion_contract t \<noteq> JNull"
      "ls_observations t = ls_observations s"
  proof (cases "ls_completion_contract s = JNull")
    case True
    then show thesis
      using that [of "s\<lparr>ls_completion_contract := contract_to_state_dict (build_completion_contract h s)\<rparr>"] assms(4)
        built_contract_ok [of h s] built_contract_few [of h s]
      by (auto simp: init_contract_def loop_inv_def)
  next
    case False
    then show thesis
      using that [of s] assms(4) by (auto simp: init_contract_def loop_inv_def contract_to_from)
  qed
  obtain u where u: "(if ls_loop_progress t = JNull
        then rbind (build_progress h (ls_observations t)) (\<lambda>p. Inr (t\<lparr>ls_loop_progress := progress_to_state_dict p\<rparr>))
        else rbind (progress_from_state_dict (ls_loop_progress t)) (\<lambda>_. Inr t)) = Inr u"
      "loop_inv u" "ls_completion_contract u \<noteq> JNull" "ls_loop_progress u \<noteq> JNull"
  proof (cases "ls_loop_progress t = JNull")
    case True
    obtain p where "build_progress h (ls_observations t) = Inr p" "progress_ok p"
      using build_progress_ok [OF assms(1,2)] assms(3) t(4) by metis
    then show thesis
      using that [of "t\<lparr>ls_loop_progress := progress_to_state_dict p\<rparr>"] t(2,3) True by (auto simp: loop_inv_def)
  next
    case False
    then show thesis
      using that [of t] t(2,3) by (auto simp: loop_inv_def progress_to_from)
  qed
  have init: "ensure_initialized h s =
      (if ls_stop_decision u = JNull
       then Inr (u\<lparr>ls_stop_decision := stop_to_state_dict (decision ''continue'' ''LOOP_INITIALIZED'')\<rparr>)
       else rbind (stop_from_state_dict (ls_stop_decision u)) (\<lambda>_. Inr u))"
    using assms(5) t(1) u(1) by (simp add: ensure_initialized_def)
  show thesis
  proof (cases "ls_stop_decision u = JNull")
    case True
    have "stop_ok (decision ''continue'' ''LOOP_INITIALIZED'')"
      using reason_codes_ok by (simp add: decision_ok stop_dispositions_def)
    then show thesis
      using that init True u(2-4) by (auto simp: loop_settled_def loop_inv_def)
  next
    case False
    then show thesis
      using that [of u] init u(2-4) by (auto simp: loop_settled_def loop_inv_def stop_to_from)
  qed
qed

lemma loop_settled_decided: "loop_settled t \<Longrightarrow> stop_ok d \<Longrightarrow> loop_settled (snd (decide_loop d t))"
  by (auto simp: loop_settled_def loop_inv_def loop_simps)

text \<open>The decisions of the operations are well formed.\<close>

lemma missing_ok:
  assumes "length (ct_required_tool_names c) \<le> 10" "contract_ok c"
  shows "is_ok (bounded_strings MAX_REQUIREMENTS 200 (JList (missing_requirements h c s ignored)))"
proof -
  define short where "short = effect_precondition_short_circuited h c (ls_observations s)"
  define first where "first = find_missing_successful_tool_evidence
    (filter (\<lambda>name. name \<notin> set (ignored @ (if short then [JStr ''workspace.create_file''] else []))) (ct_required_tool_names c))
    (ls_observations s)"
  define rest where "rest = (if ct_requires_rag_evidence c \<and> \<not> some_successful (ls_observations s) [''rag.search''] \<and>
      \<not> some_successful (ls_observations s) GOAL_EFFECT_TOOLS then [JStr ''rag.search''] else [])
    @ map JStr (find_missing_workspace_evidence (lh_rules h) (ls_intent s) (ls_observations s) (ls_user_goal s) short)"
  have eq: "missing_requirements h c s ignored = dedup (first @ rest)"
    by (simp add: missing_requirements_def Let_def short_def first_def rest_def)
  have required: "\<forall>n \<in> set (ct_required_tool_names c). is_str n \<and> truthy n \<and> str_len n \<le> 200"
    using assms(2) by (auto simp: contract_ok_def bounded_strings_def split: if_splits)
  have first: "length first \<le> 10" "set first \<subseteq> set (ct_required_tool_names c)"
    by (auto simp: first_def find_missing_successful_tool_evidence_def intro: order.trans [OF length_filter_le assms(1)])
  have ws: "length ws \<le> 5 \<and> (\<forall>x \<in> set ws. x \<noteq> [] \<and> length x \<le> 200)"
    if "ws = find_missing_workspace_evidence (lh_rules h) (ls_intent s) (ls_observations s) (ls_user_goal s) short" for ws
  proof -
    have one: "length ((if P then [x] else []) @ xs) \<le> Suc n \<and> (\<forall>y \<in> set ((if P then [x] else []) @ xs). y \<noteq> [] \<and> length y \<le> 200)"
      if "length xs \<le> n \<and> (\<forall>y \<in> set xs. y \<noteq> [] \<and> length y \<le> 200)" "x \<noteq> [] \<and> length x \<le> 200" for P n and x :: string and xs
      using that by auto
    have none: "length (if P then [x] else []) \<le> Suc 0 \<and> (\<forall>y \<in> set (if P then [x] else []). y \<noteq> [] \<and> length y \<le> 200)"
      if "x \<noteq> [] \<and> length x \<le> 200" for P and x :: string
      using that by simp
    obtain e a b where w: "workspace_semantics (ls_intent s) = (e, a, b)"
      by (cases "workspace_semantics (ls_intent s)")
    have "length ws \<le> Suc (Suc (Suc (Suc (Suc 0)))) \<and> (\<forall>x \<in> set ws. x \<noteq> [] \<and> length x \<le> 200)"
      unfolding that find_missing_workspace_evidence_def Let_def w prod.case by (intro one none) simp_all
    then show ?thesis
      by simp
  qed
  have rest: "length rest \<le> 6" "\<forall>x \<in> set rest. is_str x \<and> truthy x \<and> str_len x \<le> 200"
    using ws [OF refl] by (auto simp: rest_def)
  have "length (dedup (first @ rest)) \<le> 24"
    using length_dedup [of "first @ rest"] first(1) rest(1) by simp
  then show ?thesis
    using required first(2) rest(2) unfolding eq by (auto simp: bounded_strings_def MAX_REQUIREMENTS_def)
qed

lemma finish_decision_ok:
  assumes "loop_settled t"
  obtains d where "evaluate_finish h t ignored = Inr (decide_loop d t)" "stop_ok d"
proof -
  obtain b where b: "contract_ok b" "length (ct_required_tool_names b) \<le> 10"
      "ls_completion_contract t = contract_to_state_dict b"
    using assms by (auto simp: loop_settled_def loop_inv_def)
  have "stop_ok ((decision ''continue'' ''COMPLETION_REQUIREMENTS_MISSING'')\<lparr>sd_missing_requirements :=
      missing_requirements h b t ignored\<rparr>)"
    using missing_ok [OF b(2,1)] reason_codes_ok by (auto simp: stop_ok_def decision_def stop_dispositions_def)
  then show thesis
    using that reason_codes_ok b(1,3)
    by (simp add: evaluate_finish_def ensure_settled [OF assms] contract_to_from Let_def decision_ok stop_dispositions_def)
qed

text \<open>Which rejection a proposal meets, and the final code a repetition of it gets.\<close>

definition rejection :: "loop_host \<Rightarrow> loop_state \<Rightarrow> string \<Rightarrow> dict \<Rightarrow> bool \<Rightarrow> (string \<times> string) option" where
  "rejection h s tool args guard =
     (let latest = last (ls_observations s)
      in if ls_observations s = [] \<or> \<not> is_dict latest then None
         else if field_of latest ''ok'' = JBool False \<and> is_disallowed_evidence_substitution h (observed_tool h latest) tool
         then Some (''SEMANTIC_SOURCE_SUBSTITUTION'', ''SEMANTIC_SOURCE_SUBSTITUTION'')
         else if would_exceed_exclusive_workspace_effect_scope h s tool
         then Some (''WORKSPACE_EFFECT_SCOPE_SATISFIED'', ''WORKSPACE_EFFECT_SCOPE_SATISFIED'')
         else if field_of latest ''ok'' \<noteq> JBool True \<or> \<not> guard \<or>
             action_fingerprint h (observed_tool h latest) (arguments_of latest) \<noteq> action_fingerprint h (JStr tool) args
         then None else Some (''STRATEGY_CHANGE_REQUIRED'', ''LOOP_NO_PROGRESS''))"

lemma propose_settled:
  assumes "loop_settled t"
  shows "evaluate_proposed_action h t tool args guard =
    (case rejection h t tool args guard of None \<Rightarrow> Inr (None, t) | Some (r, f) \<Rightarrow> reject_action r f t)"
  by (simp add: evaluate_proposed_action_def ensure_settled [OF assms] rejection_def Let_def)

lemma rejection_decided [simp]: "rejection h (snd (decide_loop d t)) tool args guard = rejection h t tool args guard"
proof -
  have "would_exceed_exclusive_workspace_effect_scope h (snd (decide_loop d t)) tool =
      would_exceed_exclusive_workspace_effect_scope h t tool"
    by (simp add: would_exceed_exclusive_workspace_effect_scope_def loop_simps)
  then show ?thesis
    by (simp only: rejection_def loop_simps)
qed

lemma rejection_codes:
  "rejection h t tool args guard = Some (r, f) \<Longrightarrow>
    reason_code_ok (JStr r) \<and> reason_code_ok (JStr f)"
  using reason_codes_ok by (auto simp: rejection_def Let_def split: if_splits)

text \<open>Rejecting in a state whose last decision had the reason \<open>prior\<close>.\<close>

definition rejected :: "string \<Rightarrow> string \<Rightarrow> json \<Rightarrow> stop_decision" where
  "rejected r f prior = (if prior = JStr r then decision ''fail'' f else decision ''continue'' r)"

lemma reject_settled:
  assumes "loop_settled t"
  obtains prior where "reject_action r f t = Inr (Some (rejected r f prior), snd (decide_loop (rejected r f prior) t))"
proof -
  obtain d where "stop_ok d" "ls_stop_decision t = stop_to_state_dict d"
    using assms by (auto simp: loop_settled_def loop_inv_def)
  then have "reject_action r f t = Inr (Some (rejected r f (sd_reason_code d)),
      snd (decide_loop (rejected r f (sd_reason_code d)) t))"
    by (simp add: reject_action_def stop_to_from rejected_def decide_loop_def Let_def)
  then show thesis
    by (rule that)
qed

lemma rejected_ok: "reason_code_ok (JStr r) \<Longrightarrow> reason_code_ok (JStr f) \<Longrightarrow> stop_ok (rejected r f prior)"
  by (simp add: rejected_def decision_ok stop_dispositions_def)

section \<open>Histories from a fresh start\<close>

definition fresh_loop :: "loop_state \<Rightarrow> bool" where
  "fresh_loop s \<longleftrightarrow> ls_completion_contract s = JNull \<and> ls_loop_progress s = JNull \<and> ls_stop_decision s = JNull"

text \<open>The runs considered: results of a bounded set of tools, digests of the length of SHA-256.\<close>

definition tool_run :: "loop_host \<Rightarrow> string set \<Rightarrow> loop_state \<Rightarrow> bool" where
  "tool_run h tools s \<longleftrightarrow> digest_ok h \<and> small_names tools \<and> recorded_by tools (ls_observations s) \<and> ls_intent s \<noteq> JNull"

lemma tool_run_total:
  assumes "tool_run h tools s" "loop_inv s"
  obtains t where "ensure_initialized h s = Inr t" "loop_settled t" "tool_run h tools t"
  using ensure_total [of h tools s] assms ensure_keeps(2,3) [of h s] unfolding tool_run_def by metis

lemma finish_ensured: "ensure_initialized h s = Inr t \<Longrightarrow> loop_settled t \<Longrightarrow> evaluate_finish h s ignored = evaluate_finish h t ignored"
  by (simp add: evaluate_finish_def ensure_settled)

lemma propose_ensured:
  "ensure_initialized h s = Inr t \<Longrightarrow> loop_settled t \<Longrightarrow>
    evaluate_proposed_action h s tool args guard = evaluate_proposed_action h t tool args guard"
  by (simp add: evaluate_proposed_action_def ensure_settled)

definition progress_codes :: "string list" where
  "progress_codes = [''OBSERVATION_ADVANCED'', ''OBSERVATION_NO_PROGRESS'']"

lemma refresh_total:
  assumes "tool_run h tools s" "loop_inv s"
  obtains p t where "refresh_progress h s = Inr (p, t)" "loop_settled t" "tool_run h tools t"
    "\<exists>r \<in> set progress_codes. ls_stop_decision t = stop_to_state_dict (decision ''continue'' r)"
proof -
  obtain t where t: "ensure_initialized h s = Inr t" "loop_settled t" "tool_run h tools t"
    using assms by (rule tool_run_total)
  obtain p where p: "build_progress h (ls_observations t) = Inr p" "progress_ok p"
    using build_progress_ok [of h tools "ls_observations t"] t(3) by (auto simp: tool_run_def)
  define r where "r = (if lp_last_observation_advanced p then ''OBSERVATION_ADVANCED'' else ''OBSERVATION_NO_PROGRESS'')"
  define u where "u = t\<lparr>ls_loop_progress := progress_to_state_dict p, ls_stop_decision := stop_to_state_dict (decision ''continue'' r)\<rparr>"
  have "stop_ok (decision ''continue'' r)"
    using reason_codes_ok by (simp add: r_def decision_ok stop_dispositions_def)
  then have "loop_settled u"
    using t(2) p(2) unfolding loop_settled_def loop_inv_def u_def by auto
  moreover have "refresh_progress h s = Inr (p, u)"
    using p(1) by (simp add: refresh_progress_def t(1) ensure_keeps(3) r_def u_def)
  ultimately show thesis
    using that t(3) by (auto simp: u_def r_def progress_codes_def tool_run_def)
qed

lemma observe_total:
  assumes "tool_run h tools s" "recorded_by tools [ob]" "loop_inv s"
  obtains p t where "observe h ob s = Inr (p, t)" "loop_settled t" "tool_run h tools t"
    "ls_observations t = ls_observations s @ [ob]" "ls_user_goal t = ls_user_goal s"
    "\<exists>r \<in> set progress_codes. ls_stop_decision t = stop_to_state_dict (decision ''continue'' r)"
proof -
  have "tool_run h tools (s\<lparr>ls_observations := ls_observations s @ [ob]\<rparr>)" "loop_inv (s\<lparr>ls_observations := ls_observations s @ [ob]\<rparr>)"
    using assms by (auto simp: tool_run_def recorded_by_def loop_inv_def)
  then obtain p t where t: "observe h ob s = Inr (p, t)" "loop_settled t" "tool_run h tools t"
      "\<exists>r \<in> set progress_codes. ls_stop_decision t = stop_to_state_dict (decision ''continue'' r)"
    unfolding observe_def by (rule refresh_total)
  then show thesis
    using that observe_keeps [OF t(1)] by (simp add: keeps_run_def)
qed

lemma propose_total:
  assumes "tool_run h tools s" "loop_inv s"
  obtains d t where "evaluate_proposed_action h s tool args guard = Inr (d, t)" "loop_settled t"
proof -
  obtain t where t: "ensure_initialized h s = Inr t" "loop_settled t"
    using assms by (rule tool_run_total)
  note eq = propose_ensured [OF t]
  show thesis
  proof (cases "rejection h t tool args guard")
    case None
    then show thesis
      using that t(2) by (simp add: eq propose_settled)
  next
    case (Some rf)
    obtain r f where rf: "rf = (r, f)"
      by (cases rf)
    obtain prior where p: "reject_action r f t =
        Inr (Some (rejected r f prior), snd (decide_loop (rejected r f prior) t))"
      using t(2) by (rule reject_settled)
    have "stop_ok (rejected r f prior)"
      using rejection_codes [of h t tool args guard r f] Some rf by (simp add: rejected_ok)
    then show thesis
      using that t(2) loop_settled_decided by (simp add: eq propose_settled Some rf p)
  qed
qed

lemma loop_op_inv:
  assumes "loop_op h s s'" "tool_run h tools s'" "loop_inv s"
  shows "loop_inv s'"
proof -
  have keep: "keeps_run s s'"
    using loop_op_keeps [OF assms(1)] .
  then have run: "tool_run h tools s"
    using assms(2) by (auto simp: tool_run_def keeps_run_def recorded_by_def)
  show ?thesis
    using assms(1)
  proof cases
    case loop_init
    then show ?thesis
      using tool_run_total [OF run assms(3)] by (auto simp: loop_settled_def)
  next
    case (loop_observe ob p)
    have "loop_inv (s\<lparr>ls_observations := ls_observations s @ [ob]\<rparr>)"
      using assms(3) by (simp add: loop_inv_def)
    moreover have "tool_run h tools (s\<lparr>ls_observations := ls_observations s @ [ob]\<rparr>)"
      using assms(2) run observe_keeps(2) [OF loop_observe] by (simp add: tool_run_def)
    ultimately show ?thesis
      using refresh_total [of h tools "s\<lparr>ls_observations := ls_observations s @ [ob]\<rparr>"] loop_observe
      by (metis Inr_inject observe_def prod.inject loop_settled_def)
  next
    case (loop_refresh p)
    then show ?thesis
      using refresh_total [OF run assms(3)] by (metis Inr_inject prod.inject loop_settled_def)
  next
    case (loop_propose tool args guard d)
    then show ?thesis
      using propose_total [OF run assms(3), of tool args guard] by (metis Inr_inject prod.inject loop_settled_def)
  next
    case (loop_finish ignored d)
    obtain t where t: "ensure_initialized h s = Inr t" "loop_settled t"
      using run assms(3) by (rule tool_run_total)
    obtain e where "evaluate_finish h t ignored = Inr (decide_loop e t)" "stop_ok e"
      using t(2) by (rule finish_decision_ok)
    then have "s' = snd (decide_loop e t)" "stop_ok e"
      using loop_finish by (auto simp: finish_ensured [OF t] decide_loop_def)
    then show ?thesis
      using loop_settled_decided [OF t(2)] by (simp add: loop_settled_def)
  next
    case (loop_target t)
    then show ?thesis
      using tool_run_total [OF run assms(3)]
      by (auto simp: workspace_effect_short_circuit_target_def rbind_Inr_iff loop_settled_def split: if_splits)
  next
    case loop_fail
    have "stop_ok (decision ''fail'' ''TOOL_BUDGET_EXHAUSTED'')"
      using reason_codes_ok by (simp add: decision_ok stop_dispositions_def)
    then show ?thesis
      using loop_fail assms(3) by (auto simp: record_failure_def loop_inv_def loop_simps)
  qed
qed

lemma loop_ops_inv:
  assumes "(loop_op h)\<^sup>*\<^sup>* s s'" "tool_run h tools s'" "loop_inv s"
  shows "loop_inv s'"
  using assms
proof (induction rule: rtranclp_induct)
  case (step t u)
  have "tool_run h tools t"
    using step.prems(1) loop_op_keeps [OF step.hyps(2)] by (auto simp: tool_run_def keeps_run_def recorded_by_def)
  then show ?case
    using loop_op_inv [OF step.hyps(2) step.prems(1)] step.IH step.prems(2) by simp
qed simp

lemma fresh_loop_inv: "fresh_loop s \<Longrightarrow> loop_inv s"
  by (simp add: fresh_loop_def loop_inv_def)


lemma propose_Some:
  assumes "tool_run h tools s" "loop_inv s" "evaluate_proposed_action h s tool args guard = Inr (Some d, s')"
  obtains t r f prior where "loop_settled t" "rejection h t tool args guard = Some (r, f)" "d = rejected r f prior"
    "s' = snd (decide_loop d t)" "loop_settled s'"
proof -
  obtain t where t: "ensure_initialized h s = Inr t" "loop_settled t"
    using assms(1,2) by (rule tool_run_total)
  note eq = propose_ensured [OF t]
  obtain r f where r: "rejection h t tool args guard = Some (r, f)" "reject_action r f t = Inr (Some d, s')"
    using assms(3) by (auto simp: eq propose_settled [OF t(2)] split: option.splits)
  obtain prior where "reject_action r f t = Inr (Some (rejected r f prior), snd (decide_loop (rejected r f prior) t))"
    using t(2) by (rule reject_settled)
  then have "d = rejected r f prior" "s' = snd (decide_loop d t)"
    using r(2) by simp_all
  moreover have "loop_settled s'"
    using propose_total [OF assms(1,2), of tool args guard] assms(3) by (metis Inr_inject prod.inject)
  ultimately show thesis
    using that t(2) r(1) by blast
qed

text \<open>Proposing again in the state a rejection has left.\<close>

lemma propose_after_rejection:
  assumes "loop_settled t" "stop_ok d" "rejection h t tool args guard = Some (r, f)"
  shows "evaluate_proposed_action h (snd (decide_loop d t)) tool args guard =
    Inr (Some (rejected r f (sd_reason_code d)), snd (decide_loop (rejected r f (sd_reason_code d)) t))"
  using loop_settled_decided [OF assms(1,2)]
  by (simp add: propose_settled assms(3) reject_action_def loop_simps stop_to_from assms(2) rejected_def Let_def)
    (simp add: decide_loop_def)

lemma rejected_reason: "sd_disposition (rejected r f prior) = JStr ''continue'' \<Longrightarrow> sd_reason_code (rejected r f prior) = JStr r"
  by (simp add: rejected_def decision_def split: if_splits)

text \<open>
  C26. Insisting fails the run: a proposal the controller has rejected and sent back is, when it is made
  again at once, rejected for good.
\<close>

theorem insisting_fails_run:
  assumes "fresh_loop s\<^sub>0" "(loop_op h)\<^sup>*\<^sup>* s\<^sub>0 s" "tool_run h tools s"
    and "evaluate_proposed_action h s tool args guard = Inr (Some d, s')" "sd_disposition d = JStr ''continue''"
  shows "\<exists>d' s''. evaluate_proposed_action h s' tool args guard = Inr (Some d', s'') \<and>
    sd_disposition d' = JStr ''fail''"
proof -
  have inv: "loop_inv s"
    using loop_ops_inv [OF assms(2,3)] fresh_loop_inv [OF assms(1)] by simp
  obtain t r f prior where t: "loop_settled t" "rejection h t tool args guard = Some (r, f)" "d = rejected r f prior"
    "s' = snd (decide_loop d t)"
    using assms(3) inv assms(4) by (rule propose_Some)
  have "stop_ok d"
    using rejection_codes [OF t(2)] t(3) by (simp add: rejected_ok)
  moreover have "sd_reason_code d = JStr r"
    using assms(5) rejected_reason t(3) by simp
  ultimately show ?thesis
    using propose_after_rejection [OF t(1) _ t(2)] t(4) by (auto simp: rejected_def decision_def)
qed

text \<open>
  Only the latest rejection counts: a model that alternates between two proposals which are rejected
  for different reasons is sent back every time, and the loop state repeats with period two.
\<close>

theorem alternating_proposals_cycle:
  assumes "fresh_loop s\<^sub>0" "(loop_op h)\<^sup>*\<^sup>* s\<^sub>0 s" "tool_run h tools s"
    and "evaluate_proposed_action h s a args guard = Inr (Some d, s\<^sub>1)" "sd_disposition d = JStr ''continue''"
    and "evaluate_proposed_action h s\<^sub>1 b args' guard = Inr (Some d', s\<^sub>2)" "sd_disposition d' = JStr ''continue''"
    and "sd_reason_code d \<noteq> sd_reason_code d'"
  shows "evaluate_proposed_action h s\<^sub>2 a args guard = Inr (Some d, s\<^sub>1)"
proof -
  have inv: "loop_inv s"
    using loop_ops_inv [OF assms(2,3)] fresh_loop_inv [OF assms(1)] by simp
  obtain t r f prior where t: "loop_settled t" "rejection h t a args guard = Some (r, f)" "d = rejected r f prior"
    "s\<^sub>1 = snd (decide_loop d t)"
    using assms(3) inv assms(4) by (rule propose_Some)
  have ok: "stop_ok d"
    using rejection_codes [OF t(2)] t(3) by (simp add: rejected_ok)
  obtain r' f' where r': "rejection h t b args' guard = Some (r', f')" "d' = rejected r' f' (sd_reason_code d)"
      "s\<^sub>2 = snd (decide_loop d' t)"
  proof (cases "rejection h t b args' guard")
    case None
    then show thesis
      using assms(6) loop_settled_decided [OF t(1) ok] by (simp add: t(4) propose_settled)
  next
    case (Some rf)
    then obtain r' f' where rf: "rejection h t b args' guard = Some (r', f')"
      by (cases rf) simp
    show thesis
      by (rule that [OF rf]) (use assms(6) propose_after_rejection [OF t(1) ok rf] in \<open>auto simp: t(4)\<close>)
  qed
  have "stop_ok d'"
    using rejection_codes [OF r'(1)] r'(2) by (simp add: rejected_ok)
  moreover have "rejected r f (sd_reason_code d') = d"
    using assms(5,8) rejected_reason [of r f prior] t(3) by (auto simp: rejected_def decision_def split: if_splits)
  ultimately show ?thesis
    using propose_after_rejection [OF t(1) _ t(2), of d'] by (simp add: r'(3) t(4))
qed

section \<open>Samples\<close>

text \<open>
  A goal that confines the run to one file, a run that has created that file and then read it.
\<close>

definition sample_rules :: goal_rules where
  "sample_rules = \<lparr>gr_tool_directive = (\<lambda>goal tool. tool = ''workspace.create_file''), gr_create_directive = (\<lambda>goal. True),
     gr_conditional_existence = (\<lambda>goal. False), gr_no_overwrite = (\<lambda>goal. False), gr_exclusive_effect = (\<lambda>goal. True),
     gr_path_candidates = (\<lambda>goal. [''notes.txt'']), gr_content_search = (\<lambda>goal. False),
     gr_collection_strong = (\<lambda>goal. False), gr_collection_relation = (\<lambda>goal. False),
     gr_collection_evidence = (\<lambda>goal. False), gr_explicit_files = (\<lambda>goal. [''notes.txt'']),
     gr_nfkc = id, gr_nfkc_casefold = id, gr_repr = (\<lambda>j. [])\<rparr>"

definition create_manifest :: tool_manifest where
  "create_manifest = \<lparr>tm_name = ''workspace.create_file'', tm_provider = ''builtin'', tm_risk_level_default = ''L2'',
     tm_enabled = True, tm_permission_scope = ''workspace'', tm_input_schema = [], tm_allowed_decisions = [],
     tm_mcp_server_id = [], tm_metadata = []\<rparr>"

definition sample_loop_host :: loop_host where
  "sample_loop_host = \<lparr>lh_rules = sample_rules,
     lh_registry = \<lparr>rg_manifests = [(''workspace.create_file'', create_manifest)], rg_executors = []\<rparr>,
     lh_digest = (\<lambda>j. ''digest'')\<rparr>"

definition sample_loop :: loop_state where
  "sample_loop = \<lparr>ls_user_goal = ''create notes.txt and touch nothing else'', ls_intent = JObj [], ls_observations = [],
     ls_completion_contract = JNull, ls_loop_progress = JNull, ls_stop_decision = JNull\<rparr>"

definition sample_result :: "string \<Rightarrow> json" where
  "sample_result tool = JObj [(''tool_name'', JStr tool), (''model_action'', JObj [(''arguments'', JObj [])]), (''ok'', JBool True)]"

definition sample_tools :: "string set" where
  "sample_tools = {''workspace.create_file'', ''workspace.read_file''}"

lemma sample_tool_run: "fresh_loop sample_loop" "tool_run sample_loop_host sample_tools sample_loop"
  by (simp_all add: fresh_loop_def sample_loop_def tool_run_def digest_ok_def sample_loop_host_def small_names_def
      sample_tools_def recorded_by_def image_subset_iff)

lemma sample_recorded:
  "recorded_by sample_tools [sample_result ''workspace.create_file'']"
  "recorded_by sample_tools [sample_result ''workspace.read_file'']"
  by (simp_all add: recorded_by_def sample_result_def tool_name_of_def field_of_def sample_tools_def)

lemma sample_exclusive:
  "has_exclusive_single_workspace_effect_scope (lh_rules sample_loop_host) (ls_user_goal sample_loop)"
  by (simp add: has_exclusive_single_workspace_effect_scope_def sample_loop_host_def sample_rules_def sample_loop_def
      target_candidates_def normalize_target_def strip_quotes_def target_quotes_def py_strip_def py_space_def
      path_absolute_def path_parts_def path_suffix_def path_name_def name_suffix_def path_text_def starts_with_def
      dedup_def Let_def)

text \<open>The run after the file was created, and after it was read as well.\<close>

lemma sample_history:
  obtains s\<^sub>1 s\<^sub>2 where "(loop_op sample_loop_host)\<^sup>*\<^sup>* sample_loop s\<^sub>1" "(loop_op sample_loop_host)\<^sup>*\<^sup>* sample_loop s\<^sub>2"
    "(guarded_step sample_loop_host)\<^sup>*\<^sup>* sample_loop s\<^sub>1"
    "loop_settled s\<^sub>1" "loop_settled s\<^sub>2" "tool_run sample_loop_host sample_tools s\<^sub>1" "tool_run sample_loop_host sample_tools s\<^sub>2"
    "ls_observations s\<^sub>1 = [sample_result ''workspace.create_file'']"
    "ls_observations s\<^sub>2 = [sample_result ''workspace.create_file'', sample_result ''workspace.read_file'']"
    "ls_user_goal s\<^sub>1 = ls_user_goal sample_loop" "ls_user_goal s\<^sub>2 = ls_user_goal sample_loop"
    "\<exists>r \<in> set progress_codes. ls_stop_decision s\<^sub>1 = stop_to_state_dict (decision ''continue'' r)"
    "\<exists>r \<in> set progress_codes. ls_stop_decision s\<^sub>2 = stop_to_state_dict (decision ''continue'' r)"
proof -
  obtain t where t: "ensure_initialized sample_loop_host sample_loop = Inr t" "loop_settled t"
      "tool_run sample_loop_host sample_tools t"
    using sample_tool_run(2) fresh_loop_inv [OF sample_tool_run(1)] by (rule tool_run_total)
  have propose: "evaluate_proposed_action sample_loop_host sample_loop ''workspace.create_file'' [] True = Inr (None, t)"
    unfolding propose_ensured [OF t(1,2)] propose_settled [OF t(2)] rejection_def
    using ensure_keeps(3) [OF t(1)] by (simp add: sample_loop_def)
  obtain p s\<^sub>1 where s1: "observe sample_loop_host (sample_result ''workspace.create_file'') t = Inr (p, s\<^sub>1)" "loop_settled s\<^sub>1"
      "tool_run sample_loop_host sample_tools s\<^sub>1" "ls_observations s\<^sub>1 = ls_observations t @ [sample_result ''workspace.create_file'']"
      "ls_user_goal s\<^sub>1 = ls_user_goal t"
      "\<exists>r \<in> set progress_codes. ls_stop_decision s\<^sub>1 = stop_to_state_dict (decision ''continue'' r)"
    by (rule observe_total [OF t(3) sample_recorded(1) loop_settled_inv [OF t(2)]]) (rule that)
  obtain q s\<^sub>2 where s2: "observe sample_loop_host (sample_result ''workspace.read_file'') s\<^sub>1 = Inr (q, s\<^sub>2)" "loop_settled s\<^sub>2"
      "tool_run sample_loop_host sample_tools s\<^sub>2" "ls_observations s\<^sub>2 = ls_observations s\<^sub>1 @ [sample_result ''workspace.read_file'']"
      "ls_user_goal s\<^sub>2 = ls_user_goal s\<^sub>1"
      "\<exists>r \<in> set progress_codes. ls_stop_decision s\<^sub>2 = stop_to_state_dict (decision ''continue'' r)"
    by (rule observe_total [OF s1(3) sample_recorded(2) loop_settled_inv [OF s1(2)]]) (rule that)
  have one: "(loop_op sample_loop_host)\<^sup>*\<^sup>* sample_loop s\<^sub>1"
    using loop_init [OF t(1)] loop_observe [OF s1(1)] by simp
  then have two: "(loop_op sample_loop_host)\<^sup>*\<^sup>* sample_loop s\<^sub>2"
    using loop_observe [OF s2(1)] by simp
  have "(guarded_step sample_loop_host)\<^sup>*\<^sup>* sample_loop s\<^sub>1"
    using guarded_act [OF propose _ s1(1)] by (simp add: sample_result_def tool_name_of_def field_of_def r_into_rtranclp)
  then show thesis
    using that one two s1 s2 ensure_keeps(1,3) [OF t(1)] by (simp add: sample_loop_def)
qed

lemma sample_step:
  obtains s\<^sub>1 s\<^sub>2 where "(loop_op sample_loop_host)\<^sup>*\<^sup>* s\<^sub>1 s\<^sub>2" "loop_settled s\<^sub>1" "ls_observations s\<^sub>1 = []"
    "ls_observations s\<^sub>2 = [sample_result ''workspace.create_file'']" "ensure_initialized sample_loop_host sample_loop = Inr s\<^sub>1"
proof -
  obtain t where t: "ensure_initialized sample_loop_host sample_loop = Inr t" "loop_settled t"
      "tool_run sample_loop_host sample_tools t"
    using sample_tool_run(2) fresh_loop_inv [OF sample_tool_run(1)] by (rule tool_run_total)
  obtain p s\<^sub>1 where s1: "observe sample_loop_host (sample_result ''workspace.create_file'') t = Inr (p, s\<^sub>1)"
      "ls_observations s\<^sub>1 = ls_observations t @ [sample_result ''workspace.create_file'']"
    by (rule observe_total [OF t(3) sample_recorded(1) loop_settled_inv [OF t(2)]]) (rule that)
  have "(loop_op sample_loop_host)\<^sup>*\<^sup>* t s\<^sub>1"
    using loop_observe [OF s1(1)] by (rule r_into_rtranclp)
  then show thesis
    using that t(1,2) s1(2) ensure_keeps(3) [OF t(1)] by (simp add: sample_loop_def)
qed

lemma loop_settled_version: "loop_settled s \<Longrightarrow> field_of (ls_completion_contract s) ''version'' = JStr COMPLETION_CONTRACT_VERSION"
  by (auto simp: loop_settled_def loop_inv_def)

lemma completion_contract_frozen_witness:
  "\<exists>(s\<^sub>1 :: loop_state) (s\<^sub>2 :: loop_state). ls_observations s\<^sub>1 = [] \<and> ls_observations s\<^sub>2 = [sample_result ''workspace.create_file''] \<and>
    ls_completion_contract s\<^sub>2 = ls_completion_contract s\<^sub>1 \<and> ls_user_goal s\<^sub>2 = ls_user_goal s\<^sub>1 \<and>
    ls_intent s\<^sub>2 = ls_intent s\<^sub>1"
proof -
  obtain s\<^sub>1 s\<^sub>2 :: loop_state where s: "(loop_op sample_loop_host)\<^sup>*\<^sup>* s\<^sub>1 s\<^sub>2" "loop_settled s\<^sub>1" "ls_observations s\<^sub>1 = []"
      "ls_observations s\<^sub>2 = [sample_result ''workspace.create_file'']"
    by (rule sample_step) (rule that)
  show ?thesis
    using completion_contract_frozen [OF s(1) loop_settled_version [OF s(2)]] s(3,4) by blast
qed

lemma exclusive_effect_once_witness:
  "\<exists>s :: loop_state. ls_observations s = [sample_result ''workspace.create_file''] \<and> length (successful_effects (ls_observations s)) \<le> 1"
proof -
  obtain s\<^sub>1 s\<^sub>2 :: loop_state where "(guarded_step sample_loop_host)\<^sup>*\<^sup>* sample_loop s\<^sub>1" "ls_observations s\<^sub>1 = [sample_result ''workspace.create_file'']"
    by (rule sample_history) (rule that)
  then show ?thesis
    using exclusive_effect_once [OF _ _ sample_exclusive] by (metis loop_state.select_convs(3) sample_loop_def)
qed


text \<open>Creating a second item is out of scope, reading the same file again is no progress.\<close>

lemma sample_rejections:
  assumes "ls_user_goal s = ls_user_goal sample_loop"
  shows "ls_observations s = [sample_result ''workspace.create_file''] \<Longrightarrow>
      rejection sample_loop_host s ''workspace.create_file'' [] True = Some (''WORKSPACE_EFFECT_SCOPE_SATISFIED'', ''WORKSPACE_EFFECT_SCOPE_SATISFIED'')"
    "ls_observations s = [sample_result ''workspace.create_file'', sample_result ''workspace.read_file''] \<Longrightarrow>
      rejection sample_loop_host s ''workspace.create_file'' [] True = Some (''WORKSPACE_EFFECT_SCOPE_SATISFIED'', ''WORKSPACE_EFFECT_SCOPE_SATISFIED'')"
    "ls_observations s = [sample_result ''workspace.create_file'', sample_result ''workspace.read_file''] \<Longrightarrow>
      rejection sample_loop_host s ''workspace.read_file'' [] True = Some (''STRATEGY_CHANGE_REQUIRED'', ''LOOP_NO_PROGRESS'')"
proof -
  have scope: "has_exclusive_single_workspace_effect_scope (lh_rules sample_loop_host) (ls_user_goal s)"
    using sample_exclusive assms by simp
  have digest: "action_fingerprint sample_loop_host t args = ''digest''" for t args
    by (simp add: action_fingerprint_def sample_loop_host_def)
  note defs = rejection_def Let_def sample_result_def field_of_def would_exceed_exclusive_workspace_effect_scope_def scope
    successful_effects_def succeeded_def tool_name_of_def named_def WORKSPACE_EFFECT_TOOLS_def WRITE_EFFECT_TOOLS_def
    DESTRUCTIVE_EFFECT_TOOLS_def digest
  show "ls_observations s = [sample_result ''workspace.create_file''] \<Longrightarrow>
      rejection sample_loop_host s ''workspace.create_file'' [] True = Some (''WORKSPACE_EFFECT_SCOPE_SATISFIED'', ''WORKSPACE_EFFECT_SCOPE_SATISFIED'')"
    "ls_observations s = [sample_result ''workspace.create_file'', sample_result ''workspace.read_file''] \<Longrightarrow>
      rejection sample_loop_host s ''workspace.create_file'' [] True = Some (''WORKSPACE_EFFECT_SCOPE_SATISFIED'', ''WORKSPACE_EFFECT_SCOPE_SATISFIED'')"
    "ls_observations s = [sample_result ''workspace.create_file'', sample_result ''workspace.read_file''] \<Longrightarrow>
      rejection sample_loop_host s ''workspace.read_file'' [] True = Some (''STRATEGY_CHANGE_REQUIRED'', ''LOOP_NO_PROGRESS'')"
    by (simp_all add: defs)
qed

lemma first_rejection:
  assumes "loop_settled t" "rejection h t tool args guard = Some (r, f)" "r \<notin> set progress_codes"
    "\<exists>x \<in> set progress_codes. ls_stop_decision t = stop_to_state_dict (decision ''continue'' x)"
  shows "evaluate_proposed_action h t tool args guard =
    Inr (Some (decision ''continue'' r), snd (decide_loop (decision ''continue'' r) t))"
proof -
  obtain x where x: "x \<in> set progress_codes" "ls_stop_decision t = stop_to_state_dict (decision ''continue'' x)"
    using assms(4) by blast
  have "stop_ok (decision ''continue'' x)"
    using x(1) reason_codes_ok by (auto simp: progress_codes_def decision_ok stop_dispositions_def)
  moreover have "x \<noteq> r"
    using x(1) assms(3) by blast
  ultimately show ?thesis
    using stop_to_from [of "decision ''continue'' x"]
    by (simp add: propose_settled assms(1,2) reject_action_def x(2) Let_def) (simp add: decision_def decide_loop_def)
qed

lemma insisting_fails_run_witness:
  "\<exists>s' d' s''. ls_observations s' = [sample_result ''workspace.create_file''] \<and>
    evaluate_proposed_action sample_loop_host s' ''workspace.create_file'' [] True = Inr (Some d', s'') \<and>
    sd_disposition d' = JStr ''fail''"
proof -
  obtain s\<^sub>1 s\<^sub>2 :: loop_state where s: "(loop_op sample_loop_host)\<^sup>*\<^sup>* sample_loop s\<^sub>1" "tool_run sample_loop_host sample_tools s\<^sub>1"
      "ls_observations s\<^sub>1 = [sample_result ''workspace.create_file'']" "ls_user_goal s\<^sub>1 = ls_user_goal sample_loop"
      "loop_settled s\<^sub>1" "\<exists>r \<in> set progress_codes. ls_stop_decision s\<^sub>1 = stop_to_state_dict (decision ''continue'' r)"
    by (rule sample_history) (rule that)
  let ?d = "decision ''continue'' ''WORKSPACE_EFFECT_SCOPE_SATISFIED''"
  have first: "evaluate_proposed_action sample_loop_host s\<^sub>1 ''workspace.create_file'' [] True = Inr (Some ?d, snd (decide_loop ?d s\<^sub>1))"
    using first_rejection [OF s(5) sample_rejections(1) [OF s(4,3)] _ s(6)] by (simp add: progress_codes_def)
  have "sd_disposition ?d = JStr ''continue''"
    by (simp add: decision_def)
  then obtain d' s'' where "evaluate_proposed_action sample_loop_host (snd (decide_loop ?d s\<^sub>1)) ''workspace.create_file'' [] True =
      Inr (Some d', s'')" "sd_disposition d' = JStr ''fail''"
    using insisting_fails_run [OF sample_tool_run(1) s(1,2) first] by blast
  moreover have "ls_observations (snd (decide_loop ?d s\<^sub>1)) = [sample_result ''workspace.create_file'']"
    using s(3) by (simp add: loop_simps)
  ultimately show ?thesis
    by blast
qed

lemma alternating_proposals_cycle_witness:
  "\<exists>s\<^sub>1 s\<^sub>2 d. ls_observations s\<^sub>2 = [sample_result ''workspace.create_file'', sample_result ''workspace.read_file''] \<and>
    evaluate_proposed_action sample_loop_host s\<^sub>2 ''workspace.read_file'' [] True = Inr (Some d, s\<^sub>1) \<and>
    sd_disposition d = JStr ''continue''"
proof -
  obtain s\<^sub>0 s :: loop_state where s: "(loop_op sample_loop_host)\<^sup>*\<^sup>* sample_loop s" "tool_run sample_loop_host sample_tools s"
      "ls_observations s = [sample_result ''workspace.create_file'', sample_result ''workspace.read_file'']"
      "ls_user_goal s = ls_user_goal sample_loop"
      "loop_settled s" "\<exists>r \<in> set progress_codes. ls_stop_decision s = stop_to_state_dict (decision ''continue'' r)"
    by (rule sample_history) (rule that)
  define d where "d = decision ''continue'' ''STRATEGY_CHANGE_REQUIRED''"
  define d' where "d' = decision ''continue'' ''WORKSPACE_EFFECT_SCOPE_SATISFIED''"
  have ok: "stop_ok d" "stop_ok d'"
    using reason_codes_ok by (simp_all add: d_def d'_def decision_ok stop_dispositions_def)
  have a: "evaluate_proposed_action sample_loop_host s ''workspace.read_file'' [] True = Inr (Some d, snd (decide_loop d s))"
    unfolding d_def by (rule first_rejection [OF s(5) sample_rejections(3) [OF s(4,3)] _ s(6)]) (simp add: progress_codes_def)
  have b: "evaluate_proposed_action sample_loop_host (snd (decide_loop d s)) ''workspace.create_file'' [] True =
      Inr (Some d', snd (decide_loop d' s))"
    using propose_after_rejection [OF s(5) ok(1) sample_rejections(2) [OF s(4,3)]]
    by (simp add: rejected_def d_def d'_def decision_def)
  have "evaluate_proposed_action sample_loop_host (snd (decide_loop d' s)) ''workspace.read_file'' [] True =
      Inr (Some d, snd (decide_loop d s))"
    by (rule alternating_proposals_cycle [OF sample_tool_run(1) s(1,2) a _ b]) (simp_all add: d_def d'_def decision_def)
  moreover have "ls_observations (snd (decide_loop d' s)) = [sample_result ''workspace.create_file'', sample_result ''workspace.read_file'']"
    using s(3) by (simp add: loop_simps)
  moreover have "sd_disposition d = JStr ''continue''"
    by (simp add: d_def decision_def)
  ultimately show ?thesis
    by blast
qed

lemma sample_contract:
  "ct_required_tool_names (build_completion_contract sample_loop_host sample_loop) = [JStr ''workspace.create_file'']"
  "\<not> ct_requires_rag_evidence (build_completion_contract sample_loop_host sample_loop)"
  "\<not> ct_clarification_required (build_completion_contract sample_loop_host sample_loop)"
  by (simp_all add: build_completion_contract_def Let_def with_target_def split_def sample_loop_host_def sample_loop_def
      sample_rules_def list_manifests_def create_manifest_def find_required_goal_tools_def
      find_explicitly_requested_tools_def MAX_REQUIRED_TOOL_EVIDENCE_def MAX_EFFECT_GUARD_TOOL_NAME_CHARS_def
      py_strip_def py_space_def required_effect_tools_def field_of_def dedup_def requires_rag_search_def
      retrieval_mode_def workspace_semantics_def workspace_requires_clarification_def intent_requires_clarification_def)


end
