(* ===== verification/Workspaces.thy ===== *)
theory Workspaces
  imports Store "HOL-Library.Sublist"
begin

text \<open>
  Workspaces: which directories may be used (\<open>runtime/workspaces/workspace_policy.py\<close> and the path
  rules of \<open>runtime/workspaces/workspace_service.py\<close>) and the registry that holds them
  (\<open>workspace_service.py\<close>, \<open>runtime/workspaces/postgres_repository.py\<close>).  The file system is a
  parameter: \<open>wh_canonical\<close> is \<open>Path(p).expanduser().resolve(strict=False)\<close>, \<open>wh_is_dir\<close> is \<open>isdir\<close>.
\<close>

section \<open>Paths\<close>

record workspace_host =
  wh_canonical :: "string \<Rightarrow> string"
  wh_is_dir :: "string \<Rightarrow> bool"

text \<open>\<open>os.path.commonpath\<close> of two paths; it refuses to mix absolute and relative ones.\<close>

definition join_path :: "bool \<Rightarrow> string list \<Rightarrow> string" where
  "join_path absolute parts = (if absolute then ''/'' else []) @ join_with ''/'' parts"

definition commonpath :: "string \<Rightarrow> string \<Rightarrow> string res" where
  "commonpath a b =
     (if path_absolute a \<noteq> path_absolute b then Inl ValueError
      else Inr (join_path (path_absolute a) (longest_common_prefix (path_parts a) (path_parts b))))"

definition is_within :: "string \<Rightarrow> string \<Rightarrow> bool" where
  "is_within candidate parent \<longleftrightarrow> commonpath candidate parent = Inr parent"

text \<open>\<open>os.path.basename\<close>\<close>

definition base_name :: "string \<Rightarrow> string" where
  "base_name p = rev (takeWhile (\<lambda>c. c \<noteq> CHR 0x2F) (rev p))"

section \<open>The policy of the server\<close>

record workspace_policy =
  wp_default :: "string option"
  wp_allowed :: "string list"

text \<open>\<open>from_env\<close>: the configured paths are split at the path separator of the platform, a colon.\<close>

definition keep_path :: "workspace_host \<Rightarrow> string \<Rightarrow> string list \<Rightarrow> string list" where
  "keep_path h raw result =
     (let value = py_strip raw in
      if value = [] \<or> wh_canonical h value \<in> set result then result else result @ [wh_canonical h value])"

definition unique_paths :: "workspace_host \<Rightarrow> string list \<Rightarrow> string list" where
  "unique_paths h raws = fold (keep_path h) raws []"

definition policy_from_env :: "workspace_host \<Rightarrow> string \<Rightarrow> string \<Rightarrow> workspace_policy" where
  "policy_from_env h workspace_root allowed_paths =
     (let default_raw = py_strip workspace_root;
          configured = (if allowed_paths \<noteq> [] then split_on CHR 0x3A allowed_paths else []);
          configured = (if default_raw \<noteq> [] then default_raw # configured else configured) in
      \<lparr>wp_default = (if default_raw \<noteq> [] then Some (wh_canonical h default_raw) else None),
       wp_allowed = unique_paths h configured\<rparr>)"

text \<open>A missing and an empty path read alike.\<close>

definition or_text :: "string option \<Rightarrow> string" where
  "or_text p = (case p of None \<Rightarrow> [] | Some s \<Rightarrow> s)"

definition policy_resolve :: "workspace_host \<Rightarrow> workspace_policy \<Rightarrow> string option \<Rightarrow> string option res" where
  "policy_resolve h p requested_path =
     (let requested = py_strip (or_text requested_path);
          selected = (if requested \<noteq> [] then requested else or_text (wp_default p)) in
      if selected = [] then Inr None
      else let candidate = wh_canonical h selected in
        if wp_allowed p = [] then Inl (AppError ''WORKSPACE_ACCESS_DENIED'' ''permission'' False)
        else if \<not> list_ex (is_within candidate) (wp_allowed p)
        then Inl (AppError ''WORKSPACE_ACCESS_DENIED'' ''permission'' False)
        else if \<not> wh_is_dir h candidate then Inl (AppError ''WORKSPACE_NOT_FOUND'' ''validation'' False)
        else Inr (Some candidate))"

section \<open>Paths that may be registered\<close>

definition EXACT_FORBIDDEN :: "string list" where
  "EXACT_FORBIDDEN = [''/'', ''/Users'', ''/private'', ''/var'', ''/tmp'', ''/Volumes'']"

definition FORBIDDEN_TREES :: "string list" where
  "FORBIDDEN_TREES =
     [''/System'', ''/Library'', ''/Applications'', ''/etc'', ''/usr'', ''/bin'', ''/sbin'', ''/dev'',
      ''/private/etc'', ''/private/var/db'', ''/private/var/root'', ''/private/var/log'',
      ''/private/var/run'', ''/private/var/audit'']"

definition SENSITIVE_ROOTS :: "string list" where
  "SENSITIVE_ROOTS = [''~/.ssh'', ''~/.aws'', ''~/.gnupg'', ''~/Library/Keychains'']"

definition is_sensitive :: "workspace_host \<Rightarrow> string \<Rightarrow> bool" where
  "is_sensitive h path \<longleftrightarrow> list_ex (\<lambda>raw. is_within path (wh_canonical h raw)) SENSITIVE_ROOTS"

definition path_forbidden :: error where
  "path_forbidden = AppError ''WORKSPACE_PATH_FORBIDDEN'' ''permission'' False"

definition validate_path_for_registration :: "workspace_host \<Rightarrow> string \<Rightarrow> string res" where
  "validate_path_for_registration h raw_path =
     (let trimmed = py_strip raw_path in
      if trimmed = [] then Inl validation_error
      else let canonical = wh_canonical h trimmed; user_home = wh_canonical h ''~'' in
        if canonical \<in> wh_canonical h ` set EXACT_FORBIDDEN then Inl path_forbidden
        else if canonical = user_home then Inl path_forbidden
        else if is_within user_home canonical then Inl path_forbidden
        else if list_ex (\<lambda>tree. is_within canonical (wh_canonical h tree)) FORBIDDEN_TREES then Inl path_forbidden
        else if is_sensitive h canonical then Inl path_forbidden
        else if \<not> wh_is_dir h canonical then Inl (AppError ''WORKSPACE_NOT_FOUND'' ''validation'' False)
        else Inr canonical)"

definition verify_path_still_valid :: "workspace_host \<Rightarrow> string \<Rightarrow> string res" where
  "verify_path_still_valid h stored_canonical =
     (if wh_canonical h stored_canonical \<noteq> stored_canonical then Inl path_forbidden
      else validate_path_for_registration h stored_canonical)"

section \<open>The registry\<close>

definition workspace_insert_if_absent :: "workspace \<Rightarrow> db \<Rightarrow> (bool \<times> db) res" where
  "workspace_insert_if_absent w db =
     (if ws_canonical_path w \<in> ws_canonical_path ` set (db_workspaces db) then Inr (False, db)
      else if ws_id w \<in> ws_id ` set (db_workspaces db) then Inl IntegrityError
      else Inr (True, db\<lparr>db_workspaces := db_workspaces db @ [w]\<rparr>))"

definition workspace_by_path :: "string \<Rightarrow> db \<Rightarrow> workspace option" where
  "workspace_by_path p db = row_get ws_canonical_path p (db_workspaces db)"

text \<open>\<open>update\<close> writes every column but the key and \<open>created_at\<close>; the path is unique.\<close>

definition merge_workspace :: "workspace \<Rightarrow> workspace \<Rightarrow> workspace" where
  "merge_workspace w x = x\<lparr>ws_name := ws_name w, ws_root_path := ws_root_path w,
     ws_canonical_path := ws_canonical_path w, ws_status := ws_status w, ws_source := ws_source w,
     ws_updated_at := ws_updated_at w, ws_revoked_at := ws_revoked_at w, ws_metadata := ws_metadata w\<rparr>"

definition workspace_put :: "workspace \<Rightarrow> db \<Rightarrow> db" where
  "workspace_put w db = db\<lparr>db_workspaces := row_update (\<lambda>x. ws_id x = ws_id w) (merge_workspace w) (db_workspaces db)\<rparr>"

definition workspace_update :: "workspace \<Rightarrow> db \<Rightarrow> db res" where
  "workspace_update w db =
     (if workspace_get (ws_id w) db = None then Inl ValueError
      else if list_ex (\<lambda>x. ws_id x \<noteq> ws_id w \<and> ws_canonical_path x = ws_canonical_path w) (db_workspaces db)
      then Inl IntegrityError
      else Inr (workspace_put w db))"

definition list_active :: "db \<Rightarrow> workspace list" where
  "list_active db = sort_key ws_created_at (filter (\<lambda>w. ws_status w = WsActive) (db_workspaces db))"

definition list_workspaces :: "bool \<Rightarrow> db \<Rightarrow> workspace list" where
  "list_workspaces include_revoked db =
     (if include_revoked then sort_key ws_created_at (db_workspaces db) else list_active db)"

fun source_value :: "workspace_source \<Rightarrow> string" where
  "source_value WsConfigured = ''configured''"
| "source_value WsUserPicker = ''user_picker''"

definition workspace_audit :: "workspace \<Rightarrow> string \<Rightarrow> int \<Rightarrow> uuid \<Rightarrow> audit_log" where
  "workspace_audit w event_type now pk =
     \<lparr>au_id = pk, au_event_type = event_type, au_actor = ''user'',
      au_action_summary = event_type @ '': '' @ ws_name w, au_task_id = None, au_run_id = None,
      au_step_id = None, au_tool_call_id = None, au_risk_level = None, au_permission_decision = None,
      au_details = [(''workspace_id'', JId (ws_id w)), (''workspace_name'', JStr (ws_name w)),
        (''canonical_path'', JStr (ws_canonical_path w)), (''source'', JStr (source_value (ws_source w)))],
      au_result_summary = None, au_error = None, au_created_at = now\<rparr>"

text \<open>\<open>except AppError: raise\<close>, \<open>except Exception: raise AppError(...)\<close>\<close>

fun wrap_errors :: "error \<Rightarrow> 'a res \<Rightarrow> 'a res" where
  "wrap_errors e (Inr x) = Inr x"
| "wrap_errors e (Inl (AppError code category recoverable)) = Inl (AppError code category recoverable)"
| "wrap_errors e (Inl _) = Inl e"

definition pick_failed :: error where
  "pick_failed = AppError ''WORKSPACE_PICK_FAILED'' ''storage'' False"

definition register_existing ::
  "clock \<Rightarrow> string \<Rightarrow> workspace_source \<Rightarrow> string \<Rightarrow> workspace \<Rightarrow> workspace tx" where
  "register_existing clk name source root_dir existing db =
     (let was_revoked = (ws_status existing = WsRevoked);
          became_configured = (source = WsConfigured \<and> ws_source existing \<noteq> WsConfigured);
          w = (if was_revoked
               then existing\<lparr>ws_status := WsActive, ws_revoked_at := None, ws_updated_at := clk 1,
                      ws_name := name, ws_root_path := root_dir\<rparr>
               else existing);
          w = (if became_configured
               then w\<lparr>ws_source := WsConfigured, ws_root_path := root_dir, ws_updated_at := clk 2\<rparr> else w) in
      if was_revoked \<or> became_configured
      then rbind (workspace_update w db) (\<lambda>db.
           Inr (w, audit_create (workspace_audit w
             (if was_revoked then ''workspace.reactivated'' else ''workspace.managed_by_config'') (clk 3)) db))
      else Inr (w, db))"

definition register_workspace ::
  "clock \<Rightarrow> string \<Rightarrow> string \<Rightarrow> workspace_source \<Rightarrow> string option \<Rightarrow> workspace tx" where
  "register_workspace clk canonical_path name source root_path db =
     wrap_errors pick_failed
     (let root_dir = (if or_text root_path \<noteq> [] then or_text root_path else canonical_path);
          workspace = \<lparr>ws_id = fresh db, ws_name = name, ws_root_path = root_dir, ws_canonical_path = canonical_path,
             ws_status = WsActive, ws_source = source, ws_created_at = clk 0, ws_updated_at = clk 0,
             ws_revoked_at = None, ws_metadata = []\<rparr> in
      rbind (workspace_insert_if_absent workspace (bump db)) (\<lambda>(inserted, db).
      if inserted
      then Inr (workspace, audit_create (workspace_audit workspace ''workspace.registered'' (clk 1)) db)
      else case workspace_by_path canonical_path db of
             None \<Rightarrow> Inl (AppError ''WORKSPACE_REGISTRY_CONFLICT'' ''storage'' True)
           | Some existing \<Rightarrow> register_existing clk name source root_dir existing db))"

definition workspace_name_of :: "string \<Rightarrow> string" where
  "workspace_name_of canonical = (if base_name canonical \<noteq> [] then base_name canonical else canonical)"

text \<open>The directory picker of the platform is a parameter: its result, or none when there is no picker.\<close>

record picker_result =
  pk_selected_path :: "string option"
  pk_cancelled :: bool
  pk_error_code :: "string option"

text \<open>The result is the workspace, if any, and whether the user cancelled.\<close>

definition pick_workspace ::
  "workspace_host \<Rightarrow> clock \<Rightarrow> picker_result option \<Rightarrow> (workspace option \<times> bool) tx" where
  "pick_workspace h clk picker db =
     (case picker of
        None \<Rightarrow> Inr ((None, False), db)
      | Some result \<Rightarrow>
          if pk_cancelled result then Inr ((None, True), db)
          else if or_text (pk_error_code result) \<noteq> []
          then Inl (AppError (or_text (pk_error_code result)) ''tool'' False)
          else if or_text (pk_selected_path result) = []
          then Inl (AppError ''WORKSPACE_PICK_FAILED'' ''tool'' False)
          else rbind (validate_path_for_registration h (or_text (pk_selected_path result))) (\<lambda>canonical.
               rbind (register_workspace clk canonical (workspace_name_of canonical) WsUserPicker
                        (pk_selected_path result) db) (\<lambda>(w, db).
               Inr ((Some w, False), db))))"

text \<open>An invalid configured path is skipped; start-up goes on.\<close>

definition register_configured :: "workspace_host \<Rightarrow> clock \<Rightarrow> string \<Rightarrow> workspace option tx" where
  "register_configured h clk raw_path db =
     (case validate_path_for_registration h raw_path of
        Inl _ \<Rightarrow> Inr (None, db)
      | Inr canonical \<Rightarrow>
          rbind (register_workspace clk canonical (workspace_name_of canonical) WsConfigured (Some raw_path) db)
            (\<lambda>(w, db). Inr (Some w, db)))"

text \<open>Each path is registered in a transaction of its own, so what an error leaves is the state
  before the path that raised it.\<close>

fun register_all_configured :: "workspace_host \<Rightarrow> clock \<Rightarrow> string list \<Rightarrow> db \<Rightarrow> workspace list res \<times> db" where
  "register_all_configured h clk [] db = (Inr [], db)"
| "register_all_configured h clk (raw # raws) db =
     (case register_configured h clk raw db of
        Inl e \<Rightarrow> (Inl e, db)
      | Inr (found, db') \<Rightarrow>
          (case register_all_configured h clk raws db' of
             (Inl e, db'') \<Rightarrow> (Inl e, db'')
           | (Inr ws, db'') \<Rightarrow> (Inr ((case found of None \<Rightarrow> [] | Some w \<Rightarrow> [w]) @ ws), db'')))"

definition revoke_workspace :: "clock \<Rightarrow> uuid \<Rightarrow> workspace tx" where
  "revoke_workspace clk workspace_id db =
     wrap_errors pick_failed
     (case workspace_get workspace_id db of
        None \<Rightarrow> Inl (AppError ''WORKSPACE_NOT_FOUND'' ''not_found'' False)
      | Some w \<Rightarrow>
          if ws_source w = WsConfigured then Inl (AppError ''WORKSPACE_MANAGED_BY_CONFIG'' ''permission'' False)
          else if ws_status w = WsRevoked then Inr (w, db)
          else let w = w\<lparr>ws_status := WsRevoked, ws_revoked_at := Some (clk 0), ws_updated_at := clk 1\<rparr> in
            rbind (workspace_update w db) (\<lambda>db.
            Inr (w, audit_create (workspace_audit w ''workspace.revoked'' (clk 2)) db)))"

text \<open>The check a task makes in its own transaction.\<close>

definition validate_for_task_within_tx :: "workspace_host \<Rightarrow> uuid \<Rightarrow> db \<Rightarrow> string res" where
  "validate_for_task_within_tx h workspace_id db =
     (case workspace_get workspace_id db of
        None \<Rightarrow> Inl (AppError ''WORKSPACE_NOT_FOUND'' ''not_found'' False)
      | Some w \<Rightarrow>
          if ws_status w = WsRevoked then Inl (AppError ''WORKSPACE_REVOKED'' ''permission'' False)
          else verify_path_still_valid h (ws_canonical_path w))"

end
