(* ===== verification/TaskService.thy ===== *)
theory TaskService
  imports Workspaces Messages
begin

text \<open>
  Creating a task (\<open>create_task\<close> of \<open>runtime/tasks/service.py\<close>): one transaction writes the
  conversation, the task, the user's message, the first run, its first event and the outbox row that
  queues it.  The credential filter is a parameter.
\<close>

section \<open>Tables\<close>

text \<open>The primary key and \<open>scheduled_execution_id\<close> are unique; the latter may be absent.\<close>

definition task_create :: "task \<Rightarrow> db \<Rightarrow> db res" where
  "task_create t db =
     (if tk_id t \<in> tk_id ` set (db_tasks db) \<or>
         (tk_scheduled_execution_id t \<noteq> None \<and>
          tk_scheduled_execution_id t \<in> tk_scheduled_execution_id ` set (db_tasks db))
      then Inl IntegrityError
      else Inr (db\<lparr>db_tasks := db_tasks db @ [t]\<rparr>))"

definition get_by_scheduled_execution :: "uuid \<Rightarrow> db \<Rightarrow> task option" where
  "get_by_scheduled_execution eid db =
     find (\<lambda>t. tk_scheduled_execution_id t = Some eid) (db_tasks db)"

definition conversation_get :: "uuid \<Rightarrow> db \<Rightarrow> conversation option" where
  "conversation_get cid db = row_get cv_id cid (db_conversations db)"

definition conversation_create :: "conversation \<Rightarrow> db \<Rightarrow> db res" where
  "conversation_create c db =
     (if cv_id c \<in> cv_id ` set (db_conversations db) then Inl IntegrityError
      else Inr (db\<lparr>db_conversations := db_conversations db @ [c]\<rparr>))"

definition merge_conversation :: "conversation \<Rightarrow> conversation \<Rightarrow> conversation" where
  "merge_conversation c x = x\<lparr>cv_title := cv_title c, cv_updated_at := cv_updated_at c\<rparr>"

definition conversation_update :: "conversation \<Rightarrow> db \<Rightarrow> db" where
  "conversation_update c db = db\<lparr>db_conversations :=
     row_update (\<lambda>x. cv_id x = cv_id c) (merge_conversation c) (db_conversations db)\<rparr>"

section \<open>Input and result\<close>

record create_task_input =
  ci_user_goal :: string
  ci_workspace_path :: "string option"
  ci_workspace_id :: "uuid option"
  ci_conversation_id :: "uuid option"
  ci_title :: "string option"
  ci_trace_id :: "uuid option"
  ci_metadata :: "dict option"
  ci_scheduled_execution_id :: "uuid option"

record create_task_result =
  cr_task :: task
  cr_run :: agent_run
  cr_conversation :: conversation
  cr_message :: message
  cr_event :: runtime_event
  cr_trace_id :: uuid
  cr_outbox_event_id :: uuid

text \<open>
  The service is built with an optional policy and an optional workspace service; \<open>th_redact\<close> is
  \<open>redact_credentials\<close>, \<open>th_repr\<close> the text of a container.
\<close>

record task_host =
  th_fs :: workspace_host
  th_policy :: "workspace_policy option"
  th_has_workspaces :: bool
  th_redact :: "string \<Rightarrow> string"
  th_repr :: "json \<Rightarrow> string"

definition task_create_failed :: error where
  "task_create_failed = AppError ''TASK_CREATE_FAILED'' ''storage'' False"

definition picker_unavailable :: error where
  "picker_unavailable = AppError ''WORKSPACE_PICKER_UNAVAILABLE'' ''internal'' False"

section \<open>Steps\<close>

text \<open>Where the task works, before the transaction: a workspace takes precedence over a path.\<close>

definition resolve_path :: "task_host \<Rightarrow> create_task_input \<Rightarrow> string option res" where
  "resolve_path h input =
     (if ci_workspace_id input \<noteq> None
      then (if th_has_workspaces h then Inr None else Inl picker_unavailable)
      else case th_policy h of
             Some p \<Rightarrow>
               policy_resolve (th_fs h) p (if or_text (ci_workspace_path input) \<noteq> [] then ci_workspace_path input else None)
           | None \<Rightarrow>
               Inr (if or_text (ci_workspace_path input) \<noteq> [] then ci_workspace_path input else None))"

text \<open>The default title is glossed with a text of the same length.\<close>

definition task_title :: "task_host \<Rightarrow> create_task_input \<Rightarrow> string" where
  "task_title h input =
     (let source = (if or_text (ci_title input) \<noteq> [] then or_text (ci_title input) else ci_user_goal input);
          stripped = py_strip (th_redact h source);
          safe = (if stripped = [] then ''new'' else stripped) in
      take 100 safe @ (if 100 < length safe then ''...'' else []))"

definition draw :: "nat \<Rightarrow> db \<Rightarrow> uuid" where "draw k db = Uuid4 (db_next db + k)"
definition advance :: "nat \<Rightarrow> db \<Rightarrow> db" where "advance k db = db\<lparr>db_next := db_next db + k\<rparr>"

definition task_conversation :: "string \<Rightarrow> int \<Rightarrow> uuid option \<Rightarrow> conversation tx" where
  "task_conversation title now conversation_id db =
     (case conversation_id of
        Some cid \<Rightarrow>
          (case conversation_get cid db of
             None \<Rightarrow> Inl not_found
           | Some c \<Rightarrow> let c = c\<lparr>cv_updated_at := now\<rparr> in Inr (c, conversation_update c db))
      | None \<Rightarrow>
          let c = \<lparr>cv_id = fresh db, cv_title = Some title, cv_created_at = now, cv_updated_at = now\<rparr> in
          rbind (conversation_create c (bump db)) (\<lambda>db. Inr (c, db)))"

definition new_task ::
  "uuid \<Rightarrow> uuid \<Rightarrow> uuid \<Rightarrow> string \<Rightarrow> create_task_input \<Rightarrow> string option \<Rightarrow> int \<Rightarrow> task" where
  "new_task tid rid cid title input workspace_path now =
     \<lparr>tk_id = tid, tk_title = title, tk_user_goal = ci_user_goal input, tk_conversation_id = cid,
      tk_status = TaskRunning, tk_priority = 0, tk_workspace_path = workspace_path,
      tk_workspace_id = ci_workspace_id input, tk_active_run_id = Some rid, tk_last_step_summary = None,
      tk_risk_level = None, tk_created_at = now, tk_updated_at = now, tk_completed_at = None,
      tk_cancelled_at = None,
      tk_metadata = (case ci_metadata input of None \<Rightarrow> [] | Some d \<Rightarrow> d),
      tk_scheduled_execution_id = ci_scheduled_execution_id input\<rparr>"

text \<open>The message of the run queue, whose id is that of the outbox event.\<close>

definition task_job ::
  "task_host \<Rightarrow> uuid \<Rightarrow> uuid \<Rightarrow> uuid \<Rightarrow> uuid \<Rightarrow> uuid \<Rightarrow> create_task_input \<Rightarrow> string option \<Rightarrow> int \<Rightarrow> dict res" where
  "task_job h oid trace tid rid cid input workspace_path now =
     (let metadata = (case ci_metadata input of None \<Rightarrow> [] | Some d \<Rightarrow> d) in
      rbind (iterate (dget metadata ''authorized_tools'' (JList []))) (\<lambda>tools.
      rbind (keyword_dict (dget metadata ''source_policy'' (JObj []))) (\<lambda>policy.
      Inr [(''job_id'', JId oid), (''trace_id'', JId trace), (''task_id'', JId tid), (''run_id'', JId rid),
           (''user_goal'', JStr (ci_user_goal input)), (''workspace_path'', JStr (or_text workspace_path)),
           (''conversation_id'', JId cid), (''created_at'', JTime now),
           (''schema_version'', JStr SCHEMA_VERSION),
           (''scheduled_task_id'', py_str (th_repr h) (dget metadata ''scheduled_task_id'' (JStr []))),
           (''authorized_tools'', JList tools), (''source_policy'', JObj policy)])))"

section \<open>The operation\<close>

text \<open>Steps 2 to 6: the task, the user's message, the run, its first event and the outbox row.\<close>

record task_ids =
  ti_task :: uuid
  ti_run :: uuid
  ti_message :: uuid
  ti_event :: uuid
  ti_outbox :: uuid
  ti_trace :: uuid

definition write_task ::
  "task_host \<Rightarrow> clock \<Rightarrow> create_task_input \<Rightarrow> task_ids \<Rightarrow> string option \<Rightarrow> conversation \<Rightarrow> create_task_result tx" where
  "write_task h clk input i workspace_path conversation db =
     (let now = clk 0;
          task = new_task (ti_task i) (ti_run i) (cv_id conversation) (task_title h input) input workspace_path now;
          message = \<lparr>mg_id = ti_message i, mg_conversation_id = cv_id conversation, mg_role = ''user'',
             mg_content = JStr (ci_user_goal input), mg_task_id = Some (ti_task i), mg_run_id = None,
             mg_created_at = now\<rparr>;
          run = new_agent_run (ti_run i) (ti_task i) now [] [(''trace_id'', JId (ti_trace i))] in
      rbind (task_create task db) (\<lambda>db.
      rbind (run_create run (message_create message db)) (\<lambda>db.
      let event = new_runtime_event (fresh db) (ti_event i) (ti_task i) (ti_run i) ''task.created''
             (get_next_sequence (ti_run i) db)
             [(''task_id'', JId (ti_task i)), (''run_id'', JId (ti_run i)),
              (''user_goal'', JStr (ci_user_goal input))] now in
      rbind (events_append [event] (bump db)) (\<lambda>db.
      rbind (task_job h (ti_outbox i) (ti_trace i) (ti_task i) (ti_run i) (cv_id conversation) input workspace_path now) (\<lambda>job.
      rbind (outbox_create (new_outbox_event (ti_outbox i) (ti_run i) ''task.created'' job (ti_trace i) None None now (clk 1)) db) (\<lambda>db.
      Inr (\<lparr>cr_task = task, cr_run = run, cr_conversation = conversation, cr_message = message,
            cr_event = event, cr_trace_id = ti_trace i, cr_outbox_event_id = ti_outbox i\<rparr>, db)))))))"

text \<open>
  Identifiers are drawn in the order of the code: task, run, message, event, outbox event, trace (when
  the caller gives none), conversation (when it is new), the keys of the event and of the outbox row.
\<close>

definition draw_ids :: "create_task_input \<Rightarrow> db \<Rightarrow> task_ids \<times> db" where
  "draw_ids input db =
     (\<lparr>ti_task = draw 0 db, ti_run = draw 1 db, ti_message = draw 2 db, ti_event = draw 3 db,
       ti_outbox = draw 4 db, ti_trace = (case ci_trace_id input of Some t \<Rightarrow> t | None \<Rightarrow> draw 5 db)\<rparr>,
      advance (if ci_trace_id input = None then 6 else 5) db)"

definition create_task_tx ::
  "task_host \<Rightarrow> clock \<Rightarrow> create_task_input \<Rightarrow> string option \<Rightarrow> create_task_result tx" where
  "create_task_tx h clk input path db =
     (let (ids, db) = draw_ids input db in
      rbind (case ci_workspace_id input of
               Some wid \<Rightarrow> rbind (validate_for_task_within_tx (th_fs h) wid db) (\<lambda>p. Inr (Some p))
             | None \<Rightarrow> Inr path) (\<lambda>workspace_path.
      rbind (task_conversation (task_title h input) (clk 0) (ci_conversation_id input) db) (\<lambda>(conversation, db).
      write_task h clk input ids workspace_path conversation db)))"

definition create_task :: "task_host \<Rightarrow> clock \<Rightarrow> create_task_input \<Rightarrow> create_task_result tx" where
  "create_task h clk input db =
     rbind (resolve_path h input) (\<lambda>path.
     wrap_errors task_create_failed (create_task_tx h clk input path db))"

end
