(* ===== verification/Schedules.thy ===== *)
theory Schedules
  imports TaskService
begin

text \<open>
  Recurring tasks (\<open>runtime/schedules/service.py\<close> and \<open>runtime/schedules/postgres_repository.py\<close>):
  schedules are created, paused, resumed and triggered by the user; a worker ticks, turning the due
  slots of schedules into executions, and dispatches the executions, each into one task.
\<close>

section \<open>Tables\<close>

definition schedule_get :: "uuid \<Rightarrow> db \<Rightarrow> scheduled_task option" where
  "schedule_get sid db = row_get sc_id sid (db_schedules db)"

definition schedule_create :: "scheduled_task \<Rightarrow> db \<Rightarrow> db res" where
  "schedule_create s db =
     (if sc_id s \<in> sc_id ` set (db_schedules db) then Inl IntegrityError
      else Inr (db\<lparr>db_schedules := db_schedules db @ [s]\<rparr>))"

definition merge_schedule :: "scheduled_task \<Rightarrow> scheduled_task \<Rightarrow> scheduled_task" where
  "merge_schedule s x = x\<lparr>sc_status := sc_status s, sc_next_run_at := sc_next_run_at s,
     sc_last_run_at := sc_last_run_at s, sc_last_task_id := sc_last_task_id s,
     sc_last_run_id := sc_last_run_id s, sc_version := sc_version s, sc_updated_at := sc_updated_at s\<rparr>"

definition schedule_update :: "scheduled_task \<Rightarrow> db \<Rightarrow> db" where
  "schedule_update s db = db\<lparr>db_schedules := row_update (\<lambda>x. sc_id x = sc_id s) (merge_schedule s) (db_schedules db)\<rparr>"

definition schedule_list :: "db \<Rightarrow> scheduled_task list" where
  "schedule_list db = take 100 (rev (sort_key sc_created_at (db_schedules db)))"

definition list_due :: "int \<Rightarrow> nat \<Rightarrow> db \<Rightarrow> scheduled_task list" where
  "list_due now limit db =
     take limit (sort_key sc_next_run_at
       (filter (\<lambda>s. sc_status s = SchActive \<and> sc_next_run_at s \<le> now) (db_schedules db)))"

text \<open>A schedule has at most one execution for an instant.\<close>

definition execution_get :: "uuid \<Rightarrow> db \<Rightarrow> scheduled_execution option" where
  "execution_get eid db = row_get sx_id eid (db_executions db)"

definition slot_of :: "scheduled_execution \<Rightarrow> uuid \<times> int" where
  "slot_of x = (sx_schedule_id x, sx_scheduled_for x)"

definition execution_create :: "scheduled_execution \<Rightarrow> db \<Rightarrow> db res" where
  "execution_create x db =
     (if sx_id x \<in> sx_id ` set (db_executions db) \<or> slot_of x \<in> slot_of ` set (db_executions db)
      then Inl IntegrityError
      else Inr (db\<lparr>db_executions := db_executions db @ [x]\<rparr>))"

definition merge_execution :: "scheduled_execution \<Rightarrow> scheduled_execution \<Rightarrow> scheduled_execution" where
  "merge_execution e x = x\<lparr>sx_status := sx_status e, sx_task_id := sx_task_id e, sx_run_id := sx_run_id e,
     sx_attempts := sx_attempts e, sx_lease_until := sx_lease_until e, sx_error_code := sx_error_code e,
     sx_updated_at := sx_updated_at e\<rparr>"

definition execution_update :: "scheduled_execution \<Rightarrow> db \<Rightarrow> db" where
  "execution_update e db = db\<lparr>db_executions :=
     row_update (\<lambda>x. sx_id x = sx_id e) (merge_execution e) (db_executions db)\<rparr>"

definition list_dispatchable :: "int \<Rightarrow> nat \<Rightarrow> db \<Rightarrow> scheduled_execution list" where
  "list_dispatchable now limit db =
     take limit (sort_key sx_created_at (filter (\<lambda>x.
       sx_status x = ExPending \<or>
       sx_status x = ExDispatching \<and> (case sx_lease_until x of None \<Rightarrow> False | Some t \<Rightarrow> t \<le> now))
       (db_executions db)))"

definition new_execution :: "uuid \<Rightarrow> uuid \<Rightarrow> int \<Rightarrow> int \<Rightarrow> scheduled_execution" where
  "new_execution eid sid slot now =
     \<lparr>sx_id = eid, sx_schedule_id = sid, sx_scheduled_for = slot, sx_status = ExPending, sx_task_id = None,
      sx_run_id = None, sx_attempts = 0, sx_lease_until = None, sx_error_code = None,
      sx_created_at = now, sx_updated_at = now\<rparr>"

section \<open>Creating a schedule\<close>

text \<open>\<open>sh_zones\<close> is \<open>ZoneInfo\<close>: no zone for an unknown key.  \<open>sh_str\<close> and \<open>sh_quote\<close> are \<open>str\<close> and \<open>repr\<close>.\<close>

record schedule_host =
  sh_tasks :: task_host
  sh_zones :: "string \<Rightarrow> time_zone option"
  sh_str :: "json \<Rightarrow> string"
  sh_quote :: "json \<Rightarrow> string"

record create_schedule_input =
  cs_name :: string
  cs_user_goal :: string
  cs_recurrence :: string
  cs_timezone :: string
  cs_hour :: int
  cs_minute :: int
  cs_weekday :: "int option"
  cs_workspace_id :: "uuid option"
  cs_task_kind :: string
  cs_source_query :: "string option"
  cs_source_max_results :: int

definition parse_recurrence :: "string \<Rightarrow> recurrence option" where
  "parse_recurrence s = (if s = ''daily'' then Some Daily else if s = ''weekly'' then Some Weekly else None)"

definition parse_schedule_status :: "string \<Rightarrow> schedule_status option" where
  "parse_schedule_status s = (if s = ''active'' then Some SchActive else if s = ''paused'' then Some SchPaused else None)"

fun schedule_status_value :: "schedule_status \<Rightarrow> string" where
  "schedule_status_value SchActive = ''active''"
| "schedule_status_value SchPaused = ''paused''"

text \<open>What a report on a source may search for, and the tools it is allowed.\<close>

definition source_rules :: "create_schedule_input \<Rightarrow> (dict \<times> string list) res" where
  "source_rules d =
     (if cs_task_kind d = ''source_report''
      then let query = join_with '' '' (words_from [] (or_text (cs_source_query d))) in
        if query = [] \<or> 300 < length query then Inl validation_error
        else if \<not> (1 \<le> cs_source_max_results d \<and> cs_source_max_results d \<le> 10) then Inl validation_error
        else Inr ([(''provider'', JStr ''arxiv''), (''query'', JStr query),
                   (''max_results'', JInt (cs_source_max_results d))],
                  [''literature.search_arxiv'', ''knowledge.create_document''])
      else Inr ([], [''knowledge.create_document'']))"

definition schedule_audit :: "string \<Rightarrow> uuid \<Rightarrow> int \<Rightarrow> uuid \<Rightarrow> audit_log" where
  "schedule_audit event sid now pk =
     \<lparr>au_id = pk, au_event_type = event,
      au_actor = (if event \<in> {''schedule.created'', ''schedule.triggered''} then ''user'' else ''system''),
      au_action_summary = [], au_task_id = None, au_run_id = None, au_step_id = None,
      au_tool_call_id = None, au_risk_level = Some ''L2'', au_permission_decision = Some ''user_explicit'',
      au_details = [(''scheduled_task_id'', JId sid)], au_result_summary = Some [], au_error = None,
      au_created_at = now\<rparr>"

definition workspace_usable :: "uuid option \<Rightarrow> db \<Rightarrow> unit res" where
  "workspace_usable wid db =
     (case wid of
        None \<Rightarrow> Inr ()
      | Some w \<Rightarrow>
          (case workspace_get w db of
             None \<Rightarrow> Inl (AppError ''WORKSPACE_NOT_FOUND'' ''not_found'' False)
           | Some x \<Rightarrow> ensure (ws_status x = WsActive) (AppError ''WORKSPACE_NOT_FOUND'' ''not_found'' False)))"

definition create_schedule :: "schedule_host \<Rightarrow> clock \<Rightarrow> create_schedule_input \<Rightarrow> scheduled_task tx" where
  "create_schedule h clk d db =
     (let name = py_strip (cs_name d); goal = py_strip (cs_user_goal d) in
      if name = [] \<or> goal = [] then Inl validation_error
      else case (parse_recurrence (cs_recurrence d), sh_zones h (cs_timezone d)) of
        (Some recurrence, Some zone) \<Rightarrow>
          if \<not> (0 \<le> cs_hour d \<and> cs_hour d \<le> 23) \<or> \<not> (0 \<le> cs_minute d \<and> cs_minute d \<le> 59)
          then Inl validation_error
          else if recurrence = Weekly \<and> (case cs_weekday d of None \<Rightarrow> True | Some wd \<Rightarrow> \<not> (0 \<le> wd \<and> wd \<le> 6))
          then Inl validation_error
          else if recurrence = Daily \<and> cs_weekday d \<noteq> None then Inl validation_error
          else if cs_task_kind d \<notin> {''knowledge_report'', ''source_report''} then Inl validation_error
          else rbind (source_rules d) (\<lambda>(source_policy, authorized_tools).
            let now = clk 0 in
            rbind (next_run recurrence zone (cs_hour d) (cs_minute d) (cs_weekday d) now) (\<lambda>next.
            let item = \<lparr>sc_id = fresh db, sc_name = take 200 name, sc_user_goal = take 10000 goal,
                  sc_recurrence = recurrence, sc_timezone = cs_timezone d, sc_hour = cs_hour d,
                  sc_minute = cs_minute d, sc_next_run_at = next, sc_weekday = cs_weekday d,
                  sc_workspace_id = cs_workspace_id d, sc_status = SchActive,
                  sc_authorized_tools = authorized_tools, sc_task_kind = cs_task_kind d,
                  sc_source_policy = source_policy, sc_last_run_at = None, sc_last_task_id = None,
                  sc_last_run_id = None, sc_version = 1, sc_created_at = now, sc_updated_at = now\<rparr> in
            rbind (workspace_usable (cs_workspace_id d) db) (\<lambda>_.
            rbind (schedule_create item (bump db)) (\<lambda>db.
            Inr (item, audit_create (schedule_audit ''schedule.created'' (sc_id item) (clk 1)) db)))))
      | _ \<Rightarrow> Inl validation_error)"

section \<open>Pausing, resuming and triggering\<close>

definition schedule_not_found :: error where
  "schedule_not_found = AppError ''SCHEDULE_NOT_FOUND'' ''not_found'' False"

text \<open>\<open>_next_run\<close> of a stored schedule: its zone is looked up again.\<close>

definition schedule_next :: "schedule_host \<Rightarrow> scheduled_task \<Rightarrow> int \<Rightarrow> int res" where
  "schedule_next h s after =
     (case sh_zones h (sc_timezone s) of
        None \<Rightarrow> Inl KeyError
      | Some zone \<Rightarrow> next_run (sc_recurrence s) zone (sc_hour s) (sc_minute s) (sc_weekday s) after)"

definition set_schedule_status :: "schedule_host \<Rightarrow> clock \<Rightarrow> uuid \<Rightarrow> string \<Rightarrow> int \<Rightarrow> scheduled_task tx" where
  "set_schedule_status h clk sid status expected_version db =
     (case parse_schedule_status status of
        None \<Rightarrow> Inl validation_error
      | Some target \<Rightarrow>
          (case schedule_get sid db of
             None \<Rightarrow> Inl schedule_not_found
           | Some s \<Rightarrow>
               if sc_version s \<noteq> expected_version
               then Inl (AppError ''SCHEDULE_VERSION_CONFLICT'' ''runtime'' True)
               else let now = clk 0;
                    s = s\<lparr>sc_status := target, sc_version := sc_version s + 1, sc_updated_at := now\<rparr> in
                 rbind (if target = SchActive \<and> sc_next_run_at s \<le> now then schedule_next h s now
                        else Inr (sc_next_run_at s)) (\<lambda>next.
                 let s = s\<lparr>sc_next_run_at := next\<rparr> in
                 Inr (s, audit_create (schedule_audit (''schedule.'' @ schedule_status_value target) sid (clk 1))
                           (schedule_update s db)))))"

definition trigger_tx :: "clock \<Rightarrow> uuid \<Rightarrow> scheduled_execution tx" where
  "trigger_tx clk sid db =
     (case schedule_get sid db of
        None \<Rightarrow> Inl schedule_not_found
      | Some s \<Rightarrow>
          let x = new_execution (fresh db) (sc_id s) (clk 0) (clk 0) in
          rbind (execution_create x (bump db)) (\<lambda>db.
          Inr (x, audit_create (schedule_audit ''schedule.triggered'' (sc_id s) (clk 1)) db)))"

section \<open>Dispatching an execution\<close>

text \<open>The first transaction claims the execution for 60 seconds, or gives it up, or leaves it.\<close>

definition lease_us :: int where "lease_us = 60 * second_us"

definition dispatch_claim :: "uuid \<Rightarrow> int \<Rightarrow> db \<Rightarrow> scheduled_execution option \<times> db" where
  "dispatch_claim eid now db =
     (case execution_get eid db of
        None \<Rightarrow> (None, db)
      | Some x \<Rightarrow>
          if sx_status x \<noteq> ExPending \<and> sx_status x \<noteq> ExDispatching then (None, db)
          else if sx_status x = ExDispatching \<and> (case sx_lease_until x of None \<Rightarrow> False | Some t \<Rightarrow> now < t)
          then (None, db)
          else if 3 \<le> sx_attempts x
          then (None, execution_update (x\<lparr>sx_status := ExFailed,
                  sx_error_code := Some ''SCHEDULE_DISPATCH_RETRY_EXHAUSTED'', sx_updated_at := now\<rparr>) db)
          else let x = x\<lparr>sx_status := ExDispatching, sx_attempts := sx_attempts x + 1,
                     sx_lease_until := Some (now + lease_us), sx_updated_at := now\<rparr> in
            (Some x, execution_update x db))"

text \<open>The Chinese instructions of a source report are glossed.\<close>

definition execution_goal :: "schedule_host \<Rightarrow> scheduled_task \<Rightarrow> string res" where
  "execution_goal h s =
     (if sc_task_kind s \<noteq> ''source_report'' then Inr (sc_user_goal s)
      else rbind (ditem (sc_source_policy s) ''query'') (\<lambda>query.
        rbind (ditem (sc_source_policy s) ''max_results'') (\<lambda>max_results.
        Inr (sc_user_goal s @ [CHR 0x0A, CHR 0x0A] @
          ''This is a recurring source report that the user authorized. First call literature.search_arxiv '' @
          ''with exactly query='' @ sh_quote h query @ '', max_results='' @ sh_str h max_results @
          ''. Summarize only new results and save a report with knowledge.create_document.''))))"

definition schedule_task_input :: "schedule_host \<Rightarrow> scheduled_task \<Rightarrow> uuid \<Rightarrow> create_task_input res" where
  "schedule_task_input h s eid =
     rbind (execution_goal h s) (\<lambda>goal.
     Inr \<lparr>ci_user_goal = goal, ci_workspace_path = None, ci_workspace_id = sc_workspace_id s,
          ci_conversation_id = None, ci_title = Some (''[re] '' @ sc_name s), ci_trace_id = None,
          ci_metadata = Some [(''scheduled_task_id'', JId (sc_id s)),
            (''authorized_tools'', JList (map JStr (sc_authorized_tools s))),
            (''source_policy'', JObj (sc_source_policy s))],
          ci_scheduled_execution_id = Some eid\<rparr>)"

text \<open>Then the task is found or created: its id and its run's.\<close>

definition dispatch_target :: "schedule_host \<Rightarrow> clock \<Rightarrow> scheduled_execution \<Rightarrow> (uuid \<times> uuid option) tx" where
  "dispatch_target h clk x db =
     (case schedule_get (sx_schedule_id x) db of
        None \<Rightarrow> Inl schedule_not_found
      | Some s \<Rightarrow>
          (case get_by_scheduled_execution (sx_id x) db of
             Some t \<Rightarrow> Inr ((tk_id t, tk_active_run_id t), db)
           | None \<Rightarrow>
               rbind (schedule_task_input h s (sx_id x)) (\<lambda>input.
               rbind (create_task (sh_tasks h) clk input db) (\<lambda>(r, db).
               Inr ((tk_id (cr_task r), Some (ar_id (cr_run r))), db)))))"

text \<open>The last transaction records the task, whatever the execution's state has become.\<close>

definition dispatch_finish :: "clock \<Rightarrow> uuid \<Rightarrow> uuid \<times> uuid option \<Rightarrow> db \<Rightarrow> db res" where
  "dispatch_finish clk eid target db =
     (case execution_get eid db of
        None \<Rightarrow> Inl AttributeError
      | Some x \<Rightarrow>
          let db = execution_update (x\<lparr>sx_status := ExDispatched, sx_task_id := Some (fst target),
                sx_run_id := snd target, sx_lease_until := None, sx_error_code := None,
                sx_updated_at := clk 0\<rparr>) db in
          (case schedule_get (sx_schedule_id x) db of
             None \<Rightarrow> Inl AttributeError
           | Some s \<Rightarrow> Inr (schedule_update (s\<lparr>sc_last_task_id := Some (fst target),
               sc_last_run_id := snd target, sc_updated_at := clk 1\<rparr>) db)))"

text \<open>An error after the claim is logged; the execution stays claimed until its lease runs out.\<close>

definition dispatch :: "schedule_host \<Rightarrow> clock \<Rightarrow> uuid \<Rightarrow> db \<Rightarrow> db" where
  "dispatch h clk eid db =
     (case dispatch_claim eid (clk 0) db of
        (None, db) \<Rightarrow> db
      | (Some x, db) \<Rightarrow>
          (case dispatch_target h (\<lambda>i. clk (1 + i)) x db of
             Inl _ \<Rightarrow> db
           | Inr (target, db) \<Rightarrow>
               (case dispatch_finish (\<lambda>i. clk (3 + i)) (sx_id x) target db of
                  Inl _ \<Rightarrow> db
                | Inr db \<Rightarrow> db)))"

text \<open>The i-th candidate has a clock of its own.\<close>

fun dispatch_each :: "schedule_host \<Rightarrow> (nat \<Rightarrow> clock) \<Rightarrow> scheduled_execution list \<Rightarrow> db \<Rightarrow> db" where
  "dispatch_each h clks [] db = db"
| "dispatch_each h clks (x # xs) db =
     dispatch_each h (\<lambda>i. clks (Suc i)) xs (dispatch h (clks 0) (sx_id x) db)"

definition dispatch_pending :: "schedule_host \<Rightarrow> int \<Rightarrow> (nat \<Rightarrow> clock) \<Rightarrow> nat \<Rightarrow> db \<Rightarrow> db" where
  "dispatch_pending h now clks limit db = dispatch_each h clks (list_dispatchable now limit db) db"

definition trigger_now :: "schedule_host \<Rightarrow> clock \<Rightarrow> clock \<Rightarrow> uuid \<Rightarrow> db \<Rightarrow> scheduled_execution option res \<times> db" where
  "trigger_now h clk dispatch_clk sid db =
     (case transact (trigger_tx clk sid) db of
        (Inl e, db) \<Rightarrow> (Inl e, db)
      | (Inr x, db) \<Rightarrow>
          let db = dispatch h dispatch_clk (sx_id x) db in (Inr (execution_get (sx_id x) db), db))"

section \<open>The tick\<close>

text \<open>A due schedule gets an execution for its slot and moves on to the first slot after it.\<close>

definition tick_item :: "schedule_host \<Rightarrow> int \<Rightarrow> scheduled_task \<Rightarrow> db \<Rightarrow> db res" where
  "tick_item h now s db =
     (let scheduled_for = sc_next_run_at s in
      rbind (execution_create (new_execution (fresh db) (sc_id s) scheduled_for now) (bump db)) (\<lambda>db.
      rbind (schedule_next h s (scheduled_for + second_us)) (\<lambda>next.
      Inr (schedule_update (s\<lparr>sc_last_run_at := Some scheduled_for, sc_next_run_at := next,
             sc_updated_at := now, sc_version := sc_version s + 1\<rparr>) db))))"

definition tick_tx :: "schedule_host \<Rightarrow> int \<Rightarrow> nat tx" where
  "tick_tx h now db =
     (let due = list_due now 16 db in
      rbind (foldR (tick_item h now) due db) (\<lambda>db. Inr (length due, db)))"

text \<open>The readings of the clock are the tick's and that of the scan for candidates.\<close>

definition tick :: "schedule_host \<Rightarrow> clock \<Rightarrow> (nat \<Rightarrow> clock) \<Rightarrow> db \<Rightarrow> nat res \<times> db" where
  "tick h clk clks db =
     (case transact (tick_tx h (clk 0)) db of
        (Inl e, db) \<Rightarrow> (Inl e, db)
      | (Inr n, db) \<Rightarrow> (Inr n, dispatch_pending h (clk 1) clks 16 db))"

end
