(* ===== verification/WorkspaceFacts.thy ===== *)
theory WorkspaceFacts
  imports Workspaces
begin

text \<open>
  What the workspace rules guarantee: the meaning of \<open>is_within\<close> on canonical paths, what a registered
  directory cannot cover or lie in, what the policy of the server lets through, and the registry's
  invariant over every sequence of its operations.
\<close>

section \<open>Canonical paths\<close>

text \<open>A canonical path is absolute, with neither empty nor dot components nor a trailing slash.\<close>

definition proper_part :: "string \<Rightarrow> bool" where
  "proper_part p \<longleftrightarrow> p \<noteq> [] \<and> p \<noteq> ''.'' \<and> CHR 0x2F \<notin> set p"

definition canonical_path :: "string \<Rightarrow> bool" where
  "canonical_path p \<longleftrightarrow> list_all proper_part (path_parts p) \<and> p = join_path True (path_parts p)"

text \<open>What the code relies on of \<open>resolve\<close>: its results are canonical.\<close>

definition canonical_host :: "workspace_host \<Rightarrow> bool" where
  "canonical_host h \<longleftrightarrow> (\<forall>p. canonical_path (wh_canonical h p))"

lemma path_parts_of_join: "list_all proper_part ps \<Longrightarrow> path_parts (join_path b ps) = ps"
proof -
  assume ps: "list_all proper_part ps"
  have "filter (\<lambda>p. p \<noteq> [] \<and> p \<noteq> ''.'') ps = ps"
    using ps by (auto simp: filter_id_conv proper_part_def list_all_iff)
  moreover have "ps \<noteq> [] \<Longrightarrow> split_on CHR 0x2F (join_with ''/'' ps) = ps"
    by (rule split_on_join) (use ps in \<open>auto simp: proper_part_def list_all_iff\<close>)
  ultimately show ?thesis by (cases "ps = []") (auto simp: join_path_def path_parts_def)
qed

lemma join_path_absolute [simp]: "path_absolute (join_path True ps)"
  by (simp add: join_path_def path_absolute_def)

lemma canonical_absolute: "canonical_path p \<Longrightarrow> path_absolute p"
  by (metis canonical_path_def join_path_absolute)

lemma longest_common_prefix_eq: "longest_common_prefix xs ys = ys \<longleftrightarrow> prefix ys xs"
  by (metis longest_common_prefix_max_prefix longest_common_prefix_prefix1 longest_common_prefix_prefix2
      prefix_order.antisym prefix_order.refl)

lemma list_all_common_prefix: "list_all P xs \<Longrightarrow> list_all P (longest_common_prefix xs ys)"
  using longest_common_prefix_prefix1 [of xs ys] by (auto simp: list_all_iff dest: set_mono_prefix)

text \<open>On canonical paths, being within is having the components of the parent as a prefix; a common
  beginning of the texts, as of \<open>/usr\<close> and \<open>/users\<close>, does not count.\<close>

lemma is_within_iff:
  assumes "canonical_path p" and "canonical_path q"
  shows "is_within p q \<longleftrightarrow> prefix (path_parts q) (path_parts p)"
proof -
  let ?c = "longest_common_prefix (path_parts p) (path_parts q)"
  have proper: "list_all proper_part ?c"
    using assms(1) by (simp add: canonical_path_def list_all_common_prefix)
  have "is_within p q \<longleftrightarrow> join_path True ?c = join_path True (path_parts q)"
    using canonical_absolute [OF assms(1)] canonical_absolute [OF assms(2)] assms(2)
    by (simp add: is_within_def commonpath_def canonical_path_def)
  also have "\<dots> \<longleftrightarrow> ?c = path_parts q"
    using path_parts_of_join [OF proper] path_parts_of_join [of "path_parts q"] assms(2)
    by (metis canonical_path_def)
  finally show ?thesis by (simp add: longest_common_prefix_eq)
qed

section \<open>What may be registered\<close>

text \<open>\<open>covers p q\<close>: the directory \<open>p\<close> is \<open>q\<close> or contains it.\<close>

definition covers :: "string \<Rightarrow> string \<Rightarrow> bool" where
  "covers p q \<longleftrightarrow> prefix (path_parts p) (path_parts q)"

definition safe_directory :: "workspace_host \<Rightarrow> string \<Rightarrow> bool" where
  "safe_directory h p \<longleftrightarrow>
     canonical_path p \<and> wh_is_dir h p \<and> \<not> covers p (wh_canonical h ''~'') \<and>
     p \<notin> wh_canonical h ` set EXACT_FORBIDDEN \<and>
     (\<forall>tree \<in> set (FORBIDDEN_TREES @ SENSITIVE_ROOTS). \<not> covers (wh_canonical h tree) p)"

text \<open>
  C20. The path rules accept exactly the safe directories: an accepted path is canonical, an existing
  directory, neither one of the forbidden roots nor a directory that contains the home directory, and
  lies in no system tree and in no sensitive directory.
\<close>

theorem validated_path_safe:
  assumes "canonical_host h"
  shows "validate_path_for_registration h raw = Inr p \<longleftrightarrow>
    py_strip raw \<noteq> [] \<and> p = wh_canonical h (py_strip raw) \<and> safe_directory h p"
proof -
  have c: "canonical_path (wh_canonical h q)" for q using assms by (simp add: canonical_host_def)
  have within: "is_within (wh_canonical h a) (wh_canonical h b) = covers (wh_canonical h b) (wh_canonical h a)" for a b
    unfolding covers_def by (rule is_within_iff) (rule c)+
  show ?thesis
    unfolding validate_path_for_registration_def safe_directory_def is_sensitive_def Let_def list_ex_iff within
    by (auto simp: c covers_def)
qed

text \<open>
  What a task is given for a registered path is safe too.  It is the registered path unless that
  begins or ends with white space, which the re-validation strips (\<open>verified_path_differs\<close> below).
\<close>

lemma verified_path_safe:
  assumes "canonical_host h" and "verify_path_still_valid h stored = Inr p"
  shows "safe_directory h p \<and> (py_strip stored = stored \<longrightarrow> p = stored)"
proof -
  have v: "wh_canonical h stored = stored" "validate_path_for_registration h stored = Inr p"
    using assms(2) by (auto simp: verify_path_still_valid_def split: if_splits)
  note accepted = iffD1 [OF validated_path_safe [OF assms(1)] v(2), THEN conjunct2]
  note p = conjunct1 [OF accepted] conjunct2 [OF accepted]
  show ?thesis
  proof (intro conjI impI)
    assume "py_strip stored = stored"
    then show "p = stored" using p(1) v(1) by simp
  qed (rule p(2))
qed

text \<open>
  The policy of the server lets a task have a directory only inside one of the allowed roots.
\<close>

theorem policy_resolve_allowed:
  assumes "canonical_host h" and "policy_resolve h (policy_from_env h workspace_root allowed) requested = Inr (Some p)"
  shows "wh_is_dir h p \<and>
    (\<exists>allowed_root \<in> set (wp_allowed (policy_from_env h workspace_root allowed)). covers allowed_root p)"
proof -
  let ?p = "policy_from_env h workspace_root allowed"
  have canonical: "canonical_path r" if "r \<in> set (unique_paths h raws)" for r raws
  proof -
    have "(\<forall>r \<in> set acc. canonical_path r) \<Longrightarrow> r \<in> set (fold (keep_path h) raws acc) \<Longrightarrow> canonical_path r" for acc
    proof (induction raws arbitrary: acc)
      case (Cons raw raws)
      have "\<forall>r \<in> set (keep_path h raw acc). canonical_path r"
        using Cons.prems(1) assms(1) by (auto simp: keep_path_def Let_def canonical_host_def)
      with Cons show ?case by simp
    qed simp
    from this [of "[]"] that show ?thesis by (simp add: unique_paths_def)
  qed
  obtain r where r: "r \<in> set (wp_allowed ?p)" "is_within p r" "wh_is_dir h p" "canonical_path p"
    using assms by (auto simp: policy_resolve_def Let_def list_ex_iff canonical_host_def split: if_splits)
  moreover have "canonical_path r" using r(1) canonical by (auto simp: policy_from_env_def Let_def)
  ultimately show ?thesis using is_within_iff by (auto simp: covers_def)
qed

section \<open>The registry\<close>

interpretation workspaces: keyed_table workspace_get workspace_put ws_id merge_workspace
  by unfold_locales
    (auto simp: workspace_get_def workspace_put_def row_get_update_key merge_workspace_def)

text \<open>
  The steps of the registry: start-up registers the configured paths, the user picks a directory or
  revokes a workspace, and the other operations of the program leave the table alone.
\<close>

inductive workspace_step :: "workspace_host \<Rightarrow> db \<Rightarrow> db \<Rightarrow> bool" for h where
  configured: "register_configured h clk raw db = Inr (found, db') \<Longrightarrow> workspace_step h db db'"
| picked: "pick_workspace h clk picker db = Inr (found, db') \<Longrightarrow> workspace_step h db db'"
| revoked: "revoke_workspace clk wid db = Inr (w, db') \<Longrightarrow> workspace_step h db db'"
| elsewhere: "db_workspaces db' = db_workspaces db \<Longrightarrow> workspace_step h db db'"

inductive_cases workspace_stepE: "workspace_step h db db'"

text \<open>Identifiers that are drawn later are new: this ties the counter to the table.\<close>

definition workspaces_ok :: "workspace_host \<Rightarrow> workspace list \<Rightarrow> bool" where
  "workspaces_ok h ws \<longleftrightarrow>
     distinct (map ws_canonical_path ws) \<and> distinct (map ws_id ws) \<and>
     (\<forall>w \<in> set ws. safe_directory h (ws_canonical_path w) \<and>
        (ws_source w = WsConfigured \<longrightarrow> ws_status w = WsActive) \<and>
        (ws_status w = WsRevoked \<longleftrightarrow> ws_revoked_at w \<noteq> None))"

lemma wrap_errors_Inr [simp]: "wrap_errors e m = Inr x \<longleftrightarrow> m = Inr x"
  by (cases "(e, m)" rule: wrap_errors.cases) auto

lemma workspace_update_Inr:
  "workspace_update w db = Inr db' \<Longrightarrow> db' = workspace_put w db \<and> workspace_get (ws_id w) db \<noteq> None"
  by (auto simp: workspace_update_def split: if_splits)

text \<open>Writing back a row with its own path and key.\<close>

lemma registry_put:
  assumes "workspaces_ok h (db_workspaces db)" and "x \<in> set (db_workspaces db)"
    and "ws_id w = ws_id x" "ws_canonical_path w = ws_canonical_path x"
    and "ws_source w = WsConfigured \<Longrightarrow> ws_status w = WsActive"
    and "ws_status w = WsRevoked \<longleftrightarrow> ws_revoked_at w \<noteq> None"
  shows "workspaces_ok h (db_workspaces (workspace_put w db))"
proof -
  have same: "ws_canonical_path y = ws_canonical_path w" if "y \<in> set (db_workspaces db)" "ws_id y = ws_id w" for y
    using assms(1-4) that by (auto simp: workspaces_ok_def distinct_map dest: inj_onD)
  have rows: "db_workspaces (workspace_put w db) =
      map (\<lambda>y. if ws_id y = ws_id w then merge_workspace w y else y) (db_workspaces db)"
    by (simp add: workspace_put_def row_update_def)
  have "map ws_canonical_path (db_workspaces (workspace_put w db)) = map ws_canonical_path (db_workspaces db)"
    unfolding rows by (auto simp: merge_workspace_def same)
  moreover have "map ws_id (db_workspaces (workspace_put w db)) = map ws_id (db_workspaces db)"
    unfolding rows by (auto simp: merge_workspace_def)
  moreover have safe: "safe_directory h (ws_canonical_path w)" using assms(1,2,4) by (simp add: workspaces_ok_def)
  moreover have "safe_directory h (ws_canonical_path y) \<and> (ws_source y = WsConfigured \<longrightarrow> ws_status y = WsActive) \<and>
      (ws_status y = WsRevoked \<longleftrightarrow> ws_revoked_at y \<noteq> None)" if y: "y \<in> set (db_workspaces (workspace_put w db))" for y
  proof -
    obtain z where z: "z \<in> set (db_workspaces db)" "y = (if ws_id z = ws_id w then merge_workspace w z else z)"
      using y unfolding rows by auto
    show ?thesis
    proof (cases "ws_id z = ws_id w")
      case True
      with z(2) have "y = merge_workspace w z" by simp
      then show ?thesis using safe assms(5,6) by (simp add: merge_workspace_def)
    next
      case False
      with z assms(1) show ?thesis by (simp add: workspaces_ok_def)
    qed
  qed
  ultimately show ?thesis using assms(1) by (simp add: workspaces_ok_def)
qed

lemma workspace_get_mem: "workspace_get k db = Some w \<Longrightarrow> w \<in> set (db_workspaces db) \<and> ws_id w = k"
  by (auto simp: workspace_get_def dest: row_get_mem)

text \<open>What registering a path returns, and the table it leaves.\<close>

lemma register_existing_ok:
  assumes "workspaces_ok h (db_workspaces db)" and "x \<in> set (db_workspaces db)"
    and "register_existing clk name source dir x db = Inr (w, db')"
  shows "workspaces_ok h (db_workspaces db') \<and> ws_id w = ws_id x \<and> ws_canonical_path w = ws_canonical_path x \<and>
    ws_status w = WsActive \<and> workspace_get (ws_id x) db' \<noteq> None"
proof -
  define w' where "w' = (let y = (if ws_status x = WsRevoked
      then x\<lparr>ws_status := WsActive, ws_revoked_at := None, ws_updated_at := clk 1, ws_name := name, ws_root_path := dir\<rparr>
      else x) in
    if source = WsConfigured \<and> ws_source x \<noteq> WsConfigured
    then y\<lparr>ws_source := WsConfigured, ws_root_path := dir, ws_updated_at := clk 2\<rparr> else y)"
  have row: "ws_source x = WsConfigured \<longrightarrow> ws_status x = WsActive" "ws_status x = WsRevoked \<longleftrightarrow> ws_revoked_at x \<noteq> None"
    using assms(1,2) by (auto simp: workspaces_ok_def)
  have w': "ws_id w' = ws_id x" "ws_canonical_path w' = ws_canonical_path x" "ws_status w' = WsActive"
      "ws_revoked_at w' = None"
    using row by (auto simp: w'_def Let_def) (metis workspace_status.exhaust)+
  have get: "workspace_get (ws_id x) db = Some x"
    using assms(1,2) by (simp add: workspaces_ok_def workspace_get_def row_get_unique)
  have "w = w' \<and> (db_workspaces db' = db_workspaces (workspace_put w' db) \<or> db' = db)"
    using assms(3) unfolding register_existing_def w'_def
    by (auto simp: Let_def rbind_Inr_iff dest!: workspace_update_Inr split: if_splits)
  moreover have "workspaces_ok h (db_workspaces (workspace_put w' db))"
    by (rule registry_put [OF assms(1,2)]) (use w' in simp_all)
  moreover have "workspace_get (ws_id x) (workspace_put w' db) \<noteq> None"
    using get w'(1) workspaces.put_exists [of "ws_id x" w' db] by simp
  ultimately show ?thesis
    using w' assms(1) get by (auto simp: workspace_get_def)
qed

lemma registry_register:
  assumes "workspaces_ok h (db_workspaces db)" and "safe_directory h p"
    and "register_workspace clk p name source given db = Inr (w, db')"
  shows "workspaces_ok h (db_workspaces db') \<and> ws_canonical_path w = p \<and> ws_status w = WsActive \<and>
    workspace_get (ws_id w) db' \<noteq> None"
proof -
  let ?dir = "if or_text given \<noteq> [] then or_text given else p"
  let ?w = "\<lparr>ws_id = fresh db, ws_name = name, ws_root_path = ?dir, ws_canonical_path = p,
     ws_status = WsActive, ws_source = source, ws_created_at = clk 0, ws_updated_at = clk 0,
     ws_revoked_at = None, ws_metadata = []\<rparr>"
  obtain inserted d where i: "workspace_insert_if_absent ?w (bump db) = Inr (inserted, d)"
    and rest: "(if inserted then Inr (?w, audit_create (workspace_audit ?w ''workspace.registered'' (clk 1)) d)
        else case workspace_by_path p d of
             None \<Rightarrow> Inl (AppError ''WORKSPACE_REGISTRY_CONFLICT'' ''storage'' True)
           | Some existing \<Rightarrow> register_existing clk name source ?dir existing d) = Inr (w, db')"
    using assms(3) unfolding register_workspace_def Let_def wrap_errors_Inr
    by (auto simp: rbind_Inr_iff)
  show ?thesis
  proof (cases inserted)
    case True
    have new: "p \<notin> ws_canonical_path ` set (db_workspaces db)" "fresh db \<notin> ws_id ` set (db_workspaces db)"
        "db_workspaces d = db_workspaces db @ [?w]"
      using i True by (auto simp: workspace_insert_if_absent_def split: if_splits)
    have "w = ?w" "db_workspaces db' = db_workspaces db @ [?w]" using rest True new(3) by auto
    then show ?thesis
      using assms(1,2) new(1,2) by (auto simp: workspaces_ok_def workspace_get_def row_simps split: option.split)
  next
    case False
    have d: "d = bump db" using i False by (auto simp: workspace_insert_if_absent_def split: if_splits)
    obtain x where x: "workspace_by_path p d = Some x" "register_existing clk name source ?dir x d = Inr (w, db')"
      using rest False by (auto split: option.splits)
    have "x \<in> set (db_workspaces d)" "ws_canonical_path x = p"
      using x(1) by (auto simp: workspace_by_path_def dest: row_get_mem)
    then show ?thesis
      using register_existing_ok [of h d x clk name source ?dir w db'] assms(1) x(2) d by simp
  qed
qed

lemma workspace_step_ok:
  assumes "canonical_host h" and "workspace_step h db db'" and "workspaces_ok h (db_workspaces db)"
  shows "workspaces_ok h (db_workspaces db')"
  using assms(2)
proof cases
  case (configured clk raw found)
  then show ?thesis
    using assms(1,3) validated_path_safe [OF assms(1)] registry_register
    by (auto simp: register_configured_def rbind_Inr_iff split: sum.splits)
next
  case (picked clk picker found)
  then show ?thesis
    using assms(1,3) validated_path_safe [OF assms(1)] registry_register
    by (auto simp: pick_workspace_def rbind_Inr_iff split: option.splits if_splits)
next
  case (revoked clk wid w)
  then obtain x where x: "workspace_get wid db = Some x" "ws_source x \<noteq> WsConfigured"
    and db': "db' = db \<or> (\<exists>d. workspace_update (x\<lparr>ws_status := WsRevoked, ws_revoked_at := Some (clk 0), ws_updated_at := clk 1\<rparr>) db
        = Inr d \<and> db_workspaces db' = db_workspaces d)"
    unfolding revoke_workspace_def wrap_errors_Inr
    by (auto simp: rbind_Inr_iff Let_def split: option.splits if_splits)
  have "workspaces_ok h (db_workspaces (workspace_put
      (x\<lparr>ws_status := WsRevoked, ws_revoked_at := Some (clk 0), ws_updated_at := clk 1\<rparr>) db))"
    by (rule registry_put [OF assms(3), of x]) (use x workspace_get_mem [OF x(1)] in auto)
  then show ?thesis using db' assms(3) by (auto dest: workspace_update_Inr)
qed (use assms(3) in simp)

text \<open>
  C21. Over every sequence of registrations, choices and revocations, the registry holds each path and
  each identifier once and only safe directories, and no workspace that the configuration of the server
  manages is ever revoked.
\<close>

theorem registry_invariant:
  assumes "canonical_host h" and "(workspace_step h)\<^sup>*\<^sup>* db db'" and "db_workspaces db = []"
  shows "workspaces_ok h (db_workspaces db')"
  using assms(2)
proof induction
  case base
  show ?case using assms(3) by (simp add: workspaces_ok_def)
next
  case (step db db')
  then show ?case using workspace_step_ok [OF assms(1)] by blast
qed

text \<open>
  A task created for a workspace runs in a safe directory of an active, registered workspace.
\<close>

theorem task_workspace_safe:
  assumes "canonical_host h" and "validate_for_task_within_tx h wid db = Inr p"
  shows "\<exists>w \<in> set (db_workspaces db). ws_id w = wid \<and> ws_status w = WsActive \<and> safe_directory h p \<and>
    (py_strip (ws_canonical_path w) = ws_canonical_path w \<longrightarrow> p = ws_canonical_path w)"
proof -
  obtain w where w: "workspace_get wid db = Some w" "ws_status w \<noteq> WsRevoked"
      "verify_path_still_valid h (ws_canonical_path w) = Inr p"
    using assms(2) by (auto simp: validate_for_task_within_tx_def split: option.splits if_splits)
  then have "ws_status w = WsActive" by (cases "ws_status w") auto
  with workspace_get_mem [OF w(1)] verified_path_safe [OF assms(1) w(3)] show ?thesis by blast
qed

section \<open>Witnesses\<close>

text \<open>A file system without symbolic links, in which every path is a directory and the home
  directory is \<open>/Users/u\<close>.\<close>

definition plain_canonical :: "string \<Rightarrow> string" where
  "plain_canonical p =
     join_path True (filter proper_part (path_parts (if starts_with ''~'' p then ''/Users/u'' @ tl p else p)))"

definition plain_fs :: workspace_host where
  "plain_fs = \<lparr>wh_canonical = plain_canonical, wh_is_dir = (\<lambda>_. True)\<rparr>"

lemma plain_fs_canonical: "canonical_host plain_fs"
proof -
  have "canonical_path (join_path True (filter proper_part ps))" for ps
  proof -
    have "list_all proper_part (filter proper_part ps)" by (simp add: list_all_iff)
    then show ?thesis by (simp add: canonical_path_def path_parts_of_join)
  qed
  then show ?thesis by (simp add: canonical_host_def plain_fs_def plain_canonical_def)
qed

text \<open>\<open>~/Library\<close> is accepted although it contains the sensitive directory \<open>~/Library/Keychains\<close>.\<close>

lemma library_is_registrable:
  "validate_path_for_registration plain_fs ''~/Library'' = Inr ''/Users/u/Library'' \<and>
   covers ''/Users/u/Library'' (wh_canonical plain_fs ''~/Library/Keychains'')"
  by code_simp

lemma validated_path_safe_witness:
  "\<exists>p. validate_path_for_registration plain_fs ''/data/project'' = Inr p \<and> safe_directory plain_fs p"
proof -
  have v: "validate_path_for_registration plain_fs ''/data/project'' = Inr ''/data/project''" by code_simp
  from v iffD1 [OF validated_path_safe [OF plain_fs_canonical] v] show ?thesis by blast
qed

lemma policy_resolve_allowed_witness:
  "\<exists>r \<in> set (wp_allowed (policy_from_env plain_fs ''/data'' ''/opt/a:/opt/b'')). covers r ''/opt/b/x''"
proof -
  have "policy_resolve plain_fs (policy_from_env plain_fs ''/data'' ''/opt/a:/opt/b'') (Some ''/opt/b/x'')
      = Inr (Some ''/opt/b/x'')" by code_simp
  from policy_resolve_allowed [OF plain_fs_canonical this] show ?thesis by blast
qed

text \<open>A link that resolves to a directory whose name ends in a space: what a task is given is another
  directory than the registered one.\<close>

definition linked_fs :: workspace_host where
  "linked_fs = \<lparr>wh_canonical = (\<lambda>p. if p = ''/data/link'' then ''/data/dir '' else plain_canonical p),
     wh_is_dir = (\<lambda>_. True)\<rparr>"

lemma verified_path_differs:
  "validate_path_for_registration linked_fs ''/data/link'' = Inr ''/data/dir '' \<and>
   verify_path_still_valid linked_fs ''/data/dir '' = Inr ''/data/dir''"
  by code_simp

text \<open>A registry with a configured and a chosen workspace; the latter is then revoked.\<close>

definition registry_config :: "(workspace option \<times> db) res" where
  "registry_config = register_configured plain_fs int ''/data/project'' empty_db"

definition registry_pick :: "((workspace option \<times> bool) \<times> db) res" where
  "registry_pick = rbind registry_config (\<lambda>(_, db).
     pick_workspace plain_fs int (Some \<lparr>pk_selected_path = Some ''/data/other'', pk_cancelled = False,
       pk_error_code = None\<rparr>) db)"

lemma registry_samples: "is_ok registry_config" "is_ok registry_pick"
  by code_simp+

lemma registry_invariant_witness:
  "\<exists>db :: db. length (db_workspaces db) = 2 \<and> workspaces_ok plain_fs (db_workspaces db)"
proof -
  obtain found db1 where 1: "registry_config = Inr (found, db1)"
    using registry_samples(1) by (auto simp: is_ok_iff)
  obtain found2 db2 where 2: "registry_pick = Inr (found2, db2)"
    using registry_samples(2) by (auto simp: is_ok_iff)
  have s1: "workspace_step plain_fs empty_db db1"
    by (rule workspace_step.configured) (use 1 in \<open>simp add: registry_config_def\<close>)
  have "pick_workspace plain_fs int (Some \<lparr>pk_selected_path = Some ''/data/other'', pk_cancelled = False,
      pk_error_code = None\<rparr>) db1 = Inr (found2, db2)"
    using 2 unfolding registry_pick_def 1 rbind_simps prod.case .
  then have s2: "workspace_step plain_fs db1 db2" by (rule workspace_step.picked)
  have "(workspace_step plain_fs)\<^sup>*\<^sup>* empty_db db2" using s1 s2 by (meson rtranclp.simps)
  from registry_invariant [OF plain_fs_canonical this] have ok: "workspaces_ok plain_fs (db_workspaces db2)"
    by (simp add: empty_db_def)
  have "(case registry_pick of Inr (_, db) \<Rightarrow> length (db_workspaces db) = 2 | Inl _ \<Rightarrow> False)"
    by code_simp
  then have "length (db_workspaces db2) = 2" unfolding 2 sum.case prod.case .
  with ok show ?thesis by blast
qed

lemma task_workspace_safe_witness:
  "\<exists>db p w. validate_for_task_within_tx plain_fs (ws_id w) db = Inr p \<and> w \<in> set (db_workspaces db) \<and>
     ws_status w = WsActive \<and> safe_directory plain_fs p"
proof -
  obtain found db where db: "registry_config = Inr (found, db)"
    using registry_samples(1) by (auto simp: is_ok_iff)
  have "(case registry_config of Inr (_, db) \<Rightarrow>
      validate_for_task_within_tx plain_fs (Uuid4 0) db = Inr ''/data/project'' | Inl _ \<Rightarrow> False)"
    by code_simp
  then have v: "validate_for_task_within_tx plain_fs (Uuid4 0) db = Inr ''/data/project''"
    unfolding db sum.case prod.case .
  from task_workspace_safe [OF plain_fs_canonical v] obtain w where
    "w \<in> set (db_workspaces db)" "ws_id w = Uuid4 0" "ws_status w = WsActive"
    "safe_directory plain_fs ''/data/project''" by blast
  with v show ?thesis by (intro exI [of _ db] exI [of _ "''/data/project''"] exI [of _ w]) simp
qed

end
