(* ===== verification/TaskFacts.thy ===== *)
theory TaskFacts
  imports TaskService WorkspaceFacts
begin

text \<open>
  What a created task leaves in the store: its row with its run, queued by an outbox row whose job
  decodes, in a directory the rules for workspaces allow; every error leaves the store as it was.
\<close>

section \<open>Created tasks\<close>

lemma bump_schedule_tables [simp]:
  "db_executions (bump db) = db_executions db" "db_schedules (bump db) = db_schedules db"
  "db_conversations (bump db) = db_conversations db"
  by (simp_all add: bump_def)

text \<open>The tables of a schedule that a new task leaves alone, and the rows it adds.\<close>

lemma task_conversation_frame:
  "task_conversation t now c db = Inr (r, db') \<Longrightarrow>
     db_tasks db' = db_tasks db \<and> db_runs db' = db_runs db \<and> db_events db' = db_events db \<and>
     db_outbox db' = db_outbox db \<and> db_executions db' = db_executions db \<and> db_schedules db' = db_schedules db"
  by (auto simp: task_conversation_def rbind_Inr_iff Let_def conversation_create_def conversation_update_def
      bump_def split: option.splits if_splits)

lemma row_get_new: "key r \<notin> key ` set rows \<Longrightarrow> row_get key (key r) (rows @ [r]) = Some r"
  by (induction rows) auto

lemma advance_frame [simp]:
  "db_tasks (advance k db) = db_tasks db" "db_runs (advance k db) = db_runs db"
  "db_events (advance k db) = db_events db" "db_outbox (advance k db) = db_outbox db"
  "db_executions (advance k db) = db_executions db" "db_schedules (advance k db) = db_schedules db"
  by (simp_all add: advance_def)

lemma outbox_create_Inr:
  "outbox_create mk db = Inr db' \<longleftrightarrow>
     ob_event_id (mk (fresh db)) \<notin> ob_event_id ` set (db_outbox db) \<and>
     db' = (bump db)\<lparr>db_outbox := db_outbox db @ [mk (fresh db)]\<rparr>"
  by (auto simp: outbox_create_def Let_def)

lemma run_create_Inr:
  "run_create r db = Inr db' \<longleftrightarrow> ar_id r \<notin> ar_id ` set (db_runs db) \<and> db' = db\<lparr>db_runs := db_runs db @ [r]\<rparr>"
  by (auto simp: run_create_def)

lemma task_create_Inr:
  "task_create t db = Inr db' \<longleftrightarrow> tk_id t \<notin> tk_id ` set (db_tasks db) \<and>
     (tk_scheduled_execution_id t = None \<or>
      tk_scheduled_execution_id t \<notin> tk_scheduled_execution_id ` set (db_tasks db)) \<and>
     db' = db\<lparr>db_tasks := db_tasks db @ [t]\<rparr>"
  by (auto simp: task_create_def)

lemma events_append_one:
  "events_append [e] db = Inr db' \<Longrightarrow>
     db' = db \<or> db' = db\<lparr>db_events := db_events db @ [e]\<rparr>"
  by (auto simp: events_append.simps split: if_splits)

lemma get_next_sequence_cong: "db_events d = db_events d' \<Longrightarrow> get_next_sequence r d = get_next_sequence r d'"
  by (simp add: get_next_sequence_def)

lemma validate_for_task_cong:
  "db_workspaces d = db_workspaces d' \<Longrightarrow> validate_for_task_within_tx h w d = validate_for_task_within_tx h w d'"
  by (simp add: validate_for_task_within_tx_def workspace_get_def)

text \<open>What a successful creation leaves behind.\<close>

definition task_written ::
  "task_host \<Rightarrow> clock \<Rightarrow> create_task_input \<Rightarrow> string option \<Rightarrow> create_task_result \<Rightarrow> db \<Rightarrow> db \<Rightarrow> bool" where
  "task_written h clk input path r db db' \<longleftrightarrow>
     (let t = cr_task r; rid = ar_id (cr_run r) in
      t = new_task (tk_id t) rid (cv_id (cr_conversation r)) (task_title h input) input path (clk 0) \<and>
      cr_run r = new_agent_run rid (tk_id t) (clk 0) [] [(''trace_id'', JId (cr_trace_id r))] \<and>
      tk_id t \<notin> tk_id ` set (db_tasks db) \<and> rid \<notin> ar_id ` set (db_runs db) \<and>
      (ci_scheduled_execution_id input = None \<or>
       ci_scheduled_execution_id input \<notin> tk_scheduled_execution_id ` set (db_tasks db)) \<and>
      db_tasks db' = db_tasks db @ [t] \<and> db_runs db' = db_runs db @ [cr_run r] \<and>
      db_executions db' = db_executions db \<and> db_schedules db' = db_schedules db \<and>
      (\<exists>job pk. task_job h (cr_outbox_event_id r) (cr_trace_id r) (tk_id t) rid (cv_id (cr_conversation r)) input path (clk 0) = Inr job \<and>
         db_outbox db' = db_outbox db @ [new_outbox_event (cr_outbox_event_id r) rid ''task.created'' job
            (cr_trace_id r) None None (clk 0) (clk 1) pk]))"

lemma events_append_one_frame:
  "events_append [e] db = Inr db' \<Longrightarrow>
     db_executions db' = db_executions db \<and> db_schedules db' = db_schedules db \<and> db_tasks db' = db_tasks db \<and>
     db_runs db' = db_runs db \<and> db_outbox db' = db_outbox db"
  by (auto dest!: events_append_one)

lemma new_task_simps [simp]:
  "tk_id (new_task tid rid cid title input path now) = tid"
  "tk_scheduled_execution_id (new_task tid rid cid title input path now) = ci_scheduled_execution_id input"
  "tk_active_run_id (new_task tid rid cid title input path now) = Some rid"
  "tk_workspace_path (new_task tid rid cid title input path now) = path"
  "tk_status (new_task tid rid cid title input path now) = TaskRunning"
  by (simp_all add: new_task_def)

lemma new_agent_run_simps [simp]:
  "ar_id (new_agent_run rid tid now cp md) = rid" "ar_task_id (new_agent_run rid tid now cp md) = tid"
  "ar_status (new_agent_run rid tid now cp md) = Queued" "ar_version (new_agent_run rid tid now cp md) = 1"
  by (simp_all add: new_agent_run_def)

lemma write_task_written:
  assumes "write_task h clk input i path conversation db = Inr (r, db')"
  shows "task_written h clk input path r db db'"
proof -
  note tx = assms [unfolded write_task_def Let_def]
  from tx obtain d1 where 1: "task_create (new_task (ti_task i) (ti_run i) (cv_id conversation) (task_title h input) input path (clk 0)) db = Inr d1"
    by (rule rbind_InrE) (rule that)
  from tx [unfolded 1 rbind_simps] obtain d2 where 2: "run_create (new_agent_run (ti_run i) (ti_task i) (clk 0) [] [(''trace_id'', JId (ti_trace i))])
      (message_create \<lparr>mg_id = ti_message i, mg_conversation_id = cv_id conversation, mg_role = ''user'',
             mg_content = JStr (ci_user_goal input), mg_task_id = Some (ti_task i), mg_run_id = None,
             mg_created_at = clk 0\<rparr> d1) = Inr d2"
    by (rule rbind_InrE) (rule that)
  from tx [unfolded 1 2 rbind_simps] obtain e d3 job d4 where 3: "events_append [e] (bump d2) = Inr d3"
    and job: "task_job h (ti_outbox i) (ti_trace i) (ti_task i) (ti_run i) (cv_id conversation) input path (clk 0) = Inr job"
    and 4: "outbox_create (new_outbox_event (ti_outbox i) (ti_run i) ''task.created'' job (ti_trace i) None None (clk 0) (clk 1)) d3 = Inr d4"
    and r: "db' = d4" "cr_task r = new_task (ti_task i) (ti_run i) (cv_id conversation) (task_title h input) input path (clk 0)"
      "cr_run r = new_agent_run (ti_run i) (ti_task i) (clk 0) [] [(''trace_id'', JId (ti_trace i))]"
      "cr_conversation r = conversation" "cr_trace_id r = ti_trace i" "cr_outbox_event_id r = ti_outbox i"
    by (auto simp: rbind_Inr_iff)
  from events_append_one_frame [OF 3] 1 2 4 job r show ?thesis
    unfolding task_written_def Let_def task_create_Inr run_create_Inr outbox_create_Inr
    by (auto simp: message_create_def)
qed

lemma draw_ids_frame [simp]:
  "db_tasks (snd (draw_ids input db)) = db_tasks db" "db_runs (snd (draw_ids input db)) = db_runs db"
  "db_outbox (snd (draw_ids input db)) = db_outbox db" "db_workspaces (snd (draw_ids input db)) = db_workspaces db"
  "db_executions (snd (draw_ids input db)) = db_executions db" "db_schedules (snd (draw_ids input db)) = db_schedules db"
  by (simp_all add: draw_ids_def advance_def)

lemma task_written_cong:
  assumes "task_written h clk input path r d db'" and "db_tasks d = db_tasks db" "db_runs d = db_runs db"
    "db_executions d = db_executions db" "db_schedules d = db_schedules db" "db_outbox d = db_outbox db"
  shows "task_written h clk input path r db db'"
  using assms by (simp add: task_written_def Let_def)

text \<open>The directory a created task works in.\<close>

definition task_directory :: "task_host \<Rightarrow> create_task_input \<Rightarrow> string option \<Rightarrow> db \<Rightarrow> bool" where
  "task_directory h input path db \<longleftrightarrow>
     (case ci_workspace_id input of
        Some wid \<Rightarrow> \<exists>p. path = Some p \<and> validate_for_task_within_tx (th_fs h) wid db = Inr p
      | None \<Rightarrow> resolve_path h input = Inr path)"

lemma create_task_written:
  assumes "create_task h clk input db = Inr (r, db')"
  obtains path where "task_written h clk input path r db db'" "task_directory h input path db"
proof -
  obtain p0 where p0: "resolve_path h input = Inr p0" "create_task_tx h clk input p0 db = Inr (r, db')"
    using assms by (auto simp: create_task_def rbind_Inr_iff)
  obtain i d0 where draw: "draw_ids input db = (i, d0)" by (cases "draw_ids input db")
  note d0 = draw_ids_frame [of input db, unfolded draw snd_conv]
  obtain path conversation d1 where path: "(case ci_workspace_id input of
        Some wid \<Rightarrow> rbind (validate_for_task_within_tx (th_fs h) wid d0) (\<lambda>p. Inr (Some p))
      | None \<Rightarrow> Inr p0) = Inr path"
    and conv: "task_conversation (task_title h input) (clk 0) (ci_conversation_id input) d0 = Inr (conversation, d1)"
    and wt: "write_task h clk input i path conversation d1 = Inr (r, db')"
    using p0(2) unfolding create_task_tx_def draw Let_def prod.case
    by (auto simp: rbind_Inr_iff)
  have "task_written h clk input path r db db'"
    by (rule task_written_cong [OF write_task_written [OF wt]])
      (use task_conversation_frame [OF conv] d0 in simp_all)
  moreover have "task_directory h input path db"
    using path p0(1) validate_for_task_cong [OF d0(4)] unfolding task_directory_def
    by (auto simp: rbind_Inr_iff split: option.splits)
  ultimately show thesis by (rule that)
qed

section \<open>Properties\<close>

text \<open>Whatever goes wrong, the caller sees a structured error.\<close>

lemma wrap_errors_app: "wrap_errors (AppError c k b) m = Inl e \<Longrightarrow> \<exists>c k b. e = AppError c k b"
  by (cases "(AppError c k b, m)" rule: wrap_errors.cases) auto

lemma create_task_errors:
  assumes "create_task h clk input db = Inl e"
  shows "\<exists>code category recoverable. e = AppError code category recoverable"
proof -
  have policy: "policy_resolve f p q = Inl x \<Longrightarrow> \<exists>c k b. x = AppError c k b" for f p q x
    by (auto simp: policy_resolve_def Let_def split: if_splits)
  show ?thesis
  proof (cases "resolve_path h input")
    case (Inl x)
    then show ?thesis
      using assms policy by (auto simp: create_task_def resolve_path_def picker_unavailable_def split: option.splits if_splits)
  next
    case (Inr path)
    then show ?thesis
      using assms wrap_errors_app by (auto simp: create_task_def task_create_failed_def)
  qed
qed

lemma task_job_decodes:
  assumes "task_job h oid trace tid rid cid input path now = Inr d" and "ci_user_goal input \<noteq> []"
  shows "\<exists>job. run_job_from_dict d = Inr job \<and> rj_job_id job = JId oid \<and> rj_task_id job = JId tid \<and>
    rj_run_id job = JId rid \<and> rj_user_goal job = JStr (ci_user_goal input) \<and>
    rj_workspace_path job = JStr (or_text path) \<and>
    iterate (dget (case ci_metadata input of None \<Rightarrow> [] | Some m \<Rightarrow> m) ''authorized_tools'' (JList []))
      = Inr (items_of (dget d ''authorized_tools'' JNull)) \<and>
    rj_authorized_tools job = filter is_str (items_of (dget d ''authorized_tools'' JNull)) \<and>
    rj_source_policy job = entries_of (dget d ''source_policy'' JNull)"
  using assms
  by (auto simp: task_job_def Let_def rbind_Inr_iff run_job_from_dict_def run_job_required_def required_string_def)

text \<open>
  C19. A created task is queued: its run is queued at version 1 and is the task's active run, and the
  one outbox row that is added carries a job that decodes to exactly this task, run and goal.
\<close>

theorem created_task_queued:
  assumes "create_task h clk input db = Inr (r, db')" and "ci_user_goal input \<noteq> []"
  shows "task_get (tk_id (cr_task r)) db' = Some (cr_task r) \<and> tk_status (cr_task r) = TaskRunning \<and>
    tk_active_run_id (cr_task r) = Some (ar_id (cr_run r)) \<and>
    run_get (ar_id (cr_run r)) db' = Some (cr_run r) \<and> ar_status (cr_run r) = Queued \<and> ar_version (cr_run r) = 1 \<and>
    (\<exists>row job. db_outbox db' = db_outbox db @ [row] \<and> ob_status row = ObPending \<and>
       run_job_from_dict (ob_payload row) = Inr job \<and> rj_task_id job = JId (tk_id (cr_task r)) \<and>
       rj_run_id job = JId (ar_id (cr_run r)) \<and> rj_user_goal job = JStr (ci_user_goal input))"
proof -
  obtain path where w: "task_written h clk input path r db db'" by (rule create_task_written [OF assms(1)])
  note w = w [unfolded task_written_def Let_def]
  have rows: "task_get (tk_id (cr_task r)) db' = Some (cr_task r)" "run_get (ar_id (cr_run r)) db' = Some (cr_run r)"
    using w by (simp_all add: task_get_def run_get_def row_get_new)
  have "tk_status (cr_task r) = TaskRunning" "tk_active_run_id (cr_task r) = Some (ar_id (cr_run r))"
    using w by (metis new_task_simps)+
  moreover have "ar_status (cr_run r) = Queued" "ar_version (cr_run r) = 1" using w by (metis new_agent_run_simps)+
  moreover obtain d pk where d: "task_job h (cr_outbox_event_id r) (cr_trace_id r) (tk_id (cr_task r))
      (ar_id (cr_run r)) (cv_id (cr_conversation r)) input path (clk 0) = Inr d"
    "db_outbox db' = db_outbox db @ [new_outbox_event (cr_outbox_event_id r) (ar_id (cr_run r)) ''task.created'' d
            (cr_trace_id r) None None (clk 0) (clk 1) pk]" using w by blast
  moreover obtain job where "run_job_from_dict d = Inr job" "rj_task_id job = JId (tk_id (cr_task r))"
      "rj_run_id job = JId (ar_id (cr_run r))" "rj_user_goal job = JStr (ci_user_goal input)"
    using task_job_decodes [OF d(1) assms(2)] by blast
  ultimately show ?thesis using rows by (auto simp: new_outbox_event_def)
qed

section \<open>Witnesses\<close>

definition plain_tasks :: task_host where
  "plain_tasks = \<lparr>th_fs = plain_fs, th_policy = None, th_has_workspaces = True, th_redact = (\<lambda>s. s),
     th_repr = (\<lambda>_. [])\<rparr>"

definition sample_input :: create_task_input where
  "sample_input = \<lparr>ci_user_goal = ''goal'', ci_workspace_path = None, ci_workspace_id = None,
     ci_conversation_id = None, ci_title = None, ci_trace_id = None, ci_metadata = None,
     ci_scheduled_execution_id = Some (Uuid4 0)\<rparr>"

definition sample_creation :: "(create_task_result \<times> db) res" where
  "sample_creation = create_task plain_tasks int sample_input (empty_db\<lparr>db_next := 1\<rparr>)"

lemma sample_creation_ok: "is_ok sample_creation"
  by code_simp

lemma created_task_queued_witness:
  "\<exists>r db'. sample_creation = Inr (r, db') \<and> run_get (ar_id (cr_run r)) db' = Some (cr_run r) \<and>
     ar_status (cr_run r) = Queued"
proof -
  obtain r db' where r: "sample_creation = Inr (r, db')" using sample_creation_ok by (auto simp: is_ok_iff)
  have "ci_user_goal sample_input \<noteq> []" by (simp add: sample_input_def)
  from created_task_queued [OF r [unfolded sample_creation_def] this] r show ?thesis by blast
qed

end
