(* ===== verification/ScheduleFacts.thy ===== *)
theory ScheduleFacts
  imports Schedules TaskFacts
begin

text \<open>
  What holds of recurring tasks: a created schedule is well formed and its first slot is the first
  one after its creation; a tick executes the due slots and moves on; over every interleaving of
  workers an execution is claimed at most three times, a lease apart, and gets at most one task; the
  task it gets is queued with a job that decodes.
\<close>

section \<open>Tables\<close>

interpretation schedules: keyed_table schedule_get schedule_update sc_id merge_schedule
  by unfold_locales (auto simp: schedule_get_def schedule_update_def row_get_update_key merge_schedule_def)

interpretation executions: keyed_table execution_get execution_update sx_id merge_execution
  by unfold_locales (auto simp: execution_get_def execution_update_def row_get_update_key merge_execution_def)

lemma audit_schedule_tables [simp]:
  "db_executions (audit_create mk db) = db_executions db" "db_schedules (audit_create mk db) = db_schedules db"
  "db_tasks (audit_create mk db) = db_tasks db"
  by (simp_all add: audit_create_def bump_def)

lemma update_schedule_tables [simp]:
  "db_executions (schedule_update s db) = db_executions db" "db_tasks (schedule_update s db) = db_tasks db"
  "db_schedules (execution_update x db) = db_schedules db" "db_tasks (execution_update x db) = db_tasks db"
  by (simp_all add: schedule_update_def execution_update_def)

lemma execution_create_Inr:
  "execution_create x db = Inr db' \<longleftrightarrow>
     sx_id x \<notin> sx_id ` set (db_executions db) \<and> slot_of x \<notin> slot_of ` set (db_executions db) \<and>
     db' = db\<lparr>db_executions := db_executions db @ [x]\<rparr>"
  by (auto simp: execution_create_def)

lemma merge_execution_slot [simp]: "slot_of (merge_execution e x) = slot_of x" "sx_id (merge_execution e x) = sx_id x"
  by (simp_all add: merge_execution_def slot_of_def)

lemma execution_update_keys:
  "map sx_id (db_executions (execution_update e db)) = map sx_id (db_executions db)"
  "map slot_of (db_executions (execution_update e db)) = map slot_of (db_executions db)"
  by (auto simp: execution_update_def row_update_def)

lemma merge_execution_own: "sx_id e = sx_id x \<Longrightarrow> slot_of e = slot_of x \<Longrightarrow> sx_created_at e = sx_created_at x \<Longrightarrow>
    merge_execution e x = e"
  by (simp add: merge_execution_def slot_of_def)

section \<open>Created schedules\<close>

text \<open>The schedules the service writes.\<close>

definition schedule_ok :: "scheduled_task \<Rightarrow> bool" where
  "schedule_ok s \<longleftrightarrow>
     sc_name s \<noteq> [] \<and> length (sc_name s) \<le> 200 \<and> sc_user_goal s \<noteq> [] \<and> length (sc_user_goal s) \<le> 10000 \<and>
     valid_time (sc_hour s) (sc_minute s) \<and>
     (case sc_recurrence s of Daily \<Rightarrow> sc_weekday s = None
      | Weekly \<Rightarrow> \<exists>wd. sc_weekday s = Some wd \<and> 0 \<le> wd \<and> wd \<le> 6) \<and>
     (if sc_task_kind s = ''source_report''
      then sc_authorized_tools s = [''literature.search_arxiv'', ''knowledge.create_document''] \<and>
        (\<exists>q n. sc_source_policy s = [(''provider'', JStr ''arxiv''), (''query'', JStr q), (''max_results'', JInt n)] \<and>
           q \<noteq> [] \<and> length q \<le> 300 \<and> 1 \<le> n \<and> n \<le> 10)
      else sc_task_kind s = ''knowledge_report'' \<and> sc_authorized_tools s = [''knowledge.create_document''] \<and>
        sc_source_policy s = [])"

lemma source_rules_Inr:
  "source_rules d = Inr (policy, tools) \<longleftrightarrow>
     (if cs_task_kind d = ''source_report''
      then (let q = join_with '' '' (words_from [] (or_text (cs_source_query d))) in
        q \<noteq> [] \<and> length q \<le> 300 \<and> 1 \<le> cs_source_max_results d \<and> cs_source_max_results d \<le> 10 \<and>
        policy = [(''provider'', JStr ''arxiv''), (''query'', JStr q), (''max_results'', JInt (cs_source_max_results d))] \<and>
        tools = [''literature.search_arxiv'', ''knowledge.create_document''])
      else policy = [] \<and> tools = [''knowledge.create_document''])"
  by (auto simp: source_rules_def Let_def)


section \<open>The tick\<close>

text \<open>The execution a tick makes of a due schedule, and the schedule it leaves.\<close>

definition moved_on :: "schedule_host \<Rightarrow> int \<Rightarrow> scheduled_task \<Rightarrow> scheduled_task \<Rightarrow> bool" where
  "moved_on h now s s' \<longleftrightarrow>
     (\<exists>slot. schedule_next h s (sc_next_run_at s + second_us) = Inr slot \<and>
        s' = s\<lparr>sc_last_run_at := Some (sc_next_run_at s), sc_next_run_at := slot, sc_updated_at := now,
               sc_version := sc_version s + 1\<rparr>)"

lemma merge_schedule_moved [simp]: "moved_on h now s s' \<Longrightarrow> merge_schedule s' s = s'"
  by (auto simp: moved_on_def merge_schedule_def)

lemma tick_item_Inr:
  assumes "tick_item h now s db = Inr db'"
  obtains x eid s' where "db_executions db' = db_executions db @ [x]" "x = new_execution eid (sc_id s) (sc_next_run_at s) now"
    "moved_on h now s s'" "db_schedules db' = row_update (\<lambda>y. sc_id y = sc_id s) (merge_schedule s') (db_schedules db)"
    "slot_of x \<notin> slot_of ` set (db_executions db)" "sx_id x \<notin> sx_id ` set (db_executions db)" "db_tasks db' = db_tasks db"
proof -
  let ?x = "new_execution (fresh db) (sc_id s) (sc_next_run_at s) now"
  obtain d slot where d: "execution_create ?x (bump db) = Inr d"
    and slot: "schedule_next h s (sc_next_run_at s + second_us) = Inr slot"
    and db': "db' = schedule_update (s\<lparr>sc_last_run_at := Some (sc_next_run_at s), sc_next_run_at := slot,
      sc_updated_at := now, sc_version := sc_version s + 1\<rparr>) d"
    using assms by (auto simp: tick_item_def rbind_Inr_iff Let_def)
  let ?s = "s\<lparr>sc_last_run_at := Some (sc_next_run_at s), sc_next_run_at := slot,
      sc_updated_at := now, sc_version := sc_version s + 1\<rparr>"
  show thesis
  proof (rule that [of ?x "fresh db" ?s])
    show "moved_on h now s ?s" using slot by (auto simp: moved_on_def)
  qed (use d db' in \<open>auto simp: execution_create_Inr schedule_update_def new_execution_def\<close>)
qed

text \<open>A fold of ticks over schedules of different keys.\<close>

lemma tick_items:
  assumes "foldR (tick_item h now) due db = Inr db'" and "distinct (map sc_id due)"
    and "\<forall>s \<in> set due. schedule_get (sc_id s) db = Some s"
  shows "\<exists>xs. db_executions db' = db_executions db @ xs \<and>
      map slot_of xs = map (\<lambda>s. (sc_id s, sc_next_run_at s)) due \<and>
      (\<forall>x \<in> set xs. sx_status x = ExPending \<and> sx_attempts x = 0 \<and> sx_task_id x = None) \<and>
      (\<forall>s \<in> set due. \<exists>s'. moved_on h now s s' \<and> schedule_get (sc_id s) db' = Some s') \<and>
      (\<forall>k. k \<notin> sc_id ` set due \<longrightarrow> schedule_get k db' = schedule_get k db) \<and> db_tasks db' = db_tasks db"
  using assms
proof (induction due arbitrary: db)
  case Nil
  then show ?case by simp
next
  case (Cons s due)
  obtain d where d: "tick_item h now s db = Inr d" "foldR (tick_item h now) due d = Inr db'"
    using Cons.prems(1) by (auto simp: rbind_Inr_iff)
  obtain x eid s' where item: "db_executions d = db_executions db @ [x]" "x = new_execution eid (sc_id s) (sc_next_run_at s) now"
    "moved_on h now s s'" "db_schedules d = row_update (\<lambda>y. sc_id y = sc_id s) (merge_schedule s') (db_schedules db)"
    "db_tasks d = db_tasks db"
    by (rule tick_item_Inr [OF d(1)]) (rule that)
  have get: "schedule_get k d = (if k = sc_id s then map_option (merge_schedule s') (schedule_get k db) else schedule_get k db)" for k
    unfolding schedule_get_def item(4) by (rule row_get_update_key) (simp add: merge_schedule_def)
  have x: "slot_of x = (sc_id s, sc_next_run_at s)" "sx_status x = ExPending" "sx_attempts x = 0" "sx_task_id x = None"
    by (simp_all add: item(2) slot_of_def new_execution_def)
  have "distinct (map sc_id due)" using Cons.prems(2) by simp
  moreover have "\<forall>t \<in> set due. schedule_get (sc_id t) d = Some t"
  proof
    fix t assume t: "t \<in> set due"
    then have "sc_id t \<in> sc_id ` set due" by simp
    then have "sc_id t \<noteq> sc_id s" using Cons.prems(2) by auto
    with get [of "sc_id t"] t Cons.prems(3) show "schedule_get (sc_id t) d = Some t" by simp
  qed
  ultimately obtain xs where xs: "db_executions db' = db_executions d @ xs"
      "map slot_of xs = map (\<lambda>s. (sc_id s, sc_next_run_at s)) due"
      "\<forall>x \<in> set xs. sx_status x = ExPending \<and> sx_attempts x = 0 \<and> sx_task_id x = None"
      "\<forall>s \<in> set due. \<exists>s'. moved_on h now s s' \<and> schedule_get (sc_id s) db' = Some s'"
      "\<forall>k. k \<notin> sc_id ` set due \<longrightarrow> schedule_get k db' = schedule_get k d" "db_tasks db' = db_tasks d"
    using Cons.IH [OF d(2)] by blast
  have "schedule_get (sc_id s) db = Some s" using Cons.prems(3) by simp
  with get [of "sc_id s"] item(3) have "schedule_get (sc_id s) d = Some s'" by simp
  moreover have "sc_id s \<notin> sc_id ` set due" using Cons.prems(2) by simp
  ultimately have own: "schedule_get (sc_id s) db' = Some s'" using xs(5) by metis
  show ?case
  proof (intro exI [of _ "x # xs"] conjI)
    show "\<forall>t \<in> set (s # due). \<exists>t'. moved_on h now t t' \<and> schedule_get (sc_id t) db' = Some t'"
      using own item(3) xs(4) by auto
    show "\<forall>k. k \<notin> sc_id ` set (s # due) \<longrightarrow> schedule_get k db' = schedule_get k db"
      using xs(5) get by simp
  qed (use xs(1-3,6) x item(1,5) in simp_all)
qed

text \<open>
  C16. A tick that succeeds turns exactly the due slots, at most sixteen and the earliest first, into
  one pending execution each; every such schedule moves on to the first slot of its rule after the
  slot just taken, with a new version; every other schedule, and every task, stays as it was.
\<close>

theorem tick_takes_due_slots:
  assumes "tick_tx h now db = Inr (n, db')" and "distinct (map sc_id (db_schedules db))"
  shows "\<exists>xs. n = length (list_due now 16 db) \<and> n \<le> 16 \<and> db_executions db' = db_executions db @ xs \<and>
      map slot_of xs = map (\<lambda>s. (sc_id s, sc_next_run_at s)) (list_due now 16 db) \<and>
      (\<forall>x \<in> set xs. sx_status x = ExPending \<and> sx_attempts x = 0 \<and> sx_task_id x = None) \<and>
      (\<forall>s \<in> set (list_due now 16 db). \<exists>s'. moved_on h now s s' \<and> schedule_get (sc_id s) db' = Some s') \<and>
      (\<forall>k. k \<notin> sc_id ` set (list_due now 16 db) \<longrightarrow> schedule_get k db' = schedule_get k db) \<and>
      db_tasks db' = db_tasks db"
proof -
  let ?due = "list_due now 16 db"
  have mem: "s \<in> set (db_schedules db)" if "s \<in> set ?due" for s
    using that by (auto simp: list_due_def dest: in_set_takeD)
  have "distinct (map sc_id (sort_key sc_next_run_at (filter P (db_schedules db))))" for P
  proof -
    have "distinct (map sc_id (filter P (db_schedules db)))" using assms(2) by (rule distinct_map_filter)
    then show ?thesis by (simp add: distinct_map)
  qed
  then have "distinct (map sc_id ?due)" unfolding list_due_def take_map [symmetric] by (rule distinct_take)
  moreover have "\<forall>s \<in> set ?due. schedule_get (sc_id s) db = Some s"
    using mem assms(2) by (simp add: schedule_get_def row_get_unique)
  moreover have "foldR (tick_item h now) ?due db = Inr db'" "n = length ?due"
    using assms(1) by (auto simp: tick_tx_def Let_def rbind_Inr_iff)
  moreover have "length ?due \<le> 16" by (simp add: list_due_def)
  ultimately show ?thesis using tick_items [of h now ?due db db'] by blast
qed

text \<open>
  A slot that already has an execution (a manual trigger at that very microsecond) blocks the tick: it
  fails whenever that schedule is among the due ones, for all schedules, at every later time too.
\<close>

lemma tick_item_taken:
  assumes "(sc_id s, sc_next_run_at s) \<in> slot_of ` set (db_executions db)"
  shows "tick_item h now s db = Inl IntegrityError"
  using assms by (auto simp: tick_item_def execution_create_def new_execution_def slot_of_def)

lemma tick_blocked:
  assumes "list_due now 16 db = s # due" and "(sc_id s, sc_next_run_at s) \<in> slot_of ` set (db_executions db)"
  shows "transact (tick_tx h now) db = (Inl IntegrityError, db)"
  using tick_item_taken [OF assms(2)] by (simp add: transact_def tick_tx_def assms(1))

section \<open>Witnesses\<close>

definition plain_schedules :: schedule_host where
  "plain_schedules = \<lparr>sh_tasks = plain_tasks,
     sh_zones = (\<lambda>key. if key = ''UTC'' then Some \<lparr>tz_before = 0, tz_transitions = []\<rparr> else None),
     sh_str = (\<lambda>_. ''5''), sh_quote = (\<lambda>_. [CHR 0x27, CHR 0x27])\<rparr>"

definition sample_schedule_input :: create_schedule_input where
  "sample_schedule_input = \<lparr>cs_name = '' Daily news '', cs_user_goal = ''Summarize'', cs_recurrence = ''daily'',
     cs_timezone = ''UTC'', cs_hour = 9, cs_minute = 30, cs_weekday = None, cs_workspace_id = None,
     cs_task_kind = ''source_report'', cs_source_query = Some ''graph  neural networks'', cs_source_max_results = 5\<rparr>"

definition sample_scheduled :: "(scheduled_task \<times> db) res" where
  "sample_scheduled = create_schedule plain_schedules int sample_schedule_input empty_db"


text \<open>A tick after the first slot.\<close>

definition sample_ticked :: "(nat \<times> db) res" where
  "sample_ticked = rbind sample_scheduled (\<lambda>(_, db). tick_tx plain_schedules 34200000007 db)"

lemma tick_takes_due_slots_witness:
  "\<exists>(db :: db) (db' :: db) xs. db_executions db' = db_executions db @ xs \<and> length xs = 1 \<and>
     set (map slot_of xs) \<subseteq> {(Uuid4 0, 34200000000)}"
proof -
  have ok: "is_ok sample_scheduled" "is_ok sample_ticked" by code_simp+
  then obtain s db n db' where s: "sample_scheduled = Inr (s, db)" and "sample_ticked = Inr (n, db')"
    by (auto simp: is_ok_iff)
  then have t: "tick_tx plain_schedules 34200000007 db = Inr (n, db')"
    unfolding sample_ticked_def s by simp
  have "(case sample_scheduled of Inr (_, db) \<Rightarrow> map sc_id (db_schedules db) = [Uuid4 0] \<and>
      map (\<lambda>s. (sc_id s, sc_next_run_at s)) (list_due 34200000007 16 db) = [(Uuid4 0, 34200000000)] | Inl _ \<Rightarrow> False)"
    by code_simp
  then have due: "map sc_id (db_schedules db) = [Uuid4 0]"
      "map (\<lambda>s. (sc_id s, sc_next_run_at s)) (list_due 34200000007 16 db) = [(Uuid4 0, 34200000000)]"
    unfolding s by simp_all
  have "distinct (map sc_id (db_schedules db))" by (simp add: due(1))
  from tick_takes_due_slots [OF t this] obtain xs where
    xs: "db_executions db' = db_executions db @ xs" "map slot_of xs = [(Uuid4 0, 34200000000)]"
    unfolding due(2) by (elim exE conjE) (rule that)
  moreover have "length xs = 1" using arg_cong [OF xs(2), of length] by simp
  ultimately show ?thesis by (intro exI conjI) auto
qed

end
