(* ===== verification/DispatchFacts.thy ===== *)
theory DispatchFacts
  imports ScheduleFacts
begin

text \<open>
  The dispatch of executions over every interleaving: any number of workers tick and dispatch, the
  user creates, pauses and triggers, tasks are created, and the rest of the program works on tasks and
  runs.  A dispatch is three transactions, and other steps may come between them.
\<close>

section \<open>Steps\<close>

text \<open>The label of a step is the execution it claims and when, if it claims one.  The last
  transaction of a dispatch records a task that it found or created for the execution.\<close>

inductive schedule_step :: "schedule_host \<Rightarrow> db \<Rightarrow> (uuid \<times> int) option \<Rightarrow> db \<Rightarrow> bool" for h where
  created: "create_schedule h clk d db = Inr (s, db') \<Longrightarrow> schedule_step h db None db'"
| status_set: "set_schedule_status h clk sid status version db = Inr (s, db') \<Longrightarrow> schedule_step h db None db'"
| triggered: "trigger_tx clk sid db = Inr (x, db') \<Longrightarrow> schedule_step h db None db'"
| ticked: "tick_tx h now db = Inr (n, db') \<Longrightarrow> schedule_step h db None db'"
| claimed: "dispatch_claim eid now db = (Some x, db') \<Longrightarrow> schedule_step h db (Some (eid, now)) db'"
| not_claimed: "dispatch_claim eid now db = (None, db') \<Longrightarrow> schedule_step h db None db'"
| task_made: "create_task th clk input db = Inr (r, db') \<Longrightarrow> schedule_step h db None db'"
| finished: "t \<in> set (db_tasks db) \<Longrightarrow> tk_scheduled_execution_id t = Some eid \<Longrightarrow>
    dispatch_finish clk eid (tk_id t, run) db = Inr db' \<Longrightarrow> schedule_step h db None db'"
| elsewhere: "map (\<lambda>t. (tk_id t, tk_scheduled_execution_id t)) (db_tasks db') =
      map (\<lambda>t. (tk_id t, tk_scheduled_execution_id t)) (db_tasks db) \<Longrightarrow>
    db_executions db' = db_executions db \<Longrightarrow> schedule_step h db None db'"

inductive schedule_steps :: "schedule_host \<Rightarrow> db \<Rightarrow> (uuid \<times> int) list \<Rightarrow> db \<Rightarrow> bool" for h where
  none: "schedule_steps h db [] db"
| more: "schedule_steps h db claims db' \<Longrightarrow> schedule_step h db' label db'' \<Longrightarrow>
    schedule_steps h db (claims @ (case label of None \<Rightarrow> [] | Some c \<Rightarrow> [c])) db''"

section \<open>What a step does to the executions\<close>

text \<open>Every operation adds pending executions, or updates one execution, or leaves them alone.\<close>

definition fresh_executions :: "db \<Rightarrow> scheduled_execution list \<Rightarrow> bool" where
  "fresh_executions db xs \<longleftrightarrow>
     distinct (map sx_id xs) \<and> distinct (map slot_of xs) \<and>
     sx_id ` set xs \<inter> sx_id ` set (db_executions db) = {} \<and>
     slot_of ` set xs \<inter> slot_of ` set (db_executions db) = {} \<and>
     (\<forall>x \<in> set xs. sx_status x = ExPending \<and> sx_attempts x = 0)"

lemma fresh_executions_one:
  assumes "execution_create (new_execution eid sid slot now) db = Inr db'"
  shows "\<exists>xs. db_executions db' = db_executions db @ xs \<and> fresh_executions db xs \<and> db_tasks db' = db_tasks db"
  using assms by (auto simp: execution_create_Inr fresh_executions_def new_execution_def)

lemma fresh_executions_more:
  assumes "db_executions d = db_executions db @ xs" "fresh_executions db xs"
    and "db_executions db' = db_executions d @ ys" "fresh_executions d ys"
  shows "db_executions db' = db_executions db @ (xs @ ys) \<and> fresh_executions db (xs @ ys)"
  using assms
  by (simp add: fresh_executions_def image_Un ball_Un Int_Un_distrib Int_Un_distrib2) (simp add: Int_commute)

lemma tick_items_fresh:
  "foldR (tick_item h now) due db = Inr db' \<Longrightarrow>
     \<exists>xs. db_executions db' = db_executions db @ xs \<and> fresh_executions db xs \<and> db_tasks db' = db_tasks db"
proof (induction due arbitrary: db)
  case Nil
  then show ?case by (auto simp: fresh_executions_def)
next
  case (Cons s due)
  obtain d where d: "tick_item h now s db = Inr d" "foldR (tick_item h now) due d = Inr db'"
    using Cons.prems by (auto simp: rbind_Inr_iff)
  obtain x eid where x: "db_executions d = db_executions db @ [x]" "x = new_execution eid (sc_id s) (sc_next_run_at s) now"
      "slot_of x \<notin> slot_of ` set (db_executions db)" "sx_id x \<notin> sx_id ` set (db_executions db)" "db_tasks d = db_tasks db"
    by (rule tick_item_Inr [OF d(1)]) (rule that)
  then have "fresh_executions db [x]" by (simp add: fresh_executions_def new_execution_def)
  with Cons.IH [OF d(2)] x(1,5) fresh_executions_more show ?case by metis
qed

lemma create_schedule_frame:
  "create_schedule h clk d db = Inr (s, db') \<Longrightarrow> db_executions db' = db_executions db \<and> db_tasks db' = db_tasks db"
  by (auto simp: create_schedule_def Let_def rbind_Inr_iff schedule_create_def split: if_splits option.splits)

lemma set_schedule_status_frame:
  "set_schedule_status h clk sid status v db = Inr (s, db') \<Longrightarrow> db_executions db' = db_executions db \<and> db_tasks db' = db_tasks db"
  by (auto simp: set_schedule_status_def Let_def rbind_Inr_iff split: if_splits option.splits)

lemma trigger_fresh:
  "trigger_tx clk sid db = Inr (x, db') \<Longrightarrow>
     \<exists>xs. db_executions db' = db_executions db @ xs \<and> fresh_executions db xs \<and> db_tasks db' = db_tasks db"
  by (auto simp: trigger_tx_def Let_def rbind_Inr_iff execution_create_Inr fresh_executions_def new_execution_def
      split: option.splits)

text \<open>A claim that succeeds, and one that does not.\<close>

lemma dispatch_claim_Some:
  assumes "dispatch_claim eid now db = (Some x, db')"
  obtains old where "execution_get eid db = Some old" "sx_attempts old < 3"
    "sx_status old = ExPending \<or>
     sx_status old = ExDispatching \<and> (\<forall>t. sx_lease_until old = Some t \<longrightarrow> t \<le> now)"
    "x = old\<lparr>sx_status := ExDispatching, sx_attempts := sx_attempts old + 1,
       sx_lease_until := Some (now + lease_us), sx_updated_at := now\<rparr>"
    "db' = execution_update x db"
  using assms by (force simp: dispatch_claim_def Let_def split: option.splits if_splits)

lemma dispatch_claim_None:
  assumes "dispatch_claim eid now db = (None, db')"
  shows "db' = db \<or> (\<exists>old. execution_get eid db = Some old \<and> 3 \<le> sx_attempts old \<and>
    sx_status old \<in> {ExPending, ExDispatching} \<and>
    db' = execution_update (old\<lparr>sx_status := ExFailed,
      sx_error_code := Some ''SCHEDULE_DISPATCH_RETRY_EXHAUSTED'', sx_updated_at := now\<rparr>) db)"
  using assms by (auto simp: dispatch_claim_def Let_def split: option.splits if_splits)

lemma dispatch_finish_Inr:
  assumes "dispatch_finish clk eid target db = Inr db'"
  obtains old where "execution_get eid db = Some old"
    "db_executions db' = db_executions (execution_update (old\<lparr>sx_status := ExDispatched,
       sx_task_id := Some (fst target), sx_run_id := snd target, sx_lease_until := None, sx_error_code := None,
       sx_updated_at := clk 0\<rparr>) db)" "db_tasks db' = db_tasks db"
  using assms by (auto simp: dispatch_finish_def Let_def split: option.splits)

section \<open>The invariant\<close>

text \<open>At most one task for an execution, and what the state of an execution says.\<close>

definition execution_ok :: "db \<Rightarrow> scheduled_execution \<Rightarrow> bool" where
  "execution_ok db x \<longleftrightarrow>
     0 \<le> sx_attempts x \<and> sx_attempts x \<le> 3 \<and>
     (case sx_status x of
        ExPending \<Rightarrow> sx_attempts x = 0
      | ExDispatching \<Rightarrow> 1 \<le> sx_attempts x \<and> sx_lease_until x \<noteq> None
      | ExDispatched \<Rightarrow> \<exists>t \<in> set (db_tasks db). sx_task_id x = Some (tk_id t) \<and> tk_scheduled_execution_id t = Some (sx_id x)
      | ExFailed \<Rightarrow> sx_attempts x = 3 \<and> sx_error_code x = Some ''SCHEDULE_DISPATCH_RETRY_EXHAUSTED'')"

definition one_task_each :: "db \<Rightarrow> bool" where
  "one_task_each db \<longleftrightarrow>
     (\<forall>e. length (filter (\<lambda>t. tk_scheduled_execution_id t = Some e) (db_tasks db)) \<le> 1)"

definition executions_inv :: "db \<Rightarrow> bool" where
  "executions_inv db \<longleftrightarrow>
     distinct (map sx_id (db_executions db)) \<and> distinct (map slot_of (db_executions db)) \<and>
     one_task_each db \<and> (\<forall>x \<in> set (db_executions db). execution_ok db x)"

lemma execution_ok_tasks: "db_tasks db' = db_tasks db \<Longrightarrow> execution_ok db' x = execution_ok db x"
  by (cases "sx_status x") (simp_all add: execution_ok_def)

lemma one_task_each_tasks: "db_tasks db' = db_tasks db \<Longrightarrow> one_task_each db' = one_task_each db"
  by (simp add: one_task_each_def)

lemma execution_ok_pending: "sx_status x = ExPending \<Longrightarrow> sx_attempts x = 0 \<Longrightarrow> execution_ok db x"
  by (simp add: execution_ok_def)

text \<open>The three ways a step may change what the invariant speaks of.\<close>

lemma inv_fresh:
  assumes "executions_inv db" and "db_executions db' = db_executions db @ xs" "fresh_executions db xs"
    and "db_tasks db' = db_tasks db"
  shows "executions_inv db'"
proof -
  note ok = execution_ok_tasks [OF assms(4)] one_task_each_tasks [OF assms(4)]
  show ?thesis
    using assms(1-3) by (auto simp: executions_inv_def fresh_executions_def ok execution_ok_pending)
qed

lemma inv_update:
  assumes "executions_inv db" and "execution_get eid db = Some old"
    and "sx_id x = eid" "execution_ok db x"
    and "db_executions db' = db_executions (execution_update x db)" "db_tasks db' = db_tasks db"
  shows "executions_inv db'"
proof -
  have ok: "execution_ok db' (merge_execution x old)" if "sx_id old = sx_id x" for old
    unfolding execution_ok_tasks [OF assms(6)]
    using assms(4) that by (cases "sx_status x") (simp_all add: execution_ok_def merge_execution_def)
  have "execution_ok db' y" if "y \<in> set (db_executions db')" for y
  proof -
    obtain z where z: "z \<in> set (db_executions db)" "y = (if sx_id z = sx_id x then merge_execution x z else z)"
      using \<open>y \<in> _\<close> unfolding assms(5) by (auto simp: execution_update_def set_row_update)
    have "execution_ok db' z" using z(1) assms(1) by (simp add: execution_ok_tasks [OF assms(6)] executions_inv_def)
    with z(2) ok [of z] show ?thesis by simp
  qed
  then show ?thesis
    using assms(1) execution_update_keys [of x db] one_task_each_tasks [OF assms(6)]
    by (simp add: executions_inv_def assms(5))
qed

lemma execution_get_mem: "execution_get eid db = Some x \<Longrightarrow> x \<in> set (db_executions db) \<and> sx_id x = eid"
  by (auto simp: execution_get_def dest: row_get_mem)

lemma task_written_scheduled:
  assumes "task_written h clk input path r db db'"
  shows "tk_scheduled_execution_id (cr_task r) = ci_scheduled_execution_id input"
proof -
  have "cr_task r = new_task (tk_id (cr_task r)) (ar_id (cr_run r)) (cv_id (cr_conversation r))
      (task_title h input) input path (clk 0)"
    using assms by (simp add: task_written_def Let_def)
  from arg_cong [OF this, of tk_scheduled_execution_id] show ?thesis by simp
qed

lemma inv_task:
  assumes "executions_inv db" and "create_task th clk input db = Inr (r, db')"
  shows "executions_inv db'"
proof -
  obtain path where tw: "task_written th clk input path r db db'" by (rule create_task_written [OF assms(2)])
  then have w: "db_tasks db' = db_tasks db @ [cr_task r]" "db_executions db' = db_executions db"
      "tk_scheduled_execution_id (cr_task r) = None \<or>
       tk_scheduled_execution_id (cr_task r) \<notin> tk_scheduled_execution_id ` set (db_tasks db)"
    unfolding task_written_scheduled [OF tw] by (simp_all add: task_written_def Let_def)
  have "one_task_each db'"
    unfolding one_task_each_def
  proof
    fix e
    show "length (filter (\<lambda>t. tk_scheduled_execution_id t = Some e) (db_tasks db')) \<le> 1"
    proof (cases "tk_scheduled_execution_id (cr_task r) = Some e")
      case True
      then have "filter (\<lambda>t. tk_scheduled_execution_id t = Some e) (db_tasks db) = []"
        using w(3) by (auto simp: filter_empty_conv image_iff)
      then show ?thesis by (simp add: w(1))
    next
      case False
      then show ?thesis using assms(1) by (simp add: w(1) executions_inv_def one_task_each_def)
    qed
  qed
  moreover have "execution_ok db' x" if "execution_ok db x" for x
    using that by (cases "sx_status x") (auto simp: execution_ok_def w(1))
  ultimately show ?thesis using assms(1) w(2) by (simp add: executions_inv_def)
qed

lemma inv_elsewhere:
  assumes "executions_inv db"
    and "map (\<lambda>t. (tk_id t, tk_scheduled_execution_id t)) (db_tasks db') = map (\<lambda>t. (tk_id t, tk_scheduled_execution_id t)) (db_tasks db)"
    and "db_executions db' = db_executions db"
  shows "executions_inv db'"
proof -
  have filters: "length (filter (\<lambda>t. tk_scheduled_execution_id t = Some e) ts) =
      length (filter (\<lambda>p. snd p = Some e) (map (\<lambda>t. (tk_id t, tk_scheduled_execution_id t)) ts))" for e ts
    by (simp add: filter_map comp_def)
  have tasks: "(\<exists>t \<in> set ts. i = Some (tk_id t) \<and> tk_scheduled_execution_id t = j) \<longleftrightarrow>
      (\<exists>p \<in> set (map (\<lambda>t. (tk_id t, tk_scheduled_execution_id t)) ts). i = Some (fst p) \<and> snd p = j)" for i j ts
    by auto
  show ?thesis
    using assms(1) unfolding executions_inv_def one_task_each_def execution_ok_def filters tasks assms(2,3) .
qed

lemma schedule_step_inv:
  assumes "schedule_step h db label db'" and "executions_inv db"
  shows "executions_inv db'"
  using assms(1)
proof cases
  case (created clk d s)
  show ?thesis by (rule inv_elsewhere [OF assms(2)]) (use create_schedule_frame [OF created(2)] in simp_all)
next
  case (status_set clk sid status version s)
  show ?thesis by (rule inv_elsewhere [OF assms(2)]) (use set_schedule_status_frame [OF status_set(2)] in simp_all)
next
  case (triggered clk sid x)
  then show ?thesis using inv_fresh [OF assms(2)] trigger_fresh by metis
next
  case (ticked now n)
  then have "foldR (tick_item h now) (list_due now 16 db) db = Inr db'" by (auto simp: tick_tx_def Let_def rbind_Inr_iff)
  then show ?thesis using inv_fresh [OF assms(2)] tick_items_fresh by metis
next
  case (claimed eid now x)
  obtain old where old: "execution_get eid db = Some old" "sx_attempts old < 3"
    "x = old\<lparr>sx_status := ExDispatching, sx_attempts := sx_attempts old + 1,
       sx_lease_until := Some (now + lease_us), sx_updated_at := now\<rparr>" "db' = execution_update x db"
    by (rule dispatch_claim_Some [OF claimed(2)]) (rule that)
  have "execution_ok db old" using assms(2) execution_get_mem [OF old(1)] by (simp add: executions_inv_def)
  then have ok: "execution_ok db x" using old(2,3) by (cases "sx_status old") (simp_all add: execution_ok_def)
  show ?thesis
    by (rule inv_update [OF assms(2) old(1) _ ok]) (use old execution_get_mem [OF old(1)] in simp_all)
next
  case (not_claimed eid now)
  from dispatch_claim_None [OF not_claimed(2)] show ?thesis
  proof (elim disjE exE conjE)
    fix old
    assume old: "execution_get eid db = Some old" "3 \<le> sx_attempts old" and db': "db' = execution_update (old\<lparr>sx_status := ExFailed,
      sx_error_code := Some ''SCHEDULE_DISPATCH_RETRY_EXHAUSTED'', sx_updated_at := now\<rparr>) db"
    let ?x = "old\<lparr>sx_status := ExFailed, sx_error_code := Some ''SCHEDULE_DISPATCH_RETRY_EXHAUSTED'', sx_updated_at := now\<rparr>"
    have "execution_ok db old" using assms(2) execution_get_mem [OF old(1)] by (simp add: executions_inv_def)
    then have ok: "execution_ok db ?x" using old(2) by (simp add: execution_ok_def)
    show ?thesis
      by (rule inv_update [OF assms(2) old(1) _ ok]) (use db' execution_get_mem [OF old(1)] in simp_all)
  qed (use assms(2) in simp)
next
  case (task_made th clk input r)
  then show ?thesis using inv_task [OF assms(2)] by simp
next
  case (finished t eid clk run)
  obtain old where old: "execution_get eid db = Some old"
    "db_executions db' = db_executions (execution_update (old\<lparr>sx_status := ExDispatched,
       sx_task_id := Some (fst (tk_id t, run)), sx_run_id := snd (tk_id t, run), sx_lease_until := None, sx_error_code := None,
       sx_updated_at := clk 0\<rparr>) db)" "db_tasks db' = db_tasks db"
    by (rule dispatch_finish_Inr [OF finished(4)]) (rule that)
  have "execution_ok db old" using assms(2) execution_get_mem [OF old(1)] by (simp add: executions_inv_def)
  then have ok: "execution_ok db (old\<lparr>sx_status := ExDispatched, sx_task_id := Some (tk_id t), sx_run_id := run,
      sx_lease_until := None, sx_error_code := None, sx_updated_at := clk 0\<rparr>)"
    using finished(2,3) execution_get_mem [OF old(1)] by (auto simp: execution_ok_def)
  show ?thesis
    by (rule inv_update [OF assms(2) old(1) _ ok]) (use old execution_get_mem [OF old(1)] in simp_all)
next
  case elsewhere
  then show ?thesis using inv_elsewhere [OF assms(2)] by simp
qed


section \<open>Claims\<close>

text \<open>The claims of one execution made so far, against what its row says.\<close>

definition claim_times :: "uuid \<Rightarrow> (uuid \<times> int) list \<Rightarrow> int list" where
  "claim_times eid claims = map snd (filter (\<lambda>c. fst c = eid) claims)"

definition lease_apart :: "int list \<Rightarrow> bool" where
  "lease_apart ts \<longleftrightarrow> sorted_wrt (\<lambda>s t. s + lease_us \<le> t) ts"

definition claims_ok :: "int list \<Rightarrow> scheduled_execution option \<Rightarrow> bool" where
  "claims_ok ts row \<longleftrightarrow>
     (case row of
        None \<Rightarrow> ts = []
      | Some x \<Rightarrow> int (length ts) = sx_attempts x \<and> sx_attempts x \<le> 3 \<and> lease_apart ts \<and>
          (sx_status x = ExDispatching \<longrightarrow> ts \<noteq> [] \<and> sx_lease_until x = Some (last ts + lease_us)) \<and>
          (sx_status x = ExPending \<longrightarrow> ts = []))"

lemma lease_apart_snoc:
  assumes "lease_apart ts" and "ts = [] \<or> last ts + lease_us \<le> t"
  shows "lease_apart (ts @ [t])"
proof -
  have "s + lease_us \<le> t" if "s \<in> set ts" for s
  proof -
    have ne: "ts \<noteq> []" using that by auto
    have "s \<le> last ts"
    proof (cases "s = last ts")
      case False
      then have "s \<in> set (butlast ts)" using that ne by (metis append_butlast_last_id in_set_conv_decomp rotate1.simps(2) set_ConsD set_rotate1)
      moreover have "sorted_wrt (\<lambda>s t. s + lease_us \<le> t) (butlast ts @ [last ts])"
        using assms(1) ne by (simp add: lease_apart_def)
      ultimately have "s + lease_us \<le> last ts" by (simp add: sorted_wrt_append)
      then show ?thesis by (simp add: lease_us_def second_us_def)
    qed simp
    then show ?thesis using assms(2) ne by linarith
  qed
  then show ?thesis using assms(1) by (simp add: lease_apart_def sorted_wrt_append)
qed

lemma execution_get_fresh:
  assumes "db_executions db' = db_executions db @ xs" and "fresh_executions db xs"
  shows "execution_get eid db' = execution_get eid db \<or>
    execution_get eid db = None \<and> (\<exists>x. execution_get eid db' = Some x \<and> sx_status x = ExPending \<and> sx_attempts x = 0)"
proof (cases "row_get sx_id eid xs")
  case None
  then show ?thesis using assms(1) by (simp add: execution_get_def row_simps split: option.split)
next
  case (Some x)
  then have x: "x \<in> set xs" "sx_id x = eid" by (auto dest: row_get_mem)
  then have "execution_get eid db = None"
    using assms(2) by (auto simp: execution_get_def row_get_None_iff fresh_executions_def)
  then show ?thesis using assms Some x by (auto simp: execution_get_def row_simps fresh_executions_def)
qed

lemma claims_fresh:
  assumes "claims_ok ts (execution_get eid db)" and "db_executions db' = db_executions db @ xs" "fresh_executions db xs"
  shows "claims_ok ts (execution_get eid db')"
  using execution_get_fresh [OF assms(2,3), of eid] assms(1) by (auto simp: claims_ok_def lease_apart_def)

text \<open>Writing an execution back as seen through a lookup.\<close>

lemma execution_get_written:
  assumes "db_executions db' = db_executions (execution_update x db)" and "execution_get (sx_id x) db = Some old"
  shows "execution_get eid db' = (if eid = sx_id x then Some (merge_execution x old) else execution_get eid db)"
  using executions.get_put [of eid x db] assms by (simp add: execution_get_def)

lemma schedule_step_claims:
  assumes "schedule_step h db label db'" and "claims_ok (claim_times eid claims) (execution_get eid db)"
  shows "claims_ok (claim_times eid (claims @ (case label of None \<Rightarrow> [] | Some c \<Rightarrow> [c]))) (execution_get eid db')"
  using assms(1)
proof cases
  case (created clk d s)
  then show ?thesis using assms(2) create_schedule_frame [OF created(2)] by (simp add: execution_get_def)
next
  case (status_set clk sid status version s)
  then show ?thesis using assms(2) set_schedule_status_frame [OF status_set(2)] by (simp add: execution_get_def)
next
  case (triggered clk sid x)
  from trigger_fresh [OF triggered(2)] obtain xs where
    "db_executions db' = db_executions db @ xs" "fresh_executions db xs" by blast
  from claims_fresh [OF assms(2) this] show ?thesis using triggered(1) by simp
next
  case (ticked now n)
  then have "foldR (tick_item h now) (list_due now 16 db) db = Inr db'" by (auto simp: tick_tx_def Let_def rbind_Inr_iff)
  from tick_items_fresh [OF this] obtain xs where
    "db_executions db' = db_executions db @ xs" "fresh_executions db xs" by blast
  from claims_fresh [OF assms(2) this] show ?thesis using ticked(1) by simp
next
  case (claimed e now x)
  obtain old where old: "execution_get e db = Some old" "sx_attempts old < 3"
    "sx_status old = ExPending \<or>
     sx_status old = ExDispatching \<and> (\<forall>t. sx_lease_until old = Some t \<longrightarrow> t \<le> now)"
    "x = old\<lparr>sx_status := ExDispatching, sx_attempts := sx_attempts old + 1,
       sx_lease_until := Some (now + lease_us), sx_updated_at := now\<rparr>" "db' = execution_update x db"
    by (rule dispatch_claim_Some [OF claimed(2)]) (rule that)
  have e: "sx_id x = e" using old(4) execution_get_mem [OF old(1)] by simp
  have get: "execution_get eid db' = (if eid = e then Some (merge_execution x old) else execution_get eid db)"
    using execution_get_written [of db' x db old eid] old(1,5) e by simp
  show ?thesis
  proof (cases "eid = e")
    case True
    let ?ts = "claim_times eid claims"
    have ok: "int (length ?ts) = sx_attempts old" "lease_apart ?ts" "sx_status old = ExPending \<longrightarrow> ?ts = []"
      "sx_status old = ExDispatching \<longrightarrow> ?ts \<noteq> [] \<and> sx_lease_until old = Some (last ?ts + lease_us)"
      using assms(2) old(1) True by (auto simp: claims_ok_def)
    have "lease_apart (?ts @ [now])"
      by (rule lease_apart_snoc [OF ok(2)]) (use old(3) ok(3,4) in auto)
    moreover have "merge_execution x old = x" by (simp add: merge_execution_def old(4))
    moreover have "int (length (?ts @ [now])) = sx_attempts x" using ok(1) by (simp add: old(4))
    ultimately have "claims_ok (?ts @ [now]) (Some (merge_execution x old))"
      using old(2) by (simp add: claims_ok_def) (simp add: old(4))
    moreover have "claim_times eid (claims @ (case label of None \<Rightarrow> [] | Some c \<Rightarrow> [c])) = ?ts @ [now]"
      using claimed(1) True by (simp add: claim_times_def)
    ultimately show ?thesis using get True by simp
  next
    case False
    then show ?thesis using get assms(2) claimed(1) by (simp add: claim_times_def)
  qed
next
  case (not_claimed e now)
  from dispatch_claim_None [OF not_claimed(2)] show ?thesis
  proof (elim disjE exE conjE)
    fix old
    assume old: "execution_get e db = Some old" and db': "db' = execution_update (old\<lparr>sx_status := ExFailed,
      sx_error_code := Some ''SCHEDULE_DISPATCH_RETRY_EXHAUSTED'', sx_updated_at := now\<rparr>) db"
    let ?x = "old\<lparr>sx_status := ExFailed, sx_error_code := Some ''SCHEDULE_DISPATCH_RETRY_EXHAUSTED'', sx_updated_at := now\<rparr>"
    have "execution_get eid db' = (if eid = e then Some (merge_execution ?x old) else execution_get eid db)"
      using execution_get_written [of db' ?x db old eid] db' old execution_get_mem [OF old] by simp
    then show ?thesis
      using assms(2) old not_claimed(1) by (auto simp: claims_ok_def merge_execution_def)
  qed (use assms(2) not_claimed(1) in simp)
next
  case (task_made th clk input r)
  obtain path where "task_written th clk input path r db db'" by (rule create_task_written [OF task_made(2)])
  then show ?thesis using assms(2) task_made(1) by (simp add: task_written_def Let_def execution_get_def)
next
  case (finished t e clk run)
  obtain old where old: "execution_get e db = Some old"
    "db_executions db' = db_executions (execution_update (old\<lparr>sx_status := ExDispatched,
       sx_task_id := Some (fst (tk_id t, run)), sx_run_id := snd (tk_id t, run), sx_lease_until := None, sx_error_code := None,
       sx_updated_at := clk 0\<rparr>) db)"
    by (rule dispatch_finish_Inr [OF finished(4)]) (rule that)
  let ?x = "old\<lparr>sx_status := ExDispatched, sx_task_id := Some (tk_id t), sx_run_id := run,
      sx_lease_until := None, sx_error_code := None, sx_updated_at := clk 0\<rparr>"
  have "execution_get eid db' = (if eid = e then Some (merge_execution ?x old) else execution_get eid db)"
    using execution_get_written [of db' ?x db old eid] old execution_get_mem [OF old(1)] by simp
  then show ?thesis
    using assms(2) old(1) finished(1) by (auto simp: claims_ok_def merge_execution_def)
next
  case elsewhere
  then show ?thesis using assms(2) by (simp add: execution_get_def)
qed

text \<open>
  C15. Over every interleaving, an execution is claimed at most three times, and each claim comes at
  least the sixty seconds of the lease after the one before.
\<close>

theorem claims_bounded:
  assumes "schedule_steps h db claims db'" and "db_executions db = []"
  shows "length (claim_times eid claims) \<le> 3 \<and>
    sorted_wrt (\<lambda>s t. s + 60000000 \<le> t) (claim_times eid claims)"
proof -
  have "claims_ok (claim_times eid claims) (execution_get eid db')"
    using assms
  proof (induction rule: schedule_steps.induct)
    case (none db)
    then show ?case by (simp add: claims_ok_def execution_get_def claim_times_def)
  next
    case (more db claims db' label db'')
    then show ?case using schedule_step_claims by blast
  qed
  then show ?thesis
    by (auto simp: claims_ok_def lease_apart_def lease_us_def second_us_def split: option.splits)
qed

section \<open>Late and lost dispatches\<close>

text \<open>A dispatch that outlives its lease overrides the failure recorded meanwhile.\<close>

lemma late_dispatch_overrides_failure:
  assumes "execution_get eid db = Some x" and "sx_status x = ExFailed"
    and "schedule_get (sx_schedule_id x) db \<noteq> None"
  shows "\<exists>db' x'. dispatch_finish clk eid target db = Inr db' \<and> execution_get eid db' = Some x' \<and>
    sx_status x' = ExDispatched \<and> sx_error_code x' = None"
proof -
  have id: "sx_id x = eid" using execution_get_mem [OF assms(1)] by simp
  let ?x = "x\<lparr>sx_status := ExDispatched, sx_task_id := Some (fst target), sx_run_id := snd target,
      sx_lease_until := None, sx_error_code := None, sx_updated_at := clk 0\<rparr>"
  have "schedule_get sid (execution_update ?x db) = schedule_get sid db" for sid by (simp add: schedule_get_def)
  then obtain db' where db': "dispatch_finish clk eid target db = Inr db'"
      "db_executions db' = db_executions (execution_update ?x db)"
    using assms by (auto simp: dispatch_finish_def Let_def split: option.splits)
  then have "execution_get eid db' = Some (merge_execution ?x x)"
    using execution_get_written [of db' ?x db x eid] assms(1) id by simp
  with db' show ?thesis by (auto simp: merge_execution_def)
qed

text \<open>The attempts are counted before the task is looked for: an execution whose task exists, but
  whose third attempt could not record it, is given up as failed although its task runs.\<close>

lemma exhausted_execution_ignores_task:
  assumes "execution_get eid db = Some x" and "sx_status x = ExDispatching" "sx_lease_until x = Some t" "t \<le> clk 0"
    and "3 \<le> sx_attempts x"
  shows "\<exists>x'. execution_get eid (dispatch h clk eid db) = Some x' \<and> sx_status x' = ExFailed \<and>
    db_tasks (dispatch h clk eid db) = db_tasks db"
proof -
  have id: "sx_id x = eid" using execution_get_mem [OF assms(1)] by simp
  let ?x = "x\<lparr>sx_status := ExFailed, sx_error_code := Some ''SCHEDULE_DISPATCH_RETRY_EXHAUSTED'', sx_updated_at := clk 0\<rparr>"
  have d: "dispatch h clk eid db = execution_update ?x db"
    using assms by (simp add: dispatch_def dispatch_claim_def)
  have "execution_get eid (execution_update ?x db) = Some (merge_execution ?x x)"
    using executions.get_put [of eid ?x db] assms(1) id by simp
  then show ?thesis unfolding d by (simp add: merge_execution_def)
qed

section \<open>Witnesses\<close>

text \<open>The user triggers a schedule and a worker claims the execution.  Either it creates the task and
  records it, or it loses its lease and the execution is claimed again a minute later.\<close>

definition trace_created :: "(scheduled_task \<times> db) res" where
  "trace_created = create_schedule plain_schedules int sample_schedule_input empty_db"

definition trace_triggered :: "(scheduled_execution \<times> db) res" where
  "trace_triggered = rbind trace_created (\<lambda>(s, db). trigger_tx (\<lambda>i. 100) (sc_id s) db)"

definition trace_claimed :: "(scheduled_execution option \<times> db) res" where
  "trace_claimed = rbind trace_triggered (\<lambda>(_, db). Inr (dispatch_claim (Uuid4 2) 200 db))"

definition trace_reclaimed :: "(scheduled_execution option \<times> db) res" where
  "trace_reclaimed = rbind trace_claimed (\<lambda>(_, db). Inr (dispatch_claim (Uuid4 2) 60000200 db))"

definition trace_task :: "(create_task_result \<times> db) res" where
  "trace_task = rbind trace_claimed (\<lambda>(_, db).
     create_task plain_tasks int (sample_input\<lparr>ci_scheduled_execution_id := Some (Uuid4 2)\<rparr>) db)"

definition trace_finished :: "db res" where
  "trace_finished = rbind trace_task (\<lambda>(r, db).
     dispatch_finish int (Uuid4 2) (tk_id (cr_task r), Some (ar_id (cr_run r))) db)"

lemma trace_created_ok: "is_ok trace_created" by code_simp
lemma trace_triggered_ok: "is_ok trace_triggered" by code_simp
lemma trace_claimed_ok: "case trace_claimed of Inr (Some x, _) \<Rightarrow> True | _ \<Rightarrow> False" by code_simp
lemma trace_reclaimed_ok: "case trace_reclaimed of Inr (Some x, _) \<Rightarrow> True | _ \<Rightarrow> False" by code_simp
lemma trace_task_ok: "is_ok trace_task" by code_simp
lemma trace_finished_ok: "case trace_finished of Inr db \<Rightarrow> map sx_status (db_executions db) = [ExDispatched] | _ \<Rightarrow> False"
  by code_simp

lemma schedule_steps_quiet:
  "schedule_steps h db claims db' \<Longrightarrow> schedule_step h db' None db'' \<Longrightarrow> schedule_steps h db claims db''"
  using schedule_steps.more [of h db claims db' None db''] by simp

lemma schedule_steps_claim:
  "schedule_steps h db claims db' \<Longrightarrow> schedule_step h db' (Some c) db'' \<Longrightarrow> schedule_steps h db (claims @ [c]) db''"
  using schedule_steps.more [of h db claims db' "Some c" db''] by simp

lemma trace_claimed_steps:
  obtains x db where "trace_claimed = Inr (Some x, db)" "schedule_steps plain_schedules empty_db [(Uuid4 2, 200)] db"
proof -
  obtain s d1 where 1: "trace_created = Inr (s, d1)" using trace_created_ok by (auto simp: is_ok_iff)
  obtain y d2 where 2: "trace_triggered = Inr (y, d2)" using trace_triggered_ok by (auto simp: is_ok_iff)
  obtain x d3 where 3: "trace_claimed = Inr (Some x, d3)"
    using trace_claimed_ok by (auto split: sum.splits option.splits)
  have "schedule_step plain_schedules empty_db None d1"
    using 1 unfolding trace_created_def by (rule schedule_step.created)
  moreover have "schedule_step plain_schedules d1 None d2"
    using 2 unfolding trace_triggered_def 1 rbind_simps prod.case by (rule schedule_step.triggered)
  moreover have "schedule_step plain_schedules d2 (Some (Uuid4 2, 200)) d3"
    using 3 unfolding trace_claimed_def 2 rbind_simps prod.case sum.inject by (rule schedule_step.claimed)
  ultimately have "schedule_steps plain_schedules empty_db ([] @ [(Uuid4 2, 200)]) d3"
    using schedule_steps.none schedule_steps_quiet schedule_steps_claim by metis
  with 3 show thesis by (simp add: that)
qed

lemma claims_bounded_witness:
  "\<exists>db. schedule_steps plain_schedules empty_db [(Uuid4 2, 200), (Uuid4 2, 60000200)] db \<and>
     length (claim_times (Uuid4 2) [(Uuid4 2, 200), (Uuid4 2, 60000200)]) \<le> 3"
proof -
  obtain x db where 1: "trace_claimed = Inr (Some x, db)" "schedule_steps plain_schedules empty_db [(Uuid4 2, 200)] db"
    by (rule trace_claimed_steps)
  obtain y d where 2: "trace_reclaimed = Inr (Some y, d)"
    using trace_reclaimed_ok by (auto split: sum.splits option.splits)
  have "schedule_step plain_schedules db (Some (Uuid4 2, 60000200)) d"
    using 2 unfolding trace_reclaimed_def 1 rbind_simps prod.case sum.inject by (rule schedule_step.claimed)
  from schedule_steps_claim [OF 1(2) this]
  have s: "schedule_steps plain_schedules empty_db [(Uuid4 2, 200), (Uuid4 2, 60000200)] d" by simp
  have "db_executions empty_db = []" by (simp add: empty_db_def)
  from claims_bounded [OF s this, of "Uuid4 2"] s show ?thesis by blast
qed


end
