(* ===== verification/Spec2Isabelle.thy ===== *)
theory Spec2Isabelle
  imports RunRecovery RunRetry PermissionFacts OutboxFacts Reconciliation EventFacts Intents Harness ToolGateway
    ChunkingFacts FusionFacts ContextFacts LoopHistory DispatchFacts
begin

text \<open>
  A model of the durable run core of the agent worker (\<open>src/apps/agent-worker/src/jarvis_worker\<close>) and
  what makes it correct.

  The program.  A user task is executed by runs.  The control plane writes tasks, runs and commands
  to PostgreSQL; rows of the outbox table are published to Redis streams; worker processes claim a run,
  let the agent work on it (model calls, tool calls behind a permission policy) and send back runtime
  events, which are recorded together with their projection on the domain tables.  A reconciliation
  job repairs what crashed processes leave behind.  PostgreSQL is the only source of truth: every
  operation is one transaction, guarded by an optimistic version on the run and by an inbox table
  against repeated messages.

  The theories, bottom up, and what they model:
    \<^item> \<open>Prelude\<close>: results with errors, Python strings, lists and paths, tables with a primary key;
    \<open>PyJson\<close>: dynamically typed values, dictionaries as association lists.
    \<^item> \<open>Domain\<close>: the enumerations, dataclasses and errors of \<open>shared/domain/models.py\<close> and
    \<open>shared/errors/application.py\<close>.
    \<^item> \<open>Store\<close>: the tables with the queries and updates of the repositories (\<open>runtime/*/postgres_repository.py\<close>,
    \<open>runtime/event_repository.py\<close>, \<open>database/outbox/*\<close>, \<open>database/unit_of_work.py\<close>); the locales
    \<open>keyed_table\<close>, \<open>versioned_store\<close> and \<open>once_store\<close> state the laws the services rely on and are
    interpreted on these tables.
    \<^item> \<open>Messages\<close> (\<open>runtime_bus/messages.py\<close>, \<open>runtime/events.py\<close>), \<open>Policy\<close> (\<open>runtime/permissions/policy.py\<close>),
    \<open>Checkpoint\<close> (\<open>agent/core/checkpoint.py\<close>), \<open>Intents\<close> (\<open>agent/intents/contracts.py\<close>), \<open>LoopContracts\<close>
    (\<open>agent/loop/contracts.py\<close>), \<open>Sanitize\<close> (\<open>agent/core/evidence_navigation.py\<close>, \<open>agent/core/final_answer.py\<close>):
    the data that crosses a boundary, with its validation and its round trips.
    \<^item> \<open>Harness\<close> (\<open>agent/harness/run_supervisor.py\<close>) and \<open>ToolGateway\<close> (\<open>agent/tool_gateway\<close>,
    \<open>agent/permissions/manager.py\<close>): budgets, cancellation, and the guarded execution of tools.
    \<^item> \<open>RunService\<close> (\<open>runtime/runs/service.py\<close>): claims, leases, user control, queue failures, both
    reconciliations, both confirmed maintenance flows and the retry of a failed step.
    \<open>Children\<close>, \<open>RunLifecycle\<close>, \<open>RunRecovery\<close> and \<open>RunRetry\<close> hold its lemmas and properties.
    \<^item> \<open>PermissionService\<close> (\<open>runtime/permissions/service.py\<close>) with \<open>PermissionFacts\<close>.
    \<^item> \<open>Projection\<close> and \<open>Recording\<close> (\<open>runtime/service.py\<close>): the projection of an event on the tables, and
    \<open>record_envelope\<close> around it; \<open>ProjectionFacts\<close>, \<open>RecordingFacts\<close> and \<open>EventFacts\<close> hold what follows.
    \<^item> \<open>Outbox\<close> (\<open>database/outbox/publisher.py\<close>, \<open>database/outbox/repository.py\<close>) with \<open>OutboxFacts\<close>, and
    \<open>Reconciliation\<close> (\<open>database/outbox/reconciliation.py\<close>).
    \<^item> Retrieval (\<open>agent/rag\<close>).  \<open>UText\<close>: texts as lists of code points, the token estimate, bisection.
    \<open>Chunking\<close> (\<open>chunking/deterministic.py\<close>) with \<open>ChunkingFacts\<close>.  \<open>Ranking\<close> (\<open>retrieval/keyword.py\<close>,
    \<open>coverage.py\<close>, \<open>fusion.py\<close>, the retrievers of \<open>pipeline.py\<close>) and \<open>Stages\<close> (\<open>reranking/*.py\<close>) with
    \<open>RankingFacts\<close>, \<open>DiversityFacts\<close>, \<open>RetrievalFacts\<close> and \<open>FusionFacts\<close>: the locale \<open>ranking_stage\<close> is the
    contract of a stage (it picks among its input and reports it), \<open>covering_stage\<close> adds that documents
    the user selected survive; each of the five stages is an interpretation.  \<open>ContextAssembly\<close>
    (\<open>retrieval/stages.py\<close>) with \<open>ContextFacts\<close>.
    \<^item> The agent loop.  \<open>EffectGuard\<close> (\<open>agent/core/effect_guard.py\<close>): the tools, targets and evidence a goal
    and an intent require.  \<open>LoopControl\<close> (\<open>agent/loop/controller.py\<close> over the loop part of \<open>AgentState\<close>):
    the completion contract, progress, finishing and the judgement of proposed actions.  \<open>EffectFacts\<close>,
    \<open>LoopFacts\<close> and \<open>LoopHistory\<close> hold what follows.
    \<^item> \<open>Calendar\<close> (\<open>_next_run\<close> of \<open>runtime/schedules/service.py\<close>, with time zones as \<open>ZoneInfo\<close> reads them),
    \<open>Workspaces\<close> (\<open>runtime/workspaces/*\<close>) with \<open>WorkspaceFacts\<close>, \<open>TaskService\<close> (\<open>create_task\<close> of
    \<open>runtime/tasks/service.py\<close>) with \<open>TaskFacts\<close>, \<open>Schedules\<close> (\<open>runtime/schedules/*\<close>) with \<open>ScheduleFacts\<close>
    and \<open>DispatchFacts\<close>: recurring tasks, from the rule of a schedule to the queued run.

  What the groups of lemmas show:
    \<^item> Interleavings.  \<open>RunLifecycle\<close> defines a step relation whose steps are the transactions of the run
    service, the permission service and the runtime service, each acting on a run it may have read
    long before.  Over all its histories a run keeps to the table of transitions, its version grows,
    terminal runs are frozen, an accepted cancellation is final, a run is executed by one worker at a
    time, and no held run escapes reconciliation.  Events that end a run take part when they are in
    order (\<open>event_in_order\<close>), because the code does not check them (\<open>late_completion_overwrites\<close>).
    \<^item> Deliveries.  \<open>RecordingFacts\<close> ranges over all sequences of deliveries of envelopes: an envelope takes
    effect once, event and step numbers stay gap-free, every event has its outbox row.
    \<^item> Publication.  \<open>OutboxFacts\<close> ranges over the interleavings of publishers: an event is added to a
    stream at most once a day, a delivered row was added, and a cycle delivers what it can; the script in
    Redis refines a channel that takes every event once.
    \<^item> Retrieval.  Chunks partition the document and keep to the token limit; the ranking stages satisfy
    the contracts checked around them and keep the selected documents; the context for the model stays
    within its token budget.  The two bisections end and agree with a plain search; the one for the
    context window is a \<open>while_option\<close> that is shown to return, the others are total functions.
    \<^item> The loop.  Over every history the contract of a run is frozen, it finishes only on the evidence the
    contract asks for, a change confined to one item happens once, the stored state stays readable, and
    insisting on a rejected proposal fails the run; alternating rejected proposals can go on for ever.
    \<^item> Recurring tasks.  The next slot is the first firing time of the rule, later than the given instant
    outside repeated hours; \<open>DispatchFacts\<close> ranges over the interleavings of ticks, dispatches, user actions
    and everything else: one execution for a slot, one task for an execution, three claims a lease apart.
    \<open>tick_blocked\<close>, \<open>weekly_slot_in_the_past\<close>, \<open>late_dispatch_overrides_failure\<close> and
    \<open>exhausted_execution_ignores_task\<close> show where the code falls short.
    \<^item> Workspaces.  The path rules accept exactly the directories called safe, a policy keeps a task inside
    its roots, and the registry holds each path once over every sequence of its operations;
    \<open>library_is_registrable\<close> and \<open>verified_path_differs\<close> show two gaps of the rules.
    \<^item> Outcomes.  What each operation leaves behind, on success and on every error path: closed children,
    settled runs, decodable commands, exact permission checkpoints, repeatable maintenance flows.

  Choices of the model:
    \<^item> A transaction is a function on the store; a failure leaves the store as it was.  Row locks make
    transactions serial; foreign keys are not checked.  SQL ties are broken by insertion order.
    \<^item> \<open>clk i\<close> is the i-th reading of the clock an operation takes; the iterations of one batch share
    their readings.  An instant is its number of microseconds; elapsed milliseconds are exact.
    \<^item> \<open>uuid4\<close> identifiers are drawn from a counter of the store; \<open>uuid5\<close> identifiers are the parts
    they are made from, so that they collide only when those agree.  Only canonical texts of UUIDs and
    ISO timestamps are represented, as values of their own (\<open>JId\<close>, \<open>JTime\<close>).
    \<^item> Strings are Latin-1; the Chinese texts of messages and summaries are English glosses or left out,
    error codes are kept.  \<open>str()\<close> of numbers and containers is a parameter.  In retrieval, where the
    script of a text matters, a text is the list of its code points, UUIDs are numbers in the order of
    their texts, floats are rational numbers, and NFKC, \<open>casefold\<close> and the scoring provider are parameters.
    \<^item> Redis is a parameter with the laws \<open>redis_laws\<close>; executors, the effect boundary, the file store,
    the URL parser, the file system, the directory picker, the credential filter, the tz database and the
    queue probe are parameters of the operations that call them.
    \<^item> The regular expressions that read a goal are parameters, one predicate for each (\<open>goal_rules\<close>), and so
    is the digest of fingerprints; names of tools are texts.
    \<^item> A time zone is its list of transitions; the rule that continues it is the transitions it generates.
    \<^item> Loops are recursions on the rows, files or rounds they go over, so that every definition is total
    and no fuel is needed; what a wait loop reads from outside is a list of readings.

  Not modelled: the HTTP API (routing and serialisation), the process loops of worker, publisher and
  reconciliation (asyncio), the agent phases and prompts, the query planner, embeddings and SQL searches
  of retrieval, document ingestion, memory, model
  providers (third-party services), schema migrations, listings for the user interface.  Trimming of
  streams, eviction in Redis and failures of the clock are outside the parameters' laws.
\<close>

end
